(* ===== verification/Prelude.thy ===== *)
theory Prelude
  imports Complex_Main "HOL-Library.AList"
begin

text \<open>
  Shared ground of the development: the error values of the NestJS handlers, the
  state-and-error computations the handlers are written in, the JavaScript string
  and array operations the sources call, and the generic lemmas the component
  proofs rest on.

  \<^item> A JavaScript string is a \<open>string\<close> (its UTF-8 bytes); a timestamp is a \<open>nat\<close>
    (milliseconds; the ISO strings of the source compare exactly like these numbers).
  \<^item> A handler that awaits other handlers and may throw has type \<open>('s, 'a) sm\<close>: it maps a
    state to a thrown error or a value, together with the state it leaves behind. An
    exception does not roll the state back, as in the source.
  \<^item> A file kind of the store, or a JavaScript \<open>Map\<close>, is an association list in insertion
    order, updated by \<open>AList.update\<close> (which keeps the position of an existing key).
\<close>

named_theorems sm_simps "unfolding of the state-and-error computations"
named_theorems store_simps "reading a file kind back after a write"
named_theorems frame_simps "fields an operation leaves alone"

subsection \<open>Errors and stateful computations\<close>

datatype js_error =
    BadRequest string
  | NotFound string
  | Conflict string
  | PlainError string

type_synonym timestamp = nat
type_synonym ('s, 'a) sm = "'s \<Rightarrow> (js_error + 'a) \<times> 's"

definition sret :: "'a \<Rightarrow> ('s, 'a) sm" where
  "sret x = (\<lambda>s. (Inr x, s))"

definition sthrow :: "js_error \<Rightarrow> ('s, 'a) sm" where
  "sthrow e = (\<lambda>s. (Inl e, s))"

definition sbind :: "('s, 'a) sm \<Rightarrow> ('a \<Rightarrow> ('s, 'b) sm) \<Rightarrow> ('s, 'b) sm" where
  "sbind m f = (\<lambda>s. case m s of (Inl e, t) \<Rightarrow> (Inl e, t) | (Inr x, t) \<Rightarrow> f x t)"

definition sthen :: "('s, 'a) sm \<Rightarrow> ('s, 'b) sm \<Rightarrow> ('s, 'b) sm" where
  "sthen m k = sbind m (\<lambda>_. k)"

definition sget :: "('s, 's) sm" where
  "sget = (\<lambda>s. (Inr s, s))"

definition smod :: "('s \<Rightarrow> 's) \<Rightarrow> ('s, unit) sm" where
  "smod f = (\<lambda>s. (Inr (), f s))"

definition sguard :: "bool \<Rightarrow> js_error \<Rightarrow> ('s, unit) sm" where
  "sguard b e = (if b then sret () else sthrow e)"

text \<open>The awaited writes of a handler that cannot fail, one after the other.\<close>

fun in_order :: "('s \<Rightarrow> 's) list \<Rightarrow> 's \<Rightarrow> 's" where
  "in_order [] s = s"
| "in_order (f # fs) s = in_order fs (f s)"

lemma sret_app [simp]: "sret x s = (Inr x, s)"
  by (simp add: sret_def)

lemma sthrow_app [simp]: "sthrow e s = (Inl e, s)"
  by (simp add: sthrow_def)

lemma sget_app [simp]: "sget s = (Inr s, s)"
  by (simp add: sget_def)

lemma smod_app [simp]: "smod f s = (Inr (), f s)"
  by (simp add: smod_def)

lemma sguard_app [simp]: "sguard b e s = (if b then Inr () else Inl e, s)"
  by (simp add: sguard_def)

lemma sbind_app [sm_simps]:
  "sbind m f s = (case m s of (Inl e, t) \<Rightarrow> (Inl e, t) | (Inr x, t) \<Rightarrow> f x t)"
  by (simp add: sbind_def)

lemma sthen_app [sm_simps]:
  "sthen m k s = (case m s of (Inl e, t) \<Rightarrow> (Inl e, t) | (Inr _, t) \<Rightarrow> k t)"
  by (simp add: sthen_def sbind_def)

lemma sbind_Inr_iff:
  "sbind m f s = (Inr y, t) \<longleftrightarrow> (\<exists>x u. m s = (Inr x, u) \<and> f x u = (Inr y, t))"
  by (auto simp: sbind_def split: prod.splits sum.splits)

text \<open>An invariant of the state that every outcome of a computation keeps.\<close>

definition preserves :: "('s \<Rightarrow> bool) \<Rightarrow> ('s, 'a) sm \<Rightarrow> bool" where
  "preserves P m \<longleftrightarrow> (\<forall>s. P s \<longrightarrow> P (snd (m s)))"

lemma preservesD: "preserves P m \<Longrightarrow> P s \<Longrightarrow> P (snd (m s))"
  by (simp add: preserves_def)

lemma preservesI: "(\<And>s. P s \<Longrightarrow> P (snd (m s))) \<Longrightarrow> preserves P m"
  by (simp add: preserves_def)

lemma preserves_sret [intro, simp]: "preserves P (sret x)"
  by (simp add: preserves_def)

lemma preserves_sthrow [intro, simp]: "preserves P (sthrow e)"
  by (simp add: preserves_def)

lemma preserves_sget [intro, simp]: "preserves P sget"
  by (simp add: preserves_def)

lemma preserves_sguard [intro, simp]: "preserves P (sguard b e)"
  by (simp add: preserves_def)

lemma preserves_sbind [intro]:
  assumes "preserves P m" and "\<And>x. preserves P (f x)"
  shows "preserves P (sbind m f)"
proof (rule preservesI)
  fix s assume "P s"
  with assms(1) have "P (snd (m s))" by (rule preservesD)
  then show "P (snd (sbind m f s))"
    using assms(2) by (auto simp: sbind_def preserves_def split: prod.splits sum.splits)
qed

lemma preserves_sthen [intro]:
  "preserves P m \<Longrightarrow> preserves P k \<Longrightarrow> preserves P (sthen m k)"
  unfolding sthen_def by (rule preserves_sbind)

subsection \<open>Decimal numerals\<close>

definition digit_char :: "nat \<Rightarrow> char" where
  "digit_char n = char_of (48 + n)"

definition is_digit :: "char \<Rightarrow> bool" where
  "is_digit c \<longleftrightarrow> 48 \<le> (of_char c :: nat) \<and> (of_char c :: nat) \<le> 57"

definition digit_val :: "char \<Rightarrow> nat" where
  "digit_val c = of_char c - 48"

text \<open>The template \<open>${n}\<close> of a non-negative integer \<open>n\<close>.\<close>

fun nat_str :: "nat \<Rightarrow> string" where
  "nat_str n = (if n < 10 then [digit_char n] else nat_str (n div 10) @ [digit_char (n mod 10)])"

declare nat_str.simps [simp del]

definition digits_val :: "string \<Rightarrow> nat" where
  "digits_val = foldl (\<lambda>a c. 10 * a + digit_val c) 0"

lemma is_digit_digit_char [simp]: "n < 10 \<Longrightarrow> is_digit (digit_char n)"
  by (simp add: is_digit_def digit_char_def)

lemma digit_val_digit_char [simp]: "n < 10 \<Longrightarrow> digit_val (digit_char n) = n"
  by (simp add: digit_val_def digit_char_def)

lemma nat_str_nonempty [simp]: "nat_str n \<noteq> []"
  by (subst nat_str.simps) simp

lemma nat_str_digits: "list_all is_digit (nat_str n)"
proof (induction n rule: nat_str.induct)
  case (1 n)
  then show ?case by (subst nat_str.simps) simp
qed

lemma digits_val_snoc: "digits_val (xs @ [c]) = 10 * digits_val xs + digit_val c"
  by (simp add: digits_val_def)

lemma digits_val_nat_str [simp]: "digits_val (nat_str n) = n"
proof (induction n rule: nat_str.induct)
  case (1 n)
  show ?case
  proof (cases "n < 10")
    case True
    then show ?thesis by (subst nat_str.simps) (simp add: digits_val_def)
  next
    case False
    with "1.IH" show ?thesis by (subst nat_str.simps) (simp add: digits_val_snoc)
  qed
qed

lemma nat_str_inject [simp]: "nat_str m = nat_str n \<longleftrightarrow> m = n"
  by (metis digits_val_nat_str)

subsection \<open>JavaScript string operations\<close>

definition is_space :: "char \<Rightarrow> bool" where
  "is_space c \<longleftrightarrow> (of_char c :: nat) = 32 \<or> (9 \<le> (of_char c :: nat) \<and> (of_char c :: nat) \<le> 13)"

definition js_trim :: "string \<Rightarrow> string" where
  "js_trim s = rev (dropWhile is_space (rev (dropWhile is_space s)))"

definition lower_char :: "char \<Rightarrow> char" where
  "lower_char c = (if 65 \<le> (of_char c :: nat) \<and> (of_char c :: nat) \<le> 90
     then char_of ((of_char c :: nat) + 32) else c)"

definition to_lower :: "string \<Rightarrow> string" where
  "to_lower = map lower_char"

fun starts_with :: "string \<Rightarrow> string \<Rightarrow> bool" where
  "starts_with [] s = True"
| "starts_with (p # ps) [] = False"
| "starts_with (p # ps) (c # cs) = (p = c \<and> starts_with ps cs)"

fun contains :: "string \<Rightarrow> string \<Rightarrow> bool" where
  "contains p [] = (p = [])"
| "contains p (c # cs) = (starts_with p (c # cs) \<or> contains p cs)"

text \<open>\<open>s.replace(p, r)\<close> with a string pattern replaces the first occurrence only.\<close>

fun replace_first :: "string \<Rightarrow> string \<Rightarrow> string \<Rightarrow> string" where
  "replace_first p r [] = (if p = [] then r else [])"
| "replace_first p r (c # cs) =
     (if starts_with p (c # cs) then r @ drop (length p) (c # cs)
      else c # replace_first p r cs)"

text \<open>\<open>xs.join(sep)\<close>.\<close>

fun js_join :: "string \<Rightarrow> string list \<Rightarrow> string" where
  "js_join sep [] = []"
| "js_join sep [x] = x"
| "js_join sep (x # y # ys) = x @ sep @ js_join sep (y # ys)"

text \<open>
  \<open>s.split(sep)\<close> for a non-empty separator; \<open>split_aux\<close> carries the piece read so far,
  reversed.
\<close>

function split_aux :: "string \<Rightarrow> string \<Rightarrow> string \<Rightarrow> string list" where
  "split_aux sep acc [] = [rev acc]"
| "split_aux sep acc (c # cs) =
     (if sep \<noteq> [] \<and> starts_with sep (c # cs)
      then rev acc # split_aux sep [] (drop (length sep) (c # cs))
      else split_aux sep (c # acc) cs)"
  by pat_completeness auto
termination
  by (relation "measure (\<lambda>(sep, acc, s). length s)") (auto simp: neq_Nil_conv)

definition js_split :: "string \<Rightarrow> string \<Rightarrow> string list" where
  "js_split sep s = split_aux sep [] s"

text \<open>
  \<open>Number(s)\<close> on the decimal integer literals that the version strings hold: blank is 0,
  digits are their value, anything else is modelled as \<open>NaN\<close> (\<open>None\<close>).
\<close>

definition js_Number :: "string \<Rightarrow> nat option" where
  "js_Number s = (let t = js_trim s in
     if t = [] then Some 0 else if list_all is_digit t then Some (digits_val t) else None)"

lemma starts_with_append: "starts_with p s \<longleftrightarrow> (\<exists>r. s = p @ r)"
  by (induction p s rule: starts_with.induct) auto

lemma starts_with_append_self [simp]: "starts_with p (p @ s)"
  by (auto simp: starts_with_append)

lemma contains_append: "contains p s \<longleftrightarrow> (\<exists>a b. s = a @ p @ b)"
proof (induction s)
  case Nil
  show ?case by auto
next
  case (Cons c cs)
  have "(\<exists>a b. c # cs = a @ p @ b) \<longleftrightarrow> (\<exists>b. c # cs = p @ b) \<or> (\<exists>a b. cs = a @ p @ b)"
    by (metis (no_types, opaque_lifting) append_Cons append_Nil list.exhaust list.inject)
  with Cons show ?case by (simp add: starts_with_append)
qed

lemma is_digit_not_space: "is_digit c \<Longrightarrow> \<not> is_space c"
  by (auto simp: is_digit_def is_space_def)

lemma js_trim_digits: "list_all is_digit s \<Longrightarrow> js_trim s = s"
proof -
  assume s: "list_all is_digit s"
  have drop_id: "dropWhile is_space t = t" if "list_all is_digit t" for t
    using that by (cases t) (auto dest: is_digit_not_space)
  from s have "list_all is_digit (rev s)" by (simp add: list_all_iff)
  with s show ?thesis by (simp add: js_trim_def drop_id)
qed

lemma js_Number_nat_str [simp]: "js_Number (nat_str n) = Some n"
  by (simp add: js_Number_def js_trim_digits nat_str_digits)

subsection \<open>JavaScript array operations\<close>

text \<open>\<open>[...new Set(xs)]\<close> keeps the first occurrence of each element.\<close>

definition js_set :: "'a list \<Rightarrow> 'a list" where
  "js_set xs = rev (remdups (rev xs))"

lemma set_js_set [simp]: "set (js_set xs) = set xs"
  by (simp add: js_set_def)

lemma distinct_js_set [simp]: "distinct (js_set xs)"
  by (simp add: js_set_def)

text \<open>\<open>xs.map(x => p(x) ? f(x) : x)\<close>, the update the handlers apply to shards and annotations.\<close>

definition map_where :: "('a \<Rightarrow> bool) \<Rightarrow> ('a \<Rightarrow> 'a) \<Rightarrow> 'a list \<Rightarrow> 'a list" where
  "map_where p f xs = map (\<lambda>x. if p x then f x else x) xs"

definition count_where :: "('a \<Rightarrow> bool) \<Rightarrow> 'a list \<Rightarrow> nat" where
  "count_where p xs = length (filter p xs)"

text \<open>\<open>xs.sort((a, b) => b.k.localeCompare(a.k))\<close>: stable, newest first.\<close>

definition sort_desc :: "('a \<Rightarrow> timestamp) \<Rightarrow> 'a list \<Rightarrow> 'a list" where
  "sort_desc k xs = sort_key (\<lambda>x. - int (k x)) xs"

lemma length_map_where [simp]: "length (map_where p f xs) = length xs"
  by (simp add: map_where_def)

lemma map_where_Nil_iff [simp]: "map_where p f xs = [] \<longleftrightarrow> xs = []"
  by (simp add: map_where_def)

lemma map_map_where:
  "(\<And>x. p x \<Longrightarrow> g (f x) = g x) \<Longrightarrow> map g (map_where p f xs) = map g xs"
  by (simp add: map_where_def)

lemma set_map_where:
  "x \<in> set (map_where p f xs) \<longleftrightarrow> (x \<in> set xs \<and> \<not> p x) \<or> (\<exists>y \<in> set xs. p y \<and> x = f y)"
  by (auto simp: map_where_def)

lemma set_sort_desc [simp]: "set (sort_desc k xs) = set xs"
  by (simp add: sort_desc_def)

lemma length_sort_desc [simp]: "length (sort_desc k xs) = length xs"
  by (simp add: sort_desc_def)

lemma count_where_le_length: "count_where p xs \<le> length xs"
  by (simp add: count_where_def)

lemma count_where_all: "count_where p xs = length xs \<longleftrightarrow> (\<forall>x \<in> set xs. p x)"
  by (simp add: count_where_def) (metis filter_True length_filter_less order_less_irrefl)

lemma find_None_iff_none: "List.find p xs = None \<longleftrightarrow> (\<forall>x \<in> set xs. \<not> p x)"
  by (auto simp: find_None_iff)

lemma find_SomeD: "List.find p xs = Some x \<Longrightarrow> x \<in> set xs \<and> p x"
  by (auto simp: find_Some_iff)

text \<open>Sorting newest first puts a newest element at the head.\<close>

lemma sort_desc_sorted: "sorted (map (\<lambda>x. - int (k x)) (sort_desc k xs))"
  by (simp add: sort_desc_def)

lemma sort_desc_Cons_newest:
  assumes "sort_desc k xs = y # ys" and "x \<in> set xs"
  shows "k x \<le> k y"
proof -
  from assms have "x \<in> set (y # ys)" by (metis set_sort_desc)
  moreover have "sorted (map (\<lambda>x. - int (k x)) (y # ys))"
    using sort_desc_sorted [of k xs] assms(1) by simp
  ultimately show ?thesis by auto
qed

subsection \<open>Association lists as files and JavaScript maps\<close>

lemma map_of_update [simp, store_simps]:
  "map_of (AList.update k v m) = (map_of m)(k \<mapsto> v)"
  by (rule update_conv')

lemma map_of_update_same: "map_of (AList.update k v m) k = Some v"
  by simp

lemma map_of_update_other: "k \<noteq> j \<Longrightarrow> map_of (AList.update k v m) j = map_of m j"
  by simp

end
