(* ===== verification/Contracts.thy ===== *)
theory Contracts
  imports Prelude
begin

text \<open>
  The data model of the control plane, from the Zod schemas of
  \<open>packages/contracts/src/schemas/loops.schema.ts\<close>: an enum is a datatype, an object a
  record, an optional field an option. Field names keep the schema's name after a short
  prefix of the record. A JSON value (log payloads, configuration) is a \<open>json\<close>.
\<close>

subsection \<open>JSON values\<close>

datatype json =
    JNull
  | JBool bool
  | JNum rat
  | JStr string
  | JArr "json list"
  | JObj "(string \<times> json) list"

subsection \<open>Enumerations\<close>

datatype loop_issue_status =
    ISSUE_INTAKE | ISSUE_NEEDS_CLARIFICATION | ISSUE_OPEN | ISSUE_IN_LOOP
  | ISSUE_CLOSED | ISSUE_ARCHIVED | ISSUE_REJECTED

datatype loop_priority = P0 | P1 | P2 | P3

datatype submitter_provider = PROVIDER_DEV | PROVIDER_DOFE_SSO

datatype loop_phase =
    PHASE_0_INTAKE | PHASE_1_SPEC | PHASE_2_REVIEW | PHASE_3_DECOMPOSE | PHASE_4_IMPLEMENT
  | PHASE_5_REVIEW | PHASE_6_CONVERGE | PHASE_7_GLOBAL_REVIEW | PHASE_8_ANNOTATE
  | PHASE_CLOSED | PHASE_PAUSED

datatype loop_spec_status =
    SPEC_DRAFT | SPEC_APPROVED | SPEC_REVISION_REQUESTED | SPEC_REJECTED

datatype loop_shard_status =
    SHARD_TODO | SHARD_IN_PROGRESS | SHARD_IMPLEMENTED | SHARD_DONE
  | SHARD_NEEDS_WORK | SHARD_FAILED | SHARD_BLOCKED | SHARD_TIMEOUT

datatype loop_test_status =
    TEST_PASS | TEST_MISSING | TEST_FAIL | TEST_FLAKY | TEST_SKIPPED

datatype loop_source_channel = CHANNEL_WEB | CHANNEL_WEBHOOK | CHANNEL_SCHEDULE

datatype loop_source_kind =
    KIND_WEB_FORM | KIND_GITHUB | KIND_LINEAR | KIND_JIRA | KIND_SLACK | KIND_SCHEDULE | KIND_GENERIC

text \<open>\<open>LoopReviewVerdictSchema\<close> and \<open>LoopGlobalVerdictSchema\<close> are the same enum.\<close>

datatype loop_verdict = PASS | NEEDS_WORK | FAIL

datatype loop_severity = MINOR | MAJOR | CRITICAL

datatype effort = EFFORT_S | EFFORT_M | EFFORT_L

datatype annotator = BY_CODEX | BY_SYSTEM | BY_HUMAN
datatype impl_status = IMPL_NOT_STARTED | IMPL_IN_PROGRESS | IMPL_DONE | IMPL_FAILED | IMPL_SKIPPED
datatype ann_test_status =
  ANN_NOT_RUN | ANN_TEST_PASS | ANN_TEST_MISSING | ANN_TEST_FAIL | ANN_TEST_FLAKY | ANN_TEST_SKIPPED
datatype ann_verdict = ANN_PASS | ANN_NEEDS_WORK | ANN_FAIL | ANN_UNREVIEWED
datatype ann_coverage = COV_NONE | COV_PARTIAL | COV_FULL
datatype risk_level = RISK_LOW | RISK_MEDIUM | RISK_HIGH

subsection \<open>Issue, intake and specification\<close>

record loop_submitter =
  sub_provider :: submitter_provider
  sub_userId :: string
  sub_name :: string

record rule_snapshot_rule =
  rsr_id :: string
  rsr_label :: string
  rsr_path :: string
  rsr_present :: bool
  rsr_summary :: "string option"
  rsr_updated :: "timestamp option"

datatype diagnostic_level = DIAG_INFO | DIAG_WARNING

record rule_diagnostic =
  rd_id :: string
  rd_level :: diagnostic_level
  rd_message :: string
  rd_evidence :: string

record rule_enforcement =
  rse_enforced :: bool
  rse_agentReadable :: bool
  rse_evidence :: "string list"

record loop_rule_snapshot =
  rsn_workspaceId :: string
  rsn_root :: string
  rsn_capturedAt :: timestamp
  rsn_present :: nat
  rsn_total :: nat
  rsn_rules :: "rule_snapshot_rule list"
  rsn_diagnostics :: "rule_diagnostic list option"
  rsn_enforcement :: rule_enforcement

record loop_tenant_context =
  tc_tenantId :: "string option"
  tc_tenantName :: "string option"
  tc_teamId :: "string option"

record loop_issue =
  i_id :: string
  i_title :: string
  i_status :: loop_issue_status
  i_priority :: loop_priority
  i_created :: timestamp
  i_updated :: timestamp
  i_sourceChannel :: loop_source_channel
  i_sourceKind :: loop_source_kind
  i_submitterId :: string
  i_submitterName :: string
  i_targetRepo :: string
  i_body :: string
  i_acceptanceCriteria :: "string list"
  i_rawPayloadRef :: string
  i_tenantContext :: "loop_tenant_context option"

datatype intake_status = INTAKE_RECEIVED | INTAKE_NEEDS_CLARIFICATION | INTAKE_NORMALIZED | INTAKE_REJECTED

record loop_intake =
  in_id :: string
  in_issueId :: string
  in_sourceChannel :: loop_source_channel
  in_sourceKind :: loop_source_kind
  in_submitter :: loop_submitter
  in_rawPayloadRef :: string
  in_status :: intake_status
  in_created :: timestamp
  in_ruleSnapshot :: "loop_rule_snapshot option"
  in_tenantContext :: "loop_tenant_context option"

record loop_spec =
  sp_id :: string
  sp_issueId :: string
  sp_version :: string
  sp_status :: loop_spec_status
  sp_created :: timestamp
  sp_approvedBy :: "string option"
  sp_contextBudget :: rat
  sp_body :: string

text \<open>\<open>LoopSpecHistoryItemSchema\<close> picks every field of the spec but the context budget.\<close>

record loop_spec_history_item =
  sph_id :: string
  sph_issueId :: string
  sph_version :: string
  sph_status :: loop_spec_status
  sph_created :: timestamp
  sph_approvedBy :: "string option"
  sph_body :: string

subsection \<open>Shards, annotations and the test matrix\<close>

record loop_shard =
  sh_id :: string
  sh_specId :: string
  sh_title :: string
  sh_status :: loop_shard_status
  sh_priority :: loop_priority
  sh_dependsOn :: "string list"
  sh_estContext :: rat
  sh_estEffort :: effort
  sh_acceptance :: "string list"
  sh_testUnit :: "string list"
  sh_testIntegration :: "string list"
  sh_testE2e :: "string list"
  sh_filesHint :: "string list"

record loop_annotation =
  an_target :: string
  an_annotator :: annotator
  an_round :: nat
  an_implStatus :: impl_status
  an_testStatus :: ann_test_status
  an_verdict :: ann_verdict
  an_coverage :: ann_coverage
  an_location :: "string list"
  an_risk :: risk_level
  an_notes :: string

datatype matrix_status = MATRIX_DRAFT | MATRIX_ACTIVE | MATRIX_PASS | MATRIX_NEEDS_WORK
datatype test_level = LEVEL_UNIT | LEVEL_INTEGRATION | LEVEL_E2E | LEVEL_REGRESSION | LEVEL_MANUAL

record required_test =
  rt_id :: string
  rt_shardId :: string
  rt_level :: test_level
  rt_title :: string
  rt_command :: "string option"
  rt_required :: bool

record loop_test_matrix =
  tm_id :: string
  tm_issueId :: string
  tm_specId :: string
  tm_status :: matrix_status
  tm_created :: timestamp
  tm_requiredTests :: "required_test list"
  tm_regressionScope :: "string list"
  tm_manualAcceptance :: "string list"

subsection \<open>Execution records\<close>

record loop_run_shard_tests_request =
  rq_commands :: "string list option"
  rq_runner :: string

record loop_record_implementation_request =
  ri_implementer :: string
  ri_summary :: string
  ri_changedFiles :: "string list"
  ri_notes :: "string option"

datatype impl_record_status = REC_IMPLEMENTED | REC_NEEDS_WORK

record loop_implementation_record =
  ir_id :: string
  ir_issueId :: string
  ir_shardId :: string
  ir_round :: nat
  ir_implementer :: string
  ir_status :: impl_record_status
  ir_summary :: string
  ir_changedFiles :: "string list"
  ir_notes :: "string option"
  ir_created :: timestamp
  ir_tokens :: "nat option"
  ir_durationSec :: "rat option"
  ir_testsChanged :: "string list option"

record review_issue =
  ri_severity :: loop_severity
  ri_desc :: string

record loop_review_shard_request =
  rv_reviewer :: string
  rv_verdict :: loop_verdict
  rv_summary :: string
  rv_issues :: "review_issue list"
  rv_fixInstructions :: "string list"

record loop_review_record =
  rr_id :: string
  rr_issueId :: string
  rr_shardId :: string
  rr_round :: nat
  rr_reviewer :: string
  rr_verdict :: loop_verdict
  rr_issues :: "review_issue list"
  rr_fixInstructions :: "string list"
  rr_summary :: string
  rr_created :: timestamp

datatype sandbox_backend = BACKEND_DOCKER | BACKEND_LOCAL_SHELL
datatype shell_strategy = STRAT_ALLOWLIST | STRAT_STRICT_ALLOWLIST
datatype network_status = NET_NOT_REQUESTED | NET_BLOCKED | NET_ALLOWED_BY_OVERRIDE
datatype canary_status = CANARY_ARMED | CANARY_LEAKED | CANARY_NOT_RUN

record runtime_security_policy =
  rsp_id :: string
  rsp_sandboxBackend :: "sandbox_backend option"
  rsp_shellStrategy :: shell_strategy
  rsp_allowedCommands :: "string list"
  rsp_blockedOperators :: "string list"
  rsp_networkStatus :: network_status
  rsp_networkBlockedTools :: "string list"
  rsp_networkSandboxEnforced :: "bool option"
  rsp_writeBlockedPatterns :: "string list"
  rsp_writeSandboxEnforced :: "bool option"
  rsp_approvalsRequiredFor :: "string list"
  rsp_canaryStatus :: canary_status
  rsp_canaryLeakedInCommands :: "string list"
  rsp_capturedAt :: timestamp

record command_result =
  cr_command :: string
  cr_exitCode :: "int option"
  cr_durationMs :: nat
  cr_stdout :: string
  cr_stderr :: string

record coverage_metric =
  cv_lines :: "rat option"
  cv_branches :: "rat option"

record failed_test =
  ft_name :: string
  ft_reason :: string

record loop_test_record =
  tr_id :: string
  tr_issueId :: string
  tr_shardId :: string
  tr_round :: nat
  tr_runner :: string
  tr_status :: loop_test_status
  tr_commands :: "command_result list"
  tr_coverage :: "coverage_metric option"
  tr_failedTests :: "failed_test list"
  tr_fixInstructions :: "string list"
  tr_runtimeSecurityPolicy :: "runtime_security_policy option"
  tr_created :: timestamp

record loop_global_review_record =
  gr_id :: string
  gr_issueId :: string
  gr_reviewer :: string
  gr_round :: nat
  gr_verdict :: loop_verdict
  gr_issues :: "review_issue list"
  gr_fixInstructions :: "string list"
  gr_summary :: string
  gr_created :: timestamp

record loop_reloop_response =
  rl_issueId :: string
  rl_specVersion :: string
  rl_round :: nat
  rl_reloopCount :: nat
  rl_maxReloop :: nat
  rl_phase :: loop_phase
  rl_paused :: bool

datatype browser_qa_status = QA_PASSED | QA_FAILED | QA_BLOCKED

datatype visual_diff_status = DIFF_BASELINE_CREATED | DIFF_MATCHED | DIFF_CHANGED

record qa_viewport =
  vp_name :: string
  vp_width :: nat
  vp_height :: nat

record visual_diff =
  vd_baselinePath :: string
  vd_actualPath :: string
  vd_diffPath :: "string option"
  vd_status :: visual_diff_status
  vd_changedPixels :: "nat option"
  vd_label :: string
  vd_viewport :: "qa_viewport option"

text \<open>
  Screenshots, traces and handoffs are (path, label) pairs, network failures (url, status)
  pairs, ignored failures (url, reason, classification).
\<close>

record loop_browser_qa_report =
  bq_id :: string
  bq_issueId :: string
  bq_status :: browser_qa_status
  bq_targetUrl :: string
  bq_title :: "string option"
  bq_screenshots :: "(string \<times> string) list"
  bq_traces :: "(string \<times> string) list option"
  bq_visualDiffs :: "visual_diff list option"
  bq_viewports :: "qa_viewport list option"
  bq_handoffs :: "(string \<times> string) list option"
  bq_consoleErrors :: "string list"
  bq_networkFailures :: "(string \<times> nat option) list"
  bq_ignoredNetworkFailures :: "(string \<times> string \<times> string) list option"
  bq_checkedFlows :: "string list"
  bq_blockedReason :: "string option"
  bq_command :: string
  bq_durationMs :: nat
  bq_created :: timestamp

datatype pr_provider = PR_GITHUB | PR_GITLAB | PR_GITEA
datatype pr_status = PR_DRAFT | PR_PUSHED | PR_OPENED | PR_SKIPPED

record pr_commit =
  pc_shardId :: string
  pc_message :: string
  pc_commitSha :: "string option"
  pc_branch :: "string option"

record loop_convergence_pr =
  cp_id :: string
  cp_issueId :: string
  cp_branch :: string
  cp_baseBranch :: string
  cp_provider :: "pr_provider option"
  cp_url :: "string option"
  cp_commits :: "pr_commit list"
  cp_annotationsSummary :: string
  cp_prBody :: string
  cp_status :: pr_status
  cp_created :: timestamp

subsection \<open>Loop state, logs, notifications\<close>

record loop_state_item =
  st_issueId :: string
  st_phase :: loop_phase
  st_round :: nat
  st_specVersion :: string
  st_shardsTotal :: nat
  st_shardsDone :: nat
  st_shardsInProgress :: nat
  st_reloopCount :: nat
  st_costTokens :: nat
  st_costCalls :: nat
  st_updated :: timestamp
  st_paused :: bool
  st_globalVerdict :: "loop_verdict option"
  st_finalized :: "bool option"

text \<open>A line of \<open>log.jsonl\<close>: the time stamp and the fields of the payload that are defined.\<close>

record log_line =
  ll_ts :: timestamp
  ll_payload :: "(string \<times> json) list"

record loop_log_entry =
  le_ts :: timestamp
  le_type :: string
  le_loop :: "string option"
  le_issue :: "string option"
  le_shard :: "string option"
  le_action :: "string option"
  le_status :: "string option"
  le_verdict :: "string option"
  le_payload :: "(string \<times> json) list"

datatype notification_kind =
    ISSUE_RECEIVED | SPEC_REVIEW_REQUESTED | LOOP_STARTED | HUMAN_INTERVENTION | COST_GUARD_TRIPPED
  | CONVERGENCE_READY | SHARD_REDO_LIMIT | RELOOP_LIMIT | CONTEXT_BUDGET_EXCEEDED

datatype notification_status = NOTE_RECORDED | NOTE_SENT | NOTE_FAILED | NOTE_SKIPPED

datatype notification_channel = NOTIFY_WEB | NOTIFY_FEISHU

record loop_notification =
  no_id :: string
  no_issueId :: string
  no_channel :: notification_channel
  no_kind :: notification_kind
  no_recipient :: string
  no_title :: string
  no_body :: string
  no_status :: notification_status
  no_actionHref :: "string option"
  no_created :: timestamp

record loop_cost_item =
  ci_issueId :: string
  ci_costTokens :: nat
  ci_costCalls :: nat
  ci_tokenCap :: rat
  ci_callCap :: rat
  ci_tokensRemaining :: rat
  ci_callsRemaining :: rat
  ci_paused :: bool
  ci_tripped :: bool

subsection \<open>Coverage, evidence, learnings\<close>

datatype requirement_status =
  REQ_MISSING | REQ_PLANNED | REQ_IMPLEMENTED | REQ_TESTED | REQ_REVIEWED | REQ_ACCEPTED

record loop_requirement_coverage_item =
  rc_id :: string
  rc_criterion :: string
  rc_inSpec :: bool
  rc_shardIds :: "string list"
  rc_testIds :: "string list"
  rc_implementationRecordIds :: "string list"
  rc_reviewRecordIds :: "string list"
  rc_status :: requirement_status

record loop_requirement_coverage_summary =
  rs_total :: nat
  rs_accepted :: nat
  rs_reviewed :: nat
  rs_tested :: nat
  rs_implemented :: nat
  rs_planned :: nat
  rs_missing :: nat
  rs_percent :: int

record loop_requirement_coverage =
  cov_summary :: loop_requirement_coverage_summary
  cov_items :: "loop_requirement_coverage_item list"

datatype artifact_kind =
    ART_RAW_PAYLOAD | ART_ISSUE | ART_INTAKE | ART_SPEC | ART_SHARDS | ART_TEST_MATRIX
  | ART_IMPLEMENTATION_RECORD | ART_TEST_RECORD | ART_REVIEW_RECORD | ART_GLOBAL_REVIEW
  | ART_CONVERGENCE_PR | ART_BROWSER_QA | ART_SECOND_OPINION | ART_ANNOTATIONS

record loop_evidence_artifact =
  ea_id :: string
  ea_label :: string
  ea_kind :: artifact_kind
  ea_path :: string
  ea_present :: bool
  ea_round :: "nat option"
  ea_count :: "nat option"
  ea_summary :: "string option"

datatype learning_kind =
  LK_PATTERN | LK_PITFALL | LK_DECISION | LK_TEST_POLICY | LK_OWNERSHIP | LK_SECURITY

record loop_learning =
  ln_id :: string
  ln_workspaceId :: string
  ln_repo :: "string option"
  ln_kind :: learning_kind
  ln_summary :: string
  ln_fingerprint :: "string option"
  ln_tags :: "string list option"
  ln_similarLearningIds :: "string list option"
  ln_evidenceIds :: "string list"
  ln_confidence :: rat
  ln_lastUsedAt :: "timestamp option"
  ln_createdAt :: timestamp

end
