(* ===== verification/Delivery_Contracts.thy ===== *)
theory Delivery_Contracts
  imports Contracts
begin

text \<open>
  The delivery-control half of \<open>packages/contracts/src/schemas/loops.schema.ts\<close>: workflow
  recipes, review and release gates, second opinions, delivery and learning governance,
  and the loop detail that every handler reads. Phases and severities are made linear
  orders, which the gates and the finding comparison use.
\<close>

subsection \<open>Workflow, gates\<close>

datatype runtime_owner = OWNER_CODEX | OWNER_CLAUDE_CODE | OWNER_HUMAN | OWNER_SYSTEM

datatype loop_kind = KIND_FEATURE | KIND_BUGFIX | KIND_REFACTOR | KIND_DOCS | KIND_OPS

datatype workflow_step_kind =
    STEP_INTAKE | STEP_PRODUCT_REVIEW | STEP_SPEC_REVIEW | STEP_ARCHITECTURE_REVIEW
  | STEP_IMPLEMENTATION | STEP_CODE_REVIEW | STEP_SECURITY_REVIEW | STEP_BROWSER_QA
  | STEP_TEST_GATE | STEP_RELEASE_GATE | STEP_RETRO

datatype workflow_gate = HG_NONE | HG_APPROVAL | HG_DECISION | HG_OVERRIDE
datatype step_status = ST_PENDING | ST_CURRENT | ST_PASSED | ST_BLOCKED | ST_SKIPPED

record loop_workflow_step =
  ws_id :: string
  ws_kind :: workflow_step_kind
  ws_label :: string
  ws_required :: bool
  ws_status :: step_status
  ws_owner :: runtime_owner
  ws_humanGate :: workflow_gate
  ws_phase :: "loop_phase option"
  ws_evidenceTypes :: "artifact_kind list"
  ws_evidenceIds :: "string list"
  ws_blockedReason :: "string option"

datatype baseline_kind = BASE_BLUEPRINT | BASE_RUNTIME | BASE_EVAL | BASE_GATE | BASE_RISK

record baseline_evidence =
  be_id :: string
  be_label :: string
  be_kind :: baseline_kind
  be_value :: string
  be_evidenceRef :: "string option"

datatype recipe_source = SRC_DEFAULT | SRC_WORKSPACE | SRC_LOOP_SNAPSHOT

record loop_workflow_recipe =
  wr_id :: string
  wr_name :: string
  wr_version :: nat
  wr_appliesTo :: "loop_kind list"
  wr_capturedAt :: timestamp
  wr_source :: recipe_source
  wr_baselineEvidence :: "baseline_evidence list"
  wr_steps :: "loop_workflow_step list"

datatype review_gate_kind =
  GATE_PRODUCT | GATE_ARCHITECTURE | GATE_DESIGN | GATE_DEVEX | GATE_SECURITY | GATE_CODE

datatype review_gate_status =
  RG_PENDING | RG_PASSED | RG_NEEDS_CHANGES | RG_BLOCKED | RG_WAIVED

record loop_review_gate =
  rg_id :: string
  rg_kind :: review_gate_kind
  rg_status :: review_gate_status
  rg_reviewer :: runtime_owner
  rg_confidence :: "rat option"
  rg_findingsCount :: nat
  rg_evidenceId :: "string option"
  rg_requiredByStepId :: string
  rg_waiverReason :: "string option"
  rg_updated :: timestamp

datatype release_gate_status = REL_PENDING | REL_READY | REL_BLOCKED | REL_SHIPPED

record release_checklist =
  ck_specApproved :: bool
  ck_implementationEvidence :: bool
  ck_testsPassed :: bool
  ck_requiredReviewsPassed :: bool
  ck_secondOpinionPassed :: bool
  ck_browserQaPassed :: bool
  ck_docsUpdated :: bool
  ck_prReady :: bool
  ck_rollbackNote :: bool
  ck_canaryPassed :: bool

record loop_release_gate =
  rel_id :: string
  rel_status :: release_gate_status
  rel_checklist :: release_checklist
  rel_evidenceIds :: "string list"
  rel_blocker :: "string option"
  rel_updated :: timestamp

subsection \<open>Second opinion\<close>

record so_finding =
  sf_fingerprint :: string
  sf_severity :: loop_severity
  sf_desc :: string
  sf_sourceEvidenceId :: "string option"

datatype reviewer_status = RS_NOT_RUN | RS_PENDING | RS_PASSED | RS_NEEDS_CHANGES

datatype reviewer_role = ROLE_PRIMARY | ROLE_SECONDARY

record so_reviewer =
  sv_role :: reviewer_role
  sv_reviewer :: runtime_owner
  sv_status :: reviewer_status
  sv_findingsCount :: nat
  sv_findings :: "so_finding list"
  sv_evidenceIds :: "string list"
  sv_summary :: "string option"

record so_comparison =
  sc_agreementCount :: nat
  sc_primaryOnlyCount :: nat
  sc_secondaryOnlyCount :: nat
  sc_conflictCount :: nat
  sc_agreementFingerprints :: "string list"
  sc_primaryOnlyFingerprints :: "string list"
  sc_secondaryOnlyFingerprints :: "string list"
  sc_conflictFingerprints :: "string list"

datatype second_opinion_status =
  SO_NOT_REQUIRED | SO_PENDING | SO_PASSED | SO_NEEDS_CHANGES | SO_CONFLICT

record loop_second_opinion =
  so_id :: string
  so_status :: second_opinion_status
  so_primary :: so_reviewer
  so_secondary :: so_reviewer
  so_comparison :: so_comparison
  so_requiredForRelease :: bool
  so_updated :: timestamp

subsection \<open>Delivery governance\<close>

record workflow_default =
  wd_loopKind :: loop_kind
  wd_recipeId :: string
  wd_actor :: string
  wd_reason :: "string option"
  wd_updated :: timestamp

record gate_override =
  go_gateKind :: review_gate_kind
  go_status :: review_gate_status
  go_actor :: string
  go_reason :: "string option"
  go_expiresAt :: "timestamp option"
  go_updated :: timestamp

record required_gates =
  rq_gateKinds :: "review_gate_kind list"
  rq_actor :: string
  rq_reason :: "string option"
  rq_updated :: timestamp

record so_policy =
  pol_requiredForRelease :: bool
  pol_conflictHumanGate :: bool
  pol_actor :: string
  pol_reason :: "string option"
  pol_updated :: timestamp

datatype so_resolution_kind = ACCEPT_PRIMARY | ACCEPT_SECONDARY | WAIVE | REQUEST_CHANGES

record so_resolution =
  res_id :: string
  res_resolution :: so_resolution_kind
  res_actor :: string
  res_reason :: string
  res_conflictFingerprint :: "string option"
  res_updated :: timestamp

datatype release_canary_status = RC_NOT_RUN | RC_PENDING | RC_PASSED | RC_FAILED

record release_canary =
  can_status :: release_canary_status
  can_environment :: "string option"
  can_environmentOwner :: "string option"
  can_targetUrl :: "string option"
  can_rollbackNote :: "string option"
  can_actor :: string
  can_reason :: "string option"
  can_updated :: timestamp

datatype override_scope = SCOPE_NETWORK | SCOPE_WRITE | SCOPE_SHELL

record runtime_override =
  ro_id :: string
  ro_scope :: override_scope
  ro_actor :: string
  ro_reason :: string
  ro_expiresAt :: timestamp
  ro_updated :: timestamp

datatype qa_auth_mode = AUTH_NONE | AUTH_TEST_ACCOUNT | AUTH_MANUAL_SESSION
datatype dedupe_scope = DEDUPE_WORKSPACE | DEDUPE_CROSS_WORKSPACE
datatype merge_approval = MERGE_MANUAL_ONLY | MERGE_APPROVAL_REQUIRED

record qa_session_policy =
  qp_authMode :: qa_auth_mode
  qp_testAccountRef :: "string option"
  qp_actor :: string
  qp_reason :: "string option"
  qp_updated :: timestamp

record learning_policy =
  lp_dedupeScope :: dedupe_scope
  lp_autoMergeApproval :: merge_approval
  lp_actor :: string
  lp_reason :: "string option"
  lp_updated :: timestamp

record loop_delivery_governance =
  dg_workflowDefaults :: "workflow_default list"
  dg_reviewGateOverrides :: "gate_override list"
  dg_requiredReviewGates :: "required_gates option"
  dg_secondOpinionPolicy :: "so_policy option"
  dg_secondOpinionResolutions :: "so_resolution list"
  dg_releaseCanary :: "release_canary option"
  dg_runtimeOverrides :: "runtime_override list"
  dg_browserQaSessionPolicy :: "qa_session_policy option"
  dg_learningPolicy :: "learning_policy option"

text \<open>The discriminated union of governance requests; the actor and reason come first.\<close>

datatype delivery_governance_request =
    SetWorkflowDefault string "string option" loop_kind string
  | SetReviewGate string "string option" review_gate_kind review_gate_status "timestamp option"
  | SetRequiredReviewGates string "string option" "review_gate_kind list"
  | SetSecondOpinionPolicy string "string option" bool bool
  | RecordReleaseCanary string "string option" release_canary_status "string option"
      "string option" "string option" "string option"
  | RecordRuntimeOverride string string override_scope timestamp
  | SetBrowserQaSessionPolicy string "string option" qa_auth_mode "string option"
  | SetLearningPolicy string "string option" dedupe_scope merge_approval
  | ResolveSecondOpinionConflict string string so_resolution_kind "string option"

subsection \<open>Learning governance\<close>

record lg_mark =
  lm_learningId :: string
  lm_actor :: string
  lm_reason :: "string option"
  lm_createdAt :: timestamp

record lg_merge =
  mg_sourceLearningId :: string
  mg_targetLearningId :: string
  mg_actor :: string
  mg_reason :: "string option"
  mg_createdAt :: timestamp

datatype candidate_status = CAND_PENDING | CAND_APPROVED | CAND_REJECTED

record lg_candidate =
  cd_sourceLearningId :: string
  cd_targetLearningId :: string
  cd_status :: candidate_status
  cd_reason :: string
  cd_createdAt :: timestamp

record loop_learning_governance =
  lg_dismissed :: "lg_mark list"
  lg_merges :: "lg_merge list"
  lg_deprecated :: "lg_mark list"
  lg_superseded :: "lg_merge list"
  lg_autoMergeCandidates :: "lg_candidate list"

datatype learning_action =
  LA_DISMISS | LA_MERGE | LA_APPROVE_MERGE | LA_REJECT_MERGE | LA_DEPRECATE | LA_SUPERSEDE

record learning_governance_request =
  lgr_action :: learning_action
  lgr_actor :: string
  lgr_reason :: "string option"
  lgr_targetLearningId :: "string option"

subsection \<open>The loop detail\<close>

record loop_detail =
  d_issue :: loop_issue
  d_intake :: loop_intake
  d_spec :: "loop_spec option"
  d_specHistory :: "loop_spec_history_item list"
  d_shards :: "loop_shard list"
  d_testMatrix :: "loop_test_matrix option"
  d_annotations :: "loop_annotation list"
  d_implementationRecords :: "loop_implementation_record list"
  d_reviewRecords :: "loop_review_record list"
  d_testRecords :: "loop_test_record list"
  d_logs :: "loop_log_entry list"
  d_notifications :: "loop_notification list"
  d_state :: loop_state_item
  d_globalReview :: "loop_global_review_record option"
  d_convergencePr :: "loop_convergence_pr option"
  d_browserQaReports :: "loop_browser_qa_report list"
  d_requirementsCoverage :: "loop_requirement_coverage option"
  d_evidenceArtifacts :: "loop_evidence_artifact list option"
  d_learnings :: "loop_learning list"
  d_workflowRecipe :: "loop_workflow_recipe option"
  d_reviewGates :: "loop_review_gate list option"
  d_releaseGate :: "loop_release_gate option"
  d_secondOpinion :: "loop_second_opinion option"
  d_deliveryGovernance :: "loop_delivery_governance option"

subsection \<open>Orders\<close>

text \<open>\<open>severityRank\<close> of the finding comparison, as a linear order on severities.\<close>

fun severityRank :: "loop_severity \<Rightarrow> nat" where
  "severityRank CRITICAL = 3"
| "severityRank MAJOR = 2"
| "severityRank MINOR = 1"

lemma severityRank_inject [simp]: "severityRank a = severityRank b \<longleftrightarrow> a = b"
  by (cases a; cases b) auto

instantiation loop_severity :: linorder
begin

definition less_eq_loop_severity :: "loop_severity \<Rightarrow> loop_severity \<Rightarrow> bool" where
  "less_eq_loop_severity a b \<longleftrightarrow> severityRank a \<le> severityRank b"

definition less_loop_severity :: "loop_severity \<Rightarrow> loop_severity \<Rightarrow> bool" where
  "less_loop_severity a b \<longleftrightarrow> severityRank a < severityRank b"

instance
  by standard (auto simp: less_eq_loop_severity_def less_loop_severity_def)

end

text \<open>The \<open>order\<close> table of \<open>phaseAtLeast\<close>, shifted by one so that \<open>PAUSED\<close> is 0.\<close>

fun phase_rank :: "loop_phase \<Rightarrow> nat" where
  "phase_rank PHASE_PAUSED = 0"
| "phase_rank PHASE_0_INTAKE = 1"
| "phase_rank PHASE_1_SPEC = 2"
| "phase_rank PHASE_2_REVIEW = 3"
| "phase_rank PHASE_3_DECOMPOSE = 4"
| "phase_rank PHASE_4_IMPLEMENT = 5"
| "phase_rank PHASE_5_REVIEW = 6"
| "phase_rank PHASE_6_CONVERGE = 7"
| "phase_rank PHASE_7_GLOBAL_REVIEW = 8"
| "phase_rank PHASE_8_ANNOTATE = 9"
| "phase_rank PHASE_CLOSED = 10"

lemma phase_rank_inject [simp]: "phase_rank a = phase_rank b \<longleftrightarrow> a = b"
  by (cases a; cases b) auto

instantiation loop_phase :: linorder
begin

definition less_eq_loop_phase :: "loop_phase \<Rightarrow> loop_phase \<Rightarrow> bool" where
  "less_eq_loop_phase a b \<longleftrightarrow> phase_rank a \<le> phase_rank b"

definition less_loop_phase :: "loop_phase \<Rightarrow> loop_phase \<Rightarrow> bool" where
  "less_loop_phase a b \<longleftrightarrow> phase_rank a < phase_rank b"

instance
  by standard (auto simp: less_eq_loop_phase_def less_loop_phase_def)

end

end
