(* ===== verification/Runtime_Config.thy ===== *)
theory Runtime_Config
  imports Delivery_Contracts
begin

text \<open>
  \<open>loops-store/loops-runtime-config.util.ts\<close>: the limits the scheduler, the cost guard and
  the test runner obey. The YAML parser is the library \<open>js-yaml\<close>, a parameter: it maps the
  file to a thrown error or to a value (\<open>None\<close> for \<open>undefined\<close>). Everything after the
  parser is modelled: which fields are read, how each is validated and which default wins.
\<close>

record cost_config =
  cc_tokenCapPerLoop :: rat
  cc_callCapPerLoop :: rat

record tests_config =
  tc_defaultCommands :: "string list"
  tc_regressionCommands :: "string list"
  tc_allowedCommands :: "string list"
  tc_floorLines :: "rat option"
  tc_floorBranches :: "rat option"

record loops_runtime_config =
  cf_contextBudget :: rat
  cf_maxParallel :: nat
  cf_maxRetry :: nat
  cf_maxReloop :: nat
  cf_maxShardRedo :: nat
  cf_shardTimeoutSec :: rat
  cf_cost :: cost_config
  cf_tests :: tests_config

record parsed_runtime_config =
  pa_contextBudget :: "rat option"
  pa_maxParallel :: "nat option"
  pa_maxRetry :: "nat option"
  pa_maxReloop :: "nat option"
  pa_maxShardRedo :: "nat option"
  pa_shardTimeoutSec :: "rat option"
  pa_tokenCapPerLoop :: "rat option"
  pa_callCapPerLoop :: "rat option"
  pa_tests :: tests_config

definition DEFAULT_RUNTIME_CONFIG :: loops_runtime_config where
  "DEFAULT_RUNTIME_CONFIG = \<lparr>
     cf_contextBudget = 24000, cf_maxParallel = 1, cf_maxRetry = 2, cf_maxReloop = 3,
     cf_maxShardRedo = 3, cf_shardTimeoutSec = 900,
     cf_cost = \<lparr>cc_tokenCapPerLoop = 5000000, cc_callCapPerLoop = 500\<rparr>,
     cf_tests = \<lparr>tc_defaultCommands = [''pnpm --version''], tc_regressionCommands = [],
       tc_allowedCommands = [], tc_floorLines = None, tc_floorBranches = None\<rparr>\<rparr>"

subsection \<open>Validation of a parsed value\<close>

definition asRecord :: "json option \<Rightarrow> (string \<times> json) list option" where
  "asRecord v = (case v of Some (JObj fs) \<Rightarrow> Some fs | _ \<Rightarrow> None)"

definition asPositiveNumber :: "json option \<Rightarrow> rat option" where
  "asPositiveNumber v = (case v of Some (JNum r) \<Rightarrow> if r > 0 then Some r else None | _ \<Rightarrow> None)"

definition asPercentage :: "json option \<Rightarrow> rat option" where
  "asPercentage v = (case v of Some (JNum r) \<Rightarrow> if r \<ge> 0 \<and> r \<le> 100 then Some r else None | _ \<Rightarrow> None)"

definition is_integer :: "rat \<Rightarrow> bool" where
  "is_integer r \<longleftrightarrow> of_int \<lfloor>r\<rfloor> = r"

definition asNonNegativeInteger :: "json option \<Rightarrow> nat option" where
  "asNonNegativeInteger v = (case v of
     Some (JNum r) \<Rightarrow> if is_integer r \<and> r \<ge> 0 then Some (nat \<lfloor>r\<rfloor>) else None | _ \<Rightarrow> None)"

definition asPositiveInteger :: "json option \<Rightarrow> nat option" where
  "asPositiveInteger v = (case v of
     Some (JNum r) \<Rightarrow> if is_integer r \<and> r > 0 then Some (nat \<lfloor>r\<rfloor>) else None | _ \<Rightarrow> None)"

text \<open>\<open>r?.k\<close> on a value that is a record or undefined.\<close>

definition field :: "(string \<times> json) list option \<Rightarrow> string \<Rightarrow> json option" where
  "field r k = (case r of Some fs \<Rightarrow> map_of fs k | None \<Rightarrow> None)"

text \<open>\<open>Array.isArray(v) ? v.filter(non-blank string) : []\<close>.\<close>

definition command_list :: "json option \<Rightarrow> string list" where
  "command_list v = (case v of
     Some (JArr xs) \<Rightarrow> List.map_filter
       (\<lambda>x. case x of JStr s \<Rightarrow> if js_trim s \<noteq> [] then Some s else None | _ \<Rightarrow> None) xs
   | _ \<Rightarrow> [])"

subsection \<open>Parsing and defaulting\<close>

definition empty_parsed :: parsed_runtime_config where
  "empty_parsed = \<lparr>pa_contextBudget = None, pa_maxParallel = None, pa_maxRetry = None,
     pa_maxReloop = None, pa_maxShardRedo = None, pa_shardTimeoutSec = None,
     pa_tokenCapPerLoop = None, pa_callCapPerLoop = None,
     pa_tests = \<lparr>tc_defaultCommands = [], tc_regressionCommands = [], tc_allowedCommands = [],
       tc_floorLines = None, tc_floorBranches = None\<rparr>\<rparr>"

definition parse_raw :: "json option \<Rightarrow> parsed_runtime_config" where
  "parse_raw raw = (let r = asRecord raw; cost = asRecord (field r ''cost'');
       tests = asRecord (field r ''tests'');
       coverageFloor = asRecord (field tests ''coverage_floor'') in
     \<lparr>pa_contextBudget = asPositiveNumber (field r ''context_budget''),
      pa_maxParallel = asPositiveInteger (field r ''max_parallel''),
      pa_maxRetry = asNonNegativeInteger (field r ''max_retry''),
      pa_maxReloop = asNonNegativeInteger (field r ''max_reloop''),
      pa_maxShardRedo = asNonNegativeInteger (field r ''max_shard_redo''),
      pa_shardTimeoutSec = asPositiveNumber (field r ''shard_timeout_sec''),
      pa_tokenCapPerLoop = asPositiveNumber (field cost ''token_cap_per_loop''),
      pa_callCapPerLoop = asPositiveNumber (field cost ''call_cap_per_loop''),
      pa_tests = \<lparr>
        tc_defaultCommands = command_list (field tests ''default_commands''),
        tc_regressionCommands = command_list (field tests ''regression_commands''),
        tc_allowedCommands = command_list (field tests ''allowed_commands''),
        tc_floorLines = asPercentage (field coverageFloor ''lines''),
        tc_floorBranches = asPercentage (field coverageFloor ''branches'')\<rparr>\<rparr>)"

definition parseLoopsRuntimeConfig ::
    "(string \<Rightarrow> js_error + json option) \<Rightarrow> string \<Rightarrow> js_error + parsed_runtime_config" where
  "parseLoopsRuntimeConfig yaml_load content =
     (if js_trim content = [] then Inr empty_parsed
      else case yaml_load content of Inl e \<Rightarrow> Inl e | Inr raw \<Rightarrow> Inr (parse_raw raw))"

definition or_default :: "'a option \<Rightarrow> 'a \<Rightarrow> 'a" where
  "or_default v d = (case v of Some x \<Rightarrow> x | None \<Rightarrow> d)"

definition with_defaults :: "parsed_runtime_config \<Rightarrow> loops_runtime_config" where
  "with_defaults p = (let D = DEFAULT_RUNTIME_CONFIG;
       defaults = tc_defaultCommands (pa_tests p);
       fallback = (if defaults \<noteq> [] then defaults else tc_defaultCommands (cf_tests D)) in
     \<lparr>cf_contextBudget = or_default (pa_contextBudget p) (cf_contextBudget D),
      cf_maxParallel = or_default (pa_maxParallel p) (cf_maxParallel D),
      cf_maxRetry = or_default (pa_maxRetry p) (cf_maxRetry D),
      cf_maxReloop = or_default (pa_maxReloop p) (cf_maxReloop D),
      cf_maxShardRedo = or_default (pa_maxShardRedo p) (cf_maxShardRedo D),
      cf_shardTimeoutSec = or_default (pa_shardTimeoutSec p) (cf_shardTimeoutSec D),
      cf_cost = \<lparr>
        cc_tokenCapPerLoop = or_default (pa_tokenCapPerLoop p) (cc_tokenCapPerLoop (cf_cost D)),
        cc_callCapPerLoop = or_default (pa_callCapPerLoop p) (cc_callCapPerLoop (cf_cost D))\<rparr>,
      cf_tests = \<lparr>
        tc_defaultCommands = fallback,
        tc_regressionCommands = (if tc_regressionCommands (pa_tests p) \<noteq> []
          then tc_regressionCommands (pa_tests p) else fallback),
        tc_allowedCommands = (if tc_allowedCommands (pa_tests p) \<noteq> []
          then tc_allowedCommands (pa_tests p) else fallback),
        tc_floorLines = tc_floorLines (pa_tests p),
        tc_floorBranches = tc_floorBranches (pa_tests p)\<rparr>\<rparr>)"

text \<open>The file content is \<open>None\<close> when reading it fails, which counts as an empty file.\<close>

definition readLoopsRuntimeConfig ::
    "(string \<Rightarrow> js_error + json option) \<Rightarrow> string option \<Rightarrow> js_error + loops_runtime_config" where
  "readLoopsRuntimeConfig yaml_load file =
     (case parseLoopsRuntimeConfig yaml_load (or_default file []) of
        Inl e \<Rightarrow> Inl e | Inr p \<Rightarrow> Inr (with_defaults p))"

subsection \<open>Every configuration that is read is usable\<close>

definition config_ok :: "loops_runtime_config \<Rightarrow> bool" where
  "config_ok c \<longleftrightarrow> cf_contextBudget c > 0 \<and> cf_maxParallel c > 0 \<and> cf_shardTimeoutSec c > 0
     \<and> cc_tokenCapPerLoop (cf_cost c) > 0 \<and> cc_callCapPerLoop (cf_cost c) > 0
     \<and> tc_defaultCommands (cf_tests c) \<noteq> [] \<and> tc_regressionCommands (cf_tests c) \<noteq> []
     \<and> tc_allowedCommands (cf_tests c) \<noteq> []
     \<and> list_all (\<lambda>s. js_trim s \<noteq> []) (tc_allowedCommands (cf_tests c))
     \<and> (\<forall>r. tc_floorLines (cf_tests c) = Some r \<longrightarrow> 0 \<le> r \<and> r \<le> 100)
     \<and> (\<forall>r. tc_floorBranches (cf_tests c) = Some r \<longrightarrow> 0 \<le> r \<and> r \<le> 100)"

definition parsed_ok :: "parsed_runtime_config \<Rightarrow> bool" where
  "parsed_ok p \<longleftrightarrow> (\<forall>r. pa_contextBudget p = Some r \<longrightarrow> r > 0) \<and> (\<forall>n. pa_maxParallel p = Some n \<longrightarrow> n > 0)
     \<and> (\<forall>r. pa_shardTimeoutSec p = Some r \<longrightarrow> r > 0) \<and> (\<forall>r. pa_tokenCapPerLoop p = Some r \<longrightarrow> r > 0)
     \<and> (\<forall>r. pa_callCapPerLoop p = Some r \<longrightarrow> r > 0)
     \<and> (\<forall>s \<in> set (tc_defaultCommands (pa_tests p)). js_trim s \<noteq> [])
     \<and> (\<forall>s \<in> set (tc_allowedCommands (pa_tests p)). js_trim s \<noteq> [])
     \<and> (\<forall>r. tc_floorLines (pa_tests p) = Some r \<longrightarrow> 0 \<le> r \<and> r \<le> 100)
     \<and> (\<forall>r. tc_floorBranches (pa_tests p) = Some r \<longrightarrow> 0 \<le> r \<and> r \<le> 100)"

lemma asPositiveNumber_pos: "asPositiveNumber v = Some r \<Longrightarrow> r > 0"
  by (auto simp: asPositiveNumber_def split: option.splits json.splits if_splits)

lemma asPercentage_range: "asPercentage v = Some r \<Longrightarrow> 0 \<le> r \<and> r \<le> 100"
  by (auto simp: asPercentage_def split: option.splits json.splits if_splits)

lemma asPositiveInteger_pos: "asPositiveInteger v = Some n \<Longrightarrow> n > 0"
  by (auto simp: asPositiveInteger_def is_integer_def split: option.splits json.splits if_splits)

lemma command_list_nonblank: "s \<in> set (command_list v) \<Longrightarrow> js_trim s \<noteq> []"
  by (auto simp: command_list_def List.map_filter_def split: option.splits json.splits if_splits)

lemma parsed_ok_empty: "parsed_ok empty_parsed"
  by (simp add: parsed_ok_def empty_parsed_def)

lemma parsed_ok_raw: "parsed_ok (parse_raw raw)"
  by (auto simp: parsed_ok_def parse_raw_def Let_def
    dest: asPositiveNumber_pos asPositiveInteger_pos asPercentage_range command_list_nonblank)

lemma parsed_ok_parse: "parseLoopsRuntimeConfig y s = Inr p \<Longrightarrow> parsed_ok p"
  by (auto simp: parseLoopsRuntimeConfig_def parsed_ok_empty parsed_ok_raw
    split: if_splits sum.splits)

lemma config_ok_with_defaults: "parsed_ok p \<Longrightarrow> config_ok (with_defaults p)"
proof -
  assume p: "parsed_ok p"
  have nonblank: "js_trim ''pnpm --version'' \<noteq> []"
    by (simp add: js_trim_def is_space_def)
  show ?thesis
    using p nonblank
    by (auto simp: config_ok_def parsed_ok_def with_defaults_def Let_def or_default_def
      DEFAULT_RUNTIME_CONFIG_def list_all_iff split: option.splits)
qed

text \<open>
  Whatever the configuration file holds, a configuration that is read without an error
  has positive budgets, caps and parallelism, non-empty command lists, an allow list without
  blank entries, and floors that are percentages.
\<close>

theorem runtime_config_usable:
  assumes "readLoopsRuntimeConfig yaml_load file = Inr c"
  shows "config_ok c"
  using assms
  by (auto simp: readLoopsRuntimeConfig_def dest: parsed_ok_parse config_ok_with_defaults
    split: sum.splits)

theorem runtime_config_usable_witness:
  "config_ok (with_defaults (parse_raw (Some (JObj [(''max_parallel'', JNum (-2))]))))"
proof -
  have "readLoopsRuntimeConfig (\<lambda>_. Inr (Some (JObj [(''max_parallel'', JNum (-2))]))) (Some ''x'')
    = Inr (with_defaults (parse_raw (Some (JObj [(''max_parallel'', JNum (-2))]))))"
    by (simp add: readLoopsRuntimeConfig_def parseLoopsRuntimeConfig_def or_default_def
      js_trim_def is_space_def)
  then show ?thesis by (rule runtime_config_usable)
qed

end
