(* ===== verification/Js_Text.thy ===== *)
theory Js_Text
  imports Prelude
begin

text \<open>
  Text processing the services share: code points of a UTF-8 string, and a matcher for the
  fragment of JavaScript regular expressions that the sources use (classes, literals,
  alternation, repetition, \<open>^\<close>, \<open>$\<close> and the word boundary \<open>\b\<close>). Only whether
  a pattern occurs in a string is asked for, so the matcher enumerates end positions.
\<close>

subsection \<open>Code points\<close>

text \<open>A string as its code points, each with the bytes it was read from.\<close>

definition utf8_len :: "nat \<Rightarrow> nat" where
  "utf8_len b = (if b < 192 then 1 else if b < 224 then 2 else if b < 240 then 3 else 4)"

definition utf8_point :: "string \<Rightarrow> nat" where
  "utf8_point bs = (case map (of_char :: char \<Rightarrow> nat) bs of
     [a] \<Rightarrow> a
   | [a, b] \<Rightarrow> (a mod 32) * 64 + b mod 64
   | [a, b, c] \<Rightarrow> (a mod 16) * 4096 + (b mod 64) * 64 + c mod 64
   | [a, b, c, d] \<Rightarrow> (a mod 8) * 262144 + (b mod 64) * 4096 + (c mod 64) * 64 + d mod 64
   | _ \<Rightarrow> 0)"

function utf8_chunks :: "string \<Rightarrow> (nat \<times> string) list" where
  "utf8_chunks [] = []"
| "utf8_chunks (c # cs) = (let n = utf8_len (of_char c); bs = c # take (n - 1) cs in
     (utf8_point bs, bs) # utf8_chunks (drop (n - 1) cs))"
  by pat_completeness auto
termination
  by (relation "measure length") auto

lemma concat_utf8_chunks: "concat (map snd (utf8_chunks s)) = s"
  by (induction s rule: utf8_chunks.induct) (simp_all add: Let_def)

text \<open>\<open>s.replace(/[^...]+/g, ' ')\<close>: every maximal run of dropped code points becomes one blank.\<close>

fun squash :: "(nat \<Rightarrow> bool) \<Rightarrow> bool \<Rightarrow> (nat \<times> string) list \<Rightarrow> string" where
  "squash keep inrun [] = []"
| "squash keep inrun ((p, bs) # cs) =
     (if keep p then bs @ squash keep False cs
      else if inrun then squash keep True cs else CHR 0x20 # squash keep True cs)"

text \<open>\<open>s.replace(/[^...]+/g, '')\<close>.\<close>

definition keep_points :: "(nat \<Rightarrow> bool) \<Rightarrow> string \<Rightarrow> string" where
  "keep_points keep s = concat (map snd (filter (\<lambda>(p, _). keep p) (utf8_chunks s)))"

subsection \<open>Regular expressions\<close>

datatype regex =
    RSet "char list"
  | RNot "char list"
  | RDot
  | RSpace
  | RNonSpace
  | RStr string
  | RSeq regex regex
  | RAlt regex regex
  | RStar regex
  | RBegin
  | REnd
  | RWordB

abbreviation "ROpt r \<equiv> RAlt r (RStr [])"
abbreviation "RPlus r \<equiv> RSeq r (RStar r)"

definition is_word_char :: "char \<Rightarrow> bool" where
  "is_word_char c \<longleftrightarrow> (let n = (of_char c :: nat) in
     (48 \<le> n \<and> n \<le> 57) \<or> (65 \<le> n \<and> n \<le> 90) \<or> (97 \<le> n \<and> n \<le> 122) \<or> n = 95)"

text \<open>A position in a string: the reversed text before it and the text from it on.\<close>

type_synonym pos = "string \<times> string"

fun step_char :: "(char \<Rightarrow> bool) \<Rightarrow> pos \<Rightarrow> pos list" where
  "step_char P (pre, []) = []"
| "step_char P (pre, c # cs) = (if P c then [(c # pre, cs)] else [])"

fun step_str :: "string \<Rightarrow> pos \<Rightarrow> pos list" where
  "step_str [] q = [q]"
| "step_str (x # xs) (pre, []) = []"
| "step_str (x # xs) (pre, c # cs) = (if x = c then step_str xs (c # pre, cs) else [])"

definition at_word_boundary :: "pos \<Rightarrow> bool" where
  "at_word_boundary q \<longleftrightarrow>
     (case fst q of [] \<Rightarrow> False | c # _ \<Rightarrow> is_word_char c)
       \<noteq> (case snd q of [] \<Rightarrow> False | c # _ \<Rightarrow> is_word_char c)"

text \<open>Iterate a step that must consume; the fuel is the length of the remaining text.\<close>

fun star_steps :: "nat \<Rightarrow> (pos \<Rightarrow> pos list) \<Rightarrow> pos \<Rightarrow> pos list" where
  "star_steps 0 f q = [q]"
| "star_steps (Suc n) f q =
     q # concat (map (star_steps n f) (filter (\<lambda>r. length (snd r) < length (snd q)) (f q)))"

primrec rmatch :: "regex \<Rightarrow> pos \<Rightarrow> pos list" where
  "rmatch (RSet cs) q = step_char (\<lambda>c. c \<in> set cs) q"
| "rmatch (RNot cs) q = step_char (\<lambda>c. c \<notin> set cs) q"
| "rmatch RDot q = step_char (\<lambda>c. (of_char c :: nat) \<noteq> 10 \<and> (of_char c :: nat) \<noteq> 13) q"
| "rmatch RSpace q = step_char is_space q"
| "rmatch RNonSpace q = step_char (\<lambda>c. \<not> is_space c) q"
| "rmatch (RStr s) q = step_str s q"
| "rmatch (RSeq a b) q = concat (map (rmatch b) (rmatch a q))"
| "rmatch (RAlt a b) q = rmatch a q @ rmatch b q"
| "rmatch (RStar a) q = star_steps (length (snd q)) (rmatch a) q"
| "rmatch RBegin q = (if fst q = [] then [q] else [])"
| "rmatch REnd q = (if snd q = [] then [q] else [])"
| "rmatch RWordB q = (if at_word_boundary q then [q] else [])"

fun scan :: "regex \<Rightarrow> string \<Rightarrow> string \<Rightarrow> bool" where
  "scan r pre [] = (rmatch r (pre, []) \<noteq> [])"
| "scan r pre (c # cs) = (rmatch r (pre, c # cs) \<noteq> [] \<or> scan r (c # pre) cs)"

text \<open>\<open>pattern.test(s)\<close>.\<close>

definition rtest :: "regex \<Rightarrow> string \<Rightarrow> bool" where
  "rtest r s = scan r [] s"

fun ralts :: "string list \<Rightarrow> regex" where
  "ralts [] = RSet []"
| "ralts [s] = RStr s"
| "ralts (s # t # ss) = RAlt (RStr s) (ralts (t # ss))"

fun rseqs :: "regex list \<Rightarrow> regex" where
  "rseqs [] = RStr []"
| "rseqs [r] = r"
| "rseqs (r # q # rs) = RSeq r (rseqs (q # rs))"

text \<open>A literal occurs exactly where \<open>includes\<close> finds it.\<close>

lemma step_str_nonempty: "step_str x (pre, s) \<noteq> [] \<longleftrightarrow> starts_with x s"
proof (induction x arbitrary: pre s)
  case Nil
  show ?case by simp
next
  case (Cons a x)
  then show ?case by (cases s) auto
qed

lemma scan_RStr: "scan (RStr x) pre s \<longleftrightarrow> contains x s"
proof (induction s arbitrary: pre)
  case Nil
  show ?case by (cases x) auto
next
  case (Cons c cs)
  then show ?case by (simp add: step_str_nonempty)
qed

lemma rtest_RStr: "rtest (RStr x) s \<longleftrightarrow> contains x s"
  by (simp add: rtest_def scan_RStr)

lemma scan_RSet: "scan (RSet cs) pre s \<longleftrightarrow> (\<exists>c \<in> set s. c \<in> set cs)"
  by (induction s arbitrary: pre) auto

lemma rtest_RSet: "rtest (RSet cs) s \<longleftrightarrow> (\<exists>c \<in> set s. c \<in> set cs)"
  by (simp add: rtest_def scan_RSet)

lemma scan_RAlt: "scan (RAlt a b) pre s \<longleftrightarrow> scan a pre s \<or> scan b pre s"
  by (induction s arbitrary: pre) auto

lemma rtest_RAlt: "rtest (RAlt a b) s \<longleftrightarrow> rtest a s \<or> rtest b s"
  by (simp add: rtest_def scan_RAlt)

end
