(* ===== verification/Second_Opinion.thy ===== *)
theory Second_Opinion
  imports Delivery_Contracts Js_Text
begin

text \<open>
  \<open>loops-quality/loops-second-opinion-comparison.util.ts\<close>: the findings of the primary and
  of the secondary reviewer are reduced to one finding per fingerprint and compared.
  \<open>sha16\<close> stands for the first 16 hex digits of SHA-256, which \<open>crypto\<close> computes.
\<close>

definition fingerprint_point :: "nat \<Rightarrow> bool" where
  "fingerprint_point p \<longleftrightarrow>
     (97 \<le> p \<and> p \<le> 122) \<or> (48 \<le> p \<and> p \<le> 57) \<or> (0x4E00 \<le> p \<and> p \<le> 0x9FFF)"

definition normalizeSecondOpinionFingerprint ::
    "(string \<Rightarrow> string) \<Rightarrow> string \<Rightarrow> string option \<Rightarrow> string" where
  "normalizeSecondOpinionFingerprint sha16 desc fingerprint =
     (let explicit = (case fingerprint of None \<Rightarrow> [] | Some f \<Rightarrow> js_trim f) in
      if explicit \<noteq> [] then to_lower explicit
      else let normalizedDesc =
             js_trim (squash fingerprint_point False (utf8_chunks (to_lower desc)))
           in sha16 (if normalizedDesc \<noteq> [] then normalizedDesc else desc))"

text \<open>\<open>dedupeFindings\<close>: the first finding of the highest severity wins and keeps its place.\<close>

definition dedupe_step :: "(string \<times> so_finding) list \<Rightarrow> so_finding \<Rightarrow> (string \<times> so_finding) list" where
  "dedupe_step m f = (case map_of m (sf_fingerprint f) of
     None \<Rightarrow> AList.update (sf_fingerprint f) f m
   | Some existing \<Rightarrow>
       if severityRank (sf_severity f) > severityRank (sf_severity existing)
       then AList.update (sf_fingerprint f) f m else m)"

definition dedupeFindings :: "so_finding list \<Rightarrow> so_finding list" where
  "dedupeFindings fs = map snd (foldl dedupe_step [] fs)"

definition finding_of :: "(string \<Rightarrow> string) \<Rightarrow> string \<Rightarrow> review_issue \<Rightarrow> so_finding" where
  "finding_of sha16 src iss = \<lparr>
     sf_fingerprint = normalizeSecondOpinionFingerprint sha16 (ri_desc iss) None,
     sf_severity = ri_severity iss, sf_desc = ri_desc iss, sf_sourceEvidenceId = Some src\<rparr>"

definition buildPrimarySecondOpinionFindings ::
    "(string \<Rightarrow> string) \<Rightarrow> loop_review_record list \<Rightarrow> loop_global_review_record option \<Rightarrow> so_finding list" where
  "buildPrimarySecondOpinionFindings sha16 reviewRecords globalReview =
     dedupeFindings
       (concat (map (\<lambda>r. map (finding_of sha16 (rr_id r)) (rr_issues r)) reviewRecords)
        @ (case globalReview of None \<Rightarrow> []
           | Some g \<Rightarrow> map (finding_of sha16 (gr_id g)) (gr_issues g)))"

definition buildSecondarySecondOpinionFindings ::
    "(string \<Rightarrow> string) \<Rightarrow> (loop_severity \<times> string \<times> string option) list \<Rightarrow> so_finding list" where
  "buildSecondarySecondOpinionFindings sha16 findings = dedupeFindings
     (map (\<lambda>(sev, desc, fp). \<lparr>sf_fingerprint = normalizeSecondOpinionFingerprint sha16 desc fp,
        sf_severity = sev, sf_desc = desc, sf_sourceEvidenceId = None\<rparr>) findings)"

text \<open>\<open>new Map(findings.map((f) => [f.fingerprint, f]))\<close>: the last finding of a fingerprint wins.\<close>

definition by_fingerprint :: "so_finding list \<Rightarrow> (string \<times> so_finding) list" where
  "by_fingerprint fs = foldl (\<lambda>m f. AList.update (sf_fingerprint f) f m) [] fs"

definition compareSecondOpinionFindings ::
    "so_finding list \<Rightarrow> so_finding list \<Rightarrow> so_comparison" where
  "compareSecondOpinionFindings primary secondary =
     (let P = by_fingerprint primary; S = by_fingerprint secondary;
          agreement = map fst (filter (\<lambda>(k, f). case map_of S k of None \<Rightarrow> False
             | Some g \<Rightarrow> sf_severity f = sf_severity g) P);
          conflict = map fst (filter (\<lambda>(k, f). case map_of S k of None \<Rightarrow> False
             | Some g \<Rightarrow> sf_severity f \<noteq> sf_severity g) P);
          primaryOnly = map fst (filter (\<lambda>(k, f). map_of S k = None) P);
          secondaryOnly = filter (\<lambda>k. map_of P k = None) (map fst S)
      in \<lparr>sc_agreementCount = length agreement, sc_primaryOnlyCount = length primaryOnly,
          sc_secondaryOnlyCount = length secondaryOnly, sc_conflictCount = length conflict,
          sc_agreementFingerprints = agreement, sc_primaryOnlyFingerprints = primaryOnly,
          sc_secondaryOnlyFingerprints = secondaryOnly, sc_conflictFingerprints = conflict\<rparr>)"

subsection \<open>Findings as maps\<close>

lemma distinct_foldl_by_fingerprint:
  "distinct (map fst m) \<Longrightarrow>
   distinct (map fst (foldl (\<lambda>m f. AList.update (sf_fingerprint f) f m) m fs))"
  by (induction fs arbitrary: m) (simp_all add: distinct_update)

lemma distinct_by_fingerprint [simp]: "distinct (map fst (by_fingerprint fs))"
  by (simp add: by_fingerprint_def distinct_foldl_by_fingerprint)

lemma dom_foldl_by_fingerprint:
  "dom (map_of (foldl (\<lambda>m f. AList.update (sf_fingerprint f) f m) m fs))
   = dom (map_of m) \<union> sf_fingerprint ` set fs"
  by (induction fs arbitrary: m) auto

lemma keys_by_fingerprint: "fst ` set (by_fingerprint fs) = sf_fingerprint ` set fs"
proof -
  have "dom (map_of (by_fingerprint fs)) = sf_fingerprint ` set fs"
    unfolding by_fingerprint_def by (subst dom_foldl_by_fingerprint) simp
  then show ?thesis by (simp add: dom_map_of_conv_image_fst)
qed

lemma map_of_by_fingerprint_None:
  "map_of (by_fingerprint fs) k = None \<longleftrightarrow> k \<notin> sf_fingerprint ` set fs"
  by (simp add: map_of_eq_None_iff keys_by_fingerprint)

lemmas comparison_defs = compareSecondOpinionFindings_def Let_def

definition shares :: "(loop_severity \<Rightarrow> loop_severity \<Rightarrow> bool) \<Rightarrow> so_finding list \<Rightarrow> so_finding list \<Rightarrow> string set" where
  "shares R p s = {k. \<exists>f g. map_of (by_fingerprint p) k = Some f \<and> map_of (by_fingerprint s) k = Some g
     \<and> R (sf_severity f) (sf_severity g)}"

lemma in_by_fingerprint: "(k, f) \<in> set (by_fingerprint fs) \<longleftrightarrow> map_of (by_fingerprint fs) k = Some f"
  by (rule map_of_eq_Some_iff [OF distinct_by_fingerprint, symmetric])

lemma set_keys_filter: "k \<in> set (map fst (filter Q m)) \<longleftrightarrow> (\<exists>f. (k, f) \<in> set m \<and> Q (k, f))"
  by force

lemma set_shared:
  "set (map fst (filter (\<lambda>(k, f). case map_of (by_fingerprint s) k of None \<Rightarrow> False
     | Some g \<Rightarrow> R (sf_severity f) (sf_severity g)) (by_fingerprint p))) = shares R p s"
proof (rule set_eqI)
  fix k
  show "k \<in> set (map fst (filter (\<lambda>(k, f). case map_of (by_fingerprint s) k of None \<Rightarrow> False
     | Some g \<Rightarrow> R (sf_severity f) (sf_severity g)) (by_fingerprint p))) \<longleftrightarrow> k \<in> shares R p s"
    unfolding set_keys_filter in_by_fingerprint shares_def mem_Collect_eq split_conv
    by (cases "map_of (by_fingerprint s) k") simp_all
qed

lemma agreement_set:
  "set (sc_agreementFingerprints (compareSecondOpinionFindings p s)) = shares (=) p s"
  using set_shared [where s = s and R = "(=)" and p = p] by (simp add: comparison_defs)

lemma conflict_set:
  "set (sc_conflictFingerprints (compareSecondOpinionFindings p s)) = shares (\<noteq>) p s"
  using set_shared [where s = s and R = "(\<noteq>)" and p = p] by (simp add: comparison_defs)

lemma primaryOnly_set:
  "set (sc_primaryOnlyFingerprints (compareSecondOpinionFindings p s))
   = sf_fingerprint ` set p - sf_fingerprint ` set s"
proof -
  have "set (map fst (filter (\<lambda>(k, f). map_of (by_fingerprint s) k = None) (by_fingerprint p)))
    = {k \<in> fst ` set (by_fingerprint p). map_of (by_fingerprint s) k = None}"
    by force
  then show ?thesis
    by (auto simp: comparison_defs keys_by_fingerprint map_of_by_fingerprint_None)
qed

lemma secondaryOnly_set:
  "set (sc_secondaryOnlyFingerprints (compareSecondOpinionFindings p s))
   = sf_fingerprint ` set s - sf_fingerprint ` set p"
  by (auto simp: comparison_defs keys_by_fingerprint map_of_by_fingerprint_None)

lemma shares_dom: "shares (=) p s \<union> shares (\<noteq>) p s = sf_fingerprint ` set p \<inter> sf_fingerprint ` set s"
proof -
  have "k \<in> shares (=) p s \<union> shares (\<noteq>) p s
      \<longleftrightarrow> map_of (by_fingerprint p) k \<noteq> None \<and> map_of (by_fingerprint s) k \<noteq> None" for k
    unfolding shares_def by blast
  then show ?thesis by (auto simp: map_of_by_fingerprint_None simp del: map_of_eq_Some_iff)
qed

lemma shares_disjoint: "shares (=) p s \<inter> shares (\<noteq>) p s = {}"
proof -
  have False if "k \<in> shares (=) p s" "k \<in> shares (\<noteq>) p s" for k
  proof -
    from that(1) obtain f g where "map_of (by_fingerprint p) k = Some f"
        "map_of (by_fingerprint s) k = Some g" "sf_severity f = sf_severity g"
      unfolding shares_def by blast
    moreover from that(2) obtain f' g' where "map_of (by_fingerprint p) k = Some f'"
        "map_of (by_fingerprint s) k = Some g'" "sf_severity f' \<noteq> sf_severity g'"
      unfolding shares_def by blast
    ultimately show False by (metis option.inject)
  qed
  then show ?thesis by blast
qed

lemma shares_sym:
  "(\<And>a b. R a b = R b a) \<Longrightarrow> shares R p s = shares R s p"
  unfolding shares_def by blast

text \<open>
  The comparison partitions the findings: every fingerprint of the primary review is
  an agreement, a conflict or the primary's alone, every fingerprint of the secondary review
  an agreement, a conflict or the secondary's alone, and no fingerprint is counted twice.
\<close>

theorem second_opinion_partition:
  "let c = compareSecondOpinionFindings p s in
     set (sc_agreementFingerprints c) \<union> set (sc_conflictFingerprints c)
       \<union> set (sc_primaryOnlyFingerprints c) = sf_fingerprint ` set p
   \<and> set (sc_agreementFingerprints c) \<union> set (sc_conflictFingerprints c)
       \<union> set (sc_secondaryOnlyFingerprints c) = sf_fingerprint ` set s
   \<and> distinct (sc_agreementFingerprints c @ sc_conflictFingerprints c
       @ sc_primaryOnlyFingerprints c @ sc_secondaryOnlyFingerprints c)"
  unfolding Let_def
proof (intro conjI)
  let ?c = "compareSecondOpinionFindings p s"
  note sets = agreement_set conflict_set primaryOnly_set secondaryOnly_set
  show "set (sc_agreementFingerprints ?c) \<union> set (sc_conflictFingerprints ?c)
      \<union> set (sc_primaryOnlyFingerprints ?c) = sf_fingerprint ` set p"
    unfolding sets shares_dom by blast
  show "set (sc_agreementFingerprints ?c) \<union> set (sc_conflictFingerprints ?c)
      \<union> set (sc_secondaryOnlyFingerprints ?c) = sf_fingerprint ` set s"
    unfolding sets shares_dom by blast
  have "distinct (sc_agreementFingerprints ?c)" "distinct (sc_conflictFingerprints ?c)"
    "distinct (sc_primaryOnlyFingerprints ?c)" "distinct (sc_secondaryOnlyFingerprints ?c)"
    by (simp_all add: comparison_defs distinct_map_filter)
  moreover have "shares (=) p s \<subseteq> sf_fingerprint ` set p \<inter> sf_fingerprint ` set s"
    "shares (\<noteq>) p s \<subseteq> sf_fingerprint ` set p \<inter> sf_fingerprint ` set s"
    using shares_dom [of p s] by blast+
  ultimately show "distinct (sc_agreementFingerprints ?c @ sc_conflictFingerprints ?c
      @ sc_primaryOnlyFingerprints ?c @ sc_secondaryOnlyFingerprints ?c)"
    using shares_disjoint [of p s] unfolding distinct_append set_append sets by blast
qed

text \<open>
  Swapping the reviewers swaps the one-sided lists and keeps agreements and
  conflicts.
\<close>

theorem second_opinion_symmetric:
  "set (sc_agreementFingerprints (compareSecondOpinionFindings p s))
     = set (sc_agreementFingerprints (compareSecondOpinionFindings s p))
   \<and> set (sc_conflictFingerprints (compareSecondOpinionFindings p s))
     = set (sc_conflictFingerprints (compareSecondOpinionFindings s p))
   \<and> set (sc_primaryOnlyFingerprints (compareSecondOpinionFindings p s))
     = set (sc_secondaryOnlyFingerprints (compareSecondOpinionFindings s p))"
  unfolding agreement_set conflict_set primaryOnly_set secondaryOnly_set
  using shares_sym [where R = "(=)" and p = p and s = s]
    shares_sym [where R = "(\<noteq>)" and p = p and s = s] by blast

subsection \<open>Deduplication keeps the highest severity\<close>

definition dedupe_inv :: "so_finding list \<Rightarrow> (string \<times> so_finding) list \<Rightarrow> bool" where
  "dedupe_inv fs m \<longleftrightarrow> distinct (map fst m)
     \<and> (\<forall>k f. map_of m k = Some f \<longrightarrow> f \<in> set fs \<and> sf_fingerprint f = k)
     \<and> (\<forall>f \<in> set fs. \<exists>g. map_of m (sf_fingerprint f) = Some g \<and> sf_severity f \<le> sf_severity g)"

lemma dedupe_inv_step: "dedupe_inv fs m \<Longrightarrow> dedupe_inv (fs @ [f]) (dedupe_step m f)"
proof (cases "map_of m (sf_fingerprint f)")
  case None
  assume "dedupe_inv fs m"
  with None show ?thesis
    by (auto simp: dedupe_inv_def dedupe_step_def distinct_update)
next
  case (Some e)
  assume inv: "dedupe_inv fs m"
  show ?thesis
  proof (cases "severityRank (sf_severity f) > severityRank (sf_severity e)")
    case True
    have keep: "\<exists>h. ((map_of m)(sf_fingerprint f \<mapsto> f)) (sf_fingerprint g) = Some h
        \<and> sf_severity g \<le> sf_severity h" if "g \<in> set fs" for g
    proof (cases "sf_fingerprint g = sf_fingerprint f")
      case same: True
      from inv that obtain h where "map_of m (sf_fingerprint g) = Some h" "sf_severity g \<le> sf_severity h"
        by (auto simp: dedupe_inv_def)
      with Some True same show ?thesis by (auto simp: less_eq_loop_severity_def)
    next
      case False
      with inv that show ?thesis by (auto simp: dedupe_inv_def)
    qed
    with inv Some True show ?thesis
      by (auto simp: dedupe_inv_def dedupe_step_def distinct_update)
  next
    case False
    with inv Some show ?thesis
      by (auto simp: dedupe_inv_def dedupe_step_def less_eq_loop_severity_def)
  qed
qed

lemma dedupe_inv_foldl: "dedupe_inv fs (foldl dedupe_step [] fs)"
  by (induction fs rule: rev_induct) (auto simp: dedupe_inv_step dedupe_inv_def [of "[]"])

lemma map_fingerprint_snd:
  assumes "dedupe_inv fs m"
  shows "map sf_fingerprint (map snd m) = map fst m"
proof -
  have "sf_fingerprint (snd x) = fst x" if "x \<in> set m" for x
    using assms that by (cases x) (auto simp: dedupe_inv_def)
  then show ?thesis by simp
qed

text \<open>
  Deduplication returns findings of the input only, at most one per fingerprint, and
  for every input finding one of the same fingerprint that is at least as severe: no blocker
  is hidden by a milder duplicate.
\<close>

theorem dedupe_keeps_worst:
  "set (dedupeFindings fs) \<subseteq> set fs
   \<and> distinct (map sf_fingerprint (dedupeFindings fs))
   \<and> (\<forall>f \<in> set fs. \<exists>g \<in> set (dedupeFindings fs).
        sf_fingerprint g = sf_fingerprint f \<and> sf_severity f \<le> sf_severity g)"
proof (intro conjI ballI)
  note inv = dedupe_inv_foldl [of fs]
  show "set (dedupeFindings fs) \<subseteq> set fs"
    using inv by (auto simp: dedupeFindings_def dedupe_inv_def)
  show "distinct (map sf_fingerprint (dedupeFindings fs))"
    using inv unfolding dedupeFindings_def map_fingerprint_snd [OF inv] dedupe_inv_def by (rule conjunct1)
  fix f assume "f \<in> set fs"
  with inv obtain g where g: "map_of (foldl dedupe_step [] fs) (sf_fingerprint f) = Some g"
      "sf_severity f \<le> sf_severity g"
    by (auto simp: dedupe_inv_def)
  moreover have "sf_fingerprint g = sf_fingerprint f"
    using inv g(1) by (auto simp: dedupe_inv_def)
  moreover have "g \<in> set (dedupeFindings fs)"
    using map_of_SomeD [OF g(1)] by (force simp: dedupeFindings_def)
  ultimately show "\<exists>g \<in> set (dedupeFindings fs).
        sf_fingerprint g = sf_fingerprint f \<and> sf_severity f \<le> sf_severity g"
    by blast
qed

theorem dedupe_keeps_worst_witness:
  "\<exists>g \<in> set (dedupeFindings
     [\<lparr>sf_fingerprint = ''a'', sf_severity = MINOR, sf_desc = ''x'', sf_sourceEvidenceId = None\<rparr>,
      \<lparr>sf_fingerprint = ''a'', sf_severity = CRITICAL, sf_desc = ''y'', sf_sourceEvidenceId = None\<rparr>]).
     sf_fingerprint g = ''a'' \<and> CRITICAL \<le> sf_severity g"
  using dedupe_keeps_worst [of "[\<lparr>sf_fingerprint = ''a'', sf_severity = MINOR, sf_desc = ''x'',
      sf_sourceEvidenceId = None\<rparr>, \<lparr>sf_fingerprint = ''a'', sf_severity = CRITICAL, sf_desc = ''y'',
      sf_sourceEvidenceId = None\<rparr>]"]
  by simp

end
