(* ===== verification/Learning_Memory.thy ===== *)
theory Learning_Memory
  imports Delivery_Contracts Js_Text "HOL-Library.Char_ord" "HOL-Library.List_Lexorder"
begin

text \<open>
  \<open>loops-store/loops-learning-memory.util.ts\<close>: tags and fingerprint of a learning, and the
  suggestion of similar learnings by tag overlap. \<open>sha16\<close> stands for the first 16 hex digits
  of SHA-256, which \<open>crypto\<close> computes. Scores are exact rationals where JavaScript
  has doubles, and ids are compared byte-wise where \<open>localeCompare\<close> is used.
\<close>

definition SIMILARITY_THRESHOLD :: rat where
  "SIMILARITY_THRESHOLD = 38 / 100"

definition STOP_WORDS :: "string list" where
  "STOP_WORDS = [''and'', ''before'', ''this'', ''that'', ''the'', ''with'', ''for'', ''from'',
     ''loop'', ''loops'', ''was'', ''were'', [CHR 0xE5, CHR 0xB7, CHR 0xB2, CHR 0xE5, CHR 0xAE, CHR 0x8C, CHR 0xE6, CHR 0x88, CHR 0x90]]"

definition tag_point :: "nat \<Rightarrow> bool" where
  "tag_point p \<longleftrightarrow>
     (97 \<le> p \<and> p \<le> 122) \<or> (48 \<le> p \<and> p \<le> 57) \<or> (0x4E00 \<le> p \<and> p \<le> 0x9FFF)"

fun learning_kind_str :: "learning_kind \<Rightarrow> string" where
  "learning_kind_str LK_PATTERN = ''pattern''"
| "learning_kind_str LK_PITFALL = ''pitfall''"
| "learning_kind_str LK_DECISION = ''decision''"
| "learning_kind_str LK_TEST_POLICY = ''test_policy''"
| "learning_kind_str LK_OWNERSHIP = ''ownership''"
| "learning_kind_str LK_SECURITY = ''security''"

text \<open>
  Splitting at the runs of other characters is squashing each run to one blank and splitting
  at the blanks; \<open>token.length\<close> counts code points.
\<close>

definition buildLearningTags :: "loop_learning \<Rightarrow> string list" where
  "buildLearningTags l =
     (let text = to_lower (learning_kind_str (ln_kind l) @ '' '' @ case_option [] id (ln_repo l)
            @ '' '' @ ln_summary l);
          rawTokens = filter (\<lambda>t. length (utf8_chunks t) \<ge> 3 \<and> t \<notin> set STOP_WORDS)
            (map js_trim (js_split '' '' (squash tag_point False (utf8_chunks text))))
      in take 12 (js_set rawTokens))"

definition buildLearningFingerprint :: "(string \<Rightarrow> string) \<Rightarrow> loop_learning \<Rightarrow> string list \<Rightarrow> string" where
  "buildLearningFingerprint sha16 l tags =
     sha16 (js_join ''|'' ([ln_workspaceId l, case_option [] id (ln_repo l),
        learning_kind_str (ln_kind l)] @ tags))"

definition enrichLoopLearning :: "(string \<Rightarrow> string) \<Rightarrow> loop_learning \<Rightarrow> loop_learning" where
  "enrichLoopLearning sha16 l =
     (let tags = (case ln_tags l of Some (t # ts) \<Rightarrow> t # ts | _ \<Rightarrow> buildLearningTags l)
      in l\<lparr>ln_fingerprint := Some (case ln_fingerprint l of Some f \<Rightarrow> f
             | None \<Rightarrow> buildLearningFingerprint sha16 l tags),
           ln_tags := Some tags\<rparr>)"

definition learningSimilarity :: "loop_learning \<Rightarrow> loop_learning \<Rightarrow> rat" where
  "learningSimilarity a b =
     (let aTags = js_set (case_option [] id (ln_tags a));
          bTags = js_set (case_option [] id (ln_tags b));
          union = js_set (aTags @ bTags)
      in if length union = 0 then 0
         else let intersection = length (filter (\<lambda>t. t \<in> set bTags) aTags);
                  base = of_nat intersection / of_nat (length union);
                  kindBoost = (if ln_kind a = ln_kind b then 18 / 100 else 0);
                  repoBoost = (case (ln_repo a, ln_repo b) of
                     (Some r, Some q) \<Rightarrow> if r \<noteq> [] \<and> q \<noteq> [] \<and> r = q then 12 / 100 else 0
                   | _ \<Rightarrow> 0)
              in min 1 (base + kindBoost + repoBoost))"

definition similar_to :: "loop_learning list \<Rightarrow> loop_learning \<Rightarrow> string list" where
  "similar_to enriched l =
     (let scored = filter (\<lambda>(i, s). s \<ge> SIMILARITY_THRESHOLD)
            (map (\<lambda>c. (ln_id c, learningSimilarity l c)) (filter (\<lambda>c. ln_id c \<noteq> ln_id l) enriched))
      in map fst (take 3 (sort_key (\<lambda>(i, s). - s) (sort_key fst scored))))"

definition withLearningSimilaritySuggestions ::
    "(string \<Rightarrow> string) \<Rightarrow> loop_learning list \<Rightarrow> loop_learning list" where
  "withLearningSimilaritySuggestions sha16 ls =
     (let enriched = map (enrichLoopLearning sha16) ls
      in map (\<lambda>l. l\<lparr>ln_similarLearningIds := Some (similar_to enriched l)\<rparr>) enriched)"

subsection \<open>Enrichment is idempotent, similarity symmetric\<close>

lemma enrich_idem: "enrichLoopLearning sha16 (enrichLoopLearning sha16 l) = enrichLoopLearning sha16 l"
proof (cases "ln_tags (enrichLoopLearning sha16 l)")
  case None
  then show ?thesis by (simp add: enrichLoopLearning_def Let_def)
next
  case (Some ts)
  show ?thesis
  proof (cases ts)
    case Nil
    have "ts = (case ln_tags l of Some (t # ts) \<Rightarrow> t # ts | _ \<Rightarrow> buildLearningTags l)"
      using Some by (simp add: enrichLoopLearning_def Let_def)
    with Nil have "buildLearningTags l = []"
      by (auto split: option.splits list.splits)
    with Some Nil show ?thesis
      by (auto simp: enrichLoopLearning_def Let_def buildLearningTags_def split: option.splits list.splits)
  next
    case (Cons t us)
    with Some show ?thesis
      by (simp add: enrichLoopLearning_def Let_def)
  qed
qed

lemma length_js_set: "length (js_set xs) = card (set xs)"
  by (metis distinct_card distinct_js_set set_js_set)

lemma length_filter_mem: "distinct xs \<Longrightarrow> length (filter (\<lambda>t. t \<in> A) xs) = card (set xs \<inter> A)"
  by (metis distinct_card distinct_filter Int_commute inter_set_filter)

lemma learningSimilarity_sym: "learningSimilarity a b = learningSimilarity b a"
proof -
  let ?A = "case_option [] id (ln_tags a)" and ?B = "case_option [] id (ln_tags b)"
  have "length (js_set (js_set ?A @ js_set ?B)) = length (js_set (js_set ?B @ js_set ?A))"
    by (simp add: length_js_set Un_commute)
  moreover have "length (filter (\<lambda>t. t \<in> set (js_set ?B)) (js_set ?A))
      = length (filter (\<lambda>t. t \<in> set (js_set ?A)) (js_set ?B))"
    unfolding length_filter_mem [OF distinct_js_set] by (simp add: Int_commute)
  moreover have "(case (ln_repo a, ln_repo b) of
        (Some r, Some q) \<Rightarrow> (if r \<noteq> [] \<and> q \<noteq> [] \<and> r = q then 12 / 100 else 0) | _ \<Rightarrow> (0 :: rat))
    = (case (ln_repo b, ln_repo a) of
        (Some r, Some q) \<Rightarrow> (if r \<noteq> [] \<and> q \<noteq> [] \<and> r = q then 12 / 100 else 0) | _ \<Rightarrow> 0)"
    by (simp split: option.split)
  ultimately show ?thesis
    unfolding learningSimilarity_def Let_def by (simp only: eq_commute [of "ln_kind a" "ln_kind b"])
qed

lemma learningSimilarity_bounds: "0 \<le> learningSimilarity a b \<and> learningSimilarity a b \<le> 1"
  unfolding learningSimilarity_def Let_def by (auto split: option.splits intro!: add_nonneg_nonneg)

text \<open>
  Suggestions are symmetric in strength, bounded and few: similarity is a symmetric
  score between 0 and 1, enrichment is idempotent, and a learning is never suggested as
  similar to itself, nor are more than three others.
\<close>

theorem learning_suggestions:
  "learningSimilarity a b = learningSimilarity b a
   \<and> 0 \<le> learningSimilarity a b \<and> learningSimilarity a b \<le> 1
   \<and> enrichLoopLearning sha16 (enrichLoopLearning sha16 a) = enrichLoopLearning sha16 a
   \<and> length (similar_to ls a) \<le> 3
   \<and> ln_id a \<notin> set (similar_to ls a)
   \<and> set (similar_to ls a) \<subseteq> ln_id ` set ls"
proof -
  have "set (similar_to ls a) \<subseteq> ln_id ` {c \<in> set ls. ln_id c \<noteq> ln_id a}"
    unfolding similar_to_def Let_def
    by (auto dest!: in_set_takeD)
  moreover have "length (similar_to ls a) \<le> 3"
    by (simp add: similar_to_def Let_def)
  ultimately show ?thesis
    using learningSimilarity_sym [of a b] learningSimilarity_bounds [of a b] enrich_idem [of sha16 a]
    by auto
qed

end
