(* ===== verification/File_Store.thy ===== *)
theory File_Store
  imports Runtime_Config Learning_Memory
begin

text \<open>
  \<open>loops-store/loops-file-store.service.ts\<close>: the \<open>.loops\<close> directory. The record \<open>fs\<close> holds one
  association list per kind of JSON file, keyed by what the file's path varies in; the order
  of a list stands for the order \<open>readdir\<close> lists the directory in. A JSON file is absent or
  holds a value of its schema (a corrupt file is not modelled). The Markdown and YAML files
  are written beside the JSON files and never read back: \<open>fs_texts\<close> keeps, per path, what was
  rendered. \<open>log.jsonl\<close> is the list of its lines.

  The environment \<open>store_env\<close> holds what the service asks of the outside: the runtime
  configuration, the clock and the random source (arbitrary streams, read one by one),
  SHA-256, the notification sender and the number formatting of template strings. Writes never
  fail in the model and are functions on \<open>fs\<close>, composed left to right by \<open>in_order\<close>. The field
  \<open>fs_locks\<close> is not a file: it is the lock set the process keeps in memory beside the store.
\<close>

subsection \<open>The files\<close>

datatype ci_outcome = CI_PUBLISHED | CI_FAILED

record ci_publication =
  pub_artifactRef :: string
  pub_integrationId :: string
  pub_provider :: "pr_provider option"
  pub_headSha :: "string option"
  pub_checkRunId :: "string option"
  pub_url :: "string option"
  pub_outcome :: ci_outcome
  pub_reason :: "string option"
  pub_issueId :: "string option"
  pub_prId :: "string option"
  pub_evidenceBacklink :: "string option"
  pub_request :: "(string \<times> json) list"
  pub_workPackageCommitMap :: "(string \<times> json) list list"
  pub_publishedAt :: timestamp

datatype text_doc =
    IssueMd loop_issue
  | IntakeMd loop_intake loop_issue
  | BodyMd string
  | DagYaml "loop_shard list"
  | ShardMd loop_shard
  | MatrixMd loop_test_matrix
  | AnnotationsYaml "loop_annotation list"
  | TestRecordMd loop_test_record
  | ImplementationMd loop_implementation_record
  | ReviewMd loop_review_record
  | GlobalReviewMd loop_global_review_record
  | LearningsMd "loop_learning list"
  | BrowserQaMd loop_browser_qa_report
  | SecondOpinionMd loop_second_opinion
  | GovernanceMd loop_delivery_governance
  | NotificationMd loop_notification
  | CiPublicationFile ci_publication

record ci_publication_index =
  ix_integrationId :: string
  ix_latest :: "ci_publication option"
  ix_entries :: "ci_publication list"
  ix_updatedAt :: "timestamp option"

record store_env =
  env_config :: loops_runtime_config
  env_now :: "nat \<Rightarrow> timestamp"
  env_random :: "nat \<Rightarrow> string"
  env_sha16 :: "string \<Rightarrow> string"
  env_send :: "loop_notification \<Rightarrow> notification_status"
  env_num :: "rat \<Rightarrow> string"
  env_iso :: "timestamp \<Rightarrow> string"

record fs =
  fs_env :: store_env
  fs_ticks :: nat
  fs_draws :: nat
  fs_issues :: "(string \<times> loop_issue) list"
  fs_intakes :: "(string \<times> loop_intake) list"
  fs_rawPayloads :: "(string \<times> json) list"
  fs_recipes :: "(string \<times> loop_workflow_recipe) list"
  fs_states :: "(string \<times> loop_state_item) list"
  fs_legacyState :: "loop_state_item list option"
  fs_specs :: "((string \<times> string) \<times> loop_spec) list"
  fs_shards :: "(string \<times> loop_shard list) list"
  fs_matrices :: "(string \<times> loop_test_matrix) list"
  fs_annotations :: "(string \<times> loop_annotation list) list"
  fs_testRecords :: "((string \<times> string) \<times> loop_test_record) list"
  fs_implRecords :: "((string \<times> string \<times> nat) \<times> loop_implementation_record) list"
  fs_reviewRecords :: "((string \<times> string \<times> nat) \<times> loop_review_record) list"
  fs_reviewHistory :: "(((string \<times> string \<times> nat) \<times> string) \<times> loop_review_record) list"
  fs_globalReviews :: "(string \<times> loop_global_review_record) list"
  fs_prs :: "(string \<times> loop_convergence_pr) list"
  fs_learnings :: "(string \<times> loop_learning list) list"
  fs_browserQa :: "((string \<times> string) \<times> loop_browser_qa_report) list"
  fs_secondOpinions :: "(string \<times> loop_second_opinion) list"
  fs_governance :: "(string \<times> loop_delivery_governance) list"
  fs_learningGovernance :: "loop_learning_governance option"
  fs_workflowDefaults :: "workflow_default list option"
  fs_ciIndexes :: "(string \<times> ci_publication_index) list"
  fs_notifications :: "((string \<times> string) \<times> loop_notification) list"
  fs_texts :: "(string \<times> text_doc) list"
  fs_log :: "log_line list"
  fs_locks :: "string set"

abbreviation "fs_cfg f \<equiv> env_config (fs_env f)"

subsection \<open>Labels of the enums in logs and messages\<close>

fun spec_status_str :: "loop_spec_status \<Rightarrow> string" where
  "spec_status_str SPEC_DRAFT = ''DRAFT''"
| "spec_status_str SPEC_APPROVED = ''APPROVED''"
| "spec_status_str SPEC_REVISION_REQUESTED = ''REVISION_REQUESTED''"
| "spec_status_str SPEC_REJECTED = ''REJECTED''"

fun shard_status_str :: "loop_shard_status \<Rightarrow> string" where
  "shard_status_str SHARD_TODO = ''TODO''"
| "shard_status_str SHARD_IN_PROGRESS = ''IN_PROGRESS''"
| "shard_status_str SHARD_IMPLEMENTED = ''IMPLEMENTED''"
| "shard_status_str SHARD_DONE = ''DONE''"
| "shard_status_str SHARD_NEEDS_WORK = ''NEEDS-WORK''"
| "shard_status_str SHARD_FAILED = ''FAILED''"
| "shard_status_str SHARD_BLOCKED = ''BLOCKED''"
| "shard_status_str SHARD_TIMEOUT = ''TIMEOUT''"

fun test_status_str :: "loop_test_status \<Rightarrow> string" where
  "test_status_str TEST_PASS = ''TEST-PASS''"
| "test_status_str TEST_MISSING = ''TEST-MISSING''"
| "test_status_str TEST_FAIL = ''TEST-FAIL''"
| "test_status_str TEST_FLAKY = ''TEST-FLAKY''"
| "test_status_str TEST_SKIPPED = ''SKIPPED''"

fun verdict_str :: "loop_verdict \<Rightarrow> string" where
  "verdict_str PASS = ''PASS''"
| "verdict_str NEEDS_WORK = ''NEEDS-WORK''"
| "verdict_str FAIL = ''FAIL''"

fun impl_record_status_str :: "impl_record_status \<Rightarrow> string" where
  "impl_record_status_str REC_IMPLEMENTED = ''IMPLEMENTED''"
| "impl_record_status_str REC_NEEDS_WORK = ''NEEDS-WORK''"

fun pr_status_str :: "pr_status \<Rightarrow> string" where
  "pr_status_str PR_DRAFT = ''DRAFT''"
| "pr_status_str PR_PUSHED = ''PUSHED''"
| "pr_status_str PR_OPENED = ''OPENED''"
| "pr_status_str PR_SKIPPED = ''SKIPPED''"

fun qa_status_str :: "browser_qa_status \<Rightarrow> string" where
  "qa_status_str QA_PASSED = ''passed''"
| "qa_status_str QA_FAILED = ''failed''"
| "qa_status_str QA_BLOCKED = ''blocked''"

fun reviewer_status_str :: "reviewer_status \<Rightarrow> string" where
  "reviewer_status_str RS_NOT_RUN = ''not_run''"
| "reviewer_status_str RS_PENDING = ''pending''"
| "reviewer_status_str RS_PASSED = ''passed''"
| "reviewer_status_str RS_NEEDS_CHANGES = ''needs_changes''"

fun second_opinion_status_str :: "second_opinion_status \<Rightarrow> string" where
  "second_opinion_status_str SO_NOT_REQUIRED = ''not_required''"
| "second_opinion_status_str SO_PENDING = ''pending''"
| "second_opinion_status_str SO_PASSED = ''passed''"
| "second_opinion_status_str SO_NEEDS_CHANGES = ''needs_changes''"
| "second_opinion_status_str SO_CONFLICT = ''conflict''"

fun notification_kind_str :: "notification_kind \<Rightarrow> string" where
  "notification_kind_str ISSUE_RECEIVED = ''ISSUE_RECEIVED''"
| "notification_kind_str SPEC_REVIEW_REQUESTED = ''SPEC_REVIEW_REQUESTED''"
| "notification_kind_str LOOP_STARTED = ''LOOP_STARTED''"
| "notification_kind_str HUMAN_INTERVENTION = ''HUMAN_INTERVENTION''"
| "notification_kind_str COST_GUARD_TRIPPED = ''COST_GUARD_TRIPPED''"
| "notification_kind_str CONVERGENCE_READY = ''CONVERGENCE_READY''"
| "notification_kind_str SHARD_REDO_LIMIT = ''SHARD_REDO_LIMIT''"
| "notification_kind_str RELOOP_LIMIT = ''RELOOP_LIMIT''"
| "notification_kind_str CONTEXT_BUDGET_EXCEEDED = ''CONTEXT_BUDGET_EXCEEDED''"

fun notification_status_str :: "notification_status \<Rightarrow> string" where
  "notification_status_str NOTE_RECORDED = ''RECORDED''"
| "notification_status_str NOTE_SENT = ''SENT''"
| "notification_status_str NOTE_FAILED = ''FAILED''"
| "notification_status_str NOTE_SKIPPED = ''SKIPPED''"

subsection \<open>Clock, log, primitive writes\<close>

text \<open>\<open>new Date()\<close> and \<open>Date.now()\<close> read the next value of the clock.\<close>

definition clock :: "fs \<Rightarrow> timestamp" where
  "clock f = env_now (fs_env f) (fs_ticks f)"

definition tick :: "fs \<Rightarrow> fs" where
  "tick f = f\<lparr>fs_ticks := Suc (fs_ticks f)\<rparr>"

definition draw :: "fs \<Rightarrow> string \<times> fs" where
  "draw f = (env_random (fs_env f) (fs_draws f), f\<lparr>fs_draws := Suc (fs_draws f)\<rparr>)"

definition opt_str :: "string \<Rightarrow> string option \<Rightarrow> (string \<times> json) list" where
  "opt_str k v = (case v of None \<Rightarrow> [] | Some s \<Rightarrow> [(k, JStr s)])"

abbreviation "jstrs xs \<equiv> JArr (map JStr xs)"
abbreviation "jnat n \<equiv> JNum (of_nat n)"

definition appendLog :: "(string \<times> json) list \<Rightarrow> fs \<Rightarrow> fs" where
  "appendLog payload f =
     (tick f)\<lparr>fs_log := fs_log f @ [\<lparr>ll_ts = clock f, ll_payload = payload\<rparr>]\<rparr>"

definition put_text :: "string \<Rightarrow> text_doc \<Rightarrow> fs \<Rightarrow> fs" where
  "put_text p d f = f\<lparr>fs_texts := AList.update p d (fs_texts f)\<rparr>"

definition put_issue :: "loop_issue \<Rightarrow> fs \<Rightarrow> fs" where
  "put_issue x f = f\<lparr>fs_issues := AList.update (i_id x) x (fs_issues f)\<rparr>"

definition put_shards :: "string \<Rightarrow> loop_shard list \<Rightarrow> fs \<Rightarrow> fs" where
  "put_shards i x f = f\<lparr>fs_shards := AList.update i x (fs_shards f)\<rparr>"

definition put_annotations :: "string \<Rightarrow> loop_annotation list \<Rightarrow> fs \<Rightarrow> fs" where
  "put_annotations i x f = f\<lparr>fs_annotations := AList.update i x (fs_annotations f)\<rparr>"

definition ensureInitialized :: "fs \<Rightarrow> fs" where
  "ensureInitialized f =
     (if fs_legacyState f = None then f\<lparr>fs_legacyState := Some []\<rparr> else f)"

definition upsertState :: "loop_state_item \<Rightarrow> fs \<Rightarrow> fs" where
  "upsertState next f = (let g = ensureInitialized f in
     g\<lparr>fs_states := AList.update (st_issueId next) next (fs_states g)\<rparr>)"

text \<open>The two pairs of writes every shard handler makes.\<close>

definition write_shards_json :: "string \<Rightarrow> loop_shard list \<Rightarrow> fs \<Rightarrow> fs" where
  "write_shards_json i shards = in_order [put_shards i shards,
     put_text (''shards/'' @ i @ ''/dag.yaml'') (DagYaml shards)]"

definition write_annotations_json :: "string \<Rightarrow> loop_annotation list \<Rightarrow> fs \<Rightarrow> fs" where
  "write_annotations_json i anns = in_order [put_annotations i anns,
     put_text (''annotations/'' @ i @ ''.yaml'') (AnnotationsYaml anns)]"

definition intakeId :: "string \<Rightarrow> string" where
  "intakeId issueId = replace_first ''issue-'' ''intake-'' issueId @ ''-a''"

text \<open>
  \<open>writeNotification\<close> reads the clock twice (the creation time and the id), draws the random
  suffix and asks the sender for the delivery status.
\<close>

definition new_notification ::
    "string \<Rightarrow> notification_kind \<Rightarrow> string \<Rightarrow> string \<Rightarrow> string \<Rightarrow> string option \<Rightarrow> fs
     \<Rightarrow> loop_notification" where
  "new_notification i kind recipient title body href f =
     (let n = \<lparr>no_id = ''notification-'' @ i @ ''-'' @ nat_str (clock (tick f)) @ ''-''
                  @ fst (draw f),
               no_issueId = i, no_channel = NOTIFY_WEB, no_kind = kind, no_recipient = recipient,
               no_title = title, no_body = body, no_status = NOTE_RECORDED, no_actionHref = href,
               no_created = clock f\<rparr>
      in n\<lparr>no_status := env_send (fs_env f) n\<rparr>)"

definition put_notification :: "loop_notification \<Rightarrow> fs \<Rightarrow> fs" where
  "put_notification n f =
     f\<lparr>fs_notifications := AList.update (no_issueId n, no_id n) n (fs_notifications f)\<rparr>"

definition writeNotification ::
    "string \<Rightarrow> notification_kind \<Rightarrow> string \<Rightarrow> string \<Rightarrow> string \<Rightarrow> string option \<Rightarrow> fs \<Rightarrow> fs" where
  "writeNotification i kind recipient title body href f =
     (let n = new_notification i kind recipient title body href f in
      (in_order [tick, tick, (\<lambda>g. snd (draw g)), put_notification n,
       put_text (''notifications/'' @ i @ ''/'' @ no_id n @ ''.md'') (NotificationMd n),
       appendLog [(''type'', JStr ''NOTIFICATION_RECORDED''), (''issue'', JStr i),
            (''channel'', JStr ''web''), (''kind'', JStr (notification_kind_str kind)),
            (''recipient'', JStr recipient), (''status'', JStr (notification_status_str (no_status n)))]]) f)"

subsection \<open>Reading\<close>

text \<open>\<open>readState\<close>: the per-issue files first, then legacy entries of issues without one.\<close>

definition readState :: "fs \<Rightarrow> loop_state_item list" where
  "readState f = map snd
     (foldl (\<lambda>m st. if st_issueId st \<noteq> [] \<and> st_issueId st \<notin> fst ` set m
                 then AList.update (st_issueId st) st m else m)
       (foldl (\<lambda>m st. if st_issueId st \<noteq> [] then AList.update (st_issueId st) st m else m)
          [] (map snd (fs_states f)))
       (case fs_legacyState f of None \<Rightarrow> [] | Some l \<Rightarrow> l))"

definition stateOf :: "string \<Rightarrow> fs \<Rightarrow> loop_state_item option" where
  "stateOf i f = List.find (\<lambda>st. st_issueId st = i) (readState f)"

definition readAllIssues :: "fs \<Rightarrow> loop_issue list" where
  "readAllIssues f = sort_desc i_created (map snd (fs_issues f))"

definition list_loops :: "fs \<Rightarrow> loop_issue list \<times> loop_state_item list" where
  "list_loops f = (readAllIssues f, readState f)"

text \<open>
  \<open>compareSpecVersions\<close>: two versions \<open>v<digits>\<close> compare by number, others as strings.
\<close>

definition v_number :: "string \<Rightarrow> nat option" where
  "v_number s = (case s of [] \<Rightarrow> None
     | c # ds \<Rightarrow> if c = CHR ''v'' \<and> ds \<noteq> [] \<and> list_all is_digit ds then Some (digits_val ds) else None)"

definition spec_version_le :: "string \<Rightarrow> string \<Rightarrow> bool" where
  "spec_version_le a b = (case (v_number a, v_number b) of
     (Some m, Some n) \<Rightarrow> m \<le> n | _ \<Rightarrow> a \<le> b)"

fun insert_by :: "('a \<Rightarrow> 'a \<Rightarrow> bool) \<Rightarrow> 'a \<Rightarrow> 'a list \<Rightarrow> 'a list" where
  "insert_by le x [] = [x]"
| "insert_by le x (y # ys) = (if le x y then x # y # ys else y # insert_by le x ys)"

definition sort_by :: "('a \<Rightarrow> 'a \<Rightarrow> bool) \<Rightarrow> 'a list \<Rightarrow> 'a list" where
  "sort_by le xs = foldr (insert_by le) xs []"

definition history_item :: "loop_spec \<Rightarrow> loop_spec_history_item" where
  "history_item s = \<lparr>sph_id = sp_id s, sph_issueId = sp_issueId s, sph_version = sp_version s,
     sph_status = sp_status s, sph_created = sp_created s, sph_approvedBy = sp_approvedBy s,
     sph_body = sp_body s\<rparr>"

definition readSpecHistory :: "string \<Rightarrow> fs \<Rightarrow> loop_spec_history_item list" where
  "readSpecHistory i f = sort_by (\<lambda>a b. spec_version_le (sph_version a) (sph_version b))
     (map (\<lambda>(_, s). history_item s)
       (filter (\<lambda>((j, v), _). j = i \<and> v \<noteq> [] \<and> CHR ''.'' \<notin> set v) (fs_specs f)))"

definition dedup_by_id :: "('a \<Rightarrow> string) \<Rightarrow> 'a list \<Rightarrow> 'a list" where
  "dedup_by_id ident rs = map snd (foldl (\<lambda>m r. AList.update (ident r) r m) [] rs)"

definition readImplementationRecords :: "string \<Rightarrow> fs \<Rightarrow> loop_implementation_record list" where
  "readImplementationRecords i f = sort_desc ir_created
     (dedup_by_id ir_id (map snd (filter (\<lambda>((j, _), _). j = i) (fs_implRecords f))))"

definition readReviewRecords :: "string \<Rightarrow> fs \<Rightarrow> loop_review_record list" where
  "readReviewRecords i f =
     (let dirs = js_set (map fst (filter (\<lambda>((j, _), _). j = i) (fs_reviewRecords f))
            @ map (fst \<circ> fst) (filter (\<lambda>(((j, _), _), _). j = i) (fs_reviewHistory f)));
          files = (\<lambda>d. (case map_of (fs_reviewRecords f) d of None \<Rightarrow> [] | Some r \<Rightarrow> [r])
            @ map snd (filter (\<lambda>((e, _), _). e = d) (fs_reviewHistory f)))
      in sort_desc rr_created (dedup_by_id rr_id (concat (map files dirs))))"

definition readTestRecords :: "string \<Rightarrow> fs \<Rightarrow> loop_test_record list" where
  "readTestRecords i f = sort_desc tr_created
     (map snd (filter (\<lambda>((j, _), _). j = i) (fs_testRecords f)))"

definition str_field :: "(string \<times> json) list \<Rightarrow> string \<Rightarrow> string option" where
  "str_field p k = (case map_of p k of Some (JStr s) \<Rightarrow> Some s | _ \<Rightarrow> None)"

definition parseLogLine :: "log_line \<Rightarrow> loop_log_entry option" where
  "parseLogLine ll = (let p = ll_payload ll; type = case_option [] id (str_field p ''type'') in
     if type = [] then None
     else Some \<lparr>le_ts = ll_ts ll, le_type = type, le_loop = str_field p ''loop'',
       le_issue = str_field p ''issue'', le_shard = str_field p ''shard'',
       le_action = str_field p ''action'', le_status = str_field p ''status'',
       le_verdict = str_field p ''verdict'', le_payload = p\<rparr>)"

definition log_issue :: "loop_log_entry \<Rightarrow> string option" where
  "log_issue e = (case le_loop e of Some l \<Rightarrow> Some l | None \<Rightarrow> le_issue e)"

definition readLogs ::
    "string option \<Rightarrow> string list option \<Rightarrow> nat option \<Rightarrow> fs \<Rightarrow> loop_log_entry list" where
  "readLogs issueId issueIds limit f = take (case_option 50 id limit)
     (sort_desc le_ts
       (filter (\<lambda>e. (case issueId of None \<Rightarrow> True | Some i \<Rightarrow> i = [] \<or> log_issue e = Some i)
            \<and> (case issueIds of None \<Rightarrow> True
               | Some is \<Rightarrow> (case log_issue e of None \<Rightarrow> False | Some j \<Rightarrow> j \<in> set is)))
         (List.map_filter parseLogLine (fs_log f))))"

definition notifications_of :: "string \<Rightarrow> fs \<Rightarrow> loop_notification list" where
  "notifications_of i f = map snd (filter (\<lambda>((j, _), _). j = i) (fs_notifications f))"

definition readNotifications ::
    "string option \<Rightarrow> string list option \<Rightarrow> nat option \<Rightarrow> fs \<Rightarrow> loop_notification list" where
  "readNotifications issueId issueIds limit f =
     (let ids = (case (issueId, issueIds) of
            (Some (c # cs), _) \<Rightarrow> [c # cs]
          | (_, Some is) \<Rightarrow> is
          | _ \<Rightarrow> filter (\<lambda>i. \<not> starts_with ''.'' i) (js_set (map (fst \<circ> fst) (fs_notifications f))))
      in take (case_option 50 id limit)
           (sort_desc no_created (concat (map (\<lambda>i. notifications_of i f) ids))))"

definition readBrowserQaReports :: "string \<Rightarrow> fs \<Rightarrow> loop_browser_qa_report list" where
  "readBrowserQaReports i f = sort_desc bq_created
     (map snd (filter (\<lambda>((j, _), _). j = i) (fs_browserQa f)))"

definition no_governance :: loop_delivery_governance where
  "no_governance = \<lparr>dg_workflowDefaults = [], dg_reviewGateOverrides = [],
     dg_requiredReviewGates = None, dg_secondOpinionPolicy = None, dg_secondOpinionResolutions = [],
     dg_releaseCanary = None, dg_runtimeOverrides = [], dg_browserQaSessionPolicy = None,
     dg_learningPolicy = None\<rparr>"

definition readDeliveryGovernance :: "string \<Rightarrow> fs \<Rightarrow> loop_delivery_governance" where
  "readDeliveryGovernance i f = case_option no_governance id (map_of (fs_governance f) i)"

definition readLearningGovernance :: "fs \<Rightarrow> loop_learning_governance" where
  "readLearningGovernance f = (case fs_learningGovernance f of Some g \<Rightarrow> g
     | None \<Rightarrow> \<lparr>lg_dismissed = [], lg_merges = [], lg_deprecated = [], lg_superseded = [],
         lg_autoMergeCandidates = []\<rparr>)"

text \<open>The detail of a loop; each part is read under the condition the source states.\<close>

definition current_spec :: "string \<Rightarrow> loop_state_item \<Rightarrow> fs \<Rightarrow> loop_spec option" where
  "current_spec i st f = (if st_specVersion st = ''v0'' then None
     else map_of (fs_specs f) (i, st_specVersion st))"

definition detail_with :: "string \<Rightarrow> loop_issue \<Rightarrow> loop_intake \<Rightarrow> loop_state_item \<Rightarrow> fs \<Rightarrow> loop_detail" where
  "detail_with i issue intake st f =
     (let decomposed = st_shardsTotal st > 0; final = (st_finalized st = Some True) in
     \<lparr>d_issue = issue, d_intake = intake, d_spec = current_spec i st f,
      d_specHistory = readSpecHistory i f,
      d_shards = (if decomposed then case_option [] id (map_of (fs_shards f) i) else []),
      d_testMatrix = (if decomposed then map_of (fs_matrices f) i else None),
      d_annotations = (if decomposed then case_option [] id (map_of (fs_annotations f) i) else []),
      d_implementationRecords =
        filter (\<lambda>r. ir_round r = st_round st) (readImplementationRecords i f),
      d_reviewRecords = filter (\<lambda>r. rr_round r = st_round st) (readReviewRecords i f),
      d_testRecords = filter (\<lambda>r. tr_round r = st_round st) (readTestRecords i f),
      d_logs = readLogs (Some i) None (Some 40) f,
      d_notifications = readNotifications (Some i) None (Some 20) f,
      d_state = st,
      d_globalReview = (if st_globalVerdict st \<noteq> None \<or> final
        then map_of (fs_globalReviews f) i else None),
      d_convergencePr = (if final \<or> st_phase st = PHASE_CLOSED then map_of (fs_prs f) i else None),
      d_browserQaReports = readBrowserQaReports i f,
      d_requirementsCoverage = None, d_evidenceArtifacts = None,
      d_learnings = case_option [] id (map_of (fs_learnings f) i),
      d_workflowRecipe = map_of (fs_recipes f) i,
      d_reviewGates = None, d_releaseGate = None,
      d_secondOpinion = map_of (fs_secondOpinions f) i,
      d_deliveryGovernance = Some (readDeliveryGovernance i f)\<rparr>)"

definition detail_of :: "string \<Rightarrow> fs \<Rightarrow> js_error + loop_detail" where
  "detail_of i f =
     (case map_of (fs_issues f) i of None \<Rightarrow> Inl (PlainError (''ENOENT issues/'' @ i @ ''.json''))
      | Some issue \<Rightarrow> case map_of (fs_intakes f) (intakeId i) of
          None \<Rightarrow> Inl (PlainError (''ENOENT intakes/'' @ intakeId i @ ''.json''))
        | Some intake \<Rightarrow> case stateOf i f of
            None \<Rightarrow> Inl (PlainError (''Loop state not found for '' @ i))
          | Some st \<Rightarrow> Inr (detail_with i issue intake st f))"

definition readDetail :: "string \<Rightarrow> (fs, loop_detail) sm" where
  "readDetail i f = (let g = ensureInitialized f in (detail_of i g, g))"

subsection \<open>Doctor and cost\<close>

definition inspectShardState :: "loop_state_item \<Rightarrow> loop_shard list \<Rightarrow> string list" where
  "inspectShardState st shards =
     (let i = st_issueId st; done_n = count_where (\<lambda>s. sh_status s = SHARD_DONE) shards;
          run_n = count_where (\<lambda>s. sh_status s = SHARD_IN_PROGRESS) shards in
      (if length shards \<noteq> st_shardsTotal st
       then [''shard count mismatch for '' @ i @ '': state='' @ nat_str (st_shardsTotal st)
               @ '', file='' @ nat_str (length shards)] else [])
      @ (if done_n \<noteq> st_shardsDone st
         then [''shardsDone mismatch for '' @ i @ '': state='' @ nat_str (st_shardsDone st)
                 @ '', file='' @ nat_str done_n] else [])
      @ (if run_n \<noteq> st_shardsInProgress st
         then [''shardsInProgress mismatch for '' @ i @ '': state='' @ nat_str (st_shardsInProgress st)
                 @ '', file='' @ nat_str run_n] else []))"

definition annotation_complete :: "loop_annotation \<Rightarrow> bool" where
  "annotation_complete a \<longleftrightarrow>
     an_verdict a = ANN_PASS \<and> an_coverage a = COV_FULL \<and> an_testStatus a = ANN_TEST_PASS"

definition inspectFinalAnnotations :: "loop_state_item \<Rightarrow> loop_annotation list \<Rightarrow> fs \<Rightarrow> string list" where
  "inspectFinalAnnotations st anns f =
     (let i = st_issueId st; matrix = map_of (fs_matrices f) i;
          review = map_of (fs_globalReviews f) i; pr = map_of (fs_prs f) i;
          targets = filter (\<lambda>t. t \<noteq> []) (List.map_filter id
            [map_option tm_id matrix, map_option gr_id review, map_option cp_id pr]);
          unfinished = filter (\<lambda>a. an_verdict a = ANN_UNREVIEWED \<or> an_coverage a = COV_PARTIAL
            \<or> an_testStatus a = ANN_TEST_MISSING) anns in
      (if review = None then [''missing global review for finalized loop '' @ i] else [])
      @ (if pr = None then [''missing convergence PR record for finalized loop '' @ i] else [])
      @ concat (map (\<lambda>t. case List.find (\<lambda>a. an_target a = t) anns of
            None \<Rightarrow> [''missing final annotation target '' @ t @ '' for '' @ i]
          | Some a \<Rightarrow> if \<not> annotation_complete a
              then [''incomplete final annotation target '' @ t @ '' for '' @ i] else []) targets)
      @ (if unfinished \<noteq> [] then [''finalized loop '' @ i @ '' has unfinished annotations: ''
            @ js_join '', '' (map an_target unfinished)] else []))"

definition inspectAnnotationState :: "loop_state_item \<Rightarrow> loop_annotation list \<Rightarrow> fs \<Rightarrow> string list" where
  "inspectAnnotationState st anns f =
     (let i = st_issueId st; shards = case_option [] id (map_of (fs_shards f) i);
          spec = current_spec i st f;
          required = js_set ((i # map sh_id shards) @ case_option [] (\<lambda>s. [sp_id s]) spec) in
      concat (map (\<lambda>t. if \<not> list_ex (\<lambda>a. an_target a = t) anns
           then [''missing annotation target '' @ t @ '' for '' @ i] else []) required)
      @ (if st_finalized st = Some True \<or> st_phase st = PHASE_CLOSED
         then inspectFinalAnnotations st anns f else []))"

definition doctor_loop :: "fs \<Rightarrow> loop_state_item \<Rightarrow> string list" where
  "doctor_loop f st =
     (let i = st_issueId st in
      if i \<notin> i_id ` set (readAllIssues f) then [''state references missing issue '' @ i]
      else (if map_of (fs_intakes f) (intakeId i) = None then [''missing intake for '' @ i] else [])
        @ (if st_specVersion st \<noteq> ''v0'' \<and> map_of (fs_specs f) (i, st_specVersion st) = None
           then [''missing spec '' @ st_specVersion st @ '' for '' @ i] else [])
        @ (if st_shardsTotal st > 0
           then (case map_of (fs_shards f) i of None \<Rightarrow> [''missing shards for '' @ i]
                 | Some shards \<Rightarrow> inspectShardState st shards)
             @ (if map_of (fs_matrices f) i = None then [''missing test matrix for '' @ i] else [])
             @ (case map_of (fs_annotations f) i of None \<Rightarrow> [''missing annotations for '' @ i]
                | Some anns \<Rightarrow> inspectAnnotationState st anns f)
           else []))"

definition doctor :: "fs \<Rightarrow> string list" where
  "doctor f = concat (map (doctor_loop f) (readState f))"

definition cost_tripped :: "cost_config \<Rightarrow> loop_state_item \<Rightarrow> bool" where
  "cost_tripped c st \<longleftrightarrow>
     of_nat (st_costTokens st) \<ge> cc_tokenCapPerLoop c \<or> of_nat (st_costCalls st) \<ge> cc_callCapPerLoop c"

definition cost_item :: "cost_config \<Rightarrow> loop_state_item \<Rightarrow> loop_cost_item" where
  "cost_item c st = \<lparr>ci_issueId = st_issueId st, ci_costTokens = st_costTokens st,
     ci_costCalls = st_costCalls st, ci_tokenCap = cc_tokenCapPerLoop c,
     ci_callCap = cc_callCapPerLoop c,
     ci_tokensRemaining = max 0 (cc_tokenCapPerLoop c - of_nat (st_costTokens st)),
     ci_callsRemaining = max 0 (cc_callCapPerLoop c - of_nat (st_costCalls st)),
     ci_paused = st_paused st, ci_tripped = cost_tripped c st\<rparr>"

definition readCost :: "fs \<Rightarrow> loop_cost_item list" where
  "readCost f = map (cost_item (cf_cost (fs_cfg f))) (readState f)"

datatype recall_scope = RECALL_WORKSPACE | RECALL_CROSS_WORKSPACE

definition active_learning :: "loop_learning_governance \<Rightarrow> loop_learning \<Rightarrow> bool" where
  "active_learning g l \<longleftrightarrow> ln_id l \<notin> lm_learningId ` set (lg_dismissed g)
     \<and> ln_id l \<notin> mg_sourceLearningId ` set (lg_merges g)
     \<and> ln_id l \<notin> lm_learningId ` set (lg_deprecated g)
     \<and> ln_id l \<notin> mg_sourceLearningId ` set (lg_superseded g)"

definition readRecentLearnings ::
    "nat \<Rightarrow> string option \<Rightarrow> string option \<Rightarrow> recall_scope option \<Rightarrow> fs \<Rightarrow> loop_learning list" where
  "readRecentLearnings limit workspaceId repo recallScope f =
     (let active = filter (active_learning (readLearningGovernance f)) (concat (map snd (fs_learnings f)));
          scoped = (if recallScope = Some RECALL_CROSS_WORKSPACE then active
            else case workspaceId of Some (c # cs) \<Rightarrow> filter (\<lambda>l. ln_workspaceId l = c # cs) active
              | _ \<Rightarrow> active);
          filtered = (case repo of Some (c # cs) \<Rightarrow> filter (\<lambda>l. ln_repo l = Some (c # cs)) scoped
              | _ \<Rightarrow> scoped)
      in take limit (withLearningSimilaritySuggestions (env_sha16 (fs_env f))
           (sort_desc ln_createdAt filtered)))"

subsection \<open>Writing\<close>

definition loop_href :: "string \<Rightarrow> string option" where
  "loop_href i = Some (''/loops/'' @ i)"

text \<open>
  \<open>enforceCostGuard\<close> returns the state to persist, paused when a cap is reached, and logs and
  notifies the trip; the second component is the store it leaves.
\<close>

definition enforceCostGuard :: "loop_state_item \<Rightarrow> fs \<Rightarrow> loop_state_item \<times> fs" where
  "enforceCostGuard st f =
     (let c = cf_cost (fs_cfg f); num = env_num (fs_env f); i = st_issueId st in
      if \<not> cost_tripped c st then (st, f)
      else (st\<lparr>st_phase := PHASE_PAUSED, st_paused := True, st_updated := clock f\<rparr>,
        (in_order [tick,
         appendLog [(''type'', JStr ''COST_TRIP''), (''loop'', JStr i),
              (''cost_tokens'', jnat (st_costTokens st)), (''cost_calls'', jnat (st_costCalls st)),
              (''token_cap'', JNum (cc_tokenCapPerLoop c)), (''call_cap'', JNum (cc_callCapPerLoop c))],
         writeNotification i COST_GUARD_TRIPPED ''ops'' (''Cost guard tripped: '' @ i)
              (''Loop was paused after reaching '' @ nat_str (st_costCalls st) @ ''/''
               @ num (cc_callCapPerLoop c) @ '' calls and '' @ nat_str (st_costTokens st) @ ''/''
               @ num (cc_tokenCapPerLoop c) @ '' tokens.'')
              (loop_href i)]) f))"

definition interrupted :: "loop_shard \<Rightarrow> bool" where
  "interrupted s \<longleftrightarrow> sh_status s = SHARD_IN_PROGRESS \<or> sh_status s = SHARD_TIMEOUT"

definition requeue :: "loop_shard \<Rightarrow> loop_shard" where
  "requeue s = s\<lparr>sh_status := SHARD_TODO\<rparr>"

text \<open>One iteration of \<open>resumeInterruptedLoops\<close>; \<open>acc\<close> is \<open>updatedShards\<close>.\<close>

definition resume_loop ::
    "loop_state_item \<Rightarrow> (string \<times> string \<times> loop_shard_status) list \<times> fs
     \<Rightarrow> (string \<times> string \<times> loop_shard_status) list \<times> fs" where
  "resume_loop st = (\<lambda>(acc, f). let i = st_issueId st in
     case map_of (fs_shards f) i of None \<Rightarrow> (acc, f)
     | Some shards \<Rightarrow>
       let upd = map (\<lambda>s. (i, sh_id s, sh_status s)) (filter interrupted shards);
           nextShards = map_where interrupted requeue shards;
           acc' = acc @ upd in
       if upd = [] then (acc, f)
       else (acc',
         let g = write_shards_json i nextShards f in
         (in_order [tick, upsertState (st\<lparr>st_shardsInProgress := 0, st_updated := clock g, st_paused := False\<rparr>),
          appendLog [(''type'', JStr ''HUMAN_INTERVENE''), (''loop'', JStr i),
               (''action'', JStr ''resume''),
               (''reset_shards'', jstrs (map (\<lambda>(_, s, _). s) (filter (\<lambda>(j, _). j = i) acc')))]]) g))"

definition resumeInterruptedLoops :: "fs \<Rightarrow> (string \<times> string \<times> loop_shard_status) list \<times> fs" where
  "resumeInterruptedLoops f = (let g = ensureInitialized f in fold resume_loop (readState g) ([], g))"

definition writeIssue ::
    "loop_issue \<Rightarrow> loop_intake \<Rightarrow> loop_state_item \<Rightarrow> json \<Rightarrow> loop_workflow_recipe option \<Rightarrow> fs \<Rightarrow> fs" where
  "writeIssue issue intake st rawPayload recipe = (let i = i_id issue; k = in_id intake in
     in_order [ensureInitialized,
     put_issue issue,
     put_text (''issues/'' @ i @ ''.md'') (IssueMd issue),
     (\<lambda>f. f\<lparr>fs_intakes := AList.update k intake (fs_intakes f)\<rparr>),
     put_text (''intakes/'' @ k @ ''.md'') (IntakeMd intake issue),
     (\<lambda>f. f\<lparr>fs_rawPayloads := AList.update k rawPayload (fs_rawPayloads f)\<rparr>),
     (case recipe of None \<Rightarrow> id
          | Some r \<Rightarrow> (\<lambda>f. f\<lparr>fs_recipes := AList.update i r (fs_recipes f)\<rparr>)),
     upsertState st,
     appendLog [(''type'', JStr ''INTAKE_RECEIVED''), (''source'', JStr ''web''),
          (''intake'', JStr k), (''submitter'', JStr (i_submitterId issue))],
     appendLog [(''type'', JStr ''ISSUE_NORMALIZED''), (''issue'', JStr i),
          (''intake'', JStr k), (''target_repo'', JStr (i_targetRepo issue))],
     writeNotification i ISSUE_RECEIVED (i_submitterId issue)
          (''Issue received: '' @ i_title issue)
          (''Issue '' @ i @ '' has been normalized and queued for planning.'') (loop_href i)])"

definition issueStatusForSpec :: "loop_spec \<Rightarrow> loop_state_item \<Rightarrow> loop_issue_status" where
  "issueStatusForSpec spec st =
     (if st_phase st = PHASE_CLOSED
      then (if sp_status spec = SPEC_REJECTED then ISSUE_REJECTED else ISSUE_CLOSED)
      else ISSUE_IN_LOOP)"

definition writeSpec :: "loop_issue \<Rightarrow> loop_spec \<Rightarrow> loop_state_item \<Rightarrow> fs \<Rightarrow> fs" where
  "writeSpec issue spec st = (let i = i_id issue; v = sp_version spec in
     in_order [(\<lambda>f. f\<lparr>fs_specs := AList.update (i, v) spec (fs_specs f)\<rparr>),
     put_text (''specs/'' @ i @ ''/spec.'' @ v @ ''.md'') (BodyMd (sp_body spec)),
     put_issue (issue\<lparr>i_status := issueStatusForSpec spec st, i_updated := st_updated st\<rparr>),
     upsertState st,
     appendLog [(''type'', JStr ''SPEC_STATE''), (''issue'', JStr i),
          (''spec'', JStr (sp_id spec)), (''to'', JStr (spec_status_str (sp_status spec)))],
     (if sp_status spec = SPEC_DRAFT
         then writeNotification i SPEC_REVIEW_REQUESTED (i_submitterId issue)
           (''Spec review requested: '' @ i_title issue)
           (''Spec '' @ v @ '' is ready for human review before decomposition.'') (loop_href i)
         else id)])"

definition writeShards ::
    "loop_issue \<Rightarrow> loop_spec \<Rightarrow> loop_shard list \<Rightarrow> loop_test_matrix \<Rightarrow> loop_annotation list
     \<Rightarrow> loop_state_item \<Rightarrow> fs \<Rightarrow> fs" where
  "writeShards issue spec shards matrix anns st = (let i = i_id issue in
     in_order [write_shards_json i shards,
     fold (\<lambda>s. put_text (''shards/'' @ i @ ''/'' @ sh_id s @ ''.md'') (ShardMd s)) shards,
     (\<lambda>f. f\<lparr>fs_matrices := AList.update i matrix (fs_matrices f)\<rparr>),
     put_text (''tests/'' @ i @ ''/matrix.md'') (MatrixMd matrix),
     write_annotations_json i anns,
     upsertState st,
     appendLog [(''type'', JStr ''TEST_MATRIX''), (''issue'', JStr i),
          (''spec'', JStr (sp_id spec)), (''required_count'', jnat (length (tm_requiredTests matrix)))],
     appendLog [(''type'', JStr ''ANNOTATE''), (''issue'', JStr i), (''count'', jnat (length anns))],
     writeNotification i LOOP_STARTED (i_submitterId issue)
          (''Loop implementation started: '' @ i_title issue)
          (nat_str (length shards) @ '' shards have been generated and are ready for implementation.'')
          (loop_href i)])"

definition writeTestRecord ::
    "string \<Rightarrow> string \<Rightarrow> loop_test_record \<Rightarrow> loop_annotation list \<Rightarrow> loop_shard list
     \<Rightarrow> loop_state_item \<Rightarrow> fs \<Rightarrow> fs" where
  "writeTestRecord i shardId rec anns shards st =
     in_order [(\<lambda>f. f\<lparr>fs_testRecords := AList.update (i, tr_id rec) rec (fs_testRecords f)\<rparr>),
     put_text (''tests/'' @ i @ ''/records/'' @ tr_id rec @ ''.md'') (TestRecordMd rec),
     write_annotations_json i anns,
     write_shards_json i shards,
     upsertState st,
     appendLog [(''type'', JStr ''TEST_RUN''), (''loop'', JStr i), (''shard'', JStr shardId),
          (''status'', JStr (test_status_str (tr_status rec))),
          (''commands'', jstrs (map cr_command (tr_commands rec)))]]"

definition round_dir :: "string \<Rightarrow> string \<Rightarrow> nat \<Rightarrow> string" where
  "round_dir i shardId n = ''runs/'' @ i @ ''/'' @ shardId @ ''/round-'' @ nat_str n"

definition writeImplementationRecord ::
    "string \<Rightarrow> string \<Rightarrow> loop_implementation_record \<Rightarrow> loop_annotation list \<Rightarrow> loop_shard list
     \<Rightarrow> loop_state_item \<Rightarrow> fs \<Rightarrow> fs" where
  "writeImplementationRecord i shardId rec anns shards st =
     in_order [(\<lambda>f. f\<lparr>fs_implRecords := AList.update (i, shardId, ir_round rec) rec (fs_implRecords f)\<rparr>),
     put_text (round_dir i shardId (ir_round rec) @ ''/implementation.md'') (ImplementationMd rec),
     write_annotations_json i anns,
     write_shards_json i shards,
     upsertState st,
     appendLog [(''type'', JStr ''IMPLEMENTATION_RECORD''), (''loop'', JStr i),
          (''shard'', JStr shardId), (''status'', JStr (impl_record_status_str (ir_status rec))),
          (''implementer'', JStr (ir_implementer rec)), (''changed_files'', jstrs (ir_changedFiles rec))]]"

definition writeReviewRecord ::
    "string \<Rightarrow> string \<Rightarrow> loop_review_record \<Rightarrow> loop_annotation list \<Rightarrow> loop_shard list
     \<Rightarrow> loop_state_item \<Rightarrow> fs \<Rightarrow> fs" where
  "writeReviewRecord i shardId rec anns shards st = (let k = (i, shardId, rr_round rec) in
     in_order [(\<lambda>f. f\<lparr>fs_reviewRecords := AList.update k rec (fs_reviewRecords f)\<rparr>),
     put_text (round_dir i shardId (rr_round rec) @ ''/review.md'') (ReviewMd rec),
     (\<lambda>f. f\<lparr>fs_reviewHistory := AList.update (k, rr_id rec) rec (fs_reviewHistory f)\<rparr>),
     put_text (round_dir i shardId (rr_round rec) @ ''/reviews/'' @ rr_id rec @ ''.md'') (ReviewMd rec),
     write_annotations_json i anns,
     write_shards_json i shards,
     upsertState st,
     appendLog [(''type'', JStr ''REVIEW_RECORD''), (''loop'', JStr i), (''shard'', JStr shardId),
          (''verdict'', JStr (verdict_str (rr_verdict rec))), (''reviewer'', JStr (rr_reviewer rec))],
     (if st_phase st = PHASE_6_CONVERGE
         then writeNotification i CONVERGENCE_READY (rr_reviewer rec)
           (''Loop ready to converge: '' @ i)
           ''All shards are marked DONE and the loop is ready for convergence review.'' (loop_href i)
         else id)])"

definition writeShardProgress ::
    "string \<Rightarrow> string \<Rightarrow> string option \<Rightarrow> string \<Rightarrow> string \<Rightarrow> loop_shard list \<Rightarrow> loop_state_item
     \<Rightarrow> loop_annotation list option \<Rightarrow> fs \<Rightarrow> fs" where
  "writeShardProgress i shardId from_s to_s actor shards st anns =
     in_order [write_shards_json i shards,
     (case anns of None \<Rightarrow> id | Some a \<Rightarrow> write_annotations_json i a),
     upsertState st,
     appendLog ([(''type'', JStr ''SHARD_STATE''), (''loop'', JStr i), (''shard'', JStr shardId)]
          @ opt_str ''from'' from_s @ [(''to'', JStr to_s), (''actor'', JStr actor)])]"

definition writeGlobalReview ::
    "string \<Rightarrow> loop_global_review_record \<Rightarrow> loop_annotation list \<Rightarrow> loop_state_item \<Rightarrow> fs \<Rightarrow> fs" where
  "writeGlobalReview i rec anns st =
     in_order [(\<lambda>f. f\<lparr>fs_globalReviews := AList.update i rec (fs_globalReviews f)\<rparr>),
     put_text (''runs/'' @ i @ ''/global-review.md'') (GlobalReviewMd rec),
     write_annotations_json i anns,
     upsertState st,
     appendLog [(''type'', JStr ''GLOBAL_REVIEW''), (''loop'', JStr i),
          (''verdict'', JStr (verdict_str (gr_verdict rec))), (''reviewer'', JStr (gr_reviewer rec))]]"

definition writeFinalize ::
    "loop_issue \<Rightarrow> loop_annotation list \<Rightarrow> loop_state_item \<Rightarrow> loop_convergence_pr \<Rightarrow> loop_learning list
     \<Rightarrow> fs \<Rightarrow> fs" where
  "writeFinalize issue anns st pr learnings = (let i = i_id issue in
     in_order [write_annotations_json i anns,
     (\<lambda>f. f\<lparr>fs_prs := AList.update i pr (fs_prs f)\<rparr>),
     put_text (''runs/'' @ i @ ''/convergence-pr.md'') (BodyMd (cp_prBody pr)),
     (if learnings = [] then id
         else (\<lambda>f. let ls = map (enrichLoopLearning (env_sha16 (fs_env f))) learnings in
           put_text (''learnings/'' @ i @ ''.md'') (LearningsMd ls)
             (f\<lparr>fs_learnings := AList.update i ls (fs_learnings f)\<rparr>))),
     put_issue (issue\<lparr>i_status := ISSUE_CLOSED, i_updated := st_updated st\<rparr>),
     upsertState st,
     appendLog [(''type'', JStr ''FINAL_ANNOTATE''), (''loop'', JStr i),
          (''status'', JStr (pr_status_str (cp_status pr))), (''pr'', JStr (cp_id pr))]])"

definition pairs_json :: "(string \<times> string) list \<Rightarrow> json" where
  "pairs_json ps = JArr (map (\<lambda>(p, l). JObj [(''path'', JStr p), (''label'', JStr l)]) ps)"

definition diff_json :: "visual_diff \<Rightarrow> json" where
  "diff_json d = JObj ([(''baselinePath'', JStr (vd_baselinePath d)), (''actualPath'', JStr (vd_actualPath d))]
     @ opt_str ''diffPath'' (vd_diffPath d)
     @ [(''status'', JStr (case vd_status d of DIFF_BASELINE_CREATED \<Rightarrow> ''baseline-created''
          | DIFF_MATCHED \<Rightarrow> ''matched'' | DIFF_CHANGED \<Rightarrow> ''changed''))]
     @ (case vd_changedPixels d of None \<Rightarrow> [] | Some n \<Rightarrow> [(''changedPixels'', jnat n)])
     @ [(''label'', JStr (vd_label d))]
     @ (case vd_viewport d of None \<Rightarrow> [] | Some v \<Rightarrow> [(''viewport'', JObj [(''name'', JStr (vp_name v)),
          (''width'', jnat (vp_width v)), (''height'', jnat (vp_height v))])]))"

definition writeBrowserQaReport :: "loop_browser_qa_report \<Rightarrow> fs \<Rightarrow> fs" where
  "writeBrowserQaReport r = (let i = bq_issueId r in
     in_order [(\<lambda>f. f\<lparr>fs_browserQa := AList.update (i, bq_id r) r (fs_browserQa f)\<rparr>),
     put_text (''runs/'' @ i @ ''/browser-qa/'' @ bq_id r @ ''.md'') (BrowserQaMd r),
     appendLog [(''type'', JStr ''BROWSER_QA''), (''loop'', JStr i),
          (''status'', JStr (qa_status_str (bq_status r))),
          (''payload'', JObj [(''reportId'', JStr (bq_id r)), (''targetUrl'', JStr (bq_targetUrl r)),
             (''screenshotCount'', jnat (length (bq_screenshots r))),
             (''traceCount'', jnat (length (case_option [] id (bq_traces r)))),
             (''traces'', pairs_json (case_option [] id (bq_traces r))),
             (''visualDiffs'', JArr (map diff_json (case_option [] id (bq_visualDiffs r)))),
             (''handoffs'', pairs_json (case_option [] id (bq_handoffs r)))])]])"

definition strip_suffix :: "string \<Rightarrow> string \<Rightarrow> string" where
  "strip_suffix suf s = (if starts_with (rev suf) (rev s) then take (length s - length suf) s else s)"

definition writeSecondOpinion :: "loop_second_opinion \<Rightarrow> fs \<Rightarrow> fs" where
  "writeSecondOpinion r = (let i = strip_suffix ''-second-opinion'' (so_id r) in
     in_order [(\<lambda>f. f\<lparr>fs_secondOpinions := AList.update i r (fs_secondOpinions f)\<rparr>),
     put_text (''runs/'' @ i @ ''/second-opinion.md'') (SecondOpinionMd r),
     appendLog [(''type'', JStr ''SECOND_OPINION''), (''loop'', JStr i),
          (''status'', JStr (second_opinion_status_str (so_status r))),
          (''payload'', JObj [(''primary'', JStr (reviewer_status_str (sv_status (so_primary r)))),
             (''secondary'', JStr (reviewer_status_str (sv_status (so_secondary r)))),
             (''conflicts'', jnat (sc_conflictCount (so_comparison r)))])]])"

definition writeIntervention ::
    "string \<Rightarrow> string \<Rightarrow> string \<Rightarrow> loop_state_item \<Rightarrow> loop_shard list option \<Rightarrow> loop_annotation list option
     \<Rightarrow> string option \<Rightarrow> string option \<Rightarrow> fs \<Rightarrow> fs" where
  "writeIntervention i action actor st shards anns shardId notes =
     in_order [(case shards of None \<Rightarrow> id | Some s \<Rightarrow> write_shards_json i s),
     (case anns of None \<Rightarrow> id | Some a \<Rightarrow> write_annotations_json i a),
     upsertState st,
     appendLog ([(''type'', JStr ''HUMAN_INTERVENE''), (''loop'', JStr i),
          (''action'', JStr action), (''actor'', JStr actor)]
          @ opt_str ''shard'' shardId @ opt_str ''notes'' notes),
     writeNotification i HUMAN_INTERVENTION actor (''Human intervention: '' @ action)
          (case shardId of Some (c # cs) \<Rightarrow> actor @ '' performed '' @ action @ '' on '' @ (c # cs) @ ''.''
           | _ \<Rightarrow> actor @ '' performed '' @ action @ '' on the loop.'')
          (loop_href i)]"

end
