(* ===== verification/Samples.thy ===== *)
theory Samples
  imports File_Store
begin

text \<open>
  One small concrete loop, used by the witnesses: the empty store, an issue with its intake
  and initial state, a spec, a shard and an annotation. None of it is a property of the code.
\<close>

definition sample_env :: store_env where
  "sample_env = \<lparr>env_config = DEFAULT_RUNTIME_CONFIG, env_now = (\<lambda>n. 1000 + n),
     env_random = (\<lambda>n. ''r''), env_sha16 = (\<lambda>s. s), env_send = (\<lambda>n. NOTE_SENT),
     env_num = (\<lambda>r. ''n''), env_iso = nat_str\<rparr>"

definition empty_fs :: "store_env \<Rightarrow> fs" where
  "empty_fs e = \<lparr>fs_env = e, fs_ticks = 0, fs_draws = 0, fs_issues = [], fs_intakes = [],
     fs_rawPayloads = [], fs_recipes = [], fs_states = [], fs_legacyState = None, fs_specs = [],
     fs_shards = [], fs_matrices = [], fs_annotations = [], fs_testRecords = [], fs_implRecords = [],
     fs_reviewRecords = [], fs_reviewHistory = [], fs_globalReviews = [], fs_prs = [],
     fs_learnings = [], fs_browserQa = [], fs_secondOpinions = [], fs_governance = [],
     fs_learningGovernance = None, fs_workflowDefaults = None, fs_ciIndexes = [],
     fs_notifications = [], fs_texts = [], fs_log = [], fs_locks = {}\<rparr>"

definition sample_issue :: loop_issue where
  "sample_issue = \<lparr>i_id = ''issue-1'', i_title = ''t'', i_status = ISSUE_OPEN, i_priority = P1,
     i_created = 1, i_updated = 1, i_sourceChannel = CHANNEL_WEB, i_sourceKind = KIND_WEB_FORM,
     i_submitterId = ''dev'', i_submitterName = ''Dev'', i_targetRepo = ''/repo'', i_body = ''b'',
     i_acceptanceCriteria = [''works''], i_rawPayloadRef = ''raw'', i_tenantContext = None\<rparr>"

definition sample_intake :: loop_intake where
  "sample_intake = \<lparr>in_id = ''intake-1-a'', in_issueId = ''issue-1'', in_sourceChannel = CHANNEL_WEB,
     in_sourceKind = KIND_WEB_FORM,
     in_submitter = \<lparr>sub_provider = PROVIDER_DEV, sub_userId = ''dev'', sub_name = ''Dev''\<rparr>,
     in_rawPayloadRef = ''raw'', in_status = INTAKE_NORMALIZED, in_created = 1,
     in_ruleSnapshot = None, in_tenantContext = None\<rparr>"

definition sample_state :: loop_state_item where
  "sample_state = \<lparr>st_issueId = ''issue-1'', st_phase = PHASE_1_SPEC, st_round = 1,
     st_specVersion = ''v0'', st_shardsTotal = 0, st_shardsDone = 0, st_shardsInProgress = 0,
     st_reloopCount = 0, st_costTokens = 0, st_costCalls = 0, st_updated = 1, st_paused = False,
     st_globalVerdict = None, st_finalized = None\<rparr>"

definition sample_spec :: loop_spec where
  "sample_spec = \<lparr>sp_id = ''spec-1'', sp_issueId = ''issue-1'', sp_version = ''v1'',
     sp_status = SPEC_APPROVED, sp_created = 1, sp_approvedBy = None, sp_contextBudget = 24000,
     sp_body = ''works''\<rparr>"

definition sample_shard :: "string \<Rightarrow> string list \<Rightarrow> loop_shard_status \<Rightarrow> loop_shard" where
  "sample_shard k deps s = \<lparr>sh_id = k, sh_specId = ''spec-1'', sh_title = ''works'', sh_status = s,
     sh_priority = P1, sh_dependsOn = deps, sh_estContext = 100, sh_estEffort = EFFORT_S,
     sh_acceptance = [''works''], sh_testUnit = [], sh_testIntegration = [], sh_testE2e = [],
     sh_filesHint = []\<rparr>"

definition sample_annotation :: "string \<Rightarrow> loop_annotation" where
  "sample_annotation k = \<lparr>an_target = k, an_annotator = BY_SYSTEM, an_round = 1,
     an_implStatus = IMPL_NOT_STARTED, an_testStatus = ANN_NOT_RUN, an_verdict = ANN_UNREVIEWED,
     an_coverage = COV_NONE, an_location = [], an_risk = RISK_LOW, an_notes = []\<rparr>"

definition sample_matrix :: loop_test_matrix where
  "sample_matrix = \<lparr>tm_id = ''matrix-1'', tm_issueId = ''issue-1'', tm_specId = ''spec-1'',
     tm_status = MATRIX_ACTIVE, tm_created = 1, tm_requiredTests = [], tm_regressionScope = [],
     tm_manualAcceptance = []\<rparr>"

definition sample_impl :: "string \<Rightarrow> loop_implementation_record" where
  "sample_impl k = \<lparr>ir_id = ''impl-'' @ k, ir_issueId = ''issue-1'', ir_shardId = k, ir_round = 1,
     ir_implementer = ''claude'', ir_status = REC_IMPLEMENTED, ir_summary = ''works'',
     ir_changedFiles = [''a.ts''], ir_notes = None, ir_created = 2, ir_tokens = Some 10,
     ir_durationSec = None, ir_testsChanged = None\<rparr>"

definition sample_test :: "string \<Rightarrow> loop_test_status \<Rightarrow> loop_test_record" where
  "sample_test k s = \<lparr>tr_id = ''test-'' @ k, tr_issueId = ''issue-1'', tr_shardId = k, tr_round = 1,
     tr_runner = ''loops-runner'', tr_status = s, tr_commands = [], tr_coverage = None,
     tr_failedTests = [], tr_fixInstructions = [], tr_runtimeSecurityPolicy = None, tr_created = 3\<rparr>"

definition sample_review :: "string \<Rightarrow> loop_review_record" where
  "sample_review k = \<lparr>rr_id = ''review-'' @ k, rr_issueId = ''issue-1'', rr_shardId = k, rr_round = 1,
     rr_reviewer = ''codex'', rr_verdict = PASS, rr_issues = [], rr_fixInstructions = [],
     rr_summary = ''ok'', rr_created = 4\<rparr>"

definition sample_global :: "loop_verdict \<Rightarrow> loop_global_review_record" where
  "sample_global v = \<lparr>gr_id = ''global-1'', gr_issueId = ''issue-1'', gr_reviewer = ''codex'',
     gr_round = 1, gr_verdict = v, gr_issues = [], gr_fixInstructions = [], gr_summary = ''ok'',
     gr_created = 5\<rparr>"

definition sample_pr :: loop_convergence_pr where
  "sample_pr = \<lparr>cp_id = ''pr-1'', cp_issueId = ''issue-1'', cp_branch = ''loop'', cp_baseBranch = ''main'',
     cp_provider = None, cp_url = None, cp_commits = [], cp_annotationsSummary = [], cp_prBody = ''pr'',
     cp_status = PR_DRAFT, cp_created = 6\<rparr>"

text \<open>A store holding the sample loop as \<open>createIssue\<close> leaves it.\<close>

definition sample_fs :: fs where
  "sample_fs = (empty_fs sample_env)\<lparr>fs_issues := [(''issue-1'', sample_issue)],
     fs_intakes := [(''intake-1-a'', sample_intake)], fs_states := [(''issue-1'', sample_state)]\<rparr>"

end
