(* ===== verification/Store_Laws.thy ===== *)
theory Store_Laws
  imports Samples
begin

text \<open>
  Laws of the file store. The first part lists, per primitive write, the file kinds it leaves
  alone and reads back the one it changes. The second part states what an operation on one
  issue promises to every other issue as the locale \<open>issue_op\<close>, closed under composition, and
  interprets it on each write of the service: two loops never disturb each other's detail.
\<close>

subsection \<open>What each write leaves alone\<close>

lemma tick_frame [simp]:
  "fs_env (tick f) = fs_env f"
  "fs_draws (tick f) = fs_draws f"
  "fs_issues (tick f) = fs_issues f"
  "fs_intakes (tick f) = fs_intakes f"
  "fs_rawPayloads (tick f) = fs_rawPayloads f"
  "fs_recipes (tick f) = fs_recipes f"
  "fs_states (tick f) = fs_states f"
  "fs_legacyState (tick f) = fs_legacyState f"
  "fs_specs (tick f) = fs_specs f"
  "fs_shards (tick f) = fs_shards f"
  "fs_matrices (tick f) = fs_matrices f"
  "fs_annotations (tick f) = fs_annotations f"
  "fs_testRecords (tick f) = fs_testRecords f"
  "fs_implRecords (tick f) = fs_implRecords f"
  "fs_reviewRecords (tick f) = fs_reviewRecords f"
  "fs_reviewHistory (tick f) = fs_reviewHistory f"
  "fs_globalReviews (tick f) = fs_globalReviews f"
  "fs_prs (tick f) = fs_prs f"
  "fs_learnings (tick f) = fs_learnings f"
  "fs_browserQa (tick f) = fs_browserQa f"
  "fs_secondOpinions (tick f) = fs_secondOpinions f"
  "fs_governance (tick f) = fs_governance f"
  "fs_learningGovernance (tick f) = fs_learningGovernance f"
  "fs_workflowDefaults (tick f) = fs_workflowDefaults f"
  "fs_ciIndexes (tick f) = fs_ciIndexes f"
  "fs_notifications (tick f) = fs_notifications f"
  "fs_texts (tick f) = fs_texts f"
  "fs_log (tick f) = fs_log f"
  "fs_locks (tick f) = fs_locks f"
  by (simp_all add: tick_def)

lemma put_text_frame [simp]:
  "fs_env (put_text p d f) = fs_env f"
  "fs_ticks (put_text p d f) = fs_ticks f"
  "fs_draws (put_text p d f) = fs_draws f"
  "fs_issues (put_text p d f) = fs_issues f"
  "fs_intakes (put_text p d f) = fs_intakes f"
  "fs_rawPayloads (put_text p d f) = fs_rawPayloads f"
  "fs_recipes (put_text p d f) = fs_recipes f"
  "fs_states (put_text p d f) = fs_states f"
  "fs_legacyState (put_text p d f) = fs_legacyState f"
  "fs_specs (put_text p d f) = fs_specs f"
  "fs_shards (put_text p d f) = fs_shards f"
  "fs_matrices (put_text p d f) = fs_matrices f"
  "fs_annotations (put_text p d f) = fs_annotations f"
  "fs_testRecords (put_text p d f) = fs_testRecords f"
  "fs_implRecords (put_text p d f) = fs_implRecords f"
  "fs_reviewRecords (put_text p d f) = fs_reviewRecords f"
  "fs_reviewHistory (put_text p d f) = fs_reviewHistory f"
  "fs_globalReviews (put_text p d f) = fs_globalReviews f"
  "fs_prs (put_text p d f) = fs_prs f"
  "fs_learnings (put_text p d f) = fs_learnings f"
  "fs_browserQa (put_text p d f) = fs_browserQa f"
  "fs_secondOpinions (put_text p d f) = fs_secondOpinions f"
  "fs_governance (put_text p d f) = fs_governance f"
  "fs_learningGovernance (put_text p d f) = fs_learningGovernance f"
  "fs_workflowDefaults (put_text p d f) = fs_workflowDefaults f"
  "fs_ciIndexes (put_text p d f) = fs_ciIndexes f"
  "fs_notifications (put_text p d f) = fs_notifications f"
  "fs_log (put_text p d f) = fs_log f"
  "fs_locks (put_text p d f) = fs_locks f"
  by (simp_all add: put_text_def)

lemma put_issue_frame [simp]:
  "fs_env (put_issue x f) = fs_env f"
  "fs_ticks (put_issue x f) = fs_ticks f"
  "fs_draws (put_issue x f) = fs_draws f"
  "fs_intakes (put_issue x f) = fs_intakes f"
  "fs_rawPayloads (put_issue x f) = fs_rawPayloads f"
  "fs_recipes (put_issue x f) = fs_recipes f"
  "fs_states (put_issue x f) = fs_states f"
  "fs_legacyState (put_issue x f) = fs_legacyState f"
  "fs_specs (put_issue x f) = fs_specs f"
  "fs_shards (put_issue x f) = fs_shards f"
  "fs_matrices (put_issue x f) = fs_matrices f"
  "fs_annotations (put_issue x f) = fs_annotations f"
  "fs_testRecords (put_issue x f) = fs_testRecords f"
  "fs_implRecords (put_issue x f) = fs_implRecords f"
  "fs_reviewRecords (put_issue x f) = fs_reviewRecords f"
  "fs_reviewHistory (put_issue x f) = fs_reviewHistory f"
  "fs_globalReviews (put_issue x f) = fs_globalReviews f"
  "fs_prs (put_issue x f) = fs_prs f"
  "fs_learnings (put_issue x f) = fs_learnings f"
  "fs_browserQa (put_issue x f) = fs_browserQa f"
  "fs_secondOpinions (put_issue x f) = fs_secondOpinions f"
  "fs_governance (put_issue x f) = fs_governance f"
  "fs_learningGovernance (put_issue x f) = fs_learningGovernance f"
  "fs_workflowDefaults (put_issue x f) = fs_workflowDefaults f"
  "fs_ciIndexes (put_issue x f) = fs_ciIndexes f"
  "fs_notifications (put_issue x f) = fs_notifications f"
  "fs_texts (put_issue x f) = fs_texts f"
  "fs_log (put_issue x f) = fs_log f"
  "fs_locks (put_issue x f) = fs_locks f"
  by (simp_all add: put_issue_def)

lemma put_shards_frame [simp]:
  "fs_env (put_shards i x f) = fs_env f"
  "fs_ticks (put_shards i x f) = fs_ticks f"
  "fs_draws (put_shards i x f) = fs_draws f"
  "fs_issues (put_shards i x f) = fs_issues f"
  "fs_intakes (put_shards i x f) = fs_intakes f"
  "fs_rawPayloads (put_shards i x f) = fs_rawPayloads f"
  "fs_recipes (put_shards i x f) = fs_recipes f"
  "fs_states (put_shards i x f) = fs_states f"
  "fs_legacyState (put_shards i x f) = fs_legacyState f"
  "fs_specs (put_shards i x f) = fs_specs f"
  "fs_matrices (put_shards i x f) = fs_matrices f"
  "fs_annotations (put_shards i x f) = fs_annotations f"
  "fs_testRecords (put_shards i x f) = fs_testRecords f"
  "fs_implRecords (put_shards i x f) = fs_implRecords f"
  "fs_reviewRecords (put_shards i x f) = fs_reviewRecords f"
  "fs_reviewHistory (put_shards i x f) = fs_reviewHistory f"
  "fs_globalReviews (put_shards i x f) = fs_globalReviews f"
  "fs_prs (put_shards i x f) = fs_prs f"
  "fs_learnings (put_shards i x f) = fs_learnings f"
  "fs_browserQa (put_shards i x f) = fs_browserQa f"
  "fs_secondOpinions (put_shards i x f) = fs_secondOpinions f"
  "fs_governance (put_shards i x f) = fs_governance f"
  "fs_learningGovernance (put_shards i x f) = fs_learningGovernance f"
  "fs_workflowDefaults (put_shards i x f) = fs_workflowDefaults f"
  "fs_ciIndexes (put_shards i x f) = fs_ciIndexes f"
  "fs_notifications (put_shards i x f) = fs_notifications f"
  "fs_texts (put_shards i x f) = fs_texts f"
  "fs_log (put_shards i x f) = fs_log f"
  "fs_locks (put_shards i x f) = fs_locks f"
  by (simp_all add: put_shards_def)

lemma put_annotations_frame [simp]:
  "fs_env (put_annotations i x f) = fs_env f"
  "fs_ticks (put_annotations i x f) = fs_ticks f"
  "fs_draws (put_annotations i x f) = fs_draws f"
  "fs_issues (put_annotations i x f) = fs_issues f"
  "fs_intakes (put_annotations i x f) = fs_intakes f"
  "fs_rawPayloads (put_annotations i x f) = fs_rawPayloads f"
  "fs_recipes (put_annotations i x f) = fs_recipes f"
  "fs_states (put_annotations i x f) = fs_states f"
  "fs_legacyState (put_annotations i x f) = fs_legacyState f"
  "fs_specs (put_annotations i x f) = fs_specs f"
  "fs_shards (put_annotations i x f) = fs_shards f"
  "fs_matrices (put_annotations i x f) = fs_matrices f"
  "fs_testRecords (put_annotations i x f) = fs_testRecords f"
  "fs_implRecords (put_annotations i x f) = fs_implRecords f"
  "fs_reviewRecords (put_annotations i x f) = fs_reviewRecords f"
  "fs_reviewHistory (put_annotations i x f) = fs_reviewHistory f"
  "fs_globalReviews (put_annotations i x f) = fs_globalReviews f"
  "fs_prs (put_annotations i x f) = fs_prs f"
  "fs_learnings (put_annotations i x f) = fs_learnings f"
  "fs_browserQa (put_annotations i x f) = fs_browserQa f"
  "fs_secondOpinions (put_annotations i x f) = fs_secondOpinions f"
  "fs_governance (put_annotations i x f) = fs_governance f"
  "fs_learningGovernance (put_annotations i x f) = fs_learningGovernance f"
  "fs_workflowDefaults (put_annotations i x f) = fs_workflowDefaults f"
  "fs_ciIndexes (put_annotations i x f) = fs_ciIndexes f"
  "fs_notifications (put_annotations i x f) = fs_notifications f"
  "fs_texts (put_annotations i x f) = fs_texts f"
  "fs_log (put_annotations i x f) = fs_log f"
  "fs_locks (put_annotations i x f) = fs_locks f"
  by (simp_all add: put_annotations_def)

lemma ensureInitialized_frame [simp]:
  "fs_env (ensureInitialized f) = fs_env f"
  "fs_ticks (ensureInitialized f) = fs_ticks f"
  "fs_draws (ensureInitialized f) = fs_draws f"
  "fs_issues (ensureInitialized f) = fs_issues f"
  "fs_intakes (ensureInitialized f) = fs_intakes f"
  "fs_rawPayloads (ensureInitialized f) = fs_rawPayloads f"
  "fs_recipes (ensureInitialized f) = fs_recipes f"
  "fs_states (ensureInitialized f) = fs_states f"
  "fs_specs (ensureInitialized f) = fs_specs f"
  "fs_shards (ensureInitialized f) = fs_shards f"
  "fs_matrices (ensureInitialized f) = fs_matrices f"
  "fs_annotations (ensureInitialized f) = fs_annotations f"
  "fs_testRecords (ensureInitialized f) = fs_testRecords f"
  "fs_implRecords (ensureInitialized f) = fs_implRecords f"
  "fs_reviewRecords (ensureInitialized f) = fs_reviewRecords f"
  "fs_reviewHistory (ensureInitialized f) = fs_reviewHistory f"
  "fs_globalReviews (ensureInitialized f) = fs_globalReviews f"
  "fs_prs (ensureInitialized f) = fs_prs f"
  "fs_learnings (ensureInitialized f) = fs_learnings f"
  "fs_browserQa (ensureInitialized f) = fs_browserQa f"
  "fs_secondOpinions (ensureInitialized f) = fs_secondOpinions f"
  "fs_governance (ensureInitialized f) = fs_governance f"
  "fs_learningGovernance (ensureInitialized f) = fs_learningGovernance f"
  "fs_workflowDefaults (ensureInitialized f) = fs_workflowDefaults f"
  "fs_ciIndexes (ensureInitialized f) = fs_ciIndexes f"
  "fs_notifications (ensureInitialized f) = fs_notifications f"
  "fs_texts (ensureInitialized f) = fs_texts f"
  "fs_log (ensureInitialized f) = fs_log f"
  "fs_locks (ensureInitialized f) = fs_locks f"
  by (simp_all add: ensureInitialized_def)

lemma upsertState_frame [simp]:
  "fs_env (upsertState st f) = fs_env f"
  "fs_ticks (upsertState st f) = fs_ticks f"
  "fs_draws (upsertState st f) = fs_draws f"
  "fs_issues (upsertState st f) = fs_issues f"
  "fs_intakes (upsertState st f) = fs_intakes f"
  "fs_rawPayloads (upsertState st f) = fs_rawPayloads f"
  "fs_recipes (upsertState st f) = fs_recipes f"
  "fs_specs (upsertState st f) = fs_specs f"
  "fs_shards (upsertState st f) = fs_shards f"
  "fs_matrices (upsertState st f) = fs_matrices f"
  "fs_annotations (upsertState st f) = fs_annotations f"
  "fs_testRecords (upsertState st f) = fs_testRecords f"
  "fs_implRecords (upsertState st f) = fs_implRecords f"
  "fs_reviewRecords (upsertState st f) = fs_reviewRecords f"
  "fs_reviewHistory (upsertState st f) = fs_reviewHistory f"
  "fs_globalReviews (upsertState st f) = fs_globalReviews f"
  "fs_prs (upsertState st f) = fs_prs f"
  "fs_learnings (upsertState st f) = fs_learnings f"
  "fs_browserQa (upsertState st f) = fs_browserQa f"
  "fs_secondOpinions (upsertState st f) = fs_secondOpinions f"
  "fs_governance (upsertState st f) = fs_governance f"
  "fs_learningGovernance (upsertState st f) = fs_learningGovernance f"
  "fs_workflowDefaults (upsertState st f) = fs_workflowDefaults f"
  "fs_ciIndexes (upsertState st f) = fs_ciIndexes f"
  "fs_notifications (upsertState st f) = fs_notifications f"
  "fs_texts (upsertState st f) = fs_texts f"
  "fs_log (upsertState st f) = fs_log f"
  "fs_locks (upsertState st f) = fs_locks f"
  by (simp_all add: upsertState_def Let_def)

lemma appendLog_frame [simp]:
  "fs_env (appendLog p f) = fs_env f"
  "fs_draws (appendLog p f) = fs_draws f"
  "fs_issues (appendLog p f) = fs_issues f"
  "fs_intakes (appendLog p f) = fs_intakes f"
  "fs_rawPayloads (appendLog p f) = fs_rawPayloads f"
  "fs_recipes (appendLog p f) = fs_recipes f"
  "fs_states (appendLog p f) = fs_states f"
  "fs_legacyState (appendLog p f) = fs_legacyState f"
  "fs_specs (appendLog p f) = fs_specs f"
  "fs_shards (appendLog p f) = fs_shards f"
  "fs_matrices (appendLog p f) = fs_matrices f"
  "fs_annotations (appendLog p f) = fs_annotations f"
  "fs_testRecords (appendLog p f) = fs_testRecords f"
  "fs_implRecords (appendLog p f) = fs_implRecords f"
  "fs_reviewRecords (appendLog p f) = fs_reviewRecords f"
  "fs_reviewHistory (appendLog p f) = fs_reviewHistory f"
  "fs_globalReviews (appendLog p f) = fs_globalReviews f"
  "fs_prs (appendLog p f) = fs_prs f"
  "fs_learnings (appendLog p f) = fs_learnings f"
  "fs_browserQa (appendLog p f) = fs_browserQa f"
  "fs_secondOpinions (appendLog p f) = fs_secondOpinions f"
  "fs_governance (appendLog p f) = fs_governance f"
  "fs_learningGovernance (appendLog p f) = fs_learningGovernance f"
  "fs_workflowDefaults (appendLog p f) = fs_workflowDefaults f"
  "fs_ciIndexes (appendLog p f) = fs_ciIndexes f"
  "fs_notifications (appendLog p f) = fs_notifications f"
  "fs_texts (appendLog p f) = fs_texts f"
  "fs_locks (appendLog p f) = fs_locks f"
  by (simp_all add: appendLog_def)

lemma put_notification_frame [simp]:
  "fs_env (put_notification n f) = fs_env f"
  "fs_ticks (put_notification n f) = fs_ticks f"
  "fs_draws (put_notification n f) = fs_draws f"
  "fs_issues (put_notification n f) = fs_issues f"
  "fs_intakes (put_notification n f) = fs_intakes f"
  "fs_rawPayloads (put_notification n f) = fs_rawPayloads f"
  "fs_recipes (put_notification n f) = fs_recipes f"
  "fs_states (put_notification n f) = fs_states f"
  "fs_legacyState (put_notification n f) = fs_legacyState f"
  "fs_specs (put_notification n f) = fs_specs f"
  "fs_shards (put_notification n f) = fs_shards f"
  "fs_matrices (put_notification n f) = fs_matrices f"
  "fs_annotations (put_notification n f) = fs_annotations f"
  "fs_testRecords (put_notification n f) = fs_testRecords f"
  "fs_implRecords (put_notification n f) = fs_implRecords f"
  "fs_reviewRecords (put_notification n f) = fs_reviewRecords f"
  "fs_reviewHistory (put_notification n f) = fs_reviewHistory f"
  "fs_globalReviews (put_notification n f) = fs_globalReviews f"
  "fs_prs (put_notification n f) = fs_prs f"
  "fs_learnings (put_notification n f) = fs_learnings f"
  "fs_browserQa (put_notification n f) = fs_browserQa f"
  "fs_secondOpinions (put_notification n f) = fs_secondOpinions f"
  "fs_governance (put_notification n f) = fs_governance f"
  "fs_learningGovernance (put_notification n f) = fs_learningGovernance f"
  "fs_workflowDefaults (put_notification n f) = fs_workflowDefaults f"
  "fs_ciIndexes (put_notification n f) = fs_ciIndexes f"
  "fs_texts (put_notification n f) = fs_texts f"
  "fs_log (put_notification n f) = fs_log f"
  "fs_locks (put_notification n f) = fs_locks f"
  by (simp_all add: put_notification_def)

lemma draw_frame [simp]:
  "fs_env (snd (draw f)) = fs_env f"
  "fs_ticks (snd (draw f)) = fs_ticks f"
  "fs_issues (snd (draw f)) = fs_issues f"
  "fs_intakes (snd (draw f)) = fs_intakes f"
  "fs_rawPayloads (snd (draw f)) = fs_rawPayloads f"
  "fs_recipes (snd (draw f)) = fs_recipes f"
  "fs_states (snd (draw f)) = fs_states f"
  "fs_legacyState (snd (draw f)) = fs_legacyState f"
  "fs_specs (snd (draw f)) = fs_specs f"
  "fs_shards (snd (draw f)) = fs_shards f"
  "fs_matrices (snd (draw f)) = fs_matrices f"
  "fs_annotations (snd (draw f)) = fs_annotations f"
  "fs_testRecords (snd (draw f)) = fs_testRecords f"
  "fs_implRecords (snd (draw f)) = fs_implRecords f"
  "fs_reviewRecords (snd (draw f)) = fs_reviewRecords f"
  "fs_reviewHistory (snd (draw f)) = fs_reviewHistory f"
  "fs_globalReviews (snd (draw f)) = fs_globalReviews f"
  "fs_prs (snd (draw f)) = fs_prs f"
  "fs_learnings (snd (draw f)) = fs_learnings f"
  "fs_browserQa (snd (draw f)) = fs_browserQa f"
  "fs_secondOpinions (snd (draw f)) = fs_secondOpinions f"
  "fs_governance (snd (draw f)) = fs_governance f"
  "fs_learningGovernance (snd (draw f)) = fs_learningGovernance f"
  "fs_workflowDefaults (snd (draw f)) = fs_workflowDefaults f"
  "fs_ciIndexes (snd (draw f)) = fs_ciIndexes f"
  "fs_notifications (snd (draw f)) = fs_notifications f"
  "fs_texts (snd (draw f)) = fs_texts f"
  "fs_log (snd (draw f)) = fs_log f"
  "fs_locks (snd (draw f)) = fs_locks f"
  by (simp_all add: draw_def)

lemma writeNotification_frame [simp]:
  "fs_env (writeNotification i k r t b h f) = fs_env f"
  "fs_issues (writeNotification i k r t b h f) = fs_issues f"
  "fs_intakes (writeNotification i k r t b h f) = fs_intakes f"
  "fs_rawPayloads (writeNotification i k r t b h f) = fs_rawPayloads f"
  "fs_recipes (writeNotification i k r t b h f) = fs_recipes f"
  "fs_states (writeNotification i k r t b h f) = fs_states f"
  "fs_legacyState (writeNotification i k r t b h f) = fs_legacyState f"
  "fs_specs (writeNotification i k r t b h f) = fs_specs f"
  "fs_shards (writeNotification i k r t b h f) = fs_shards f"
  "fs_matrices (writeNotification i k r t b h f) = fs_matrices f"
  "fs_annotations (writeNotification i k r t b h f) = fs_annotations f"
  "fs_testRecords (writeNotification i k r t b h f) = fs_testRecords f"
  "fs_implRecords (writeNotification i k r t b h f) = fs_implRecords f"
  "fs_reviewRecords (writeNotification i k r t b h f) = fs_reviewRecords f"
  "fs_reviewHistory (writeNotification i k r t b h f) = fs_reviewHistory f"
  "fs_globalReviews (writeNotification i k r t b h f) = fs_globalReviews f"
  "fs_prs (writeNotification i k r t b h f) = fs_prs f"
  "fs_learnings (writeNotification i k r t b h f) = fs_learnings f"
  "fs_browserQa (writeNotification i k r t b h f) = fs_browserQa f"
  "fs_secondOpinions (writeNotification i k r t b h f) = fs_secondOpinions f"
  "fs_governance (writeNotification i k r t b h f) = fs_governance f"
  "fs_learningGovernance (writeNotification i k r t b h f) = fs_learningGovernance f"
  "fs_workflowDefaults (writeNotification i k r t b h f) = fs_workflowDefaults f"
  "fs_ciIndexes (writeNotification i k r t b h f) = fs_ciIndexes f"
  "fs_locks (writeNotification i k r t b h f) = fs_locks f"
  by (simp_all add: writeNotification_def Let_def)

lemma write_shards_json_frame [simp]:
  "fs_env (write_shards_json i x f) = fs_env f"
  "fs_ticks (write_shards_json i x f) = fs_ticks f"
  "fs_draws (write_shards_json i x f) = fs_draws f"
  "fs_issues (write_shards_json i x f) = fs_issues f"
  "fs_intakes (write_shards_json i x f) = fs_intakes f"
  "fs_rawPayloads (write_shards_json i x f) = fs_rawPayloads f"
  "fs_recipes (write_shards_json i x f) = fs_recipes f"
  "fs_states (write_shards_json i x f) = fs_states f"
  "fs_legacyState (write_shards_json i x f) = fs_legacyState f"
  "fs_specs (write_shards_json i x f) = fs_specs f"
  "fs_matrices (write_shards_json i x f) = fs_matrices f"
  "fs_annotations (write_shards_json i x f) = fs_annotations f"
  "fs_testRecords (write_shards_json i x f) = fs_testRecords f"
  "fs_implRecords (write_shards_json i x f) = fs_implRecords f"
  "fs_reviewRecords (write_shards_json i x f) = fs_reviewRecords f"
  "fs_reviewHistory (write_shards_json i x f) = fs_reviewHistory f"
  "fs_globalReviews (write_shards_json i x f) = fs_globalReviews f"
  "fs_prs (write_shards_json i x f) = fs_prs f"
  "fs_learnings (write_shards_json i x f) = fs_learnings f"
  "fs_browserQa (write_shards_json i x f) = fs_browserQa f"
  "fs_secondOpinions (write_shards_json i x f) = fs_secondOpinions f"
  "fs_governance (write_shards_json i x f) = fs_governance f"
  "fs_learningGovernance (write_shards_json i x f) = fs_learningGovernance f"
  "fs_workflowDefaults (write_shards_json i x f) = fs_workflowDefaults f"
  "fs_ciIndexes (write_shards_json i x f) = fs_ciIndexes f"
  "fs_notifications (write_shards_json i x f) = fs_notifications f"
  "fs_log (write_shards_json i x f) = fs_log f"
  "fs_locks (write_shards_json i x f) = fs_locks f"
  by (simp_all add: write_shards_json_def)

lemma write_annotations_json_frame [simp]:
  "fs_env (write_annotations_json i x f) = fs_env f"
  "fs_ticks (write_annotations_json i x f) = fs_ticks f"
  "fs_draws (write_annotations_json i x f) = fs_draws f"
  "fs_issues (write_annotations_json i x f) = fs_issues f"
  "fs_intakes (write_annotations_json i x f) = fs_intakes f"
  "fs_rawPayloads (write_annotations_json i x f) = fs_rawPayloads f"
  "fs_recipes (write_annotations_json i x f) = fs_recipes f"
  "fs_states (write_annotations_json i x f) = fs_states f"
  "fs_legacyState (write_annotations_json i x f) = fs_legacyState f"
  "fs_specs (write_annotations_json i x f) = fs_specs f"
  "fs_shards (write_annotations_json i x f) = fs_shards f"
  "fs_matrices (write_annotations_json i x f) = fs_matrices f"
  "fs_testRecords (write_annotations_json i x f) = fs_testRecords f"
  "fs_implRecords (write_annotations_json i x f) = fs_implRecords f"
  "fs_reviewRecords (write_annotations_json i x f) = fs_reviewRecords f"
  "fs_reviewHistory (write_annotations_json i x f) = fs_reviewHistory f"
  "fs_globalReviews (write_annotations_json i x f) = fs_globalReviews f"
  "fs_prs (write_annotations_json i x f) = fs_prs f"
  "fs_learnings (write_annotations_json i x f) = fs_learnings f"
  "fs_browserQa (write_annotations_json i x f) = fs_browserQa f"
  "fs_secondOpinions (write_annotations_json i x f) = fs_secondOpinions f"
  "fs_governance (write_annotations_json i x f) = fs_governance f"
  "fs_learningGovernance (write_annotations_json i x f) = fs_learningGovernance f"
  "fs_workflowDefaults (write_annotations_json i x f) = fs_workflowDefaults f"
  "fs_ciIndexes (write_annotations_json i x f) = fs_ciIndexes f"
  "fs_notifications (write_annotations_json i x f) = fs_notifications f"
  "fs_log (write_annotations_json i x f) = fs_log f"
  "fs_locks (write_annotations_json i x f) = fs_locks f"
  by (simp_all add: write_annotations_json_def)

lemma enforceCostGuard_frame [simp]:
  "fs_env (snd (enforceCostGuard st f)) = fs_env f"
  "fs_issues (snd (enforceCostGuard st f)) = fs_issues f"
  "fs_intakes (snd (enforceCostGuard st f)) = fs_intakes f"
  "fs_rawPayloads (snd (enforceCostGuard st f)) = fs_rawPayloads f"
  "fs_recipes (snd (enforceCostGuard st f)) = fs_recipes f"
  "fs_states (snd (enforceCostGuard st f)) = fs_states f"
  "fs_legacyState (snd (enforceCostGuard st f)) = fs_legacyState f"
  "fs_specs (snd (enforceCostGuard st f)) = fs_specs f"
  "fs_shards (snd (enforceCostGuard st f)) = fs_shards f"
  "fs_matrices (snd (enforceCostGuard st f)) = fs_matrices f"
  "fs_annotations (snd (enforceCostGuard st f)) = fs_annotations f"
  "fs_testRecords (snd (enforceCostGuard st f)) = fs_testRecords f"
  "fs_implRecords (snd (enforceCostGuard st f)) = fs_implRecords f"
  "fs_reviewRecords (snd (enforceCostGuard st f)) = fs_reviewRecords f"
  "fs_reviewHistory (snd (enforceCostGuard st f)) = fs_reviewHistory f"
  "fs_globalReviews (snd (enforceCostGuard st f)) = fs_globalReviews f"
  "fs_prs (snd (enforceCostGuard st f)) = fs_prs f"
  "fs_learnings (snd (enforceCostGuard st f)) = fs_learnings f"
  "fs_browserQa (snd (enforceCostGuard st f)) = fs_browserQa f"
  "fs_secondOpinions (snd (enforceCostGuard st f)) = fs_secondOpinions f"
  "fs_governance (snd (enforceCostGuard st f)) = fs_governance f"
  "fs_learningGovernance (snd (enforceCostGuard st f)) = fs_learningGovernance f"
  "fs_workflowDefaults (snd (enforceCostGuard st f)) = fs_workflowDefaults f"
  "fs_ciIndexes (snd (enforceCostGuard st f)) = fs_ciIndexes f"
  "fs_locks (snd (enforceCostGuard st f)) = fs_locks f"
  by (simp_all add: enforceCostGuard_def Let_def)

subsection \<open>Reading back\<close>

lemma fs_issues_put_issue [store_simps]:
  "fs_issues (put_issue x f) = AList.update (i_id x) x (fs_issues f)"
  by (simp add: put_issue_def)

lemma fs_shards_put_shards [store_simps]:
  "fs_shards (put_shards i x f) = AList.update i x (fs_shards f)"
  by (simp add: put_shards_def)

lemma fs_shards_write [store_simps]:
  "fs_shards (write_shards_json i x f) = AList.update i x (fs_shards f)"
  by (simp add: write_shards_json_def put_shards_def)

lemma fs_annotations_write [store_simps]:
  "fs_annotations (write_annotations_json i x f) = AList.update i x (fs_annotations f)"
  by (simp add: write_annotations_json_def put_annotations_def)

lemma fs_states_upsertState [store_simps]:
  "fs_states (upsertState st f) = AList.update (st_issueId st) st (fs_states f)"
  by (simp add: upsertState_def Let_def)

lemma fs_legacyState_upsertState [store_simps]:
  "fs_legacyState (upsertState st f) = Some (case_option [] id (fs_legacyState f))"
  by (simp add: upsertState_def Let_def ensureInitialized_def split: option.splits)

lemma fs_legacyState_ensureInitialized [store_simps]:
  "fs_legacyState (ensureInitialized f) = Some (case_option [] id (fs_legacyState f))"
  by (simp add: ensureInitialized_def split: option.splits)

lemma fs_log_appendLog [store_simps]:
  "fs_log (appendLog p f) = fs_log f @ [\<lparr>ll_ts = clock f, ll_payload = p\<rparr>]"
  by (simp add: appendLog_def)

subsection \<open>The state of one loop\<close>

text \<open>Every state file is named after the loop it holds; the service's writes keep this.\<close>

definition states_wf :: "fs \<Rightarrow> bool" where
  "states_wf f \<longleftrightarrow> distinct (map fst (fs_states f)) \<and> (\<forall>(k, st) \<in> set (fs_states f). k = st_issueId st)"

definition state_map_wf :: "(string \<times> loop_state_item) list \<Rightarrow> bool" where
  "state_map_wf m \<longleftrightarrow> distinct (map fst m) \<and> (\<forall>(k, st) \<in> set m. k = st_issueId st)"

lemma in_update: "x \<in> set (AList.update k v m) \<Longrightarrow> x = (k, v) \<or> x \<in> set m"
  by (induction m) (auto split: if_splits)

lemma state_map_wf_update:
  "state_map_wf m \<Longrightarrow> state_map_wf (AList.update (st_issueId st) st m)"
  by (auto simp: state_map_wf_def distinct_update dest!: in_update)

lemma states_wf_upsertState: "states_wf f \<Longrightarrow> states_wf (upsertState st f)"
  using state_map_wf_update [of "fs_states f" st]
  by (simp add: states_wf_def state_map_wf_def store_simps)

abbreviation ins_state :: "(string \<times> loop_state_item) list \<Rightarrow> loop_state_item \<Rightarrow> (string \<times> loop_state_item) list" where
  "ins_state m st \<equiv> (if st_issueId st \<noteq> [] then AList.update (st_issueId st) st m else m)"

abbreviation ins_legacy :: "(string \<times> loop_state_item) list \<Rightarrow> loop_state_item \<Rightarrow> (string \<times> loop_state_item) list" where
  "ins_legacy m st \<equiv> (if st_issueId st \<noteq> [] \<and> st_issueId st \<notin> fst ` set m
     then AList.update (st_issueId st) st m else m)"

lemma foldl_ins_state:
  assumes "distinct (map st_issueId xs)" and "j \<noteq> []"
  shows "map_of (foldl ins_state m xs) j
    = (case List.find (\<lambda>st. st_issueId st = j) xs of Some st \<Rightarrow> Some st | None \<Rightarrow> map_of m j)"
  using assms(1)
proof (induction xs arbitrary: m)
  case Nil
  show ?case by simp
next
  case (Cons x xs)
  have "List.find (\<lambda>st. st_issueId st = j) xs = None" if "st_issueId x = j"
  proof -
    from Cons.prems that have "j \<notin> st_issueId ` set xs" by simp
    then show ?thesis unfolding find_None_iff by blast
  qed
  with Cons \<open>j \<noteq> []\<close> show ?case by (auto split: option.splits)
qed

lemma foldl_ins_legacy:
  assumes "j \<noteq> []"
  shows "map_of (foldl ins_legacy m xs) j
    = (case map_of m j of Some st \<Rightarrow> Some st | None \<Rightarrow> List.find (\<lambda>st. st_issueId st = j) xs)"
proof (induction xs arbitrary: m)
  case Nil
  show ?case by (simp split: option.splits)
next
  case (Cons x xs)
  show ?case
  proof (cases "st_issueId x \<in> fst ` set m")
    case True
    then have "map_of m (st_issueId x) \<noteq> None" by (simp add: map_of_eq_None_iff)
    with True Cons show ?thesis by (auto split: option.splits)
  next
    case False
    then have "map_of m (st_issueId x) = None" by (simp add: map_of_eq_None_iff)
    with False Cons assms show ?thesis by (simp split: option.splits)
  qed
qed

lemma foldl_ins_state_wf: "state_map_wf m \<Longrightarrow> state_map_wf (foldl ins_state m xs)"
  by (induction xs arbitrary: m) (simp_all add: state_map_wf_update)

lemma foldl_ins_legacy_wf: "state_map_wf m \<Longrightarrow> state_map_wf (foldl ins_legacy m xs)"
  by (induction xs arbitrary: m) (simp_all add: state_map_wf_update)

lemma find_map_snd:
  "state_map_wf m \<Longrightarrow> List.find (\<lambda>st. st_issueId st = j) (map snd m) = map_of m j"
  by (induction m) (auto simp: state_map_wf_def)

lemma find_state_files:
  "states_wf f \<Longrightarrow> List.find (\<lambda>st. st_issueId st = j) (map snd (fs_states f)) = map_of (fs_states f) j"
  by (rule find_map_snd) (simp add: states_wf_def state_map_wf_def)

lemma map_issueId_wf:
  assumes "states_wf f"
  shows "map st_issueId (map snd (fs_states f)) = map fst (fs_states f)"
proof -
  have "st_issueId (snd x) = fst x" if "x \<in> set (fs_states f)" for x
    using assms that by (cases x) (auto simp: states_wf_def)
  then show ?thesis by simp
qed

abbreviation "legacy_states f \<equiv> case_option [] id (fs_legacyState f)"

lemma stateOf_alt:
  assumes wf: "states_wf f" and j: "j \<noteq> []"
  shows "stateOf j f = (case map_of (fs_states f) j of Some st \<Rightarrow> Some st
     | None \<Rightarrow> List.find (\<lambda>st. st_issueId st = j) (legacy_states f))"
proof -
  let ?m = "foldl ins_state [] (map snd (fs_states f))"
  have wf0: "state_map_wf []" by (simp add: state_map_wf_def)
  have leg: "(case fs_legacyState f of None \<Rightarrow> [] | Some l \<Rightarrow> l) = legacy_states f"
    by (simp split: option.splits)
  have d: "distinct (map st_issueId (map snd (fs_states f)))"
    unfolding map_issueId_wf [OF wf] using wf by (simp add: states_wf_def)
  have "stateOf j f = map_of (foldl ins_legacy ?m (legacy_states f)) j"
    unfolding stateOf_def readState_def leg
    by (rule find_map_snd) (intro foldl_ins_legacy_wf foldl_ins_state_wf wf0)
  also have "\<dots> = (case map_of ?m j of Some st \<Rightarrow> Some st
      | None \<Rightarrow> List.find (\<lambda>st. st_issueId st = j) (legacy_states f))"
    by (rule foldl_ins_legacy [OF j])
  also have "map_of ?m j = map_of (fs_states f) j"
    using foldl_ins_state [OF d j, of "[]"] find_state_files [OF wf, of j]
    by (simp split: option.splits)
  finally show ?thesis .
qed

lemma stateOf_issueId: "stateOf j f = Some st \<Longrightarrow> st_issueId st = j"
  by (auto simp: stateOf_def find_Some_iff)

lemma legacy_upsertState: "legacy_states (upsertState st f) = legacy_states f"
  by (simp add: store_simps)

lemma stateOf_upsertState [store_simps]:
  assumes "states_wf f" and "j \<noteq> []"
  shows "stateOf j (upsertState st f) = (if j = st_issueId st then Some st else stateOf j f)"
  using stateOf_alt [OF states_wf_upsertState [OF assms(1)] assms(2), of st] stateOf_alt [OF assms]
  unfolding legacy_upsertState by (simp add: store_simps)

lemma stateOf_cong:
  "fs_states g = fs_states f \<Longrightarrow> fs_legacyState g = fs_legacyState f \<Longrightarrow> stateOf j g = stateOf j f"
  by (simp add: stateOf_def readState_def)

lemma stateOf_ensureInitialized [simp]: "stateOf j (ensureInitialized f) = stateOf j f"
  by (simp add: stateOf_def readState_def store_simps split: option.splits)

lemma states_wf_cong: "fs_states g = fs_states f \<Longrightarrow> states_wf g = states_wf f"
  by (simp add: states_wf_def)

subsection \<open>The part of the store that belongs to one issue\<close>

definition log_of :: "string \<Rightarrow> fs \<Rightarrow> loop_log_entry list" where
  "log_of i f = filter (\<lambda>e. log_issue e = Some i) (List.map_filter parseLogLine (fs_log f))"

definition same_issue :: "string \<Rightarrow> fs \<Rightarrow> fs \<Rightarrow> bool" where
  "same_issue i f g \<longleftrightarrow>
     fs_env g = fs_env f
   \<and> map_of (fs_issues g) i = map_of (fs_issues f) i
   \<and> map_of (fs_intakes g) (intakeId i) = map_of (fs_intakes f) (intakeId i)
   \<and> map_of (fs_recipes g) i = map_of (fs_recipes f) i
   \<and> stateOf i g = stateOf i f
   \<and> filter (\<lambda>((j, _), _). j = i) (fs_specs g) = filter (\<lambda>((j, _), _). j = i) (fs_specs f)
   \<and> map_of (fs_shards g) i = map_of (fs_shards f) i
   \<and> map_of (fs_matrices g) i = map_of (fs_matrices f) i
   \<and> map_of (fs_annotations g) i = map_of (fs_annotations f) i
   \<and> filter (\<lambda>((j, _), _). j = i) (fs_testRecords g) = filter (\<lambda>((j, _), _). j = i) (fs_testRecords f)
   \<and> filter (\<lambda>((j, _), _). j = i) (fs_implRecords g) = filter (\<lambda>((j, _), _). j = i) (fs_implRecords f)
   \<and> filter (\<lambda>((j, _), _). j = i) (fs_reviewRecords g) = filter (\<lambda>((j, _), _). j = i) (fs_reviewRecords f)
   \<and> filter (\<lambda>(((j, _), _), _). j = i) (fs_reviewHistory g)
     = filter (\<lambda>(((j, _), _), _). j = i) (fs_reviewHistory f)
   \<and> map_of (fs_globalReviews g) i = map_of (fs_globalReviews f) i
   \<and> map_of (fs_prs g) i = map_of (fs_prs f) i
   \<and> map_of (fs_learnings g) i = map_of (fs_learnings f) i
   \<and> filter (\<lambda>((j, _), _). j = i) (fs_browserQa g) = filter (\<lambda>((j, _), _). j = i) (fs_browserQa f)
   \<and> map_of (fs_secondOpinions g) i = map_of (fs_secondOpinions f) i
   \<and> map_of (fs_governance g) i = map_of (fs_governance f) i
   \<and> filter (\<lambda>((j, _), _). j = i) (fs_notifications g) = filter (\<lambda>((j, _), _). j = i) (fs_notifications f)
   \<and> log_of i g = log_of i f"

lemma same_issue_refl [simp]: "same_issue i f f"
  by (simp add: same_issue_def)

lemma same_issue_trans: "same_issue i f g \<Longrightarrow> same_issue i g h \<Longrightarrow> same_issue i f h"
  by (simp add: same_issue_def)

lemma filter_update_other:
  "\<not> P k \<Longrightarrow> filter (\<lambda>(x, _). P x) (AList.update k v m) = filter (\<lambda>(x, _). P x) m"
  by (induction m) auto

lemma map_of_filter_key:
  "P k \<Longrightarrow> map_of (filter (\<lambda>(x, _). P x) m) k = map_of m k"
  by (induction m) auto

lemma map_of_pair_filter:
  "map_of (filter (\<lambda>((j, _), _). j = i) m) (i, v) = map_of m (i, v)"
  by (induction m) auto

lemma map_of_filter_fst:
  "fst d = i \<Longrightarrow> map_of (filter (\<lambda>((j, _), _). j = i) m) d = map_of m d"
  by (induction m) auto

lemma filter_filter_key:
  "fst (fst x) = i \<Longrightarrow>
   filter (\<lambda>(k, _). k = x) (filter (\<lambda>(((j, _), _), _). j = i) m) = filter (\<lambda>(k, _). k = x) m"
  by (induction m) auto

text \<open>What \<open>readDetail\<close> returns depends on nothing but the issue's own part.\<close>

lemma readSpecHistory_same: "same_issue i f g \<Longrightarrow> readSpecHistory i g = readSpecHistory i f"
proof -
  assume s: "same_issue i f g"
  have split: "filter (\<lambda>((j, v), _). j = i \<and> v \<noteq> [] \<and> CHR ''.'' \<notin> set v) m
    = filter (\<lambda>((j, v), _). v \<noteq> [] \<and> CHR ''.'' \<notin> set v) (filter (\<lambda>((j, _), _). j = i) m)"
    for m :: "((string \<times> string) \<times> loop_spec) list"
    by (induction m) auto
  show ?thesis using s unfolding readSpecHistory_def split by (simp add: same_issue_def)
qed

lemma readImplementationRecords_same:
  "same_issue i f g \<Longrightarrow> readImplementationRecords i g = readImplementationRecords i f"
  by (simp add: readImplementationRecords_def same_issue_def)

lemma readTestRecords_same: "same_issue i f g \<Longrightarrow> readTestRecords i g = readTestRecords i f"
  by (simp add: readTestRecords_def same_issue_def)

lemma readBrowserQaReports_same:
  "same_issue i f g \<Longrightarrow> readBrowserQaReports i g = readBrowserQaReports i f"
  by (simp add: readBrowserQaReports_def same_issue_def)

lemma review_files_split:
  "fst d = i \<Longrightarrow> filter (\<lambda>((e, _), _). e = d) m
     = filter (\<lambda>((e, _), _). e = d) (filter (\<lambda>(((j, _), _), _). j = i) m)"
  for m :: "(((string \<times> string \<times> nat) \<times> string) \<times> loop_review_record) list"
  by (induction m) auto

lemma readReviewRecords_same:
  assumes s: "same_issue i f g"
  shows "readReviewRecords i g = readReviewRecords i f"
proof -
  let ?R = "\<lambda>h. filter (\<lambda>((j, _), _). j = i) (fs_reviewRecords h)"
  let ?H = "\<lambda>h. filter (\<lambda>(((j, _), _), _). j = i) (fs_reviewHistory h)"
  let ?dirs = "\<lambda>h. js_set (map fst (?R h) @ map (fst \<circ> fst) (?H h))"
  let ?files = "\<lambda>h d. (case map_of (fs_reviewRecords h) d of None \<Rightarrow> [] | Some r \<Rightarrow> [r])
      @ map snd (filter (\<lambda>((e, _), _). e = d) (fs_reviewHistory h))"
  have R: "?R g = ?R f" and H: "?H g = ?H f"
    using s by (auto simp: same_issue_def)
  have "?files g d = ?files f d" if "d \<in> set (?dirs f)" for d
  proof -
    from that have d: "fst d = i" by auto
    have "map_of (fs_reviewRecords g) d = map_of (fs_reviewRecords f) d"
      using map_of_filter_fst [OF d] R by metis
    moreover have "filter (\<lambda>((e, _), _). e = d) (fs_reviewHistory g)
        = filter (\<lambda>((e, _), _). e = d) (fs_reviewHistory f)"
      using review_files_split [OF d] H by metis
    ultimately show ?thesis by simp
  qed
  then have "map (?files g) (?dirs f) = map (?files f) (?dirs f)"
    by (rule map_cong [OF refl])
  then show ?thesis unfolding readReviewRecords_def Let_def R H by (simp only:)
qed

lemma readLogs_same:
  "same_issue i f g \<Longrightarrow> i \<noteq> [] \<Longrightarrow> readLogs (Some i) None n g = readLogs (Some i) None n f"
  by (simp add: readLogs_def same_issue_def log_of_def)

lemma readNotifications_same:
  "same_issue i f g \<Longrightarrow> i \<noteq> []
   \<Longrightarrow> readNotifications (Some i) None n g = readNotifications (Some i) None n f"
  by (cases i) (simp_all add: readNotifications_def notifications_of_def same_issue_def)

lemma current_spec_same: "same_issue i f g \<Longrightarrow> current_spec i st g = current_spec i st f"
  using map_of_pair_filter [of i "fs_specs f"] map_of_pair_filter [of i "fs_specs g"]
  by (simp add: current_spec_def same_issue_def)

lemma detail_of_same:
  assumes s: "same_issue i f g" and i: "i \<noteq> []"
  shows "detail_of i g = detail_of i f"
proof -
  have eqs: "map_of (fs_issues g) i = map_of (fs_issues f) i"
    "map_of (fs_intakes g) (intakeId i) = map_of (fs_intakes f) (intakeId i)"
    "stateOf i g = stateOf i f" "map_of (fs_shards g) i = map_of (fs_shards f) i"
    "map_of (fs_matrices g) i = map_of (fs_matrices f) i"
    "map_of (fs_annotations g) i = map_of (fs_annotations f) i"
    "map_of (fs_globalReviews g) i = map_of (fs_globalReviews f) i"
    "map_of (fs_prs g) i = map_of (fs_prs f) i" "map_of (fs_learnings g) i = map_of (fs_learnings f) i"
    "map_of (fs_recipes g) i = map_of (fs_recipes f) i"
    "map_of (fs_secondOpinions g) i = map_of (fs_secondOpinions f) i"
    "readDeliveryGovernance i g = readDeliveryGovernance i f"
    using s by (simp_all add: same_issue_def readDeliveryGovernance_def)
  have dw: "detail_with i x y st g = detail_with i x y st f" for x y st
    by (simp add: detail_with_def Let_def eqs readSpecHistory_same [OF s] current_spec_same [OF s]
        readImplementationRecords_same [OF s] readReviewRecords_same [OF s] readTestRecords_same [OF s]
        readLogs_same [OF s i] readNotifications_same [OF s i] readBrowserQaReports_same [OF s])
  show ?thesis unfolding detail_of_def eqs dw by (rule refl)
qed

subsection \<open>The promise of an operation to the other issues\<close>

text \<open>
  \<open>issue_op op T\<close>: the operation \<open>op\<close> keeps the state files well named and touches nothing
  that belongs to an issue outside \<open>T\<close>.
\<close>

locale issue_op =
  fixes op :: "fs \<Rightarrow> fs" and T :: "string set"
  assumes wf: "states_wf f \<Longrightarrow> states_wf (op f)"
    and frame: "states_wf f \<Longrightarrow> j \<noteq> [] \<Longrightarrow> j \<notin> T \<Longrightarrow> same_issue j f (op f)"
begin

lemma detail_frame:
  "states_wf f \<Longrightarrow> j \<noteq> [] \<Longrightarrow> j \<notin> T \<Longrightarrow> detail_of j (op f) = detail_of j f"
  using detail_of_same frame by blast

lemma state_frame:
  "states_wf f \<Longrightarrow> j \<noteq> [] \<Longrightarrow> j \<notin> T \<Longrightarrow> stateOf j (op f) = stateOf j f"
  using frame by (simp add: same_issue_def)

lemma weaken: "T \<subseteq> U \<Longrightarrow> issue_op op U"
  by unfold_locales (auto intro: wf frame)

end

lemma issue_op_id: "issue_op id T"
  by unfold_locales simp_all

lemma issue_op_Nil: "issue_op (in_order []) S"
  by unfold_locales simp_all

lemma issue_op_Cons:
  assumes "issue_op p S" and "issue_op (in_order ps) S"
  shows "issue_op (in_order (p # ps)) S"
proof (rule issue_op.intro)
  fix f j assume "states_wf f"
  then have "states_wf (p f)" by (rule issue_op.wf [OF assms(1)])
  then show "states_wf (in_order (p # ps) f)" by (simp add: issue_op.wf [OF assms(2)])
next
  fix f j assume f: "states_wf f" "j \<noteq> []" "j \<notin> S"
  then have "same_issue j f (p f)" "same_issue j (p f) (in_order ps (p f))"
    using issue_op.wf [OF assms(1)] issue_op.frame [OF assms(1)] issue_op.frame [OF assms(2)]
    by simp_all
  then show "same_issue j f (in_order (p # ps) f)" by (simp add: same_issue_trans)
qed

subsection \<open>The writes\<close>

lemma filter_update_key:
  "i \<noteq> k \<Longrightarrow> filter (\<lambda>((j, _), _). j = i) (AList.update (k, v) w m) = filter (\<lambda>((j, _), _). j = i) m"
  by (induction m) auto

lemma filter_update_key2:
  "i \<noteq> k \<Longrightarrow> filter (\<lambda>(((j, _), _), _). j = i) (AList.update ((k, v), u) w m)
     = filter (\<lambda>(((j, _), _), _). j = i) m"
  by (induction m) auto

text \<open>The loop or issue a log line is about.\<close>

definition log_key :: "(string \<times> json) list \<Rightarrow> string option" where
  "log_key p = (case str_field p ''loop'' of Some l \<Rightarrow> Some l | None \<Rightarrow> str_field p ''issue'')"

lemma parse_log_issue:
  "parseLogLine \<lparr>ll_ts = t, ll_payload = p\<rparr> = Some e \<Longrightarrow> log_issue e = log_key p"
  by (auto simp: parseLogLine_def Let_def log_issue_def log_key_def split: if_splits option.splits)

lemma map_filter_snoc:
  "List.map_filter g (xs @ [x]) = List.map_filter g xs @ (case g x of None \<Rightarrow> [] | Some y \<Rightarrow> [y])"
  by (simp add: List.map_filter_def split: option.splits)

lemma log_of_appendLog_other: "log_key p \<noteq> Some j \<Longrightarrow> log_of j (appendLog p f) = log_of j f"
  unfolding log_of_def fs_log_appendLog map_filter_snoc
  by (auto split: option.splits dest: parse_log_issue)

lemmas same_issue_tac = same_issue_def stateOf_def readState_def log_of_def states_wf_def

lemma issue_op_tick: "issue_op tick T"
  by unfold_locales (simp_all add: same_issue_tac)

lemma issue_op_put_text: "issue_op (put_text p d) T"
  by unfold_locales (simp_all add: same_issue_tac)

lemma issue_op_draw: "issue_op (\<lambda>f. snd (draw f)) T"
  by unfold_locales (simp_all add: same_issue_tac)

lemma issue_op_ensureInitialized: "issue_op ensureInitialized T"
  by unfold_locales (simp_all add: same_issue_def log_of_def states_wf_def)

lemma issue_op_put_issue: "i_id x \<in> T \<Longrightarrow> issue_op (put_issue x) T"
  by unfold_locales (auto simp add: same_issue_tac store_simps)

lemma issue_op_write_shards: "i \<in> T \<Longrightarrow> issue_op (write_shards_json i x) T"
  by unfold_locales (auto simp add: same_issue_tac store_simps)

lemma issue_op_write_annotations: "i \<in> T \<Longrightarrow> issue_op (write_annotations_json i x) T"
  by unfold_locales (auto simp add: same_issue_tac store_simps)

lemma issue_op_upsertState: "st_issueId st \<in> T \<Longrightarrow> issue_op (upsertState st) T"
  by unfold_locales (auto simp add: same_issue_def log_of_def states_wf_upsertState store_simps)

lemma issue_op_appendLog: "(\<And>j. log_key p = Some j \<Longrightarrow> j \<in> T) \<Longrightarrow> issue_op (appendLog p) T"
  by unfold_locales (auto simp add: same_issue_def stateOf_def readState_def states_wf_def
      intro!: log_of_appendLog_other)

lemma issue_op_put_notification: "no_issueId n \<in> T \<Longrightarrow> issue_op (put_notification n) T"
  by unfold_locales
    (auto simp add: same_issue_tac put_notification_def intro!: filter_update_key)

lemma issue_op_specs: "i \<in> T \<Longrightarrow> issue_op (\<lambda>f. f\<lparr>fs_specs := AList.update (i, v) x (fs_specs f)\<rparr>) T"
  by unfold_locales (auto simp add: same_issue_tac intro!: filter_update_key filter_update_key2)

lemma issue_op_testRecords: "i \<in> T \<Longrightarrow> issue_op (\<lambda>f. f\<lparr>fs_testRecords := AList.update (i, v) x (fs_testRecords f)\<rparr>) T"
  by unfold_locales (auto simp add: same_issue_tac intro!: filter_update_key filter_update_key2)

lemma issue_op_implRecords: "i \<in> T \<Longrightarrow> issue_op (\<lambda>f. f\<lparr>fs_implRecords := AList.update (i, v) x (fs_implRecords f)\<rparr>) T"
  by unfold_locales (auto simp add: same_issue_tac intro!: filter_update_key filter_update_key2)

lemma issue_op_reviewRecords: "i \<in> T \<Longrightarrow> issue_op (\<lambda>f. f\<lparr>fs_reviewRecords := AList.update (i, v) x (fs_reviewRecords f)\<rparr>) T"
  by unfold_locales (auto simp add: same_issue_tac intro!: filter_update_key filter_update_key2)

lemma issue_op_reviewHistory: "i \<in> T \<Longrightarrow> issue_op (\<lambda>f. f\<lparr>fs_reviewHistory := AList.update ((i, v), u) x (fs_reviewHistory f)\<rparr>) T"
  by unfold_locales (auto simp add: same_issue_tac intro!: filter_update_key filter_update_key2)

lemma issue_op_browserQa: "i \<in> T \<Longrightarrow> issue_op (\<lambda>f. f\<lparr>fs_browserQa := AList.update (i, v) x (fs_browserQa f)\<rparr>) T"
  by unfold_locales (auto simp add: same_issue_tac intro!: filter_update_key filter_update_key2)

lemma issue_op_recipes: "i \<in> T \<Longrightarrow> issue_op (\<lambda>f. f\<lparr>fs_recipes := AList.update i x (fs_recipes f)\<rparr>) T"
  by unfold_locales (auto simp add: same_issue_tac intro!: filter_update_key filter_update_key2)

lemma issue_op_matrices: "i \<in> T \<Longrightarrow> issue_op (\<lambda>f. f\<lparr>fs_matrices := AList.update i x (fs_matrices f)\<rparr>) T"
  by unfold_locales (auto simp add: same_issue_tac intro!: filter_update_key filter_update_key2)

lemma issue_op_globalReviews: "i \<in> T \<Longrightarrow> issue_op (\<lambda>f. f\<lparr>fs_globalReviews := AList.update i x (fs_globalReviews f)\<rparr>) T"
  by unfold_locales (auto simp add: same_issue_tac intro!: filter_update_key filter_update_key2)

lemma issue_op_prs: "i \<in> T \<Longrightarrow> issue_op (\<lambda>f. f\<lparr>fs_prs := AList.update i x (fs_prs f)\<rparr>) T"
  by unfold_locales (auto simp add: same_issue_tac intro!: filter_update_key filter_update_key2)

lemma issue_op_learnings: "i \<in> T \<Longrightarrow> issue_op (\<lambda>f. f\<lparr>fs_learnings := AList.update i x (fs_learnings f)\<rparr>) T"
  by unfold_locales (auto simp add: same_issue_tac intro!: filter_update_key filter_update_key2)

lemma issue_op_secondOpinions: "i \<in> T \<Longrightarrow> issue_op (\<lambda>f. f\<lparr>fs_secondOpinions := AList.update i x (fs_secondOpinions f)\<rparr>) T"
  by unfold_locales (auto simp add: same_issue_tac intro!: filter_update_key filter_update_key2)

lemma issue_op_governance: "i \<in> T \<Longrightarrow> issue_op (\<lambda>f. f\<lparr>fs_governance := AList.update i x (fs_governance f)\<rparr>) T"
  by unfold_locales (auto simp add: same_issue_tac intro!: filter_update_key filter_update_key2)

lemma log_key_simps [simp]:
  "k \<noteq> ''loop'' \<Longrightarrow> k \<noteq> ''issue'' \<Longrightarrow> log_key ((k, v) # p) = log_key p"
  "log_key ((''loop'', JStr i) # p) = Some i"
  "log_key []  = None"
  by (auto simp: log_key_def str_field_def split: option.splits)

lemma log_key_issue [simp]:
  "str_field p ''loop'' = None \<Longrightarrow> log_key ((''issue'', JStr i) # p) = Some i"
  by (simp add: log_key_def str_field_def)

lemma str_field_simps [simp]:
  "str_field [] k = None"
  "str_field ((k, JStr s) # p) k = Some s"
  "k' \<noteq> k \<Longrightarrow> str_field ((k', v) # p) k = str_field p k"
  by (simp_all add: str_field_def)

lemma issue_op_comp: "issue_op p T \<Longrightarrow> issue_op q T \<Longrightarrow> issue_op (\<lambda>f. q (p f)) T"
proof -
  assume "issue_op p T" "issue_op q T"
  then have "issue_op (in_order [p, q]) T" by (intro issue_op_Cons issue_op_Nil)
  moreover have "in_order [p, q] = (\<lambda>f. q (p f))" by (simp add: fun_eq_iff)
  ultimately show ?thesis by simp
qed

lemma issue_op_at:
  assumes "\<And>g. issue_op (op g) T"
  shows "issue_op (\<lambda>f. op f f) T"
  by (rule issue_op.intro)
    (auto intro: issue_op.wf [OF assms] issue_op.frame [OF assms])

lemma new_notification_issueId [simp]: "no_issueId (new_notification i k r t b h f) = i"
  by (simp add: new_notification_def Let_def)

lemmas issue_ops = issue_op_Nil issue_op_Cons issue_op_tick issue_op_put_text issue_op_draw
  issue_op_ensureInitialized issue_op_put_issue issue_op_write_shards issue_op_write_annotations
  issue_op_upsertState issue_op_appendLog issue_op_put_notification issue_op_id
  issue_op_specs issue_op_testRecords issue_op_implRecords issue_op_reviewRecords
  issue_op_reviewHistory issue_op_browserQa issue_op_matrices issue_op_globalReviews
  issue_op_prs issue_op_secondOpinions issue_op_governance issue_op_recipes

lemma issue_op_writeNotification: "i \<in> T \<Longrightarrow> issue_op (writeNotification i k r t b h) T"
  unfolding writeNotification_def Let_def
  by (rule issue_op_at) (intro issue_ops, auto)

lemma issue_op_if: "issue_op p T \<Longrightarrow> issue_op q T \<Longrightarrow> issue_op (if b then p else q) T"
  by simp

lemma issue_op_option:
  "issue_op p T \<Longrightarrow> (\<And>x. issue_op (q x) T) \<Longrightarrow> issue_op (case y of None \<Rightarrow> p | Some x \<Rightarrow> q x) T"
  by (cases y) simp_all

lemma issue_op_texts: "issue_op (fold (\<lambda>s. put_text (p s) (d s)) xs) T"
proof (induction xs)
  case Nil
  show ?case using issue_op_id [of T] by (simp add: id_def)
next
  case (Cons x xs)
  then show ?case by (simp add: comp_def) (rule issue_op_comp [OF issue_op_put_text])
qed

lemma issue_op_learnings_at:
  assumes "i \<in> T"
  shows "issue_op (\<lambda>f. let ls = g f in put_text p (d ls)
    (f\<lparr>fs_learnings := AList.update i ls (fs_learnings f)\<rparr>)) T"
proof -
  have "issue_op (\<lambda>f. put_text p (d ls) (f\<lparr>fs_learnings := AList.update i ls (fs_learnings f)\<rparr>)) T" for ls
    by (rule issue_op_comp [OF issue_op_learnings [OF assms] issue_op_put_text])
  then show ?thesis unfolding Let_def by (rule issue_op_at)
qed

lemma issue_op_rawPayloads: "issue_op (\<lambda>f. f\<lparr>fs_rawPayloads := g f\<rparr>) T"
  by unfold_locales (simp_all add: same_issue_tac)

lemma issue_op_intakes:
  "(\<And>i. intakeId i = k \<Longrightarrow> i \<in> T) \<Longrightarrow> issue_op (\<lambda>f. f\<lparr>fs_intakes := AList.update k x (fs_intakes f)\<rparr>) T"
  by unfold_locales (auto simp: same_issue_tac)

lemmas write_ops = issue_ops issue_op_writeNotification issue_op_if issue_op_option issue_op_texts
  issue_op_rawPayloads issue_op_intakes issue_op_learnings_at

interpretation writeIssue: issue_op "writeIssue issue intake st raw recipe"
    "{i_id issue, st_issueId st} \<union> {i. intakeId i = in_id intake}" for issue intake st raw recipe
  unfolding writeIssue_def Let_def by (intro write_ops) auto

interpretation writeSpec: issue_op "writeSpec issue spec st" "{i_id issue, st_issueId st}"
    for issue spec st
  unfolding writeSpec_def Let_def by (intro write_ops) auto

interpretation writeShards: issue_op "writeShards issue spec shards matrix anns st"
    "{i_id issue, st_issueId st}" for issue spec shards matrix anns st
  unfolding writeShards_def Let_def by (intro write_ops) auto

interpretation writeTestRecord: issue_op "writeTestRecord i s r anns shards st" "{i, st_issueId st}"
    for i s r anns shards st
  unfolding writeTestRecord_def Let_def by (intro write_ops) auto

interpretation writeImplementationRecord:
  issue_op "writeImplementationRecord i s r anns shards st" "{i, st_issueId st}"
    for i s r anns shards st
  unfolding writeImplementationRecord_def Let_def by (intro write_ops) auto

interpretation writeReviewRecord: issue_op "writeReviewRecord i s r anns shards st" "{i, st_issueId st}"
    for i s r anns shards st
  unfolding writeReviewRecord_def Let_def by (intro write_ops) auto

interpretation writeShardProgress:
  issue_op "writeShardProgress i s a b c shards st anns" "{i, st_issueId st}"
    for i s a b c shards st anns
  unfolding writeShardProgress_def Let_def by (intro write_ops) (auto simp: opt_str_def split: option.splits)

interpretation writeGlobalReview: issue_op "writeGlobalReview i r anns st" "{i, st_issueId st}"
    for i r anns st
  unfolding writeGlobalReview_def Let_def by (intro write_ops) auto

interpretation writeFinalize: issue_op "writeFinalize issue anns st pr ls" "{i_id issue, st_issueId st}"
    for issue anns st pr ls
  unfolding writeFinalize_def Let_def
  by (intro write_ops) (auto intro!: issue_op_learnings_at [unfolded Let_def])

interpretation writeBrowserQaReport: issue_op "writeBrowserQaReport r" "{bq_issueId r}" for r
  unfolding writeBrowserQaReport_def Let_def by (intro write_ops) auto

interpretation writeSecondOpinion:
  issue_op "writeSecondOpinion r" "{strip_suffix ''-second-opinion'' (so_id r)}" for r
  unfolding writeSecondOpinion_def Let_def by (intro write_ops) auto

interpretation writeIntervention:
  issue_op "writeIntervention i a c st shards anns s n" "{i, st_issueId st}"
    for i a c st shards anns s n
  unfolding writeIntervention_def Let_def by (intro write_ops) (auto simp: opt_str_def split: option.splits)

interpretation enforceCostGuard: issue_op "\<lambda>f. snd (enforceCostGuard st f)" "{st_issueId st}" for st
proof -
  define op where "op = (\<lambda>g :: fs. if cost_tripped (cf_cost (fs_cfg g)) st
    then (let c = cf_cost (fs_cfg g); num = env_num (fs_env g); i = st_issueId st in
      in_order [tick,
      appendLog [(''type'', JStr ''COST_TRIP''), (''loop'', JStr i),
           (''cost_tokens'', jnat (st_costTokens st)), (''cost_calls'', jnat (st_costCalls st)),
           (''token_cap'', JNum (cc_tokenCapPerLoop c)), (''call_cap'', JNum (cc_callCapPerLoop c))],
      writeNotification i COST_GUARD_TRIPPED ''ops'' (''Cost guard tripped: '' @ i)
           (''Loop was paused after reaching '' @ nat_str (st_costCalls st) @ ''/''
            @ num (cc_callCapPerLoop c) @ '' calls and '' @ nat_str (st_costTokens st) @ ''/''
            @ num (cc_tokenCapPerLoop c) @ '' tokens.'')
           (loop_href i)])
    else id)"
  have "issue_op (op g) {st_issueId st}" for g
    unfolding op_def Let_def by (intro write_ops) auto
  then have "issue_op (\<lambda>f. op f f) {st_issueId st}" by (rule issue_op_at)
  moreover have "(\<lambda>f. op f f) = (\<lambda>f. snd (enforceCostGuard st f))"
    by (simp add: fun_eq_iff op_def enforceCostGuard_def Let_def)
  ultimately show "issue_op (\<lambda>f. snd (enforceCostGuard st f)) {st_issueId st}" by simp
qed

text \<open>
  C12. Loops are isolated: a write of the service on behalf of one issue leaves the whole detail
  of every other issue as it was, its state, files, records, logs and notifications included.
\<close>

theorem store_isolation:
  assumes "states_wf f" and "j \<noteq> []" and "j \<noteq> i"
    and "i_id issue = i" and "st_issueId st = i"
  shows "detail_of j (writeSpec issue spec st f) = detail_of j f
    \<and> detail_of j (writeShards issue spec shards matrix anns st f) = detail_of j f
    \<and> detail_of j (writeTestRecord i s tr anns shards st f) = detail_of j f
    \<and> detail_of j (writeImplementationRecord i s ir anns shards st f) = detail_of j f
    \<and> detail_of j (writeReviewRecord i s rr anns shards st f) = detail_of j f
    \<and> detail_of j (writeShardProgress i s from_s to_s actor shards st anns' f) = detail_of j f
    \<and> detail_of j (writeGlobalReview i gr anns st f) = detail_of j f
    \<and> detail_of j (writeFinalize issue anns st pr ls f) = detail_of j f
    \<and> detail_of j (writeIntervention i action actor st shards' anns' s' notes f) = detail_of j f
    \<and> detail_of j (snd (enforceCostGuard st f)) = detail_of j f"
  using assms
  by (simp add: writeSpec.detail_frame writeShards.detail_frame writeTestRecord.detail_frame
      writeImplementationRecord.detail_frame writeReviewRecord.detail_frame
      writeShardProgress.detail_frame writeGlobalReview.detail_frame writeFinalize.detail_frame
      writeIntervention.detail_frame enforceCostGuard.detail_frame)

theorem store_isolation_witness:
  "detail_of ''issue-2'' (writeSpec sample_issue sample_spec sample_state sample_fs)
   = detail_of ''issue-2'' sample_fs"
  using store_isolation [where f = sample_fs and j = "''issue-2''" and i = "''issue-1''"
      and issue = sample_issue and st = sample_state and spec = sample_spec]
  by (simp add: states_wf_def sample_fs_def empty_fs_def sample_issue_def sample_state_def)

end
