(* ===== verification/Work_Lock.thy ===== *)
theory Work_Lock
  imports Store_Laws
begin

text \<open>
  \<open>loops-locks\<close>: the work lock that serialises the scheduler per issue and per repository. A
  backend is a pair of \<open>acquire\<close> and \<open>release\<close>; its contract is the locale \<open>lock_backend\<close>,
  interpreted on the in-memory backend (alone, and as the lock set of a process beside its
  store). The Redis client is third-party code and a parameter of the Redis backend:
  \<open>redis_laws\<close> states the documented meaning of \<open>SET NX PX\<close>, \<open>GET\<close> and \<open>DEL\<close>.
\<close>

subsection \<open>The backends\<close>

definition conflict :: "string \<Rightarrow> js_error" where
  "conflict key = Conflict (''Loops work lock already held: '' @ key)"

definition mem_acquire :: "string list \<Rightarrow> (string set, unit) sm" where
  "mem_acquire keys locks = (case List.find (\<lambda>k. k \<in> locks) keys of
     Some (c # cs) \<Rightarrow> (Inl (conflict (c # cs)), locks)
   | _ \<Rightarrow> (Inr (), locks \<union> set keys))"

definition mem_release :: "string list \<Rightarrow> string set \<Rightarrow> string set" where
  "mem_release keys locks = locks - set keys"

record 's redis_client =
  rc_set :: "string \<Rightarrow> string \<Rightarrow> nat \<Rightarrow> 's \<Rightarrow> bool \<times> 's"
  rc_get :: "string \<Rightarrow> 's \<Rightarrow> string option \<times> 's"
  rc_del :: "string list \<Rightarrow> 's \<Rightarrow> 's"

fun redis_acquire_from ::
    "'s redis_client \<Rightarrow> string \<Rightarrow> nat \<Rightarrow> string list \<Rightarrow> string list \<Rightarrow> ('s, unit) sm" where
  "redis_acquire_from c holder ttl acquired [] s = (Inr (), s)"
| "redis_acquire_from c holder ttl acquired (key # keys) s =
     (case rc_set c key holder ttl s of
        (False, t) \<Rightarrow> (Inl (conflict key), if acquired \<noteq> [] then rc_del c acquired t else t)
      | (True, t) \<Rightarrow> redis_acquire_from c holder ttl (acquired @ [key]) keys t)"

definition redis_acquire :: "'s redis_client \<Rightarrow> string \<Rightarrow> nat \<Rightarrow> string list \<Rightarrow> ('s, unit) sm" where
  "redis_acquire c holder ttl keys = redis_acquire_from c holder ttl [] keys"

definition redis_release_key :: "'s redis_client \<Rightarrow> string \<Rightarrow> string \<Rightarrow> 's \<Rightarrow> 's" where
  "redis_release_key c holder key s = (case rc_get c key s of
     (v, t) \<Rightarrow> if v = Some holder then rc_del c [key] t else t)"

definition redis_release :: "'s redis_client \<Rightarrow> string \<Rightarrow> string list \<Rightarrow> 's \<Rightarrow> 's" where
  "redis_release c holder keys s = fold (redis_release_key c holder) keys s"

subsection \<open>The work lock\<close>

definition lock_keys :: "string \<Rightarrow> string \<Rightarrow> string list" where
  "lock_keys issueId targetRepo = sort [''issue:'' @ issueId, ''repo:'' @ targetRepo]"

text \<open>\<open>finally\<close>: the release runs whether the work returns or throws.\<close>

definition withIssueAndRepoLock ::
    "(string list \<Rightarrow> ('s, unit) sm) \<Rightarrow> (string list \<Rightarrow> 's \<Rightarrow> 's) \<Rightarrow> string \<Rightarrow> string
     \<Rightarrow> ('s, 'a) sm \<Rightarrow> ('s, 'a) sm" where
  "withIssueAndRepoLock acquire release issueId targetRepo work s =
     (let keys = lock_keys issueId targetRepo in
      case acquire keys s of
        (Inl e, t) \<Rightarrow> (Inl e, t)
      | (Inr _, t) \<Rightarrow> (case work t of (r, u) \<Rightarrow> (r, release keys u)))"

text \<open>The in-memory backend as the lock set of the process.\<close>

definition process_acquire :: "string list \<Rightarrow> (fs, unit) sm" where
  "process_acquire keys f = (case mem_acquire keys (fs_locks f) of (r, l) \<Rightarrow> (r, f\<lparr>fs_locks := l\<rparr>))"

definition process_release :: "string list \<Rightarrow> fs \<Rightarrow> fs" where
  "process_release keys f = f\<lparr>fs_locks := mem_release keys (fs_locks f)\<rparr>"

text \<open>
  The runs of a backend: sections enter with the keys they acquired, are rejected, or leave by
  releasing their keys, in any order.
\<close>

inductive lock_run ::
    "(string list \<Rightarrow> ('s, unit) sm) \<Rightarrow> (string list \<Rightarrow> 's \<Rightarrow> 's) \<Rightarrow> 's \<Rightarrow> 's \<Rightarrow> string list list \<Rightarrow> bool"
  for acquire :: "string list \<Rightarrow> ('s, unit) sm" and release :: "string list \<Rightarrow> 's \<Rightarrow> 's" and s0 :: 's
  where
  init: "lock_run acquire release s0 s0 []"
| enter: "lock_run acquire release s0 s act \<Longrightarrow> [] \<notin> set keys \<Longrightarrow> acquire keys s = (Inr u, t)
    \<Longrightarrow> lock_run acquire release s0 t (keys # act)"
| reject: "lock_run acquire release s0 s act \<Longrightarrow> [] \<notin> set keys \<Longrightarrow> acquire keys s = (Inl e, t)
    \<Longrightarrow> lock_run acquire release s0 t act"
| leave: "lock_run acquire release s0 s (a @ keys # b)
    \<Longrightarrow> lock_run acquire release s0 (release keys s) (a @ b)"

fun sections_disjoint :: "string list list \<Rightarrow> bool" where
  "sections_disjoint [] = True"
| "sections_disjoint (ks # act) =
     (list_all (\<lambda>ls. set ks \<inter> set ls = {}) act \<and> sections_disjoint act)"

lemma sections_disjoint_append:
  "sections_disjoint (a @ b) \<longleftrightarrow> sections_disjoint a \<and> sections_disjoint b
     \<and> (\<forall>ks \<in> set a. \<forall>ls \<in> set b. set ks \<inter> set ls = {})"
  by (induction a) (auto simp: list_all_iff)

lemma lock_keys_set: "set (lock_keys i r) = {''issue:'' @ i, ''repo:'' @ r}"
  by (simp add: lock_keys_def)

lemma lock_keys_distinct: "distinct (lock_keys i r)"
  by (simp add: lock_keys_def)

lemma lock_keys_nonempty: "[] \<notin> set (lock_keys i r)"
  by (simp add: lock_keys_set)

subsection \<open>The contract of a backend\<close>

locale lock_backend =
  fixes acquire :: "string list \<Rightarrow> ('s, unit) sm"
    and release :: "string list \<Rightarrow> 's \<Rightarrow> 's"
    and held :: "'s \<Rightarrow> string set"
    and owned :: "'s \<Rightarrow> string set"
  assumes acquire_ok: "[] \<notin> set keys \<Longrightarrow> acquire keys s = (Inr u, t) \<Longrightarrow>
      set keys \<inter> held s = {} \<and> held t = held s \<union> set keys \<and> owned t = owned s \<union> set keys"
    and acquire_rejected: "[] \<notin> set keys \<Longrightarrow> acquire keys s = (Inl e, t) \<Longrightarrow>
      (\<exists>k \<in> set keys. e = conflict k) \<and> held t = held s \<and> owned t = owned s"
    and acquire_free: "[] \<notin> set keys \<Longrightarrow> distinct keys \<Longrightarrow> set keys \<inter> held s = {} \<Longrightarrow>
      \<exists>t. acquire keys s = (Inr (), t)"
    and release_held: "held (release keys s) = held s - (set keys \<inter> owned s)"
    and release_owned: "owned (release keys s) = owned s - set keys"
    and owned_held: "owned s \<subseteq> held s"
begin

lemma run_held:
  assumes "lock_run acquire release s0 s act" and "held s0 = {}"
  shows "held s = \<Union> (set ` set act) \<and> owned s = held s \<and> sections_disjoint act"
  using assms
proof (induction rule: lock_run.induct)
  case init
  then show ?case using owned_held [of s0] by auto
next
  case (enter s act keys u t)
  note a = acquire_ok [OF enter.hyps(2,3)]
  with enter.IH [OF enter.prems] have "set keys \<inter> set ls = {}" if "ls \<in> set act" for ls
    using that by blast
  with a enter.IH [OF enter.prems] show ?case by (auto simp: list_all_iff)
next
  case (reject s act keys e t)
  with acquire_rejected [OF reject.hyps(2,3)] show ?case by simp
next
  case (leave s a keys b)
  then have "held s = \<Union> (set ` set (a @ keys # b))" "owned s = held s"
    "sections_disjoint (a @ keys # b)" by auto
  then show ?case
    by (auto simp: release_held release_owned sections_disjoint_append list_all_iff)
qed

lemma with_lock_rejected:
  assumes "set (lock_keys i r) \<inter> held s \<noteq> {}"
  shows "\<exists>k t. withIssueAndRepoLock acquire release i r work s = (Inl (conflict k), t)
    \<and> k \<in> set (lock_keys i r) \<and> held t = held s \<and> owned t = owned s"
proof (cases "acquire (lock_keys i r) s")
  case (Pair x t)
  show ?thesis
  proof (cases x)
    case (Inl e)
    with Pair acquire_rejected [OF lock_keys_nonempty] show ?thesis
      by (fastforce simp: withIssueAndRepoLock_def Let_def)
  next
    case (Inr u)
    with Pair acquire_ok [OF lock_keys_nonempty] assms show ?thesis by blast
  qed
qed

lemma with_lock_runs:
  assumes "set (lock_keys i r) \<inter> held s = {}"
  shows "\<exists>t. held t = held s \<union> set (lock_keys i r) \<and> owned t = owned s \<union> set (lock_keys i r)
    \<and> withIssueAndRepoLock acquire release i r work s
      = (fst (work t), release (lock_keys i r) (snd (work t)))"
proof -
  obtain t where t: "acquire (lock_keys i r) s = (Inr (), t)"
    using acquire_free [OF lock_keys_nonempty lock_keys_distinct assms] by blast
  with acquire_ok [OF lock_keys_nonempty t] show ?thesis
    by (auto simp: withIssueAndRepoLock_def Let_def split: prod.splits)
qed

end

subsection \<open>The in-memory backend keeps the contract\<close>

lemma mem_acquire_Inr:
  "[] \<notin> set keys \<Longrightarrow> mem_acquire keys s = (Inr u, t) \<longleftrightarrow> set keys \<inter> s = {} \<and> t = s \<union> set keys"
proof (cases "List.find (\<lambda>k. k \<in> s) keys")
  case None
  then have "set keys \<inter> s = {}" by (auto simp: find_None_iff)
  with None show ?thesis by (auto simp: mem_acquire_def)
next
  case (Some k)
  assume "[] \<notin> set keys"
  with find_SomeD [OF Some] have "k \<in> set keys" "k \<in> s" "k \<noteq> []" by auto
  with Some show ?thesis by (auto simp: mem_acquire_def split: list.splits)
qed

lemma mem_acquire_Inl:
  "[] \<notin> set keys \<Longrightarrow> mem_acquire keys s = (Inl e, t) \<Longrightarrow> (\<exists>k \<in> set keys. e = conflict k) \<and> t = s"
  using find_SomeD [of "\<lambda>k. k \<in> s" keys]
  by (auto simp: mem_acquire_def split: option.splits list.splits)

interpretation memory_lock: lock_backend mem_acquire mem_release "\<lambda>s. s" "\<lambda>s. s"
proof unfold_locales
  fix keys s e t assume "[] \<notin> set keys" "mem_acquire keys s = (Inl e, t)"
  then show "(\<exists>k \<in> set keys. e = conflict k) \<and> t = s \<and> t = s"
    using mem_acquire_Inl by blast
qed (auto simp: mem_acquire_Inr mem_release_def)

lemma process_acquire_iff:
  "process_acquire keys f = (r, g)
   \<longleftrightarrow> (\<exists>l. mem_acquire keys (fs_locks f) = (r, l) \<and> g = f\<lparr>fs_locks := l\<rparr>)"
  by (auto simp: process_acquire_def split: prod.splits)

interpretation process_lock: lock_backend process_acquire process_release fs_locks fs_locks
proof unfold_locales
  fix keys s e t assume "[] \<notin> set keys" "process_acquire keys s = (Inl e, t)"
  then show "(\<exists>k \<in> set keys. e = conflict k) \<and> fs_locks t = fs_locks s \<and> fs_locks t = fs_locks s"
    using memory_lock.acquire_rejected by (fastforce simp: process_acquire_iff)
qed (auto simp: process_acquire_iff mem_acquire_Inr process_release_def mem_release_def)

subsection \<open>The Redis backend\<close>

text \<open>
  What the backend relies on: \<open>live s\<close> are the keys that have not expired. \<open>SET k v NX PX ms\<close>
  answers OK and stores exactly when the key is absent, \<open>GET\<close> reads, \<open>DEL\<close> removes.
\<close>

definition redis_laws :: "'s redis_client \<Rightarrow> ('s \<Rightarrow> string \<Rightarrow> string option) \<Rightarrow> bool" where
  "redis_laws c live \<longleftrightarrow>
     (\<forall>k v ttl s ok t. rc_set c k v ttl s = (ok, t) \<longrightarrow>
        ok = (live s k = None) \<and> live t = (if ok then (live s)(k \<mapsto> v) else live s))
   \<and> (\<forall>k s v t. rc_get c k s = (v, t) \<longrightarrow> v = live s k \<and> live t = live s)
   \<and> (\<forall>ks s. live (rc_del c ks s) = (\<lambda>k. if k \<in> set ks then None else live s k))"

lemma redis_setD:
  "redis_laws c live \<Longrightarrow> rc_set c k v ttl s = (ok, t)
   \<Longrightarrow> ok = (live s k = None) \<and> live t = (if ok then (live s)(k \<mapsto> v) else live s)"
  unfolding redis_laws_def by blast

lemma redis_getD:
  "redis_laws c live \<Longrightarrow> rc_get c k s = (v, t) \<Longrightarrow> v = live s k \<and> live t = live s"
  unfolding redis_laws_def by blast

lemma redis_delD:
  "redis_laws c live \<Longrightarrow> live (rc_del c ks s) = (\<lambda>k. if k \<in> set ks then None else live s k)"
  unfolding redis_laws_def by blast

lemma redis_acquire_from_Inr:
  "redis_laws c live \<Longrightarrow> redis_acquire_from c h ttl acq keys s = (Inr u, t)
   \<Longrightarrow> (\<forall>k \<in> set keys. live s k = None) \<and> live t = (\<lambda>k. if k \<in> set keys then Some h else live s k)"
proof (induction keys arbitrary: acq s)
  case Nil
  then show ?case by simp
next
  case (Cons key keys)
  obtain ok s' where set: "rc_set c key h ttl s = (ok, s')" by fastforce
  note l = redis_setD [OF Cons.prems(1) set]
  from Cons.prems(2) set have ok: "ok" by (cases ok) auto
  with Cons.prems set have "redis_acquire_from c h ttl (acq @ [key]) keys s' = (Inr u, t)" by simp
  from Cons.IH [OF Cons.prems(1) this] l ok show ?case by (auto split: if_splits)
qed

lemma redis_acquire_from_Inl:
  "redis_laws c live \<Longrightarrow> redis_acquire_from c h ttl acq keys s = (Inl e, t)
   \<Longrightarrow> (\<exists>k \<in> set keys. e = conflict k) \<and> live t = (\<lambda>k. if k \<in> set acq then None else live s k)"
proof (induction keys arbitrary: acq s)
  case Nil
  then show ?case by simp
next
  case (Cons key keys)
  obtain ok s' where set: "rc_set c key h ttl s = (ok, s')" by fastforce
  note l = redis_setD [OF Cons.prems(1) set]
  show ?case
  proof (cases ok)
    case True
    with Cons.prems set have "redis_acquire_from c h ttl (acq @ [key]) keys s' = (Inl e, t)" by simp
    from Cons.IH [OF Cons.prems(1) this] l True show ?thesis by (auto simp: fun_eq_iff)
  next
    case False
    with Cons.prems set l redis_delD [OF Cons.prems(1), of acq s'] show ?thesis
      by (auto split: if_splits)
  qed
qed

lemma redis_acquire_from_free:
  "redis_laws c live \<Longrightarrow> distinct keys \<Longrightarrow> \<forall>k \<in> set keys. live s k = None
   \<Longrightarrow> \<exists>t. redis_acquire_from c h ttl acq keys s = (Inr (), t)"
proof (induction keys arbitrary: acq s)
  case Nil
  then show ?case by simp
next
  case (Cons key keys)
  obtain ok s' where set: "rc_set c key h ttl s = (ok, s')" by fastforce
  note l = redis_setD [OF Cons.prems(1) set]
  with Cons.prems have ok: "ok" "\<forall>k \<in> set keys. live s' k = None" by auto
  from Cons.IH [OF Cons.prems(1) _ ok(2)] Cons.prems set ok(1) show ?case by simp
qed

lemma redis_release_live:
  "redis_laws c live \<Longrightarrow> live (redis_release c h keys s)
     = (\<lambda>k. if k \<in> set keys \<and> live s k = Some h then None else live s k)"
proof (induction keys arbitrary: s)
  case Nil
  then show ?case by (simp add: redis_release_def)
next
  case (Cons key keys)
  obtain v s' where get: "rc_get c key s = (v, s')" by fastforce
  have "live (redis_release_key c h key s) = (\<lambda>k. if k = key \<and> live s k = Some h then None else live s k)"
    using redis_getD [OF Cons.prems get] redis_delD [OF Cons.prems, of "[key]" s'] get
    by (auto simp: redis_release_key_def fun_eq_iff)
  with Cons.IH [OF Cons.prems] show ?case by (auto simp: redis_release_def fun_eq_iff)
qed

lemma redis_backend:
  assumes laws: "redis_laws c live"
  shows "lock_backend (redis_acquire c h ttl) (redis_release c h)
    (\<lambda>s. dom (live s)) (\<lambda>s. {k. live s k = Some h})"
proof unfold_locales
  fix keys s u t assume "redis_acquire c h ttl keys s = (Inr u, t)"
  then show "set keys \<inter> dom (live s) = {} \<and> dom (live t) = dom (live s) \<union> set keys
      \<and> {k. live t k = Some h} = {k. live s k = Some h} \<union> set keys"
    using redis_acquire_from_Inr [OF laws] by (auto simp: redis_acquire_def split: if_splits)
next
  fix keys s e t assume "redis_acquire c h ttl keys s = (Inl e, t)"
  then show "(\<exists>k \<in> set keys. e = conflict k) \<and> dom (live t) = dom (live s)
      \<and> {k. live t k = Some h} = {k. live s k = Some h}"
    using redis_acquire_from_Inl [OF laws] by (simp add: redis_acquire_def)
next
  fix keys s assume "distinct keys" "set keys \<inter> dom (live s) = {}"
  then show "\<exists>t. redis_acquire c h ttl keys s = (Inr (), t)"
    unfolding redis_acquire_def by (intro redis_acquire_from_free [OF laws]) auto
qed (auto simp: redis_release_live [OF laws] split: if_splits)

subsection \<open>Mutual exclusion\<close>

text \<open>
  C7. The in-memory work lock excludes: from an unlocked process, in every interleaving of
  sections entering and leaving, no two running sections share an issue or a repository key,
  and the locks held are exactly the keys of the running sections.
\<close>

theorem work_lock_exclusive:
  assumes "lock_run process_acquire process_release f0 f act" and "fs_locks f0 = {}"
  shows "sections_disjoint act \<and> fs_locks f = \<Union> (set ` set act)"
  using process_lock.run_held [OF assms] by blast

theorem work_lock_exclusive_witness:
  "\<exists>f. lock_run process_acquire process_release sample_fs f [lock_keys ''issue-1'' ''/repo'']
    \<and> sections_disjoint [lock_keys ''issue-1'' ''/repo''] \<and> fs_locks f = {''issue:issue-1'', ''repo:/repo''}"
proof -
  have free: "fs_locks sample_fs = {}" by (simp add: sample_fs_def empty_fs_def)
  obtain f where f: "process_acquire (lock_keys ''issue-1'' ''/repo'') sample_fs = (Inr (), f)"
    using process_lock.acquire_free [OF lock_keys_nonempty lock_keys_distinct] free by fastforce
  have run: "lock_run process_acquire process_release sample_fs f [lock_keys ''issue-1'' ''/repo'']"
    by (rule lock_run.enter) (use lock_run.init lock_keys_nonempty f in auto)
  show ?thesis using work_lock_exclusive [OF run free] run by (auto simp: lock_keys_set)
qed

text \<open>
  The scheduler's lock is always given back: whatever the locked work does and whether it
  returns or throws, if it leaves the lock set alone then so does the whole section; the work
  runs with both keys held when they are free, and does not run at all, with a conflict, when
  one is held.
\<close>

theorem work_lock_released:
  assumes "\<And>g. fs_locks (snd (work g)) = fs_locks g"
  shows "fs_locks (snd (withIssueAndRepoLock process_acquire process_release i r work f)) = fs_locks f
    \<and> (if set (lock_keys i r) \<inter> fs_locks f = {}
       then \<exists>g. fs_locks g = fs_locks f \<union> set (lock_keys i r)
         \<and> fst (withIssueAndRepoLock process_acquire process_release i r work f) = fst (work g)
       else \<exists>k \<in> set (lock_keys i r).
         fst (withIssueAndRepoLock process_acquire process_release i r work f) = Inl (conflict k))"
proof (cases "set (lock_keys i r) \<inter> fs_locks f = {}")
  case True
  with process_lock.with_lock_runs [OF True, of work] show ?thesis
    using assms by (auto simp: process_release_def mem_release_def)
next
  case False
  with process_lock.with_lock_rejected [OF False, of work] show ?thesis by fastforce
qed

theorem work_lock_released_witness:
  "fs_locks (snd (withIssueAndRepoLock process_acquire process_release ''issue-1'' ''/repo''
     (smod (appendLog [])) sample_fs)) = {}"
  using work_lock_released [of "smod (appendLog [])" "''issue-1''" "''/repo''" sample_fs]
  by (simp add: sample_fs_def empty_fs_def)

text \<open>
  The Redis backend keeps the same contract while no key expires: given the documented
  \<open>SET NX\<close>, \<open>GET\<close> and \<open>DEL\<close>, running sections never share a key, and a rejected acquisition rolls
  back the keys it had taken.
\<close>

theorem redis_lock_exclusive:
  assumes "redis_laws c live" and "lock_run (redis_acquire c h ttl) (redis_release c h) s0 s act"
    and "\<forall>k. live s0 k = None"
  shows "sections_disjoint act \<and> dom (live s) = \<Union> (set ` set act)
    \<and> (\<forall>keys e t. [] \<notin> set keys \<longrightarrow> redis_acquire c h ttl keys s = (Inl e, t) \<longrightarrow> live t = live s)"
proof -
  note backend = redis_backend [OF assms(1), of h ttl]
  have "dom (live s0) = {}" using assms(3) by auto
  with lock_backend.run_held [OF backend assms(2)] show ?thesis
    using redis_acquire_from_Inl [OF assms(1)] by (auto simp: redis_acquire_def)
qed

text \<open>A Redis server without expiry, for the witnesses.\<close>

definition sample_redis :: "(string \<Rightarrow> string option) redis_client" where
  "sample_redis = \<lparr>rc_set = (\<lambda>k v ttl s. if s k = None then (True, s(k \<mapsto> v)) else (False, s)),
     rc_get = (\<lambda>k s. (s k, s)), rc_del = (\<lambda>ks s k. if k \<in> set ks then None else s k)\<rparr>"

lemma sample_redis_laws: "redis_laws sample_redis (\<lambda>s. s)"
  by (auto simp: redis_laws_def sample_redis_def)

theorem redis_lock_exclusive_witness:
  "sections_disjoint [lock_keys ''issue-1'' ''/repo'']
   \<and> dom (snd (redis_acquire sample_redis ''loops-1'' 60000 (lock_keys ''issue-1'' ''/repo'') Map.empty))
     = {''issue:issue-1'', ''repo:/repo''}"
proof -
  let ?ks = "lock_keys ''issue-1'' ''/repo''"
  obtain t where t: "redis_acquire sample_redis ''loops-1'' 60000 ?ks Map.empty = (Inr (), t)"
    using redis_acquire_from_free [OF sample_redis_laws lock_keys_distinct, where s = Map.empty]
    unfolding redis_acquire_def by blast
  have "lock_run (redis_acquire sample_redis ''loops-1'' 60000) (redis_release sample_redis ''loops-1'')
      Map.empty t [?ks]"
    by (rule lock_run.enter) (use lock_run.init lock_keys_nonempty t in auto)
  from redis_lock_exclusive [OF sample_redis_laws this] t show ?thesis by (simp add: lock_keys_set)
qed

text \<open>
  The ownership check of the Redis release is per process, not per acquisition: when the
  keys of a section expire and another section of the same process takes them, the first
  section's release deletes the second one's locks, and a third party gets in while the second
  section still runs.
\<close>

theorem redis_stale_release:
  assumes "redis_laws c live" and "distinct keys"
    and "\<forall>k \<in> set keys. live expired k = None"
    and "redis_acquire c h ttl keys expired = (Inr u, second)"
  shows "\<exists>third. redis_acquire c other ttl keys (redis_release c h keys second) = (Inr (), third)"
proof -
  have "\<forall>k \<in> set keys. live (redis_release c h keys second) k = None"
    using redis_acquire_from_Inr [OF assms(1)] assms(4)
    by (auto simp: redis_release_live [OF assms(1)] redis_acquire_def)
  then show ?thesis
    unfolding redis_acquire_def using redis_acquire_from_free [OF assms(1,2)] by blast
qed

theorem redis_stale_release_witness:
  "\<exists>third. redis_acquire sample_redis ''loops-2'' 60000 [''issue:1'']
     (redis_release sample_redis ''loops-1'' [''issue:1''] [''issue:1'' \<mapsto> ''loops-1'']) = (Inr (), third)"
  using redis_stale_release [OF sample_redis_laws, where keys = "[''issue:1'']" and expired = Map.empty
      and h = "''loops-1''" and ttl = 60000 and second = "[''issue:1'' \<mapsto> ''loops-1'']"
      and other = "''loops-2''"]
  by (simp add: redis_acquire_def sample_redis_def)

end
