(* ===== verification/Engine.thy ===== *)
theory Engine
  imports Store_Laws
begin

text \<open>
  \<open>loops-engine/loops-engine.service.ts\<close>: the loop state machine. The pure derivations
  (resume phase, spec version, runnable shard, terminal test) come first, then the
  transitions on the store, then the scheduler \<open>runLoopUnlocked\<close> and the dispatcher \<open>advance\<close>.

  A port of the source is a record of computations on the store. An agent (an LLM behind a
  CLI) is a \<open>call\<close>: it may answer anything and may fail, depending on its input and on how
  many calls the process has made before, but does not write the \<open>.loops\<close> directory. The
  scheduler's \<open>while\<close> loop runs on fuel and returns \<open>None\<close> when the fuel is used up.
\<close>

subsection \<open>Agents and ports\<close>

type_synonym 'a call = "nat \<Rightarrow> js_error + 'a"

definition call :: "'a call \<Rightarrow> (fs, 'a) sm" where
  "call g = (\<lambda>f. (g (fs_ticks f), tick f))"

text \<open>\<open>new Date()\<close>.\<close>

definition now :: "(fs, timestamp) sm" where
  "now = (\<lambda>f. (Inr (clock f), tick f))"

record loops_review_output =
  ro_verdict :: loop_verdict
  ro_issues :: "review_issue list"
  ro_fixInstructions :: "string list"
  ro_summary :: string

record loops_test_review_output =
  to_testVerdict :: loop_test_status
  to_issues :: "review_issue list"
  to_fixInstructions :: "string list"
  to_summary :: string

record loops_agent_adapter =
  ag_plan :: "loop_issue \<Rightarrow> timestamp \<Rightarrow> loop_spec call"
  ag_decompose :: "loop_issue \<Rightarrow> loop_spec \<Rightarrow> (loop_shard list \<times> loop_annotation list) call"
  ag_designTests :: "loop_issue \<Rightarrow> loop_spec \<Rightarrow> loop_shard list \<Rightarrow> timestamp \<Rightarrow> loop_test_matrix call"
  ag_reviewTests :: "loop_test_matrix option \<Rightarrow> loop_test_record option
    \<Rightarrow> loops_test_review_output call"
  ag_review :: "loop_shard \<Rightarrow> loop_implementation_record \<Rightarrow> loop_test_record option
    \<Rightarrow> loops_review_output call"
  ag_reviewGlobal :: "loop_detail \<Rightarrow> loops_review_output call"
  ag_annotateFinalize :: "loop_detail \<Rightarrow> loop_convergence_pr \<Rightarrow> loop_annotation list call"

record shard_runner_port =
  rp_readFreshDetail :: "string \<Rightarrow> (fs, loop_detail) sm"
  rp_runAgent :: "loop_issue \<Rightarrow> loop_shard \<Rightarrow> nat \<Rightarrow> string \<Rightarrow> (fs, loop_implementation_record) sm"
  rp_persistImplementation :: "string \<Rightarrow> string \<Rightarrow> loop_implementation_record \<Rightarrow> (fs, loop_detail) sm"
  rp_runTests :: "string \<Rightarrow> string \<Rightarrow> (fs, loop_test_record) sm"
  rp_reviewTests :: "loop_test_matrix option \<Rightarrow> loop_test_record option
    \<Rightarrow> (fs, loops_test_review_output) sm"
  rp_review :: "loop_shard \<Rightarrow> loop_implementation_record \<Rightarrow> loop_test_record option
    \<Rightarrow> (fs, loops_review_output) sm"
  rp_applyReview :: "string \<Rightarrow> string \<Rightarrow> loop_review_shard_request \<Rightarrow> (fs, unit) sm"

record finalize_port =
  fp_getDetail :: "string \<Rightarrow> (fs, loop_detail) sm"
  fp_enforceReleaseGateOrThrow :: "loop_detail \<Rightarrow> (fs, unit) sm"
  fp_openConvergencePr :: "loop_detail \<Rightarrow> (fs, loop_convergence_pr) sm"
  fp_annotateFinalize :: "loop_detail \<Rightarrow> loop_convergence_pr \<Rightarrow> (fs, loop_annotation list) sm"
  fp_buildLearnings :: "loop_detail \<Rightarrow> loop_convergence_pr \<Rightarrow> timestamp \<Rightarrow> loop_learning list"
  fp_publishPrComment :: "string \<Rightarrow> loop_convergence_pr \<Rightarrow> (fs, unit) sm"
  fp_readDetail :: "string \<Rightarrow> (fs, loop_detail) sm"

record global_review_port =
  gp_getDetail :: "string \<Rightarrow> (fs, loop_detail) sm"
  gp_collectEvidenceIssues :: "loop_detail \<Rightarrow> (fs, review_issue list) sm"
  gp_runRegression :: "loop_detail \<Rightarrow> (fs, loop_test_record) sm"
  gp_runAgentGlobalReview :: "loop_detail \<Rightarrow> (fs, loops_review_output \<times> loop_detail) sm"
  gp_autoReloop :: "string \<Rightarrow> loop_detail \<Rightarrow> loop_global_review_record \<Rightarrow> loop_annotation list
    \<Rightarrow> timestamp \<Rightarrow> (fs, loop_detail) sm"
  gp_readDetail :: "string \<Rightarrow> (fs, loop_detail) sm"

record advance_port =
  ap_getDetail :: "string \<Rightarrow> (fs, loop_detail) sm"
  ap_resumeAndRead :: "string \<Rightarrow> loop_detail \<Rightarrow> (fs, loop_detail) sm"
  ap_generateSpec :: "string \<Rightarrow> (fs, loop_detail) sm"
  ap_decompose :: "string \<Rightarrow> (fs, loop_detail) sm"
  ap_finalize :: "string \<Rightarrow> (fs, loop_detail) sm"
  ap_reviewGlobal :: "string \<Rightarrow> (fs, loop_detail) sm"
  ap_runLoop :: "string \<Rightarrow> (fs, loop_detail) sm"
  ap_appendAdvanceLimitLog :: "string \<Rightarrow> loop_phase \<Rightarrow> nat \<Rightarrow> (fs, unit) sm"

subsection \<open>Pure derivations\<close>

definition nextResumePhase :: "loop_state_item \<Rightarrow> loop_phase" where
  "nextResumePhase st =
     (if st_shardsTotal st > 0 then PHASE_4_IMPLEMENT
      else if st_specVersion st = ''v0'' then PHASE_1_SPEC else PHASE_2_REVIEW)"

definition nextSpecVersion :: "string \<Rightarrow> string" where
  "nextSpecVersion current =
     (if current = ''v0'' then ''v1''
      else CHR ''v'' # (case js_Number (replace_first ''v'' [] current) of
        Some n \<Rightarrow> nat_str (n + 1) | None \<Rightarrow> ''1''))"

definition dependency_done :: "loop_shard list \<Rightarrow> string \<Rightarrow> bool" where
  "dependency_done shards dep \<longleftrightarrow>
     list_ex (\<lambda>c. sh_id c = dep \<and> sh_status c = SHARD_DONE) shards"

definition runnable :: "loop_shard list \<Rightarrow> loop_shard \<Rightarrow> bool" where
  "runnable shards s \<longleftrightarrow>
     (sh_status s = SHARD_TODO \<or> sh_status s = SHARD_NEEDS_WORK)
     \<and> list_all (dependency_done shards) (sh_dependsOn s)"

definition findRunnableShard :: "loop_shard list \<Rightarrow> loop_shard option" where
  "findRunnableShard shards = List.find (runnable shards) shards"

definition isTerminal :: "loop_detail \<Rightarrow> bool" where
  "isTerminal d \<longleftrightarrow> i_status (d_issue d) = ISSUE_CLOSED
     \<or> st_phase (d_state d) = PHASE_CLOSED \<or> st_finalized (d_state d) = Some True"

subsection \<open>Transitions\<close>

definition applyCostGuard :: "loop_state_item \<Rightarrow> nat \<Rightarrow> nat \<Rightarrow> (fs, loop_state_item) sm" where
  "applyCostGuard st calls tokens f =
     (let (s, g) = enforceCostGuard
        (st\<lparr>st_costCalls := st_costCalls st + calls, st_costTokens := st_costTokens st + tokens,
            st_updated := clock f\<rparr>) (tick f)
      in (Inr s, g))"

definition generateSpec :: "loop_detail \<Rightarrow> loops_agent_adapter \<Rightarrow> (fs, unit) sm" where
  "generateSpec d agent =
     (if (case d_spec d of Some s \<Rightarrow> sp_status s \<noteq> SPEC_REVISION_REQUESTED | None \<Rightarrow> False)
      then sthrow (BadRequest ''Spec already exists and is not waiting for revision'')
      else sbind now (\<lambda>created.
        let issue = d_issue d; st = d_state d; version = nextSpecVersion (st_specVersion st) in
        sbind (call (ag_plan agent issue created)) (\<lambda>planned.
        let spec = planned\<lparr>
              sp_id := (if version = ''v1'' then sp_id planned
                else ''spec-'' @ replace_first ''issue-'' [] (i_id issue) @ ''-'' @ version),
              sp_version := version, sp_status := SPEC_DRAFT,
              sp_body := (if version = ''v1'' then sp_body planned
                else sp_body planned @ ([CHR 0x0A, CHR 0x0A] @ ''## '' @ [CHR 0xE4, CHR 0xBF, CHR 0xAE, CHR 0xE8, CHR 0xAE, CHR 0xA2, CHR 0xE8, CHR 0xAF, CHR 0xB4, CHR 0xE6, CHR 0x98, CHR 0x8E, CHR 0x0A, CHR 0xE6, CHR 0x9C, CHR 0xAC, CHR 0xE7, CHR 0x89, CHR 0x88, CHR 0xE6, CHR 0x9C, CHR 0xAC, CHR 0xE7, CHR 0x94, CHR 0xB1] @ '' '') @ st_specVersion st
                  @ ('' '' @ [CHR 0xE4, CHR 0xBF, CHR 0xAE, CHR 0xE8, CHR 0xAE, CHR 0xA2, CHR 0xE7, CHR 0x94, CHR 0x9F, CHR 0xE6, CHR 0x88, CHR 0x90, CHR 0xEF, CHR 0xBC, CHR 0x8C, CHR 0xE7, CHR 0xAD, CHR 0x89, CHR 0xE5, CHR 0xBE, CHR 0x85, CHR 0xE4, CHR 0xBA, CHR 0xBA, CHR 0xE5, CHR 0xB7, CHR 0xA5, CHR 0xE9, CHR 0x87, CHR 0x8D, CHR 0xE6, CHR 0x96, CHR 0xB0, CHR 0xE5, CHR 0xAE, CHR 0xA1, CHR 0xE6, CHR 0xA0, CHR 0xB8, CHR 0xE3, CHR 0x80, CHR 0x82, CHR 0x0A]))\<rparr>;
            st' = st\<lparr>st_phase := PHASE_2_REVIEW, st_specVersion := version, st_updated := created\<rparr> in
        sbind (applyCostGuard st' 1 0) (\<lambda>guarded. smod (writeSpec issue spec guarded)))))"

definition decompose :: "loop_detail \<Rightarrow> loops_agent_adapter \<Rightarrow> (fs, bool) sm" where
  "decompose d agent =
     (if isTerminal d then sret False
      else if d_shards d \<noteq> [] then sret False
      else case d_spec d of
        None \<Rightarrow> sthrow (BadRequest ''Approved spec is required before decompose'')
      | Some spec \<Rightarrow>
          if sp_status spec \<noteq> SPEC_APPROVED
          then sthrow (BadRequest ''Approved spec is required before decompose'')
          else sbind now (\<lambda>created.
            sbind (call (ag_decompose agent (d_issue d) spec)) (\<lambda>(shards, annotations).
            sbind (call (ag_designTests agent (d_issue d) spec shards created)) (\<lambda>matrix.
            let st = (d_state d)\<lparr>st_phase := PHASE_4_IMPLEMENT, st_shardsTotal := length shards,
                  st_shardsDone := 0, st_shardsInProgress := 0, st_updated := created\<rparr> in
            sbind (applyCostGuard st 1 0) (\<lambda>guarded.
            sthen (smod (writeShards (d_issue d) spec shards matrix annotations guarded))
              (sret True))))))"

definition applyResume :: "string \<Rightarrow> loop_detail \<Rightarrow> (fs, unit) sm" where
  "applyResume i d = sbind now (\<lambda>t. let st = d_state d in
     smod (in_order [upsertState (st\<lparr>st_paused := False,
             st_phase := (if st_phase st = PHASE_PAUSED then PHASE_4_IMPLEMENT else st_phase st),
             st_updated := t\<rparr>),
       appendLog [(''type'', JStr ''LOOP_INTERVENTION''), (''issue'', JStr i),
            (''action'', JStr ''resume''), (''actor'', JStr ''loops-engine'')]]))"

definition buildReloopSpec ::
    "loop_detail \<Rightarrow> string \<Rightarrow> timestamp \<Rightarrow> string \<Rightarrow> string \<Rightarrow> loop_spec" where
  "buildReloopSpec d specVersion t reviewer notes =
     (let issue = d_issue d;
          baseBody = (case d_spec d of Some s \<Rightarrow> sp_body s | None \<Rightarrow> i_body issue) in
      \<lparr>sp_id = ''spec-'' @ replace_first ''issue-'' [] (i_id issue) @ ''-'' @ specVersion,
       sp_issueId = i_id issue, sp_version = specVersion, sp_status = SPEC_DRAFT, sp_created = t,
       sp_approvedBy = None,
       sp_contextBudget = (case d_spec d of Some s \<Rightarrow> sp_contextBudget s | None \<Rightarrow> 24000),
       sp_body = baseBody @ ([CHR 0x0A, CHR 0x0A] @ ''## '' @ [CHR 0xE8, CHR 0x87, CHR 0xAA, CHR 0xE5, CHR 0x8A, CHR 0xA8, CHR 0xE5, CHR 0x9B, CHR 0x9E, CHR 0xE7, CHR 0x8E, CHR 0xAF, CHR 0xE4, CHR 0xBF, CHR 0xAE, CHR 0xE8, CHR 0xAE, CHR 0xA2] @ '' '') @ specVersion @ ([CHR 0x0A] @ ''reviewer: '') @ reviewer
         @ [CHR 0x0A] @ notes @ [CHR 0x0A]\<rparr>)"

definition reloop_state :: "loop_state_item \<Rightarrow> timestamp \<Rightarrow> loop_state_item" where
  "reloop_state st t = st\<lparr>st_phase := PHASE_2_REVIEW, st_round := st_round st + 1,
     st_specVersion := nextSpecVersion (st_specVersion st),
     st_shardsTotal := 0, st_shardsDone := 0, st_shardsInProgress := 0,
     st_reloopCount := st_reloopCount st + 1, st_globalVerdict := None, st_finalized := Some False,
     st_updated := t\<rparr>"

definition reloop ::
    "string \<Rightarrow> loop_detail \<Rightarrow> string option \<Rightarrow> string option \<Rightarrow> (fs, loop_reloop_response) sm" where
  "reloop i d reviewer notes = sbind sget (\<lambda>f.
     let maxReloop = cf_maxReloop (fs_cfg f); st = d_state d in
     if st_reloopCount st \<ge> maxReloop then sthrow (BadRequest ''Max re-loop count reached'')
     else sbind now (\<lambda>t.
       let st' = reloop_state st t; v = st_specVersion st';
           spec = buildReloopSpec d v t (case_option ''human'' id reviewer)
             (''notes: '' @ (case notes of Some n \<Rightarrow> n | None \<Rightarrow> [CHR 0xE6, CHR 0x95, CHR 0xB4, CHR 0xE4, CHR 0xBD, CHR 0x93, CHR 0xE5, CHR 0xA4, CHR 0x8D, CHR 0xE6, CHR 0x9F, CHR 0xA5, CHR 0xE5, CHR 0x90, CHR 0x8E, CHR 0xE8, CHR 0xBF, CHR 0x9B, CHR 0xE5, CHR 0x85, CHR 0xA5, CHR 0xE4, CHR 0xB8, CHR 0x8B, CHR 0xE4, CHR 0xB8, CHR 0x80, CHR 0xE8, CHR 0xBD, CHR 0xAE, CHR 0xE4, CHR 0xBF, CHR 0xAE, CHR 0xE8, CHR 0xAE, CHR 0xA2, CHR 0xE3, CHR 0x80, CHR 0x82])) in
       sthen (smod (writeSpec (d_issue d) spec st'))
         (sret \<lparr>rl_issueId = i, rl_specVersion = v, rl_round = st_round st',
            rl_reloopCount = st_reloopCount st', rl_maxReloop = maxReloop,
            rl_phase = st_phase st', rl_paused = st_paused st'\<rparr>)))"

definition finalize :: "string \<Rightarrow> finalize_port \<Rightarrow> (fs, loop_detail) sm" where
  "finalize i port = sbind (fp_getDetail port i) (\<lambda>d.
     if isTerminal d then sret d
     else if st_globalVerdict (d_state d) \<noteq> Some PASS
     then sthrow (BadRequest ''Global review PASS is required before finalize'')
     else sthen (fp_enforceReleaseGateOrThrow port d)
       (sbind now (\<lambda>t.
        sbind (fp_openConvergencePr port d) (\<lambda>pr.
        sbind (fp_annotateFinalize port d pr) (\<lambda>annotations.
        sthen (smod (writeFinalize (d_issue d) annotations
          ((d_state d)\<lparr>st_phase := PHASE_CLOSED, st_finalized := Some True, st_updated := t\<rparr>)
          pr (fp_buildLearnings port d pr t)))
       (sthen (fp_publishPrComment port i pr) (fp_readDetail port i)))))))"

subsection \<open>Global review\<close>

definition needs_work_state :: "loop_state_item \<Rightarrow> timestamp \<Rightarrow> loop_state_item" where
  "needs_work_state st t = st\<lparr>st_phase := PHASE_4_IMPLEMENT, st_globalVerdict := Some NEEDS_WORK,
     st_updated := t\<rparr>"

text \<open>A blocked review: the system records \<open>NEEDS-WORK\<close> and the loop goes back to implementation.\<close>

definition writeBlockedReview ::
    "string \<Rightarrow> loop_detail \<Rightarrow> review_issue list \<Rightarrow> string list \<Rightarrow> string \<Rightarrow> (fs, unit) sm" where
  "writeBlockedReview i d issues fixes summary =
     sbind now (\<lambda>t. sbind now (\<lambda>idTime.
       let r = st_round (d_state d);
           rec = \<lparr>gr_id = ''global-review-'' @ i @ ''-r'' @ nat_str r @ ''-'' @ nat_str idTime,
             gr_issueId = i, gr_reviewer = ''system'', gr_round = r, gr_verdict = NEEDS_WORK,
             gr_issues = issues, gr_fixInstructions = fixes, gr_summary = summary, gr_created = t\<rparr> in
       smod (writeGlobalReview i rec (d_annotations d) (needs_work_state (d_state d) t))))"

definition regression_issues :: "loop_test_record \<Rightarrow> review_issue list" where
  "regression_issues r = map (\<lambda>x. \<lparr>ri_severity = MAJOR,
     ri_desc = ''Global regression failed: '' @ ft_name x @ '': '' @ ft_reason x\<rparr>) (tr_failedTests r)"

definition verdict_annotation :: "loop_verdict \<Rightarrow> ann_verdict" where
  "verdict_annotation v = (case v of PASS \<Rightarrow> ANN_PASS | FAIL \<Rightarrow> ANN_FAIL | NEEDS_WORK \<Rightarrow> ANN_NEEDS_WORK)"

definition reviewGlobal :: "string \<Rightarrow> global_review_port \<Rightarrow> (fs, loop_detail) sm" where
  "reviewGlobal i port = sbind (gp_getDetail port i) (\<lambda>d.
     if isTerminal d then sret d
     else sbind (gp_collectEvidenceIssues port d) (\<lambda>evidenceIssues.
       if evidenceIssues \<noteq> []
       then sthen (writeBlockedReview i d evidenceIssues
              [([CHR 0xE8, CHR 0xA1, CHR 0xA5, CHR 0xE9, CHR 0xBD, CHR 0x90, CHR 0xE5, CHR 0xBD, CHR 0x93, CHR 0xE5, CHR 0x89, CHR 0x8D] @ '' round '' @ [CHR 0xE7, CHR 0x9A, CHR 0x84] @ '' implementation/test/review '' @ [CHR 0xE8, CHR 0xAF, CHR 0x81, CHR 0xE6, CHR 0x8D, CHR 0xAE, CHR 0xE5, CHR 0x90, CHR 0x8E, CHR 0xE9, CHR 0x87, CHR 0x8D, CHR 0xE6, CHR 0x96, CHR 0xB0, CHR 0xE6, CHR 0x95, CHR 0xB4, CHR 0xE4, CHR 0xBD, CHR 0x93, CHR 0xE5, CHR 0xA4, CHR 0x8D, CHR 0xE6, CHR 0x9F, CHR 0xA5, CHR 0xE3, CHR 0x80, CHR 0x82])]
              ''Global review blocked: current-round evidence is incomplete.'')
            (gp_readDetail port i)
       else sbind (gp_runRegression port d) (\<lambda>regression.
         if tr_status regression \<noteq> TEST_PASS
         then sthen (writeBlockedReview i d (regression_issues regression)
                (if tr_fixInstructions regression \<noteq> [] then tr_fixInstructions regression
                 else [[CHR 0xE4, CHR 0xBF, CHR 0xAE, CHR 0xE5, CHR 0xA4, CHR 0x8D, CHR 0xE5, CHR 0x85, CHR 0xA8, CHR 0xE5, CHR 0xB1, CHR 0x80, CHR 0xE5, CHR 0x9B, CHR 0x9E, CHR 0xE5, CHR 0xBD, CHR 0x92, CHR 0xE5, CHR 0xA4, CHR 0xB1, CHR 0xE8, CHR 0xB4, CHR 0xA5, CHR 0xE5, CHR 0x90, CHR 0x8E, CHR 0xE9, CHR 0x87, CHR 0x8D, CHR 0xE6, CHR 0x96, CHR 0xB0, CHR 0xE6, CHR 0x89, CHR 0xA7, CHR 0xE8, CHR 0xA1, CHR 0x8C, CHR 0xE6, CHR 0x95, CHR 0xB4, CHR 0xE4, CHR 0xBD, CHR 0x93, CHR 0xE5, CHR 0xA4, CHR 0x8D, CHR 0xE6, CHR 0x9F, CHR 0xA5, CHR 0xE3, CHR 0x80, CHR 0x82]])
                ''Global review blocked: regression tests failed.'')
              (gp_readDetail port i)
         else sbind (gp_runAgentGlobalReview port d) (\<lambda>(review, rd).
           sbind now (\<lambda>t. sbind now (\<lambda>idTime.
             let r = st_round (d_state d);
                 rec = \<lparr>gr_id = ''global-review-'' @ i @ ''-r'' @ nat_str r @ ''-'' @ nat_str idTime,
                   gr_issueId = i, gr_reviewer = ''codex'', gr_round = r, gr_verdict = ro_verdict review,
                   gr_issues = ro_issues review, gr_fixInstructions = ro_fixInstructions review,
                   gr_summary = ro_summary review, gr_created = t\<rparr>;
                 anns = map_where (\<lambda>a. an_target a = i) (\<lambda>a. a\<lparr>an_annotator := BY_CODEX,
                   an_verdict := verdict_annotation (ro_verdict review),
                   an_notes := ([CHR 0xE6, CHR 0x95, CHR 0xB4, CHR 0xE4, CHR 0xBD, CHR 0x93, CHR 0xE5, CHR 0xA4, CHR 0x8D, CHR 0xE6, CHR 0x9F, CHR 0xA5] @ '' '') @ verdict_str (ro_verdict review) @ [CHR 0xEF, CHR 0xBC, CHR 0x9A] @ ro_summary review\<rparr>)
                   (d_annotations rd) in
             if ro_verdict review \<noteq> PASS then gp_autoReloop port i rd rec anns t
             else sthen (smod (writeGlobalReview i rec anns
                    ((d_state rd)\<lparr>st_phase := PHASE_8_ANNOTATE,
                      st_globalVerdict := Some (ro_verdict review), st_updated := t\<rparr>)))
                  (gp_readDetail port i)))))))"

subsection \<open>One shard\<close>

definition set_status :: "string \<Rightarrow> loop_shard_status \<Rightarrow> loop_shard list \<Rightarrow> loop_shard list" where
  "set_status k s = map_where (\<lambda>x. sh_id x = k) (\<lambda>x. x\<lparr>sh_status := s\<rparr>)"

text \<open>The pipeline after the shard is marked IN_PROGRESS: implement, test, review, apply.\<close>

definition shard_pipeline ::
    "string \<Rightarrow> loop_detail \<Rightarrow> loop_shard \<Rightarrow> shard_runner_port \<Rightarrow> (fs, unit) sm" where
  "shard_pipeline i d shard port =
     sbind (rp_runAgent port (d_issue d) shard (st_round (d_state d)) (i_targetRepo (d_issue d))) (\<lambda>rec.
      sbind (rp_persistImplementation port i (sh_id shard) rec) (\<lambda>implDetail.
      sbind (rp_runTests port i (sh_id shard)) (\<lambda>testRecord.
      sbind (rp_reviewTests port (d_testMatrix implDetail) (Some testRecord)) (\<lambda>testReview.
      sbind (rp_review port shard rec (Some testRecord)) (\<lambda>review.
        let verdict = (if to_testVerdict testReview = TEST_PASS then ro_verdict review else NEEDS_WORK);
            same = (verdict = ro_verdict review) in
        rp_applyReview port i (sh_id shard) \<lparr>rv_reviewer = ''codex'', rv_verdict = verdict,
          rv_summary = (if same then ro_summary review else [CHR 0xE6, CHR 0xB5, CHR 0x8B, CHR 0xE8, CHR 0xAF, CHR 0x95, CHR 0xE5, CHR 0xA4, CHR 0x8D, CHR 0xE6, CHR 0xA0, CHR 0xB8, CHR 0xE6, CHR 0x9C, CHR 0xAA, CHR 0xE9, CHR 0x80, CHR 0x9A, CHR 0xE8, CHR 0xBF, CHR 0x87, CHR 0xEF, CHR 0xBC, CHR 0x9A] @ to_summary testReview),
          rv_issues = (if same then ro_issues review else to_issues testReview),
          rv_fixInstructions = (if same then ro_fixInstructions review
            else to_fixInstructions testReview)\<rparr>)))))"

definition runRunnableShard ::
    "string \<Rightarrow> loop_detail \<Rightarrow> loop_shard \<Rightarrow> shard_runner_port \<Rightarrow> (fs, unit) sm" where
  "runRunnableShard i d shard port = sbind now (\<lambda>started.
     sthen (smod (writeShardProgress i (sh_id shard) (Some (shard_status_str (sh_status shard)))
         ''IN_PROGRESS'' ''loops-scheduler'' (set_status (sh_id shard) SHARD_IN_PROGRESS (d_shards d))
         ((d_state d)\<lparr>st_phase := PHASE_4_IMPLEMENT, st_shardsInProgress := 1, st_updated := started\<rparr>)
         None))
     (shard_pipeline i d shard port))"

definition recoverInterruptedShards :: "string \<Rightarrow> loop_detail \<Rightarrow> (fs, bool) sm" where
  "recoverInterruptedShards i d =
     (let stuck = filter interrupted (d_shards d) in
      if stuck = [] then sret False
      else sbind now (\<lambda>t. sthen (smod (in_order [writeShardProgress i (js_join '','' (map sh_id stuck))
             (Some ''INTERRUPTED'') ''TODO'' ''loops-scheduler''
             (map_where (\<lambda>s. sh_id s \<in> set (map sh_id stuck)) requeue (d_shards d))
             ((d_state d)\<lparr>st_phase := PHASE_4_IMPLEMENT, st_shardsInProgress := 0, st_paused := False,
               st_updated := t\<rparr>) None,
           appendLog [(''type'', JStr ''SCHEDULER_RECOVERED_INTERRUPTED_SHARDS''), (''loop'', JStr i),
                (''shards'', jstrs (map sh_id stuck))]]))
         (sret True)))"

definition budget_note :: "(rat \<Rightarrow> string) \<Rightarrow> loop_shard \<Rightarrow> rat \<Rightarrow> string" where
  "budget_note num s b = ''est_context='' @ num (sh_estContext s) @ '' exceeds context_budget='' @ num b"

definition blockShardForContextBudget ::
    "string \<Rightarrow> loop_detail \<Rightarrow> loop_shard \<Rightarrow> rat \<Rightarrow> (fs, unit) sm" where
  "blockShardForContextBudget i d shard contextBudget = sbind sget (\<lambda>f. sbind now (\<lambda>t.
     let k = sh_id shard; note = budget_note (env_num (fs_env f)) shard contextBudget;
         anns = map_where (\<lambda>a. an_target a = k) (\<lambda>a. a\<lparr>an_implStatus := IMPL_SKIPPED,
           an_testStatus := ANN_TEST_SKIPPED, an_verdict := ANN_NEEDS_WORK, an_coverage := COV_NONE,
           an_risk := RISK_HIGH,
           an_notes := ''Shard '' @ note @ ''; re-decompose before implementation.''\<rparr>)
           (d_annotations d) in
     smod (in_order [writeShardProgress i k (Some (shard_status_str (sh_status shard))) ''BLOCKED''
         ''loops-scheduler'' (set_status k SHARD_BLOCKED (d_shards d))
         ((d_state d)\<lparr>st_phase := PHASE_4_IMPLEMENT, st_shardsInProgress := 0, st_updated := t\<rparr>)
         (Some anns),
       appendLog [(''type'', JStr ''CONTEXT_BUDGET_EXCEEDED''), (''loop'', JStr i),
            (''shard'', JStr k), (''est_context'', JNum (sh_estContext shard)),
            (''context_budget'', JNum contextBudget), (''status'', JStr ''BLOCKED'')],
       writeNotification i CONTEXT_BUDGET_EXCEEDED ''human''
            (''Shard blocked by context budget: '' @ k)
            (''Shard '' @ k @ '' '' @ note @ ''. Re-decompose before implementation.'') (loop_href i)])))"

subsection \<open>The scheduler\<close>

record sched =
  sd_detail :: loop_detail
  sd_advanced :: nat
  sd_blocked :: nat
  sd_recovered :: nat

datatype sched_step = Break | Continue

text \<open>
  One iteration of the \<open>while\<close> loop. The shard to run is the runnable one, or, when there is
  none, the one a recovery of interrupted shards frees.
\<close>

definition pick_shard ::
    "string \<Rightarrow> shard_runner_port \<Rightarrow> sched \<Rightarrow> (fs, sched \<times> loop_shard option) sm" where
  "pick_shard i port s = (case findRunnableShard (d_shards (sd_detail s)) of
     Some shard \<Rightarrow> sret (s, Some shard)
   | None \<Rightarrow> sbind (recoverInterruptedShards i (sd_detail s)) (\<lambda>recovered.
       if recovered then sbind (rp_readFreshDetail port i) (\<lambda>d.
         sret (s\<lparr>sd_recovered := sd_recovered s + 1, sd_detail := d\<rparr>, findRunnableShard (d_shards d)))
       else sret (s, None)))"

definition sched_iter ::
    "string \<Rightarrow> shard_runner_port \<Rightarrow> rat \<Rightarrow> sched \<Rightarrow> (fs, sched_step \<times> sched) sm" where
  "sched_iter i port contextBudget s = sbind (pick_shard i port s) (\<lambda>(s', pick).
     case pick of None \<Rightarrow> sret (Break, s')
     | Some shard \<Rightarrow>
         if sh_estContext shard \<ge> contextBudget
         then sthen (blockShardForContextBudget i (sd_detail s') shard contextBudget)
           (sbind (rp_readFreshDetail port i) (\<lambda>d.
             sret (Continue, s'\<lparr>sd_blocked := sd_blocked s' + 1, sd_detail := d\<rparr>)))
         else sthen (runRunnableShard i (sd_detail s') shard port)
           (sbind (rp_readFreshDetail port i) (\<lambda>d.
             sret (if st_paused (d_state d) then Break else Continue,
                   s'\<lparr>sd_advanced := sd_advanced s' + 1, sd_detail := d\<rparr>))))"

fun sched_loop ::
    "nat \<Rightarrow> string \<Rightarrow> shard_runner_port \<Rightarrow> rat \<Rightarrow> nat \<Rightarrow> sched \<Rightarrow> fs
     \<Rightarrow> ((js_error + sched) \<times> fs) option" where
  "sched_loop 0 i port cb mp s f = (if sd_advanced s < mp then None else Some (Inr s, f))"
| "sched_loop (Suc n) i port cb mp s f =
     (if \<not> sd_advanced s < mp then Some (Inr s, f)
      else case sched_iter i port cb s f of
        (Inl e, g) \<Rightarrow> Some (Inl e, g)
      | (Inr (Break, t), g) \<Rightarrow> Some (Inr t, g)
      | (Inr (Continue, t), g) \<Rightarrow> sched_loop n i port cb mp t g)"

definition appendBatchLog :: "string \<Rightarrow> nat \<Rightarrow> rat \<Rightarrow> sched \<Rightarrow> fs \<Rightarrow> fs" where
  "appendBatchLog i maxParallel contextBudget s =
     appendLog [(''type'', JStr ''SCHEDULER_BATCH''), (''loop'', JStr i),
       (''max_parallel'', jnat maxParallel), (''context_budget'', JNum contextBudget),
       (''advanced'', jnat (sd_advanced s)), (''blocked'', jnat (sd_blocked s)),
       (''recovered'', jnat (sd_recovered s))]"

text \<open>What follows the loop: log the batch, or converge, or report that nothing can run.\<close>

definition sched_finish ::
    "string \<Rightarrow> shard_runner_port \<Rightarrow> nat \<Rightarrow> rat \<Rightarrow> sched \<Rightarrow> (fs, loop_detail) sm" where
  "sched_finish i port maxParallel contextBudget s =
     (let d = sd_detail s in
      if sd_advanced s > 0 \<or> sd_blocked s > 0 \<or> sd_recovered s > 0
      then sthen (smod (appendBatchLog i maxParallel contextBudget s)) (rp_readFreshDetail port i)
      else if d_shards d \<noteq> [] \<and> list_all (\<lambda>x. sh_status x = SHARD_DONE) (d_shards d)
      then sbind now (\<lambda>t. sthen (smod (upsertState ((d_state d)\<lparr>st_phase := PHASE_6_CONVERGE,
             st_shardsDone := length (d_shards d), st_shardsInProgress := 0, st_updated := t\<rparr>)))
           (rp_readFreshDetail port i))
      else sthrow (BadRequest ''No runnable shard is available''))"

definition runLoopUnlocked ::
    "nat \<Rightarrow> string \<Rightarrow> loop_detail \<Rightarrow> shard_runner_port \<Rightarrow> fs \<Rightarrow> ((js_error + loop_detail) \<times> fs) option" where
  "runLoopUnlocked fuel i d port f =
     (if st_paused (d_state d) then Some (Inl (BadRequest ''Paused loop cannot be advanced''), f)
      else if (case d_spec d of None \<Rightarrow> True | Some s \<Rightarrow> sp_status s \<noteq> SPEC_APPROVED)
      then Some (Inl (BadRequest ''Approved spec is required before running loop''), f)
      else let cb = cf_contextBudget (fs_cfg f); mp = cf_maxParallel (fs_cfg f);
               s0 = \<lparr>sd_detail = d, sd_advanced = 0, sd_blocked = 0, sd_recovered = 0\<rparr> in
        case sched_loop fuel i port cb mp s0 f of
          None \<Rightarrow> None
        | Some (Inl e, g) \<Rightarrow> Some (Inl e, g)
        | Some (Inr s, g) \<Rightarrow> Some (sched_finish i port mp cb s g))"

subsection \<open>The dispatcher\<close>

text \<open>
  One step of \<open>advance\<close>: return a detail for good, or go on with the next one. The clauses are
  the \<open>if\<close> chain of the source, in its order.
\<close>

datatype adv_step = Done loop_detail | Next loop_detail

definition advance_step :: "string \<Rightarrow> advance_port \<Rightarrow> loop_detail \<Rightarrow> (fs, adv_step) sm" where
  "advance_step i port d = (let st = d_state d; next = (\<lambda>m. sbind m (\<lambda>d'. sret (Next d'))) in
     if st_paused st then next (ap_resumeAndRead port i d)
     else if i_status (d_issue d) = ISSUE_CLOSED \<or> st_phase st = PHASE_CLOSED then sret (Done d)
     else case d_spec d of
       None \<Rightarrow> sbind (ap_generateSpec port i) (\<lambda>d'. sret (Done d'))
     | Some spec \<Rightarrow>
         if sp_status spec = SPEC_REVISION_REQUESTED
         then sbind (ap_generateSpec port i) (\<lambda>d'. sret (Done d'))
         else if sp_status spec = SPEC_DRAFT then sret (Done d)
         else if sp_status spec \<noteq> SPEC_APPROVED
         then sthrow (BadRequest ''Approved spec is required before advancing loop automation'')
         else if d_shards d = [] \<or> st_phase st = PHASE_3_DECOMPOSE then next (ap_decompose port i)
         else if st_globalVerdict st = Some PASS \<and> st_finalized st \<noteq> Some True
         then next (ap_finalize port i)
         else if st_phase st = PHASE_6_CONVERGE then next (ap_reviewGlobal port i)
         else if st_globalVerdict st \<noteq> None \<and> st_globalVerdict st \<noteq> Some PASS then sret (Done d)
         else next (ap_runLoop port i))"

fun advance_steps :: "nat \<Rightarrow> string \<Rightarrow> advance_port \<Rightarrow> nat \<Rightarrow> loop_detail \<Rightarrow> (fs, loop_detail) sm" where
  "advance_steps 0 i port maxSteps d =
     sthen (ap_appendAdvanceLimitLog port i (st_phase (d_state d)) maxSteps) (sret d)"
| "advance_steps (Suc n) i port maxSteps d = sbind (advance_step i port d) (\<lambda>r.
     case r of Done d' \<Rightarrow> sret d' | Next d' \<Rightarrow> advance_steps n i port maxSteps d')"

definition advance :: "string \<Rightarrow> advance_port \<Rightarrow> (fs, loop_detail) sm" where
  "advance i port = sbind (ap_getDetail port i) (\<lambda>d.
     let maxSteps = max (length (d_shards d) + 8) 12 in advance_steps maxSteps i port maxSteps d)"

end
