(* ===== verification/Engine_Laws.thy ===== *)
theory Engine_Laws
  imports Engine
begin

text \<open>
  Laws of the engine: spec versions grow, the shard picker is correct and does not starve on an
  acyclic plan, and the scheduler's loop ends. The scheduler talks to the facade through
  \<open>shard_runner_port\<close>; the locale \<open>shard_runner\<close> states what it relies on, namely that the fresh
  detail shows the shards on disk and that a port operation does not add shards.
\<close>

subsection \<open>Spec versions\<close>

definition version_str :: "nat \<Rightarrow> string" where
  "version_str n = CHR ''v'' # nat_str n"

lemma version_str_inject [simp]: "version_str m = version_str n \<longleftrightarrow> m = n"
  by (simp add: version_str_def)

lemma nat_str_0: "nat_str 0 = ''0''"
  by (simp add: nat_str.simps [of 0] digit_char_def char_of_def bit_0)

lemma nat_str_1: "nat_str (Suc 0) = ''1''"
  by (simp add: nat_str.simps [of "Suc 0"] digit_char_def char_of_def bit_0)

lemma version_str_v0: "version_str n = ''v0'' \<longleftrightarrow> n = 0"
proof -
  have "''v0'' = version_str 0"
    by (simp add: version_str_def nat_str_0)
  then show ?thesis by (metis version_str_inject)
qed

lemma nextSpecVersion_str: "nextSpecVersion (version_str n) = version_str (n + 1)"
proof (cases "n = 0")
  case True
  then show ?thesis
    using version_str_v0 [of n]
    by (simp add: nextSpecVersion_def version_str_def nat_str_1)
next
  case False
  then have "version_str n \<noteq> ''v0''" by (simp add: version_str_v0)
  moreover have "replace_first ''v'' [] (version_str n) = nat_str n"
    by (simp add: version_str_def)
  ultimately show ?thesis
    by (simp add: nextSpecVersion_def) (simp add: version_str_def)
qed

subsection \<open>Picking a shard\<close>

lemma findRunnableShard_Some:
  "findRunnableShard shards = Some s \<Longrightarrow> s \<in> set shards \<and> runnable shards s"
  unfolding findRunnableShard_def by (rule find_SomeD)

lemma findRunnableShard_None: "findRunnableShard shards = None \<longleftrightarrow> (\<forall>s \<in> set shards. \<not> runnable shards s)"
  unfolding findRunnableShard_def by (rule find_None_iff_none)

lemma find_split:
  "List.find P xs = Some x \<Longrightarrow> \<exists>before after. xs = before @ x # after \<and> P x \<and> (\<forall>y \<in> set before. \<not> P y)"
proof (induction xs)
  case (Cons y ys)
  show ?case
  proof (cases "P y")
    case True
    then have "x = y" using Cons.prems by simp
    with True show ?thesis by (intro exI [of _ "[]"] exI [of _ ys]) simp
  next
    case False
    then obtain before after where "ys = before @ x # after \<and> P x \<and> (\<forall>z \<in> set before. \<not> P z)"
      using Cons.IH Cons.prems by auto
    with False show ?thesis by (intro exI [of _ "y # before"] exI [of _ after]) simp
  qed
qed simp

definition plan_acyclic :: "(string \<Rightarrow> nat) \<Rightarrow> loop_shard list \<Rightarrow> bool" where
  "plan_acyclic rank shards \<longleftrightarrow>
     (\<forall>s \<in> set shards. \<forall>dep \<in> set (sh_dependsOn s). rank dep < rank (sh_id s) \<and> dep \<in> sh_id ` set shards)"

definition deps_done :: "loop_shard list \<Rightarrow> loop_shard \<Rightarrow> bool" where
  "deps_done shards s \<longleftrightarrow>
     (\<forall>dep \<in> set (sh_dependsOn s). \<exists>t \<in> set shards. sh_id t = dep \<and> sh_status t = SHARD_DONE)"

lemma runnable_iff:
  "runnable shards s \<longleftrightarrow> sh_status s \<in> {SHARD_TODO, SHARD_NEEDS_WORK} \<and> deps_done shards s"
  by (auto simp: runnable_def deps_done_def dependency_done_def list_all_iff list_ex_iff)

text \<open>On an acyclic plan some shard that is not DONE waits for no other shard.\<close>

lemma acyclic_frontier:
  assumes acyc: "plan_acyclic rank shards" and "s \<in> set shards" "sh_status s \<noteq> SHARD_DONE"
  shows "\<exists>t \<in> set shards. sh_status t \<noteq> SHARD_DONE \<and> deps_done shards t"
  using assms(2,3)
proof (induction "rank (sh_id s)" arbitrary: s rule: less_induct)
  case less
  show ?case
  proof (cases "deps_done shards s")
    case False
    then obtain dep where dep: "dep \<in> set (sh_dependsOn s)"
        "\<forall>t \<in> set shards. sh_id t = dep \<longrightarrow> sh_status t \<noteq> SHARD_DONE"
      by (auto simp: deps_done_def)
    with acyc less.prems(1) obtain t where "t \<in> set shards" "sh_id t = dep" "rank (sh_id t) < rank (sh_id s)"
      unfolding plan_acyclic_def by (metis (no_types, lifting) imageE)
    with dep(2) show ?thesis by (intro less.hyps) auto
  qed (use less.prems in blast)
qed

lemma acyclic_progress:
  assumes "plan_acyclic rank shards"
    and "\<forall>s \<in> set shards. sh_status s \<in> {SHARD_TODO, SHARD_NEEDS_WORK, SHARD_DONE}"
    and "s \<in> set shards" "sh_status s \<noteq> SHARD_DONE"
  shows "\<exists>r. findRunnableShard shards = Some r"
  using acyclic_frontier [OF assms(1,3,4)] assms(2) findRunnableShard_None [of shards]
  by (cases "findRunnableShard shards") (auto simp: runnable_iff)

text \<open>
  C11. The shard picker on a plan without dependency cycles: a shard it returns is the first of
  the plan that is TODO or NEEDS-WORK and whose dependencies are all DONE. When it returns
  nothing, either every shard is DONE, or the loop is stuck on a shard in a status other than
  TODO, NEEDS-WORK and DONE (FAILED, for one) whose own dependencies are all DONE.
\<close>

theorem findRunnableShard_correct:
  assumes "plan_acyclic rank shards"
  shows "case findRunnableShard shards of
      None \<Rightarrow> (\<forall>s \<in> set shards. sh_status s = SHARD_DONE)
        \<or> (\<exists>s \<in> set shards. sh_status s \<notin> {SHARD_TODO, SHARD_NEEDS_WORK, SHARD_DONE} \<and> deps_done shards s)
    | Some s \<Rightarrow> (\<exists>before after. shards = before @ s # after
        \<and> sh_status s \<in> {SHARD_TODO, SHARD_NEEDS_WORK} \<and> deps_done shards s
        \<and> (\<forall>t \<in> set before. \<not> (sh_status t \<in> {SHARD_TODO, SHARD_NEEDS_WORK} \<and> deps_done shards t)))"
proof (cases "findRunnableShard shards")
  case None
  then show ?thesis
    using acyclic_frontier [OF assms] findRunnableShard_None [of shards] by (auto simp: runnable_iff)
next
  case (Some s)
  then show ?thesis
    using find_split [of "runnable shards" shards s] by (simp add: findRunnableShard_def runnable_iff)
qed

theorem findRunnableShard_correct_witness:
  "findRunnableShard [sample_shard ''a'' [] SHARD_DONE, sample_shard ''b'' [''a''] SHARD_TODO]
   = Some (sample_shard ''b'' [''a''] SHARD_TODO)
   \<and> findRunnableShard [sample_shard ''a'' [] SHARD_FAILED, sample_shard ''b'' [''a''] SHARD_TODO] = None
   \<and> deps_done [sample_shard ''a'' [] SHARD_FAILED, sample_shard ''b'' [''a''] SHARD_TODO]
       (sample_shard ''a'' [] SHARD_FAILED)"
  using findRunnableShard_correct [where rank = "\<lambda>k. if k = ''a'' then 0 else 1" and shards =
      "[sample_shard ''a'' [] SHARD_DONE, sample_shard ''b'' [''a''] SHARD_TODO]"]
    findRunnableShard_correct [where rank = "\<lambda>k. if k = ''a'' then 0 else 1" and shards =
      "[sample_shard ''a'' [] SHARD_FAILED, sample_shard ''b'' [''a''] SHARD_TODO]"]
  by (simp add: findRunnableShard_def runnable_def dependency_done_def sample_shard_def plan_acyclic_def
      deps_done_def)

subsection \<open>What a fresh detail shows\<close>

definition current_shards :: "string \<Rightarrow> fs \<Rightarrow> loop_shard list" where
  "current_shards i f = (case stateOf i f of None \<Rightarrow> []
     | Some st \<Rightarrow> if st_shardsTotal st > 0 then case_option [] id (map_of (fs_shards f) i) else [])"

definition in_sync :: "string \<Rightarrow> loop_detail \<Rightarrow> fs \<Rightarrow> bool" where
  "in_sync i d f \<longleftrightarrow> states_wf f \<and> stateOf i f = Some (d_state d) \<and> d_shards d = current_shards i f"

lemma in_sync_total: "in_sync i d f \<Longrightarrow> d_shards d \<noteq> [] \<Longrightarrow> st_shardsTotal (d_state d) > 0"
  by (auto simp: in_sync_def current_shards_def split: if_splits)

lemma in_sync_issueId: "in_sync i d f \<Longrightarrow> st_issueId (d_state d) = i"
  by (auto simp: in_sync_def dest: stateOf_issueId)

lemma detail_of_in_sync:
  assumes "states_wf f" and "detail_of i f = Inr d"
  shows "in_sync i d f"
  using assms
  by (auto simp: detail_of_def in_sync_def detail_with_def Let_def current_shards_def
      split: option.splits)

lemma current_shards_ensureInitialized [simp]:
  "current_shards i (ensureInitialized f) = current_shards i f"
  unfolding current_shards_def stateOf_ensureInitialized ensureInitialized_frame ..

lemma states_wf_ensureInitialized [simp]: "states_wf (ensureInitialized f) = states_wf f"
  by (simp add: states_wf_def)

lemma readDetail_in_sync:
  "states_wf f \<Longrightarrow> readDetail i f = (Inr d, g) \<Longrightarrow> in_sync i d g \<and> g = ensureInitialized f"
  using detail_of_in_sync [of "ensureInitialized f" i d]
  by (auto simp: readDetail_def Let_def)

subsection \<open>The scheduler's writes\<close>

lemma current_shards_write:
  assumes wf: "states_wf f" and i: "i \<noteq> []" and st: "st_issueId st = i"
  shows "current_shards i (writeShardProgress i k a b c shards st anns f)
    = (if st_shardsTotal st > 0 then shards else [])"
proof -
  let ?g = "(case anns of None \<Rightarrow> id | Some x \<Rightarrow> write_annotations_json i x) (write_shards_json i shards f)"
  have "states_wf ?g" using wf by (cases anns) (simp_all add: states_wf_def)
  then have "stateOf i (upsertState st ?g) = Some st"
    using i st by (simp add: stateOf_upsertState)
  moreover have "map_of (fs_shards ?g) i = Some shards"
    by (cases anns) (simp_all add: store_simps)
  ultimately show ?thesis
    by (simp add: writeShardProgress_def current_shards_def stateOf_def readState_def)
qed

lemma current_shards_cong:
  assumes "fs_states g = fs_states f" and "fs_legacyState g = fs_legacyState f"
    and "fs_shards g = fs_shards f"
  shows "current_shards i g = current_shards i f"
  unfolding current_shards_def stateOf_def readState_def assms ..

lemma current_shards_log [simp]:
  "current_shards i (appendLog p f) = current_shards i f"
  "current_shards i (writeNotification j k r t b h f) = current_shards i f"
  "current_shards i (tick f) = current_shards i f"
  by (rule current_shards_cong; simp)+

lemma states_wf_log [simp]:
  "states_wf (appendLog p f) = states_wf f"
  "states_wf (writeNotification j k r t b h f) = states_wf f"
  "states_wf (tick f) = states_wf f"
  by (simp_all add: states_wf_def)

lemma length_set_status [simp]: "length (set_status k s xs) = length xs"
  by (simp add: set_status_def)

text \<open>What is left to schedule: the shards that are not finished one way or the other.\<close>

definition pending :: "loop_shard \<Rightarrow> bool" where
  "pending s \<longleftrightarrow> sh_status s \<in> {SHARD_TODO, SHARD_NEEDS_WORK, SHARD_IN_PROGRESS, SHARD_TIMEOUT}"

abbreviation "work shards \<equiv> count_where pending shards"

lemma work_Cons: "work (x # xs) = (if pending x then 1 else 0) + work xs"
  by (simp add: count_where_def)

lemma set_status_Cons:
  "set_status k s (x # xs) = (if sh_id x = k then x\<lparr>sh_status := s\<rparr> else x) # set_status k s xs"
  by (simp add: set_status_def map_where_def)

lemma not_pending_blocked [simp]: "\<not> pending (x\<lparr>sh_status := SHARD_BLOCKED\<rparr>)"
  by (simp add: pending_def)

lemma work_block_le: "work (set_status k SHARD_BLOCKED xs) \<le> work xs"
  by (induction xs) (auto simp: work_Cons set_status_Cons set_status_def count_where_def map_where_def)

lemma work_block:
  assumes "s \<in> set shards" and "pending s"
  shows "work (set_status (sh_id s) SHARD_BLOCKED shards) < work shards"
  using assms
proof (induction shards)
  case Nil
  then show ?case by simp
next
  case (Cons x xs)
  show ?case
  proof (cases "s = x")
    case True
    with Cons.prems show ?thesis
      using work_block_le [of "sh_id s" xs] by (simp add: work_Cons set_status_Cons)
  next
    case False
    with Cons have "work (set_status (sh_id s) SHARD_BLOCKED xs) < work xs" by simp
    then show ?thesis by (auto simp: work_Cons set_status_Cons)
  qed
qed

text \<open>The potential of a plan: recovering interrupted shards happens at most once between runs.\<close>

definition potential :: "nat \<Rightarrow> loop_shard list \<Rightarrow> nat" where
  "potential n shards = (if list_ex interrupted shards then n + 1 else 0) + work shards"

lemma potential_bound: "length shards \<le> n \<Longrightarrow> potential n shards \<le> 2 * n + 1"
  using count_where_le_length [of pending shards] by (simp add: potential_def)

lemma interrupted_block: "list_ex interrupted (set_status k SHARD_BLOCKED xs) \<Longrightarrow> list_ex interrupted xs"
  by (auto simp: list_ex_iff set_status_def set_map_where interrupted_def)

lemma potential_block:
  "s \<in> set shards \<Longrightarrow> pending s
   \<Longrightarrow> potential n (set_status (sh_id s) SHARD_BLOCKED shards) < potential n shards"
  using work_block [of s shards] interrupted_block [of "sh_id s" shards]
  by (auto simp: potential_def)

abbreviation "recovered_shards shards \<equiv>
  map_where (\<lambda>s. sh_id s \<in> set (map sh_id (filter interrupted shards))) requeue shards"

lemma recovered_none: "\<not> list_ex interrupted (recovered_shards shards)"
  by (auto simp: list_ex_iff set_map_where requeue_def interrupted_def)

lemma potential_recovered:
  assumes "filter interrupted shards \<noteq> []" and "length shards \<le> n"
  shows "potential n (recovered_shards shards) < potential n shards"
proof -
  have "work (recovered_shards shards) \<le> n"
    using assms(2) count_where_le_length [of pending "recovered_shards shards"] by simp
  moreover have "list_ex interrupted shards"
    using assms(1) by (auto simp: list_ex_iff filter_empty_conv)
  ultimately show ?thesis
    unfolding potential_def using recovered_none [of shards] by (simp only: if_True if_False)
qed

lemma runnable_pending: "runnable shards s \<Longrightarrow> pending s"
  by (auto simp: runnable_def pending_def)

subsection \<open>The port of the scheduler, and its termination\<close>

text \<open>
  The contract of \<open>LoopsEngineShardRunnerPort\<close> for one issue \<open>i\<close>: the fresh detail is in sync
  with the store and reading it changes no shard, and running, persisting, testing and
  reviewing keep the state files well named and the number of shards within a bound.
\<close>

definition in_bound :: "string \<Rightarrow> nat \<Rightarrow> fs \<Rightarrow> bool" where
  "in_bound i n f \<longleftrightarrow> states_wf f \<and> length (current_shards i f) \<le> n"

locale shard_runner =
  fixes port :: shard_runner_port and i :: string
  assumes issue_id: "i \<noteq> []"
    and fresh: "states_wf f \<Longrightarrow> rp_readFreshDetail port i f = (Inr d, g) \<Longrightarrow>
        in_sync i d g \<and> current_shards i g = current_shards i f"
    and agent_within: "preserves (in_bound i n) (rp_runAgent port iss s r cwd)"
    and persist_within: "preserves (in_bound i n) (rp_persistImplementation port i k rec)"
    and tests_within: "preserves (in_bound i n) (rp_runTests port i k)"
    and reviewTests_within: "preserves (in_bound i n) (rp_reviewTests port m tr)"
    and review_within: "preserves (in_bound i n) (rp_review port s rec tr)"
    and apply_within: "preserves (in_bound i n) (rp_applyReview port i k req)"
begin

lemma progress_within:
  assumes "in_sync i d f" and "in_bound i n f" and "length shards = length (d_shards d)"
    and st: "st_issueId st = i"
  shows "in_bound i n (writeShardProgress i k a b c shards st anns f)"
  using assms issue_id writeShardProgress.wf [of f i k a b c shards st anns]
  by (simp add: in_bound_def in_sync_def current_shards_write)

lemma run_within:
  assumes "in_sync i d f" and "in_bound i n f" and "runRunnableShard i d shard port f = (Inr x, g)"
  shows "in_bound i n g"
proof -
  from assms(3) obtain u where u: "shard_pipeline i d shard port u = (Inr x, g)"
      and w: "u = writeShardProgress i (sh_id shard) (Some (shard_status_str (sh_status shard)))
         ''IN_PROGRESS'' ''loops-scheduler'' (set_status (sh_id shard) SHARD_IN_PROGRESS (d_shards d))
         ((d_state d)\<lparr>st_phase := PHASE_4_IMPLEMENT, st_shardsInProgress := 1, st_updated := clock f\<rparr>)
         None (tick f)"
    by (simp add: runRunnableShard_def sbind_app sthen_app now_def)
  have "in_bound i n u"
    unfolding w
  proof (rule progress_within)
    show "in_sync i d (tick f)" "in_bound i n (tick f)"
      using assms by (simp_all add: in_sync_def in_bound_def stateOf_def readState_def)
  qed (use in_sync_issueId [OF assms(1)] in simp_all)
  moreover have "preserves (in_bound i n) (shard_pipeline i d shard port)"
    unfolding shard_pipeline_def Let_def
    by (intro preserves_sbind agent_within persist_within tests_within reviewTests_within
        review_within apply_within)
  ultimately show ?thesis using u preservesD by (metis snd_conv)
qed

lemma fresh_after:
  assumes "in_sync i d f" and "in_bound i n f" and "length shards = length (d_shards d)"
    and "st_issueId st = i" and "st_shardsTotal st = st_shardsTotal (d_state d)"
    and "d_shards d \<noteq> []"
    and g: "g = writeShardProgress i k a b c shards st anns f"
    and h: "states_wf h = states_wf g" "current_shards i h = current_shards i g"
    and read: "rp_readFreshDetail port i h = (Inr e, u)"
  shows "in_sync i e u \<and> in_bound i n u \<and> d_shards e = shards"
proof -
  have "in_bound i n g" unfolding g by (rule progress_within [OF assms(1-4)])
  then have wf: "states_wf h" using h by (simp add: in_bound_def)
  have "current_shards i g = shards"
    using assms(1,4-6) issue_id in_sync_total [OF assms(1,6)] unfolding g
    by (simp add: current_shards_write in_sync_def)
  with fresh [OF wf read] h \<open>in_bound i n g\<close> show ?thesis
    by (auto simp: in_bound_def in_sync_def)
qed

lemma pick_progress:
  assumes "in_sync i (sd_detail s) f" and "in_bound i n f"
    and "pick_shard i port s f = (Inr (t, pick), g)"
  shows "in_sync i (sd_detail t) g \<and> in_bound i n g \<and> sd_advanced t = sd_advanced s
    \<and> potential n (d_shards (sd_detail t)) \<le> potential n (d_shards (sd_detail s))
    \<and> (\<forall>shard. pick = Some shard \<longrightarrow> shard \<in> set (d_shards (sd_detail t))
         \<and> runnable (d_shards (sd_detail t)) shard)"
proof (cases "findRunnableShard (d_shards (sd_detail s))")
  case (Some shard)
  with assms show ?thesis by (auto simp: pick_shard_def dest: findRunnableShard_Some)
next
  case None
  let ?d = "sd_detail s"
  show ?thesis
  proof (cases "filter interrupted (d_shards ?d) = []")
    case True
    with None assms show ?thesis
      by (auto simp: pick_shard_def recoverInterruptedShards_def sbind_app Let_def)
  next
    case False
    let ?shards = "recovered_shards (d_shards ?d)"
    let ?w = "writeShardProgress i (js_join '','' (map sh_id (filter interrupted (d_shards ?d))))
        (Some ''INTERRUPTED'') ''TODO'' ''loops-scheduler'' ?shards
        ((d_state ?d)\<lparr>st_phase := PHASE_4_IMPLEMENT, st_shardsInProgress := 0, st_paused := False,
          st_updated := clock f\<rparr>) None (tick f)"
    from None False assms(3) obtain e p where
        read: "rp_readFreshDetail port i (appendLog p ?w) = (Inr e, g)"
        and t: "t = s\<lparr>sd_recovered := sd_recovered s + 1, sd_detail := e\<rparr>"
        and pick: "pick = findRunnableShard (d_shards e)"
      by (auto simp: pick_shard_def recoverInterruptedShards_def sbind_app sthen_app now_def Let_def
          split: prod.splits sum.splits)
    have sync: "in_sync i ?d (tick f)" "in_bound i n (tick f)"
      using assms by (simp_all add: in_sync_def in_bound_def stateOf_def readState_def)
    have "in_sync i e g \<and> in_bound i n g \<and> d_shards e = ?shards"
      by (rule fresh_after [OF sync _ _ _ _ refl _ _ read])
        (use False in_sync_issueId [OF assms(1)] in auto)
    moreover have "length (d_shards ?d) \<le> n"
      using assms by (simp add: in_bound_def in_sync_def)
    ultimately show ?thesis
      using potential_recovered [OF False, of n] t pick by (auto dest: findRunnableShard_Some)
  qed
qed

lemma iter_progress:
  assumes "in_sync i (sd_detail s) f" and "in_bound i n f"
    and iter: "sched_iter i port cb s f = (Inr (Continue, t), g)"
  shows "in_sync i (sd_detail t) g \<and> in_bound i n g
    \<and> (sd_advanced t = sd_advanced s + 1
       \<or> sd_advanced t = sd_advanced s
         \<and> potential n (d_shards (sd_detail t)) < potential n (d_shards (sd_detail s)))"
proof -
  from iter obtain s' shard h where pick: "pick_shard i port s f = (Inr (s', Some shard), h)"
    by (auto simp: sched_iter_def sbind_app split: prod.splits sum.splits option.splits)
  note p = pick_progress [OF assms(1,2) pick]
  then have sync: "in_sync i (sd_detail s') h" and bound: "in_bound i n h"
    and adv: "sd_advanced s' = sd_advanced s"
    and pot: "potential n (d_shards (sd_detail s')) \<le> potential n (d_shards (sd_detail s))"
    and shard: "shard \<in> set (d_shards (sd_detail s'))" "runnable (d_shards (sd_detail s')) shard"
    by auto
  show ?thesis
  proof (cases "sh_estContext shard \<ge> cb")
    case True
    let ?d = "sd_detail s'"
    let ?shards = "set_status (sh_id shard) SHARD_BLOCKED (d_shards ?d)"
    let ?st = "(d_state ?d)\<lparr>st_phase := PHASE_4_IMPLEMENT, st_shardsInProgress := 0, st_updated := clock h\<rparr>"
    from iter pick True obtain anns e p1 n1 n2 n3 n4 where
        read: "rp_readFreshDetail port i (writeNotification i CONTEXT_BUDGET_EXCEEDED n1 n2 n3 n4
          (appendLog p1 (writeShardProgress i (sh_id shard) (Some (shard_status_str (sh_status shard)))
             ''BLOCKED'' ''loops-scheduler'' ?shards ?st anns (tick h)))) = (Inr e, g)"
        and t: "t = s'\<lparr>sd_blocked := sd_blocked s' + 1, sd_detail := e\<rparr>"
      by (auto simp: sched_iter_def blockShardForContextBudget_def sbind_app sthen_app now_def Let_def
          split: prod.splits sum.splits)
    have sync': "in_sync i ?d (tick h)" "in_bound i n (tick h)"
      using sync bound by (simp_all add: in_sync_def in_bound_def stateOf_def readState_def)
    have "in_sync i e g \<and> in_bound i n g \<and> d_shards e = ?shards"
      by (rule fresh_after [OF sync' _ _ _ _ refl _ _ read])
        (use shard in_sync_issueId [OF sync] in auto)
    with potential_block [OF shard(1) runnable_pending [OF shard(2)], of n] t adv pot
    show ?thesis by auto
  next
    case False
    with iter pick obtain x u e where run: "runRunnableShard i (sd_detail s') shard port h = (Inr x, u)"
        and read: "rp_readFreshDetail port i u = (Inr e, g)"
        and t: "t = s'\<lparr>sd_advanced := sd_advanced s' + 1, sd_detail := e\<rparr>"
      by (auto simp: sched_iter_def sbind_app sthen_app split: prod.splits sum.splits if_splits)
    have u: "in_bound i n u" by (rule run_within [OF sync bound run])
    then have "in_sync i e g \<and> current_shards i g = current_shards i u"
      using fresh [OF _ read] by (simp add: in_bound_def)
    with u t adv show ?thesis by (auto simp: in_bound_def in_sync_def)
  qed
qed

text \<open>The loop ends: each iteration runs a shard, or lowers the potential of the plan.\<close>

lemma loop_returns:
  assumes "in_sync i (sd_detail s) f" and "in_bound i n f"
    and "(mp - sd_advanced s) * (2 * n + 2) + potential n (d_shards (sd_detail s)) < fuel"
  shows "\<exists>r. sched_loop fuel i port cb mp s f = Some r"
  using assms
proof (induction fuel arbitrary: s f)
  case 0
  then show ?case by simp
next
  case (Suc fuel)
  show ?case
  proof (cases "sd_advanced s < mp")
    case False
    then show ?thesis by simp
  next
    case True
    obtain r g where iter: "sched_iter i port cb s f = (r, g)" by fastforce
    show ?thesis
    proof (cases "\<exists>t. r = Inr (Continue, t)")
      case False
      with iter True show ?thesis
        by (cases r; cases "projr r"; cases "fst (projr r)") auto
    next
      case goes_on: True
      then obtain t where r: "r = Inr (Continue, t)" by blast
      note p = iter_progress [OF Suc.prems(1,2) iter [unfolded r]]
      have "length (d_shards (sd_detail t)) \<le> n" using p by (simp add: in_bound_def in_sync_def)
      then have bound: "potential n (d_shards (sd_detail t)) \<le> 2 * n + 1" by (rule potential_bound)
      have "(mp - sd_advanced t) * (2 * n + 2) + potential n (d_shards (sd_detail t)) < fuel"
      proof (cases "sd_advanced t = sd_advanced s + 1")
        case True
        then have "mp - sd_advanced s = Suc (mp - sd_advanced t)"
          using \<open>sd_advanced s < mp\<close> by arith
        then have "(mp - sd_advanced s) * (2 * n + 2) = (mp - sd_advanced t) * (2 * n + 2) + (2 * n + 2)"
          by simp
        with bound Suc.prems(3) show ?thesis by linarith
      next
        case False
        with p Suc.prems(3) show ?thesis by auto
      qed
      with Suc.IH [of t g] p iter r True show ?thesis by simp
    qed
  qed
qed

lemma runLoopUnlocked_returns:
  assumes "in_sync i d f"
    and "fuel > cf_maxParallel (fs_cfg f) * (2 * length (d_shards d) + 2) + 2 * length (d_shards d) + 1"
  shows "\<exists>r. runLoopUnlocked fuel i d port f = Some r"
proof -
  let ?n = "length (d_shards d)"
  let ?s = "\<lparr>sd_detail = d, sd_advanced = 0, sd_blocked = 0, sd_recovered = 0\<rparr>"
  have "in_bound i ?n f" using assms(1) by (simp add: in_bound_def in_sync_def)
  moreover have "potential ?n (d_shards d) \<le> 2 * ?n + 1" by (rule potential_bound) simp
  ultimately have "\<exists>r. sched_loop fuel i port (cf_contextBudget (fs_cfg f)) (cf_maxParallel (fs_cfg f)) ?s f
      = Some r"
    using assms by (intro loop_returns [where n = ?n]) auto
  then obtain r g where
    "sched_loop fuel i port (cf_contextBudget (fs_cfg f)) (cf_maxParallel (fs_cfg f)) ?s f = Some (r, g)"
    by (metis surj_pair)
  then show ?thesis by (cases r) (auto simp: runLoopUnlocked_def Let_def split: option.splits)
qed

end

end
