(* ===== verification/Shard_State.thy ===== *)
theory Shard_State
  imports Engine_Laws
begin

text \<open>
  \<open>src/modules/loops/loops-remote-shard-state.adapter.ts\<close>: recording an implementation and
  applying a review verdict to a shard, with the redo limit and the commit of a DONE shard.
  The detail is read from the file store (no database). The laws say when a shard can become
  DONE, that the redo limit fails a shard, and that the counters stay consistent with the
  shards.
\<close>

record commit_shard_result =
  co_shardId :: string
  co_committed :: bool
  co_message :: string
  co_branch :: "string option"
  co_commitSha :: "string option"

record loops_git_adapter =
  ga_commitShard :: "loop_issue \<Rightarrow> loop_shard \<Rightarrow> string list \<Rightarrow> commit_shard_result call"
  ga_createConvergencePr :: "loop_issue \<Rightarrow> loop_shard list \<Rightarrow> loop_annotation list
    \<Rightarrow> commit_shard_result list \<Rightarrow> loop_evidence_artifact list \<Rightarrow> loop_convergence_pr call"

subsection \<open>Recording an implementation\<close>

definition implemented_annotation :: "loop_implementation_record \<Rightarrow> loop_annotation \<Rightarrow> loop_annotation" where
  "implemented_annotation rec a = a\<lparr>an_implStatus := IMPL_DONE, an_verdict := ANN_UNREVIEWED,
     an_coverage := (if ir_changedFiles rec \<noteq> [] then COV_PARTIAL else an_coverage a),
     an_location := js_set (an_location a @ ir_changedFiles rec),
     an_notes := (''Implementation Record '' @ [CHR 0xE5, CHR 0xB7, CHR 0xB2, CHR 0xE7, CHR 0x99, CHR 0xBB, CHR 0xE8, CHR 0xAE, CHR 0xB0, CHR 0xEF, CHR 0xBC, CHR 0x9A]) @ ir_summary rec\<rparr>"

definition persistImplementation ::
    "string \<Rightarrow> string \<Rightarrow> loop_implementation_record \<Rightarrow> (fs, unit) sm" where
  "persistImplementation i k rec = sbind (readDetail i) (\<lambda>d.
     sbind now (\<lambda>t.
     let anns = map_where (\<lambda>a. an_target a = k) (implemented_annotation rec) (d_annotations d);
         shards = set_status k SHARD_IMPLEMENTED (d_shards d) in
     sbind (applyCostGuard ((d_state d)\<lparr>st_phase := PHASE_5_REVIEW, st_shardsInProgress := 0,
         st_updated := t\<rparr>) 1 (case_option 0 id (ir_tokens rec))) (\<lambda>st.
     smod (writeImplementationRecord i k rec anns shards st))))"

subsection \<open>Applying a review\<close>

definition review_status :: "loop_verdict \<Rightarrow> loop_shard_status" where
  "review_status v = (case v of PASS \<Rightarrow> SHARD_DONE | FAIL \<Rightarrow> SHARD_FAILED | NEEDS_WORK \<Rightarrow> SHARD_NEEDS_WORK)"

definition applyShardReviewStatus :: "loop_shard list \<Rightarrow> string \<Rightarrow> loop_verdict \<Rightarrow> loop_shard list" where
  "applyShardReviewStatus shards k v = set_status k (review_status v) shards"

definition reviewed_annotation ::
    "loop_verdict \<Rightarrow> loop_review_record \<Rightarrow> bool \<Rightarrow> loop_annotation \<Rightarrow> loop_annotation" where
  "reviewed_annotation v rec testsPassed a = a\<lparr>
     an_implStatus := (case v of PASS \<Rightarrow> IMPL_DONE | FAIL \<Rightarrow> IMPL_FAILED | NEEDS_WORK \<Rightarrow> an_implStatus a),
     an_testStatus := (if testsPassed then ANN_TEST_PASS else an_testStatus a),
     an_verdict := verdict_annotation v,
     an_coverage := (if v = PASS then COV_FULL else an_coverage a),
     an_notes := (if v = PASS then (''Review Record PASS'' @ [CHR 0xEF, CHR 0xBC, CHR 0x9A]) @ rr_summary rec
       else ''Review Record '' @ verdict_str v @ [CHR 0xEF, CHR 0xBC, CHR 0x9A]
         @ (let fixes = js_join [CHR 0xEF, CHR 0xBC, CHR 0x9B] (rr_fixInstructions rec) in
            if fixes \<noteq> [] then fixes else rr_summary rec))\<rparr>"

definition applyShardReviewAnnotations ::
    "loop_annotation list \<Rightarrow> string \<Rightarrow> loop_verdict \<Rightarrow> loop_review_record \<Rightarrow> bool \<Rightarrow> loop_annotation list" where
  "applyShardReviewAnnotations anns k v rec testsPassed =
     map_where (\<lambda>a. an_target a = k) (reviewed_annotation v rec testsPassed) anns"

definition find_impl :: "loop_detail \<Rightarrow> string \<Rightarrow> loop_implementation_record option" where
  "find_impl d k = List.find (\<lambda>r. ir_shardId r = k \<and> ir_round r = st_round (d_state d))
     (d_implementationRecords d)"

definition find_test :: "loop_detail \<Rightarrow> string \<Rightarrow> loop_test_record option" where
  "find_test d k = List.find (\<lambda>r. tr_shardId r = k \<and> tr_round r = st_round (d_state d))
     (d_testRecords d)"

definition tests_pass :: "loop_detail \<Rightarrow> string \<Rightarrow> bool" where
  "tests_pass d k = (case find_test d k of None \<Rightarrow> False | Some r \<Rightarrow> tr_status r = TEST_PASS)"

definition needs_work_count :: "loop_detail \<Rightarrow> string \<Rightarrow> nat" where
  "needs_work_count d k = count_where (\<lambda>r. rr_shardId r = k \<and> rr_verdict r = NEEDS_WORK) (d_reviewRecords d)"

definition redoLimitExceeded :: "loops_runtime_config \<Rightarrow> loop_detail \<Rightarrow> string \<Rightarrow> loop_verdict \<Rightarrow> bool" where
  "redoLimitExceeded c d k v \<longleftrightarrow> v = NEEDS_WORK \<and> needs_work_count d k \<ge> cf_maxShardRedo c"

definition effectiveVerdict :: "loops_runtime_config \<Rightarrow> loop_detail \<Rightarrow> string \<Rightarrow> loop_verdict \<Rightarrow> loop_verdict" where
  "effectiveVerdict c d k v = (if redoLimitExceeded c d k v then FAIL else v)"

definition writeRedoLimitSideEffects ::
    "string \<Rightarrow> string \<Rightarrow> loop_review_shard_request \<Rightarrow> nat \<Rightarrow> nat \<Rightarrow> fs \<Rightarrow> fs" where
  "writeRedoLimitSideEffects i k req maxRedo count =
     in_order [appendLog [(''type'', JStr ''SHARD_REDO_LIMIT''), (''loop'', JStr i), (''shard'', JStr k),
       (''max_shard_redo'', jnat maxRedo), (''needs_work_count'', jnat (count + 1)),
       (''status'', JStr ''FAILED'')],
     writeNotification i SHARD_REDO_LIMIT (rv_reviewer req) (''Shard redo limit reached: '' @ k)
          (''Shard '' @ k @ '' exceeded max_shard_redo='' @ nat_str maxRedo
           @ '' and was marked FAILED for convergence or re-loop decision.'') (loop_href i)]"

definition review_record ::
    "string \<Rightarrow> loop_detail \<Rightarrow> string \<Rightarrow> loop_review_shard_request \<Rightarrow> loops_runtime_config
     \<Rightarrow> timestamp \<Rightarrow> timestamp \<Rightarrow> loop_review_record" where
  "review_record i d k req c t idTime =
     (let limit = redoLimitExceeded c d k (rv_verdict req); m = nat_str (cf_maxShardRedo c) in
      \<lparr>rr_id = ''review-record-'' @ k @ ''-r'' @ nat_str (st_round (d_state d)) @ ''-'' @ nat_str idTime,
       rr_issueId = i, rr_shardId = k, rr_round = st_round (d_state d), rr_reviewer = rv_reviewer req,
       rr_verdict = effectiveVerdict c d k (rv_verdict req), rr_issues = rv_issues req,
       rr_fixInstructions = (if limit
         then rv_fixInstructions req @ [''Shard exceeded max_shard_redo='' @ m
           @ ''; escalate to FAILED and require convergence/reloop decision.'']
         else rv_fixInstructions req),
       rr_summary = (if limit
         then rv_summary req @ '' Shard exceeded max_shard_redo='' @ m @ ''; escalated to FAILED.''
         else rv_summary req),
       rr_created = t\<rparr>)"

definition reviewed_state :: "loop_state_item \<Rightarrow> loop_shard list \<Rightarrow> timestamp \<Rightarrow> loop_state_item" where
  "reviewed_state st shards t =
     (let shardsDone = count_where (\<lambda>s. sh_status s = SHARD_DONE) shards in
      st\<lparr>st_phase := (if shardsDone = length shards then PHASE_6_CONVERGE else PHASE_4_IMPLEMENT),
         st_shardsDone := shardsDone, st_shardsInProgress := 0, st_updated := t\<rparr>)"

definition commit_shard ::
    "loops_git_adapter \<Rightarrow> string \<Rightarrow> loop_issue \<Rightarrow> loop_shard \<Rightarrow> string list \<Rightarrow> (fs, unit) sm" where
  "commit_shard git i issue shard files =
     sbind (call (ga_commitShard git issue shard files)) (\<lambda>c.
       smod (appendLog ([(''type'', JStr ''SHARD_COMMIT''), (''loop'', JStr i),
         (''shard'', JStr (sh_id shard)), (''committed'', JBool (co_committed c)),
         (''message'', JStr (co_message c))] @ opt_str ''branch'' (co_branch c))))"

definition applyReview ::
    "loops_git_adapter \<Rightarrow> string \<Rightarrow> string \<Rightarrow> loop_review_shard_request \<Rightarrow> (fs, loop_review_record) sm" where
  "applyReview git i k req = sbind (readDetail i) (\<lambda>d. sbind sget (\<lambda>f.
     case List.find (\<lambda>s. sh_id s = k) (d_shards d) of
       None \<Rightarrow> sthrow (NotFound (''Shard '' @ k @ '' not found''))
     | Some shard \<Rightarrow> (case find_impl d k of
         None \<Rightarrow> sthrow (BadRequest ''Implementation Record is required before shard review'')
       | Some impl \<Rightarrow>
           if rv_verdict req = PASS \<and> \<not> tests_pass d k
           then sthrow (BadRequest ''Shard cannot be DONE until latest round tests pass'')
           else sbind now (\<lambda>t. sbind now (\<lambda>idTime.
             let c = fs_cfg f; v = effectiveVerdict c d k (rv_verdict req);
                 rec = review_record i d k req c t idTime;
                 shards = applyShardReviewStatus (d_shards d) k v;
                 anns = applyShardReviewAnnotations (d_annotations d) k v rec (tests_pass d k) in
             sbind (applyCostGuard (reviewed_state (d_state d) shards t) 1 0) (\<lambda>st.
             sthen (smod (writeReviewRecord i k rec anns shards st))
            (sthen (if redoLimitExceeded c d k (rv_verdict req)
                    then smod (writeRedoLimitSideEffects i k req (cf_maxShardRedo c) (needs_work_count d k))
                    else sret ())
            (sthen (if v = PASS then commit_shard git i (d_issue d) shard (ir_changedFiles impl)
                    else sret ())
             (sret rec)))))))))"

subsection \<open>Computations that only log\<close>

text \<open>Logging, notifying, asking an agent and reading the clock leave every other file alone.\<close>

definition logs_only :: "fs \<Rightarrow> fs \<Rightarrow> bool" where
  "logs_only f g \<longleftrightarrow> fs_env g = fs_env f \<and> fs_issues g = fs_issues f \<and> fs_intakes g = fs_intakes f
     \<and> fs_states g = fs_states f \<and> legacy_states g = legacy_states f \<and> fs_specs g = fs_specs f
     \<and> fs_shards g = fs_shards f \<and> fs_matrices g = fs_matrices f \<and> fs_annotations g = fs_annotations f
     \<and> fs_testRecords g = fs_testRecords f \<and> fs_implRecords g = fs_implRecords f
     \<and> fs_reviewRecords g = fs_reviewRecords f \<and> fs_reviewHistory g = fs_reviewHistory f
     \<and> fs_globalReviews g = fs_globalReviews f \<and> fs_prs g = fs_prs f
     \<and> fs_governance g = fs_governance f \<and> fs_locks g = fs_locks f"

lemma logs_only_refl [simp]: "logs_only f f"
  by (simp add: logs_only_def)

lemma logs_only_trans: "logs_only f g \<Longrightarrow> logs_only g h \<Longrightarrow> logs_only f h"
  by (simp add: logs_only_def)

lemma logs_only_basic [simp]:
  "logs_only f (tick f)" "logs_only f (appendLog p f)" "logs_only f (writeNotification i k r t b h f)"
  "logs_only f (ensureInitialized f)"
  by (simp_all add: logs_only_def store_simps)

lemma logs_only_iff [simp]:
  "logs_only f (tick g) = logs_only f g" "logs_only f (appendLog p g) = logs_only f g"
  "logs_only f (writeNotification i k r t b h g) = logs_only f g"
  "logs_only f (ensureInitialized g) = logs_only f g"
  by (simp_all add: logs_only_def store_simps)

lemma logs_only_sm [simp]:
  "logs_only f (snd (call a f))" "logs_only f (snd (now f))"
  by (simp_all add: call_def now_def)

lemma logs_only_sbind:
  assumes "\<And>f. logs_only f (snd (m f))" and "\<And>x f. logs_only f (snd (k x f))"
  shows "logs_only f (snd (sbind m k f))"
  using assms(1) [of f] assms(2) by (auto simp: sbind_app split: prod.splits sum.splits
      intro: logs_only_trans)

lemma logs_only_cost: "logs_only f (snd (enforceCostGuard st f))"
  by (simp add: logs_only_def)

lemma logs_only_applyCostGuard: "logs_only f (snd (applyCostGuard st c n f))"
proof -
  have eq: "snd (applyCostGuard st c n f) = snd (enforceCostGuard
      (st\<lparr>st_costCalls := st_costCalls st + c, st_costTokens := st_costTokens st + n,
         st_updated := clock f\<rparr>) (tick f))"
    by (simp add: applyCostGuard_def split: prod.splits)
  show ?thesis unfolding eq by (rule logs_only_trans [OF logs_only_basic(1) logs_only_cost])
qed

lemma stateOf_logs_only: "logs_only f g \<Longrightarrow> stateOf i g = stateOf i f"
proof -
  assume "logs_only f g"
  then have "fs_states g = fs_states f" "legacy_states g = legacy_states f"
    by (simp_all add: logs_only_def)
  moreover have leg: "(case fs_legacyState h of None \<Rightarrow> [] | Some l \<Rightarrow> l) = legacy_states h" for h
    by (simp split: option.splits)
  ultimately show ?thesis unfolding stateOf_def readState_def leg by simp
qed

lemma states_wf_logs_only: "logs_only f g \<Longrightarrow> states_wf g = states_wf f"
  by (simp add: logs_only_def states_wf_def)

lemma current_shards_logs_only: "logs_only f g \<Longrightarrow> current_shards i g = current_shards i f"
proof -
  assume a: "logs_only f g"
  then have shards: "fs_shards g = fs_shards f" by (simp add: logs_only_def)
  show ?thesis unfolding current_shards_def stateOf_logs_only [OF a] shards ..
qed

lemma in_sync_logs_only: "logs_only f g \<Longrightarrow> in_sync i d g = in_sync i d f"
  using stateOf_logs_only [of f g i] states_wf_logs_only [of f g] current_shards_logs_only [of f g i]
  by (simp add: in_sync_def)

text \<open>What the cost guard does to a state: it adds the cost and perhaps pauses the loop.\<close>

definition charged :: "loop_state_item \<Rightarrow> nat \<Rightarrow> nat \<Rightarrow> fs \<Rightarrow> loop_state_item" where
  "charged st calls tokens f = fst (enforceCostGuard
     (st\<lparr>st_costCalls := st_costCalls st + calls, st_costTokens := st_costTokens st + tokens,
         st_updated := clock f\<rparr>) (tick f))"

lemma applyCostGuard_eq:
  "applyCostGuard st c n f = (Inr (charged st c n f), snd (applyCostGuard st c n f))"
  by (simp add: applyCostGuard_def charged_def split: prod.splits)

lemma sbind_cost [sm_simps]:
  "sbind (applyCostGuard st c n) k f = k (charged st c n f) (snd (applyCostGuard st c n f))"
  by (subst sbind_app, subst applyCostGuard_eq) simp

lemma sbind_now [sm_simps]: "sbind now k f = k (clock f) (tick f)"
  by (simp add: sbind_app now_def)

lemma sbind_sget [sm_simps]: "sbind sget k f = k f f"
  by (simp add: sbind_app)

lemma sthen_smod [sm_simps]: "sthen (smod h) k f = k (h f)"
  by (simp add: sthen_app)

lemma sthen_sret [sm_simps]: "sthen (sret x) k f = k f"
  by (simp add: sthen_app)

lemma sbind_ok: "m f = (Inr x, g) \<Longrightarrow> sbind m k f = k x g"
  by (simp add: sbind_app)

lemma charged_fields [simp]:
  "st_issueId (charged st c n f) = st_issueId st"
  "st_round (charged st c n f) = st_round st"
  "st_specVersion (charged st c n f) = st_specVersion st"
  "st_shardsTotal (charged st c n f) = st_shardsTotal st"
  "st_shardsDone (charged st c n f) = st_shardsDone st"
  "st_shardsInProgress (charged st c n f) = st_shardsInProgress st"
  "st_reloopCount (charged st c n f) = st_reloopCount st"
  "st_globalVerdict (charged st c n f) = st_globalVerdict st"
  "st_finalized (charged st c n f) = st_finalized st"
  "st_costCalls (charged st c n f) = st_costCalls st + c"
  "st_costTokens (charged st c n f) = st_costTokens st + n"
  by (simp_all add: charged_def enforceCostGuard_def Let_def)

lemma charged_phase:
  "st_phase (charged st c n f) = (if cost_tripped (cf_cost (fs_cfg f))
      (st\<lparr>st_costCalls := st_costCalls st + c, st_costTokens := st_costTokens st + n\<rparr>)
    then PHASE_PAUSED else st_phase st)"
  "st_paused (charged st c n f) = (cost_tripped (cf_cost (fs_cfg f))
      (st\<lparr>st_costCalls := st_costCalls st + c, st_costTokens := st_costTokens st + n\<rparr>)
    \<or> st_paused st)"
  by (simp_all add: charged_def enforceCostGuard_def Let_def cost_tripped_def)

subsection \<open>What a review leaves behind\<close>

lemma writeReviewRecord_reads:
  assumes "states_wf f" and "i \<noteq> []" and "st_issueId st = i"
  shows "stateOf i (writeReviewRecord i k rec anns shards st f) = Some st
    \<and> map_of (fs_shards (writeReviewRecord i k rec anns shards st f)) i = Some shards
    \<and> map_of (fs_reviewRecords (writeReviewRecord i k rec anns shards st f)) (i, k, rr_round rec) = Some rec
    \<and> states_wf (writeReviewRecord i k rec anns shards st f)"
proof -
  let ?h = "write_shards_json i shards (write_annotations_json i anns
      (put_text (round_dir i k (rr_round rec) @ ''/reviews/'' @ rr_id rec @ ''.md'') (ReviewMd rec)
      ((\<lambda>f. f\<lparr>fs_reviewHistory := AList.update ((i, k, rr_round rec), rr_id rec) rec (fs_reviewHistory f)\<rparr>)
      (put_text (round_dir i k (rr_round rec) @ ''/review.md'') (ReviewMd rec)
      (f\<lparr>fs_reviewRecords := AList.update (i, k, rr_round rec) rec (fs_reviewRecords f)\<rparr>)))))"
  let ?g = "writeReviewRecord i k rec anns shards st f"
  have wf: "states_wf ?h" using assms(1) by (simp add: states_wf_def)
  have "logs_only (upsertState st ?h) ?g"
    by (simp add: writeReviewRecord_def Let_def)
  then have "stateOf i ?g = stateOf i (upsertState st ?h)" "states_wf ?g = states_wf (upsertState st ?h)"
    "fs_shards ?g = fs_shards (upsertState st ?h)"
    "fs_reviewRecords ?g = fs_reviewRecords (upsertState st ?h)"
    by (simp_all add: stateOf_logs_only states_wf_logs_only logs_only_def)
  then show ?thesis
    using assms stateOf_upsertState [OF wf assms(2), of st] states_wf_upsertState [OF wf, of st]
    by (simp add: store_simps)
qed

lemma commit_shard_logs: "logs_only f (snd (commit_shard git i issue shard files f))"
  unfolding commit_shard_def by (rule logs_only_sbind) simp_all

definition review_allowed :: "loop_detail \<Rightarrow> string \<Rightarrow> loop_verdict \<Rightarrow> bool" where
  "review_allowed d k v \<longleftrightarrow> k \<in> sh_id ` set (d_shards d) \<and> find_impl d k \<noteq> None
     \<and> (v = PASS \<longrightarrow> tests_pass d k)"

lemma readDetail_eq: "readDetail i f = (detail_of i (ensureInitialized f), ensureInitialized f)"
  by (simp add: readDetail_def Let_def)

lemma find_shard: "k \<in> sh_id ` set shards \<Longrightarrow> \<exists>s. List.find (\<lambda>s. sh_id s = k) shards = Some s"
  by (cases "List.find (\<lambda>s. sh_id s = k) shards") (auto simp: find_None_iff)

lemma find_shard_mem: "List.find (\<lambda>s. sh_id s = k) shards = Some s \<Longrightarrow> k \<in> sh_id ` set shards"
  using find_SomeD by fastforce

lemma applyReview_rejects:
  assumes "readDetail i f = (Inr d, g)" and "\<not> review_allowed d k (rv_verdict req)"
  shows "\<exists>e. applyReview git i k req f = (Inl e, g)"
  using assms find_shard_mem [of k "d_shards d"]
  by (auto simp: applyReview_def sbind_app review_allowed_def split: option.splits)

lemma applyReview_post:
  assumes wf: "states_wf f" and i: "i \<noteq> []"
    and read: "readDetail i f = (Inr d, g)" and ok: "review_allowed d k (rv_verdict req)"
  defines "v \<equiv> effectiveVerdict (fs_cfg f) d k (rv_verdict req)"
  defines "shards \<equiv> applyShardReviewStatus (d_shards d) k v"
  shows "\<exists>rec st h. (fst (applyReview git i k req f) = Inr rec \<or> v = PASS)
    \<and> h = snd (applyReview git i k req f) \<and> states_wf h
    \<and> rr_verdict rec = v \<and> rr_round rec = st_round (d_state d) \<and> rr_shardId rec = k
    \<and> stateOf i h = Some st \<and> map_of (fs_shards h) i = Some shards
    \<and> map_of (fs_reviewRecords h) (i, k, st_round (d_state d)) = Some rec
    \<and> (\<exists>t u. st = charged (reviewed_state (d_state d) shards t) 1 0 u \<and> fs_env u = fs_env f)"
proof -
  have sync: "in_sync i d g" and g: "g = ensureInitialized f"
    using readDetail_in_sync [OF wf read] by auto
  then have g_env: "fs_env g = fs_env f" by simp
  from ok obtain shard impl where shard: "List.find (\<lambda>s. sh_id s = k) (d_shards d) = Some shard"
      and impl: "find_impl d k = Some impl" and tests: "(rv_verdict req = PASS \<and> \<not> tests_pass d k) = False"
    using find_shard unfolding review_allowed_def by blast
  let ?u = "tick (tick g)"
  let ?t = "clock g" and ?idt = "clock (tick g)"
  let ?base = "reviewed_state (d_state d) shards ?t"
  let ?st = "charged ?base 1 0 ?u"
  let ?w = "snd (applyCostGuard ?base 1 0 ?u)"
  let ?rec = "review_record i d k req (fs_cfg f) ?t ?idt"
  let ?anns = "applyShardReviewAnnotations (d_annotations d) k v ?rec (tests_pass d k)"
  let ?x = "writeReviewRecord i k ?rec ?anns shards ?st ?w"
  let ?y = "if redoLimitExceeded (fs_cfg f) d k (rv_verdict req)
    then writeRedoLimitSideEffects i k req (cf_maxShardRedo (fs_cfg f)) (needs_work_count d k) ?x else ?x"
  let ?z = "if v = PASS then commit_shard git i (d_issue d) shard (ir_changedFiles impl) ?y else (Inr (), ?y)"
  have run: "applyReview git i k req f = (case ?z of (Inl e, h) \<Rightarrow> (Inl e, h) | (Inr _, h) \<Rightarrow> (Inr ?rec, h))"
    unfolding applyReview_def sbind_ok [where m = "readDetail i", OF read] sbind_sget shard option.case impl tests if_False
      sbind_now Let_def sbind_cost sthen_smod g_env v_def [symmetric] shards_def [symmetric]
    by (simp add: sthen_app split: sum.splits prod.splits)
  have wf_g: "states_wf ?u" using sync by (simp add: in_sync_def)
  then have wf_w: "states_wf ?w"
    using states_wf_logs_only [OF logs_only_applyCostGuard] by blast
  have "st_issueId ?st = i"
    using in_sync_issueId [OF sync] by (simp add: reviewed_state_def Let_def)
  note x = writeReviewRecord_reads [OF wf_w i this, of k ?rec ?anns shards]
  have y: "logs_only ?x ?y"
    by (simp add: writeRedoLimitSideEffects_def)
  have "logs_only ?y (snd ?z)" using commit_shard_logs by simp
  then have xz: "logs_only ?x (snd (applyReview git i k req f))"
    unfolding run using logs_only_trans [OF y] by (cases ?z; cases "fst ?z") auto
  have rec: "rr_verdict ?rec = v" "rr_round ?rec = st_round (d_state d)" "rr_shardId ?rec = k"
    by (simp_all add: review_record_def Let_def v_def)
  have res: "fst (applyReview git i k req f) = Inr ?rec \<or> v = PASS"
    unfolding run by (cases "v = PASS") simp_all
  let ?h = "snd (applyReview git i k req f)"
  have h: "stateOf i ?h = Some ?st" "states_wf ?h" "map_of (fs_shards ?h) i = Some shards"
    "map_of (fs_reviewRecords ?h) (i, k, st_round (d_state d)) = Some ?rec"
    using x rec(2) stateOf_logs_only [OF xz] states_wf_logs_only [OF xz] xz by (simp_all add: logs_only_def)
  have env: "fs_env ?u = fs_env f" using g_env by simp
  show ?thesis
    by (intro exI conjI, rule res, rule refl, rule h(2), rule rec(1), rule rec(2), rule rec(3),
        rule h(1), rule h(3), rule h(4), rule refl, rule env)
qed

lemma review_verdict:
  assumes "readDetail i f = (Inr d, g')" and "applyReview git i k req f = (Inr rec, g)"
  shows "rr_verdict rec = effectiveVerdict (fs_cfg f) d k (rv_verdict req)"
proof -
  have "ensureInitialized f = g'" using assms(1) by (simp add: readDetail_eq)
  then have "fs_cfg g' = fs_cfg f" by auto
  then show ?thesis
    using assms
    by (auto simp: applyReview_def sbind_app sthen_app Let_def review_record_def now_def smod_app
        split: option.splits if_splits sum.splits prod.splits)
qed

lemma detail_of_ensureInitialized:
  "states_wf f \<Longrightarrow> i \<noteq> [] \<Longrightarrow> detail_of i (ensureInitialized f) = detail_of i f"
  by (rule issue_op.detail_frame [OF issue_op_ensureInitialized, where T = "{}"]) auto

lemma readDetail_Inr:
  "states_wf f \<Longrightarrow> i \<noteq> [] \<Longrightarrow> readDetail i f = (Inr d, g) \<longleftrightarrow> detail_of i f = Inr d \<and> g = ensureInitialized f"
  using detail_of_ensureInitialized [of f i] by (auto simp: readDetail_eq)

lemma applyReview_Inr:
  assumes "states_wf f" and "i \<noteq> []" and "applyReview git i k req f = (Inr rec, g)"
  obtains d where "readDetail i f = (Inr d, ensureInitialized f)" "detail_of i f = Inr d"
    "review_allowed d k (rv_verdict req)"
proof (cases "detail_of i f")
  case (Inl e)
  then have "readDetail i f = (Inl e, ensureInitialized f)"
    using detail_of_ensureInitialized [OF assms(1,2)] by (simp add: readDetail_eq)
  with assms(3) show thesis by (simp add: applyReview_def sbind_app)
next
  case (Inr d)
  then have read: "readDetail i f = (Inr d, ensureInitialized f)"
    using readDetail_Inr [OF assms(1,2)] by blast
  moreover have "review_allowed d k (rv_verdict req)"
    using applyReview_rejects [OF read, where k = k and req = req and git = git] assms(3) by fastforce
  ultimately show thesis using that Inr by blast
qed

lemma effective_PASS: "effectiveVerdict c d k v = PASS \<longleftrightarrow> v = PASS"
  by (auto simp: effectiveVerdict_def redoLimitExceeded_def)

lemma status_after_review:
  "s \<in> set (applyShardReviewStatus shards k v) \<Longrightarrow> sh_id s = k \<Longrightarrow> sh_status s = review_status v"
  unfolding applyShardReviewStatus_def set_status_def set_map_where
  by (erule disjE, blast, erule bexE, erule conjE, erule ssubst) simp

lemma shards_after_review:
  assumes "s \<in> set (applyShardReviewStatus shards k v)"
  shows "if sh_id s = k then sh_status s = review_status v else s \<in> set shards"
  using assms status_after_review [OF assms]
  by (auto simp: applyShardReviewStatus_def set_status_def set_map_where)

lemma review_keeps_ids: "map sh_id (applyShardReviewStatus shards k v) = map sh_id shards"
  unfolding applyShardReviewStatus_def set_status_def by (rule map_map_where) simp

lemma review_status_DONE: "review_status v = SHARD_DONE \<longleftrightarrow> v = PASS"
  by (simp add: review_status_def split: loop_verdict.splits)

lemma review_in_progress:
  "count_where (\<lambda>s. sh_status s = SHARD_IN_PROGRESS) (applyShardReviewStatus shards k v) = 0
    \<longleftrightarrow> (\<forall>s \<in> set shards. sh_id s \<noteq> k \<longrightarrow> sh_status s \<noteq> SHARD_IN_PROGRESS)"
  by (auto simp: count_where_def filter_empty_conv applyShardReviewStatus_def set_status_def set_map_where
      review_status_def split: loop_verdict.splits)

text \<open>
  C1. A review makes a shard DONE on evidence and in no other way: after any review that
  succeeds, whatever its verdict, a shard of the plan on disk that is DONE either is another
  shard, unchanged from before, or is the reviewed shard and the recorded verdict is PASS; the
  reviewed shard is DONE exactly when the recorded verdict is PASS, which is so exactly when the
  reviewer asked for PASS. The reviewed shard is part of the plan, which keeps its shards and
  their order, and an implementation record of the current round exists for it; a recorded PASS
  means moreover that the first test record of the round for it is a TEST-PASS.
\<close>

theorem shard_done_needs_evidence:
  assumes "states_wf f" and "i \<noteq> []"
    and "applyReview git i k req f = (Inr rec, g)"
  shows "\<exists>d shards. detail_of i f = Inr d \<and> map_of (fs_shards g) i = Some shards
    \<and> (rr_verdict rec = PASS \<longleftrightarrow> rv_verdict req = PASS)
    \<and> (\<forall>s \<in> set shards. sh_status s = SHARD_DONE \<longrightarrow>
         s \<in> set (d_shards d) \<and> sh_id s \<noteq> k \<or> sh_id s = k \<and> rr_verdict rec = PASS)
    \<and> (\<forall>s \<in> set shards. sh_id s = k \<longrightarrow> (sh_status s = SHARD_DONE \<longleftrightarrow> rr_verdict rec = PASS))
    \<and> map sh_id shards = map sh_id (d_shards d) \<and> k \<in> sh_id ` set (d_shards d)
    \<and> (\<exists>impl \<in> set (d_implementationRecords d). ir_shardId impl = k
         \<and> ir_round impl = st_round (d_state d))
    \<and> (rr_verdict rec = PASS \<longrightarrow> (\<exists>test. find_test d k = Some test \<and> tr_status test = TEST_PASS))"
proof -
  obtain d where read: "readDetail i f = (Inr d, ensureInitialized f)" and d: "detail_of i f = Inr d"
      and ok: "review_allowed d k (rv_verdict req)"
    by (rule applyReview_Inr [OF assms(1-3)])
  let ?v = "effectiveVerdict (fs_cfg f) d k (rv_verdict req)"
  let ?shards = "applyShardReviewStatus (d_shards d) k ?v"
  have shards: "map_of (fs_shards g) i = Some ?shards" and rec: "rr_verdict rec = ?v"
    using applyReview_post [OF assms(1,2) read ok, of git] review_verdict [OF read assms(3)]
    unfolding assms(3) snd_conv by blast+
  have ids: "map sh_id ?shards = map sh_id (d_shards d)"
    by (rule review_keeps_ids)
  have evidence: "k \<in> sh_id ` set (d_shards d)"
      "\<exists>impl \<in> set (d_implementationRecords d). ir_shardId impl = k \<and> ir_round impl = st_round (d_state d)"
    using ok find_SomeD [of _ "d_implementationRecords d"]
    by (fastforce simp: review_allowed_def find_impl_def)+
  have test: "\<exists>test. find_test d k = Some test \<and> tr_status test = TEST_PASS" if "?v = PASS"
    using ok that by (auto simp: review_allowed_def effective_PASS tests_pass_def split: option.splits)
  have status: "(sh_status s = SHARD_DONE \<longrightarrow> s \<in> set (d_shards d) \<and> sh_id s \<noteq> k \<or> sh_id s = k \<and> ?v = PASS)
      \<and> (sh_id s = k \<longrightarrow> (sh_status s = SHARD_DONE \<longleftrightarrow> ?v = PASS))" if "s \<in> set ?shards" for s
    using shards_after_review [OF that] by (auto simp: review_status_DONE split: if_splits)
  show ?thesis
    unfolding rec using d shards status ids evidence test effective_PASS
    by (intro exI [of _ d] exI [of _ ?shards]) blast
qed

text \<open>
  C6. What a review does to the counters of the loop, exactly. Afterwards the state counts the
  DONE shards on disk and one more call. When the charged state reaches a cap of the cost guard
  the loop is paused in phase PAUSED; otherwise its pause flag is unchanged and the phase is
  PHASE-6 when all shards are DONE and PHASE-4 when they are not. The counter of the shards in
  progress is set to 0, whatever is on disk: so the doctor finds no mismatch exactly when the
  plan has the length the state counts and no other shard of it is in progress.
\<close>

theorem review_keeps_counters:
  assumes "states_wf f" and "i \<noteq> []" and "applyReview git i k req f = (Inr rec, g)"
    and "detail_of i f = Inr d"
  shows "\<exists>st shards. stateOf i g = Some st \<and> map_of (fs_shards g) i = Some shards
    \<and> map sh_id shards = map sh_id (d_shards d)
    \<and> st_shardsDone st = count_where (\<lambda>s. sh_status s = SHARD_DONE) shards
    \<and> st_shardsInProgress st = 0
    \<and> st_costCalls st = st_costCalls (d_state d) + 1
    \<and> (if cost_tripped (cf_cost (fs_cfg f)) st then st_phase st = PHASE_PAUSED \<and> st_paused st
       else st_paused st = st_paused (d_state d)
         \<and> st_phase st = (if \<forall>s \<in> set shards. sh_status s = SHARD_DONE then PHASE_6_CONVERGE
                            else PHASE_4_IMPLEMENT))
    \<and> (inspectShardState st shards = [] \<longleftrightarrow>
         length (d_shards d) = st_shardsTotal (d_state d)
         \<and> (\<forall>s \<in> set (d_shards d). sh_id s \<noteq> k \<longrightarrow> sh_status s \<noteq> SHARD_IN_PROGRESS))"
proof -
  let ?v = "effectiveVerdict (fs_cfg f) d k (rv_verdict req)"
  let ?shards = "applyShardReviewStatus (d_shards d) k ?v"
  have read: "readDetail i f = (Inr d, ensureInitialized f)" and ok: "review_allowed d k (rv_verdict req)"
    using applyReview_Inr [OF assms(1-3)] assms(4) by (metis sum.inject(2))+
  obtain st t u where st: "stateOf i g = Some st" "map_of (fs_shards g) i = Some ?shards"
      "st = charged (reviewed_state (d_state d) ?shards t) 1 0 u" "fs_env u = fs_env f"
    using applyReview_post [OF assms(1,2) read ok, of git] assms(3) by auto
  have ids: "map sh_id ?shards = map sh_id (d_shards d)"
    by (rule review_keeps_ids)
  have phase: "if cost_tripped (cf_cost (fs_cfg f)) st then st_phase st = PHASE_PAUSED \<and> st_paused st
      else st_paused st = st_paused (d_state d)
        \<and> st_phase st = (if \<forall>s \<in> set ?shards. sh_status s = SHARD_DONE then PHASE_6_CONVERGE
                           else PHASE_4_IMPLEMENT)"
    using st(3,4) count_where_all [of "\<lambda>s. sh_status s = SHARD_DONE" ?shards]
    by (simp add: charged_phase reviewed_state_def Let_def cost_tripped_def)
  have "length ?shards = length (d_shards d)"
    by (simp add: applyShardReviewStatus_def)
  then have inspect: "inspectShardState st ?shards = [] \<longleftrightarrow> length (d_shards d) = st_shardsTotal (d_state d)
      \<and> (\<forall>s \<in> set (d_shards d). sh_id s \<noteq> k \<longrightarrow> sh_status s \<noteq> SHARD_IN_PROGRESS)"
    unfolding review_in_progress [of "d_shards d" k ?v, symmetric] using st(3)
    by (auto simp: inspectShardState_def Let_def reviewed_state_def)
  have "st_shardsDone st = count_where (\<lambda>s. sh_status s = SHARD_DONE) ?shards" "st_shardsInProgress st = 0"
      "st_costCalls st = st_costCalls (d_state d) + 1"
    using st(3) by (simp_all add: reviewed_state_def Let_def)
  then show ?thesis
    using st(1,2) phase ids inspect by blast
qed

text \<open>
  The redo limit: a NEEDS-WORK verdict sends a shard back until it has had
  \<open>max_shard_redo\<close> NEEDS-WORK reviews in the round; the next one is recorded as FAIL and fails
  the shard.
\<close>

theorem redo_limit_fails_shard:
  assumes "states_wf f" and "i \<noteq> []" and "applyReview git i k req f = (Inr rec, g)"
    and "detail_of i f = Inr d" and "rv_verdict req = NEEDS_WORK"
  shows "\<exists>shards. map_of (fs_shards g) i = Some shards
    \<and> (\<forall>s \<in> set shards. sh_id s = k \<longrightarrow> sh_status s =
        (if needs_work_count d k < cf_maxShardRedo (fs_cfg f) then SHARD_NEEDS_WORK else SHARD_FAILED))
    \<and> rr_verdict rec = (if needs_work_count d k < cf_maxShardRedo (fs_cfg f) then NEEDS_WORK else FAIL)"
proof -
  have read: "readDetail i f = (Inr d, ensureInitialized f)" and ok: "review_allowed d k (rv_verdict req)"
    using applyReview_Inr [OF assms(1-3)] assms(4) by (metis sum.inject(2))+
  let ?v = "effectiveVerdict (fs_cfg f) d k (rv_verdict req)"
  have v: "?v = (if needs_work_count d k < cf_maxShardRedo (fs_cfg f) then NEEDS_WORK else FAIL)"
    using assms(5) by (simp add: effectiveVerdict_def redoLimitExceeded_def)
  then have "?v \<noteq> PASS" by simp
  then have "map_of (fs_shards g) i = Some (applyShardReviewStatus (d_shards d) k ?v) \<and> rr_verdict rec = ?v"
    using applyReview_post [OF assms(1,2) read ok, of git] assms(3) by auto
  with v show ?thesis
    using status_after_review [of _ "d_shards d" k ?v] by (auto simp: review_status_def)
qed

subsection \<open>The cost guard\<close>

text \<open>
  The cost guard: every guarded transition adds its calls and tokens to the state, and the
  resulting state is paused, in phase PAUSED, as soon as one cap of the configuration is
  reached; below both caps nothing else changes and nothing is logged.
\<close>

theorem cost_guard_pauses:
  assumes "applyCostGuard st calls tokens f = (Inr st', g)"
  shows "st_costCalls st' = st_costCalls st + calls \<and> st_costTokens st' = st_costTokens st + tokens
    \<and> (if of_nat (st_costTokens st + tokens) \<ge> cc_tokenCapPerLoop (cf_cost (fs_cfg f))
          \<or> of_nat (st_costCalls st + calls) \<ge> cc_callCapPerLoop (cf_cost (fs_cfg f))
       then st_paused st' \<and> st_phase st' = PHASE_PAUSED
       else st_paused st' = st_paused st \<and> st_phase st' = st_phase st \<and> g = tick f)"
proof -
  have "st' = charged st calls tokens f" "g = snd (applyCostGuard st calls tokens f)"
    using assms applyCostGuard_eq [of st calls tokens f] by (metis prod.inject sum.inject(2))+
  moreover have "snd (applyCostGuard st calls tokens f) = tick f"
    if "\<not> cost_tripped (cf_cost (fs_cfg f))
      (st\<lparr>st_costCalls := st_costCalls st + calls, st_costTokens := st_costTokens st + tokens\<rparr>)"
    using that by (simp add: applyCostGuard_def enforceCostGuard_def cost_tripped_def Let_def)
  ultimately show ?thesis by (simp add: charged_phase cost_tripped_def)
qed

text \<open>
  A cost pause does not last: \<open>applyResume\<close>, which \<open>advance\<close> runs on every paused loop before
  anything else, clears the pause while the loop is still over its cap.
\<close>

theorem cost_pause_undone_by_resume:
  assumes "states_wf f" and "i \<noteq> []" and "st_issueId (d_state d) = i"
    and "cost_tripped (cf_cost (fs_cfg f)) (d_state d)"
  shows "\<exists>st. stateOf i (snd (applyResume i d f)) = Some st \<and> \<not> st_paused st
    \<and> st_phase st \<noteq> PHASE_PAUSED \<and> cost_tripped (cf_cost (fs_cfg f)) st"
proof -
  let ?st = "(d_state d)\<lparr>st_paused := False,
    st_phase := (if st_phase (d_state d) = PHASE_PAUSED then PHASE_4_IMPLEMENT else st_phase (d_state d)),
    st_updated := clock f\<rparr>"
  have "logs_only (upsertState ?st (tick f)) (snd (applyResume i d f))"
    unfolding applyResume_def sbind_now Let_def by (simp add: sm_simps)
  then have "stateOf i (snd (applyResume i d f)) = stateOf i (upsertState ?st (tick f))"
    by (rule stateOf_logs_only)
  also have "\<dots> = Some ?st"
    using assms stateOf_upsertState [of "tick f" i ?st] by simp
  finally show ?thesis using assms(4) by (simp add: cost_tripped_def)
qed

subsection \<open>A concrete review\<close>

definition sample_git :: loops_git_adapter where
  "sample_git = \<lparr>ga_commitShard = (\<lambda>issue s files n. Inr \<lparr>co_shardId = sh_id s, co_committed = True,
       co_message = ''ok'', co_branch = None, co_commitSha = None\<rparr>),
     ga_createConvergencePr = (\<lambda>issue shards anns commits arts n. Inr sample_pr)\<rparr>"

definition review_fs :: fs where
  "review_fs = sample_fs\<lparr>fs_states := [(''issue-1'', sample_state\<lparr>st_phase := PHASE_5_REVIEW,
       st_specVersion := ''v1'', st_shardsTotal := 1\<rparr>)],
     fs_specs := [((''issue-1'', ''v1''), sample_spec)],
     fs_shards := [(''issue-1'', [sample_shard ''a'' [] SHARD_IMPLEMENTED])],
     fs_annotations := [(''issue-1'', [sample_annotation ''a''])],
     fs_implRecords := [((''issue-1'', ''a'', 1), sample_impl ''a'')],
     fs_testRecords := [((''issue-1'', ''a''), sample_test ''a'' TEST_PASS)]\<rparr>"

definition sample_request :: "loop_verdict \<Rightarrow> loop_review_shard_request" where
  "sample_request v = \<lparr>rv_reviewer = ''codex'', rv_verdict = v, rv_summary = ''ok'', rv_issues = [],
     rv_fixInstructions = []\<rparr>"

lemma applyReview_runs:
  assumes "states_wf f" and "i \<noteq> []" and "detail_of i f = Inr d" and ok: "review_allowed d k (rv_verdict req)"
    and total: "\<And>issue s files n. \<exists>c. ga_commitShard git issue s files n = Inr c"
  shows "\<exists>rec g. applyReview git i k req f = (Inr rec, g)
    \<and> rr_verdict rec = effectiveVerdict (fs_cfg f) d k (rv_verdict req)"
proof -
  have read: "readDetail i f = (Inr d, ensureInitialized f)"
    using readDetail_Inr [OF assms(1,2)] assms(3) by blast
  obtain shard impl where find: "List.find (\<lambda>s. sh_id s = k) (d_shards d) = Some shard"
      "find_impl d k = Some impl" "(rv_verdict req = PASS \<and> \<not> tests_pass d k) = False"
    using ok find_shard unfolding review_allowed_def by blast
  have commit: "\<exists>g. commit_shard git i (d_issue d) shard files h = (Inr (), g)" for files h
    using total [of "d_issue d" shard files "fs_ticks h"]
    by (auto simp: commit_shard_def call_def sbind_app)
  show ?thesis
    unfolding applyReview_def sbind_ok [where m = "readDetail i", OF read] sbind_sget find
      option.case if_False sbind_now Let_def sbind_cost sthen_smod
    using commit by (auto simp: sthen_app review_record_def Let_def split: prod.splits sum.splits)
       (metis prod.inject sum.distinct(1))+
qed

lemma review_fs_wf: "states_wf review_fs"
  by (simp add: states_wf_def review_fs_def sample_fs_def empty_fs_def sample_issue_def sample_state_def)

lemma review_fs_allowed:
  "case detail_of ''issue-1'' review_fs of Inl e \<Rightarrow> False
   | Inr d \<Rightarrow> review_allowed d ''a'' PASS \<and> needs_work_count d ''a'' = 0"
  by code_simp

lemma review_fs_runs:
  "\<exists>d rec g. detail_of ''issue-1'' review_fs = Inr d \<and> needs_work_count d ''a'' = 0
    \<and> applyReview sample_git ''issue-1'' ''a'' (sample_request v) review_fs = (Inr rec, g)
    \<and> rr_verdict rec = effectiveVerdict (fs_cfg review_fs) d ''a'' v"
proof -
  obtain d where d: "detail_of ''issue-1'' review_fs = Inr d" "review_allowed d ''a'' PASS"
      "needs_work_count d ''a'' = 0"
    using review_fs_allowed by (auto split: sum.splits)
  then have "review_allowed d ''a'' (rv_verdict (sample_request v))"
    by (simp add: review_allowed_def)
  then show ?thesis
    using d applyReview_runs [OF review_fs_wf _ d(1), of "''a''" "sample_request v" sample_git]
    by (fastforce simp: sample_git_def sample_request_def)
qed

theorem shard_done_needs_evidence_witness:
  "\<exists>rec g shards rec' g' shards'.
    applyReview sample_git ''issue-1'' ''a'' (sample_request PASS) review_fs = (Inr rec, g)
    \<and> map_of (fs_shards g) ''issue-1'' = Some shards
    \<and> (\<exists>s \<in> set shards. sh_id s = ''a'' \<and> sh_status s = SHARD_DONE)
    \<and> applyReview sample_git ''issue-1'' ''a'' (sample_request NEEDS_WORK) review_fs = (Inr rec', g')
    \<and> map_of (fs_shards g') ''issue-1'' = Some shards'
    \<and> (\<exists>s \<in> set shards'. sh_id s = ''a'' \<and> sh_status s \<noteq> SHARD_DONE)"
proof -
  obtain rec g rec' g' where
      run: "applyReview sample_git ''issue-1'' ''a'' (sample_request PASS) review_fs = (Inr rec, g)"
        "applyReview sample_git ''issue-1'' ''a'' (sample_request NEEDS_WORK) review_fs = (Inr rec', g')"
    using review_fs_runs by metis
  have simps: "rv_verdict (sample_request v) = v" "''issue-1'' \<noteq> []" "NEEDS_WORK \<noteq> PASS" for v
    by (simp_all add: sample_request_def)
  have mem: "x \<in> sh_id ` set xs" if "map sh_id xs = map sh_id ys" "x \<in> sh_id ` set ys" for x xs ys
    using that by (metis list.set_map)
  obtain shards where 1: "map_of (fs_shards g) ''issue-1'' = Some shards"
      "''a'' \<in> sh_id ` set shards"
      "\<forall>s \<in> set shards. sh_id s = ''a'' \<longrightarrow> sh_status s = SHARD_DONE"
    using shard_done_needs_evidence [OF review_fs_wf simps(2) run(1)] unfolding simps simp_thms
    by (elim exE conjE) (rule that, assumption, rule mem, assumption+, blast)
  obtain shards' where 2: "map_of (fs_shards g') ''issue-1'' = Some shards'"
      "''a'' \<in> sh_id ` set shards'"
      "\<forall>s \<in> set shards'. sh_id s = ''a'' \<longrightarrow> sh_status s \<noteq> SHARD_DONE"
    using shard_done_needs_evidence [OF review_fs_wf simps(2) run(2)] unfolding simps simp_thms
    by (elim exE conjE) (rule that, assumption, rule mem, assumption+, blast)
  have "\<exists>s \<in> set shards. sh_id s = ''a'' \<and> sh_status s = SHARD_DONE"
      "\<exists>s \<in> set shards'. sh_id s = ''a'' \<and> sh_status s \<noteq> SHARD_DONE"
    using 1(2,3) 2(2,3) by force+
  then show ?thesis
    using run 1(1) 2(1) by metis
qed

theorem review_keeps_counters_witness:
  "\<exists>rec g st. applyReview sample_git ''issue-1'' ''a'' (sample_request PASS) review_fs = (Inr rec, g)
    \<and> stateOf ''issue-1'' g = Some st \<and> st_shardsInProgress st = 0"
proof -
  obtain d rec g where run: "detail_of ''issue-1'' review_fs = Inr d"
      "applyReview sample_git ''issue-1'' ''a'' (sample_request PASS) review_fs = (Inr rec, g)"
    using review_fs_runs by metis
  then show ?thesis
    using review_keeps_counters [OF review_fs_wf _ run(2) run(1)] by auto
qed

theorem redo_limit_fails_shard_witness:
  "\<exists>rec g. applyReview sample_git ''issue-1'' ''a'' (sample_request NEEDS_WORK) review_fs = (Inr rec, g)
    \<and> rr_verdict rec = NEEDS_WORK"
proof -
  obtain d rec g where run: "detail_of ''issue-1'' review_fs = Inr d" "needs_work_count d ''a'' = 0"
      "applyReview sample_git ''issue-1'' ''a'' (sample_request NEEDS_WORK) review_fs = (Inr rec, g)"
    using review_fs_runs by metis
  moreover have "cf_maxShardRedo (fs_cfg review_fs) = 3"
    by (simp add: review_fs_def sample_fs_def empty_fs_def sample_env_def DEFAULT_RUNTIME_CONFIG_def)
  ultimately show ?thesis
    using redo_limit_fails_shard [OF review_fs_wf _ run(3) run(1)] by (auto simp: sample_request_def)
qed

theorem cost_guard_pauses_witness:
  "\<exists>st g. applyCostGuard sample_state 9999999 0 sample_fs = (Inr st, g) \<and> st_paused st"
proof -
  obtain st g where run: "applyCostGuard sample_state 9999999 0 sample_fs = (Inr st, g)"
    using applyCostGuard_eq by blast
  then show ?thesis
    using cost_guard_pauses [OF run]
    by (simp add: sample_fs_def empty_fs_def sample_env_def DEFAULT_RUNTIME_CONFIG_def sample_state_def)
qed

text \<open>A loop that the cost guard has paused.\<close>

definition capped_detail :: loop_detail where
  "capped_detail = detail_with ''issue-1'' sample_issue sample_intake
     (sample_state\<lparr>st_paused := True, st_phase := PHASE_PAUSED, st_costCalls := 9999999\<rparr>) sample_fs"

theorem cost_pause_undone_by_resume_witness:
  "\<exists>st. stateOf ''issue-1'' (snd (applyResume ''issue-1'' capped_detail sample_fs)) = Some st
    \<and> \<not> st_paused st"
  using cost_pause_undone_by_resume [of sample_fs "''issue-1''" capped_detail]
  by (auto simp: states_wf_def capped_detail_def detail_with_def cost_tripped_def sample_fs_def empty_fs_def
      sample_env_def DEFAULT_RUNTIME_CONFIG_def sample_state_def sample_issue_def Let_def)

end
