(* ===== verification/Evidence.thy ===== *)
theory Evidence
  imports File_Store Second_Opinion
begin

text \<open>
  \<open>loops-evidence/loops-evidence.service.ts\<close>: what is derived from a loop detail, or from a
  row of the issue list: requirement coverage, evidence artifacts, review gates, the workflow
  recipe, the release gate with its blockers, the second opinion and the rules check. All of it
  is pure. \<open>uni\<close> is the Unicode property \<open>\p{Letter}\<close> or \<open>\p{Number}\<close> of a code point, \<open>sha16\<close>
  the start of a SHA-256; percentages are exact where the source computes in doubles.
\<close>

subsection \<open>Rows of the issue list\<close>

datatype exception_level = EXC_CRITICAL | EXC_WARNING

record runtime_security_exception =
  xe_id :: string
  xe_testRecordId :: string
  xe_shardId :: string
  xe_round :: nat
  xe_level :: exception_level
  xe_reason :: string
  xe_evidence :: string
  xe_command :: "string option"
  xe_created :: timestamp

record loop_list_item =
  li_issue :: loop_issue
  li_state :: "loop_state_item option"
  li_workflowRecipe :: "loop_workflow_recipe option"
  li_reviewGates :: "loop_review_gate list option"
  li_releaseGate :: "loop_release_gate option"
  li_runtimeSecurityExceptions :: "runtime_security_exception list option"
  li_deliveryGovernance :: "loop_delivery_governance option"

text \<open>\<open>DeliveryControlInput\<close>: a detail (it has an intake) or a row of the list.\<close>

datatype delivery_item = Detail_Item loop_detail | List_Item loop_list_item

fun item_issue :: "delivery_item \<Rightarrow> loop_issue" where
  "item_issue (Detail_Item d) = d_issue d"
| "item_issue (List_Item l) = li_issue l"

fun item_state :: "delivery_item \<Rightarrow> loop_state_item option" where
  "item_state (Detail_Item d) = Some (d_state d)"
| "item_state (List_Item l) = li_state l"

fun item_spec :: "delivery_item \<Rightarrow> loop_spec option" where
  "item_spec (Detail_Item d) = d_spec d"
| "item_spec (List_Item l) = None"

fun asDetail :: "delivery_item \<Rightarrow> loop_detail option" where
  "asDetail (Detail_Item d) = Some d"
| "asDetail (List_Item l) = None"

text \<open>\<open>item.state?.phase ?? 'PHASE_0_INTAKE'\<close> and \<open>item.state?.updated ?? item.issue.updated\<close>.\<close>

definition item_phase :: "delivery_item \<Rightarrow> loop_phase" where
  "item_phase item = case_option PHASE_0_INTAKE st_phase (item_state item)"

definition item_updated :: "delivery_item \<Rightarrow> timestamp" where
  "item_updated item = case_option (i_updated (item_issue item)) st_updated (item_state item)"

definition item_verdict :: "delivery_item \<Rightarrow> loop_verdict option" where
  "item_verdict item = Option.bind (item_state item) st_globalVerdict"

definition item_finalized :: "delivery_item \<Rightarrow> bool" where
  "item_finalized item \<longleftrightarrow> Option.bind (item_state item) st_finalized = Some True"

subsection \<open>Labels\<close>

fun issue_status_str :: "loop_issue_status \<Rightarrow> string" where
  "issue_status_str ISSUE_INTAKE = ''INTAKE''"
| "issue_status_str ISSUE_NEEDS_CLARIFICATION = ''NEEDS-CLARIFICATION''"
| "issue_status_str ISSUE_OPEN = ''OPEN''"
| "issue_status_str ISSUE_IN_LOOP = ''IN_LOOP''"
| "issue_status_str ISSUE_CLOSED = ''CLOSED''"
| "issue_status_str ISSUE_ARCHIVED = ''ARCHIVED''"
| "issue_status_str ISSUE_REJECTED = ''REJECTED''"

fun priority_str :: "loop_priority \<Rightarrow> string" where
  "priority_str P0 = ''P0''" | "priority_str P1 = ''P1''"
| "priority_str P2 = ''P2''" | "priority_str P3 = ''P3''"

fun channel_str :: "loop_source_channel \<Rightarrow> string" where
  "channel_str CHANNEL_WEB = ''web''"
| "channel_str CHANNEL_WEBHOOK = ''webhook''"
| "channel_str CHANNEL_SCHEDULE = ''schedule''"

fun source_kind_str :: "loop_source_kind \<Rightarrow> string" where
  "source_kind_str KIND_WEB_FORM = ''web_form''"
| "source_kind_str KIND_GITHUB = ''github''"
| "source_kind_str KIND_LINEAR = ''linear''"
| "source_kind_str KIND_JIRA = ''jira''"
| "source_kind_str KIND_SLACK = ''slack''"
| "source_kind_str KIND_SCHEDULE = ''schedule''"
| "source_kind_str KIND_GENERIC = ''generic''"

fun intake_status_str :: "intake_status \<Rightarrow> string" where
  "intake_status_str INTAKE_RECEIVED = ''RECEIVED''"
| "intake_status_str INTAKE_NEEDS_CLARIFICATION = ''NEEDS-CLARIFICATION''"
| "intake_status_str INTAKE_NORMALIZED = ''NORMALIZED''"
| "intake_status_str INTAKE_REJECTED = ''REJECTED''"

fun loop_kind_str :: "loop_kind \<Rightarrow> string" where
  "loop_kind_str KIND_FEATURE = ''feature''"
| "loop_kind_str KIND_BUGFIX = ''bugfix''"
| "loop_kind_str KIND_REFACTOR = ''refactor''"
| "loop_kind_str KIND_DOCS = ''docs''"
| "loop_kind_str KIND_OPS = ''ops''"

fun requirement_status_str :: "requirement_status \<Rightarrow> string" where
  "requirement_status_str REQ_MISSING = ''missing''"
| "requirement_status_str REQ_PLANNED = ''planned''"
| "requirement_status_str REQ_IMPLEMENTED = ''implemented''"
| "requirement_status_str REQ_TESTED = ''tested''"
| "requirement_status_str REQ_REVIEWED = ''reviewed''"
| "requirement_status_str REQ_ACCEPTED = ''accepted''"

subsection \<open>Predicates on an item\<close>

definition inferWorkflowKind :: "loop_issue \<Rightarrow> loop_kind" where
  "inferWorkflowKind issue =
     (let t = to_lower (i_title issue @ '' '' @ i_body issue @ '' '' @ i_targetRepo issue) in
      if contains ''doc'' t \<or> contains [CHR 0xE6, CHR 0x96, CHR 0x87, CHR 0xE6, CHR 0xA1, CHR 0xA3] t then KIND_DOCS
      else if contains ''fix'' t \<or> contains ''bug'' t \<or> contains [CHR 0xE4, CHR 0xBF, CHR 0xAE, CHR 0xE5, CHR 0xA4, CHR 0x8D] t then KIND_BUGFIX
      else if contains ''refactor'' t \<or> contains [CHR 0xE9, CHR 0x87, CHR 0x8D, CHR 0xE6, CHR 0x9E, CHR 0x84] t then KIND_REFACTOR
      else if rtest (rseqs [RWordB, ralts [''deploy'', ''ops''], RWordB]) t \<or> contains [CHR 0xE8, CHR 0xBF, CHR 0x90, CHR 0xE7, CHR 0xBB, CHR 0xB4] t
      then KIND_OPS
      else KIND_FEATURE)"

definition buildWorkflowBaselineEvidence ::
    "loop_issue \<Rightarrow> workflow_default option \<Rightarrow> baseline_evidence list" where
  "buildWorkflowBaselineEvidence issue workflowDefault =
     (let workflowId = (case workflowDefault of Some w \<Rightarrow> wd_recipeId w
        | None \<Rightarrow> ''default-'' @ loop_kind_str (inferWorkflowKind issue)) in
      [\<lparr>be_id = i_id issue @ ''-baseline-blueprint'', be_label = ''Blueprint version'',
         be_kind = BASE_BLUEPRINT, be_value = workflowId @ ''@v1'',
         be_evidenceRef = Some (i_rawPayloadRef issue)\<rparr>,
       \<lparr>be_id = i_id issue @ ''-baseline-runtime'', be_label = ''Runtime plan'',
         be_kind = BASE_RUNTIME, be_value = ''Codex review/control + Claude Code implementation'',
         be_evidenceRef = None\<rparr>,
       \<lparr>be_id = i_id issue @ ''-baseline-eval'', be_label = ''Eval suite'', be_kind = BASE_EVAL,
         be_value = ''architecture, delivery, runtime, test, cost hard gates'', be_evidenceRef = None\<rparr>,
       \<lparr>be_id = i_id issue @ ''-baseline-gates'', be_label = ''Human and release gates'',
         be_kind = BASE_GATE, be_value = ''spec approval, review gates, release gate'',
         be_evidenceRef = None\<rparr>])"

definition deliveryBlockedReason :: "delivery_item \<Rightarrow> string option" where
  "deliveryBlockedReason item = (case item_state item of None \<Rightarrow> None
     | Some st \<Rightarrow>
         if st_paused st \<or> st_phase st = PHASE_PAUSED then Some ''Loop is paused''
         else case st_globalVerdict st of
           None \<Rightarrow> None
         | Some v \<Rightarrow> if v \<noteq> PASS then Some (''Global review '' @ verdict_str v) else None)"

definition phaseAtLeast :: "delivery_item \<Rightarrow> loop_phase \<Rightarrow> bool" where
  "phaseAtLeast item p \<longleftrightarrow> i_status (item_issue item) = ISSUE_CLOSED \<or> item_finalized item
     \<or> p \<le> item_phase item"

definition isSpecApproved :: "delivery_item \<Rightarrow> bool" where
  "isSpecApproved item \<longleftrightarrow>
     map_option sp_status (item_spec item) = Some SPEC_APPROVED
     \<or> (case item_state item of None \<Rightarrow> False
        | Some st \<Rightarrow> st_specVersion st \<noteq> [] \<and> st_specVersion st \<noteq> ''v0''
            \<and> phaseAtLeast item PHASE_3_DECOMPOSE)"

definition isImplementationDone :: "delivery_item \<Rightarrow> bool" where
  "isImplementationDone item \<longleftrightarrow> (case item_state item of None \<Rightarrow> False
     | Some st \<Rightarrow> st_shardsTotal st > 0 \<and> st_shardsDone st \<ge> st_shardsTotal st)"

definition isReviewPassed :: "delivery_item \<Rightarrow> bool" where
  "isReviewPassed item \<longleftrightarrow> i_status (item_issue item) = ISSUE_CLOSED \<or> item_verdict item = Some PASS"

definition isBrowserQaPassed :: "delivery_item \<Rightarrow> bool" where
  "isBrowserQaPassed item \<longleftrightarrow> (case case_option [] d_browserQaReports (asDetail item) of
     r # _ \<Rightarrow> bq_status r = QA_PASSED
   | [] \<Rightarrow> i_status (item_issue item) = ISSUE_CLOSED
       \<or> item_phase item \<in> {PHASE_7_GLOBAL_REVIEW, PHASE_8_ANNOTATE, PHASE_CLOSED})"

definition isReleaseReady :: "delivery_item \<Rightarrow> bool" where
  "isReleaseReady item \<longleftrightarrow>
     (i_status (item_issue item) = ISSUE_CLOSED \<or> item_finalized item
      \<or> map_option st_phase (item_state item) = Some PHASE_CLOSED)
     \<and> isSpecApproved item \<and> isImplementationDone item \<and> isReviewPassed item"

definition testsPassed :: "delivery_item \<Rightarrow> bool" where
  "testsPassed item \<longleftrightarrow> (case asDetail item of None \<Rightarrow> isReviewPassed item
     | Some d \<Rightarrow> d_testRecords d \<noteq> [] \<and> list_all (\<lambda>r. tr_status r = TEST_PASS) (d_testRecords d))"

definition reviewFindingsCount :: "delivery_item \<Rightarrow> nat" where
  "reviewFindingsCount item = (case asDetail item of
     None \<Rightarrow> (case item_verdict item of None \<Rightarrow> 0 | Some v \<Rightarrow> if v \<noteq> PASS then 1 else 0)
   | Some d \<Rightarrow> sum_list (map (\<lambda>r. length (rr_issues r)) (d_reviewRecords d))
       + case_option 0 (\<lambda>g. length (gr_issues g)) (d_globalReview d))"

subsection \<open>Runtime security exceptions\<close>

definition security_exception ::
    "loop_test_record \<Rightarrow> nat \<Rightarrow> failed_test \<Rightarrow> runtime_security_exception" where
  "security_exception r index ft = \<lparr>
     xe_id = tr_id r @ ''-'' @ ft_name ft @ ''-'' @ nat_str index,
     xe_testRecordId = tr_id r, xe_shardId = tr_shardId r, xe_round = tr_round r,
     xe_level = (if ft_name ft = ''runtime-security:canary'' then EXC_CRITICAL else EXC_WARNING),
     xe_reason = ft_reason ft,
     xe_evidence = ft_name ft @ ('' '' @ [CHR 0xC2, CHR 0xB7] @ '' '') @ test_status_str (tr_status r),
     xe_command = (case List.find (\<lambda>c. contains (cr_command c) (ft_reason ft)) (tr_commands r) of
         Some c \<Rightarrow> Some (cr_command c)
       | None \<Rightarrow> (case tr_runtimeSecurityPolicy r of None \<Rightarrow> None
           | Some p \<Rightarrow> (case rsp_canaryLeakedInCommands p of [] \<Rightarrow> None | c # _ \<Rightarrow> Some c))),
     xe_created = tr_created r\<rparr>"

definition buildRuntimeSecurityExceptions :: "loop_test_record list \<Rightarrow> runtime_security_exception list" where
  "buildRuntimeSecurityExceptions records = concat (map (\<lambda>r.
     let fs = filter (\<lambda>t. starts_with ''runtime-security:'' (ft_name t)) (tr_failedTests r) in
     map (\<lambda>(i, t). security_exception r i t) (zip [0..<length fs] fs)) records)"

subsection \<open>Second opinion\<close>

definition governance_of :: "loop_detail \<Rightarrow> loop_delivery_governance" where
  "governance_of d = case_option no_governance id (d_deliveryGovernance d)"

definition applySecondOpinionPolicy :: "loop_detail \<Rightarrow> loop_second_opinion \<Rightarrow> loop_second_opinion" where
  "applySecondOpinionPolicy d report = (case dg_secondOpinionPolicy (governance_of d) of
     None \<Rightarrow> report
   | Some policy \<Rightarrow> report\<lparr>
       so_status :=
         (if pol_conflictHumanGate policy \<and> sc_conflictCount (so_comparison report) > 0 then SO_CONFLICT
          else if pol_requiredForRelease policy
          then (if sv_status (so_secondary report) = RS_PASSED \<and> sv_status (so_primary report) = RS_PASSED
                then SO_PASSED
                else if so_status report = SO_NEEDS_CHANGES \<or> sv_status (so_primary report) = RS_NEEDS_CHANGES
                then SO_NEEDS_CHANGES else SO_PENDING)
          else so_status report),
       so_requiredForRelease := pol_requiredForRelease policy,
       so_updated := pol_updated policy\<rparr>)"

definition primary_reviewer :: "(string \<Rightarrow> string) \<Rightarrow> loop_detail \<Rightarrow> so_reviewer" where
  "primary_reviewer sha16 d =
     (let evidence = map rr_id (d_reviewRecords d)
            @ (case d_globalReview d of None \<Rightarrow> [] | Some g \<Rightarrow> [gr_id g]);
          findings = buildPrimarySecondOpinionFindings sha16 (d_reviewRecords d) (d_globalReview d);
          passed = (map_option gr_verdict (d_globalReview d) = Some PASS
            \<or> d_reviewRecords d \<noteq> [] \<and> list_all (\<lambda>r. rr_verdict r = PASS) (d_reviewRecords d)) in
      \<lparr>sv_role = ROLE_PRIMARY, sv_reviewer = OWNER_CODEX,
       sv_status = (if evidence = [] then RS_NOT_RUN else if findings \<noteq> [] then RS_NEEDS_CHANGES
         else if passed then RS_PASSED else RS_PENDING),
       sv_findingsCount = length findings, sv_findings = findings, sv_evidenceIds = evidence,
       sv_summary = Some (if evidence \<noteq> []
         then ''Codex primary review has '' @ nat_str (length findings)
           @ '' finding(s) across shard and global review evidence.''
         else ''Codex primary review has not produced evidence yet.'')\<rparr>)"

definition secondary_reviewer :: "loop_detail \<Rightarrow> so_reviewer" where
  "secondary_reviewer d =
     (let status = (if d_globalReview d \<noteq> None then RS_PENDING else RS_NOT_RUN) in
      \<lparr>sv_role = ROLE_SECONDARY, sv_reviewer = OWNER_CLAUDE_CODE, sv_status = status,
       sv_findingsCount = 0, sv_findings = [], sv_evidenceIds = [],
       sv_summary = Some (if status = RS_PENDING
         then ''Claude Code secondary review is not required for release yet; enable the second-opinion worker to compare findings.''
         else ''Claude Code secondary review has not run yet.'')\<rparr>)"

definition buildSecondOpinion :: "(string \<Rightarrow> string) \<Rightarrow> loop_detail \<Rightarrow> loop_second_opinion" where
  "buildSecondOpinion sha16 d = applySecondOpinionPolicy d (case d_secondOpinion d of
     Some report \<Rightarrow> report
   | None \<Rightarrow>
       let primary = primary_reviewer sha16 d; secondary = secondary_reviewer d;
           comparison = compareSecondOpinionFindings (sv_findings primary) [];
           policy = dg_secondOpinionPolicy (governance_of d);
           required = case_option False pol_requiredForRelease policy;
           hasConflict = (sc_conflictCount comparison > 0 \<and> case_option True pol_conflictHumanGate policy) in
       \<lparr>so_id = i_id (d_issue d) @ ''-second-opinion'',
        so_status = (if hasConflict then SO_CONFLICT
          else if required
          then (if sv_status secondary = RS_PASSED \<and> sv_status primary = RS_PASSED then SO_PASSED
                else if sv_status primary = RS_NEEDS_CHANGES then SO_NEEDS_CHANGES else SO_PENDING)
          else SO_NOT_REQUIRED),
        so_primary = primary, so_secondary = secondary, so_comparison = comparison,
        so_requiredForRelease = required, so_updated = st_updated (d_state d)\<rparr>)"

subsection \<open>Rules check\<close>

definition checkRulesCompliance :: "loop_detail \<Rightarrow> string list" where
  "checkRulesCompliance d =
     (let records = d_implementationRecords d;
          changed = concat (map ir_changedFiles records);
          sensitive = filter (\<lambda>f. contains ''.env'' f \<or> contains ''secret'' f
            \<or> contains ''credentials'' f \<or> contains ''private_key'' f) changed;
          src = filter (\<lambda>f. starts_with ''apps/api/src/'' f \<or> starts_with ''apps/web/app/'' f) changed;
          api = filter (starts_with ''apps/api/src/'') changed;
          contracts = filter (starts_with ''packages/contracts/'') changed;
          controllers = filter (contains ''controller'') changed;
          combined = to_lower (js_join '' '' (map (\<lambda>r. case_option [] id (ir_notes r)) records)
            @ '' '' @ js_join '' '' (map ir_summary records));
          unimplemented = filter (\<lambda>s. sh_status s \<noteq> SHARD_TODO
            \<and> sh_id s \<notin> ir_shardId ` set records) (d_shards d) in
      (if sensitive \<noteq> []
       then [''[Architecture] Sensitive files modified: '' @ js_join '', '' sensitive] else [])
      @ (if src \<noteq> [] \<and> \<not> list_ex (\<lambda>r. tr_status r = TEST_PASS) (d_testRecords d)
         then [''[Testing] No passing test records found for source file changes''] else [])
      @ (if api \<noteq> [] \<and> contracts = []
         then [(''[Architecture] API source files changed without contract updates '' @ [CHR 0xE2, CHR 0x80, CHR 0x94] @ '' verify Zod/ts-rest contract'')]
         else [])
      @ (if controllers \<noteq> [] \<and> rtest (ralts [''axios'', ''fetch'', ''http.request'']) combined
         then [(''[Architecture] Controller changes with direct HTTP calls detected '' @ [CHR 0xE2, CHR 0x80, CHR 0x94] @ '' use Client layer'')] else [])
      @ (if unimplemented \<noteq> []
         then [''[Workspace] '' @ nat_str (length unimplemented)
                 @ '' shard(s) in non-TODO status without implementation records''] else []))"

subsection \<open>Release gate blockers\<close>

definition unresolved_conflicts :: "loop_delivery_governance \<Rightarrow> loop_second_opinion \<Rightarrow> nat" where
  "unresolved_conflicts g so =
     (let resolutions = dg_secondOpinionResolutions g;
          conflicts = sc_conflictFingerprints (so_comparison so);
          resolved = filter (\<lambda>k. k \<noteq> []) (List.map_filter res_conflictFingerprint resolutions) in
      if conflicts \<noteq> [] then length (filter (\<lambda>k. k \<notin> set resolved) conflicts)
      else sc_conflictCount (so_comparison so) - length resolutions)"

definition buildReleaseGateBlockers ::
    "loop_detail \<Rightarrow> loop_release_gate \<Rightarrow> loop_second_opinion option \<Rightarrow> string list" where
  "buildReleaseGateBlockers d gate secondOpinion =
     (let ck = rel_checklist gate; rules = checkRulesCompliance d in
      (if \<not> ck_specApproved ck then [''Spec is not approved''] else [])
      @ (if \<not> ck_implementationEvidence ck then [''Implementation evidence is missing''] else [])
      @ (if \<not> ck_testsPassed ck then [''Tests have not all passed''] else [])
      @ (if \<not> ck_requiredReviewsPassed ck
         then [''Required reviews have not all passed or been waived''] else [])
      @ (case secondOpinion of None \<Rightarrow> [] | Some so \<Rightarrow>
           if so_requiredForRelease so \<and> so_status so = SO_CONFLICT
              \<and> unresolved_conflicts (governance_of d) so > 0
           then [''Second opinion has '' @ nat_str (unresolved_conflicts (governance_of d) so)
                   @ '' unresolved conflict(s); resolve or waive before shipping''] else [])
      @ (if \<not> ck_browserQaPassed ck then [''Browser QA has not passed''] else [])
      @ (if \<not> ck_rollbackNote ck
         then [(''Rollback note is missing '' @ [CHR 0xE2, CHR 0x80, CHR 0x94] @ '' required for all releases'')] else [])
      @ (if \<not> ck_canaryPassed ck then [''Release canary has not passed''] else [])
      @ (if rules \<noteq> []
         then [(''Rules Center violations detected:'' @ [CHR 0x0A]) @ js_join [CHR 0x0A] (map (\<lambda>v. ''  - '' @ v) rules)]
         else []))"

end
