(* ===== verification/Coverage.thy ===== *)
theory Coverage
  imports Evidence
begin

text \<open>
  The requirement coverage and the evidence artifacts of a loop
  (\<open>buildRequirementsCoverage\<close>, \<open>summarizeRequirementsCoverage\<close>,
  \<open>aggregateCoverageSummaries\<close>, \<open>buildEvidenceArtifacts\<close> of \<open>loops-evidence.service.ts\<close>), with
  the laws of the summaries: the buckets always add up to the total and the percentage stays
  between 0 and 100.
\<close>

subsection \<open>Matching text\<close>

text \<open>\<open>replace(/^-+\s*/, '')\<close> and \<open>replace(/\[[^\]]+\]/g, '')\<close>.\<close>

definition strip_dashes :: "string \<Rightarrow> string" where
  "strip_dashes s = (if starts_with ''-'' s
     then dropWhile is_space (dropWhile (\<lambda>c. c = CHR ''-'') s) else s)"

function strip_brackets :: "string \<Rightarrow> string" where
  "strip_brackets [] = []"
| "strip_brackets (c # cs) =
     (let inner = takeWhile (\<lambda>x. x \<noteq> CHR '']'') cs; rest = dropWhile (\<lambda>x. x \<noteq> CHR '']'') cs in
      if c = CHR ''['' \<and> inner \<noteq> [] \<and> rest \<noteq> [] then strip_brackets (tl rest)
      else c # strip_brackets cs)"
  by pat_completeness auto
termination
proof (relation "measure length", simp)
  fix c cs and inner rest :: string
  assume "rest = dropWhile (\<lambda>x. x \<noteq> CHR '']'') cs"
  then have "length rest \<le> length cs" by (simp add: length_dropWhile_le)
  then show "(tl rest, c # cs) \<in> measure length" by simp
qed simp

definition normalizeCoverageText :: "(nat \<Rightarrow> bool) \<Rightarrow> string \<Rightarrow> string" where
  "normalizeCoverageText uni s = keep_points uni (strip_brackets (strip_dashes (to_lower s)))"

definition coverageTextMatches :: "(nat \<Rightarrow> bool) \<Rightarrow> string \<Rightarrow> string \<Rightarrow> bool" where
  "coverageTextMatches uni s needle \<longleftrightarrow> (let hay = normalizeCoverageText uni s in
     needle \<noteq> [] \<and> hay \<noteq> [] \<and> (contains needle hay \<or> contains hay needle))"

subsection \<open>Coverage of the requirements\<close>

definition resolveRequirementStatus ::
    "bool \<Rightarrow> string list \<Rightarrow> string list \<Rightarrow> string list \<Rightarrow> string list \<Rightarrow> loop_verdict option
     \<Rightarrow> requirement_status" where
  "resolveRequirementStatus inSpec shardIds testIds implIds reviewIds globalVerdict =
     (if globalVerdict = Some PASS \<and> reviewIds \<noteq> [] then REQ_ACCEPTED
      else if reviewIds \<noteq> [] then REQ_REVIEWED
      else if testIds \<noteq> [] \<and> implIds \<noteq> [] then REQ_TESTED
      else if implIds \<noteq> [] then REQ_IMPLEMENTED
      else if inSpec \<and> shardIds \<noteq> [] \<and> testIds \<noteq> [] then REQ_PLANNED
      else REQ_MISSING)"

definition requirement_item ::
    "(nat \<Rightarrow> bool) \<Rightarrow> loop_detail \<Rightarrow> nat \<Rightarrow> string \<Rightarrow> loop_requirement_coverage_item" where
  "requirement_item uni d index criterion =
     (let n = normalizeCoverageText uni criterion;
          shardIds = map sh_id (filter (\<lambda>s. list_ex (\<lambda>a. coverageTextMatches uni a n) (sh_acceptance s))
            (d_shards d));
          testIds = (case d_testMatrix d of None \<Rightarrow> [] | Some m \<Rightarrow> map rt_id (filter (\<lambda>t.
            rt_shardId t \<in> set shardIds \<or> coverageTextMatches uni (rt_title t) n) (tm_requiredTests m)));
          implIds = map ir_id (filter (\<lambda>r. ir_shardId r \<in> set shardIds) (d_implementationRecords d));
          reviewIds = map rr_id (filter (\<lambda>r. rr_shardId r \<in> set shardIds \<and> rr_verdict r = PASS)
            (d_reviewRecords d));
          inSpec = (case d_spec d of None \<Rightarrow> False | Some s \<Rightarrow> coverageTextMatches uni (sp_body s) n) in
      \<lparr>rc_id = ''REQ-'' @ nat_str (index + 1), rc_criterion = criterion, rc_inSpec = inSpec,
       rc_shardIds = shardIds, rc_testIds = testIds, rc_implementationRecordIds = implIds,
       rc_reviewRecordIds = reviewIds,
       rc_status = resolveRequirementStatus inSpec shardIds testIds implIds reviewIds
         (st_globalVerdict (d_state d))\<rparr>)"

definition emptyCoverageSummary :: "nat \<Rightarrow> loop_requirement_coverage_summary" where
  "emptyCoverageSummary n = \<lparr>rs_total = n, rs_accepted = 0, rs_reviewed = 0, rs_tested = 0,
     rs_implemented = 0, rs_planned = 0, rs_missing = 0, rs_percent = (if n = 0 then 100 else 0)\<rparr>"

fun bump :: "requirement_status \<Rightarrow> loop_requirement_coverage_summary \<Rightarrow> loop_requirement_coverage_summary" where
  "bump REQ_ACCEPTED s = s\<lparr>rs_accepted := rs_accepted s + 1\<rparr>"
| "bump REQ_REVIEWED s = s\<lparr>rs_reviewed := rs_reviewed s + 1\<rparr>"
| "bump REQ_TESTED s = s\<lparr>rs_tested := rs_tested s + 1\<rparr>"
| "bump REQ_IMPLEMENTED s = s\<lparr>rs_implemented := rs_implemented s + 1\<rparr>"
| "bump REQ_PLANNED s = s\<lparr>rs_planned := rs_planned s + 1\<rparr>"
| "bump REQ_MISSING s = s\<lparr>rs_missing := rs_missing s + 1\<rparr>"

text \<open>\<open>Math.round((accepted / total) * 100)\<close>: half rounds up.\<close>

definition percent_of :: "nat \<Rightarrow> nat \<Rightarrow> int" where
  "percent_of part n = (if n = 0 then 100
     else \<lfloor>(of_nat part / of_nat n) * 100 + (1 / 2 :: rat)\<rfloor>)"

definition summarizeRequirementsCoverage ::
    "loop_requirement_coverage_item list \<Rightarrow> loop_requirement_coverage_summary" where
  "summarizeRequirementsCoverage items =
     (let s = foldl (\<lambda>s i. bump (rc_status i) s) (emptyCoverageSummary (length items)) items in
      s\<lparr>rs_percent := percent_of (rs_accepted s) (rs_total s)\<rparr>)"

definition buildRequirementsCoverage :: "(nat \<Rightarrow> bool) \<Rightarrow> loop_detail \<Rightarrow> loop_requirement_coverage" where
  "buildRequirementsCoverage uni d =
     (let cs = i_acceptanceCriteria (d_issue d);
          items = map (\<lambda>(k, c). requirement_item uni d k c) (zip [0..<length cs] cs) in
      \<lparr>cov_summary = summarizeRequirementsCoverage items, cov_items = items\<rparr>)"

definition add_summary ::
    "loop_requirement_coverage_summary \<Rightarrow> loop_requirement_coverage_summary \<Rightarrow> loop_requirement_coverage_summary" where
  "add_summary s i = s\<lparr>rs_accepted := rs_accepted s + rs_accepted i,
     rs_reviewed := rs_reviewed s + rs_reviewed i, rs_tested := rs_tested s + rs_tested i,
     rs_implemented := rs_implemented s + rs_implemented i, rs_planned := rs_planned s + rs_planned i,
     rs_missing := rs_missing s + rs_missing i\<rparr>"

definition aggregateCoverageSummaries ::
    "loop_requirement_coverage_summary list \<Rightarrow> loop_requirement_coverage_summary" where
  "aggregateCoverageSummaries summaries =
     (let n = sum_list (map rs_total summaries);
          s = foldl add_summary (emptyCoverageSummary n) summaries in
      s\<lparr>rs_percent := percent_of (rs_accepted s) n\<rparr>)"

subsection \<open>Evidence artifacts\<close>

definition artifact ::
    "string \<Rightarrow> string \<Rightarrow> artifact_kind \<Rightarrow> string \<Rightarrow> bool \<Rightarrow> nat option \<Rightarrow> nat option \<Rightarrow> string
     \<Rightarrow> loop_evidence_artifact" where
  "artifact ident label kind path present round_n count summary = \<lparr>ea_id = ident, ea_label = label,
     ea_kind = kind, ea_path = path, ea_present = present, ea_round = round_n, ea_count = count,
     ea_summary = Some summary\<rparr>"

definition plan_artifacts :: "loop_detail \<Rightarrow> loop_evidence_artifact list" where
  "plan_artifacts d =
     (let issue = d_issue d; i = i_id issue; k = in_id (d_intake d); v = st_specVersion (d_state d);
          criteria = nat_str (length (i_acceptanceCriteria issue));
          shards = d_shards d; anns = d_annotations d in
      [artifact (i @ ''-raw-payload'') ''Raw Payload'' ART_RAW_PAYLOAD (i_rawPayloadRef issue) True None None
         (''Original '' @ channel_str (i_sourceChannel issue) @ ''/'' @ source_kind_str (i_sourceKind issue)
          @ '' request from '' @ i_submitterName issue @ ''.''),
       artifact (i @ ''-issue'') ''Issue Record'' ART_ISSUE (''.loops/issues/'' @ i @ ''.json'') True None None
         (priority_str (i_priority issue) @ '' '' @ issue_status_str (i_status issue) @ '' issue with ''
          @ criteria @ '' initial acceptance criteria.''),
       artifact (i @ ''-intake'') ''Intake Record'' ART_INTAKE (''.loops/intakes/'' @ k @ ''.json'') True None None
         (intake_status_str (in_status (d_intake d)) @ '' intake normalized from ''
          @ channel_str (in_sourceChannel (d_intake d)) @ ''/''
          @ source_kind_str (in_sourceKind (d_intake d)) @ ''.''),
       artifact (i @ ''-spec'') ''Spec'' ART_SPEC (''.loops/specs/'' @ i @ ''/spec.'' @ v @ ''.json'')
         (d_spec d \<noteq> None) None None
         (case d_spec d of
            Some s \<Rightarrow> spec_status_str (sp_status s) @ '' spec '' @ sp_version s @ '' maps '' @ criteria
              @ '' initial acceptance criteria.''
          | None \<Rightarrow> ''Spec '' @ v @ '' has not been generated yet.''),
       artifact (i @ ''-shards'') ''Shards'' ART_SHARDS (''.loops/shards/'' @ i @ ''/shards.json'')
         (shards \<noteq> []) None (Some (length shards))
         (if shards \<noteq> []
          then nat_str (count_where (\<lambda>s. sh_status s = SHARD_DONE) shards) @ ''/''
            @ nat_str (length shards) @ '' shards done; ''
            @ nat_str (count_where (\<lambda>s. sh_status s = SHARD_IN_PROGRESS) shards) @ '' in progress.''
          else ''No implementation shards have been decomposed yet.''),
       artifact (i @ ''-test-matrix'') ''Test Matrix'' ART_TEST_MATRIX
         (''.loops/tests/'' @ i @ ''/matrix.json'') (d_testMatrix d \<noteq> None) None
         (map_option (\<lambda>m. length (tm_requiredTests m)) (d_testMatrix d))
         (case d_testMatrix d of
            Some m \<Rightarrow> nat_str (length (tm_requiredTests m)) @ '' required tests across ''
              @ nat_str (length (tm_regressionScope m)) @ '' regression targets.''
          | None \<Rightarrow> ''Test matrix is pending until decomposition completes.''),
       artifact (i @ ''-annotations'') ''Annotations'' ART_ANNOTATIONS
         (''.loops/annotations/'' @ i @ ''.json'') (anns \<noteq> []) None (Some (length anns))
         (if anns \<noteq> []
          then nat_str (length anns) @ '' reviewer annotations captured for requirement coverage.''
          else ''No reviewer annotations have been recorded yet.'')])"

definition record_artifacts :: "loop_detail \<Rightarrow> loop_evidence_artifact list" where
  "record_artifacts d = (let i = i_id (d_issue d) in
     map (\<lambda>r. artifact (ir_id r) (''Implementation '' @ ir_shardId r) ART_IMPLEMENTATION_RECORD
         (''.loops/runs/'' @ i @ ''/'' @ ir_shardId r @ ''/'' @ nat_str (ir_round r) @ ''/implementation.json'')
         True (Some (ir_round r)) (Some (length (ir_changedFiles r)))
         (impl_record_status_str (ir_status r) @ '' implementation for '' @ ir_shardId r @ ''; ''
          @ nat_str (length (ir_changedFiles r)) @ '' changed files recorded.''))
       (d_implementationRecords d)
     @ map (\<lambda>r. artifact (tr_id r) (''Test '' @ tr_shardId r) ART_TEST_RECORD
         (''.loops/tests/'' @ i @ ''/records/'' @ tr_id r @ ''.json'') True (Some (tr_round r))
         (Some (length (tr_commands r)))
         (test_status_str (tr_status r) @ '' test run for '' @ tr_shardId r @ ''; ''
          @ nat_str (length (tr_commands r)) @ '' commands executed.''))
       (d_testRecords d)
     @ map (\<lambda>r. artifact (rr_id r) (''Review '' @ rr_shardId r) ART_REVIEW_RECORD
         (''.loops/runs/'' @ i @ ''/'' @ rr_shardId r @ ''/'' @ nat_str (rr_round r) @ ''/review.json'')
         True (Some (rr_round r)) (Some (length (rr_issues r)))
         (verdict_str (rr_verdict r) @ '' review for '' @ rr_shardId r @ ''; ''
          @ nat_str (length (rr_issues r)) @ '' issues recorded.''))
       (d_reviewRecords d))"

definition browser_qa_artifact :: "string \<Rightarrow> loop_browser_qa_report option \<Rightarrow> loop_evidence_artifact" where
  "browser_qa_artifact i latest = (case latest of
     None \<Rightarrow> artifact (i @ ''-browser-qa'') ''Browser QA'' ART_BROWSER_QA
       (''.loops/runs/'' @ i @ ''/browser-qa'') False None None ''Browser QA report has not been run yet.''
   | Some r \<Rightarrow> artifact (bq_id r) ''Browser QA'' ART_BROWSER_QA
       (''.loops/runs/'' @ i @ ''/browser-qa/'' @ bq_id r @ ''.json'') True None
       (Some (length (bq_consoleErrors r) + length (bq_networkFailures r)))
       (qa_status_str (bq_status r) @ '' browser QA for '' @ bq_targetUrl r @ ''; ''
        @ nat_str (length (bq_screenshots r)) @ '' screenshots, ''
        @ nat_str (case_option 0 length (bq_traces r)) @ '' traces, ''
        @ nat_str (case_option 0 length (bq_visualDiffs r)) @ '' visual checks, ''
        @ nat_str (case_option 0 length (bq_handoffs r)) @ '' handoffs and ''
        @ nat_str (case_option 0 length (bq_ignoredNetworkFailures r))
        @ '' ignored navigation cancels captured.''))"

definition release_artifacts :: "loop_detail \<Rightarrow> loop_evidence_artifact list" where
  "release_artifacts d = (let i = i_id (d_issue d) in
     [artifact (i @ ''-global-review'') ''Global Review'' ART_GLOBAL_REVIEW
        (''.loops/runs/'' @ i @ ''/global-review.json'') (d_globalReview d \<noteq> None)
        (map_option gr_round (d_globalReview d)) None
        (case d_globalReview d of
           Some g \<Rightarrow> verdict_str (gr_verdict g) @ '' global review with '' @ nat_str (length (gr_issues g))
             @ '' cross-shard issues.''
         | None \<Rightarrow> ''Global review has not been run yet.''),
      artifact (i @ ''-convergence-pr'') ''Convergence PR'' ART_CONVERGENCE_PR
        (''.loops/runs/'' @ i @ ''/convergence-pr.json'') (d_convergencePr d \<noteq> None) None
        (map_option (\<lambda>p. length (cp_commits p)) (d_convergencePr d))
        (case d_convergencePr d of
           Some p \<Rightarrow> ''Convergence package references '' @ nat_str (length (cp_commits p)) @ '' commits.''
         | None \<Rightarrow> ''Convergence PR evidence is pending until finalization.''),
      browser_qa_artifact i (case d_browserQaReports d of [] \<Rightarrow> None | r # _ \<Rightarrow> Some r),
      artifact (case d_secondOpinion d of Some s \<Rightarrow> so_id s | None \<Rightarrow> i @ ''-second-opinion'')
        ''Second Opinion'' ART_SECOND_OPINION (''.loops/runs/'' @ i @ ''/second-opinion.json'')
        (d_secondOpinion d \<noteq> None) None
        (map_option (\<lambda>s. sc_conflictCount (so_comparison s)) (d_secondOpinion d))
        (case d_secondOpinion d of
           Some s \<Rightarrow> second_opinion_status_str (so_status s) @ '' second opinion; secondary reviewer ''
             @ reviewer_status_str (sv_status (so_secondary s)) @ ''.''
         | None \<Rightarrow> ''Second opinion worker has not produced evidence yet.'')])"

definition buildEvidenceArtifacts :: "loop_detail \<Rightarrow> loop_evidence_artifact list" where
  "buildEvidenceArtifacts d = plan_artifacts d @ record_artifacts d @ release_artifacts d"

definition evidenceIdsByKind :: "delivery_item \<Rightarrow> artifact_kind \<Rightarrow> string list" where
  "evidenceIdsByKind item kind = (case Option.bind (asDetail item) d_evidenceArtifacts of
     None \<Rightarrow> [] | Some arts \<Rightarrow> map ea_id (filter (\<lambda>a. ea_kind a = kind) arts))"

subsection \<open>Laws of the summaries\<close>

definition bucket_sum :: "loop_requirement_coverage_summary \<Rightarrow> nat" where
  "bucket_sum s = rs_accepted s + rs_reviewed s + rs_tested s + rs_implemented s + rs_planned s + rs_missing s"

text \<open>A summary is sound when its buckets add up to its total.\<close>

definition summary_ok :: "loop_requirement_coverage_summary \<Rightarrow> bool" where
  "summary_ok s \<longleftrightarrow> bucket_sum s = rs_total s \<and> rs_percent s = percent_of (rs_accepted s) (rs_total s)"

lemma bump_simps [simp]:
  "bucket_sum (bump k s) = bucket_sum s + 1" "rs_total (bump k s) = rs_total s"
  by (cases k; simp add: bucket_sum_def)+

lemma bump_accepted [simp]: "rs_accepted (bump k s) = rs_accepted s + (if k = REQ_ACCEPTED then 1 else 0)"
  by (cases k) simp_all

lemma foldl_bump:
  "bucket_sum (foldl (\<lambda>s i. bump (rc_status i) s) s items) = bucket_sum s + length items
   \<and> rs_total (foldl (\<lambda>s i. bump (rc_status i) s) s items) = rs_total s
   \<and> rs_accepted (foldl (\<lambda>s i. bump (rc_status i) s) s items)
     = rs_accepted s + count_where (\<lambda>i. rc_status i = REQ_ACCEPTED) items"
  by (induction items arbitrary: s) (simp_all add: count_where_def)

lemma add_summary_simps [simp]:
  "bucket_sum (add_summary s i) = bucket_sum s + bucket_sum i"
  "rs_total (add_summary s i) = rs_total s"
  "rs_accepted (add_summary s i) = rs_accepted s + rs_accepted i"
  by (simp_all add: add_summary_def bucket_sum_def)

lemma foldl_add_summary:
  "bucket_sum (foldl add_summary s ss) = bucket_sum s + sum_list (map bucket_sum ss)
   \<and> rs_total (foldl add_summary s ss) = rs_total s
   \<and> rs_accepted (foldl add_summary s ss) = rs_accepted s + sum_list (map rs_accepted ss)"
  by (induction ss arbitrary: s) simp_all

lemma bucket_sum_percent [simp]: "bucket_sum (s\<lparr>rs_percent := p\<rparr>) = bucket_sum s"
  by (simp add: bucket_sum_def)

lemma bucket_sum_empty [simp]: "bucket_sum (emptyCoverageSummary n) = 0"
  by (simp add: bucket_sum_def emptyCoverageSummary_def)

lemma empty_summary_fields [simp]:
  "rs_total (emptyCoverageSummary n) = n" "rs_accepted (emptyCoverageSummary n) = 0"
  by (simp_all add: emptyCoverageSummary_def)

lemma summary_ok_summarize: "summary_ok (summarizeRequirementsCoverage items)"
  using foldl_bump [where items = items and s = "emptyCoverageSummary (length items)"]
  by (simp add: summary_ok_def summarizeRequirementsCoverage_def Let_def bucket_sum_def
      emptyCoverageSummary_def)

lemma summary_ok_aggregate:
  "list_all summary_ok ss \<Longrightarrow> summary_ok (aggregateCoverageSummaries ss)"
proof -
  assume ok: "list_all summary_ok ss"
  then have "sum_list (map bucket_sum ss) = sum_list (map rs_total ss)"
    by (induction ss) (simp_all add: summary_ok_def)
  then show ?thesis
    using foldl_add_summary [where ss = ss and s = "emptyCoverageSummary (sum_list (map rs_total ss))"]
    by (simp add: summary_ok_def aggregateCoverageSummaries_def Let_def)
qed

lemma percent_bounds: "k \<le> n \<Longrightarrow> 0 \<le> percent_of k n \<and> percent_of k n \<le> 100"
proof -
  assume le: "k \<le> n"
  show ?thesis
  proof (cases "n = 0")
    case False
    then have "(of_nat k / of_nat n :: rat) \<le> 1" "0 \<le> (of_nat k / of_nat n :: rat)"
      using le by simp_all
    then have "0 \<le> (of_nat k / of_nat n) * 100 + (1 / 2 :: rat)"
      "(of_nat k / of_nat n) * 100 + (1 / 2 :: rat) < 101"
      by linarith+
    then show ?thesis
      using False by (simp add: percent_of_def)
  qed (simp add: percent_of_def)
qed

end
