(* ===== verification/Gates.thy ===== *)
theory Gates
  imports Coverage
begin

text \<open>
  The delivery controls of a loop, built from its detail (or from a row of the list): the review
  gates with their governance overrides, the workflow recipe, the release gate and its checklist
  (\<open>buildReviewGates\<close>, \<open>buildWorkflowRecipe\<close>, \<open>buildReleaseGate\<close>, \<open>buildDeliveryControls\<close>,
  \<open>withRequirementsCoverage\<close>, \<open>withDeliveryControlsList\<close> of \<open>loops-evidence.service.ts\<close>).
\<close>

subsection \<open>Review gates\<close>

definition item_governance :: "delivery_item \<Rightarrow> loop_delivery_governance option" where
  "item_governance item = Option.bind (asDetail item) d_deliveryGovernance"

definition first_of :: "'a list \<Rightarrow> 'a option" where
  "first_of xs = (case xs of [] \<Rightarrow> None | x # _ \<Rightarrow> Some x)"

definition review_gate ::
    "delivery_item \<Rightarrow> string \<Rightarrow> review_gate_kind \<Rightarrow> review_gate_status \<Rightarrow> runtime_owner \<Rightarrow> rat option
     \<Rightarrow> nat \<Rightarrow> string option \<Rightarrow> string \<Rightarrow> loop_review_gate" where
  "review_gate item suffix kind status reviewer confidence findings evidence step = \<lparr>
     rg_id = i_id (item_issue item) @ suffix, rg_kind = kind, rg_status = status,
     rg_reviewer = reviewer, rg_confidence = confidence, rg_findingsCount = findings,
     rg_evidenceId = evidence, rg_requiredByStepId = i_id (item_issue item) @ step,
     rg_waiverReason = None, rg_updated = item_updated item\<rparr>"

definition base_review_gates :: "delivery_item \<Rightarrow> loop_review_gate list" where
  "base_review_gates item =
     (let blocked = (deliveryBlockedReason item \<noteq> None);
          specApproved = isSpecApproved item; reviewPassed = isReviewPassed item;
          findings = reviewFindingsCount item; ev = evidenceIdsByKind item;
          planned = phaseAtLeast item PHASE_3_DECOMPOSE in
      [review_gate item ''-gate-product'' GATE_PRODUCT
         (if blocked \<and> map_option st_phase (item_state item) = Some PHASE_2_REVIEW then RG_BLOCKED
          else if specApproved then RG_PASSED else RG_PENDING)
         OWNER_HUMAN (if specApproved then Some (9 / 10) else None) 0 (first_of (ev ART_SPEC)) ''-spec-review'',
       review_gate item ''-gate-architecture'' GATE_ARCHITECTURE
         (if planned then RG_PASSED else RG_PENDING)
         OWNER_CODEX (if planned then Some (8 / 10) else None) 0 (first_of (ev ART_SHARDS)) ''-implementation'',
       review_gate item ''-gate-code'' GATE_CODE
         (if blocked then RG_BLOCKED else if reviewPassed then RG_PASSED
          else if findings > 0 then RG_NEEDS_CHANGES else RG_PENDING)
         OWNER_CODEX (if reviewPassed then Some (85 / 100) else None) findings
         (first_of (ev ART_REVIEW_RECORD @ ev ART_GLOBAL_REVIEW)) ''-code-review'',
       review_gate item ''-gate-security'' GATE_SECURITY
         (if isReleaseReady item then RG_PASSED else RG_PENDING)
         OWNER_CODEX (if isReleaseReady item then Some (7 / 10) else None) 0
         (first_of (ev ART_GLOBAL_REVIEW)) ''-release-gate''])"

definition apply_override :: "gate_override list \<Rightarrow> loop_review_gate \<Rightarrow> loop_review_gate" where
  "apply_override overrides gate = (case List.find (\<lambda>ov. go_gateKind ov = rg_kind gate) overrides of
     None \<Rightarrow> gate
   | Some ov \<Rightarrow> gate\<lparr>rg_status := go_status ov, rg_reviewer := OWNER_HUMAN,
       rg_confidence := (if go_status ov \<in> {RG_PASSED, RG_WAIVED} then Some 1 else rg_confidence gate),
       rg_waiverReason := (if go_status ov \<in> {RG_WAIVED, RG_BLOCKED}
         then Some (case go_reason ov of Some r \<Rightarrow> r | None \<Rightarrow> ''Governed by '' @ go_actor ov)
         else rg_waiverReason gate),
       rg_updated := go_updated ov\<rparr>)"

definition required_kinds :: "delivery_item \<Rightarrow> review_gate_kind list" where
  "required_kinds item = (case Option.bind (item_governance item) dg_requiredReviewGates of
     None \<Rightarrow> [] | Some r \<Rightarrow> rq_gateKinds r)"

definition buildReviewGates :: "delivery_item \<Rightarrow> loop_review_gate list" where
  "buildReviewGates item =
     (let kinds = required_kinds item; gates = base_review_gates item;
          scoped = (if kinds \<noteq> [] then filter (\<lambda>g. rg_kind g \<in> set kinds) gates else gates);
          overrides = case_option [] dg_reviewGateOverrides (item_governance item) in
      map (apply_override overrides) scoped)"

subsection \<open>Workflow recipe\<close>

definition workflow_step ::
    "delivery_item \<Rightarrow> string \<Rightarrow> workflow_step_kind \<Rightarrow> string \<Rightarrow> bool \<Rightarrow> step_status \<Rightarrow> runtime_owner
     \<Rightarrow> workflow_gate \<Rightarrow> loop_phase option \<Rightarrow> artifact_kind list \<Rightarrow> artifact_kind list \<Rightarrow> string option
     \<Rightarrow> loop_workflow_step" where
  "workflow_step item suffix kind label required status owner gate phase types evidence reason = \<lparr>
     ws_id = i_id (item_issue item) @ suffix, ws_kind = kind, ws_label = label,
     ws_required = required, ws_status = status, ws_owner = owner, ws_humanGate = gate,
     ws_phase = phase, ws_evidenceTypes = types,
     ws_evidenceIds = concat (map (evidenceIdsByKind item) evidence), ws_blockedReason = reason\<rparr>"

definition workflow_steps :: "delivery_item \<Rightarrow> loop_workflow_step list" where
  "workflow_steps item =
     (let phase = item_phase item; reason = deliveryBlockedReason item;
          blocked = (reason \<noteq> None); when_at = (\<lambda>p. if phase = p then reason else None);
          impl = isImplementationDone item; ready = isReleaseReady item in
      [workflow_step item ''-intake'' STEP_INTAKE ''Intake'' True ST_PASSED OWNER_SYSTEM HG_NONE
         (Some PHASE_0_INTAKE) [ART_RAW_PAYLOAD, ART_ISSUE, ART_INTAKE]
         [ART_RAW_PAYLOAD, ART_ISSUE, ART_INTAKE] None,
       workflow_step item ''-spec-review'' STEP_SPEC_REVIEW ''Spec Review'' True
         (if blocked \<and> phase = PHASE_2_REVIEW then ST_BLOCKED
          else if isSpecApproved item then ST_PASSED else ST_CURRENT)
         OWNER_CODEX HG_APPROVAL (Some PHASE_2_REVIEW) [ART_SPEC] [ART_SPEC] (when_at PHASE_2_REVIEW),
       workflow_step item ''-implementation'' STEP_IMPLEMENTATION ''Implementation'' True
         (if blocked \<and> phase = PHASE_4_IMPLEMENT then ST_BLOCKED
          else if impl then ST_PASSED
          else if phase = PHASE_4_IMPLEMENT then ST_CURRENT else ST_PENDING)
         OWNER_CLAUDE_CODE HG_NONE (Some PHASE_4_IMPLEMENT) [ART_IMPLEMENTATION_RECORD, ART_SHARDS]
         [ART_IMPLEMENTATION_RECORD, ART_SHARDS] (when_at PHASE_4_IMPLEMENT),
       workflow_step item ''-code-review'' STEP_CODE_REVIEW ''Code Review'' True
         (if blocked then ST_BLOCKED else if isReviewPassed item then ST_PASSED
          else if phase \<in> {PHASE_5_REVIEW, PHASE_6_CONVERGE} then ST_CURRENT else ST_PENDING)
         OWNER_CODEX HG_NONE (Some PHASE_5_REVIEW)
         [ART_REVIEW_RECORD, ART_GLOBAL_REVIEW, ART_TEST_RECORD]
         [ART_REVIEW_RECORD, ART_GLOBAL_REVIEW, ART_TEST_RECORD] reason,
       workflow_step item ''-browser-qa'' STEP_BROWSER_QA ''Browser QA'' False
         (if isBrowserQaPassed item then ST_PASSED
          else if phase = PHASE_7_GLOBAL_REVIEW then ST_CURRENT else ST_PENDING)
         OWNER_CODEX HG_NONE (Some PHASE_7_GLOBAL_REVIEW) [ART_GLOBAL_REVIEW] [ART_GLOBAL_REVIEW] None,
       workflow_step item ''-release-gate'' STEP_RELEASE_GATE ''Release Gate'' True
         (if blocked then ST_BLOCKED else if ready then ST_PASSED
          else if phase \<in> {PHASE_6_CONVERGE, PHASE_7_GLOBAL_REVIEW, PHASE_8_ANNOTATE, PHASE_CLOSED}
          then ST_CURRENT else ST_PENDING)
         OWNER_CODEX HG_DECISION (Some PHASE_8_ANNOTATE) [ART_CONVERGENCE_PR, ART_ANNOTATIONS]
         [ART_CONVERGENCE_PR, ART_ANNOTATIONS] reason,
       workflow_step item ''-retro'' STEP_RETRO ''Reflect'' False
         (if i_status (item_issue item) = ISSUE_ARCHIVED then ST_PASSED
          else if ready then ST_CURRENT else ST_PENDING)
         OWNER_CODEX HG_NONE None [ART_ANNOTATIONS] [ART_ANNOTATIONS] None])"

definition buildWorkflowRecipe :: "delivery_item \<Rightarrow> loop_workflow_recipe" where
  "buildWorkflowRecipe item =
     (let kind = inferWorkflowKind (item_issue item);
          snapshot = Option.bind (asDetail item) d_workflowRecipe;
          default = Option.bind (item_governance item)
            (\<lambda>g. List.find (\<lambda>e. wd_loopKind e = kind) (dg_workflowDefaults g)) in
      case snapshot of
        Some s \<Rightarrow> s\<lparr>wr_steps := workflow_steps item\<rparr>
      | None \<Rightarrow> \<lparr>
          wr_id = (case default of Some w \<Rightarrow> wd_recipeId w | None \<Rightarrow> ''default-'' @ loop_kind_str kind),
          wr_name = ''Default Codex / Claude Code delivery'', wr_version = 1, wr_appliesTo = [kind],
          wr_capturedAt = (case default of Some w \<Rightarrow> wd_updated w | None \<Rightarrow> item_updated item),
          wr_source = (if default \<noteq> None then SRC_WORKSPACE else SRC_DEFAULT),
          wr_baselineEvidence = buildWorkflowBaselineEvidence (item_issue item) default,
          wr_steps = workflow_steps item\<rparr>)"

subsection \<open>Release gate\<close>

definition release_checklist_of ::
    "delivery_item \<Rightarrow> loop_second_opinion option \<Rightarrow> release_checklist" where
  "release_checklist_of item secondOpinion =
     (let canary = Option.bind (item_governance item) dg_releaseCanary;
          shipped = (Option.bind (asDetail item) d_convergencePr \<noteq> None
            \<or> i_status (item_issue item) = ISSUE_CLOSED) in
      \<lparr>ck_specApproved = isSpecApproved item,
       ck_implementationEvidence = isImplementationDone item,
       ck_testsPassed = testsPassed item,
       ck_requiredReviewsPassed =
         list_all (\<lambda>g. rg_status g \<in> {RG_PASSED, RG_WAIVED}) (buildReviewGates item),
       ck_secondOpinionPassed = (case secondOpinion of None \<Rightarrow> True
         | Some so \<Rightarrow> \<not> so_requiredForRelease so \<or> so_status so = SO_PASSED),
       ck_browserQaPassed = isBrowserQaPassed item,
       ck_docsUpdated = True,
       ck_prReady = shipped,
       ck_rollbackNote = (shipped \<or> (case Option.bind canary can_rollbackNote of
         None \<Rightarrow> False | Some note \<Rightarrow> note \<noteq> [])),
       ck_canaryPassed = (case canary of None \<Rightarrow> True | Some c \<Rightarrow> can_status c = RC_PASSED)\<rparr>)"

definition checklist_complete :: "release_checklist \<Rightarrow> bool" where
  "checklist_complete c \<longleftrightarrow> ck_specApproved c \<and> ck_implementationEvidence c \<and> ck_testsPassed c
     \<and> ck_requiredReviewsPassed c \<and> ck_secondOpinionPassed c \<and> ck_browserQaPassed c
     \<and> ck_docsUpdated c \<and> ck_prReady c \<and> ck_rollbackNote c \<and> ck_canaryPassed c"

definition buildReleaseGate ::
    "delivery_item \<Rightarrow> loop_second_opinion option \<Rightarrow> loop_release_gate" where
  "buildReleaseGate item secondOpinion =
     (let checklist = release_checklist_of item secondOpinion; blocker = deliveryBlockedReason item in
      \<lparr>rel_id = i_id (item_issue item) @ ''-release-gate'',
       rel_status = (if blocker \<noteq> None then REL_BLOCKED
         else if i_status (item_issue item) = ISSUE_CLOSED \<or> item_finalized item then REL_SHIPPED
         else if checklist_complete checklist then REL_READY else REL_PENDING),
       rel_checklist = checklist,
       rel_evidenceIds = concat (map (evidenceIdsByKind item)
         [ART_SPEC, ART_IMPLEMENTATION_RECORD, ART_TEST_RECORD, ART_REVIEW_RECORD,
          ART_GLOBAL_REVIEW, ART_CONVERGENCE_PR]),
       rel_blocker = blocker, rel_updated = item_updated item\<rparr>)"

subsection \<open>Enriching a detail and the list\<close>

definition withRequirementsCoverage ::
    "(nat \<Rightarrow> bool) \<Rightarrow> loop_detail \<Rightarrow> loop_second_opinion option \<Rightarrow> loop_detail" where
  "withRequirementsCoverage uni d secondOpinion =
     (let enhanced = d\<lparr>d_requirementsCoverage := Some (buildRequirementsCoverage uni d),
            d_evidenceArtifacts := Some (buildEvidenceArtifacts d)\<rparr>;
          item = Detail_Item enhanced in
      enhanced\<lparr>d_workflowRecipe := Some (buildWorkflowRecipe item),
        d_reviewGates := Some (buildReviewGates item),
        d_releaseGate := Some (buildReleaseGate item secondOpinion),
        d_secondOpinion := (case secondOpinion of None \<Rightarrow> d_secondOpinion d | Some so \<Rightarrow> Some so)\<rparr>)"

text \<open>One row of the list: \<open>readDetail\<close> (here \<open>read\<close>) and \<open>buildSecondOpinion\<close> are the callbacks of the
  source; a row whose detail cannot be read keeps its list item. (The row schema has no field for the
  second opinion that the source also spreads into the row.)\<close>

definition with_controls_row ::
    "(string \<Rightarrow> loop_detail option) \<Rightarrow> (loop_detail \<Rightarrow> loop_second_opinion) option
     \<Rightarrow> loop_list_item \<Rightarrow> loop_list_item" where
  "with_controls_row read secondOpinionOf row =
     (case read (i_id (li_issue row)) of
        None \<Rightarrow> let item = List_Item row in
          row\<lparr>li_workflowRecipe := Some (buildWorkflowRecipe item),
              li_reviewGates := Some (buildReviewGates item),
              li_releaseGate := Some (buildReleaseGate item None)\<rparr>
      | Some d \<Rightarrow> let item = Detail_Item d;
            so = map_option (\<lambda>f. f d) secondOpinionOf;
            excs = buildRuntimeSecurityExceptions (d_testRecords d) in
          row\<lparr>li_workflowRecipe := Some (buildWorkflowRecipe item),
              li_reviewGates := Some (buildReviewGates item),
              li_releaseGate := Some (buildReleaseGate item so),
              li_deliveryGovernance := (case d_deliveryGovernance d of
                 None \<Rightarrow> li_deliveryGovernance row | Some g \<Rightarrow> Some g),
              li_runtimeSecurityExceptions :=
                (if excs \<noteq> [] then Some excs else li_runtimeSecurityExceptions row)\<rparr>)"

definition withDeliveryControlsList ::
    "(string \<Rightarrow> loop_detail option) \<Rightarrow> (loop_detail \<Rightarrow> loop_second_opinion) option
     \<Rightarrow> loop_list_item list \<Rightarrow> loop_list_item list" where
  "withDeliveryControlsList read secondOpinionOf rows =
     map (with_controls_row read secondOpinionOf) rows"

end
