(* ===== verification/Gate_Laws.thy ===== *)
theory Gate_Laws
  imports Gates Samples
begin

text \<open>
  What the release gate guarantees: the checklist implies the evidence it names, the security
  gate cannot pass by itself before the loop is closed, a required second opinion needs both
  reviewers, and the requirement coverage always adds up.
\<close>

subsection \<open>The release gate\<close>

text \<open>A loop that \<open>isTerminal\<close> of the engine would not treat as finished.\<close>

definition still_open :: "loop_detail \<Rightarrow> bool" where
  "still_open d \<longleftrightarrow> i_status (d_issue d) \<noteq> ISSUE_CLOSED \<and> st_phase (d_state d) \<noteq> PHASE_CLOSED
     \<and> st_finalized (d_state d) \<noteq> Some True"

lemma append_Nil_iff: "(if b then [x] else []) @ ys = [] \<longleftrightarrow> \<not> b \<and> ys = []"
  by simp

lemma no_blockers:
  assumes "buildReleaseGateBlockers d gate so = []"
  shows "ck_specApproved (rel_checklist gate)" "ck_implementationEvidence (rel_checklist gate)"
    "ck_testsPassed (rel_checklist gate)" "ck_requiredReviewsPassed (rel_checklist gate)"
    "ck_browserQaPassed (rel_checklist gate)" "ck_rollbackNote (rel_checklist gate)"
    "ck_canaryPassed (rel_checklist gate)" "checkRulesCompliance d = []"
  using assms by (auto simp: buildReleaseGateBlockers_def Let_def split: if_splits)

lemma no_violations:
  assumes "checkRulesCompliance d = []" "r \<in> set (d_implementationRecords d)" "f \<in> set (ir_changedFiles r)"
  shows "\<not> contains ''.env'' f" "\<not> contains ''secret'' f" "\<not> contains ''private_key'' f"
    "\<not> contains ''credentials'' f"
  using assms by (auto simp: checkRulesCompliance_def Let_def filter_empty_conv split: if_splits)

lemma implemented_shards:
  assumes "checkRulesCompliance d = []" "s \<in> set (d_shards d)" "sh_status s \<noteq> SHARD_TODO"
  shows "sh_id s \<in> ir_shardId ` set (d_implementationRecords d)"
  using assms by (auto simp: checkRulesCompliance_def Let_def filter_empty_conv split: if_splits)

lemma release_checklist_detail [simp]:
  "rel_checklist (buildReleaseGate item so) = release_checklist_of item so"
  by (simp add: buildReleaseGate_def Let_def)

lemma testsPassed_detail [simp]:
  "testsPassed (Detail_Item d) \<longleftrightarrow> d_testRecords d \<noteq> [] \<and> (\<forall>r\<in>set (d_testRecords d). tr_status r = TEST_PASS)"
  by (simp add: testsPassed_def list_all_iff)

lemma isReleaseReady_open: "still_open d \<Longrightarrow> \<not> isReleaseReady (Detail_Item d)"
  by (auto simp: still_open_def isReleaseReady_def item_finalized_def)

definition security_override :: "loop_detail \<Rightarrow> bool" where
  "security_override d \<longleftrightarrow> (let g = governance_of d in
     (case dg_requiredReviewGates g of None \<Rightarrow> False
      | Some r \<Rightarrow> rq_gateKinds r \<noteq> [] \<and> GATE_SECURITY \<notin> set (rq_gateKinds r))
     \<or> (case List.find (\<lambda>ov. go_gateKind ov = GATE_SECURITY) (dg_reviewGateOverrides g) of
          None \<Rightarrow> False | Some ov \<Rightarrow> go_status ov \<in> {RG_PASSED, RG_WAIVED}))"

definition security_gate :: "delivery_item \<Rightarrow> loop_review_gate" where
  "security_gate item = review_gate item ''-gate-security'' GATE_SECURITY
     (if isReleaseReady item then RG_PASSED else RG_PENDING)
     OWNER_CODEX (if isReleaseReady item then Some (7 / 10) else None) 0
     (first_of (evidenceIdsByKind item ART_GLOBAL_REVIEW)) ''-release-gate''"

lemma security_gate_mem: "security_gate item \<in> set (base_review_gates item)"
  by (simp add: base_review_gates_def security_gate_def Let_def)

lemma security_gate_fields [simp]:
  "rg_kind (security_gate item) = GATE_SECURITY"
  "rg_status (security_gate item) = (if isReleaseReady item then RG_PASSED else RG_PENDING)"
  by (simp_all add: security_gate_def review_gate_def)

lemma security_gate_scoped:
  assumes "required_kinds item = [] \<or> GATE_SECURITY \<in> set (required_kinds item)"
  shows "apply_override (case_option [] dg_reviewGateOverrides (item_governance item)) (security_gate item)
    \<in> set (buildReviewGates item)"
  using assms security_gate_mem [of item] by (auto simp: buildReviewGates_def Let_def)

lemma apply_override_status:
  "rg_status (apply_override ovs g) = (case List.find (\<lambda>ov. go_gateKind ov = rg_kind g) ovs of
     None \<Rightarrow> rg_status g | Some ov \<Rightarrow> go_status ov)"
  by (simp add: apply_override_def split: option.splits)

lemma security_needs_override:
  assumes op: "still_open d" and ok: "\<forall>g\<in>set (buildReviewGates (Detail_Item d)). rg_status g \<in> {RG_PASSED, RG_WAIVED}"
  shows "security_override d"
proof (cases "required_kinds (Detail_Item d) = [] \<or> GATE_SECURITY \<in> set (required_kinds (Detail_Item d))")
  case True
  let ?ovs = "case_option [] dg_reviewGateOverrides (item_governance (Detail_Item d))"
  from ok security_gate_scoped [OF True]
  have "rg_status (apply_override ?ovs (security_gate (Detail_Item d))) \<in> {RG_PASSED, RG_WAIVED}" by blast
  then show ?thesis
    using isReleaseReady_open [OF op]
    by (auto simp: apply_override_status security_override_def governance_of_def item_governance_def Let_def
        split: option.splits)
next
  case False
  then show ?thesis
    by (auto simp: security_override_def governance_of_def item_governance_def required_kinds_def Let_def
        split: option.splits)
qed

text \<open>What a gate without blockers says of an open loop; \<open>Finalize_Laws\<close> puts it together with what
  \<open>finalize\<close> reads and writes.\<close>

lemma release_gate_sound:
  assumes "buildReleaseGateBlockers d (buildReleaseGate (Detail_Item d) so) so = []" and "still_open d"
  shows "isSpecApproved (Detail_Item d)"
    "st_shardsTotal (d_state d) > 0 \<and> st_shardsDone (d_state d) \<ge> st_shardsTotal (d_state d)"
    "d_testRecords d \<noteq> [] \<and> (\<forall>r\<in>set (d_testRecords d). tr_status r = TEST_PASS)"
    "\<forall>g\<in>set (buildReviewGates (Detail_Item d)). rg_status g \<in> {RG_PASSED, RG_WAIVED}"
    "security_override d"
    "case dg_releaseCanary (governance_of d) of None \<Rightarrow> True | Some c \<Rightarrow> can_status c = RC_PASSED"
    "d_convergencePr d \<noteq> None
      \<or> (\<exists>c n. dg_releaseCanary (governance_of d) = Some c \<and> can_rollbackNote c = Some n \<and> n \<noteq> [])"
    "case d_browserQaReports d of r # _ \<Rightarrow> bq_status r = QA_PASSED
      | [] \<Rightarrow> st_phase (d_state d) \<in> {PHASE_7_GLOBAL_REVIEW, PHASE_8_ANNOTATE}"
    "checkRulesCompliance d = []"
proof -
  note nb = no_blockers [OF assms(1)]
  show "isSpecApproved (Detail_Item d)"
    using nb by (simp add: release_checklist_of_def Let_def)
  show "st_shardsTotal (d_state d) > 0 \<and> st_shardsDone (d_state d) \<ge> st_shardsTotal (d_state d)"
    using nb by (simp add: release_checklist_of_def Let_def isImplementationDone_def)
  show "d_testRecords d \<noteq> [] \<and> (\<forall>r\<in>set (d_testRecords d). tr_status r = TEST_PASS)"
    using nb by (simp add: release_checklist_of_def Let_def)
  show gates: "\<forall>g\<in>set (buildReviewGates (Detail_Item d)). rg_status g \<in> {RG_PASSED, RG_WAIVED}"
    using nb by (simp add: release_checklist_of_def Let_def list_all_iff)
  show "security_override d"
    by (rule security_needs_override [OF assms(2) gates])
  show "case dg_releaseCanary (governance_of d) of None \<Rightarrow> True | Some c \<Rightarrow> can_status c = RC_PASSED"
    using nb by (auto simp: release_checklist_of_def Let_def governance_of_def item_governance_def
        no_governance_def split: option.splits)
  show "d_convergencePr d \<noteq> None
      \<or> (\<exists>c n. dg_releaseCanary (governance_of d) = Some c \<and> can_rollbackNote c = Some n \<and> n \<noteq> [])"
    using nb(6) assms(2) by (auto simp: release_checklist_of_def Let_def governance_of_def item_governance_def
        bind_eq_Some_conv still_open_def split: option.splits)
  show "case d_browserQaReports d of r # _ \<Rightarrow> bq_status r = QA_PASSED
      | [] \<Rightarrow> st_phase (d_state d) \<in> {PHASE_7_GLOBAL_REVIEW, PHASE_8_ANNOTATE}"
    using nb(5) assms(2) by (auto simp: release_checklist_of_def Let_def isBrowserQaPassed_def
        still_open_def item_phase_def split: list.splits)
  show "checkRulesCompliance d = []" by (rule nb(8))
qed

subsection \<open>Second opinion and coverage\<close>

lemma buildSecondOpinion_status:
  assumes "dg_secondOpinionPolicy (governance_of d) = Some p" "pol_requiredForRelease p"
    and "so_status (buildSecondOpinion sha16 d) = SO_PASSED"
  shows "\<exists>report. d_secondOpinion d = Some report \<and> sv_status (so_primary report) = RS_PASSED
    \<and> sv_status (so_secondary report) = RS_PASSED
    \<and> (pol_conflictHumanGate p \<longrightarrow> sc_conflictCount (so_comparison report) = 0)"
  using assms
  by (auto simp: buildSecondOpinion_def applySecondOpinionPolicy_def Let_def secondary_reviewer_def
      split: option.splits if_splits)

text \<open>When the policy requires a second opinion for release, the release gate counts it as
  passed only if the stored report of the second-opinion worker has both reviewers passed and, under
  the human conflict gate, no conflict: the opinion derived from the primary review alone never
  passes.\<close>

theorem second_opinion_gate:
  assumes "dg_secondOpinionPolicy (governance_of d) = Some p" "pol_requiredForRelease p"
    and "ck_secondOpinionPassed (rel_checklist (buildReleaseGate (Detail_Item d)
      (Some (buildSecondOpinion sha16 d))))"
  shows "\<exists>report. d_secondOpinion d = Some report \<and> sv_status (so_primary report) = RS_PASSED
    \<and> sv_status (so_secondary report) = RS_PASSED
    \<and> (pol_conflictHumanGate p \<longrightarrow> sc_conflictCount (so_comparison report) = 0)"
proof -
  have "so_requiredForRelease (buildSecondOpinion sha16 d)"
    using assms(1,2) by (auto simp: buildSecondOpinion_def applySecondOpinionPolicy_def Let_def)
  then have "so_status (buildSecondOpinion sha16 d) = SO_PASSED"
    using assms(3) by (simp add: release_checklist_of_def Let_def)
  then show ?thesis by (rule buildSecondOpinion_status [OF assms(1,2)])
qed

lemma requirement_item_accepted:
  "rc_status (requirement_item uni d k c) = REQ_ACCEPTED \<longleftrightarrow>
   st_globalVerdict (d_state d) = Some PASS \<and> rc_reviewRecordIds (requirement_item uni d k c) \<noteq> []"
  by (simp add: requirement_item_def resolveRequirementStatus_def Let_def)

lemma requirement_item_backed:
  "x \<in> set (rc_reviewRecordIds (requirement_item uni d k c)) \<Longrightarrow>
   \<exists>r\<in>set (d_reviewRecords d). rr_id r = x \<and> rr_verdict r = PASS
     \<and> rr_shardId r \<in> set (rc_shardIds (requirement_item uni d k c))"
  by (auto simp: requirement_item_def Let_def)

lemma coverage_item:
  "i \<in> set (cov_items (buildRequirementsCoverage uni d)) \<Longrightarrow> \<exists>k c. i = requirement_item uni d k c"
  by (auto simp: buildRequirementsCoverage_def Let_def)

lemma accepted_items:
  "i \<in> set (cov_items (buildRequirementsCoverage uni d)) \<Longrightarrow>
   (rc_status i = REQ_ACCEPTED \<longleftrightarrow> st_globalVerdict (d_state d) = Some PASS \<and> rc_reviewRecordIds i \<noteq> [])
   \<and> (\<forall>k\<in>set (rc_reviewRecordIds i). \<exists>r\<in>set (d_reviewRecords d). rr_id r = k \<and> rr_verdict r = PASS
        \<and> rr_shardId r \<in> set (rc_shardIds i))"
  using coverage_item requirement_item_accepted requirement_item_backed by metis

lemma coverage_total:
  "rs_total (cov_summary (buildRequirementsCoverage uni d)) = length (i_acceptanceCriteria (d_issue d))
   \<and> rs_accepted (cov_summary (buildRequirementsCoverage uni d))
     = count_where (\<lambda>i. rc_status i = REQ_ACCEPTED) (cov_items (buildRequirementsCoverage uni d))"
  by (simp add: buildRequirementsCoverage_def summarizeRequirementsCoverage_def Let_def foldl_bump)

text \<open>The requirement coverage of a loop has one item per acceptance criterion; its buckets add
  up to that number, the percentage lies between 0 and 100, and an item is accepted exactly when
  the global verdict is PASS and a PASS review of one of its shards backs it. Summaries of several
  loops add up the same way.\<close>

theorem coverage_sound:
  "length (cov_items (buildRequirementsCoverage uni d)) = length (i_acceptanceCriteria (d_issue d))
   \<and> summary_ok (cov_summary (buildRequirementsCoverage uni d))
   \<and> rs_total (cov_summary (buildRequirementsCoverage uni d)) = length (i_acceptanceCriteria (d_issue d))
   \<and> 0 \<le> rs_percent (cov_summary (buildRequirementsCoverage uni d))
   \<and> rs_percent (cov_summary (buildRequirementsCoverage uni d)) \<le> 100
   \<and> (\<forall>i\<in>set (cov_items (buildRequirementsCoverage uni d)).
        (rc_status i = REQ_ACCEPTED \<longleftrightarrow> st_globalVerdict (d_state d) = Some PASS \<and> rc_reviewRecordIds i \<noteq> [])
        \<and> (\<forall>k\<in>set (rc_reviewRecordIds i). \<exists>r\<in>set (d_reviewRecords d). rr_id r = k \<and> rr_verdict r = PASS
             \<and> rr_shardId r \<in> set (rc_shardIds i)))
   \<and> summary_ok (aggregateCoverageSummaries (map (\<lambda>e. cov_summary (buildRequirementsCoverage uni e)) ds))"
proof -
  have ok: "summary_ok (cov_summary (buildRequirementsCoverage uni e))" for e
    by (simp add: buildRequirementsCoverage_def Let_def summary_ok_summarize)
  have "rs_accepted s \<le> rs_total s" if "summary_ok s" for s
    using that by (auto simp: summary_ok_def bucket_sum_def)
  from percent_bounds [OF this [OF ok]] ok [of d]
  have pct: "0 \<le> rs_percent (cov_summary (buildRequirementsCoverage uni d))
    \<and> rs_percent (cov_summary (buildRequirementsCoverage uni d)) \<le> 100"
    by (simp add: summary_ok_def)
  have len: "length (cov_items (buildRequirementsCoverage uni d)) = length (i_acceptanceCriteria (d_issue d))"
    by (simp add: buildRequirementsCoverage_def Let_def)
  have agg: "summary_ok (aggregateCoverageSummaries (map (\<lambda>e. cov_summary (buildRequirementsCoverage uni e)) ds))"
    by (rule summary_ok_aggregate) (simp add: list_all_iff ok)
  show ?thesis
    using ok [of d] pct len agg coverage_total [of uni d] accepted_items [of _ uni d] by blast
qed

subsection \<open>Witnesses\<close>

definition waived_governance :: loop_delivery_governance where
  "waived_governance = no_governance\<lparr>
     dg_reviewGateOverrides := [\<lparr>go_gateKind = GATE_SECURITY, go_status = RG_WAIVED, go_actor = ''lead'',
       go_reason = None, go_expiresAt = None, go_updated = 7\<rparr>],
     dg_releaseCanary := Some \<lparr>can_status = RC_PASSED, can_environment = None,
       can_environmentOwner = None, can_targetUrl = None, can_rollbackNote = Some ''revert'',
       can_actor = ''system'', can_reason = None, can_updated = 7\<rparr>\<rparr>"

definition gated_detail :: loop_detail where
  "gated_detail = \<lparr>d_issue = sample_issue, d_intake = sample_intake, d_spec = Some sample_spec,
     d_specHistory = [], d_shards = [sample_shard ''s1'' [] SHARD_DONE], d_testMatrix = Some sample_matrix,
     d_annotations = [], d_implementationRecords = [sample_impl ''s1''],
     d_reviewRecords = [sample_review ''s1''], d_testRecords = [sample_test ''s1'' TEST_PASS],
     d_logs = [], d_notifications = [],
     d_state = sample_state\<lparr>st_phase := PHASE_8_ANNOTATE, st_specVersion := ''v1'', st_shardsTotal := 1,
       st_shardsDone := 1, st_globalVerdict := Some PASS\<rparr>,
     d_globalReview = Some (sample_global PASS), d_convergencePr = None, d_browserQaReports = [],
     d_requirementsCoverage = None, d_evidenceArtifacts = None, d_learnings = [],
     d_workflowRecipe = None, d_reviewGates = None, d_releaseGate = None, d_secondOpinion = None,
     d_deliveryGovernance = Some waived_governance\<rparr>"

lemma gated_no_blockers:
  "buildReleaseGateBlockers gated_detail (buildReleaseGate (Detail_Item gated_detail) None) None = []"
  by code_simp

definition second_report :: loop_second_opinion where
  "second_report = (let v = \<lparr>sv_role = ROLE_PRIMARY, sv_reviewer = OWNER_CODEX, sv_status = RS_PASSED,
       sv_findingsCount = 0, sv_findings = [], sv_evidenceIds = [], sv_summary = None\<rparr> in
     \<lparr>so_id = ''so'', so_status = SO_PASSED, so_primary = v, so_secondary = v\<lparr>sv_role := ROLE_SECONDARY\<rparr>,
      so_comparison = compareSecondOpinionFindings [] [], so_requiredForRelease = True, so_updated = 8\<rparr>)"

definition opinion_policy :: so_policy where
  "opinion_policy = \<lparr>pol_requiredForRelease = True, pol_conflictHumanGate = True, pol_actor = ''lead'',
     pol_reason = None, pol_updated = 8\<rparr>"

definition opinion_detail :: loop_detail where
  "opinion_detail = gated_detail\<lparr>d_secondOpinion := Some second_report,
     d_deliveryGovernance := Some (waived_governance\<lparr>dg_secondOpinionPolicy := Some opinion_policy\<rparr>)\<rparr>"

theorem second_opinion_gate_witness:
  "\<exists>report. d_secondOpinion opinion_detail = Some report \<and> sv_status (so_secondary report) = RS_PASSED"
proof -
  have "ck_secondOpinionPassed (rel_checklist (buildReleaseGate (Detail_Item opinion_detail)
    (Some (buildSecondOpinion id opinion_detail))))" by code_simp
  moreover have "dg_secondOpinionPolicy (governance_of opinion_detail) = Some opinion_policy" by code_simp
  moreover have "pol_requiredForRelease opinion_policy" by code_simp
  ultimately show ?thesis using second_opinion_gate by blast
qed

theorem coverage_sound_witness:
  "rs_total (cov_summary (buildRequirementsCoverage (\<lambda>_. False) gated_detail)) = 1
   \<and> summary_ok (aggregateCoverageSummaries [cov_summary (buildRequirementsCoverage (\<lambda>_. False) gated_detail)])"
proof -
  have "length (i_acceptanceCriteria (d_issue gated_detail)) = 1" by code_simp
  then show ?thesis
    using coverage_sound [of "\<lambda>_. False" gated_detail "[gated_detail]"] by simp
qed

end
