(* ===== verification/Runner.thy ===== *)
theory Runner
  imports Engine Js_Text
begin

text \<open>
  \<open>loops-runners/loops-runner.service.ts\<close>: running the test commands of a shard under the
  command policy, with a canary token in the environment and the coverage floor.

  Executing a command (a shell or a docker container) is the host's: the record \<open>runner_host\<close>
  holds it as calls that answer anything, with \<open>resolveAllowedTargetRepo\<close> and the compiler of
  configured patterns. Lengths are UTF-16 units as in the source; blanks and the digits of a
  number are ASCII.
\<close>

subsection \<open>The host\<close>

datatype network_profile = PROFILE_DENY | PROFILE_NET_ALLOWLIST | PROFILE_NET_APPROVAL
datatype write_profile = PROFILE_WORKSPACE | PROFILE_REPO | PROFILE_ARTIFACT_ONLY
datatype shell_profile = PROFILE_STRICT_ALLOWLIST | PROFILE_ALLOWLIST | PROFILE_SHELL_APPROVAL
datatype secret_mode = SECRET_REDACTED | SECRET_BLOCKED

record sandbox_profile =
  sx_network :: network_profile
  sx_writeScope :: write_profile
  sx_shellEnforcement :: shell_profile
  sx_secretMode :: secret_mode
  sx_allowedCommands :: "string list option"
  sx_extraBlockedTools :: "string list option"
  sx_extraBlockedPatterns :: "string list option"

text \<open>What \<open>execFile\<close> gives: the output of an exit with code 0, or the error's \<open>code\<close>, \<open>stdout\<close>,
  \<open>stderr\<close>, \<open>message\<close> and \<open>signal\<close>.\<close>

datatype exec_outcome =
    Exec_Ok string string
  | Exec_Failed "int option" "string option" "string option" "string option" "string option"

record runner_host =
  rh_resolve :: "string \<Rightarrow> string call"
  rh_shell :: "string \<Rightarrow> string \<Rightarrow> string \<Rightarrow> exec_outcome call"
  rh_docker :: "(string \<Rightarrow> string \<Rightarrow> string \<Rightarrow> bool \<Rightarrow> bool \<Rightarrow> exec_outcome call) option"
  rh_regexp :: "string \<Rightarrow> (string \<Rightarrow> bool) option"

definition error_message :: "js_error \<Rightarrow> string" where
  "error_message e = (case e of BadRequest s \<Rightarrow> s | NotFound s \<Rightarrow> s | Conflict s \<Rightarrow> s | PlainError s \<Rightarrow> s)"

text \<open>A \<open>try\<close> around a call: the error becomes a value.\<close>

definition attempt :: "'a call \<Rightarrow> (fs, js_error + 'a) sm" where
  "attempt g = (\<lambda>f. (Inr (g (fs_ticks f)), tick f))"

subsection \<open>Command policy\<close>

datatype policy_decision = Allowed | Denied string "string option" "string option"

definition SHELL_CONTROL_OPERATOR_PATTERN :: regex where
  "SHELL_CONTROL_OPERATOR_PATTERN = RAlt (RStr ''&&'') (RAlt (RStr ''||'')
     (RAlt (RSet [CHR '';'', CHR ''|'', CHR ''<'', CHR ''>'', CHR 0x60])
     (RAlt (RStr [CHR 0x24, CHR ''('']) (RSet [CHR 0x0D, CHR 0x0A]))))"

definition word :: "regex \<Rightarrow> regex" where
  "word r = RSeq RWordB (RSeq r RWordB)"

definition NETWORK_COMMAND_PATTERNS :: "(string \<times> regex) list" where
  "NETWORK_COMMAND_PATTERNS =
    [(''curl'', word (RStr ''curl'')), (''wget'', word (RStr ''wget'')),
     (''ssh'', word (ralts [''ssh'', ''scp'', ''sftp''])),
     (''netcat'', word (ralts [''nc'', ''netcat'', ''telnet''])),
     (''git-network'', word (rseqs [RStr ''git'', RPlus RSpace, ralts [''clone'', ''fetch'', ''pull'', ''push'']])),
     (''package-install'', word (rseqs [ralts [''pnpm'', ''npm'', ''yarn''], RPlus RSpace,
        ralts [''add'', ''install'', ''i'', ''dlx'']])),
     (''npx'', word (RStr ''npx'')),
     (''pip-install'', word (rseqs [RStr ''pip'', ROpt (RStr ''3''), RPlus RSpace, RStr ''install''])),
     (''brew'', word (rseqs [RStr ''brew'', RPlus RSpace, ralts [''install'', ''update'', ''upgrade'']]))]"

definition WRITE_ESCAPE_PATTERNS :: "(string \<times> regex) list" where
  "WRITE_ESCAPE_PATTERNS =
    [(''parent-directory'', rseqs [RAlt RBegin RSpace, RStr ''..'', RSet [CHR ''/'', CHR 0x5C]]),
     (''absolute-write-command'', rseqs [RWordB, ralts [''rm'', ''mv'', ''cp'', ''mkdir'', ''touch''],
        RPlus RSpace, RStar (rseqs [RStr ''-'', RPlus RNonSpace, RPlus RSpace]), RStr ''/'']),
     (''node-fs-outside-workspace'', rseqs [RWordB,
        ralts [''writeFileSync'', ''appendFileSync'', ''rmSync'', ''mkdirSync''], RStar RSpace,
        RStr ''('', RStar RSpace, RSet [CHR 0x27, CHR 0x22, CHR 0x60], ralts [''/'', ''..'']])]"

definition CANARY_REDACTION :: string where
  "CANARY_REDACTION = ''[LOOPS_RUNTIME_CANARY_REDACTED]''"

definition OUTPUT_LIMIT :: nat where
  "OUTPUT_LIMIT = 12000"

definition prefix_allowed :: "string list \<Rightarrow> string \<Rightarrow> bool" where
  "prefix_allowed allowed cmd \<longleftrightarrow>
     list_ex (\<lambda>a. let p = js_trim a in cmd = p \<or> starts_with (p @ '' '') cmd) allowed"

definition network_match :: "sandbox_profile option \<Rightarrow> string \<Rightarrow> string option" where
  "network_match profile cmd = map_option fst (List.find (\<lambda>(_, p). rtest p cmd)
     (NETWORK_COMMAND_PATTERNS @ map (\<lambda>tool. (tool, word (RStr tool)))
        (case_option [] id (Option.bind profile sx_extraBlockedTools))))"

text \<open>The patterns of the profile are compiled before any is tried; \<open>new RegExp\<close> may throw.\<close>

definition compile_patterns ::
    "(string \<Rightarrow> (string \<Rightarrow> bool) option) \<Rightarrow> string list \<Rightarrow> js_error + (string \<times> (string \<Rightarrow> bool)) list" where
  "compile_patterns regexp ps =
     (case List.find (\<lambda>p. regexp p = None) ps of
        Some p \<Rightarrow> Inl (PlainError (''Invalid regular expression: '' @ p))
      | None \<Rightarrow> Inr (map (\<lambda>p. (p, case_option (\<lambda>_. False) id (regexp p))) ps))"

definition write_match ::
    "(string \<Rightarrow> (string \<Rightarrow> bool) option) \<Rightarrow> sandbox_profile option \<Rightarrow> string \<Rightarrow> js_error + string option" where
  "write_match regexp profile cmd =
     (case compile_patterns regexp (case_option [] id (Option.bind profile sx_extraBlockedPatterns)) of
        Inl e \<Rightarrow> Inl e
      | Inr extra \<Rightarrow> Inr (map_option fst (List.find (\<lambda>(_, test). test cmd)
          (map (\<lambda>(l, p). (l, rtest p)) WRITE_ESCAPE_PATTERNS @ extra))))"

definition evaluateCommandPolicy ::
    "(string \<Rightarrow> (string \<Rightarrow> bool) option) \<Rightarrow> string list \<Rightarrow> sandbox_profile option \<Rightarrow> string
     \<Rightarrow> js_error + policy_decision" where
  "evaluateCommandPolicy regexp allowedCommands profile command =
     (let cmd = js_trim command in
      if rtest SHELL_CONTROL_OPERATOR_PATTERN cmd
      then Inr (Denied ''Command is blocked by runtime security policy: shell control operators are not allowed.''
        None None)
      else if \<not> prefix_allowed allowedCommands cmd
      then Inr (Denied ''Command is not allowed by .loops/config.yaml tests.allowed_commands.'' None None)
      else case network_match profile cmd of
        Some tool \<Rightarrow> Inr (Denied (''Command is blocked by runtime security policy: network access via ''
          @ tool @ '' requires an approved override.'') (Some tool) None)
      | None \<Rightarrow> (case write_match regexp profile cmd of
          Inl e \<Rightarrow> Inl e
        | Inr (Some l) \<Rightarrow> Inr (Denied (''Command is blocked by runtime security policy: write pattern ''
            @ l @ '' escapes the target repo scope.'') None (Some l))
        | Inr None \<Rightarrow> Inr Allowed))"

subsection \<open>Running one command\<close>

definition blockedCommand :: "string \<Rightarrow> string \<Rightarrow> command_result" where
  "blockedCommand command reason = \<lparr>cr_command = command, cr_exitCode = Some 126, cr_durationMs = 0,
     cr_stdout = [], cr_stderr = reason\<rparr>"

text \<open>\<open>length\<close> and \<open>slice(0, n)\<close> in UTF-16 units; half a surrogate pair is written as U+FFFD.\<close>

fun utf16_units :: "nat \<times> string \<Rightarrow> nat" where
  "utf16_units (p, bs) = (if p \<ge> 65536 then 2 else 1)"

definition js_length :: "string \<Rightarrow> nat" where
  "js_length s = sum_list (map utf16_units (utf8_chunks s))"

fun js_slice0 :: "nat \<Rightarrow> (nat \<times> string) list \<Rightarrow> string" where
  "js_slice0 n [] = []"
| "js_slice0 n (c # cs) = (if n = 0 then []
     else if utf16_units c \<le> n then snd c @ js_slice0 (n - utf16_units c) cs
     else [CHR 0xEF, CHR 0xBF, CHR 0xBD])"

definition truncate_output :: "string \<Rightarrow> string" where
  "truncate_output s = (if js_length s \<le> OUTPUT_LIMIT then s
     else js_slice0 OUTPUT_LIMIT (utf8_chunks s) @ [CHR 0x0A] @ ''[truncated ''
       @ nat_str (js_length s - OUTPUT_LIMIT) @ '' chars]'')"

fun result_of :: "string \<Rightarrow> nat \<Rightarrow> js_error + exec_outcome \<Rightarrow> command_result" where
  "result_of command duration (Inr (Exec_Ok out err)) = \<lparr>cr_command = command, cr_exitCode = Some 0,
     cr_durationMs = duration, cr_stdout = truncate_output out, cr_stderr = truncate_output err\<rparr>"
| "result_of command duration (Inr (Exec_Failed code out err msg signal)) = \<lparr>cr_command = command,
     cr_exitCode = code, cr_durationMs = duration, cr_stdout = truncate_output (case_option [] id out),
     cr_stderr = truncate_output (case err of Some s \<Rightarrow> s | None \<Rightarrow>
       (case msg of Some s \<Rightarrow> s | None \<Rightarrow> case_option [] id signal))\<rparr>"
| "result_of command duration (Inl e) = \<lparr>cr_command = command, cr_exitCode = None,
     cr_durationMs = duration, cr_stdout = truncate_output [], cr_stderr = truncate_output (error_message e)\<rparr>"

definition runCommandLocal :: "runner_host \<Rightarrow> string \<Rightarrow> string \<Rightarrow> string \<Rightarrow> (fs, command_result) sm" where
  "runCommandLocal host command cwd token =
     sbind now (\<lambda>started.
     sbind (attempt (rh_resolve host cwd)) (\<lambda>safe. case safe of
       Inl e \<Rightarrow> sbind now (\<lambda>t. sret (result_of command (t - started) (Inl e)))
     | Inr safeCwd \<Rightarrow> sbind (attempt (rh_shell host command safeCwd token)) (\<lambda>outcome.
         sbind now (\<lambda>t. sret (result_of command (t - started) outcome)))))"

text \<open>In docker the repository is resolved outside the \<open>try\<close>: its error is thrown on.\<close>

definition runCommandInDocker ::
    "runner_host \<Rightarrow> (string \<Rightarrow> string \<Rightarrow> string \<Rightarrow> bool \<Rightarrow> bool \<Rightarrow> exec_outcome call) \<Rightarrow> sandbox_profile
     \<Rightarrow> string \<Rightarrow> string \<Rightarrow> string \<Rightarrow> (fs, command_result) sm" where
  "runCommandInDocker host docker profile command cwd token =
     sbind now (\<lambda>started.
     sbind (call (rh_resolve host cwd)) (\<lambda>safeCwd.
     sbind (attempt (docker command safeCwd token (sx_network profile = PROFILE_DENY)
         (sx_writeScope profile = PROFILE_ARTIFACT_ONLY))) (\<lambda>outcome.
     sbind now (\<lambda>t. sret (result_of command (t - started) outcome)))))"

definition strict :: "sandbox_profile option \<Rightarrow> bool" where
  "strict profile \<longleftrightarrow> map_option sx_shellEnforcement profile = Some PROFILE_STRICT_ALLOWLIST"

definition runCommand ::
    "runner_host \<Rightarrow> sandbox_profile option \<Rightarrow> string \<Rightarrow> string \<Rightarrow> string \<Rightarrow> (fs, command_result) sm" where
  "runCommand host profile command cwd token =
     (case (profile, rh_docker host) of
        (Some p, Some docker) \<Rightarrow> if strict profile then runCommandInDocker host docker p command cwd token
          else runCommandLocal host command cwd token
      | _ \<Rightarrow> runCommandLocal host command cwd token)"

definition redactCanary :: "string \<Rightarrow> string \<Rightarrow> string" where
  "redactCanary value token = js_join CANARY_REDACTION (js_split token value)"

definition inspectCanary :: "command_result \<Rightarrow> string \<Rightarrow> command_result \<times> bool" where
  "inspectCanary result token =
     (let leaked = (contains token (cr_stdout result) \<or> contains token (cr_stderr result)) in
      (if leaked then result\<lparr>cr_stdout := redactCanary (cr_stdout result) token,
         cr_stderr := redactCanary (cr_stderr result) token\<rparr> else result, leaked))"

subsection \<open>Coverage\<close>

text \<open>\<open>[0-9]+(?:\.[0-9]+)?\<close> at the start of a string.\<close>

definition decimal_prefix :: "string \<Rightarrow> string" where
  "decimal_prefix s = (let ds = takeWhile is_digit s in
     if ds = [] then []
     else ds @ (case dropWhile is_digit s of
       c # q \<Rightarrow> if c = CHR ''.'' \<and> takeWhile is_digit q \<noteq> [] then c # takeWhile is_digit q else []
     | [] \<Rightarrow> []))"

definition decimal_val :: "string \<Rightarrow> rat" where
  "decimal_val s = (let ds = takeWhile is_digit s; fr = drop (length ds + 1) s in
     of_nat (digits_val (ds @ fr)) / 10 ^ length fr)"

fun metric_at :: "string \<Rightarrow> string \<Rightarrow> rat option" where
  "metric_at label s = (if starts_with label s
     then (case dropWhile is_space (drop (length label) s) of
         c # cs \<Rightarrow> if c = CHR '':'' \<or> c = CHR ''|''
           then (let d = decimal_prefix (dropWhile is_space cs) in if d = [] then None else Some (decimal_val d))
           else None
       | [] \<Rightarrow> None)
     else None)"

fun matchCoverageMetric :: "string \<Rightarrow> string \<Rightarrow> rat option" where
  "matchCoverageMetric label [] = metric_at label []"
| "matchCoverageMetric label (c # cs) = (case metric_at label (c # cs) of
     Some v \<Rightarrow> Some v | None \<Rightarrow> matchCoverageMetric label cs)"

text \<open>\<open>Number(s)\<close> on a table cell, \<open>None\<close> when it is not finite: a blank is 0, a decimal literal with
  sign, fraction and exponent is its value; hexadecimal, octal and binary literals are read by
  their digits.\<close>

fun digit_in :: "nat \<Rightarrow> char \<Rightarrow> nat option" where
  "digit_in base c = (let n = (of_char (lower_char c) :: nat);
       v = (if 48 \<le> n \<and> n \<le> 57 then n - 48 else if 97 \<le> n \<and> n \<le> 122 then n - 87 else base) in
     if v < base then Some v else None)"

definition radix_val :: "nat \<Rightarrow> string \<Rightarrow> rat option" where
  "radix_val base s = (if s \<noteq> [] \<and> list_all (\<lambda>c. digit_in base c \<noteq> None) s
     then Some (of_nat (foldl (\<lambda>a c. base * a + case_option 0 id (digit_in base c)) 0 s)) else None)"

definition exponent_val :: "string \<Rightarrow> int option" where
  "exponent_val s = (let (neg, ds) = (case s of c # cs \<Rightarrow>
         if c = CHR ''-'' then (True, cs) else if c = CHR ''+'' then (False, cs) else (False, s)
       | [] \<Rightarrow> (False, [])) in
     if ds \<noteq> [] \<and> list_all is_digit ds
     then Some (if neg then - int (digits_val ds) else int (digits_val ds)) else None)"

definition unsigned_decimal :: "string \<Rightarrow> rat option" where
  "unsigned_decimal s =
     (let ds = takeWhile is_digit s; r = dropWhile is_digit s;
          fr = (case r of c # q \<Rightarrow> if c = CHR ''.'' then takeWhile is_digit q else [] | [] \<Rightarrow> []);
          r' = (case r of c # q \<Rightarrow> if c = CHR ''.'' then dropWhile is_digit q else r | [] \<Rightarrow> []);
          m = of_nat (digits_val (ds @ fr)) / 10 ^ length fr in
      if ds = [] \<and> fr = [] then None
      else case r' of [] \<Rightarrow> Some m
        | c # e \<Rightarrow> if c = CHR ''e'' \<or> c = CHR ''E''
            then map_option (\<lambda>k. if k \<ge> 0 then m * 10 ^ nat k else m / 10 ^ nat (- k)) (exponent_val e)
            else None)"

definition js_number :: "string \<Rightarrow> rat option" where
  "js_number s = (let t = js_trim s in
     if t = [] then Some 0
     else if starts_with ''0x'' t \<or> starts_with ''0X'' t then radix_val 16 (drop 2 t)
     else if starts_with ''0o'' t \<or> starts_with ''0O'' t then radix_val 8 (drop 2 t)
     else if starts_with ''0b'' t \<or> starts_with ''0B'' t then radix_val 2 (drop 2 t)
     else (case t of c # cs \<Rightarrow> if c = CHR ''-'' then map_option uminus (unsigned_decimal cs)
         else if c = CHR ''+'' then unsigned_decimal cs else unsigned_decimal t
       | [] \<Rightarrow> None))"

definition is_all_files_row :: "string \<Rightarrow> bool" where
  "is_all_files_row line \<longleftrightarrow> starts_with ''all files'' (to_lower line)
     \<and> (case dropWhile is_space (drop 9 line) of c # _ \<Rightarrow> c = CHR ''|'' | [] \<Rightarrow> False)"

definition matchCoverageTable :: "string \<Rightarrow> coverage_metric option" where
  "matchCoverageTable text =
     (case List.find is_all_files_row (map js_trim (js_split [CHR 0x0A] text)) of
        None \<Rightarrow> None
      | Some row \<Rightarrow>
          let cells = List.map_filter (\<lambda>cell. js_number (replace_first ''%'' [] (js_trim cell)))
                (js_split ''|'' row) in
          if length cells < 4 then None
          else Some \<lparr>cv_lines = Some (cells ! 3), cv_branches = Some (cells ! 1)\<rparr>)"

definition extractCoverage :: "command_result list \<Rightarrow> coverage_metric option" where
  "extractCoverage results =
     (let text = js_join [CHR 0x0A] (map (\<lambda>r. cr_stdout r @ [CHR 0x0A] @ cr_stderr r) results);
          table = matchCoverageTable text;
          pick = (\<lambda>label get. case matchCoverageMetric label (to_lower text) of
            Some v \<Rightarrow> Some v | None \<Rightarrow> Option.bind table get);
          ls = pick ''lines'' cv_lines; bs = pick ''branches'' cv_branches in
      if ls = None \<and> bs = None then None else Some \<lparr>cv_lines = ls, cv_branches = bs\<rparr>)"

definition floor_failure ::
    "(rat \<Rightarrow> string) \<Rightarrow> string \<Rightarrow> string \<Rightarrow> rat option \<Rightarrow> rat option \<Rightarrow> failed_test list" where
  "floor_failure num name label floor_pct actual = (case floor_pct of
     None \<Rightarrow> []
   | Some fl \<Rightarrow> (case actual of
       None \<Rightarrow> [\<lparr>ft_name = name,
         ft_reason = label @ '' coverage is missing while floor '' @ num fl @ ''% is configured.''\<rparr>]
     | Some v \<Rightarrow> if v < fl then [\<lparr>ft_name = name, ft_reason = label @ '' coverage '' @ num v
         @ ''% is below floor '' @ num fl @ ''%.''\<rparr>] else []))"

definition coverageFailures ::
    "(rat \<Rightarrow> string) \<Rightarrow> coverage_metric option \<Rightarrow> tests_config \<Rightarrow> failed_test list" where
  "coverageFailures num coverage cfg =
     floor_failure num ''coverage:lines'' ''Lines'' (tc_floorLines cfg) (Option.bind coverage cv_lines)
     @ floor_failure num ''coverage:branches'' ''Branches'' (tc_floorBranches cfg)
         (Option.bind coverage cv_branches)"

subsection \<open>The test run\<close>

record run_acc =
  ra_results :: "command_result list"
  ra_leaked :: "string list"
  ra_network :: "string list"
  ra_write :: "string list"
  ra_executed :: nat

definition list_of :: "'a option \<Rightarrow> 'a list" where
  "list_of x = (case x of None \<Rightarrow> [] | Some y \<Rightarrow> [y])"

text \<open>One turn of the loop over the commands.\<close>

definition run_step ::
    "runner_host \<Rightarrow> string list \<Rightarrow> sandbox_profile option \<Rightarrow> string \<Rightarrow> string \<Rightarrow> string \<Rightarrow> run_acc
     \<Rightarrow> (fs, run_acc) sm" where
  "run_step host allowed profile cwd token command acc =
     (case evaluateCommandPolicy (rh_regexp host) allowed profile command of
        Inl e \<Rightarrow> sthrow e
      | Inr (Denied reason network write) \<Rightarrow> sret (acc\<lparr>
          ra_results := ra_results acc @ [blockedCommand command reason],
          ra_network := ra_network acc @ list_of network, ra_write := ra_write acc @ list_of write\<rparr>)
      | Inr Allowed \<Rightarrow> sbind (runCommand host profile command cwd token) (\<lambda>result.
          let (inspected, leaked) = inspectCanary result token in
          sret (acc\<lparr>ra_results := ra_results acc @ [inspected],
            ra_leaked := ra_leaked acc @ (if leaked then [command] else []),
            ra_executed := ra_executed acc + 1\<rparr>)))"

fun run_commands ::
    "runner_host \<Rightarrow> string list \<Rightarrow> sandbox_profile option \<Rightarrow> string \<Rightarrow> string \<Rightarrow> string list \<Rightarrow> run_acc
     \<Rightarrow> (fs, run_acc) sm" where
  "run_commands host allowed profile cwd token [] acc = sret acc"
| "run_commands host allowed profile cwd token (c # cs) acc =
     sbind (run_step host allowed profile cwd token c acc) (run_commands host allowed profile cwd token cs)"

definition resolveCanaryStatus :: "nat \<Rightarrow> string list \<Rightarrow> canary_status" where
  "resolveCanaryStatus executed leaked =
     (if executed = 0 then CANARY_NOT_RUN else if leaked \<noteq> [] then CANARY_LEAKED else CANARY_ARMED)"

definition buildPolicySnapshot ::
    "string \<Rightarrow> nat \<Rightarrow> string list \<Rightarrow> canary_status \<Rightarrow> run_acc \<Rightarrow> timestamp \<Rightarrow> sandbox_profile option
     \<Rightarrow> runtime_security_policy" where
  "buildPolicySnapshot shardId r allowed canaryStatus acc capturedAt profile = \<lparr>
     rsp_id = ''runtime-security-'' @ shardId @ ''-r'' @ nat_str r,
     rsp_sandboxBackend = Some (if strict profile then BACKEND_DOCKER else BACKEND_LOCAL_SHELL),
     rsp_shellStrategy = (if strict profile then STRAT_STRICT_ALLOWLIST else STRAT_ALLOWLIST),
     rsp_allowedCommands = allowed,
     rsp_blockedOperators = [''&&'', ''||'', '';'', ''|'', ''<'', ''>'', [CHR 0x60], [CHR 0x24, CHR ''(''], ''newline''],
     rsp_networkStatus = (if ra_network acc \<noteq> [] then NET_BLOCKED
       else if map_option sx_network profile = Some PROFILE_NET_APPROVAL then NET_ALLOWED_BY_OVERRIDE
       else NET_NOT_REQUESTED),
     rsp_networkBlockedTools = js_set (ra_network acc),
     rsp_networkSandboxEnforced = Some (strict profile),
     rsp_writeBlockedPatterns = js_set (ra_write acc),
     rsp_writeSandboxEnforced = Some (strict profile
       \<and> map_option sx_writeScope profile = Some PROFILE_ARTIFACT_ONLY),
     rsp_approvalsRequiredFor = [''shell-control-operator'', ''command-prefix-outside-allowlist'',
       ''network-command'', ''write-outside-workspace''],
     rsp_canaryStatus = canaryStatus, rsp_canaryLeakedInCommands = ra_leaked acc,
     rsp_capturedAt = capturedAt\<rparr>"

definition createCanaryToken :: "string \<Rightarrow> string \<Rightarrow> nat \<Rightarrow> string \<Rightarrow> string" where
  "createCanaryToken i k r uuid =
     ''loops-canary:'' @ i @ '':'' @ k @ '':r'' @ nat_str r @ '':'' @ uuid"

text \<open>\<open>Command exited with ${exitCode}\<close>, and the reasons a run fails for.\<close>

definition exit_code_str :: "int option \<Rightarrow> string" where
  "exit_code_str c = (case c of None \<Rightarrow> ''null''
     | Some n \<Rightarrow> if n < 0 then CHR ''-'' # nat_str (nat (- n)) else nat_str (nat n))"

definition command_failed :: "command_result \<Rightarrow> bool" where
  "command_failed r \<longleftrightarrow> cr_exitCode r \<noteq> Some 0"

definition command_failure :: "command_result \<Rightarrow> failed_test" where
  "command_failure r = \<lparr>ft_name = cr_command r,
     ft_reason = (if cr_stderr r \<noteq> [] then cr_stderr r else if cr_stdout r \<noteq> [] then cr_stdout r
       else ''Command exited with '' @ exit_code_str (cr_exitCode r))\<rparr>"

definition canary_failure :: "string \<Rightarrow> failed_test" where
  "canary_failure command = \<lparr>ft_name = ''runtime-security:canary'',
     ft_reason = ''Runtime canary was leaked by command '' @ [CHR 0x22] @ command @ [CHR 0x22]
       @ ''. Output was redacted before persistence.''\<rparr>"

definition failed_tests :: "(rat \<Rightarrow> string) \<Rightarrow> tests_config \<Rightarrow> run_acc \<Rightarrow> failed_test list" where
  "failed_tests num cfg acc = map command_failure (filter command_failed (ra_results acc))
     @ coverageFailures num (extractCoverage (ra_results acc)) cfg
     @ map canary_failure (ra_leaked acc)"

definition test_record ::
    "(rat \<Rightarrow> string) \<Rightarrow> tests_config \<Rightarrow> string \<Rightarrow> string \<Rightarrow> nat \<Rightarrow> string \<Rightarrow> string list
     \<Rightarrow> sandbox_profile option \<Rightarrow> run_acc \<Rightarrow> timestamp \<Rightarrow> timestamp \<Rightarrow> loop_test_record" where
  "test_record num cfg i k r runner allowed profile acc created idTime =
     (let failures = failed_tests num cfg acc in
      \<lparr>tr_id = ''test-record-'' @ k @ ''-r'' @ nat_str r @ ''-'' @ nat_str idTime,
       tr_issueId = i, tr_shardId = k, tr_round = r, tr_runner = runner,
       tr_status = (if failures = [] then TEST_PASS else TEST_FAIL),
       tr_commands = ra_results acc, tr_coverage = extractCoverage (ra_results acc),
       tr_failedTests = failures,
       tr_fixInstructions = (if failures \<noteq> []
         then [([CHR 0xE6, CHR 0xA3, CHR 0x80, CHR 0xE6, CHR 0x9F, CHR 0xA5, CHR 0xE5, CHR 0xA4, CHR 0xB1, CHR 0xE8, CHR 0xB4, CHR 0xA5, CHR 0xE5, CHR 0x91, CHR 0xBD, CHR 0xE4, CHR 0xBB, CHR 0xA4, CHR 0xE8, CHR 0xBE, CHR 0x93, CHR 0xE5, CHR 0x87, CHR 0xBA, CHR 0xE4, CHR 0xB8, CHR 0x8E, CHR 0xE8, CHR 0xA6, CHR 0x86, CHR 0xE7, CHR 0x9B, CHR 0x96, CHR 0xE7, CHR 0x8E, CHR 0x87, CHR 0xE9, CHR 0x98, CHR 0x88, CHR 0xE5, CHR 0x80, CHR 0xBC, CHR 0xEF, CHR 0xBC, CHR 0x8C, CHR 0xE4, CHR 0xBF, CHR 0xAE, CHR 0xE5, CHR 0xA4, CHR 0x8D, CHR 0xE5, CHR 0xAE, CHR 0x9E, CHR 0xE7, CHR 0x8E, CHR 0xB0, CHR 0xE6, CHR 0x88, CHR 0x96, CHR 0xE8, CHR 0xA1, CHR 0xA5, CHR 0xE9, CHR 0xBD, CHR 0x90, CHR 0xE6, CHR 0xB5, CHR 0x8B, CHR 0xE8, CHR 0xAF, CHR 0x95, CHR 0xE7, CHR 0x8E, CHR 0xAF, CHR 0xE5, CHR 0xA2, CHR 0x83, CHR 0xE5, CHR 0x90, CHR 0x8E, CHR 0xE9, CHR 0x87, CHR 0x8D, CHR 0xE6, CHR 0x96, CHR 0xB0, CHR 0xE8, CHR 0xBF, CHR 0x90, CHR 0xE8, CHR 0xA1, CHR 0x8C] @ '' shard tests'' @ [CHR 0xE3, CHR 0x80, CHR 0x82])] else []),
       tr_runtimeSecurityPolicy = Some (buildPolicySnapshot k r allowed
         (resolveCanaryStatus (ra_executed acc) (ra_leaked acc)) acc created profile),
       tr_created = created\<rparr>)"

definition requested_commands :: "loop_run_shard_tests_request option \<Rightarrow> tests_config \<Rightarrow> string list" where
  "requested_commands request cfg = (case Option.bind request rq_commands of
     None \<Rightarrow> tc_defaultCommands cfg
   | Some cs \<Rightarrow> if cs = [] then tc_defaultCommands cfg else cs)"

definition runShardTests ::
    "runner_host \<Rightarrow> string \<Rightarrow> string \<Rightarrow> nat \<Rightarrow> string \<Rightarrow> loop_run_shard_tests_request option
     \<Rightarrow> sandbox_profile option \<Rightarrow> (fs, loop_test_record) sm" where
  "runShardTests host i k r cwd request profile = sbind sget (\<lambda>f.
     let cfg = cf_tests (fs_cfg f);
         allowed = case_option (tc_allowedCommands cfg) id (Option.bind profile sx_allowedCommands) in
     sbind (\<lambda>g. let (uuid, h) = draw g in (Inr uuid, h)) (\<lambda>uuid.
     sbind (run_commands host allowed profile cwd (createCanaryToken i k r uuid)
        (requested_commands request cfg)
        \<lparr>ra_results = [], ra_leaked = [], ra_network = [], ra_write = [], ra_executed = 0\<rparr>) (\<lambda>acc.
     sbind now (\<lambda>created. sbind now (\<lambda>idTime.
     sret (test_record (env_num (fs_env f)) cfg i k r (case_option ''loops-runner'' rq_runner request)
        allowed profile acc created idTime))))))"

end
