(* ===== verification/Runner_Laws.thy ===== *)
theory Runner_Laws
  imports Runner Samples
begin

text \<open>
  What the test runner guarantees: blocked commands never reach the host and fail the run, a run
  passes only if every command exits with 0 and nothing leaked, the canary token never gets into
  the stored output, and what the command policy accepts.
\<close>

subsection \<open>Redaction\<close>

lemma contains_avoid:
  assumes "c \<notin> set t"
  shows "contains t (a @ c # b) \<longleftrightarrow> contains t a \<or> contains t b"
proof
  assume "contains t (a @ c # b)"
  then obtain x y where eq: "a @ c # b = x @ t @ y" by (auto simp: contains_append)
  from eq append_eq_append_conv2 [of a "c # b" x "t @ y"]
  obtain u where "a = x @ u \<and> u @ c # b = t @ y \<or> a @ u = x \<and> c # b = u @ t @ y" by blast
  then show "contains t a \<or> contains t b"
  proof
    assume l: "a = x @ u \<and> u @ c # b = t @ y"
    with append_eq_append_conv2 [of u "c # b" t y]
    obtain v where "u = t @ v \<and> v @ c # b = y \<or> u @ v = t \<and> c # b = v @ y" by blast
    then show ?thesis
    proof
      assume "u = t @ v \<and> v @ c # b = y"
      with l show ?thesis by (auto simp: contains_append)
    next
      assume *: "u @ v = t \<and> c # b = v @ y"
      with assms have "v = []" by (cases v) auto
      with * l have "a = x @ t @ []" by simp
      then show ?thesis by (metis contains_append)
    qed
  next
    assume r: "a @ u = x \<and> c # b = u @ t @ y"
    show ?thesis
    proof (cases u)
      case Nil
      with r assms have "t = []" by (cases t) auto
      then show ?thesis by (cases a) simp_all
    next
      case (Cons e es)
      with r have "b = es @ t @ y" by simp
      then show ?thesis by (auto simp: contains_append)
    qed
  qed
next
  assume "contains t a \<or> contains t b"
  then show "contains t (a @ c # b)"
    by (metis (no_types, lifting) append.assoc append_Cons contains_append)
qed

lemma CANARY_REDACTION_split:
  "CANARY_REDACTION = CHR ''['' # ''LOOPS_RUNTIME_CANARY_REDACTED'' @ [CHR '']'']"
  by (simp add: CANARY_REDACTION_def)

lemma contains_char: "contains t s \<Longrightarrow> c \<in> set t \<Longrightarrow> c \<in> set s"
  by (auto simp: contains_append)

lemma contains_join:
  assumes "CHR ''['' \<notin> set t" "CHR '']'' \<notin> set t" "CHR ''l'' \<in> set t"
  shows "contains t (js_join CANARY_REDACTION ps) \<Longrightarrow> \<exists>p\<in>set ps. contains t p"
proof (induction ps rule: induct_list012)
  case 1
  then have "t = []" by simp
  with assms(3) show ?case by simp
next
  case (3 p q ps)
  have mid: "\<not> contains t ''LOOPS_RUNTIME_CANARY_REDACTED''"
    using contains_char [OF _ assms(3)] by fastforce
  have "contains t (p @ CHR ''['' # (''LOOPS_RUNTIME_CANARY_REDACTED'' @ CHR '']'' #
      js_join CANARY_REDACTION (q # ps)))"
    using 3 by (simp add: CANARY_REDACTION_split)
  then have "contains t p \<or> contains t (js_join CANARY_REDACTION (q # ps))"
    unfolding contains_avoid [OF assms(1)] contains_avoid [OF assms(2)] using mid by blast
  then show ?case using 3 by auto
qed simp

definition early :: "string \<Rightarrow> string \<Rightarrow> string \<Rightarrow> bool" where
  "early t acc s \<longleftrightarrow> (\<exists>a b. rev acc @ s = a @ t @ b \<and> length a < length acc)"

lemma piece_free: "t \<noteq> [] \<Longrightarrow> \<not> early t acc s \<Longrightarrow> \<not> contains t (rev acc)"
proof
  assume t: "t \<noteq> []" and ne: "\<not> early t acc s" and "contains t (rev acc)"
  then obtain a b where eq: "rev acc = a @ t @ b" by (auto simp: contains_append)
  then have "length (rev acc) = length (a @ t @ b)" by simp
  with t have "length a < length acc" by simp
  moreover from eq have "rev acc @ s = a @ t @ (b @ s)" by simp
  ultimately show False using ne unfolding early_def by blast
qed

lemma early_Cons:
  assumes "\<not> early t acc (c # cs)" "\<not> starts_with t (c # cs)"
  shows "\<not> early t (c # acc) cs"
proof
  assume "early t (c # acc) cs"
  then obtain a b where eq: "rev acc @ c # cs = a @ t @ b" and len: "length a \<le> length acc"
    by (auto simp: early_def)
  show False
  proof (cases "length a = length acc")
    case True
    with eq have "c # cs = t @ b" by simp
    with assms(2) show False by simp
  next
    case False
    with eq len assms(1) show False unfolding early_def by (metis le_neq_implies_less)
  qed
qed

lemma split_aux_free:
  "t \<noteq> [] \<Longrightarrow> \<not> early t acc s \<Longrightarrow> p \<in> set (split_aux t acc s) \<Longrightarrow> \<not> contains t p"
proof (induction t acc s arbitrary: p rule: split_aux.induct)
  case (1 t acc)
  then show ?case using piece_free by simp
next
  case (2 t acc c cs)
  show ?case
  proof (cases "starts_with t (c # cs)")
    case True
    have start: "\<not> early t [] x" for x by (simp add: early_def)
    from True "2.prems" have "p = rev acc \<or> p \<in> set (split_aux t [] (drop (length t) (c # cs)))" by simp
    then show ?thesis
      using piece_free [OF "2.prems"(1,2)] "2.IH"(1) [OF _ "2.prems"(1) start] True "2.prems"(1) by blast
  next
    case False
    then show ?thesis using "2.IH"(2) "2.prems" early_Cons by simp
  qed
qed

lemma redact_free:
  assumes "CHR ''['' \<notin> set t" "CHR '']'' \<notin> set t" "CHR ''l'' \<in> set t"
  shows "\<not> contains t (redactCanary v t)"
proof
  assume "contains t (redactCanary v t)"
  then obtain p where "p \<in> set (js_split t v)" "contains t p"
    unfolding redactCanary_def using contains_join [OF assms] by blast
  moreover have "t \<noteq> []" using assms(3) by auto
  moreover have "\<not> early t [] v" by (simp add: early_def)
  ultimately show False unfolding js_split_def using split_aux_free by blast
qed

definition bracket_free :: "string \<Rightarrow> bool" where
  "bracket_free t \<longleftrightarrow> CHR ''['' \<notin> set t \<and> CHR '']'' \<notin> set t"

lemma token_char: "CHR ''l'' \<in> set (createCanaryToken i k r u)"
  by (simp add: createCanaryToken_def)

lemma inspect_free:
  assumes "bracket_free t" "CHR ''l'' \<in> set t" "inspectCanary res t = (res', leaked)"
  shows "\<not> contains t (cr_stdout res') \<and> \<not> contains t (cr_stderr res')"
  using assms redact_free [of t] by (auto simp: inspectCanary_def bracket_free_def Let_def split: if_splits)

subsection \<open>The loop over the commands\<close>

definition ran ::
    "runner_host \<Rightarrow> string list \<Rightarrow> sandbox_profile option \<Rightarrow> string \<Rightarrow> string \<Rightarrow> command_result \<Rightarrow> bool" where
  "ran host allowed profile token c r \<longleftrightarrow>
     (case evaluateCommandPolicy (rh_regexp host) allowed profile c of
        Inl _ \<Rightarrow> False
      | Inr (Denied reason _ _) \<Rightarrow> r = blockedCommand c reason
      | Inr Allowed \<Rightarrow> cr_command r = c
          \<and> (bracket_free token \<longrightarrow> \<not> contains token (cr_stdout r) \<and> \<not> contains token (cr_stderr r)))"

lemma result_of_command [simp]: "cr_command (result_of c n x) = c"
  by (cases "(c, n, x)" rule: result_of.cases) simp_all

lemma runCommand_command: "runCommand host profile c cwd t f = (Inr r, g) \<Longrightarrow> cr_command r = c"
  by (auto simp: runCommand_def runCommandLocal_def runCommandInDocker_def sm_simps
      split: option.splits if_splits prod.splits sum.splits)

lemma inspect_command: "inspectCanary r t = (r', l) \<Longrightarrow> cr_command r' = cr_command r"
  by (auto simp: inspectCanary_def Let_def split: if_splits)

lemma run_step_ok:
  assumes "run_step host allowed profile cwd token c acc f = (Inr acc', g)" "CHR ''l'' \<in> set token"
  shows "\<exists>r. ra_results acc' = ra_results acc @ [r] \<and> ran host allowed profile token c r"
proof (cases "evaluateCommandPolicy (rh_regexp host) allowed profile c")
  case (Inl e)
  with assms show ?thesis by (simp add: run_step_def)
next
  case (Inr p)
  show ?thesis
  proof (cases p)
    case Allowed
    with Inr assms(1) obtain r g' where r: "runCommand host profile c cwd token f = (Inr r, g')"
      by (auto simp: run_step_def sm_simps split: prod.splits sum.splits)
    obtain r' l where i: "inspectCanary r token = (r', l)" by fastforce
    from r i Inr Allowed assms(1) have "ra_results acc' = ra_results acc @ [r']"
      by (auto simp: run_step_def sm_simps)
    moreover have "ran host allowed profile token c r'"
      using Inr Allowed runCommand_command [OF r] inspect_command [OF i] inspect_free [OF _ assms(2) i]
      by (simp add: ran_def)
    ultimately show ?thesis by blast
  next
    case (Denied reason n w)
    with Inr assms(1) show ?thesis by (auto simp: run_step_def ran_def)
  qed
qed

lemma run_commands_ok:
  assumes "CHR ''l'' \<in> set token"
  shows "run_commands host allowed profile cwd token cs acc f = (Inr acc', g) \<Longrightarrow>
    \<exists>rs. ra_results acc' = ra_results acc @ rs \<and> list_all2 (ran host allowed profile token) cs rs"
proof (induction cs arbitrary: acc f)
  case (Cons c cs)
  then obtain acc1 f1 where s: "run_step host allowed profile cwd token c acc f = (Inr acc1, f1)"
    and t: "run_commands host allowed profile cwd token cs acc1 f1 = (Inr acc', g)"
    by (auto simp: sbind_Inr_iff)
  from run_step_ok [OF s assms] Cons.IH [OF t] show ?case by fastforce
qed simp

lemma runShardTests_Inr:
  assumes "runShardTests host i k r cwd request profile f = (Inr rec, g)"
  obtains uuid acc created idTime h h' where
    "run_commands host (case_option (tc_allowedCommands (cf_tests (fs_cfg f))) id (Option.bind profile sx_allowedCommands))
       profile cwd (createCanaryToken i k r uuid) (requested_commands request (cf_tests (fs_cfg f)))
       \<lparr>ra_results = [], ra_leaked = [], ra_network = [], ra_write = [], ra_executed = 0\<rparr> h = (Inr acc, h')"
    and "uuid = env_random (fs_env f) (fs_draws f)"
    and "rec = test_record (env_num (fs_env f)) (cf_tests (fs_cfg f)) i k r
       (case_option ''loops-runner'' rq_runner request)
       (case_option (tc_allowedCommands (cf_tests (fs_cfg f))) id (Option.bind profile sx_allowedCommands))
       profile acc created idTime"
  using assms
  by (auto simp: runShardTests_def sbind_Inr_iff draw_def Let_def)

abbreviation "allowed_list f profile \<equiv>
  case_option (tc_allowedCommands (cf_tests (fs_cfg f))) id (Option.bind profile sx_allowedCommands)"

lemma tests_ran:
  assumes "runShardTests host i k r cwd request profile f = (Inr rec, g)"
  shows "list_all2 (ran host (allowed_list f profile) profile
    (createCanaryToken i k r (env_random (fs_env f) (fs_draws f))))
    (requested_commands request (cf_tests (fs_cfg f))) (tr_commands rec)"
  using assms
proof (rule runShardTests_Inr)
  fix uuid acc created idTime h h'
  let ?t = "createCanaryToken i k r uuid"
  assume run: "run_commands host (allowed_list f profile) profile cwd ?t
      (requested_commands request (cf_tests (fs_cfg f)))
      \<lparr>ra_results = [], ra_leaked = [], ra_network = [], ra_write = [], ra_executed = 0\<rparr> h = (Inr acc, h')"
    and u: "uuid = env_random (fs_env f) (fs_draws f)"
    and rec: "rec = test_record (env_num (fs_env f)) (cf_tests (fs_cfg f)) i k r
       (case_option ''loops-runner'' rq_runner request) (allowed_list f profile) profile acc created idTime"
  from run_commands_ok [OF token_char run] u rec show ?thesis by (auto simp: test_record_def Let_def)
qed

lemma test_record_status [simp]:
  "tr_status (test_record num cfg i k r runner allowed profile acc created idTime) = TEST_PASS
   \<longleftrightarrow> failed_tests num cfg acc = []"
  by (simp add: test_record_def Let_def)

text \<open>C15. A shard test run answers TEST-PASS only if every requested command passed the policy and
  exited with 0; one blocked command is recorded with exit code 126 and fails the run. The
  record has one result per requested command, in order.\<close>

theorem test_pass_sound:
  assumes "runShardTests host i k r cwd request profile f = (Inr rec, g)"
  shows "map cr_command (tr_commands rec) = requested_commands request (cf_tests (fs_cfg f))
    \<and> tr_status rec \<in> {TEST_PASS, TEST_FAIL}
    \<and> (tr_status rec = TEST_PASS \<longrightarrow>
        (\<forall>c\<in>set (requested_commands request (cf_tests (fs_cfg f))).
           evaluateCommandPolicy (rh_regexp host) (allowed_list f profile) profile c = Inr Allowed)
        \<and> (\<forall>res\<in>set (tr_commands rec). cr_exitCode res = Some 0))"
proof -
  let ?cs = "requested_commands request (cf_tests (fs_cfg f))"
  let ?t = "createCanaryToken i k r (env_random (fs_env f) (fs_draws f))"
  note all = tests_ran [OF assms]
  have cmd: "cr_command y = x" if "ran host (allowed_list f profile) profile ?t x y" for x y
    using that by (auto simp: ran_def blockedCommand_def split: sum.splits policy_decision.splits)
  have names: "map cr_command (tr_commands rec) = ?cs"
    using all by (induction rule: list_all2_induct) (auto dest: cmd)
  have status: "tr_status rec \<in> {TEST_PASS, TEST_FAIL}"
    using assms by (rule runShardTests_Inr) (simp add: test_record_def Let_def)
  have zero: "\<forall>res\<in>set (tr_commands rec). cr_exitCode res = Some 0" if "tr_status rec = TEST_PASS"
    using assms
  proof (rule runShardTests_Inr)
    fix uuid acc created idTime
    assume "rec = test_record (env_num (fs_env f)) (cf_tests (fs_cfg f)) i k r
       (case_option ''loops-runner'' rq_runner request) (allowed_list f profile) profile acc created idTime"
    with that show ?thesis
      by (auto simp: failed_tests_def filter_empty_conv command_failed_def test_record_def Let_def split: if_splits)
  qed
  have allowed: "evaluateCommandPolicy (rh_regexp host) (allowed_list f profile) profile c = Inr Allowed"
    if pass: "tr_status rec = TEST_PASS" and c: "c \<in> set ?cs" for c
  proof -
    from c obtain n where n: "n < length ?cs" "?cs ! n = c" by (auto simp: in_set_conv_nth)
    with all have "ran host (allowed_list f profile) profile ?t c (tr_commands rec ! n)"
      by (auto simp: list_all2_conv_all_nth)
    moreover have "tr_commands rec ! n \<in> set (tr_commands rec)"
      using n all by (simp add: list_all2_lengthD [symmetric])
    then have "cr_exitCode (tr_commands rec ! n) = Some 0" using zero [OF pass] by blast
    ultimately show ?thesis
      by (auto simp: ran_def blockedCommand_def split: sum.splits policy_decision.splits)
  qed
  from names status zero allowed show ?thesis by blast
qed

lemma ran_redacted:
  assumes "list_all2 (ran host allowed profile t) cs rs" "bracket_free t" "res \<in> set rs"
    "evaluateCommandPolicy (rh_regexp host) allowed profile (cr_command res) = Inr Allowed"
  shows "\<not> contains t (cr_stdout res) \<and> \<not> contains t (cr_stderr res)"
  using assms(1,3,4)
proof (induction rule: list_all2_induct)
  case (Cons c cs r rs)
  show ?case
  proof (cases "res = r")
    case True
    with Cons have "cr_command r = c"
      by (auto simp: ran_def blockedCommand_def split: sum.splits policy_decision.splits)
    with True Cons assms(2) show ?thesis by (simp add: ran_def)
  next
    case False
    with Cons show ?thesis by simp
  qed
qed simp

text \<open>Whether the host's answer to a command, as the runner gets it (cut at the output limit), holds the
  canary on either stream: in every state in which the command can run, or in some state.\<close>

definition leaks_canary :: "runner_host \<Rightarrow> sandbox_profile option \<Rightarrow> string \<Rightarrow> string \<Rightarrow> string \<Rightarrow> bool" where
  "leaks_canary host profile cwd token c \<longleftrightarrow>
     (\<forall>u res v. runCommand host profile c cwd token u = (Inr res, v) \<longrightarrow>
        contains token (cr_stdout res) \<or> contains token (cr_stderr res))"

definition may_leak_canary :: "runner_host \<Rightarrow> sandbox_profile option \<Rightarrow> string \<Rightarrow> string \<Rightarrow> string \<Rightarrow> bool" where
  "may_leak_canary host profile cwd token c \<longleftrightarrow>
     (\<exists>u res v. runCommand host profile c cwd token u = (Inr res, v)
        \<and> (contains token (cr_stdout res) \<or> contains token (cr_stderr res)))"

lemma inspect_leak:
  "inspectCanary res t = (res', leaked) \<Longrightarrow> leaked \<longleftrightarrow> contains t (cr_stdout res) \<or> contains t (cr_stderr res)"
  by (auto simp: inspectCanary_def Let_def split: if_splits)

lemma run_step_leak:
  assumes "run_step host allowed profile cwd token c acc f = (Inr acc', g)"
  defines "ok \<equiv> evaluateCommandPolicy (rh_regexp host) allowed profile c = Inr Allowed"
  shows "(\<exists>l. ra_leaked acc' = ra_leaked acc @ (if l then [c] else [])
    \<and> (ok \<and> leaks_canary host profile cwd token c \<longrightarrow> l)
    \<and> (l \<longrightarrow> ok \<and> may_leak_canary host profile cwd token c))"
proof (cases ok)
  case True
  with assms(1) obtain r v where r: "runCommand host profile c cwd token f = (Inr r, v)"
    by (auto simp: run_step_def ok_def sm_simps split: prod.splits sum.splits)
  obtain r' l where i: "inspectCanary r token = (r', l)" by fastforce
  from r i True assms(1) have "ra_leaked acc' = ra_leaked acc @ (if l then [c] else [])"
    by (auto simp: run_step_def ok_def sm_simps)
  with True r inspect_leak [OF i] show ?thesis
    by (intro exI [of _ l]) (auto simp: leaks_canary_def may_leak_canary_def)
next
  case False
  then have "ra_leaked acc' = ra_leaked acc"
    using assms(1) by (auto simp: run_step_def ok_def split: sum.splits policy_decision.splits)
  with False show ?thesis by (intro exI [of _ False]) simp
qed

lemma run_commands_leak:
  "run_commands host allowed profile cwd token cs acc f = (Inr acc', g) \<Longrightarrow>
   set (ra_leaked acc) \<union> {c \<in> set cs. evaluateCommandPolicy (rh_regexp host) allowed profile c = Inr Allowed
       \<and> leaks_canary host profile cwd token c} \<subseteq> set (ra_leaked acc')
   \<and> set (ra_leaked acc') \<subseteq> set (ra_leaked acc) \<union>
     {c \<in> set cs. evaluateCommandPolicy (rh_regexp host) allowed profile c = Inr Allowed
       \<and> may_leak_canary host profile cwd token c}"
proof (induction cs arbitrary: acc f)
  case (Cons c cs)
  then obtain acc1 f1 where s: "run_step host allowed profile cwd token c acc f = (Inr acc1, f1)"
    and t: "run_commands host allowed profile cwd token cs acc1 f1 = (Inr acc', g)"
    by (auto simp: sbind_Inr_iff)
  from run_step_leak [OF s] obtain l where "ra_leaked acc1 = ra_leaked acc @ (if l then [c] else [])"
    "evaluateCommandPolicy (rh_regexp host) allowed profile c = Inr Allowed
       \<and> leaks_canary host profile cwd token c \<longrightarrow> l"
    "l \<longrightarrow> evaluateCommandPolicy (rh_regexp host) allowed profile c = Inr Allowed
       \<and> may_leak_canary host profile cwd token c" by blast
  with Cons.IH [OF t] show ?case by (auto split: if_splits)
qed simp

text \<open>C25. The canary token of a test run: let the token hold no square bracket (issue ids, shard ids and
  UUIDs give such tokens). Then the stored output of every command that was run is free of it. The run
  fails, and lists the command as a failed test and in the policy snapshot, for every requested and
  allowed command whose output carries the token, on stdout or on stderr; and the
  snapshot lists no command that was not requested and allowed or whose output cannot carry it.\<close>

theorem canary_redacted:
  assumes "runShardTests host i k r cwd request profile f = (Inr rec, g)"
    and "bracket_free (createCanaryToken i k r (env_random (fs_env f) (fs_draws f)))"
  shows "(\<forall>res\<in>set (tr_commands rec).
      evaluateCommandPolicy (rh_regexp host) (allowed_list f profile) profile (cr_command res) = Inr Allowed \<longrightarrow>
      \<not> contains (createCanaryToken i k r (env_random (fs_env f) (fs_draws f))) (cr_stdout res)
      \<and> \<not> contains (createCanaryToken i k r (env_random (fs_env f) (fs_draws f))) (cr_stderr res))
    \<and> (\<exists>p. tr_runtimeSecurityPolicy rec = Some p
      \<and> (\<forall>c\<in>set (requested_commands request (cf_tests (fs_cfg f))).
          evaluateCommandPolicy (rh_regexp host) (allowed_list f profile) profile c = Inr Allowed
          \<and> leaks_canary host profile cwd (createCanaryToken i k r (env_random (fs_env f) (fs_draws f))) c \<longrightarrow>
          c \<in> set (rsp_canaryLeakedInCommands p) \<and> tr_status rec = TEST_FAIL
          \<and> canary_failure c \<in> set (tr_failedTests rec))
      \<and> (\<forall>c\<in>set (rsp_canaryLeakedInCommands p).
          tr_status rec = TEST_FAIL \<and> canary_failure c \<in> set (tr_failedTests rec)
          \<and> c \<in> set (requested_commands request (cf_tests (fs_cfg f)))
          \<and> evaluateCommandPolicy (rh_regexp host) (allowed_list f profile) profile c = Inr Allowed
          \<and> may_leak_canary host profile cwd (createCanaryToken i k r (env_random (fs_env f) (fs_draws f))) c))"
    (is "?free \<and> ?listed")
proof (rule conjI)
  show ?free using ran_redacted [OF tests_ran [OF assms(1)] assms(2)] by blast
  from assms(1) show ?listed
  proof (rule runShardTests_Inr)
    fix uuid acc created idTime h h'
    assume run: "run_commands host (allowed_list f profile) profile cwd (createCanaryToken i k r uuid)
        (requested_commands request (cf_tests (fs_cfg f)))
        \<lparr>ra_results = [], ra_leaked = [], ra_network = [], ra_write = [], ra_executed = 0\<rparr> h = (Inr acc, h')"
      and u: "uuid = env_random (fs_env f) (fs_draws f)"
      and rec: "rec = test_record (env_num (fs_env f)) (cf_tests (fs_cfg f)) i k r
         (case_option ''loops-runner'' rq_runner request) (allowed_list f profile) profile acc created idTime"
    have fail: "tr_status rec = TEST_FAIL \<and> canary_failure c \<in> set (tr_failedTests rec)"
      if "c \<in> set (ra_leaked acc)" for c
      using that unfolding rec by (auto simp: test_record_def failed_tests_def Let_def)
    have "\<exists>p. tr_runtimeSecurityPolicy rec = Some p \<and> rsp_canaryLeakedInCommands p = ra_leaked acc"
      unfolding rec by (simp add: test_record_def buildPolicySnapshot_def Let_def)
    then obtain p where p: "tr_runtimeSecurityPolicy rec = Some p" "rsp_canaryLeakedInCommands p = ra_leaked acc"
      by blast
    show ?listed
      using run_commands_leak [OF run] fail p unfolding u by (intro exI [of _ p]) auto
  qed
qed

text \<open>Two hosts that answer alike on the commands the policy allows.\<close>

definition same_on_allowed :: "string list \<Rightarrow> sandbox_profile option \<Rightarrow> runner_host \<Rightarrow> runner_host \<Rightarrow> bool" where
  "same_on_allowed allowed profile h1 h2 \<longleftrightarrow>
     rh_resolve h1 = rh_resolve h2 \<and> rh_regexp h1 = rh_regexp h2
     \<and> (\<forall>c. evaluateCommandPolicy (rh_regexp h1) allowed profile c = Inr Allowed \<longrightarrow>
          rh_shell h1 c = rh_shell h2 c
          \<and> map_option (\<lambda>d. d c) (rh_docker h1) = map_option (\<lambda>d. d c) (rh_docker h2))"

lemma runCommand_cong:
  assumes "rh_resolve h1 = rh_resolve h2" "rh_shell h1 c = rh_shell h2 c"
    "map_option (\<lambda>d. d c) (rh_docker h1) = map_option (\<lambda>d. d c) (rh_docker h2)"
  shows "runCommand h1 profile c cwd t = runCommand h2 profile c cwd t"
proof -
  have l: "runCommandLocal h1 c cwd t = runCommandLocal h2 c cwd t"
    unfolding runCommandLocal_def assms(1,2) ..
  show ?thesis
  proof (cases "rh_docker h1")
    case None
    with assms have "rh_docker h2 = None" by (cases "rh_docker h2") simp_all
    with None l show ?thesis by (simp add: runCommand_def split: option.splits)
  next
    case (Some d1)
    with assms obtain d2 where "rh_docker h2 = Some d2" "d1 c = d2 c" by (cases "rh_docker h2") auto
    with Some l assms(1) show ?thesis
      by (simp add: runCommand_def runCommandInDocker_def split: option.splits)
  qed
qed

lemma run_commands_cong:
  assumes "same_on_allowed allowed profile h1 h2"
  shows "run_commands h1 allowed profile cwd t cs acc = run_commands h2 allowed profile cwd t cs acc"
proof (induction cs arbitrary: acc)
  case (Cons c cs)
  have "run_step h1 allowed profile cwd t c acc = run_step h2 allowed profile cwd t c acc"
    using assms runCommand_cong [of h1 h2 c profile cwd t]
    by (auto simp: run_step_def same_on_allowed_def split: sum.splits policy_decision.splits)
  moreover have "run_commands h1 allowed profile cwd t cs = run_commands h2 allowed profile cwd t cs"
    using Cons.IH by (simp add: fun_eq_iff)
  ultimately show ?case by simp
qed simp

text \<open>C14. Commands that the policy does not allow never reach the host: the outcome of a run does not
  depend on what the shell or the container would do with them.\<close>

theorem blocked_commands_not_run:
  assumes "same_on_allowed (allowed_list f profile) profile h1 h2"
  shows "runShardTests h1 i k r cwd request profile f = runShardTests h2 i k r cwd request profile f"
  unfolding runShardTests_def Let_def
  using run_commands_cong [OF assms] by (simp add: sbind_app)

subsection \<open>The command policy\<close>

lemma find_None_pairs: "map_option fst (List.find (\<lambda>(_, p). rtest p cmd) (ps @ qs)) = None
  \<Longrightarrow> (l, p) \<in> set ps \<Longrightarrow> \<not> rtest p cmd"
  by (fastforce simp: find_None_iff)

lemma write_match_None:
  "write_match regexp profile cmd = Inr None \<Longrightarrow> (l, p) \<in> set WRITE_ESCAPE_PATTERNS \<Longrightarrow> \<not> rtest p cmd"
  by (fastforce simp: write_match_def find_None_iff split: sum.splits)

text \<open>An allowed command has no shell control operator of the list, starts with an allowed command,
  and matches none of the network and write-escape patterns.\<close>

theorem command_policy_sound:
  assumes "evaluateCommandPolicy regexp allowed profile command = Inr Allowed"
  shows "set (js_trim command) \<inter> {CHR '';'', CHR ''|'', CHR ''<'', CHR ''>'', CHR 0x60, CHR 0x0D, CHR 0x0A} = {}
    \<and> (\<not> contains ''&&'' (js_trim command) \<and> \<not> contains [CHR 0x24, CHR ''(''] (js_trim command))
    \<and> (\<exists>a\<in>set allowed. js_trim command = js_trim a \<or> starts_with (js_trim a @ '' '') (js_trim command))
    \<and> (\<forall>(l, p)\<in>set NETWORK_COMMAND_PATTERNS \<union> set WRITE_ESCAPE_PATTERNS. \<not> rtest p (js_trim command))"
proof -
  let ?c = "js_trim command"
  from assms have op: "\<not> rtest SHELL_CONTROL_OPERATOR_PATTERN ?c" and pre: "prefix_allowed allowed ?c"
    and net: "network_match profile ?c = None" and wr: "write_match regexp profile ?c = Inr None"
    by (auto simp: evaluateCommandPolicy_def Let_def split: if_splits option.splits sum.splits)
  from op have chars: "set ?c \<inter> {CHR '';'', CHR ''|'', CHR ''<'', CHR ''>'', CHR 0x60, CHR 0x0D, CHR 0x0A} = {}"
    by (auto simp: SHELL_CONTROL_OPERATOR_PATTERN_def rtest_RAlt rtest_RSet rtest_RStr)
  from op have ops: "\<not> contains ''&&'' ?c \<and> \<not> contains [CHR 0x24, CHR ''(''] ?c"
    by (simp add: SHELL_CONTROL_OPERATOR_PATTERN_def rtest_RAlt rtest_RSet rtest_RStr)
  from pre have prefix: "\<exists>a\<in>set allowed. ?c = js_trim a \<or> starts_with (js_trim a @ '' '') ?c"
    by (auto simp: prefix_allowed_def list_ex_iff Let_def)
  have pats: "\<forall>(l, p)\<in>set NETWORK_COMMAND_PATTERNS \<union> set WRITE_ESCAPE_PATTERNS. \<not> rtest p ?c"
  proof (safe)
    fix l p assume "(l, p) \<in> set NETWORK_COMMAND_PATTERNS" "rtest p ?c"
    then show False using net unfolding network_match_def by (metis find_None_pairs)
  next
    fix l p assume "(l, p) \<in> set WRITE_ESCAPE_PATTERNS" "rtest p ?c"
    then show False using write_match_None [OF wr] by blast
  qed
  from chars ops prefix pats show ?thesis by blast
qed

text \<open>What the policy misses: a single \<open>&\<close> is not among the control operators, so a command outside
  the allowlist runs behind an allowed one; and only a path that starts with \<open>../\<close> counts as an
  escape, so \<open>a/../../x\<close> passes. The same command alone, and the same path written from \<open>..\<close>, are
  blocked.\<close>

theorem command_policy_gaps:
  "evaluateCommandPolicy regexp [''pnpm test''] None ''pnpm test & rm -rf x'' = Inr Allowed
   \<and> evaluateCommandPolicy regexp [''pnpm test''] None ''rm -rf x'' \<noteq> Inr Allowed
   \<and> evaluateCommandPolicy regexp [''pnpm test''] None ''pnpm test a/../../x'' = Inr Allowed
   \<and> evaluateCommandPolicy regexp [''pnpm test''] None ''pnpm test ../x'' \<noteq> Inr Allowed"
  by code_simp

subsection \<open>Witnesses\<close>

definition runner_fs :: fs where
  "runner_fs = empty_fs (sample_env\<lparr>env_config := DEFAULT_RUNTIME_CONFIG\<lparr>cf_tests :=
     \<lparr>tc_defaultCommands = [''t''], tc_regressionCommands = [''t''], tc_allowedCommands = [''t''],
      tc_floorLines = None, tc_floorBranches = None\<rparr>\<rparr>\<rparr>)"

text \<open>A shell whose answer, on both streams, depends on the canary alone.\<close>

definition io_host :: "(string \<Rightarrow> string) \<Rightarrow> (string \<Rightarrow> string) \<Rightarrow> runner_host" where
  "io_host out err = \<lparr>rh_resolve = (\<lambda>p n. Inr p),
     rh_shell = (\<lambda>c cwd token n. Inr (Exec_Ok (out token) (err token))), rh_docker = None,
     rh_regexp = (\<lambda>_. None)\<rparr>"

abbreviation echo_host :: "(string \<Rightarrow> string) \<Rightarrow> runner_host" where
  "echo_host out \<equiv> io_host out (\<lambda>_. [])"

definition sample_token :: string where
  "sample_token = createCanaryToken ''i'' ''s'' (Suc 0) ''r''"

definition echo_inspected :: "(string \<Rightarrow> string) \<Rightarrow> (string \<Rightarrow> string) \<Rightarrow> nat \<Rightarrow> command_result \<times> bool" where
  "echo_inspected out err d =
     inspectCanary (result_of ''t'' d (Inr (Exec_Ok (out sample_token) (err sample_token)))) sample_token"

definition echo_acc :: "(string \<Rightarrow> string) \<Rightarrow> (string \<Rightarrow> string) \<Rightarrow> nat \<Rightarrow> run_acc" where
  "echo_acc out err d = \<lparr>ra_results = [fst (echo_inspected out err d)],
     ra_leaked = (if snd (echo_inspected out err d) then [''t''] else []), ra_network = [], ra_write = [],
     ra_executed = 1\<rparr>"

lemma runner_fs_facts:
  "requested_commands None (cf_tests (fs_cfg runner_fs)) = [''t'']" "allowed_list runner_fs None = [''t'']"
  "env_random (fs_env runner_fs) (fs_draws runner_fs) = ''r''"
  "evaluateCommandPolicy (\<lambda>_. None) [''t''] None ''t'' = Inr Allowed"
  by code_simp+

lemma token_facts:
  "truncate_output ''ok'' = ''ok''" "truncate_output [] = []" "truncate_output sample_token = sample_token"
  "\<not> contains sample_token ''ok''" "\<not> contains sample_token []" "bracket_free sample_token"
  "contains sample_token sample_token"
proof -
  have tok: "sample_token = ''loops-canary:i:s:r1:r''" by code_simp
  have "js_length ''ok'' = 2" "js_length [] = 0" by (simp_all add: js_length_def utf8_len_def utf8_point_def)
  moreover have "js_length sample_token = 21"
    unfolding tok by (simp add: js_length_def utf8_len_def utf8_point_def)
  ultimately show "truncate_output ''ok'' = ''ok''" "truncate_output [] = []" "truncate_output sample_token = sample_token"
    by (simp_all add: truncate_output_def OUTPUT_LIMIT_def)
qed code_simp+

lemma echo_step:
  "run_commands (io_host out err) [''t''] None ''/r'' sample_token [''t'']
     \<lparr>ra_results = [], ra_leaked = [], ra_network = [], ra_write = [], ra_executed = 0\<rparr> f
   = (Inr (echo_acc out err (clock (tick (tick (tick f))) - clock f)), tick (tick (tick (tick f))))"
  using runner_fs_facts(4)
  by (simp add: run_step_def io_host_def runCommand_def runCommandLocal_def attempt_def now_def sbind_app
      echo_acc_def echo_inspected_def case_prod_beta)

lemma echo_run:
  "\<exists>t0 t1 d g. runShardTests (io_host out err) ''i'' ''s'' 1 ''/r'' None None runner_fs
     = (Inr (test_record (env_num (fs_env runner_fs)) (cf_tests (fs_cfg runner_fs)) ''i'' ''s'' 1
         ''loops-runner'' [''t''] None (echo_acc out err d) t0 t1), g)"
proof -
  let ?f = "runner_fs\<lparr>fs_draws := Suc (fs_draws runner_fs)\<rparr>"
  show ?thesis
    using runner_fs_facts echo_step [of out err ?f]
    by (simp add: runShardTests_def Let_def draw_def now_def sbind_app sample_token_def
        del: run_commands.simps) blast
qed

theorem test_pass_sound_witness:
  "\<exists>rec g. runShardTests (echo_host (\<lambda>_. ''ok'')) ''i'' ''s'' 1 ''/r'' None None runner_fs = (Inr rec, g)
     \<and> tr_status rec = TEST_PASS \<and> map cr_command (tr_commands rec) = [''t'']
     \<and> (\<forall>res\<in>set (tr_commands rec). cr_exitCode res = Some 0)"
proof -
  obtain t0 t1 d g where run: "runShardTests (echo_host (\<lambda>_. ''ok'')) ''i'' ''s'' 1 ''/r'' None None runner_fs
     = (Inr (test_record (env_num (fs_env runner_fs)) (cf_tests (fs_cfg runner_fs)) ''i'' ''s'' 1
         ''loops-runner'' [''t''] None (echo_acc (\<lambda>_. ''ok'') (\<lambda>_. []) d) t0 t1), g)"
    using echo_run by blast
  have "\<not> snd (echo_inspected (\<lambda>_. ''ok'') (\<lambda>_. []) d)" "\<not> command_failed (fst (echo_inspected (\<lambda>_. ''ok'') (\<lambda>_. []) d))"
    using token_facts by (simp_all add: echo_inspected_def inspectCanary_def command_failed_def)
  moreover have "tc_floorLines (cf_tests (fs_cfg runner_fs)) = None" "tc_floorBranches (cf_tests (fs_cfg runner_fs)) = None"
    by (simp_all add: runner_fs_def empty_fs_def sample_env_def)
  ultimately have "failed_tests (env_num (fs_env runner_fs)) (cf_tests (fs_cfg runner_fs)) (echo_acc (\<lambda>_. ''ok'') (\<lambda>_. []) d) = []"
    by (simp add: failed_tests_def coverageFailures_def floor_failure_def echo_acc_def)
  then show ?thesis
    using run test_pass_sound [OF run] runner_fs_facts(1) by auto
qed

lemma io_host_leaks:
  assumes "contains sample_token (truncate_output (out sample_token))
    \<or> contains sample_token (truncate_output (err sample_token))"
  shows "leaks_canary (io_host out err) None ''/r'' sample_token ''t''"
  using assms by (auto simp: leaks_canary_def io_host_def runCommand_def runCommandLocal_def attempt_def now_def
      sbind_app)

text \<open>Two hosts leak the token: one on stdout, the other on stderr.\<close>

theorem canary_redacted_witness:
  "\<exists>rec g rec' g'. runShardTests (io_host id (\<lambda>_. [])) ''i'' ''s'' 1 ''/r'' None None runner_fs = (Inr rec, g)
     \<and> tr_status rec = TEST_FAIL \<and> canary_failure ''t'' \<in> set (tr_failedTests rec)
     \<and> runShardTests (io_host (\<lambda>_. []) id) ''i'' ''s'' 1 ''/r'' None None runner_fs = (Inr rec', g')
     \<and> tr_status rec' = TEST_FAIL \<and> canary_failure ''t'' \<in> set (tr_failedTests rec')"
proof -
  have host: "rh_regexp (io_host out err) = (\<lambda>_. None)" for out err by (simp add: io_host_def)
  have leak: "\<exists>rec g. runShardTests (io_host out err) ''i'' ''s'' 1 ''/r'' None None runner_fs = (Inr rec, g)
      \<and> tr_status rec = TEST_FAIL \<and> canary_failure ''t'' \<in> set (tr_failedTests rec)"
    if "leaks_canary (io_host out err) None ''/r'' sample_token ''t''" for out err
  proof -
    obtain rec g where run: "runShardTests (io_host out err) ''i'' ''s'' 1 ''/r'' None None runner_fs = (Inr rec, g)"
      using echo_run by blast
    note red = canary_redacted [OF run, unfolded runner_fs_facts(1-3) host One_nat_def
        sample_token_def [symmetric], OF token_facts(6)]
    show ?thesis using run red runner_fs_facts(4) that by auto
  qed
  show ?thesis
    using leak [OF io_host_leaks, of id "\<lambda>_. []"] leak [OF io_host_leaks, of "\<lambda>_. []" id] token_facts by auto
qed

theorem blocked_commands_not_run_witness:
  "runShardTests (echo_host id) ''i'' ''s'' 1 ''/r'' None None runner_fs
   = runShardTests ((echo_host id)\<lparr>rh_shell := (\<lambda>c cwd token n.
       if c = ''rm'' then Inl (PlainError ''ran'') else Inr (Exec_Ok token []))\<rparr>) ''i'' ''s'' 1 ''/r'' None None runner_fs"
proof (rule blocked_commands_not_run)
  have al: "allowed_list runner_fs None = [''t'']" by code_simp
  have "evaluateCommandPolicy (\<lambda>_. None) [''t''] None ''rm'' \<noteq> Inr Allowed" by code_simp
  then show "same_on_allowed (allowed_list runner_fs None) None (echo_host id)
    ((echo_host id)\<lparr>rh_shell := (\<lambda>c cwd token n.
       if c = ''rm'' then Inl (PlainError ''ran'') else Inr (Exec_Ok token []))\<rparr>)"
    unfolding al same_on_allowed_def by (auto simp: io_host_def fun_eq_iff)
qed

theorem command_policy_sound_witness:
  "set (js_trim ''pnpm test -- a'') \<inter> {CHR '';'', CHR ''|'', CHR ''<'', CHR ''>'', CHR 0x60, CHR 0x0D, CHR 0x0A} = {}"
proof -
  have "evaluateCommandPolicy (\<lambda>_. None) [''pnpm test''] None ''pnpm test -- a'' = Inr Allowed" by code_simp
  from command_policy_sound [OF this] show ?thesis by blast
qed

end
