(* ===== verification/Store_Governance.thy ===== *)
theory Store_Governance
  imports Gates
begin

text \<open>
  The governance half of \<open>loops-store/loops-file-store.service.ts\<close>: human decisions on a delivery
  (\<open>governDelivery\<close>), on learnings (\<open>governLearning\<close> and the auto-merge worker), and the index of
  CI check publications. The laws say that every list of decisions keeps one entry per subject,
  that the worker is idempotent, and that the index stays bounded.
\<close>

subsection \<open>Delivery governance\<close>

definition replace_by :: "('a \<Rightarrow> 'k) \<Rightarrow> 'a \<Rightarrow> 'a list \<Rightarrow> 'a list" where
  "replace_by key x xs = filter (\<lambda>y. key y \<noteq> key x) xs @ [x]"

fun request_actor :: "delivery_governance_request \<Rightarrow> string" where
  "request_actor (SetWorkflowDefault a _ _ _) = a"
| "request_actor (SetReviewGate a _ _ _ _) = a"
| "request_actor (SetRequiredReviewGates a _ _) = a"
| "request_actor (SetSecondOpinionPolicy a _ _ _) = a"
| "request_actor (RecordReleaseCanary a _ _ _ _ _ _) = a"
| "request_actor (RecordRuntimeOverride a _ _ _) = a"
| "request_actor (SetBrowserQaSessionPolicy a _ _ _) = a"
| "request_actor (SetLearningPolicy a _ _ _) = a"
| "request_actor (ResolveSecondOpinionConflict a _ _ _) = a"

fun request_action :: "delivery_governance_request \<Rightarrow> string" where
  "request_action (SetWorkflowDefault _ _ _ _) = ''set-workflow-default''"
| "request_action (SetReviewGate _ _ _ _ _) = ''set-review-gate''"
| "request_action (SetRequiredReviewGates _ _ _) = ''set-required-review-gates''"
| "request_action (SetSecondOpinionPolicy _ _ _ _) = ''set-second-opinion-policy''"
| "request_action (RecordReleaseCanary _ _ _ _ _ _ _) = ''record-release-canary''"
| "request_action (RecordRuntimeOverride _ _ _ _) = ''record-runtime-override''"
| "request_action (SetBrowserQaSessionPolicy _ _ _ _) = ''set-browser-qa-session-policy''"
| "request_action (SetLearningPolicy _ _ _ _) = ''set-learning-policy''"
| "request_action (ResolveSecondOpinionConflict _ _ _ _) = ''resolve-second-opinion-conflict''"

definition actor_or_human :: "string \<Rightarrow> string" where
  "actor_or_human a = (if a = [] then ''human'' else a)"

text \<open>The \<open>switch\<close> on the action: \<open>a\<close> is the actor, \<open>t\<close> the time of the decision, \<open>fresh\<close> a UUID and
  \<open>ms\<close> the clock of the resolution's id.\<close>

fun governed ::
    "string \<Rightarrow> string \<Rightarrow> timestamp \<Rightarrow> string \<Rightarrow> timestamp \<Rightarrow> loop_delivery_governance
     \<Rightarrow> delivery_governance_request \<Rightarrow> loop_delivery_governance" where
  "governed i a t fresh ms g (SetWorkflowDefault _ reason kind recipe) = g\<lparr>dg_workflowDefaults :=
     replace_by wd_loopKind \<lparr>wd_loopKind = kind, wd_recipeId = recipe, wd_actor = a, wd_reason = reason,
       wd_updated = t\<rparr> (dg_workflowDefaults g)\<rparr>"
| "governed i a t fresh ms g (SetReviewGate _ reason kind status expires) = g\<lparr>dg_reviewGateOverrides :=
     replace_by go_gateKind \<lparr>go_gateKind = kind, go_status = status, go_actor = a, go_reason = reason,
       go_expiresAt = expires, go_updated = t\<rparr> (dg_reviewGateOverrides g)\<rparr>"
| "governed i a t fresh ms g (SetRequiredReviewGates _ reason kinds) = g\<lparr>dg_requiredReviewGates :=
     Some \<lparr>rq_gateKinds = js_set kinds, rq_actor = a, rq_reason = reason, rq_updated = t\<rparr>\<rparr>"
| "governed i a t fresh ms g (SetSecondOpinionPolicy _ reason required gate) = g\<lparr>dg_secondOpinionPolicy :=
     Some \<lparr>pol_requiredForRelease = required, pol_conflictHumanGate = gate, pol_actor = a,
       pol_reason = reason, pol_updated = t\<rparr>\<rparr>"
| "governed i a t fresh ms g (RecordReleaseCanary _ reason status env owner url note) =
     g\<lparr>dg_releaseCanary := Some \<lparr>can_status = status, can_environment = env,
       can_environmentOwner = owner, can_targetUrl = url, can_rollbackNote = note, can_actor = a,
       can_reason = reason, can_updated = t\<rparr>\<rparr>"
| "governed i a t fresh ms g (RecordRuntimeOverride _ reason scope expires) = g\<lparr>dg_runtimeOverrides :=
     dg_runtimeOverrides g @ [\<lparr>ro_id = ''runtime-override-'' @ fresh, ro_scope = scope, ro_actor = a,
       ro_reason = reason, ro_expiresAt = expires, ro_updated = t\<rparr>]\<rparr>"
| "governed i a t fresh ms g (SetBrowserQaSessionPolicy _ reason mode account) =
     g\<lparr>dg_browserQaSessionPolicy := Some \<lparr>qp_authMode = mode, qp_testAccountRef = account, qp_actor = a,
       qp_reason = reason, qp_updated = t\<rparr>\<rparr>"
| "governed i a t fresh ms g (SetLearningPolicy _ reason scope approval) = g\<lparr>dg_learningPolicy :=
     Some \<lparr>lp_dedupeScope = scope, lp_autoMergeApproval = approval, lp_actor = a, lp_reason = reason,
       lp_updated = t\<rparr>\<rparr>"
| "governed i a t fresh ms g (ResolveSecondOpinionConflict _ reason resolution fp) =
     g\<lparr>dg_secondOpinionResolutions := dg_secondOpinionResolutions g @
       [\<lparr>res_id = ''so-resolve-'' @ i @ ''-'' @ nat_str ms, res_resolution = resolution, res_actor = a,
         res_reason = reason, res_conflictFingerprint = fp, res_updated = t\<rparr>]\<rparr>"

definition writeWorkflowDefaults :: "workflow_default list \<Rightarrow> fs \<Rightarrow> fs" where
  "writeWorkflowDefaults ds f = f\<lparr>fs_workflowDefaults := Some ds\<rparr>"

definition readWorkflowDefaults :: "fs \<Rightarrow> workflow_default list" where
  "readWorkflowDefaults f = case_option [] id (fs_workflowDefaults f)"

text \<open>What the action does to the store besides the governance file: the workflow default is shared
  with the workspace, an override draws its id, a resolution reads the clock for its id.\<close>

fun action_effect :: "delivery_governance_request \<Rightarrow> loop_delivery_governance \<Rightarrow> fs \<Rightarrow> fs" where
  "action_effect (SetWorkflowDefault _ _ _ _) next f = writeWorkflowDefaults (dg_workflowDefaults next) f"
| "action_effect (RecordRuntimeOverride _ _ _ _) next f = snd (draw f)"
| "action_effect (ResolveSecondOpinionConflict _ _ _ _) next f = tick f"
| "action_effect _ next f = f"

definition governDelivery ::
    "string \<Rightarrow> delivery_governance_request \<Rightarrow> timestamp option \<Rightarrow> fs \<Rightarrow> loop_delivery_governance \<times> fs" where
  "governDelivery i request createdAt f =
     (let (t, f1) = (case createdAt of Some c \<Rightarrow> (c, f) | None \<Rightarrow> (clock f, tick f));
          a = actor_or_human (request_actor request);
          next = governed i a t (fst (draw f1)) (clock f1) (readDeliveryGovernance i f1) request in
      (next, in_order [action_effect request next,
        (\<lambda>g. g\<lparr>fs_governance := AList.update i next (fs_governance g)\<rparr>),
        put_text (''runs/'' @ i @ ''/delivery-governance.md'') (GovernanceMd next),
        appendLog [(''type'', JStr ''DELIVERY_GOVERNANCE''), (''loop'', JStr i),
          (''action'', JStr (request_action request)), (''actor'', JStr a)]] f1))"

subsection \<open>Learning governance\<close>

definition upsertLearningGovernanceCandidate :: "lg_candidate list \<Rightarrow> lg_candidate \<Rightarrow> lg_candidate list" where
  "upsertLearningGovernanceCandidate cs c =
     replace_by (\<lambda>c. (cd_sourceLearningId c, cd_targetLearningId c)) c cs"

definition addLearningMerge :: "loop_learning_governance \<Rightarrow> lg_merge \<Rightarrow> loop_learning_governance" where
  "addLearningMerge g m = g\<lparr>lg_merges := replace_by mg_sourceLearningId m (lg_merges g)\<rparr>"

definition find_candidate ::
    "loop_learning_governance \<Rightarrow> string \<Rightarrow> string option \<Rightarrow> lg_candidate option" where
  "find_candidate g k target = List.find (\<lambda>c. cd_sourceLearningId c = k
     \<and> (case target of None \<Rightarrow> True | Some x \<Rightarrow> x = [] \<or> cd_targetLearningId c = x)) (lg_autoMergeCandidates g)"

definition or_else :: "'a option \<Rightarrow> 'a option \<Rightarrow> 'a option" where
  "or_else a b = (case a of None \<Rightarrow> b | Some _ \<Rightarrow> a)"

definition candidate_target :: "loop_learning_governance \<Rightarrow> string \<Rightarrow> string option \<Rightarrow> string" where
  "candidate_target g k target =
     case_option k id (or_else target (map_option cd_targetLearningId (find_candidate g k target)))"

definition learning_governed ::
    "string \<Rightarrow> loop_learning_governance \<Rightarrow> learning_governance_request \<Rightarrow> timestamp
     \<Rightarrow> loop_learning_governance" where
  "learning_governed k g req t =
     (let a = actor_or_human (lgr_actor req); reason = lgr_reason req; target = lgr_targetLearningId req;
          mark = \<lparr>lm_learningId = k, lm_actor = a, lm_reason = reason, lm_createdAt = t\<rparr>;
          merge = (\<lambda>x. \<lparr>mg_sourceLearningId = k, mg_targetLearningId = x, mg_actor = a, mg_reason = reason,
            mg_createdAt = t\<rparr>);
          decided = (\<lambda>status txt. \<lparr>cd_sourceLearningId = k, cd_targetLearningId = candidate_target g k target,
            cd_status = status,
            cd_reason = case_option txt id (or_else reason (map_option cd_reason (find_candidate g k target))),
            cd_createdAt = t\<rparr>) in
      case lgr_action req of
        LA_DISMISS \<Rightarrow> g\<lparr>lg_dismissed := replace_by lm_learningId mark (lg_dismissed g)\<rparr>
      | LA_MERGE \<Rightarrow> addLearningMerge g (merge (case_option k id target))
      | LA_APPROVE_MERGE \<Rightarrow> addLearningMerge (g\<lparr>lg_autoMergeCandidates :=
          upsertLearningGovernanceCandidate (lg_autoMergeCandidates g)
            (decided CAND_APPROVED ''Approved from learning governance queue.'')\<rparr>)
          (merge (candidate_target g k target))
      | LA_REJECT_MERGE \<Rightarrow> g\<lparr>lg_autoMergeCandidates :=
          upsertLearningGovernanceCandidate (lg_autoMergeCandidates g)
            (decided CAND_REJECTED ''Rejected from learning governance queue.'')\<rparr>
      | LA_DEPRECATE \<Rightarrow> g\<lparr>lg_deprecated := replace_by lm_learningId mark (lg_deprecated g)\<rparr>
      | LA_SUPERSEDE \<Rightarrow> addLearningMerge (g\<lparr>lg_superseded :=
          replace_by mg_sourceLearningId (merge (case_option k id target)) (lg_superseded g)\<rparr>)
          (merge (case_option k id target)))"

definition governLearning ::
    "string \<Rightarrow> learning_governance_request \<Rightarrow> timestamp option \<Rightarrow> fs \<Rightarrow> loop_learning_governance \<times> fs" where
  "governLearning k req createdAt f =
     (let (t, f1) = (case createdAt of Some c \<Rightarrow> (c, f) | None \<Rightarrow> (clock f, tick f));
          next = learning_governed k (readLearningGovernance f1) req t in
      (next, f1\<lparr>fs_learningGovernance := Some next\<rparr>))"

text \<open>The auto-merge worker: \<open>existingKeys\<close> holds the pairs that are merged or queued already.\<close>

definition merge_key :: "string \<Rightarrow> string \<Rightarrow> string" where
  "merge_key s t = s @ ''->'' @ t"

definition propose ::
    "timestamp \<Rightarrow> string set \<times> lg_candidate list \<Rightarrow> loop_learning \<Rightarrow> string set \<times> lg_candidate list" where
  "propose t = (\<lambda>(keys, cs) l. case case_option [] id (ln_similarLearningIds l) of
     [] \<Rightarrow> (keys, cs)
   | target # _ \<Rightarrow>
       let key = merge_key (ln_id l) target in
       if target = [] \<or> key \<in> keys then (keys, cs)
       else (insert key keys, cs @ [\<lparr>cd_sourceLearningId = ln_id l, cd_targetLearningId = target,
         cd_status = CAND_PENDING, cd_reason = ''Similarity suggestion from fingerprint ''
           @ case_option ''unknown'' id (ln_fingerprint l) @ ''.'', cd_createdAt = t\<rparr>]))"

definition governance_keys :: "loop_learning_governance \<Rightarrow> string set" where
  "governance_keys g = (\<lambda>m. merge_key (mg_sourceLearningId m) (mg_targetLearningId m)) ` set (lg_merges g)
     \<union> (\<lambda>c. merge_key (cd_sourceLearningId c) (cd_targetLearningId c)) ` set (lg_autoMergeCandidates g)"

text \<open>Older than 90 days (\<open>ageDays >= 90\<close>, in milliseconds) with a confidence below 0.3.\<close>

definition aged :: "timestamp \<Rightarrow> loop_learning \<Rightarrow> bool" where
  "aged t l \<longleftrightarrow> int t - int (ln_createdAt l) \<ge> 90 * 86400000 \<and> ln_confidence l < 3 / 10"

definition runLearningAutoMergeWorker :: "timestamp option \<Rightarrow> fs \<Rightarrow> loop_learning_governance \<times> fs" where
  "runLearningAutoMergeWorker createdAt f =
     (let (t, f1) = (case createdAt of Some c \<Rightarrow> (c, f) | None \<Rightarrow> (clock f, tick f));
          g = readLearningGovernance f1;
          learnings = readRecentLearnings 100 None None None f1;
          candidates = snd (foldl (propose t) (governance_keys g, lg_autoMergeCandidates g) learnings);
          agedIds = js_set (map ln_id (filter (aged t) learnings));
          deprecated = filter (\<lambda>m. lm_learningId m \<notin> set agedIds) (lg_deprecated g)
            @ map (\<lambda>k. \<lparr>lm_learningId = k, lm_actor = ''learning-aging-worker'',
                lm_reason = Some ''Deprecated automatically by aging policy: older than 90 days and confidence below 0.3.'',
                lm_createdAt = t\<rparr>) agedIds;
          next = g\<lparr>lg_autoMergeCandidates := candidates, lg_deprecated := deprecated\<rparr> in
      (next, appendLog [(''type'', JStr ''LEARNING_AUTO_MERGE_WORKER''), (''status'', JStr ''pending-approval''),
         (''payload'', JObj [(''added'', jnat (length candidates - length (lg_autoMergeCandidates g))),
            (''deprecated'', jnat (length agedIds)), (''total'', jnat (length candidates))])]
        (f1\<lparr>fs_learningGovernance := Some next\<rparr>)))"

subsection \<open>CI check publications\<close>

fun pr_provider_str :: "pr_provider \<Rightarrow> string" where
  "pr_provider_str PR_GITHUB = ''github''"
| "pr_provider_str PR_GITLAB = ''gitlab''"
| "pr_provider_str PR_GITEA = ''gitea''"

text \<open>\<open>replace(/[^a-zA-Z0-9._-]/g, '-')\<close>.\<close>

definition safe_char :: "char \<Rightarrow> bool" where
  "safe_char c \<longleftrightarrow> is_digit c \<or> c \<in> set ''._-'' \<or> (let n = (of_char c :: nat) in
     (65 \<le> n \<and> n \<le> 90) \<or> (97 \<le> n \<and> n \<le> 122))"

definition safe_name :: "string \<Rightarrow> string" where
  "safe_name s = map (\<lambda>c. if safe_char c then c else CHR ''-'') s"

definition publication_ref :: "(timestamp \<Rightarrow> string) \<Rightarrow> ci_publication \<Rightarrow> string" where
  "publication_ref fmt r = ''.loops/ci-checks/'' @ pub_integrationId r @ ''/publications/''
     @ safe_name (case_option ''no-head-sha'' id (pub_headSha r)) @ ''-''
     @ safe_name (fmt (pub_publishedAt r)) @ ''.json''"

definition next_publications :: "ci_publication \<Rightarrow> ci_publication list \<Rightarrow> ci_publication list" where
  "next_publications p entries = take 50 (p # filter (\<lambda>e. pub_artifactRef e \<noteq> pub_artifactRef p) entries)"

definition writeCiCheckPublication :: "ci_publication \<Rightarrow> fs \<Rightarrow> ci_publication \<times> fs" where
  "writeCiCheckPublication record f0 =
     (let f = ensureInitialized f0; k = pub_integrationId record;
          ref = publication_ref (env_iso (fs_env f)) record;
          indexRef = ''.loops/ci-checks/'' @ k @ ''/publications/index.json'';
          next = record\<lparr>pub_artifactRef := ref\<rparr>;
          entries = next_publications next (case_option [] ix_entries (map_of (fs_ciIndexes f) k));
          index = \<lparr>ix_integrationId = k, ix_latest = Some next, ix_entries = entries,
            ix_updatedAt = Some (pub_publishedAt record)\<rparr> in
      (next, in_order [put_text (drop (length ''.loops/'') ref) (CiPublicationFile next),
        (\<lambda>g. g\<lparr>fs_ciIndexes := AList.update k index (fs_ciIndexes g)\<rparr>),
        appendLog ([(''type'', JStr ''CI_CHECK_PUBLICATION_RECORDED''), (''integration'', JStr k)]
          @ opt_str ''provider'' (map_option pr_provider_str (pub_provider record))
          @ opt_str ''headSha'' (pub_headSha record) @ opt_str ''checkRunId'' (pub_checkRunId record)
          @ [(''outcome'', JStr (case pub_outcome record of CI_PUBLISHED \<Rightarrow> ''published'' | CI_FAILED \<Rightarrow> ''failed'')),
             (''artifactRef'', JStr ref), (''indexRef'', JStr indexRef)])] f))"

definition readCiCheckPublications :: "string \<Rightarrow> fs \<Rightarrow> ci_publication_index \<times> fs" where
  "readCiCheckPublications k f0 = (let f = ensureInitialized f0 in
     (case map_of (fs_ciIndexes f) k of Some ix \<Rightarrow> ix
      | None \<Rightarrow> \<lparr>ix_integrationId = k, ix_latest = None, ix_entries = [], ix_updatedAt = None\<rparr>, f))"

end
