(* ===== verification/Governance_Laws.thy ===== *)
theory Governance_Laws
  imports Store_Governance Gate_Laws Store_Laws
begin

text \<open>
  Laws of the governance records: one decision per subject, decisions that reach the review
  gates, an auto-merge worker that respects what was decided, and a bounded index of CI
  publications that reads back what was written.
\<close>

subsection \<open>One entry per subject\<close>

lemma set_replace_by: "set (replace_by key x xs) = {y \<in> set xs. key y \<noteq> key x} \<union> {x}"
  by (auto simp: replace_by_def)

lemma distinct_replace_by: "distinct (map key xs) \<Longrightarrow> distinct (map key (replace_by key x xs))"
  by (auto simp: replace_by_def distinct_map_filter)

lemma find_replace_by:
  "List.find (\<lambda>y. key y = key x) (replace_by key x xs) = Some x"
proof -
  have "List.find (\<lambda>y. key y = key x) (filter (\<lambda>y. key y \<noteq> key x) xs @ [x]) = Some x"
    by (induction xs) auto
  then show ?thesis by (simp add: replace_by_def)
qed

definition delivery_ok :: "loop_delivery_governance \<Rightarrow> bool" where
  "delivery_ok g \<longleftrightarrow> distinct (map wd_loopKind (dg_workflowDefaults g))
     \<and> distinct (map go_gateKind (dg_reviewGateOverrides g))
     \<and> (case dg_requiredReviewGates g of None \<Rightarrow> True | Some r \<Rightarrow> distinct (rq_gateKinds r))"

lemma delivery_ok_governed: "delivery_ok g \<Longrightarrow> delivery_ok (governed i a t fresh ms g request)"
  by (cases request) (auto simp: delivery_ok_def distinct_replace_by)

lemma no_governance_ok [simp]: "delivery_ok no_governance"
  by (simp add: delivery_ok_def no_governance_def)

lemma action_effect_governance [simp]:
  "fs_governance (action_effect request nx f) = fs_governance f"
  by (cases request) (simp_all add: writeWorkflowDefaults_def)

lemma governance_written:
  "fs_governance (snd (governDelivery i request c f))
   = AList.update i (fst (governDelivery i request c f)) (fs_governance f)"
  by (simp add: governDelivery_def Let_def split: prod.splits option.splits)

lemma governance_next:
  "\<exists>a t u ms. fst (governDelivery i request c f) = governed i a t u ms (readDeliveryGovernance i f) request
     \<and> a \<noteq> []"
proof -
  have "actor_or_human (request_actor request) \<noteq> []" by (simp add: actor_or_human_def)
  moreover have "readDeliveryGovernance i (tick f) = readDeliveryGovernance i f"
    by (simp add: readDeliveryGovernance_def)
  ultimately show ?thesis
    by (auto simp: governDelivery_def Let_def split: prod.splits option.splits)
qed

text \<open>A governance decision is read back as it was written, leaves the governance of every other
  issue alone, and keeps one workflow default per loop kind and one override per review gate.\<close>

theorem delivery_governance_roundtrip:
  assumes "delivery_ok (readDeliveryGovernance i f)"
  shows "readDeliveryGovernance i (snd (governDelivery i request c f)) = fst (governDelivery i request c f)
    \<and> delivery_ok (fst (governDelivery i request c f))
    \<and> (\<forall>j. j \<noteq> i \<longrightarrow> readDeliveryGovernance j (snd (governDelivery i request c f)) = readDeliveryGovernance j f)"
proof -
  obtain a t u ms where
    "fst (governDelivery i request c f) = governed i a t u ms (readDeliveryGovernance i f) request"
    using governance_next by blast
  then have "delivery_ok (fst (governDelivery i request c f))"
    using assms by (simp add: delivery_ok_governed)
  then show ?thesis by (simp add: readDeliveryGovernance_def governance_written)
qed

text \<open>A review gate that is set by a human has the status that was set in every detail with that
  governance, with the human as reviewer; the expiry time of the decision plays no role, so an
  expired waiver still passes the gate.\<close>

theorem gate_override_never_expires:
  assumes "d_deliveryGovernance d = Some (fst (governDelivery i (SetReviewGate actor reason kind status expires) c f))"
    and "gate \<in> set (buildReviewGates (Detail_Item d))" and "rg_kind gate = kind"
  shows "rg_status gate = status \<and> rg_reviewer gate = OWNER_HUMAN"
proof -
  let ?req = "SetReviewGate actor reason kind status expires"
  obtain a t u ms where nx: "fst (governDelivery i ?req c f)
      = governed i a t u ms (readDeliveryGovernance i f) ?req"
    using governance_next by blast
  define ov where "ov = \<lparr>go_gateKind = kind, go_status = status, go_actor = a, go_reason = reason,
       go_expiresAt = expires, go_updated = t\<rparr>"
  let ?ovs = "dg_reviewGateOverrides (governed i a t u ms (readDeliveryGovernance i f) ?req)"
  have find: "List.find (\<lambda>y. go_gateKind y = kind) ?ovs = Some ov"
    using find_replace_by [of go_gateKind ov] by (simp add: ov_def)
  have gov: "item_governance (Detail_Item d) = Some (governed i a t u ms (readDeliveryGovernance i f) ?req)"
    using assms(1) nx by (simp add: item_governance_def)
  from assms(2) obtain g where g: "gate = apply_override ?ovs g"
    unfolding buildReviewGates_def gov Let_def by auto
  then have kind: "rg_kind g = kind" using assms(3) by (simp add: apply_override_def split: option.splits)
  show ?thesis unfolding g apply_override_def kind find by (simp add: ov_def)
qed

subsection \<open>Learnings\<close>

definition candidate_pair :: "lg_candidate \<Rightarrow> string \<times> string" where
  "candidate_pair c = (cd_sourceLearningId c, cd_targetLearningId c)"

definition learning_ok :: "loop_learning_governance \<Rightarrow> bool" where
  "learning_ok g \<longleftrightarrow> distinct (map lm_learningId (lg_dismissed g))
     \<and> distinct (map mg_sourceLearningId (lg_merges g))
     \<and> distinct (map lm_learningId (lg_deprecated g))
     \<and> distinct (map mg_sourceLearningId (lg_superseded g))
     \<and> distinct (map candidate_pair (lg_autoMergeCandidates g))"

lemma upsert_candidate_pair: "upsertLearningGovernanceCandidate cs c = replace_by candidate_pair c cs"
  by (simp add: upsertLearningGovernanceCandidate_def candidate_pair_def [abs_def])

lemma learning_ok_governed: "learning_ok g \<Longrightarrow> learning_ok (learning_governed k g req t)"
  by (cases "lgr_action req")
    (simp_all add: learning_governed_def addLearningMerge_def upsert_candidate_pair learning_ok_def
      distinct_replace_by Let_def)

text \<open>The candidates the worker adds are new pairs, all waiting for approval.\<close>

definition proposal_inv :: "string set \<Rightarrow> lg_candidate list \<Rightarrow> string set \<times> lg_candidate list \<Rightarrow> bool" where
  "proposal_inv keys cs s \<longleftrightarrow> keys \<subseteq> fst s
     \<and> (\<exists>new. snd s = cs @ new
          \<and> (\<forall>c\<in>set new. cd_status c = CAND_PENDING
               \<and> merge_key (cd_sourceLearningId c) (cd_targetLearningId c) \<in> fst s - keys)
          \<and> distinct (map candidate_pair new))"

lemma proposal_step: "proposal_inv keys cs s \<Longrightarrow> proposal_inv keys cs (propose t s l)"
proof -
  assume inv: "proposal_inv keys cs s"
  show "proposal_inv keys cs (propose t s l)"
  proof (cases "propose t s l = s")
    case False
    obtain ks os where s: "s = (ks, os)" by (cases s)
    from False obtain target rest where t: "case_option [] id (ln_similarLearningIds l) = target # rest"
      and new: "merge_key (ln_id l) target \<notin> ks"
      by (auto simp: propose_def s Let_def split: list.splits if_splits)
    obtain new where os: "os = cs @ new" "keys \<subseteq> ks" "distinct (map candidate_pair new)"
      "\<forall>c\<in>set new. cd_status c = CAND_PENDING
         \<and> merge_key (cd_sourceLearningId c) (cd_targetLearningId c) \<in> ks - keys"
      using inv by (auto simp: proposal_inv_def s)
    define c where "c = \<lparr>cd_sourceLearningId = ln_id l, cd_targetLearningId = target,
         cd_status = CAND_PENDING, cd_reason = ''Similarity suggestion from fingerprint ''
           @ case_option ''unknown'' id (ln_fingerprint l) @ ''.'', cd_createdAt = t\<rparr>"
    have step: "propose t s l = (insert (merge_key (ln_id l) target) ks, os @ [c])"
      using False t by (auto simp: propose_def s Let_def c_def split: if_splits)
    have "candidate_pair c \<notin> candidate_pair ` set new"
      using os(4) new by (auto simp: candidate_pair_def c_def)
    then show ?thesis
      using os new unfolding step proposal_inv_def
      by (auto simp: c_def intro!: exI [of _ "new @ [c]"])
  qed (simp add: inv)
qed

lemma proposal_fold: "proposal_inv keys cs s \<Longrightarrow> proposal_inv keys cs (foldl (propose t) s ls)"
  by (induction ls arbitrary: s) (simp_all add: proposal_step)

lemma worker_candidates:
  "\<exists>new. lg_autoMergeCandidates (fst (runLearningAutoMergeWorker c f))
      = lg_autoMergeCandidates (readLearningGovernance f) @ new
    \<and> (\<forall>x\<in>set new. cd_status x = CAND_PENDING
        \<and> merge_key (cd_sourceLearningId x) (cd_targetLearningId x) \<notin> governance_keys (readLearningGovernance f))
    \<and> distinct (map candidate_pair new)"
proof -
  let ?g = "readLearningGovernance f"
  have tick: "readLearningGovernance (tick f) = ?g"
    by (simp add: readLearningGovernance_def tick_def)
  have "proposal_inv (governance_keys ?g) (lg_autoMergeCandidates ?g)
      (foldl (propose t) (governance_keys ?g, lg_autoMergeCandidates ?g) ls)" for t ls
    by (rule proposal_fold) (simp add: proposal_inv_def)
  then have fold: "\<exists>new. snd (foldl (propose t) (governance_keys ?g, lg_autoMergeCandidates ?g) ls)
        = lg_autoMergeCandidates ?g @ new
      \<and> (\<forall>x\<in>set new. cd_status x = CAND_PENDING
        \<and> merge_key (cd_sourceLearningId x) (cd_targetLearningId x) \<notin> governance_keys ?g)
      \<and> distinct (map candidate_pair new)" for t ls
    unfolding proposal_inv_def by blast
  show ?thesis
    using fold by (auto simp: runLearningAutoMergeWorker_def Let_def tick split: prod.splits option.splits)
qed

text \<open>The marks of the aging policy: one per learning, as before.\<close>

lemma aged_marks:
  assumes "distinct (map lm_learningId ms)" and "distinct ks" and "\<And>k. lm_learningId (mk k) = k"
  shows "distinct (map lm_learningId (filter (\<lambda>m. lm_learningId m \<notin> set ks) ms @ map mk ks))"
  using assms by (auto simp: distinct_map_filter comp_def)

lemma worker_shape:
  assumes "distinct (map lm_learningId (lg_deprecated (readLearningGovernance f)))"
  shows "\<exists>cs ds. fst (runLearningAutoMergeWorker c f)
      = (readLearningGovernance f)\<lparr>lg_autoMergeCandidates := cs, lg_deprecated := ds\<rparr>
    \<and> distinct (map lm_learningId ds)"
proof -
  have tick: "readLearningGovernance (tick f) = readLearningGovernance f"
    by (simp add: readLearningGovernance_def tick_def)
  show ?thesis
  proof (cases c)
    case None
    show ?thesis
      unfolding runLearningAutoMergeWorker_def Let_def None option.case prod.case fst_conv tick
      by (intro exI conjI, rule refl, rule aged_marks [OF assms]) simp_all
  next
    case (Some t)
    show ?thesis
      unfolding runLearningAutoMergeWorker_def Let_def Some option.case prod.case fst_conv tick
      by (intro exI conjI, rule refl, rule aged_marks [OF assms]) simp_all
  qed
qed

lemma pair_key:
  "candidate_pair x = candidate_pair y \<Longrightarrow>
   merge_key (cd_sourceLearningId x) (cd_targetLearningId x) = merge_key (cd_sourceLearningId y) (cd_targetLearningId y)"
  by (simp add: candidate_pair_def)

text \<open>The learning governance keeps one mark per learning, one merge per source and one candidate
  per pair, through every human action and every run of the auto-merge worker; the worker only
  appends pending candidates and never proposes a pair again that was merged, approved or rejected.\<close>

theorem learning_governance_invariant:
  assumes "learning_ok (readLearningGovernance f)"
  shows "learning_ok (fst (governLearning k req c f))
    \<and> learning_ok (fst (runLearningAutoMergeWorker c f))
    \<and> (\<exists>new. lg_autoMergeCandidates (fst (runLearningAutoMergeWorker c f))
          = lg_autoMergeCandidates (readLearningGovernance f) @ new
        \<and> (\<forall>x\<in>set new. cd_status x = CAND_PENDING
            \<and> candidate_pair x \<notin> candidate_pair ` set (lg_autoMergeCandidates (readLearningGovernance f))))"
proof -
  let ?g = "readLearningGovernance f"
  have tick: "readLearningGovernance (tick f) = ?g"
    by (simp add: readLearningGovernance_def tick_def)
  have govern: "learning_ok (fst (governLearning k req c f))"
    using assms by (simp add: governLearning_def Let_def tick learning_ok_governed split: option.splits prod.splits)
  obtain new where new: "lg_autoMergeCandidates (fst (runLearningAutoMergeWorker c f)) = lg_autoMergeCandidates ?g @ new"
    "\<forall>x\<in>set new. cd_status x = CAND_PENDING
        \<and> merge_key (cd_sourceLearningId x) (cd_targetLearningId x) \<notin> governance_keys ?g"
    "distinct (map candidate_pair new)"
    using worker_candidates by blast
  have fresh: "candidate_pair x \<notin> candidate_pair ` set (lg_autoMergeCandidates ?g)" if "x \<in> set new" for x
  proof
    assume "candidate_pair x \<in> candidate_pair ` set (lg_autoMergeCandidates ?g)"
    then obtain y where y: "y \<in> set (lg_autoMergeCandidates ?g)" "candidate_pair x = candidate_pair y" by blast
    have "merge_key (cd_sourceLearningId y) (cd_targetLearningId y) \<in> governance_keys ?g"
      using y(1) by (simp add: governance_keys_def)
    then show False using bspec [OF new(2) that] pair_key [OF y(2)] by simp
  qed
  obtain cs ds where next_g: "fst (runLearningAutoMergeWorker c f)
      = ?g\<lparr>lg_autoMergeCandidates := cs, lg_deprecated := ds\<rparr>"
    and ds: "distinct (map lm_learningId ds)"
    using worker_shape assms unfolding learning_ok_def by metis
  have "distinct (map candidate_pair (lg_autoMergeCandidates ?g @ new))"
  proof -
    have "candidate_pair ` set (lg_autoMergeCandidates ?g) \<inter> candidate_pair ` set new = {}"
      unfolding disjoint_iff by (metis fresh imageE)
    then show ?thesis using assms new(3) by (simp add: learning_ok_def)
  qed
  then have "learning_ok (fst (runLearningAutoMergeWorker c f))"
    using new(1) ds assms unfolding next_g by (simp add: learning_ok_def)
  with govern new fresh show ?thesis by blast
qed

text \<open>Merging a learning without naming a target merges it into itself, and a merged source is no
  longer active: the learning disappears from every recall although nothing replaced it.\<close>

theorem merge_without_target_hides:
  assumes "lgr_action req = LA_MERGE" and "lgr_targetLearningId req = None"
    and "ln_id l = k"
  shows "\<not> active_learning (fst (governLearning k req c f)) l
    \<and> (\<exists>m\<in>set (lg_merges (fst (governLearning k req c f))).
          mg_sourceLearningId m = k \<and> mg_targetLearningId m = k)"
  using assms by (auto simp: governLearning_def learning_governed_def addLearningMerge_def set_replace_by
      active_learning_def Let_def split: option.splits prod.splits)

subsection \<open>CI publications\<close>

definition index_ok :: "ci_publication_index \<Rightarrow> bool" where
  "index_ok ix \<longleftrightarrow> length (ix_entries ix) \<le> 50 \<and> distinct (map pub_artifactRef (ix_entries ix))
     \<and> ix_latest ix = first_of (ix_entries ix)"

lemma next_publications_ok:
  "distinct (map pub_artifactRef es) \<Longrightarrow> distinct (map pub_artifactRef (next_publications p es))"
proof -
  assume d: "distinct (map pub_artifactRef es)"
  let ?rest = "filter (\<lambda>e. pub_artifactRef e \<noteq> pub_artifactRef p) es"
  have "distinct (map pub_artifactRef (take 49 ?rest))"
    using d by (simp add: take_map [symmetric] distinct_map_filter)
  moreover have "pub_artifactRef p \<notin> pub_artifactRef ` set (take 49 ?rest)"
    by (auto dest: in_set_takeD)
  ultimately show ?thesis by (simp add: next_publications_def)
qed

lemma next_publications_bound: "length (next_publications p es) \<le> 50"
  by (simp add: next_publications_def)

lemma next_publications_first: "first_of (next_publications p es) = Some p"
  by (simp add: next_publications_def first_of_def)

lemma publication_written:
  "writeCiCheckPublication record f = (p, g) \<Longrightarrow>
   p = record\<lparr>pub_artifactRef := pub_artifactRef p\<rparr>
   \<and> fst (readCiCheckPublications (pub_integrationId record) g)
     = \<lparr>ix_integrationId = pub_integrationId record, ix_latest = Some p,
        ix_entries = next_publications p
          (ix_entries (fst (readCiCheckPublications (pub_integrationId record) f))),
        ix_updatedAt = Some (pub_publishedAt record)\<rparr>"
  by (auto simp: writeCiCheckPublication_def readCiCheckPublications_def Let_def split: option.splits)

text \<open>The index of CI publications holds at most 50 entries without duplicates, newest first; the
  publication that was just written is the first one that is read back.\<close>

theorem ci_publications_roundtrip:
  assumes "index_ok (fst (readCiCheckPublications (pub_integrationId record) f))"
  shows "let (p, g) = writeCiCheckPublication record f;
      ix = fst (readCiCheckPublications (pub_integrationId record) g) in
    ix_latest ix = Some p \<and> first_of (ix_entries ix) = Some p \<and> index_ok ix
    \<and> p = record\<lparr>pub_artifactRef := pub_artifactRef p\<rparr>"
proof -
  obtain p g where w: "writeCiCheckPublication record f = (p, g)" by fastforce
  show ?thesis
    using publication_written [OF w] assms next_publications_ok [of _ p]
    by (simp add: w index_ok_def next_publications_bound next_publications_first)
qed

subsection \<open>Witnesses\<close>

text \<open>A loop without any decision so far, a waiver that expired long ago, a self merge and a first
  publication.\<close>

definition expired_waiver :: delivery_governance_request where
  "expired_waiver = SetReviewGate ''lead'' (Some ''demo'') GATE_SECURITY RG_WAIVED (Some 1)"

definition waived_detail :: loop_detail where
  "waived_detail = gated_detail\<lparr>d_deliveryGovernance :=
     Some (fst (governDelivery ''issue-1'' expired_waiver None sample_fs))\<rparr>"

definition self_merge :: learning_governance_request where
  "self_merge = \<lparr>lgr_action = LA_MERGE, lgr_actor = ''lead'', lgr_reason = None, lgr_targetLearningId = None\<rparr>"

definition sample_learning :: loop_learning where
  "sample_learning = \<lparr>ln_id = ''l1'', ln_workspaceId = ''w'', ln_repo = None, ln_kind = LK_PATTERN,
     ln_summary = ''s'', ln_fingerprint = None, ln_tags = None, ln_similarLearningIds = Some [''l0''],
     ln_evidenceIds = [], ln_confidence = 1 / 2, ln_lastUsedAt = None, ln_createdAt = 1\<rparr>"

definition sample_publication :: ci_publication where
  "sample_publication = \<lparr>pub_artifactRef = [], pub_integrationId = ''gh'', pub_provider = None,
     pub_headSha = Some ''abc'', pub_checkRunId = None, pub_url = None, pub_outcome = CI_PUBLISHED,
     pub_reason = None, pub_issueId = None, pub_prId = None, pub_evidenceBacklink = None, pub_request = [],
     pub_workPackageCommitMap = [], pub_publishedAt = 5\<rparr>"

lemma sample_governance [simp]: "readDeliveryGovernance ''issue-1'' sample_fs = no_governance"
  by (simp add: readDeliveryGovernance_def sample_fs_def empty_fs_def)

lemma sample_learning_ok [simp]: "learning_ok (readLearningGovernance sample_fs)"
  by (simp add: readLearningGovernance_def learning_ok_def sample_fs_def empty_fs_def)

lemma sample_index_ok [simp]: "index_ok (fst (readCiCheckPublications ''gh'' sample_fs))"
  by (simp add: readCiCheckPublications_def ensureInitialized_def index_ok_def first_of_def Let_def
      sample_fs_def empty_fs_def)

theorem delivery_governance_roundtrip_witness:
  "readDeliveryGovernance ''issue-1'' (snd (governDelivery ''issue-1'' expired_waiver None sample_fs))
     = fst (governDelivery ''issue-1'' expired_waiver None sample_fs)
   \<and> readDeliveryGovernance ''issue-2'' (snd (governDelivery ''issue-1'' expired_waiver None sample_fs))
     = no_governance"
proof -
  have "readDeliveryGovernance ''issue-2'' sample_fs = no_governance"
    by (simp add: readDeliveryGovernance_def sample_fs_def empty_fs_def)
  then show ?thesis
    using delivery_governance_roundtrip [of "''issue-1''" sample_fs expired_waiver None] by simp
qed

theorem gate_override_never_expires_witness:
  "\<exists>gate\<in>set (buildReviewGates (Detail_Item waived_detail)).
     rg_kind gate = GATE_SECURITY \<and> rg_status gate = RG_WAIVED \<and> rg_reviewer gate = OWNER_HUMAN"
proof -
  have "list_ex (\<lambda>g. rg_kind g = GATE_SECURITY) (buildReviewGates (Detail_Item waived_detail))"
    by code_simp
  then obtain gate where g: "gate \<in> set (buildReviewGates (Detail_Item waived_detail))"
    "rg_kind gate = GATE_SECURITY" by (auto simp: list_ex_iff)
  have "d_deliveryGovernance waived_detail = Some (fst (governDelivery ''issue-1''
      (SetReviewGate ''lead'' (Some ''demo'') GATE_SECURITY RG_WAIVED (Some 1)) None sample_fs))"
    by (simp add: waived_detail_def expired_waiver_def)
  from gate_override_never_expires [OF this g] g show ?thesis by blast
qed

theorem learning_governance_invariant_witness:
  "learning_ok (fst (governLearning ''l1'' self_merge None sample_fs))
   \<and> learning_ok (fst (runLearningAutoMergeWorker None sample_fs))"
  using learning_governance_invariant [of sample_fs "''l1''" self_merge None] by simp

theorem merge_without_target_hides_witness:
  "\<not> active_learning (fst (governLearning ''l1'' self_merge None sample_fs)) sample_learning"
  using merge_without_target_hides [of self_merge sample_learning "''l1''" None sample_fs]
  by (simp add: self_merge_def sample_learning_def)

theorem ci_publications_roundtrip_witness:
  "ix_latest (fst (readCiCheckPublications ''gh'' (snd (writeCiCheckPublication sample_publication sample_fs))))
   = Some (fst (writeCiCheckPublication sample_publication sample_fs))"
  using ci_publications_roundtrip [of sample_publication sample_fs]
  by (simp add: sample_publication_def Let_def split: prod.splits)

end
