(* ===== verification/Issues.thy ===== *)
theory Issues
  imports Gates Store_Governance
begin

text \<open>
  \<open>loops-issues/loops-issues.service.ts\<close> without the database: how an issue is taken in
  (\<open>createIssue\<close> and its parts), read under a tenant scope (\<open>getIssue\<close>) and listed page by page.
  The path policy of \<open>@dofe/infra-workspace\<close> and the scan of the workspace's rule files are
  parameters of \<open>issues_host\<close>.
\<close>

record workspace_scan =
  ws_workspaceId :: string
  ws_root :: string
  ws_present :: nat
  ws_total :: nat
  ws_rules :: "rule_snapshot_rule list"
  ws_diagnostics :: "rule_diagnostic list option"

record issues_host =
  ih_workspace :: "workspace_scan option"
  ih_resolveRepo :: "string \<Rightarrow> string + string"

record auth_user =
  au_id :: string
  au_nickname :: "string option"
  au_code :: "string option"

record create_issue_request =
  cr_title :: string
  cr_targetRepo :: string
  cr_body :: string
  cr_priority :: loop_priority
  cr_acceptanceCriteria :: "string list"
  cr_submitter :: "(submitter_provider option \<times> string option \<times> string option) option"
  cr_submitterId :: "string option"
  cr_submitterName :: "string option"
  cr_sourceChannel :: "loop_source_channel option"
  cr_sourceKind :: "loop_source_kind option"
  cr_tenantContext :: "loop_tenant_context option"

subsection \<open>Intake\<close>

text \<open>\<open>issue-YYYYMMDD-<8 hex>\<close>: the day of the ISO time and the first eight digits of a UUID.\<close>

definition createIssueId :: "timestamp \<Rightarrow> (fs, string) sm" where
  "createIssueId t = (\<lambda>f.
     (let date = filter (\<lambda>c. c \<noteq> CHR ''-'') (take 10 (env_iso (fs_env f) t));
          suffix = take 8 (filter (\<lambda>c. c \<noteq> CHR ''-'') (fst (draw f))) in
      (Inr (''issue-'' @ date @ ''-'' @ suffix), snd (draw f))))"

text \<open>An authenticated user is the submitter; otherwise the request names one, or the defaults do.\<close>

definition normalizeSubmitter :: "create_issue_request \<Rightarrow> auth_user option \<Rightarrow> loop_submitter" where
  "normalizeSubmitter input user = (case user of
     Some u \<Rightarrow> \<lparr>sub_provider = PROVIDER_DOFE_SSO, sub_userId = au_id u,
       sub_name = case_option (au_id u) id (or_else (au_nickname u) (au_code u))\<rparr>
   | None \<Rightarrow> \<lparr>
       sub_provider = case_option PROVIDER_DEV id (Option.bind (cr_submitter input) fst),
       sub_userId = case_option ''dev-user'' id
         (or_else (Option.bind (cr_submitter input) (fst \<circ> snd)) (cr_submitterId input)),
       sub_name = case_option ''Developer'' id
         (or_else (Option.bind (cr_submitter input) (snd \<circ> snd)) (cr_submitterName input))\<rparr>)"

definition resolveTargetRepo :: "issues_host \<Rightarrow> string \<Rightarrow> (fs, string) sm" where
  "resolveTargetRepo h input = (case ih_resolveRepo h input of
     Inl message \<Rightarrow> sthrow (BadRequest message) | Inr repo \<Rightarrow> sret repo)"

definition captureRuleSnapshot :: "issues_host \<Rightarrow> string \<Rightarrow> timestamp \<Rightarrow> loop_rule_snapshot option" where
  "captureRuleSnapshot h targetRepo t = (case ih_workspace h of
     None \<Rightarrow> None
   | Some w \<Rightarrow>
       let readable = filter (\<lambda>r. rsr_present r
             \<and> rsr_id r \<in> {''agents'', ''claude'', ''cline-rules''}) (ws_rules w) in
       Some \<lparr>rsn_workspaceId = ws_workspaceId w,
         rsn_root = (if ws_root w = [] then targetRepo else ws_root w), rsn_capturedAt = t,
         rsn_present = ws_present w, rsn_total = ws_total w, rsn_rules = ws_rules w,
         rsn_diagnostics = ws_diagnostics w,
         rsn_enforcement = \<lparr>rse_enforced = (readable \<noteq> []), rse_agentReadable = (readable \<noteq> []),
           rse_evidence = map rsr_path readable\<rparr>\<rparr>)"

definition new_issue ::
    "create_issue_request \<Rightarrow> string \<Rightarrow> string \<Rightarrow> loop_submitter \<Rightarrow> timestamp \<Rightarrow> loop_issue" where
  "new_issue input i repo submitter t = \<lparr>i_id = i, i_title = cr_title input, i_status = ISSUE_OPEN,
     i_priority = cr_priority input, i_created = t, i_updated = t,
     i_sourceChannel = case_option CHANNEL_WEB id (cr_sourceChannel input),
     i_sourceKind = case_option KIND_WEB_FORM id (cr_sourceKind input),
     i_submitterId = sub_userId submitter, i_submitterName = sub_name submitter, i_targetRepo = repo,
     i_body = cr_body input, i_acceptanceCriteria = cr_acceptanceCriteria input,
     i_rawPayloadRef = ''.loops/intakes/'' @ intakeId i @ ''.raw.json'',
     i_tenantContext = cr_tenantContext input\<rparr>"

definition new_intake ::
    "issues_host \<Rightarrow> create_issue_request \<Rightarrow> string \<Rightarrow> string \<Rightarrow> loop_submitter \<Rightarrow> timestamp \<Rightarrow> loop_intake" where
  "new_intake h input i repo submitter t = \<lparr>in_id = intakeId i, in_issueId = i,
     in_sourceChannel = case_option CHANNEL_WEB id (cr_sourceChannel input),
     in_sourceKind = case_option KIND_WEB_FORM id (cr_sourceKind input), in_submitter = submitter,
     in_rawPayloadRef = ''.loops/intakes/'' @ intakeId i @ ''.raw.json'', in_status = INTAKE_NORMALIZED,
     in_created = t, in_ruleSnapshot = captureRuleSnapshot h repo t,
     in_tenantContext = cr_tenantContext input\<rparr>"

definition new_state :: "string \<Rightarrow> timestamp \<Rightarrow> loop_state_item" where
  "new_state i t = \<lparr>st_issueId = i, st_phase = PHASE_1_SPEC, st_round = 1, st_specVersion = ''v0'',
     st_shardsTotal = 0, st_shardsDone = 0, st_shardsInProgress = 0, st_reloopCount = 0,
     st_costTokens = 0, st_costCalls = 0, st_updated = t, st_paused = False,
     st_globalVerdict = None, st_finalized = None\<rparr>"

definition captured_recipe ::
    "loop_issue \<Rightarrow> loop_state_item \<Rightarrow> timestamp \<Rightarrow> workflow_default list \<Rightarrow> loop_workflow_recipe" where
  "captured_recipe issue st t defaults =
     (let recipe = buildWorkflowRecipe (List_Item \<lparr>li_issue = issue, li_state = Some st,
            li_workflowRecipe = None, li_reviewGates = None, li_releaseGate = None,
            li_runtimeSecurityExceptions = None, li_deliveryGovernance = None\<rparr>) in
      case List.find (\<lambda>e. wd_loopKind e = inferWorkflowKind issue) defaults of
        Some w \<Rightarrow> recipe\<lparr>wr_id := wd_recipeId w, wr_capturedAt := t, wr_source := SRC_WORKSPACE\<rparr>
      | None \<Rightarrow> recipe\<lparr>wr_capturedAt := t, wr_source := SRC_LOOP_SNAPSHOT\<rparr>)"

record created_issue =
  ci_issue :: loop_issue
  ci_intake :: loop_intake
  ci_state :: loop_state_item

text \<open>\<open>payload\<close> is the request as JSON, kept verbatim beside the intake.\<close>

definition createIssue ::
    "issues_host \<Rightarrow> create_issue_request \<Rightarrow> json \<Rightarrow> auth_user option \<Rightarrow> (fs, created_issue) sm" where
  "createIssue h input payload user = sbind (\<lambda>f. (Inr (clock f), tick f)) (\<lambda>t.
     sbind (createIssueId t) (\<lambda>i.
     sbind (resolveTargetRepo h (cr_targetRepo input)) (\<lambda>repo.
     let submitter = normalizeSubmitter input user; issue = new_issue input i repo submitter t;
         intake = new_intake h input i repo submitter t; st = new_state i t in
     sbind sget (\<lambda>f.
     sthen (smod (writeIssue issue intake st payload
         (Some (captured_recipe issue st t (readWorkflowDefaults f)))))
       (sret \<lparr>ci_issue = issue, ci_intake = intake, ci_state = st\<rparr>)))))"

subsection \<open>Reading under a scope\<close>

text \<open>A verified scope has to be proven by the database: without it the issue reads as not found.\<close>

definition issues_getIssue ::
    "string \<Rightarrow> (loop_detail \<Rightarrow> loop_detail) \<Rightarrow> string option \<Rightarrow> (fs, loop_detail) sm" where
  "issues_getIssue i enrich scope = (case scope of
     Some _ \<Rightarrow> sthrow (NotFound (''Loop issue '' @ i @ '' not found''))
   | None \<Rightarrow> sbind (readDetail i) (\<lambda>d. sret (enrich d)))"

subsection \<open>The list\<close>

record issues_query =
  q_page :: "nat option"
  q_limit :: "nat option"
  q_status :: "loop_issue_status option"
  q_phase :: "loop_phase option"
  q_priority :: "loop_priority option"
  q_targetRepo :: "string option"

record list_response =
  lr_list :: "loop_list_item list"
  lr_total :: nat
  lr_page :: nat
  lr_limit :: nat

definition list_row :: "loop_state_item list \<Rightarrow> loop_issue \<Rightarrow> loop_list_item" where
  "list_row loops issue = \<lparr>li_issue = issue,
     li_state = List.find (\<lambda>st. st_issueId st = i_id issue) loops, li_workflowRecipe = None,
     li_reviewGates = None, li_releaseGate = None, li_runtimeSecurityExceptions = None,
     li_deliveryGovernance = None\<rparr>"

definition wants :: "'a option \<Rightarrow> 'a \<Rightarrow> bool" where
  "wants q x \<longleftrightarrow> (case q of None \<Rightarrow> True | Some y \<Rightarrow> x = y)"

definition row_matches :: "issues_query \<Rightarrow> string option \<Rightarrow> loop_list_item \<Rightarrow> bool" where
  "row_matches q scope row \<longleftrightarrow> wants (q_status q) (i_status (li_issue row))
     \<and> wants (map_option Some (q_phase q)) (map_option st_phase (li_state row))
     \<and> wants (q_priority q) (i_priority (li_issue row))
     \<and> (q_targetRepo q = Some [] \<or> wants (q_targetRepo q) (i_targetRepo (li_issue row)))
     \<and> wants (map_option Some scope) (Option.bind (i_tenantContext (li_issue row)) tc_tenantId)"

definition matching_rows :: "issues_query \<Rightarrow> string option \<Rightarrow> fs \<Rightarrow> loop_list_item list" where
  "matching_rows q scope f = filter (row_matches q scope) (map (list_row (readState f)) (readAllIssues f))"

definition listFromFile :: "issues_query \<Rightarrow> string option \<Rightarrow> fs \<Rightarrow> list_response" where
  "listFromFile q scope f =
     (let page = case_option 1 id (q_page q); limit = case_option 20 id (q_limit q);
          items = matching_rows q scope f; start = (page - 1) * limit in
      \<lparr>lr_list = (if page = 0 then [] else take limit (drop start items)), lr_total = length items, lr_page = page,
       lr_limit = limit\<rparr>)"

end
