(* ===== verification/Issues_Laws.thy ===== *)
theory Issues_Laws
  imports Issues Engine_Laws
begin

text \<open>
  Laws of the intake: an issue is read back as it was taken in, an authenticated user cannot be
  spoofed, and the pages of the list show every matching row once and none of another tenant.
\<close>

subsection \<open>Intake\<close>

lemma createIssue_run:
  assumes "createIssue h input payload user f = (Inr c, g)"
  shows "\<exists>i repo recipe. ci_issue c = new_issue input i repo (normalizeSubmitter input user) (clock f)
    \<and> ci_intake c = new_intake h input i repo (normalizeSubmitter input user) (clock f)
    \<and> ci_state c = new_state i (clock f) \<and> i \<noteq> []
    \<and> g = writeIssue (ci_issue c) (ci_intake c) (ci_state c) payload (Some recipe) (snd (draw (tick f)))"
proof -
  obtain repo where r: "ih_resolveRepo h (cr_targetRepo input) = Inr repo"
    using assms by (auto simp: createIssue_def createIssueId_def resolveTargetRepo_def sm_simps Let_def
        split: sum.splits)
  show ?thesis
    using assms
    by (clarsimp simp: createIssue_def createIssueId_def resolveTargetRepo_def sm_simps Let_def r)
      (intro exI conjI, (rule refl)+, simp, rule refl)
qed

lemma issue_stored:
  assumes wf: "states_wf f" and i: "i_id issue = i" "i \<noteq> []" and k: "in_id intake = intakeId i"
    and st: "st_issueId st = i"
  shows "detail_of i (writeIssue issue intake st payload recipe f)
    = Inr (detail_with i issue intake st (writeIssue issue intake st payload recipe f))"
proof -
  let ?g = "writeIssue issue intake st payload recipe f"
  have "map_of (fs_issues ?g) i = Some issue"
    using i by (simp add: writeIssue_def Let_def store_simps split: option.splits)
  moreover have "map_of (fs_intakes ?g) (intakeId i) = Some intake"
    using k by (simp add: writeIssue_def Let_def store_simps split: option.splits)
  moreover have "stateOf i ?g = Some st"
  proof -
    obtain u where u: "?g = writeNotification i ISSUE_RECEIVED (i_submitterId issue)
          (''Issue received: '' @ i_title issue)
          (''Issue '' @ i @ '' has been normalized and queued for planning.'') (loop_href i)
        (appendLog [(''type'', JStr ''ISSUE_NORMALIZED''), (''issue'', JStr i),
          (''intake'', JStr (in_id intake)), (''target_repo'', JStr (i_targetRepo issue))]
        (appendLog [(''type'', JStr ''INTAKE_RECEIVED''), (''source'', JStr ''web''),
          (''intake'', JStr (in_id intake)), (''submitter'', JStr (i_submitterId issue))]
        (upsertState st u)))" and wfu: "states_wf u"
      using wf i by (simp add: writeIssue_def Let_def states_wf_def split: option.splits)
    have "stateOf i (upsertState st u) = Some st"
      using wfu i st by (simp add: stateOf_upsertState)
    then show ?thesis
      unfolding u by (simp add: stateOf_def readState_def)
  qed
  ultimately show ?thesis by (simp add: detail_of_def)
qed

lemma created_initialized:
  "createIssue h input payload user f = (Inr c, g) \<Longrightarrow> ensureInitialized g = g"
  using createIssue_run [of h input payload user f c g]
  by (auto simp: writeIssue_def Let_def ensureInitialized_def store_simps split: option.splits)

lemma created_ids:
  assumes "createIssue h input payload user f = (Inr c, g)"
  shows "i_id (ci_issue c) \<noteq> [] \<and> in_issueId (ci_intake c) = i_id (ci_issue c)
    \<and> in_id (ci_intake c) = intakeId (i_id (ci_issue c))
    \<and> ci_state c = new_state (i_id (ci_issue c)) (clock f)"
  using createIssue_run [OF assms] by (auto simp: new_issue_def new_intake_def)

lemma created_detail:
  assumes "states_wf f" and "createIssue h input payload user f = (Inr c, g)"
  shows "detail_of (i_id (ci_issue c)) g
    = Inr (detail_with (i_id (ci_issue c)) (ci_issue c) (ci_intake c) (ci_state c) g)"
proof -
  obtain recipe where g: "g = writeIssue (ci_issue c) (ci_intake c) (ci_state c) payload (Some recipe)
      (snd (draw (tick f)))"
    using createIssue_run [OF assms(2)] by blast
  have "states_wf (snd (draw (tick f)))" using assms(1) by (simp add: states_wf_def)
  then show ?thesis
    unfolding g by (rule issue_stored [OF _ refl]) (simp_all add: created_ids [OF assms(2)] new_state_def)
qed

lemma issue_readable:
  "states_wf f \<Longrightarrow> createIssue h input payload user f = (Inr c, g) \<Longrightarrow>
   readDetail (i_id (ci_issue c)) g
   = (Inr (detail_with (i_id (ci_issue c)) (ci_issue c) (ci_intake c) (ci_state c) g), g)"
  by (simp add: readDetail_def Let_def created_initialized created_detail)

lemma created_state:
  "states_wf f \<Longrightarrow> createIssue h input payload user f = (Inr c, g) \<Longrightarrow>
   stateOf (i_id (ci_issue c)) g = Some (ci_state c)"
  by (frule (1) created_detail) (auto simp: detail_of_def detail_with_def Let_def split: option.splits)

text \<open>C16. An issue that was taken in is read back: the detail of its id has exactly the issue, the
  intake and the initial state that \<open>createIssue\<close> returned, no spec and no shards; its identifiers
  agree, and a loop with a different issue and intake id keeps its detail.\<close>

theorem create_issue_roundtrip:
  assumes "states_wf f" and "createIssue h input payload user f = (Inr c, g)"
  shows "(\<exists>d. readDetail (i_id (ci_issue c)) g = (Inr d, g)
      \<and> d_issue d = ci_issue c \<and> d_intake d = ci_intake c \<and> d_state d = ci_state c
      \<and> d_spec d = None \<and> d_shards d = [] \<and> d_workflowRecipe d \<noteq> None)
    \<and> in_issueId (ci_intake c) = i_id (ci_issue c) \<and> st_issueId (ci_state c) = i_id (ci_issue c)
    \<and> in_id (ci_intake c) = intakeId (i_id (ci_issue c))
    \<and> (\<forall>j. j \<noteq> [] \<longrightarrow> j \<noteq> i_id (ci_issue c) \<longrightarrow> intakeId j \<noteq> in_id (ci_intake c) \<longrightarrow>
        detail_of j g = detail_of j f)"
proof -
  let ?d = "detail_with (i_id (ci_issue c)) (ci_issue c) (ci_intake c) (ci_state c) g"
  let ?u = "snd (draw (tick f))"
  obtain recipe where g: "g = writeIssue (ci_issue c) (ci_intake c) (ci_state c) payload (Some recipe) ?u"
    using createIssue_run [OF assms(2)] by blast
  note ids = created_ids [OF assms(2)]
  have "map_of (fs_recipes g) (i_id (ci_issue c)) = Some recipe"
    unfolding g by (simp add: writeIssue_def Let_def)
  then have parts: "d_spec ?d = None" "d_shards ?d = []" "d_workflowRecipe ?d \<noteq> None"
      "d_issue ?d = ci_issue c" "d_intake ?d = ci_intake c" "d_state ?d = ci_state c"
    by (simp_all add: ids detail_with_def current_spec_def new_state_def Let_def)
  have others: "detail_of j g = detail_of j f"
    if j: "j \<noteq> []" "j \<noteq> i_id (ci_issue c)" "intakeId j \<noteq> in_id (ci_intake c)" for j
  proof -
    have "states_wf ?u" using assms(1) by (simp add: states_wf_def)
    then have "detail_of j g = detail_of j ?u"
      unfolding g by (rule writeIssue.detail_frame) (use j ids in \<open>auto simp: new_state_def\<close>)
    also have "\<dots> = detail_of j f"
      using issue_op_draw issue_op_tick
      by (metis assms(1) issue_op.detail_frame issue_op.wf empty_iff j(1))
    finally show ?thesis .
  qed
  have "st_issueId (ci_state c) = i_id (ci_issue c)" by (simp add: ids new_state_def)
  then show ?thesis
    using issue_readable [OF assms] parts others ids by blast
qed

text \<open>The submitter of an issue that an authenticated user creates is that user, whatever the
  request claims.\<close>

theorem submitter_not_spoofed:
  assumes "createIssue h input payload (Some u) f = (Inr c, g)"
  shows "i_submitterId (ci_issue c) = au_id u \<and> in_submitter (ci_intake c) = normalizeSubmitter other (Some u)
    \<and> sub_provider (in_submitter (ci_intake c)) = PROVIDER_DOFE_SSO"
  using createIssue_run [OF assms]
  by (auto simp: new_issue_def new_intake_def normalizeSubmitter_def)

subsection \<open>The list\<close>

lemma pages_prefix: "concat (map (\<lambda>p. take n (drop (p * n) xs)) [0..<k]) = take (k * n) xs"
proof (induction k)
  case (Suc k)
  have "take (Suc k * n) xs = take (k * n) xs @ take n (drop (k * n) xs)"
    by (simp add: take_add [symmetric] add.commute)
  with Suc show ?case by simp
qed simp

definition page_of :: "issues_query \<Rightarrow> string option \<Rightarrow> fs \<Rightarrow> nat \<Rightarrow> loop_list_item list" where
  "page_of q scope f p = lr_list (listFromFile (q\<lparr>q_page := Some p\<rparr>) scope f)"

lemma page_of_Suc: "page_of q scope f (Suc p)
  = (let n = case_option 20 id (q_limit q) in take n (drop (p * n) (matching_rows q scope f)))"
  by (simp add: page_of_def listFromFile_def Let_def matching_rows_def row_matches_def [abs_def])

text \<open>The pages of the list, one after the other, are the matching rows in order, each once; no
  page is longer than the limit; the total counts the matching rows; and under a tenant scope every
  row belongs to that tenant.\<close>

theorem list_pages:
  fixes q :: issues_query
  defines "n \<equiv> case_option 20 id (q_limit q)"
  shows "concat (map (page_of q scope f) [1..<k + 1]) = take (k * n) (matching_rows q scope f)
    \<and> length (page_of q scope f p) \<le> n
    \<and> lr_total (listFromFile q scope f) = length (matching_rows q scope f)
    \<and> (\<forall>row\<in>set (page_of q (Some tenant) f p).
        Option.bind (i_tenantContext (li_issue row)) tc_tenantId = Some tenant)"
proof -
  have "map (page_of q scope f) [1..<k + 1] = map (\<lambda>p. page_of q scope f (Suc p)) [0..<k]"
    by (simp add: map_Suc_upt [symmetric] del: upt_Suc)
  then have "concat (map (page_of q scope f) [1..<k + 1]) = take (k * n) (matching_rows q scope f)"
    using pages_prefix [of n "matching_rows q scope f" k] by (simp add: page_of_Suc n_def Let_def)
  moreover have "length (page_of q s f p) \<le> n" for s
    by (cases p) (simp_all add: page_of_Suc n_def Let_def, simp add: page_of_def listFromFile_def Let_def)
  moreover have "Option.bind (i_tenantContext (li_issue row)) tc_tenantId = Some tenant"
    if "row \<in> set (page_of q (Some tenant) f p)" for row
  proof -
    have "row \<in> set (matching_rows q (Some tenant) f)"
    proof (cases p)
      case 0
      with that show ?thesis by (simp add: page_of_def listFromFile_def Let_def)
    next
      case (Suc m)
      with that show ?thesis by (auto simp: page_of_Suc Let_def dest: in_set_takeD in_set_dropD)
    qed
    then show ?thesis by (simp add: matching_rows_def row_matches_def wants_def)
  qed
  ultimately show ?thesis by (simp add: listFromFile_def Let_def)
qed

subsection \<open>Witnesses\<close>

definition sample_issues_host :: issues_host where
  "sample_issues_host = \<lparr>ih_workspace = None, ih_resolveRepo = Inr\<rparr>"

definition sample_request :: create_issue_request where
  "sample_request = \<lparr>cr_title = ''title'', cr_targetRepo = ''/repo'', cr_body = ''body text'',
     cr_priority = P2, cr_acceptanceCriteria = [''works''],
     cr_submitter = Some (None, Some ''mallory'', None), cr_submitterId = Some ''mallory'',
     cr_submitterName = None, cr_sourceChannel = None, cr_sourceKind = None, cr_tenantContext = None\<rparr>"

definition sample_user :: auth_user where
  "sample_user = \<lparr>au_id = ''alice'', au_nickname = None, au_code = None\<rparr>"

lemma sample_created:
  "\<exists>c g. createIssue sample_issues_host sample_request JNull (Some sample_user) (empty_fs sample_env) = (Inr c, g)"
  by (simp add: createIssue_def createIssueId_def resolveTargetRepo_def sm_simps Let_def sample_issues_host_def)

theorem create_issue_roundtrip_witness:
  "\<exists>c g d. createIssue sample_issues_host sample_request JNull (Some sample_user) (empty_fs sample_env) = (Inr c, g)
     \<and> readDetail (i_id (ci_issue c)) g = (Inr d, g) \<and> d_state d = ci_state c"
proof -
  obtain c g where run: "createIssue sample_issues_host sample_request JNull (Some sample_user)
      (empty_fs sample_env) = (Inr c, g)" using sample_created by blast
  have "states_wf (empty_fs sample_env)" by (simp add: states_wf_def empty_fs_def)
  from create_issue_roundtrip [OF this run] run show ?thesis by blast
qed

theorem submitter_not_spoofed_witness:
  "\<exists>c g. createIssue sample_issues_host sample_request JNull (Some sample_user) (empty_fs sample_env) = (Inr c, g)
     \<and> i_submitterId (ci_issue c) = ''alice''"
proof -
  obtain c g where run: "createIssue sample_issues_host sample_request JNull (Some sample_user)
      (empty_fs sample_env) = (Inr c, g)" using sample_created by blast
  from submitter_not_spoofed [OF this] run show ?thesis by (simp add: sample_user_def)
qed

theorem list_pages_witness:
  "lr_total (listFromFile \<lparr>q_page = None, q_limit = None, q_status = None, q_phase = None,
       q_priority = None, q_targetRepo = None\<rparr> None sample_fs)
   = length (matching_rows \<lparr>q_page = None, q_limit = None, q_status = None, q_phase = None,
       q_priority = None, q_targetRepo = None\<rparr> None sample_fs)"
  using list_pages by blast

end
