(* ===== verification/Facade.thy ===== *)
theory Facade
  imports Shard_State Gates Runner Work_Lock
begin

text \<open>
  \<open>src/modules/loops/loops.service.ts\<close>: the handlers a client calls, without the database
  (\<open>.loops\<close> is the source of truth). Each handler reads the enriched detail, lets the engine or
  the shard-state adapter write, and reads back; the ports of the engine are built from them.

  What the service is injected with is the record \<open>loops_host\<close>: the agents, the git adapter, the
  command host and the PR provider (with the Markdown body of its comment). The scheduler's loop
  gets enough fuel (\<open>sched_fuel\<close>); a later theory proves that it never runs out.
\<close>

record loops_host =
  lh_agent :: loops_agent_adapter
  lh_claude :: "loop_issue \<Rightarrow> loop_shard \<Rightarrow> nat \<Rightarrow> string \<Rightarrow> loop_implementation_record call"
  lh_git :: loops_git_adapter
  lh_runner :: runner_host
  lh_prComment :: "(string \<Rightarrow> loop_detail \<Rightarrow> unit call) option"
  lh_uni :: "nat \<Rightarrow> bool"
  lh_sha16 :: "string \<Rightarrow> string"

subsection \<open>Reading\<close>

text \<open>\<open>withRequirementsCoverage\<close> of the service, with the derived second opinion.\<close>

definition enriched :: "loops_host \<Rightarrow> loop_detail \<Rightarrow> loop_detail" where
  "enriched h d = withRequirementsCoverage (lh_uni h) d (Some (buildSecondOpinion (lh_sha16 h) d))"

text \<open>The \<open>catch\<close> of \<open>getIssue\<close> never runs: the promise is returned, not awaited, so the error of the
  store passes through.\<close>

definition getIssue :: "loops_host \<Rightarrow> string \<Rightarrow> (fs, loop_detail) sm" where
  "getIssue h i = sbind (readDetail i) (\<lambda>d. sret (enriched h d))"

definition syncAndRead :: "loops_host \<Rightarrow> string \<Rightarrow> (fs, loop_detail) sm" where
  "syncAndRead h i = sbind (readDetail i) (\<lambda>d. sret (enriched h d))"

subsection \<open>Spec and decomposition\<close>

definition loops_generateSpec :: "loops_host \<Rightarrow> string \<Rightarrow> (fs, loop_detail) sm" where
  "loops_generateSpec h i = sbind (getIssue h i) (\<lambda>d.
     sthen (generateSpec d (lh_agent h)) (syncAndRead h i))"

definition loops_decompose :: "loops_host \<Rightarrow> string \<Rightarrow> (fs, loop_detail) sm" where
  "loops_decompose h i = sbind (getIssue h i) (\<lambda>d.
     sbind (decompose d (lh_agent h)) (\<lambda>decomposed. if decomposed then syncAndRead h i else sret d))"

definition loops_reloop ::
    "loops_host \<Rightarrow> string \<Rightarrow> string option \<Rightarrow> string option \<Rightarrow> (fs, loop_reloop_response) sm" where
  "loops_reloop h i reviewer notes = sbind (getIssue h i) (\<lambda>d. reloop i d reviewer notes)"

definition resumeAndRead :: "loops_host \<Rightarrow> string \<Rightarrow> loop_detail \<Rightarrow> (fs, loop_detail) sm" where
  "resumeAndRead h i d = sthen (applyResume i d) (syncAndRead h i)"

subsection \<open>Shards\<close>

definition tested_annotation :: "bool \<Rightarrow> string \<Rightarrow> string \<Rightarrow> loop_annotation \<Rightarrow> loop_annotation" where
  "tested_annotation pass ok bad a = a\<lparr>an_testStatus := (if pass then ANN_TEST_PASS else ANN_TEST_FAIL),
     an_verdict := (if pass then ANN_UNREVIEWED else ANN_NEEDS_WORK),
     an_notes := (if pass then ok else bad)\<rparr>"

definition loops_runShardTests ::
    "loops_host \<Rightarrow> string \<Rightarrow> string \<Rightarrow> loop_run_shard_tests_request option \<Rightarrow> (fs, loop_test_record) sm" where
  "loops_runShardTests h i k request = sbind (getIssue h i) (\<lambda>d.
     case List.find (\<lambda>s. sh_id s = k) (d_shards d) of
       None \<Rightarrow> sthrow (NotFound (''Shard '' @ k @ '' not found''))
     | Some shard \<Rightarrow>
         sbind (runShardTests (lh_runner h) i k (st_round (d_state d)) (i_targetRepo (d_issue d)) request None)
           (\<lambda>rec.
         sbind now (\<lambda>t.
         let anns = map_where (\<lambda>a. an_target a = k)
               (tested_annotation (tr_status rec = TEST_PASS)
                 (''Runner '' @ [CHR 0xE6, CHR 0xB5, CHR 0x8B, CHR 0xE8, CHR 0xAF, CHR 0x95, CHR 0xE5, CHR 0x91, CHR 0xBD, CHR 0xE4, CHR 0xBB, CHR 0xA4, CHR 0xE5, CHR 0xB7, CHR 0xB2, CHR 0xE9, CHR 0x80, CHR 0x9A, CHR 0xE8, CHR 0xBF, CHR 0x87, CHR 0xEF, CHR 0xBC, CHR 0x8C, CHR 0xE7, CHR 0xAD, CHR 0x89, CHR 0xE5, CHR 0xBE, CHR 0x85, CHR 0xE5, CHR 0xAE, CHR 0x9E, CHR 0xE7, CHR 0x8E, CHR 0xB0, CHR 0xE5, CHR 0xAE, CHR 0xA1, CHR 0xE6, CHR 0x9F, CHR 0xA5, CHR 0xE3, CHR 0x80, CHR 0x82])
                 (''Runner '' @ [CHR 0xE6, CHR 0xB5, CHR 0x8B, CHR 0xE8, CHR 0xAF, CHR 0x95, CHR 0xE5, CHR 0x91, CHR 0xBD, CHR 0xE4, CHR 0xBB, CHR 0xA4, CHR 0xE5, CHR 0xA4, CHR 0xB1, CHR 0xE8, CHR 0xB4, CHR 0xA5, CHR 0xEF, CHR 0xBC, CHR 0x8C, CHR 0xE9, CHR 0x9C, CHR 0x80, CHR 0xE4, CHR 0xBF, CHR 0xAE, CHR 0xE5, CHR 0xA4, CHR 0x8D, CHR 0xE5, CHR 0x90, CHR 0x8E, CHR 0xE9, CHR 0x87, CHR 0x8D, CHR 0xE8, CHR 0xB7, CHR 0x91, CHR 0xE3, CHR 0x80, CHR 0x82])) (d_annotations d);
             shards = map_where (\<lambda>s. sh_id s = k \<and> tr_status rec = TEST_FAIL)
               (\<lambda>s. s\<lparr>sh_status := SHARD_NEEDS_WORK\<rparr>) (d_shards d);
             st = (d_state d)\<lparr>st_phase := PHASE_5_REVIEW, st_updated := t\<rparr> in
         sthen (smod (writeTestRecord i k rec anns shards st)) (sret rec))))"

definition persistImplementationRecord ::
    "loops_host \<Rightarrow> string \<Rightarrow> string \<Rightarrow> loop_implementation_record \<Rightarrow> (fs, loop_detail) sm" where
  "persistImplementationRecord h i k rec = sthen (persistImplementation i k rec) (syncAndRead h i)"

definition recordShardImplementation ::
    "loops_host \<Rightarrow> string \<Rightarrow> string \<Rightarrow> loop_record_implementation_request
     \<Rightarrow> (fs, loop_implementation_record) sm" where
  "recordShardImplementation h i k request = sbind (getIssue h i) (\<lambda>d.
     case List.find (\<lambda>s. sh_id s = k) (d_shards d) of
       None \<Rightarrow> sthrow (NotFound (''Shard '' @ k @ '' not found''))
     | Some shard \<Rightarrow>
         if sh_status shard = SHARD_DONE
         then sthrow (BadRequest ''DONE shard cannot be overwritten by implementation record'')
         else sbind now (\<lambda>t. sbind now (\<lambda>idTime.
           let r = st_round (d_state d);
               rec = \<lparr>ir_id = ''impl-record-'' @ k @ ''-r'' @ nat_str r @ ''-'' @ nat_str idTime,
                 ir_issueId = i, ir_shardId = k, ir_round = r, ir_implementer = ri_implementer request,
                 ir_status = REC_IMPLEMENTED, ir_summary = ri_summary request,
                 ir_changedFiles = ri_changedFiles request, ir_notes = ri_notes request, ir_created = t,
                 ir_tokens = None, ir_durationSec = None, ir_testsChanged = None\<rparr> in
           sthen (persistImplementationRecord h i k rec) (sret rec))))"

definition reviewShard ::
    "loops_host \<Rightarrow> string \<Rightarrow> string \<Rightarrow> loop_review_shard_request \<Rightarrow> (fs, loop_review_record) sm" where
  "reviewShard h i k request = applyReview (lh_git h) i k request"

subsection \<open>Running the loop\<close>

definition shardRunnerPort :: "loops_host \<Rightarrow> shard_runner_port" where
  "shardRunnerPort h = \<lparr>
     rp_readFreshDetail = syncAndRead h,
     rp_runAgent = (\<lambda>issue shard r cwd. call (lh_claude h issue shard r cwd)),
     rp_persistImplementation = persistImplementationRecord h,
     rp_runTests = (\<lambda>i k. sbind sget (\<lambda>f. loops_runShardTests h i k
       (Some \<lparr>rq_commands = Some (tc_defaultCommands (cf_tests (fs_cfg f))), rq_runner = ''loops-runner''\<rparr>))),
     rp_reviewTests = (\<lambda>m r. call (ag_reviewTests (lh_agent h) m r)),
     rp_review = (\<lambda>s rec r. call (ag_review (lh_agent h) s rec r)),
     rp_applyReview = (\<lambda>i k request. sthen (reviewShard h i k request) (sret ()))\<rparr>"

definition sched_fuel :: "fs \<Rightarrow> loop_detail \<Rightarrow> nat" where
  "sched_fuel f d = (let n = length (d_shards d) in cf_maxParallel (fs_cfg f) * (2 * n + 2) + 2 * n + 2)"

definition loops_runLoopUnlocked :: "loops_host \<Rightarrow> string \<Rightarrow> loop_detail \<Rightarrow> (fs, loop_detail) sm" where
  "loops_runLoopUnlocked h i d f = (case runLoopUnlocked (sched_fuel f d) i d (shardRunnerPort h) f of
     Some r \<Rightarrow> r | None \<Rightarrow> (Inl (PlainError ''out of fuel''), f))"

text \<open>\<open>LoopsEngineService.runLoop\<close> with the service's port: a terminal loop is returned as it is, any
  other runs under the issue and repository lock.\<close>

definition runLoop :: "loops_host \<Rightarrow> string \<Rightarrow> (fs, loop_detail) sm" where
  "runLoop h i = sbind (getIssue h i) (\<lambda>d.
     if isTerminal d then sret d
     else withIssueAndRepoLock process_acquire process_release i (i_targetRepo (d_issue d))
       (loops_runLoopUnlocked h i d))"

subsection \<open>Global review\<close>

fun shard_evidence_issues :: "loop_detail \<Rightarrow> loop_shard \<Rightarrow> review_issue list" where
  "shard_evidence_issues d s =
     (let r = st_round (d_state d); k = sh_id s;
          major = (\<lambda>txt. \<lparr>ri_severity = MAJOR, ri_desc = txt\<rparr>);
          impl = List.find (\<lambda>x. ir_shardId x = k \<and> ir_round x = r) (d_implementationRecords d);
          test = List.find (\<lambda>x. tr_shardId x = k \<and> tr_round x = r) (d_testRecords d);
          review = List.find (\<lambda>x. rr_shardId x = k \<and> rr_round x = r) (d_reviewRecords d) in
      (if sh_status s \<noteq> SHARD_DONE
       then [major (k @ '' is '' @ shard_status_str (sh_status s) @ '', not DONE.'')] else [])
      @ (if impl = None then [major (k @ '' missing current-round implementation record.'')] else [])
      @ (if map_option tr_status test \<noteq> Some TEST_PASS
         then [major (k @ '' missing current-round TEST-PASS record.'')] else [])
      @ (if map_option rr_verdict review \<noteq> Some PASS
         then [major (k @ '' missing current-round PASS review record.'')] else []))"

definition collectGlobalEvidenceIssues :: "loops_host \<Rightarrow> loop_detail \<Rightarrow> review_issue list" where
  "collectGlobalEvidenceIssues h d =
     (let cov = case_option (buildRequirementsCoverage (lh_uni h) d) id (d_requirementsCoverage d);
          uncovered = filter (\<lambda>c. rc_status c \<notin> {REQ_REVIEWED, REQ_ACCEPTED}) (cov_items cov) in
      map (\<lambda>c. \<lparr>ri_severity = (if rc_status c = REQ_MISSING then CRITICAL else MAJOR),
        ri_desc = ''Initial requirement '' @ rc_id c @ '' is '' @ requirement_status_str (rc_status c)
          @ '': '' @ rc_criterion c\<rparr>) uncovered
      @ concat (map (shard_evidence_issues d) (d_shards d)))"

definition runGlobalRegression :: "loops_host \<Rightarrow> loop_detail \<Rightarrow> (fs, loop_test_record) sm" where
  "runGlobalRegression h d = sbind sget (\<lambda>f. let i = i_id (d_issue d) in
     sbind (runShardTests (lh_runner h) i ''__global__'' (st_round (d_state d)) (i_targetRepo (d_issue d))
       (Some \<lparr>rq_commands = Some (tc_regressionCommands (cf_tests (fs_cfg f))),
          rq_runner = ''loops-regression-runner''\<rparr>) None) (\<lambda>rec.
     sbind now (\<lambda>t.
     let pass = (tr_status rec = TEST_PASS);
         anns = map_where (\<lambda>a. an_target a = i)
           (tested_annotation pass ''Global regression commands passed before global review.''
             ''Global regression commands failed; global review is blocked.'') (d_annotations d);
         st = (d_state d)\<lparr>st_phase := (if pass then PHASE_7_GLOBAL_REVIEW else PHASE_4_IMPLEMENT),
           st_updated := t\<rparr> in
     sthen (smod (in_order [writeTestRecord i ''__global__'' rec anns (d_shards d) st,
        appendLog [(''type'', JStr ''GLOBAL_REGRESSION''), (''loop'', JStr i),
          (''status'', JStr (test_status_str (tr_status rec))),
          (''commands'', jstrs (map cr_command (tr_commands rec)))]]))
      (sret rec))))"

fun severity_str :: "loop_severity \<Rightarrow> string" where
  "severity_str CRITICAL = ''critical''" | "severity_str MAJOR = ''major''" | "severity_str MINOR = ''minor''"

definition reloop_notes :: "loop_global_review_record \<Rightarrow> string" where
  "reloop_notes rec = js_join [CHR 0x0A] ([''global_verdict: '' @ verdict_str (gr_verdict rec),
       ''summary: '' @ gr_summary rec]
     @ map (\<lambda>x. ''issue('' @ severity_str (ri_severity x) @ ''): '' @ ri_desc x) (gr_issues rec)
     @ map (\<lambda>x. ''fix: '' @ x) (gr_fixInstructions rec))"

definition autoReloopAfterGlobalReview ::
    "loops_host \<Rightarrow> string \<Rightarrow> loop_detail \<Rightarrow> loop_global_review_record \<Rightarrow> loop_annotation list \<Rightarrow> timestamp
     \<Rightarrow> (fs, loop_detail) sm" where
  "autoReloopAfterGlobalReview h i d rec anns t = sbind sget (\<lambda>f.
     let maxReloop = cf_maxReloop (fs_cfg f); st = d_state d; v = verdict_str (gr_verdict rec) in
     if st_reloopCount st \<ge> maxReloop
     then sthen (smod (in_order [
         writeGlobalReview i rec anns (st\<lparr>st_phase := PHASE_PAUSED, st_paused := True,
           st_globalVerdict := Some (gr_verdict rec), st_updated := t\<rparr>),
         appendLog [(''type'', JStr ''RELOOP_LIMIT''), (''loop'', JStr i), (''max_reloop'', jnat maxReloop),
           (''verdict'', JStr v), (''status'', JStr ''PAUSED'')],
         writeNotification i RELOOP_LIMIT (gr_reviewer rec) (''Re-loop limit reached: '' @ i)
           (''Global review was '' @ v @ '', but max_reloop='' @ nat_str maxReloop
             @ '' has been reached. The loop was paused for human intervention.'') (loop_href i)]))
       (syncAndRead h i)
     else let st' = reloop_state st t;
         spec = buildReloopSpec d (st_specVersion st') t (gr_reviewer rec) (reloop_notes rec) in
       sthen (smod (in_order [
         writeGlobalReview i rec anns (st\<lparr>st_phase := PHASE_1_SPEC,
           st_globalVerdict := Some (gr_verdict rec), st_updated := t\<rparr>),
         writeSpec (d_issue d) spec st',
         appendLog [(''type'', JStr ''RELOOP''), (''loop'', JStr i),
           (''reason'', JStr ''global review non-pass''), (''verdict'', JStr v),
           (''new_spec_version'', JStr (st_specVersion st')), (''round'', jnat (st_round st')),
           (''reloop_count'', jnat (st_reloopCount st')), (''max_reloop'', jnat maxReloop)]]))
       (syncAndRead h i))"

definition globalReviewPort :: "loops_host \<Rightarrow> global_review_port" where
  "globalReviewPort h = \<lparr>
     gp_getDetail = getIssue h,
     gp_collectEvidenceIssues = (\<lambda>d. sret (collectGlobalEvidenceIssues h d)),
     gp_runRegression = runGlobalRegression h,
     gp_runAgentGlobalReview = (\<lambda>d. sbind (syncAndRead h (i_id (d_issue d))) (\<lambda>rd.
       sbind (call (ag_reviewGlobal (lh_agent h) rd)) (\<lambda>review. sret (review, rd)))),
     gp_autoReloop = autoReloopAfterGlobalReview h,
     gp_readDetail = syncAndRead h\<rparr>"

definition loops_reviewGlobal :: "loops_host \<Rightarrow> string \<Rightarrow> (fs, loop_detail) sm" where
  "loops_reviewGlobal h i = reviewGlobal i (globalReviewPort h)"

subsection \<open>Finalization\<close>

definition enforceReleaseGate :: "loop_detail \<Rightarrow> loop_release_gate \<Rightarrow> loop_second_opinion \<Rightarrow> (fs, unit) sm" where
  "enforceReleaseGate d gate so = (let blockers = buildReleaseGateBlockers d gate (Some so) in
     sguard (blockers = []) (BadRequest (''Release gate is not ready:'' @ [CHR 0x0A]
       @ js_join [CHR 0x0A] (map (\<lambda>b. ''- '' @ b) blockers))))"

fun commit_all ::
    "loops_git_adapter \<Rightarrow> loop_detail \<Rightarrow> loop_shard list \<Rightarrow> (fs, commit_shard_result list) sm" where
  "commit_all git d [] = sret []"
| "commit_all git d (s # ss) =
     sbind (call (ga_commitShard git (d_issue d) s
        (case List.find (\<lambda>r. ir_shardId r = sh_id s) (d_implementationRecords d) of
           Some r \<Rightarrow> ir_changedFiles r | None \<Rightarrow> sh_filesHint s))) (\<lambda>c.
     sbind (commit_all git d ss) (\<lambda>cs. sret (c # cs)))"

definition openConvergencePr :: "loops_host \<Rightarrow> loop_detail \<Rightarrow> (fs, loop_convergence_pr) sm" where
  "openConvergencePr h d = sbind (commit_all (lh_git h) d (d_shards d)) (\<lambda>commits.
     call (ga_createConvergencePr (lh_git h) (d_issue d) (d_shards d) (d_annotations d) commits
       (buildEvidenceArtifacts d)))"

definition learning ::
    "loop_detail \<Rightarrow> string \<Rightarrow> learning_kind \<Rightarrow> string \<Rightarrow> string list \<Rightarrow> rat \<Rightarrow> timestamp \<Rightarrow> loop_learning" where
  "learning d suffix kind summary evidence confidence t = \<lparr>ln_id = i_id (d_issue d) @ suffix,
     ln_workspaceId = case_option ''default'' rsn_workspaceId (in_ruleSnapshot (d_intake d)),
     ln_repo = Some (i_targetRepo (d_issue d)), ln_kind = kind, ln_summary = summary,
     ln_fingerprint = None, ln_tags = None, ln_similarLearningIds = None, ln_evidenceIds = evidence,
     ln_confidence = confidence, ln_lastUsedAt = None, ln_createdAt = t\<rparr>"

definition buildLoopLearnings ::
    "(string \<Rightarrow> string) \<Rightarrow> loop_detail \<Rightarrow> loop_convergence_pr \<Rightarrow> timestamp \<Rightarrow> loop_learning list" where
  "buildLoopLearnings sha16 d pr t =
     (let evidence = map ea_id (filter ea_present (buildEvidenceArtifacts d))
            @ [i_id (d_issue d) @ ''-convergence-pr''];
          findings = reviewFindingsCount (Detail_Item d);
          commands = js_set (concat (map (\<lambda>r. map cr_command (tr_commands r)) (d_testRecords d)));
          files = js_set (concat (map ir_changedFiles (d_implementationRecords d)));
          verdict = st_globalVerdict (d_state d) in
      map (enrichLoopLearning sha16)
       ([learning d ''-learning-decision'' LK_DECISION
          (''Loop finalized with global verdict '' @ case_option ''undefined'' verdict_str verdict
            @ ''; convergence PR '' @ pr_status_str (cp_status pr) @ '' captured ''
            @ nat_str (length (cp_commits pr)) @ '' commit references.'')
          evidence (if verdict = Some PASS then 9 / 10 else 6 / 10) t]
       @ (if commands \<noteq> [] then [learning d ''-learning-test-policy'' LK_TEST_POLICY
            (''Validated test command policy for this loop: '' @ js_join ''; '' (take 3 commands) @ ''.'')
            (map tr_id (d_testRecords d))
            (if list_all (\<lambda>r. tr_status r = TEST_PASS) (d_testRecords d) then 85 / 100 else 55 / 100) t] else [])
       @ (if files \<noteq> [] then [learning d ''-learning-ownership'' LK_OWNERSHIP
            (''Implementation touched '' @ nat_str (length files) @ '' file(s); primary ownership hints: ''
              @ js_join '', '' (take 5 files) @ ''.'')
            (map ir_id (d_implementationRecords d)) (75 / 100) t] else [])
       @ (if findings > 0 then [learning d ''-learning-review-pattern'' LK_PITFALL
            (nat_str findings @ '' review finding(s) were recorded before finalization; check review evidence before repeating similar changes.'')
            (map rr_id (d_reviewRecords d) @ (case d_globalReview d of None \<Rightarrow> [] | Some g \<Rightarrow> [gr_id g]))
            (7 / 10) t] else [])))"

text \<open>The PR comment: errors of reading and publishing are caught and only logged.\<close>

definition publishPrComment :: "loops_host \<Rightarrow> string \<Rightarrow> loop_convergence_pr \<Rightarrow> (fs, unit) sm" where
  "publishPrComment h i pr = (case lh_prComment h of
     None \<Rightarrow> sret ()
   | Some publish \<Rightarrow>
       if case_option True (\<lambda>u. u = []) (cp_url pr) \<or> cp_id pr = [] then sret ()
       else (\<lambda>f. case readDetail i f of
           (Inl _, g) \<Rightarrow> (Inr (), g)
         | (Inr d, g) \<Rightarrow> (Inr (), snd (call (publish (cp_id pr) d) g))))"

definition finalizePort :: "loops_host \<Rightarrow> finalize_port" where
  "finalizePort h = \<lparr>
     fp_getDetail = getIssue h,
     fp_enforceReleaseGateOrThrow = (\<lambda>d. let so = buildSecondOpinion (lh_sha16 h) d in
       enforceReleaseGate d (buildReleaseGate (Detail_Item d) (Some so)) so),
     fp_openConvergencePr = openConvergencePr h,
     fp_annotateFinalize = (\<lambda>d pr. call (ag_annotateFinalize (lh_agent h) d pr)),
     fp_buildLearnings = buildLoopLearnings (lh_sha16 h),
     fp_publishPrComment = publishPrComment h,
     fp_readDetail = syncAndRead h\<rparr>"

definition loops_finalize :: "loops_host \<Rightarrow> string \<Rightarrow> (fs, loop_detail) sm" where
  "loops_finalize h i = finalize i (finalizePort h)"

subsection \<open>Advancing\<close>

fun phase_str :: "loop_phase \<Rightarrow> string" where
  "phase_str PHASE_0_INTAKE = ''PHASE_0_INTAKE''"
| "phase_str PHASE_1_SPEC = ''PHASE_1_SPEC''"
| "phase_str PHASE_2_REVIEW = ''PHASE_2_REVIEW''"
| "phase_str PHASE_3_DECOMPOSE = ''PHASE_3_DECOMPOSE''"
| "phase_str PHASE_4_IMPLEMENT = ''PHASE_4_IMPLEMENT''"
| "phase_str PHASE_5_REVIEW = ''PHASE_5_REVIEW''"
| "phase_str PHASE_6_CONVERGE = ''PHASE_6_CONVERGE''"
| "phase_str PHASE_7_GLOBAL_REVIEW = ''PHASE_7_GLOBAL_REVIEW''"
| "phase_str PHASE_8_ANNOTATE = ''PHASE_8_ANNOTATE''"
| "phase_str PHASE_CLOSED = ''CLOSED''"
| "phase_str PHASE_PAUSED = ''PAUSED''"

definition advancePort :: "loops_host \<Rightarrow> advance_port" where
  "advancePort h = \<lparr>
     ap_getDetail = getIssue h,
     ap_resumeAndRead = resumeAndRead h,
     ap_generateSpec = loops_generateSpec h,
     ap_decompose = loops_decompose h,
     ap_finalize = loops_finalize h,
     ap_reviewGlobal = loops_reviewGlobal h,
     ap_runLoop = runLoop h,
     ap_appendAdvanceLimitLog = (\<lambda>i phase maxSteps. smod (appendLog [(''type'', JStr ''LOOP_ADVANCE_LIMIT''),
       (''issue'', JStr i), (''status'', JStr (phase_str phase)),
       (''payload'', JObj [(''maxSteps'', jnat maxSteps)])]))\<rparr>"

definition loops_advance :: "loops_host \<Rightarrow> string \<Rightarrow> (fs, loop_detail) sm" where
  "loops_advance h i = advance i (advancePort h)"

subsection \<open>Human decisions\<close>

datatype spec_action = APPROVE | REJECT | REQUEST_REVISION

record loop_review_spec_request =
  rsr_action :: spec_action
  rsr_reviewer :: string
  rsr_notes :: "string option"

definition reviewed_spec :: "loop_review_spec_request \<Rightarrow> loop_spec \<Rightarrow> loop_spec" where
  "reviewed_spec request spec = spec\<lparr>
     sp_status := (case rsr_action request of APPROVE \<Rightarrow> SPEC_APPROVED | REJECT \<Rightarrow> SPEC_REJECTED
       | REQUEST_REVISION \<Rightarrow> SPEC_REVISION_REQUESTED),
     sp_approvedBy := (if rsr_action request = APPROVE then Some (rsr_reviewer request) else None),
     sp_body := (case rsr_notes request of
         None \<Rightarrow> sp_body spec
       | Some n \<Rightarrow> if n = [] then sp_body spec else sp_body spec @ ([CHR 0x0A, CHR 0x0A] @ ''## '' @ [CHR 0xE5, CHR 0xAE, CHR 0xA1, CHR 0xE6, CHR 0xA0, CHR 0xB8, CHR 0xE6, CHR 0x89, CHR 0xB9, CHR 0xE6, CHR 0xB3, CHR 0xA8, CHR 0x0A]) @ n @ [CHR 0x0A])\<rparr>"

definition reviewed_phase :: "spec_action \<Rightarrow> loop_phase" where
  "reviewed_phase a = (case a of APPROVE \<Rightarrow> PHASE_3_DECOMPOSE | REJECT \<Rightarrow> PHASE_CLOSED
     | REQUEST_REVISION \<Rightarrow> PHASE_1_SPEC)"

definition reviewSpec ::
    "loops_host \<Rightarrow> string \<Rightarrow> loop_review_spec_request \<Rightarrow> bool \<Rightarrow> (fs, loop_detail) sm" where
  "reviewSpec h i request advanceAfterApproval = sbind (getIssue h i) (\<lambda>d.
     case d_spec d of
       None \<Rightarrow> sthrow (BadRequest ''Spec must be generated before review'')
     | Some old \<Rightarrow> sbind now (\<lambda>t.
         let spec = reviewed_spec request old;
             st = (d_state d)\<lparr>st_phase := reviewed_phase (rsr_action request), st_updated := t\<rparr> in
         sthen (smod (in_order [writeSpec (d_issue d) spec st,
             appendLog [(''type'', JStr ''SPEC_STATE''), (''issue'', JStr i), (''spec'', JStr (sp_id spec)),
               (''to'', JStr (spec_status_str (sp_status spec))), (''reviewer'', JStr (rsr_reviewer request))]]))
           (if rsr_action request = APPROVE \<and> advanceAfterApproval then loops_advance h i
            else syncAndRead h i)))"

datatype intervention = PAUSE_LOOP | RESUME_LOOP | TAKE_SHARD

record loop_intervention_request =
  iv_action :: intervention
  iv_actor :: string
  iv_shardId :: "string option"
  iv_notes :: "string option"

definition taken_annotation :: "string option \<Rightarrow> loop_annotation \<Rightarrow> loop_annotation" where
  "taken_annotation notes a = a\<lparr>an_annotator := BY_HUMAN, an_implStatus := IMPL_IN_PROGRESS,
     an_verdict := ANN_UNREVIEWED,
     an_notes := (case notes of Some (c # cs) \<Rightarrow> c # cs | _ \<Rightarrow> ''Human took over this shard.'')\<rparr>"

definition intervene :: "loops_host \<Rightarrow> string \<Rightarrow> loop_intervention_request \<Rightarrow> (fs, loop_detail) sm" where
  "intervene h i request = sbind (getIssue h i) (\<lambda>d. sbind now (\<lambda>t.
     let st = d_state d;
         record = (\<lambda>action st' shards anns k. sthen (smod (writeIntervention i action (iv_actor request) st'
           shards anns k (iv_notes request))) (syncAndRead h i)) in
     case iv_action request of
       PAUSE_LOOP \<Rightarrow> record ''pause'' (st\<lparr>st_phase := PHASE_PAUSED, st_paused := True, st_updated := t\<rparr>)
         None None None
     | RESUME_LOOP \<Rightarrow> record ''resume'' (st\<lparr>st_phase := nextResumePhase st, st_paused := False,
         st_updated := t\<rparr>) None None None
     | TAKE_SHARD \<Rightarrow> (case iv_shardId request of
         None \<Rightarrow> sthrow (BadRequest ''shardId is required for take intervention'')
       | Some k \<Rightarrow>
           if k = [] then sthrow (BadRequest ''shardId is required for take intervention'')
           else case List.find (\<lambda>s. sh_id s = k) (d_shards d) of
             None \<Rightarrow> sthrow (NotFound (''Shard '' @ k @ '' not found''))
           | Some shard \<Rightarrow>
               if sh_status shard = SHARD_DONE
               then sthrow (BadRequest ''DONE shard cannot be taken over'')
               else let shards = set_status k SHARD_IN_PROGRESS (d_shards d);
                   anns = map_where (\<lambda>a. an_target a = k) (taken_annotation (iv_notes request)) (d_annotations d) in
                 record ''take'' (st\<lparr>st_phase := PHASE_4_IMPLEMENT, st_paused := False,
                     st_shardsInProgress := count_where (\<lambda>s. sh_status s = SHARD_IN_PROGRESS) shards,
                     st_updated := t\<rparr>)
                   (Some shards) (Some anns) (Some k))))"

subsection \<open>Natural-language commands\<close>

datatype command_intent =
    INTENT_CONTINUE | INTENT_PAUSE | INTENT_RESUME | INTENT_APPROVE_SPEC | INTENT_REQUEST_REVISION
  | INTENT_QUERY_EVIDENCE | INTENT_UNKNOWN

fun intent_str :: "command_intent \<Rightarrow> string" where
  "intent_str INTENT_CONTINUE = ''continue''"
| "intent_str INTENT_PAUSE = ''pause''"
| "intent_str INTENT_RESUME = ''resume''"
| "intent_str INTENT_APPROVE_SPEC = ''approve-spec''"
| "intent_str INTENT_REQUEST_REVISION = ''request-revision''"
| "intent_str INTENT_QUERY_EVIDENCE = ''query-evidence''"
| "intent_str INTENT_UNKNOWN = ''unknown''"

definition EVIDENCE_PATTERN :: regex where
  "EVIDENCE_PATTERN = rseqs [ralts [''show'', ''view'', ''query'', ''list''], RStar RDot,
     RAlt (RStr ''evidence'') (RAlt (RSeq (RStr ''log'') (ROpt (RStr ''s'')))
       (RAlt (RSeq (RStr ''record'') (ROpt (RStr ''s''))) (RStr ''trace'')))]"

definition REVISION_PATTERN :: regex where
  "REVISION_PATTERN = RAlt (rseqs [ralts [''request'', ''ask''], RStar RDot,
     ralts [''revision'', ''change'', ''update'']]) (ralts [[CHR 0xE9, CHR 0x80, CHR 0x80, CHR 0xE5, CHR 0x9B, CHR 0x9E], [CHR 0xE4, CHR 0xBF, CHR 0xAE, CHR 0xE6, CHR 0x94, CHR 0xB9], [CHR 0xE4, CHR 0xBF, CHR 0xAE, CHR 0xE8, CHR 0xAE, CHR 0xA2]])"

definition APPROVE_PATTERN :: regex where
  "APPROVE_PATTERN = RAlt (rseqs [ralts [''approve'', ''accept''], RStar RDot,
     ROpt (ralts [''spec'', ''plan''])]) (ralts [[CHR 0xE6, CHR 0x89, CHR 0xB9, CHR 0xE5, CHR 0x87, CHR 0x86], [CHR 0xE5, CHR 0x90, CHR 0x8C, CHR 0xE6, CHR 0x84, CHR 0x8F]])"

definition parseNaturalCommand :: "string \<Rightarrow> command_intent" where
  "parseNaturalCommand command = (let s = to_lower (js_trim command) in
     if rtest EVIDENCE_PATTERN s then INTENT_QUERY_EVIDENCE
     else if rtest REVISION_PATTERN s then INTENT_REQUEST_REVISION
     else if rtest APPROVE_PATTERN s then INTENT_APPROVE_SPEC
     else if rtest (ralts [''resume'', ''recover'', ''unpause'', [CHR 0xE6, CHR 0x81, CHR 0xA2, CHR 0xE5, CHR 0xA4, CHR 0x8D], [CHR 0xE7, CHR 0xBB, CHR 0xA7, CHR 0xE7, CHR 0xBB, CHR 0xAD, CHR 0xE6, CHR 0x81, CHR 0xA2, CHR 0xE5, CHR 0xA4, CHR 0x8D]]) s then INTENT_RESUME
     else if rtest (ralts [''pause'', ''stop'', ''hold'', [CHR 0xE6, CHR 0x9A, CHR 0x82, CHR 0xE5, CHR 0x81, CHR 0x9C], [CHR 0xE5, CHR 0x81, CHR 0x9C, CHR 0xE6, CHR 0xAD, CHR 0xA2]]) s then INTENT_PAUSE
     else if rtest (ralts [''continue'', ''advance'', ''run'', [CHR 0xE6, CHR 0x8E, CHR 0xA8, CHR 0xE8, CHR 0xBF, CHR 0x9B], [CHR 0xE7, CHR 0xBB, CHR 0xA7, CHR 0xE7, CHR 0xBB, CHR 0xAD]]) s then INTENT_CONTINUE
     else INTENT_UNKNOWN)"

record natural_command_response =
  nc_issueId :: string
  nc_intent :: command_intent
  nc_executed :: bool
  nc_message :: string
  nc_detail :: "loop_detail option"
  nc_logs :: "loop_log_entry list option"

definition naturalCommand ::
    "loops_host \<Rightarrow> string \<Rightarrow> string \<Rightarrow> string \<Rightarrow> (fs, natural_command_response) sm" where
  "naturalCommand h i command actor =
     (let intent = parseNaturalCommand command;
          executed = (\<lambda>m msg. sbind m (\<lambda>d. sret \<lparr>nc_issueId = i, nc_intent = intent, nc_executed = True,
            nc_message = msg, nc_detail = Some d, nc_logs = None\<rparr>));
          intervention = (\<lambda>a. intervene h i \<lparr>iv_action = a, iv_actor = actor, iv_shardId = None, iv_notes = None\<rparr>) in
      sthen (smod (appendLog [(''type'', JStr ''NATURAL_COMMAND''), (''issue'', JStr i),
        (''actor'', JStr actor), (''command'', JStr command), (''intent'', JStr (intent_str intent))]))
      (case intent of
         INTENT_CONTINUE \<Rightarrow> executed (loops_advance h i) ''Continued loop to the next checkpoint.''
       | INTENT_PAUSE \<Rightarrow> executed (intervention PAUSE_LOOP) ''Paused loop.''
       | INTENT_RESUME \<Rightarrow> executed (intervention RESUME_LOOP) ''Resumed loop.''
       | INTENT_APPROVE_SPEC \<Rightarrow> executed
           (reviewSpec h i \<lparr>rsr_action = APPROVE, rsr_reviewer = actor, rsr_notes = None\<rparr> True)
           ''Approved spec and continued automation.''
       | INTENT_REQUEST_REVISION \<Rightarrow> executed
           (reviewSpec h i \<lparr>rsr_action = REQUEST_REVISION, rsr_reviewer = actor, rsr_notes = Some command\<rparr> True)
           ''Requested spec revision.''
       | INTENT_QUERY_EVIDENCE \<Rightarrow> sbind (getIssue h i) (\<lambda>d. sbind sget (\<lambda>f.
           sret \<lparr>nc_issueId = i, nc_intent = intent, nc_executed = False,
             nc_message = ''Returned recent evidence logs.'', nc_detail = Some d,
             nc_logs = Some (readLogs (Some i) None (Some 20) f)\<rparr>))
       | INTENT_UNKNOWN \<Rightarrow> sret \<lparr>nc_issueId = i, nc_intent = intent, nc_executed = False,
           nc_message = ''Command was not recognized. Try continue, pause, resume, approve spec, request revision, or show evidence.'',
           nc_detail = None, nc_logs = None\<rparr>))"

end
