(* ===== verification/Handler_Logic.thy ===== *)
theory Handler_Logic
  imports Facade
begin

text \<open>
  How invariants of the store pass through the handlers of the facade. \<open>sat I m Q\<close> says that \<open>m\<close>
  keeps \<open>I\<close>, on errors too, and that a result satisfies \<open>Q\<close>. The locale \<open>shard_writes\<close> is the
  contract between a store invariant and the writes a shard handler makes: logging keeps it, a
  detail that is read is known to be good, and a good state with its shards can be written. The
  handlers are verified once against it; the engine's termination and the lifecycle of the loops
  are two interpretations.
\<close>

subsection \<open>Keeping an invariant\<close>

definition sat :: "('s \<Rightarrow> bool) \<Rightarrow> ('s, 'a) sm \<Rightarrow> ('a \<Rightarrow> bool) \<Rightarrow> bool" where
  "sat I m Q \<longleftrightarrow> (\<forall>f. I f \<longrightarrow> I (snd (m f)) \<and> (\<forall>x. fst (m f) = Inr x \<longrightarrow> Q x))"

lemma satI:
  "(\<And>f. I f \<Longrightarrow> I (snd (m f))) \<Longrightarrow> (\<And>f x. I f \<Longrightarrow> fst (m f) = Inr x \<Longrightarrow> Q x) \<Longrightarrow> sat I m Q"
  by (simp add: sat_def)

lemma sat_keeps: "sat I m Q \<Longrightarrow> I f \<Longrightarrow> I (snd (m f))"
  by (simp add: sat_def)

lemma sat_value: "sat I m Q \<Longrightarrow> I f \<Longrightarrow> m f = (Inr x, g) \<Longrightarrow> Q x"
  unfolding sat_def by (metis fst_conv)

lemma sat_preserves: "sat I m Q \<Longrightarrow> preserves I m"
  by (simp add: sat_def preserves_def)

lemma sat_weaken: "sat I m Q \<Longrightarrow> (\<And>x. Q x \<Longrightarrow> R x) \<Longrightarrow> sat I m R"
  by (simp add: sat_def)

lemma sat_sret: "Q x \<Longrightarrow> sat I (sret x) Q"
  by (simp add: sat_def)

lemma sat_sthrow: "sat I (sthrow e) Q"
  by (simp add: sat_def)

lemma sat_sguard: "sat I (sguard b e) Q" if "Q ()"
  using that by (simp add: sat_def)

lemma sat_smod: "(\<And>f. I f \<Longrightarrow> I (h f)) \<Longrightarrow> Q () \<Longrightarrow> sat I (smod h) Q"
  by (simp add: sat_def)

lemma sat_sget: "(\<And>f. I f \<Longrightarrow> Q f) \<Longrightarrow> sat I sget Q"
  by (simp add: sat_def)

lemma sat_sbind:
  assumes "sat I m Q" and "\<And>x. Q x \<Longrightarrow> sat I (k x) R"
  shows "sat I (sbind m k) R"
proof (rule satI)
  fix f assume f: "I f"
  obtain r g where m: "m f = (r, g)" by fastforce
  have g: "I g" using sat_keeps [OF assms(1) f] m by simp
  show "I (snd (sbind m k f))"
    using m g sat_keeps [OF assms(2)] sat_value [OF assms(1) f]
    by (cases r) (auto simp: sbind_app)
  fix y assume "fst (sbind m k f) = Inr y"
  then show "R y"
    using m g assms(2) sat_value [OF assms(1) f]
    by (cases r) (auto simp: sbind_app sat_def)
qed

lemma sat_sthen: "sat I m (\<lambda>_. True) \<Longrightarrow> sat I k R \<Longrightarrow> sat I (sthen m k) R"
  unfolding sthen_def by (rule sat_sbind)

lemma sat_if: "(b \<Longrightarrow> sat I m Q) \<Longrightarrow> (\<not> b \<Longrightarrow> sat I k Q) \<Longrightarrow> sat I (if b then m else k) Q"
  by simp

lemma sat_option:
  "(x = None \<Longrightarrow> sat I m Q) \<Longrightarrow> (\<And>y. x = Some y \<Longrightarrow> sat I (k y) Q)
   \<Longrightarrow> sat I (case x of None \<Rightarrow> m | Some y \<Rightarrow> k y) Q"
  by (cases x) simp_all

lemma sat_prod: "(\<And>a b. x = (a, b) \<Longrightarrow> sat I (k a b) Q) \<Longrightarrow> sat I (case x of (a, b) \<Rightarrow> k a b) Q"
  by (cases x) simp

lemmas sat_rules = sat_sbind sat_sthen sat_if sat_option sat_prod

subsection \<open>States of the same loop, and what a shard write leaves\<close>

definition same_loop :: "loop_state_item \<Rightarrow> loop_state_item \<Rightarrow> bool" where
  "same_loop st st' \<longleftrightarrow> st_issueId st' = st_issueId st \<and> st_round st' = st_round st
     \<and> st_specVersion st' = st_specVersion st \<and> st_shardsTotal st' = st_shardsTotal st
     \<and> st_reloopCount st' = st_reloopCount st"

lemma same_loop_trans: "same_loop a b \<Longrightarrow> same_loop b c \<Longrightarrow> same_loop a c"
  by (simp add: same_loop_def)

lemma same_loop_updates [simp]:
  "same_loop st (s\<lparr>st_phase := p\<rparr>) = same_loop st s" "same_loop st (s\<lparr>st_paused := b\<rparr>) = same_loop st s"
  "same_loop st (s\<lparr>st_updated := t\<rparr>) = same_loop st s"
  "same_loop st (s\<lparr>st_shardsDone := n\<rparr>) = same_loop st s"
  "same_loop st (s\<lparr>st_shardsInProgress := n\<rparr>) = same_loop st s"
  "same_loop st (s\<lparr>st_costCalls := n\<rparr>) = same_loop st s"
  "same_loop st (s\<lparr>st_costTokens := n\<rparr>) = same_loop st s"
  "same_loop st (s\<lparr>st_globalVerdict := v\<rparr>) = same_loop st s"
  "same_loop st (s\<lparr>st_finalized := x\<rparr>) = same_loop st s"
  by (simp_all add: same_loop_def)

lemma same_loop_refl [simp, intro]: "same_loop st st"
  by (simp add: same_loop_def)

lemma same_loop_charged: "same_loop st (charged st c n f)"
  by (simp add: same_loop_def)

lemma same_loop_reviewed [simp]: "same_loop st (reviewed_state st shards t)"
  by (simp add: reviewed_state_def Let_def)

text \<open>Issues and intakes are filed under their own id.\<close>

definition records_keyed :: "fs \<Rightarrow> bool" where
  "records_keyed f \<longleftrightarrow> (\<forall>k x. map_of (fs_issues f) k = Some x \<longrightarrow> i_id x = k)
     \<and> (\<forall>k x. map_of (fs_intakes f) k = Some x \<longrightarrow> in_id x = k)"

lemma records_keyed_same:
  "fs_issues g = fs_issues f \<Longrightarrow> fs_intakes g = fs_intakes f \<Longrightarrow> records_keyed g = records_keyed f"
  by (simp add: records_keyed_def)

lemma records_keyed_ops [simp]:
  "records_keyed (put_text p d f) = records_keyed f"
  "records_keyed (fold (\<lambda>s. put_text (pp s) (dd s)) xs f) = records_keyed f"
  "records_keyed (write_shards_json i shards f) = records_keyed f"
  "records_keyed (write_annotations_json i anns f) = records_keyed f"
  "records_keyed (upsertState st f) = records_keyed f"
  "records_keyed (appendLog l f) = records_keyed f"
  "records_keyed (writeNotification i k r t b h f) = records_keyed f"
  "records_keyed (ensureInitialized f) = records_keyed f"
  "records_keyed (tick f) = records_keyed f"
  "records_keyed (put_annotations i anns f) = records_keyed f"
  "records_keyed (put_shards i shards f) = records_keyed f"
proof -
  show "records_keyed (fold (\<lambda>s. put_text (pp s) (dd s)) xs f) = records_keyed f"
    by (induction xs arbitrary: f) (simp_all add: records_keyed_same [OF put_text_frame(4,5)])
qed (rule records_keyed_same; simp)+

lemma records_keyed_updates [simp]:
  "records_keyed (f\<lparr>fs_specs := a\<rparr>) = records_keyed f"
  "records_keyed (f\<lparr>fs_testRecords := b\<rparr>) = records_keyed f"
  "records_keyed (f\<lparr>fs_implRecords := c\<rparr>) = records_keyed f"
  "records_keyed (f\<lparr>fs_reviewRecords := e\<rparr>) = records_keyed f"
  "records_keyed (f\<lparr>fs_reviewHistory := u\<rparr>) = records_keyed f"
  "records_keyed (f\<lparr>fs_matrices := v\<rparr>) = records_keyed f"
  "records_keyed (f\<lparr>fs_globalReviews := w\<rparr>) = records_keyed f"
  "records_keyed (f\<lparr>fs_prs := x\<rparr>) = records_keyed f"
  "records_keyed (f\<lparr>fs_learnings := y\<rparr>) = records_keyed f"
  "records_keyed (f\<lparr>fs_rawPayloads := z\<rparr>) = records_keyed f"
  "records_keyed (f\<lparr>fs_recipes := r\<rparr>) = records_keyed f"
  by (rule records_keyed_same; simp)+

lemma records_keyed_put [simp]:
  "records_keyed f \<Longrightarrow> records_keyed (put_issue x f)"
  "records_keyed f \<Longrightarrow> fs_intakes f = m \<Longrightarrow> in_id y = k \<Longrightarrow> records_keyed (f\<lparr>fs_intakes := AList.update k y m\<rparr>)"
  by (auto simp add: records_keyed_def store_simps)

definition state_written :: "loop_state_item \<Rightarrow> fs \<Rightarrow> fs \<Rightarrow> bool" where
  "state_written st f g \<longleftrightarrow> fs_env g = fs_env f \<and> legacy_states g = legacy_states f
     \<and> (records_keyed f \<longrightarrow> records_keyed g)
     \<and> fs_states g = AList.update (st_issueId st) st (fs_states f)"

definition shards_written :: "string \<Rightarrow> loop_shard list \<Rightarrow> loop_state_item \<Rightarrow> fs \<Rightarrow> fs \<Rightarrow> bool" where
  "shards_written i shards st f g \<longleftrightarrow> state_written st f g \<and> map_of (fs_shards g) i = Some shards"

lemma state_written_upsert [simp]: "state_written st f (upsertState st f)"
  by (simp add: state_written_def store_simps)

lemma state_written_logs [simp]:
  "state_written st f (appendLog p g) = state_written st f g"
  "state_written st f (writeNotification j k r t b h g) = state_written st f g"
  by (simp_all add: state_written_def)

lemma shards_written_logs [simp]:
  "shards_written i s st f (appendLog p g) = shards_written i s st f g"
  "shards_written i s st f (writeNotification j k r t b h g) = shards_written i s st f g"
  by (simp_all add: shards_written_def)

lemma shard_write_ops:
  "shards_written i shards st f (writeTestRecord i k tr anns shards st f)"
  "shards_written i shards st f (writeImplementationRecord i k ir anns shards st f)"
  "shards_written i shards st f (writeReviewRecord i k rr anns shards st f)"
  "shards_written i shards st f (writeShardProgress i k a b c shards st anns' f)"
  by (simp_all add: shards_written_def state_written_def writeTestRecord_def writeImplementationRecord_def
      writeReviewRecord_def writeShardProgress_def Let_def store_simps split: option.splits)

subsection \<open>The runner only logs\<close>

lemma logs_only_draw [simp]: "logs_only f (snd (draw g)) = logs_only f g"
  by (simp add: logs_only_def)

lemma logs_only_sret [simp]: "logs_only f (snd (sret x f))"
  by simp

lemma attempt_logs: "logs_only f (snd (attempt c f))"
  by (simp add: attempt_def)

lemma runCommand_logs: "logs_only f (snd (runCommand host profile c cwd t f))"
proof -
  have loc: "logs_only f (snd (runCommandLocal host c cwd t f))" for f
    unfolding runCommandLocal_def
    by (intro logs_only_sbind attempt_logs logs_only_sm logs_only_sret)
      (auto split: sum.splits intro!: logs_only_sbind attempt_logs)
  have "logs_only f (snd (runCommandInDocker host docker p c cwd t f))" for docker p f
    unfolding runCommandInDocker_def by (intro logs_only_sbind attempt_logs logs_only_sm logs_only_sret)
  with loc show ?thesis by (simp add: runCommand_def split: option.splits)
qed

lemma run_step_logs: "logs_only f (snd (run_step host al p cwd t c acc f))"
  unfolding run_step_def
  by (auto split: sum.splits policy_decision.splits simp: case_prod_beta Let_def
      intro!: logs_only_sbind runCommand_logs)

lemma run_commands_logs: "logs_only f (snd (run_commands host al p cwd t cs acc f))"
proof (induction cs arbitrary: acc f)
  case (Cons c cs)
  show ?case by (simp only: run_commands.simps) (rule logs_only_sbind [OF run_step_logs Cons.IH])
qed simp

lemma runShardTests_logs: "logs_only f (snd (runShardTests host i k r cwd req p f))"
proof -
  have d: "logs_only g (snd ((let (uuid, h) = draw g in (Inr uuid :: js_error + string, h))))" for g
    using logs_only_draw [of g g] by (simp add: case_prod_beta)
  show ?thesis
    unfolding runShardTests_def Let_def
    by (intro logs_only_sbind run_commands_logs logs_only_sm logs_only_sret)
      (use d in \<open>simp_all add: case_prod_beta\<close>)
qed

subsection \<open>The contract\<close>

abbreviation known_in :: "(loop_state_item \<Rightarrow> nat \<Rightarrow> bool) \<Rightarrow> loop_detail \<Rightarrow> bool" where
  "known_in K d \<equiv> K (d_state d) (length (d_shards d))"

locale shard_writes =
  fixes I :: "fs \<Rightarrow> bool" and i :: string and K :: "loop_state_item \<Rightarrow> nat \<Rightarrow> bool"
  assumes logs: "logs_only f g \<Longrightarrow> I f \<Longrightarrow> I g"
    and read: "I f \<Longrightarrow> detail_of i f = Inr d \<Longrightarrow> K (d_state d) (length (d_shards d))"
    and K_same: "K st n \<Longrightarrow> same_loop st st' \<Longrightarrow> K st' n"
    and written: "I f \<Longrightarrow> K st (length shards) \<Longrightarrow> shards_written i shards st f g \<Longrightarrow> I g"
begin

lemma sat_logs: "(\<And>f. logs_only f (snd (m f))) \<Longrightarrow> sat I m (\<lambda>_. True)"
  using logs by (auto simp: sat_def)

lemma sat_call: "sat I (call a) (\<lambda>_. True)" and sat_now: "sat I now (\<lambda>_. True)"
  by (rule sat_logs, simp)+

lemma sat_shardTests: "sat I (runShardTests host i' k r cwd req p) (\<lambda>_. True)"
  by (rule sat_logs) (rule runShardTests_logs)

lemma sat_readDetail: "sat I (readDetail i) (known_in K)"
proof (rule satI)
  fix f assume f: "I f"
  then have g: "I (ensureInitialized f)" by (rule logs [rotated]) simp
  show "I (snd (readDetail i f))" using g by (simp add: readDetail_eq)
  fix d assume "fst (readDetail i f) = Inr d"
  then show "known_in K d" using read [OF g] by (simp add: readDetail_eq)
qed

lemma enriched_frame [simp]: "d_state (enriched h d) = d_state d" "d_shards (enriched h d) = d_shards d"
  by (simp_all add: enriched_def withRequirementsCoverage_def Let_def)

lemma sat_getIssue: "sat I (getIssue h i) (known_in K)"
  unfolding getIssue_def by (intro sat_sbind [OF sat_readDetail] sat_sret) simp

lemma sat_syncAndRead: "sat I (syncAndRead h i) (known_in K)"
  unfolding syncAndRead_def by (intro sat_sbind [OF sat_readDetail] sat_sret) simp

lemma sat_cost: "sat I (applyCostGuard st c n) (same_loop st)"
proof (rule satI)
  fix f assume "I f"
  then show "I (snd (applyCostGuard st c n f))" by (rule logs [OF logs_only_applyCostGuard])
  fix s assume "fst (applyCostGuard st c n f) = Inr s"
  then show "same_loop st s" by (subst (asm) applyCostGuard_eq) (auto simp: same_loop_charged)
qed

lemma sat_write:
  assumes "K st n" and "same_loop st st'" and "length shards = n"
    and "\<And>f. shards_written i shards st' f (h f)"
  shows "sat I (smod h) (\<lambda>_. True)"
  using written [OF _ _ assms(4)] K_same [OF assms(1,2)] assms(3) by (intro sat_smod) auto

lemmas sat_shard_rules = sat_rules sat_call sat_now sat_shardTests sat_readDetail sat_getIssue
  sat_syncAndRead sat_cost

lemma sat_persist: "sat I (persistImplementation i k rec) (\<lambda>_. True)"
  unfolding persistImplementation_def Let_def
proof (intro sat_sbind [OF sat_readDetail] sat_sbind [OF sat_now] sat_sbind [OF sat_cost])
  fix d t st assume "known_in K d" "same_loop ((d_state d)\<lparr>st_phase := PHASE_5_REVIEW,
      st_shardsInProgress := 0, st_updated := t\<rparr>) st"
  moreover have "same_loop (d_state d) ((d_state d)\<lparr>st_phase := PHASE_5_REVIEW,
      st_shardsInProgress := 0, st_updated := t\<rparr>)" by simp
  ultimately show "sat I (smod (writeImplementationRecord i k rec
      (map_where (\<lambda>a. an_target a = k) (implemented_annotation rec) (d_annotations d))
      (set_status k SHARD_IMPLEMENTED (d_shards d)) st)) (\<lambda>_. True)"
    by (intro sat_write [where st = "d_state d", OF _ same_loop_trans _ shard_write_ops(2)]) simp_all
qed

lemma sat_persistImplementationRecord: "sat I (persistImplementationRecord h i k rec) (known_in K)"
  unfolding persistImplementationRecord_def by (intro sat_sthen sat_persist sat_syncAndRead)

lemma sat_runShardTests: "sat I (loops_runShardTests h i k req) (\<lambda>_. True)"
  unfolding loops_runShardTests_def Let_def
proof (intro sat_sbind [OF sat_getIssue] sat_option sat_sthrow sat_sbind [OF sat_shardTests]
    sat_sbind [OF sat_now] sat_sthen sat_sret TrueI)
  fix d shard rec t anns
  assume "known_in K d"
  then show "sat I (smod (writeTestRecord i k rec
      (map_where (\<lambda>a. an_target a = k) anns (d_annotations d))
      (map_where (\<lambda>s. sh_id s = k \<and> tr_status rec = TEST_FAIL) (\<lambda>s. s\<lparr>sh_status := SHARD_NEEDS_WORK\<rparr>) (d_shards d))
      ((d_state d)\<lparr>st_phase := PHASE_5_REVIEW, st_updated := t\<rparr>))) (\<lambda>_. True)"
    by (intro sat_write [where st = "d_state d", OF _ _ _ shard_write_ops(1)]) simp_all
qed

lemma sat_review: "sat I (applyReview git i k req) (\<lambda>_. True)"
  unfolding applyReview_def Let_def
proof (intro sat_sbind [OF sat_readDetail] sat_sbind [OF sat_sget [where Q = "\<lambda>_. True"]] sat_option sat_sthrow
    sat_if sat_sbind [OF sat_now] sat_sbind [OF sat_cost] sat_sthen sat_sret TrueI)
  fix d f t s st v anns rec
  assume "known_in K d" "same_loop (reviewed_state (d_state d) (applyShardReviewStatus (d_shards d) k v) t) st"
  then show "sat I (smod (writeReviewRecord i k rec anns (applyShardReviewStatus (d_shards d) k v) st)) (\<lambda>_. True)"
    by (intro sat_write [where st = "d_state d", OF _ same_loop_trans _ shard_write_ops(3)]) (simp_all add: applyShardReviewStatus_def)
next
  show "sat I (smod (writeRedoLimitSideEffects i k req m n)) (\<lambda>_. True)" for m n
    by (rule sat_logs) (simp add: writeRedoLimitSideEffects_def)
  show "sat I (commit_shard git i issue shard files) (\<lambda>_. True)" for issue shard files
    by (rule sat_logs) (rule commit_shard_logs)
qed

lemma sat_reviewShard: "sat I (reviewShard h i k req) (\<lambda>_. True)"
  unfolding reviewShard_def by (rule sat_review)

text \<open>One shard, and the scheduler's loop over the facade's port.\<close>

lemma port_simps [simp]:
  "rp_readFreshDetail (shardRunnerPort h) = syncAndRead h"
  "rp_runAgent (shardRunnerPort h) issue shard r cwd = call (lh_claude h issue shard r cwd)"
  "rp_persistImplementation (shardRunnerPort h) = persistImplementationRecord h"
  "rp_reviewTests (shardRunnerPort h) m tr = call (ag_reviewTests (lh_agent h) m tr)"
  "rp_review (shardRunnerPort h) s rec tr = call (ag_review (lh_agent h) s rec tr)"
  "rp_applyReview (shardRunnerPort h) j k req = sthen (reviewShard h j k req) (sret ())"
  by (simp_all add: shardRunnerPort_def)

lemma sat_runTests: "sat I (rp_runTests (shardRunnerPort h) i k) (\<lambda>_. True)"
  unfolding shardRunnerPort_def shard_runner_port.simps
  by (intro sat_sbind [OF sat_sget [where Q = "\<lambda>_. True"]] sat_runShardTests TrueI)

lemma sat_pipeline: "sat I (shard_pipeline i d shard (shardRunnerPort h)) (\<lambda>_. True)"
  unfolding shard_pipeline_def Let_def port_simps
  by (intro sat_sbind [OF sat_call] sat_sbind [OF sat_persistImplementationRecord]
      sat_sbind [OF sat_runTests] sat_sthen sat_reviewShard sat_sret TrueI)

lemma sat_run:
  assumes "known_in K d"
  shows "sat I (runRunnableShard i d shard (shardRunnerPort h)) (\<lambda>_. True)"
  unfolding runRunnableShard_def
proof (intro sat_sbind [OF sat_now] sat_sthen sat_pipeline)
  show "sat I (smod (writeShardProgress i (sh_id shard) (Some (shard_status_str (sh_status shard)))
         ''IN_PROGRESS'' ''loops-scheduler'' (set_status (sh_id shard) SHARD_IN_PROGRESS (d_shards d))
         ((d_state d)\<lparr>st_phase := PHASE_4_IMPLEMENT, st_shardsInProgress := 1, st_updated := t\<rparr>)
         None)) (\<lambda>_. True)" for t
    by (rule sat_write [OF assms _ _ shard_write_ops(4)]) simp_all
qed

lemma sat_progress:
  assumes "known_in K d" and "same_loop (d_state d) st'" and "length shards = length (d_shards d)"
    and "\<And>g. logs_only g (in_order ls g)"
  shows "sat I (smod (in_order (writeShardProgress i k a b c shards st' anns # ls))) (\<lambda>_. True)"
proof (rule sat_smod)
  fix f assume "I f"
  then have "I (writeShardProgress i k a b c shards st' anns f)"
    using K_same [OF assms(1,2)] assms(3) by (intro written [OF _ _ shard_write_ops(4)]) simp_all
  with logs [OF assms(4)] show "I (in_order (writeShardProgress i k a b c shards st' anns # ls) f)"
    by simp
qed simp

lemma sat_recover: "known_in K d \<Longrightarrow> sat I (recoverInterruptedShards i d) (\<lambda>_. True)"
  unfolding recoverInterruptedShards_def Let_def
  by (intro sat_if sat_sret TrueI sat_sbind [OF sat_now] sat_sthen sat_progress) simp_all

lemma sat_block: "known_in K d \<Longrightarrow> sat I (blockShardForContextBudget i d shard cb) (\<lambda>_. True)"
  unfolding blockShardForContextBudget_def Let_def
  by (intro sat_sbind [OF sat_sget [where Q = "\<lambda>_. True"]] TrueI sat_sbind [OF sat_now] sat_progress)
    simp_all

lemma sat_pick:
  assumes "known_in K (sd_detail s)"
  shows "sat I (pick_shard i (shardRunnerPort h) s) (\<lambda>(t, _). known_in K (sd_detail t))"
  unfolding pick_shard_def port_simps
  by (intro sat_option sat_sret sat_sbind [OF sat_recover [OF assms]] sat_if
      sat_sbind [OF sat_syncAndRead]) (simp_all add: assms)

lemma sat_iter:
  assumes "known_in K (sd_detail s)"
  shows "sat I (sched_iter i (shardRunnerPort h) cb s) (\<lambda>(_, t). known_in K (sd_detail t))"
  unfolding sched_iter_def port_simps
  by (rule sat_sbind [OF sat_pick [OF assms]])
    (auto intro!: sat_option sat_sret sat_if sat_sthen sat_block sat_run sat_sbind [OF sat_syncAndRead])

lemma sat_loop:
  assumes "I f" and "known_in K (sd_detail s)"
    and "sched_loop fuel i (shardRunnerPort h) cb mp s f = Some (r, g)"
  shows "I g \<and> (\<forall>t. r = Inr t \<longrightarrow> known_in K (sd_detail t))"
  using assms
proof (induction fuel arbitrary: s f)
  case 0
  then show ?case by (auto split: if_splits)
next
  case (Suc fuel)
  show ?case
  proof (cases "sd_advanced s < mp")
    case True
    obtain x u where iter: "sched_iter i (shardRunnerPort h) cb s f = (x, u)" by fastforce
    have u: "I u" using sat_keeps [OF sat_iter [OF Suc.prems(2)] Suc.prems(1)] iter by (metis snd_conv)
    show ?thesis
    proof (cases x)
      case (Inl e)
      with Suc.prems(3) True iter u show ?thesis by auto
    next
      case (Inr y)
      obtain step t where y: "y = (step, t)" by fastforce
      have "known_in K (sd_detail t)"
        using sat_value [OF sat_iter [OF Suc.prems(2)] Suc.prems(1), where x = "(step, t)" and g = u] iter
        by (simp only: Inr y prod.case)
      with Suc.prems(3) Suc.IH [OF u] True iter u Inr y show ?thesis by (cases step) auto
    qed
  qed (use Suc.prems in auto)
qed

end

text \<open>Handlers that write the state alone need one more law, and the locks must not matter.\<close>

locale loop_writes = shard_writes +
  assumes moved: "I f \<Longrightarrow> K st n \<Longrightarrow> state_written st f g \<Longrightarrow> I g"
    and locks: "I (f\<lparr>fs_locks := l\<rparr>) = I f"
begin

lemma sat_move:
  assumes "K st n" and "same_loop st st'" and "\<And>f. state_written st' f (h f)"
  shows "sat I (smod h) (\<lambda>_. True)"
  using moved [OF _ K_same [OF assms(1,2)] assms(3)] by (intro sat_smod) auto

lemma sat_finish:
  assumes "known_in K (sd_detail s)"
  shows "sat I (sched_finish i (shardRunnerPort h) mp cb s) (known_in K)"
  unfolding sched_finish_def Let_def port_simps
proof (intro sat_if sat_sthen sat_syncAndRead sat_sbind [OF sat_now] sat_sthrow)
  show "sat I (smod (appendBatchLog i mp cb s)) (\<lambda>_. True)"
    by (rule sat_logs) (simp add: appendBatchLog_def)
  show "sat I (smod (upsertState ((d_state (sd_detail s))\<lparr>st_phase := PHASE_6_CONVERGE,
      st_shardsDone := n, st_shardsInProgress := 0, st_updated := t\<rparr>))) (\<lambda>_. True)" for n t
    by (rule sat_move [where st' = "(d_state (sd_detail s))\<lparr>st_phase := PHASE_6_CONVERGE,
        st_shardsDone := n, st_shardsInProgress := 0, st_updated := t\<rparr>", OF assms]) simp_all
qed

lemma sat_unlocked:
  assumes "known_in K d"
  shows "sat I (loops_runLoopUnlocked h i d) (known_in K)"
proof -
  let ?s = "\<lparr>sd_detail = d, sd_advanced = 0, sd_blocked = 0, sd_recovered = 0\<rparr>"
  define good where "good = (\<lambda>x :: (js_error + loop_detail) \<times> fs.
    I (snd x) \<and> (\<forall>y. fst x = Inr y \<longrightarrow> known_in K y))"
  have good: "good (loops_runLoopUnlocked h i d f)" if f: "I f" for f
  proof (cases "sched_loop (sched_fuel f d) i (shardRunnerPort h) (cf_contextBudget (fs_cfg f))
      (cf_maxParallel (fs_cfg f)) ?s f")
    case None
    with f show ?thesis
      by (simp add: good_def loops_runLoopUnlocked_def runLoopUnlocked_def Let_def)
  next
    case (Some p)
    obtain r g where p: "p = (r, g)" by fastforce
    have loop: "I g \<and> (\<forall>t. r = Inr t \<longrightarrow> known_in K (sd_detail t))"
      using sat_loop [OF f _ Some [unfolded p]] assms by simp
    have "good (sched_finish i (shardRunnerPort h) mp cb t g)" if "r = Inr t" for t mp cb
      using sat_finish [of t h mp cb] loop that by (auto simp: sat_def good_def)
    moreover have "good (Inl e, u)" if "I u" for e u using that by (simp add: good_def)
    ultimately show ?thesis
      using f loop Some p
      by (cases r) (auto simp: loops_runLoopUnlocked_def runLoopUnlocked_def Let_def)
  qed
  show ?thesis using good by (auto simp: sat_def good_def)
qed

lemma sat_lock:
  assumes "sat I m Q"
  shows "sat I (withIssueAndRepoLock process_acquire process_release j r m) Q"
proof -
  have held: "I (snd (m (f\<lparr>fs_locks := l\<rparr>)))" "fst (m (f\<lparr>fs_locks := l\<rparr>)) = Inr x \<Longrightarrow> Q x"
    if "I f" for f l x
    using assms that locks [of l f] by (simp_all add: sat_def)
  show ?thesis
    unfolding sat_def withIssueAndRepoLock_def Let_def process_acquire_def process_release_def
    using held locks by (auto split: prod.splits sum.splits) (metis fst_conv snd_conv)+
qed

lemma sat_runLoop: "sat I (runLoop h i) (known_in K)"
  unfolding runLoop_def
  by (intro sat_sbind [OF sat_getIssue] sat_if sat_sret sat_lock sat_unlocked)

end

end
