(* ===== verification/Facade_Laws.thy ===== *)
theory Facade_Laws
  imports Handler_Logic
begin

text \<open>
  The facade's port keeps the contract of the engine's scheduler (\<open>shard_runner\<close>), so the
  scheduler always returns. The invariant behind it, that a shard handler never adds shards, is
  an instance of \<open>shard_writes\<close>.
\<close>

subsection \<open>The number of shards is bounded\<close>

lemma stateOf_written:
  assumes "states_wf f" and "st_issueId st \<noteq> []" and "state_written st f g"
  shows "states_wf g \<and> stateOf (st_issueId st) g = Some st"
proof -
  have wf: "states_wf g"
    using assms state_map_wf_update [of "fs_states f" st]
    by (simp add: states_wf_def state_map_wf_def state_written_def)
  moreover have "map_of (fs_states g) (st_issueId st) = Some st"
    using assms(3) by (simp add: state_written_def)
  ultimately show ?thesis using stateOf_alt [OF wf assms(2)] by simp
qed

definition store_bound :: "string \<Rightarrow> nat \<Rightarrow> fs \<Rightarrow> bool" where
  "store_bound i n f \<longleftrightarrow> i \<noteq> [] \<and> in_bound i n f"

interpretation bounded: shard_writes "store_bound i n" i "\<lambda>st m. st_issueId st = i \<and> m \<le> n" for i n
proof unfold_locales
  show "store_bound i n g" if "logs_only f g" "store_bound i n f" for f g
    using that current_shards_logs_only states_wf_logs_only
    by (simp add: store_bound_def in_bound_def)
  show "st_issueId (d_state d) = i \<and> length (d_shards d) \<le> n"
    if "store_bound i n f" "detail_of i f = Inr d" for f d
    using that detail_of_in_sync [of f i d] in_sync_issueId [of i d f]
    by (simp add: store_bound_def in_bound_def in_sync_def)
  show "store_bound i n g" if "store_bound i n f" "st_issueId st = i \<and> length shards \<le> n"
    "shards_written i shards st f g" for f g st shards
    using that stateOf_written [of f st g]
    by (auto simp: store_bound_def in_bound_def shards_written_def current_shards_def)
qed (simp add: same_loop_def)

subsection \<open>The facade's port keeps the scheduler's contract\<close>

lemma in_sync_enriched [simp]: "in_sync i (enriched h d) f = in_sync i d f"
  by (simp add: in_sync_def)

lemma preserves_bound: "i \<noteq> [] \<Longrightarrow> sat (store_bound i n) m Q \<Longrightarrow> preserves (in_bound i n) m"
  by (drule sat_preserves) (simp add: preserves_def store_bound_def)

lemma facade_port:
  assumes i: "i \<noteq> []"
  shows "shard_runner (shardRunnerPort h) i"
proof
  show "in_sync i d g \<and> current_shards i g = current_shards i f"
    if "states_wf f" "rp_readFreshDetail (shardRunnerPort h) i f = (Inr d, g)" for f d g
    using that readDetail_in_sync [of f i]
    by (auto simp: bounded.port_simps syncAndRead_def sbind_app split: prod.splits sum.splits)
  show "preserves (in_bound i n) (rp_runAgent (shardRunnerPort h) iss s r cwd)" for n iss s r cwd
    unfolding bounded.port_simps by (rule preserves_bound [OF i bounded.sat_call])
  show "preserves (in_bound i n) (rp_persistImplementation (shardRunnerPort h) i k rec)" for n k rec
    unfolding bounded.port_simps by (rule preserves_bound [OF i bounded.sat_persistImplementationRecord])
  show "preserves (in_bound i n) (rp_runTests (shardRunnerPort h) i k)" for n k
    by (rule preserves_bound [OF i bounded.sat_runTests])
  show "preserves (in_bound i n) (rp_reviewTests (shardRunnerPort h) m tr)" for n m tr
    unfolding bounded.port_simps by (rule preserves_bound [OF i bounded.sat_call])
  show "preserves (in_bound i n) (rp_review (shardRunnerPort h) s rec tr)" for n s rec tr
    unfolding bounded.port_simps by (rule preserves_bound [OF i bounded.sat_call])
  show "preserves (in_bound i n) (rp_applyReview (shardRunnerPort h) i k req)" for n k req
    unfolding bounded.port_simps
    by (rule preserves_bound [OF i, where Q = "\<lambda>_. True"]) (intro sat_sthen bounded.sat_reviewShard sat_sret TrueI)
qed (rule i)

interpretation facade: shard_runner "shardRunnerPort h" "c # cs" for h c cs
  by (rule facade_port) simp

subsection \<open>The scheduler returns\<close>

lemma sched_loop_more_fuel:
  "sched_loop n i port cb mp s f = Some r \<Longrightarrow> n \<le> m \<Longrightarrow> sched_loop m i port cb mp s f = Some r"
proof (induction n arbitrary: m s f)
  case 0
  then show ?case by (cases m) (auto split: if_splits)
next
  case (Suc n)
  then obtain k where m: "m = Suc k" "n \<le> k" by (cases m) auto
  show ?case
    using Suc.prems(1) Suc.IH [OF _ m(2)]
    by (auto simp: m split: if_splits prod.splits sum.splits sched_step.splits)
qed

lemma runLoopUnlocked_more_fuel:
  "runLoopUnlocked n i d port f = Some r \<Longrightarrow> n \<le> m \<Longrightarrow> runLoopUnlocked m i d port f = Some r"
proof -
  assume run: "runLoopUnlocked n i d port f = Some r" and le: "n \<le> m"
  let ?s = "\<lparr>sd_detail = d, sd_advanced = 0, sd_blocked = 0, sd_recovered = 0\<rparr>"
  let ?loop = "\<lambda>k. sched_loop k i port (cf_contextBudget (fs_cfg f)) (cf_maxParallel (fs_cfg f)) ?s f"
  show ?thesis
  proof (cases "?loop n")
    case None
    with run show ?thesis by (simp add: runLoopUnlocked_def Let_def split: if_splits)
  next
    case (Some x)
    then have eq: "?loop m = ?loop n" using sched_loop_more_fuel [OF _ le] by simp
    have "runLoopUnlocked m i d port f = runLoopUnlocked n i d port f"
      unfolding runLoopUnlocked_def Let_def by (simp only: eq)
    with run show ?thesis by simp
  qed
qed

lemma in_sync_locks: "in_sync i d (f\<lparr>fs_locks := l\<rparr>) = in_sync i d f"
  using current_shards_cong [of "f\<lparr>fs_locks := l\<rparr>" f i] stateOf_cong [of "f\<lparr>fs_locks := l\<rparr>" f i]
    states_wf_cong [of "f\<lparr>fs_locks := l\<rparr>" f]
  by (simp add: in_sync_def)

text \<open>C5. Running a loop always comes back: on the detail the service has just read, whatever locks
  are held by then, the scheduler needs at most \<open>sched_fuel\<close> iterations, and what the service
  returns is the result of the loop with any amount of fuel that suffices.\<close>

theorem scheduler_returns:
  assumes "i \<noteq> []" and "states_wf f" and "getIssue h i f = (Inr d, g)"
  shows "\<exists>r. runLoopUnlocked (sched_fuel g d) i d (shardRunnerPort h) (g\<lparr>fs_locks := l\<rparr>) = Some r
    \<and> loops_runLoopUnlocked h i d (g\<lparr>fs_locks := l\<rparr>) = r
    \<and> (\<forall>fuel r'. runLoopUnlocked fuel i d (shardRunnerPort h) (g\<lparr>fs_locks := l\<rparr>) = Some r' \<longrightarrow> r' = r)"
proof -
  obtain c cs where i: "i = c # cs" using assms(1) by (cases i) auto
  let ?g = "g\<lparr>fs_locks := l\<rparr>"
  obtain e where e: "readDetail i f = (Inr e, g)" "d = enriched h e"
    using assms(3) by (auto simp: getIssue_def sbind_app split: prod.splits sum.splits)
  have sync: "in_sync i d ?g"
    unfolding in_sync_locks e(2) in_sync_enriched using readDetail_in_sync [OF assms(2) e(1)] by blast
  have "\<exists>r. runLoopUnlocked (sched_fuel ?g d) i d (shardRunnerPort h) ?g = Some r"
    unfolding i by (rule facade.runLoopUnlocked_returns)
      (use sync i in \<open>simp_all add: sched_fuel_def Let_def\<close>)
  then obtain r where r: "runLoopUnlocked (sched_fuel ?g d) i d (shardRunnerPort h) ?g = Some r" ..
  have fuel: "sched_fuel ?g d = sched_fuel g d" by (simp add: sched_fuel_def)
  have "r' = r" if "runLoopUnlocked n i d (shardRunnerPort h) ?g = Some r'" for n r'
  proof (cases "n \<le> sched_fuel ?g d")
    case True
    with runLoopUnlocked_more_fuel [OF that] r show ?thesis by simp
  next
    case False
    with runLoopUnlocked_more_fuel [OF r, of n] that show ?thesis by simp
  qed
  moreover have "loops_runLoopUnlocked h i d ?g = r" by (simp add: loops_runLoopUnlocked_def r)
  ultimately show ?thesis using r unfolding fuel by blast
qed

text \<open>The sample loop can be read, whatever the host.\<close>

lemma sample_read: "\<exists>d. getIssue h ''issue-1'' sample_fs = (Inr d, ensureInitialized sample_fs)"
proof -
  have "case detail_of ''issue-1'' (ensureInitialized sample_fs) of Inl _ \<Rightarrow> False | Inr d \<Rightarrow> True"
    by code_simp
  then obtain d where "detail_of ''issue-1'' (ensureInitialized sample_fs) = Inr d"
    by (auto split: sum.splits)
  then show ?thesis by (simp add: getIssue_def sbind_app readDetail_eq)
qed

lemma sample_fs_wf: "states_wf sample_fs"
  by (simp add: states_wf_def sample_fs_def empty_fs_def sample_state_def)

theorem scheduler_returns_witness:
  "\<forall>h. \<exists>d g r. getIssue h ''issue-1'' sample_fs = (Inr d, g)
     \<and> loops_runLoopUnlocked h ''issue-1'' d (g\<lparr>fs_locks := {''issue:issue-1''}\<rparr>) = r
     \<and> runLoopUnlocked (sched_fuel g d) ''issue-1'' d (shardRunnerPort h)
         (g\<lparr>fs_locks := {''issue:issue-1''}\<rparr>) = Some r"
proof
  fix h
  obtain d where d: "getIssue h ''issue-1'' sample_fs = (Inr d, ensureInitialized sample_fs)"
    using sample_read by blast
  show "\<exists>d g r. getIssue h ''issue-1'' sample_fs = (Inr d, g)
     \<and> loops_runLoopUnlocked h ''issue-1'' d (g\<lparr>fs_locks := {''issue:issue-1''}\<rparr>) = r
     \<and> runLoopUnlocked (sched_fuel g d) ''issue-1'' d (shardRunnerPort h)
         (g\<lparr>fs_locks := {''issue:issue-1''}\<rparr>) = Some r"
    using scheduler_returns [OF _ sample_fs_wf d] d by blast
qed

end
