(* ===== verification/Target_Url.thy ===== *)
theory Target_Url
  imports Prelude "HOL-Library.Word"
begin

text \<open>
  \<open>loops-target-url-policy.ts\<close>: which URLs the backend and the browser worker may request. A
  production URL is HTTPS, its hostname is on the allowlist, and every address it resolves to is
  public.

  Parameters: the URL parser of the platform, \<open>isIP\<close> of \<open>node:net\<close> and the resolver (\<open>None\<close> when
  it fails). Letters are lowered in ASCII.
\<close>

unbundle bit_operations_syntax

record target_url =
  tu_protocol :: string
  tu_username :: string
  tu_password :: string
  tu_hostname :: string

record url_env =
  ue_NODE_ENV :: "string option"
  ue_ALLOWLIST :: "string option"
  ue_ALLOW_PRIVATE :: "string option"

record url_host =
  uh_parse :: "string \<Rightarrow> target_url option"
  uh_isIP :: "string \<Rightarrow> nat"
  uh_resolve :: "string \<Rightarrow> string list option"

definition LOCAL_LIKE_ENVS :: "string list" where
  "LOCAL_LIKE_ENVS = [''dev'', ''development'', ''test'', ''local'']"

definition TRUE_VALUES :: "string list" where
  "TRUE_VALUES = [''1'', ''true'', ''yes'', ''on'']"

definition parseTargetUrl :: "url_host \<Rightarrow> string \<Rightarrow> js_error + target_url" where
  "parseTargetUrl h rawUrl = (case uh_parse h rawUrl of
     None \<Rightarrow> Inl (BadRequest ''Loop target URL must be a valid HTTP(S) URL.'')
   | Some target \<Rightarrow>
       if tu_protocol target \<noteq> ''http:'' \<and> tu_protocol target \<noteq> ''https:''
       then Inl (BadRequest ''Loop target URL must use HTTP or HTTPS.'')
       else if tu_username target \<noteq> [] \<or> tu_password target \<noteq> []
       then Inl (BadRequest ''Loop target URL must not contain credentials.'')
       else Inr target)"

definition parseAllowedHosts :: "string option \<Rightarrow> string list" where
  "parseAllowedHosts v = filter (\<lambda>s. s \<noteq> [])
     (map (\<lambda>host. to_lower (js_trim host)) (js_split '','' (case_option [] id v)))"

text \<open>\<open>hostname.replace(/^\[|\]$/g, '')\<close>\<close>

definition host_of :: "string \<Rightarrow> string" where
  "host_of s = (let t = (if starts_with ''['' s then tl s else s) in
     if t \<noteq> [] \<and> last t = CHR '']'' then butlast t else t)"

subsection \<open>Addresses\<close>

definition isPublicIpv4 :: "string \<Rightarrow> bool" where
  "isPublicIpv4 address = (let octets = map js_Number (js_split ''.'' address) in
     if length octets \<noteq> 4 \<or> list_ex (\<lambda>x. x = None) octets then False
     else let a = the (octets ! 0); b = the (octets ! 1) in
       if a = 10 \<or> a = 127 \<or> a = 0 \<or> a \<ge> 224 then False
       else if a = 100 \<and> b \<ge> 64 \<and> b \<le> 127 then False
       else if a = 169 \<and> b = 254 then False
       else if a = 172 \<and> b \<ge> 16 \<and> b \<le> 31 then False
       else if a = 192 \<and> (b = 0 \<or> b = 168) then False
       else if a = 198 \<and> (b = 18 \<or> b = 19 \<or> b = 51) then False
       else if a = 203 \<and> b = 0 then False
       else True)"

text \<open>\<open>/^::ffff:(\d+\.\d+\.\d+\.\d+)$/\<close>\<close>

definition mapped_ipv4 :: "string \<Rightarrow> string option" where
  "mapped_ipv4 s = (let r = drop 7 s; pieces = js_split ''.'' r in
     if take 7 s = ''::ffff:'' \<and> length pieces = 4 \<and> list_all (\<lambda>p. p \<noteq> [] \<and> list_all is_digit p) pieces
     then Some r else None)"

definition isPublicIpv6 :: "string \<Rightarrow> bool" where
  "isPublicIpv6 address = (let normalized = to_lower address in
     case mapped_ipv4 normalized of
       Some a \<Rightarrow> isPublicIpv4 a
     | None \<Rightarrow> (case normalized of c # _ \<Rightarrow> c = CHR ''2'' \<or> c = CHR ''3'' | [] \<Rightarrow> False)
         \<and> \<not> starts_with ''2001:db8'' normalized)"

definition isPublicAddress :: "url_host \<Rightarrow> string \<Rightarrow> bool" where
  "isPublicAddress h address = (let family = uh_isIP h address in
     if family = 4 then isPublicIpv4 address else if family = 6 then isPublicIpv6 address else False)"

definition resolveTargetAddresses :: "url_host \<Rightarrow> string \<Rightarrow> js_error + string list" where
  "resolveTargetAddresses h hostname = (if uh_isIP h hostname \<noteq> 0 then Inr [hostname]
     else case uh_resolve h hostname of
       Some (a # as) \<Rightarrow> Inr (a # as)
     | _ \<Rightarrow> Inl (BadRequest ''Loop target URL hostname could not be resolved safely.''))"

subsection \<open>The policy\<close>

definition local_like :: "url_env \<Rightarrow> bool" where
  "local_like env \<longleftrightarrow> to_lower (case_option ''dev'' id (ue_NODE_ENV env)) \<in> set LOCAL_LIKE_ENVS"

definition assertLoopTargetUrlAllowed :: "url_host \<Rightarrow> url_env \<Rightarrow> string \<Rightarrow> js_error + target_url" where
  "assertLoopTargetUrlAllowed h env rawUrl = (case parseTargetUrl h rawUrl of
     Inl e \<Rightarrow> Inl e
   | Inr target \<Rightarrow>
       let hostname = host_of (tu_hostname target); localLike = local_like env;
           allowedHosts = parseAllowedHosts (ue_ALLOWLIST env) in
       if \<not> localLike \<and> tu_protocol target \<noteq> ''https:''
       then Inl (BadRequest ''Loop target URL must use HTTPS outside local environments.'')
       else if \<not> localLike \<and> allowedHosts = []
       then Inl (BadRequest ''LOOPS_TARGET_URL_ALLOWLIST must list the release canary target hostname in production.'')
       else if allowedHosts \<noteq> [] \<and> hostname \<notin> set allowedHosts
       then Inl (BadRequest ''Loop target URL hostname is not allowlisted.'')
       else let allowPrivate = localLike \<and> to_lower (case_option [] id (ue_ALLOW_PRIVATE env)) \<in> set TRUE_VALUES in
         case resolveTargetAddresses h hostname of
           Inl e \<Rightarrow> Inl e
         | Inr addresses \<Rightarrow>
             if \<not> allowPrivate \<and> list_ex (\<lambda>a. \<not> isPublicAddress h a) addresses
             then Inl (BadRequest ''Loop target URL must not resolve to a private, loopback, link-local, or reserved address.'')
             else Inr target)"

end
