(* ===== verification/Release_Handlers.thy ===== *)
theory Release_Handlers
  imports Facade Store_Governance Target_Url
begin

text \<open>
  \<open>src/modules/loops/loops.service.ts\<close>: the handlers around a release. A browser QA run and a second
  opinion are delegated to their workers and their reports stored; a second-opinion conflict is
  resolved by recording one resolution per finding and moving the code gate; a release canary runs
  a browser smoke check and probes the health endpoints of the target, and records the outcome.

  Parameters (\<open>release_host\<close>): the two workers, the \<open>fetch\<close> of a health endpoint (its status code, or
  the error), the target URL policy's environment, and the root of the \<open>.loops\<close> directory.
\<close>

subsection \<open>Requests, paths and the host\<close>

text \<open>\<open>LoopBrowserQaRequest\<close>; the test-account session is passed on as it is.\<close>

record browser_qa_request =
  qr_targetUrl :: string
  qr_checkedFlows :: "string list"
  qr_notes :: "string option"
  qr_authSessionRef :: "string option"
  qr_authSession :: "json option"
  qr_viewports :: "qa_viewport list option"

record qa_paths =
  qp_screenshotRef :: string
  qp_screenshotPath :: string
  qp_traceRef :: string
  qp_tracePath :: string
  qp_baselineRef :: string
  qp_baselinePath :: string
  qp_diffRef :: string
  qp_diffPath :: string
  qp_handoffRef :: string
  qp_handoffPath :: string

definition browserQaArtifactPaths :: "string \<Rightarrow> string \<Rightarrow> string \<Rightarrow> qa_paths" where
  "browserQaArtifactPaths base i reportId =
     (let dir = ''runs/'' @ i @ ''/browser-qa/'' @ reportId;
          baseline = ''runs/'' @ i @ ''/browser-qa/baseline-page-load.png'';
          ref = (\<lambda>p. ''.loops/'' @ p); abs = (\<lambda>p. base @ ''/'' @ p) in
      \<lparr>qp_screenshotRef = ref (dir @ ''/screenshot.png''), qp_screenshotPath = abs (dir @ ''/screenshot.png''),
       qp_traceRef = ref (dir @ ''/trace.zip''), qp_tracePath = abs (dir @ ''/trace.zip''),
       qp_baselineRef = ref baseline, qp_baselinePath = abs baseline,
       qp_diffRef = ref (dir @ ''/visual-diff.png''), qp_diffPath = abs (dir @ ''/visual-diff.png''),
       qp_handoffRef = ref (dir @ ''/handoff.json''), qp_handoffPath = abs (dir @ ''/handoff.json'')\<rparr>)"

record qa_job =
  qj_issueId :: string
  qj_reportId :: string
  qj_targetRepo :: string
  qj_request :: browser_qa_request
  qj_paths :: qa_paths

record release_host =
  rl_root :: string
  rl_url :: url_host
  rl_urlEnv :: url_env
  rl_qaWorker :: "qa_job \<Rightarrow> loop_browser_qa_report call"
  rl_opinionWorker :: "loop_detail \<Rightarrow> so_reviewer \<Rightarrow> loop_second_opinion call"
  rl_fetch :: "string \<Rightarrow> string \<Rightarrow> nat call"

definition targetUrlAllowed :: "release_host \<Rightarrow> string \<Rightarrow> (fs, unit) sm" where
  "targetUrlAllowed rl u = (case assertLoopTargetUrlAllowed (rl_url rl) (rl_urlEnv rl) u of
     Inl e \<Rightarrow> sthrow e | Inr _ \<Rightarrow> sret ())"

subsection \<open>Browser QA and second opinion\<close>

definition qa_job_for ::
    "release_host \<Rightarrow> string \<Rightarrow> string \<Rightarrow> loop_detail \<Rightarrow> browser_qa_request \<Rightarrow> qa_job" where
  "qa_job_for rl i reportId d request = \<lparr>qj_issueId = i, qj_reportId = reportId,
     qj_targetRepo = i_targetRepo (d_issue d), qj_request = request,
     qj_paths = browserQaArtifactPaths (rl_root rl) i reportId\<rparr>"

definition runBrowserQa ::
    "loops_host \<Rightarrow> release_host \<Rightarrow> string \<Rightarrow> browser_qa_request \<Rightarrow> (fs, loop_detail) sm" where
  "runBrowserQa h rl i request =
     sthen (targetUrlAllowed rl (qr_targetUrl request))
     (sbind (readDetail i) (\<lambda>d.
      sbind now (\<lambda>t.
      sbind (call (rl_qaWorker rl (qa_job_for rl i (''browser-qa-'' @ i @ ''-'' @ nat_str t) d request))) (\<lambda>report.
      sthen (smod (writeBrowserQaReport report)) (getIssue h i)))))"

definition runSecondOpinion :: "loops_host \<Rightarrow> release_host \<Rightarrow> string \<Rightarrow> (fs, loop_detail) sm" where
  "runSecondOpinion h rl i = sbind (readDetail i) (\<lambda>d0.
     let d = enriched h d0; derived = buildSecondOpinion (lh_sha16 h) d in
     sbind (call (rl_opinionWorker rl d (so_primary derived))) (\<lambda>report.
     sthen (smod (writeSecondOpinion report)) (getIssue h i)))"

subsection \<open>Governing, and resolving a second opinion\<close>

definition govern :: "string \<Rightarrow> delivery_governance_request \<Rightarrow> fs \<Rightarrow> fs" where
  "govern i request f = snd (governDelivery i request None f)"

definition loops_governDelivery ::
    "loops_host \<Rightarrow> string \<Rightarrow> delivery_governance_request \<Rightarrow> (fs, loop_detail) sm" where
  "loops_governDelivery h i request = sthen (smod (govern i request)) (getIssue h i)"

record resolve_second_opinion =
  rso_action :: so_resolution_kind
  rso_findingFingerprint :: "string option"
  rso_findingFingerprints :: "string list option"
  rso_reason :: "string option"

definition requested_fingerprints :: "resolve_second_opinion \<Rightarrow> string list" where
  "requested_fingerprints body = js_set (case_option [] id (rso_findingFingerprints body)
     @ (case rso_findingFingerprint body of Some (c # cs) \<Rightarrow> [c # cs] | _ \<Rightarrow> []))"

definition resolved_fingerprints :: "resolve_second_opinion \<Rightarrow> loop_second_opinion \<Rightarrow> string list" where
  "resolved_fingerprints body so = (let requested = requested_fingerprints body in
     if requested \<noteq> [] then requested else sc_conflictFingerprints (so_comparison so))"

text \<open>The reason of the decision; a waiver without one reads the clock.\<close>

definition resolution_reason :: "resolve_second_opinion \<Rightarrow> (fs, string) sm" where
  "resolution_reason body = (case rso_reason body of
     Some r \<Rightarrow> sret r
   | None \<Rightarrow> (case rso_action body of
       ACCEPT_PRIMARY \<Rightarrow> sret ''Accepted primary (Codex) findings; secondary findings overridden.''
     | ACCEPT_SECONDARY \<Rightarrow> sret ''Accepted secondary (Claude Code) findings; primary findings overridden.''
     | REQUEST_CHANGES \<Rightarrow> sret ''Second opinion conflict requires implementation changes before release.''
     | WAIVE \<Rightarrow> (\<lambda>f. (Inr (''Waived conflict at '' @ env_iso (fs_env f) (clock f)), tick f))))"

fun resolution_gate :: "so_resolution_kind \<Rightarrow> review_gate_status" where
  "resolution_gate WAIVE = RG_WAIVED"
| "resolution_gate REQUEST_CHANGES = RG_BLOCKED"
| "resolution_gate _ = RG_PASSED"

definition resolution_requests ::
    "resolve_second_opinion \<Rightarrow> string \<Rightarrow> string list \<Rightarrow> delivery_governance_request list" where
  "resolution_requests body reason fps =
     (if fps \<noteq> []
      then map (\<lambda>k. ResolveSecondOpinionConflict ''human'' reason (rso_action body) (Some k)) fps
      else [ResolveSecondOpinionConflict ''human'' reason (rso_action body) None])
     @ [SetReviewGate ''human'' (Some reason) GATE_CODE (resolution_gate (rso_action body)) None]"

definition resolveSecondOpinion ::
    "loops_host \<Rightarrow> string \<Rightarrow> resolve_second_opinion \<Rightarrow> (fs, loop_detail) sm" where
  "resolveSecondOpinion h i body = sbind (getIssue h i) (\<lambda>d.
     let fps = resolved_fingerprints body (buildSecondOpinion (lh_sha16 h) d) in
     sbind (resolution_reason body) (\<lambda>reason.
     sthen (smod (in_order (map (govern i) (resolution_requests body reason fps)))) (getIssue h i)))"

subsection \<open>Release canary\<close>

fun risk_str :: "risk_level \<Rightarrow> string" where
  "risk_str RISK_LOW = ''low''"
| "risk_str RISK_MEDIUM = ''medium''"
| "risk_str RISK_HIGH = ''high''"

record canary_request =
  cr_targetUrl :: string
  cr_riskLevel :: risk_level
  cr_environment :: "string option"
  cr_environmentOwner :: "string option"
  cr_rollbackNote :: "string option"

text \<open>\<open>!value\<close> of an optional string.\<close>

definition absent :: "string option \<Rightarrow> bool" where
  "absent x \<longleftrightarrow> (case x of Some (_ # _) \<Rightarrow> False | _ \<Rightarrow> True)"

definition HEALTH_ENDPOINTS :: "string list" where
  "HEALTH_ENDPOINTS = [''/health'', ''/api/health'', ''/_health'']"

text \<open>The loop of \<open>checkDeploymentHealth\<close>: the first endpoint that answers with a 2xx status ends it; an
  endpoint that answers otherwise, or not at all, leaves a step behind.\<close>

fun probe_endpoints ::
    "release_host \<Rightarrow> string \<Rightarrow> string list \<Rightarrow> string list \<Rightarrow> (fs, string list \<times> bool) sm" where
  "probe_endpoints rl target [] steps = sret (steps @ [''health-check-failed''], False)"
| "probe_endpoints rl target (endpoint # rest) steps =
     sbind (attempt (rl_fetch rl endpoint target)) (\<lambda>response.
       case response of
         Inr status \<Rightarrow>
           if 200 \<le> status \<and> status \<le> 299
           then sret (steps @ [''health-check-passed:'' @ endpoint], True)
           else probe_endpoints rl target rest
             (steps @ [''health-check-non-ok:'' @ endpoint @ '':'' @ nat_str status])
       | Inl _ \<Rightarrow> probe_endpoints rl target rest (steps @ [''health-check-unreachable:'' @ endpoint]))"

definition checkDeploymentHealth :: "release_host \<Rightarrow> string \<Rightarrow> (fs, string list \<times> bool) sm" where
  "checkDeploymentHealth rl target =
     (if target = [] then sret ([''health-check-start'', ''health-check-skipped''], True)
      else probe_endpoints rl target HEALTH_ENDPOINTS [''health-check-start''])"

definition canary_qa_request :: "canary_request \<Rightarrow> browser_qa_request" where
  "canary_qa_request input = \<lparr>qr_targetUrl = cr_targetUrl input,
     qr_checkedFlows = [''canary-smoke'', ''page-load''],
     qr_notes = Some (''Release canary smoke check (risk: '' @ risk_str (cr_riskLevel input) @ '')''),
     qr_authSessionRef = None, qr_authSession = None,
     qr_viewports = Some [\<lparr>vp_name = ''desktop'', vp_width = 1440, vp_height = 900\<rparr>]\<rparr>"

text \<open>Step 1: the smoke check. An error of the worker becomes a step, it does not end the canary.\<close>

definition canary_smoke ::
    "release_host \<Rightarrow> string \<Rightarrow> canary_request \<Rightarrow> loop_detail \<Rightarrow> string list \<Rightarrow> (fs, string list) sm" where
  "canary_smoke rl i input d steps =
     (if cr_targetUrl input = [] then sret steps
      else sbind now (\<lambda>t.
        sbind (attempt (rl_qaWorker rl (qa_job_for rl i (''canary-'' @ i @ ''-'' @ nat_str t) d
            (canary_qa_request input)))) (\<lambda>outcome.
        case outcome of
          Inl _ \<Rightarrow> sret (steps @ [''browser-qa-failed''])
        | Inr report \<Rightarrow> sthen (smod (writeBrowserQaReport report))
            (sret (steps @ [''browser-qa''] @ (if bq_status report \<noteq> QA_PASSED
               then [''browser-qa-'' @ qa_status_str (bq_status report)] else []))))))"

definition FAILING_STEPS :: "string list" where
  "FAILING_STEPS = [''browser-qa-failed'', ''browser-qa-blocked'', ''health-check-failed'']"

definition canary_passed :: "string list \<Rightarrow> bool" where
  "canary_passed steps \<longleftrightarrow> \<not> list_ex (\<lambda>s. s \<in> set FAILING_STEPS) steps"

definition or_missing :: "string option \<Rightarrow> string" where
  "or_missing x = case_option ''not provided'' id x"

definition canary_decision :: "canary_request \<Rightarrow> string list \<Rightarrow> string \<Rightarrow> delivery_governance_request" where
  "canary_decision input steps t = RecordReleaseCanary ''system''
     (Some (''Canary worker executed '' @ nat_str (length steps - 1) @ '' step(s) at '' @ t @ ''. Risk: ''
       @ risk_str (cr_riskLevel input) @ ''. Environment: '' @ or_missing (cr_environment input)
       @ ''. Owner: '' @ or_missing (cr_environmentOwner input)
       @ ''. Rollback: '' @ or_missing (cr_rollbackNote input) @ ''.''))
     (if canary_passed steps then RC_PASSED else RC_FAILED)
     (cr_environment input) (cr_environmentOwner input) (Some (cr_targetUrl input)) (cr_rollbackNote input)"

definition canary_log :: "string \<Rightarrow> canary_request \<Rightarrow> string list \<Rightarrow> (string \<times> json) list" where
  "canary_log i input steps = [(''type'', JStr ''RELEASE_CANARY''), (''issue'', JStr i),
     (''status'', JStr (if canary_passed steps then ''passed'' else ''failed'')),
     (''payload'', JObj ([(''steps'', jstrs steps), (''targetUrl'', JStr (cr_targetUrl input)),
        (''riskLevel'', JStr (risk_str (cr_riskLevel input)))]
        @ opt_str ''environment'' (cr_environment input)
        @ opt_str ''environmentOwner'' (cr_environmentOwner input)
        @ opt_str ''rollbackNote'' (cr_rollbackNote input)))]"

definition runReleaseCanary ::
    "loops_host \<Rightarrow> release_host \<Rightarrow> string \<Rightarrow> canary_request \<Rightarrow> (fs, loop_detail) sm" where
  "runReleaseCanary h rl i input =
     sthen (sguard (\<not> (cr_riskLevel input = RISK_HIGH
         \<and> (absent (cr_rollbackNote input) \<or> absent (cr_environmentOwner input))))
       (BadRequest ''High-risk release canary requires both a rollback note and an environment owner.''))
     (sthen (targetUrlAllowed rl (cr_targetUrl input))
     (sbind (getIssue h i) (\<lambda>d.
      sbind (\<lambda>f. (Inr (env_iso (fs_env f) (clock f)), tick f)) (\<lambda>t.
      sbind (canary_smoke rl i input d [''canary-start'']) (\<lambda>smoke.
      sbind (checkDeploymentHealth rl (cr_targetUrl input)) (\<lambda>(health, _).
      let steps = smoke @ health in
      sthen (smod (govern i (canary_decision input steps t)))
      (sthen (smod (appendLog (canary_log i input steps))) (getIssue h i))))))))"

end
