(* ===== verification/Lifecycle.thy ===== *)
theory Lifecycle
  imports Facade_Laws Issues_Laws Governance_Laws Release_Handlers
begin

text \<open>
  The service as a whole: every handler is a step on the store, and whatever order they come in,
  the counters of every loop stay consistent: the round counts the re-loops, the re-loops are
  bounded by the configuration, and the spec version is a number that grew with them.
\<close>

subsection \<open>The invariant\<close>

definition counters_ok :: "nat \<Rightarrow> loop_state_item \<Rightarrow> bool" where
  "counters_ok mr st \<longleftrightarrow> st_round st = st_reloopCount st + 1 \<and> st_reloopCount st \<le> mr
     \<and> (\<exists>n\<ge>st_reloopCount st. st_specVersion st = version_str n)"

definition stored_states :: "fs \<Rightarrow> loop_state_item set" where
  "stored_states f = snd ` set (fs_states f) \<union> set (legacy_states f)"

definition lifecycle :: "nat \<Rightarrow> fs \<Rightarrow> bool" where
  "lifecycle mr f \<longleftrightarrow> cf_maxReloop (fs_cfg f) = mr \<and> records_keyed f
     \<and> (\<forall>st\<in>stored_states f. counters_ok mr st)"

lemma foldl_in: "x \<in> set (foldl (\<lambda>m st. if p m st then AList.update (key st) st m else m) m xs)
  \<Longrightarrow> snd x \<in> snd ` set m \<union> set xs"
proof (induction xs arbitrary: m)
  case (Cons y xs)
  then show ?case by (auto dest!: Cons.IH in_update split: if_splits)
qed auto

lemma readState_stored: "set (readState f) \<subseteq> stored_states f"
proof
  fix st assume "st \<in> set (readState f)"
  then obtain k where "(k, st) \<in> set (foldl ins_legacy (foldl ins_state [] (map snd (fs_states f)))
      (case fs_legacyState f of None \<Rightarrow> [] | Some l \<Rightarrow> l))"
    by (auto simp: readState_def)
  from foldl_in [OF this] show "st \<in> stored_states f"
    by (auto simp: stored_states_def dest!: foldl_in split: option.splits)
qed

lemma stateOf_stored: "stateOf i f = Some st \<Longrightarrow> st \<in> stored_states f"
  using readState_stored [of f] by (auto simp: stateOf_def find_Some_iff)

lemma stored_written: "state_written st f g \<Longrightarrow> stored_states g \<subseteq> insert st (stored_states f)"
  by (auto simp: state_written_def stored_states_def dest!: in_update)

lemma lifecycle_written: "lifecycle mr f \<Longrightarrow> counters_ok mr st \<Longrightarrow> state_written st f g \<Longrightarrow> lifecycle mr g"
  using stored_written [of st f g] by (auto simp: lifecycle_def state_written_def)

lemma lifecycle_same:
  "fs_env g = fs_env f \<Longrightarrow> fs_states g = fs_states f \<Longrightarrow> legacy_states g = legacy_states f
   \<Longrightarrow> fs_issues g = fs_issues f \<Longrightarrow> fs_intakes g = fs_intakes f \<Longrightarrow> lifecycle mr g = lifecycle mr f"
  by (simp add: lifecycle_def stored_states_def records_keyed_def)

interpretation loops: loop_writes "lifecycle mr" i "\<lambda>st _. counters_ok mr st" for mr i
proof unfold_locales
  show "lifecycle mr g" if "logs_only f g" "lifecycle mr f" for f g
    using that lifecycle_same [of g f mr] by (simp add: logs_only_def)
  show "counters_ok mr (d_state d)" if "lifecycle mr f" "detail_of i f = Inr d" for f d
    using that stateOf_stored [of i f "d_state d"]
    by (auto simp: detail_of_def detail_with_def Let_def lifecycle_def split: option.splits)
  show "counters_ok mr st'" if "counters_ok mr st" "same_loop st st'" for st st'
    using that by (simp add: counters_ok_def same_loop_def)
  show "lifecycle mr g" if "lifecycle mr f" "counters_ok mr st" "state_written st f g" for f st g
    using that by (rule lifecycle_written)
  then show "lifecycle mr g" if "lifecycle mr f" "counters_ok mr st" "shards_written i shards st f g"
    for f st shards g
    using that unfolding shards_written_def by blast
  show "lifecycle mr (f\<lparr>fs_locks := l\<rparr>) = lifecycle mr f" for f l
    by (rule lifecycle_same) simp_all
qed

abbreviation "good mr d \<equiv> counters_ok mr (d_state d)"

subsection \<open>States the handlers write\<close>

lemma counters_updates [simp]:
  "counters_ok mr (st\<lparr>st_phase := p\<rparr>) = counters_ok mr st"
  "counters_ok mr (st\<lparr>st_paused := b\<rparr>) = counters_ok mr st"
  "counters_ok mr (st\<lparr>st_updated := t\<rparr>) = counters_ok mr st"
  "counters_ok mr (st\<lparr>st_shardsTotal := n\<rparr>) = counters_ok mr st"
  "counters_ok mr (st\<lparr>st_shardsDone := n\<rparr>) = counters_ok mr st"
  "counters_ok mr (st\<lparr>st_shardsInProgress := n\<rparr>) = counters_ok mr st"
  "counters_ok mr (st\<lparr>st_globalVerdict := v\<rparr>) = counters_ok mr st"
  "counters_ok mr (st\<lparr>st_finalized := x\<rparr>) = counters_ok mr st"
  by (simp_all add: counters_ok_def)

lemma counters_next_version:
  "counters_ok mr st \<Longrightarrow> counters_ok mr (st\<lparr>st_specVersion := nextSpecVersion (st_specVersion st)\<rparr>)"
  unfolding counters_ok_def by (auto simp: nextSpecVersion_str intro: le_SucI)

lemma counters_reloop:
  assumes "counters_ok mr st" and "st_reloopCount st < mr"
  shows "counters_ok mr (reloop_state st t)"
proof -
  obtain n where "n \<ge> st_reloopCount st" "st_specVersion st = version_str n"
    using assms(1) by (auto simp: counters_ok_def)
  then show ?thesis
    using assms by (auto simp: counters_ok_def reloop_state_def nextSpecVersion_str intro!: exI [of _ "n + 1"])
qed

lemma counters_new: "counters_ok mr (new_state i t)"
  using version_str_v0 [of 0] by (auto simp: counters_ok_def new_state_def intro: sym)

lemma fold_put_text [simp]:
  "fs_env (fold (\<lambda>s. put_text (p s) (d s)) xs f) = fs_env f"
  "fs_states (fold (\<lambda>s. put_text (p s) (d s)) xs f) = fs_states f"
  "fs_legacyState (fold (\<lambda>s. put_text (p s) (d s)) xs f) = fs_legacyState f"
  "fs_issues (fold (\<lambda>s. put_text (p s) (d s)) xs f) = fs_issues f"
  "fs_intakes (fold (\<lambda>s. put_text (p s) (d s)) xs f) = fs_intakes f"
  by (induction xs arbitrary: f) simp_all

lemma state_write_ops:
  "state_written st f (writeSpec issue spec st f)"
  "state_written st f (writeShards issue spec shards matrix anns st f)"
  "state_written st f (writeGlobalReview i gr anns st f)"
  "state_written st f (writeFinalize issue anns st pr ls f)"
  "state_written st f (writeIntervention i a c st s x y n f)"
  "state_written st f (writeIssue issue intake st raw recipe f)"
  "state_written st f (writeTestRecord i k tr anns shards st f)"
  by (simp_all add: state_written_def writeSpec_def writeShards_def writeGlobalReview_def
      writeFinalize_def writeIntervention_def writeIssue_def writeTestRecord_def Let_def store_simps
      split: option.splits)

lemma sat_put:
  assumes "counters_ok mr st" and "\<And>f. state_written st f (h f)"
  shows "sat (lifecycle mr) (smod h) (\<lambda>_. True)"
  using lifecycle_written [OF _ assms] by (intro sat_smod) auto

lemma sat_put_logs:
  assumes "counters_ok mr st" and "\<And>f. state_written st f (w f)" and "\<And>g. logs_only g (in_order ls g)"
  shows "sat (lifecycle mr) (smod (in_order (w # ls))) (\<lambda>_. True)"
  using lifecycle_written [OF _ assms(1,2)] loops.logs [OF assms(3)] by (intro sat_smod) simp_all

lemmas sat_puts = sat_put [OF _ state_written_upsert] state_write_ops [THEN sat_put [rotated]]
  sat_put_logs [OF _ state_written_upsert] state_write_ops [THEN sat_put_logs [rotated]]

lemma sat_maxReloop: "sat (lifecycle mr) sget (\<lambda>f. cf_maxReloop (fs_cfg f) = mr)"
  by (rule sat_sget) (simp add: lifecycle_def)

lemma sat_charged:
  "counters_ok mr st \<Longrightarrow> sat (lifecycle mr) (applyCostGuard st c n) (counters_ok mr)"
  by (rule sat_weaken [OF loops.sat_cost]) (auto simp: counters_ok_def same_loop_def)

subsection \<open>The handlers keep the invariant\<close>

lemmas sat_detail = loops.sat_getIssue loops.sat_syncAndRead

lemma sat_generateSpec: "sat (lifecycle mr) (loops_generateSpec h i) (good mr)"
  unfolding loops_generateSpec_def generateSpec_def Let_def
proof (intro sat_sbind [OF loops.sat_getIssue] sat_sthen sat_if sat_sthrow loops.sat_syncAndRead
    sat_sbind [OF loops.sat_now] sat_sbind [OF loops.sat_call] sat_sbind [OF sat_charged])
  show "counters_ok mr ((d_state d)\<lparr>st_phase := PHASE_2_REVIEW,
      st_specVersion := nextSpecVersion (st_specVersion (d_state d)), st_updated := t\<rparr>)"
    if "good mr d" for d t
    using counters_next_version [OF that] by (simp add: counters_ok_def)
  show "sat (lifecycle mr) (smod (writeSpec issue spec st)) (\<lambda>_. True)"
    if "counters_ok mr st" for issue spec st
    by (rule sat_put [OF that state_write_ops(1)])
qed

lemma sat_engine_decompose: "good mr d \<Longrightarrow> sat (lifecycle mr) (decompose d agent) (\<lambda>_. True)"
  unfolding decompose_def Let_def
  by (intro sat_if sat_option sat_sthrow sat_sret TrueI sat_sbind [OF loops.sat_now]
      sat_sbind [OF loops.sat_call] sat_prod sat_sbind [OF sat_charged] sat_sthen
      sat_put [OF _ state_write_ops(2)]) simp_all

lemma sat_decompose: "sat (lifecycle mr) (loops_decompose h i) (good mr)"
  unfolding loops_decompose_def
  by (intro sat_sbind [OF loops.sat_getIssue] sat_sbind [OF sat_engine_decompose] sat_if sat_sret
      loops.sat_syncAndRead)

lemma sat_reloop: "sat (lifecycle mr) (loops_reloop h i reviewer notes) (\<lambda>_. True)"
  unfolding loops_reloop_def reloop_def Let_def
  by (intro sat_sbind [OF loops.sat_getIssue] sat_sbind [OF sat_maxReloop] sat_if sat_sthrow
      sat_sbind [OF loops.sat_now] sat_sthen sat_sret TrueI sat_put [OF _ state_write_ops(1)] counters_reloop)
    simp_all

lemma sat_resume: "good mr d \<Longrightarrow> sat (lifecycle mr) (resumeAndRead h i d) (good mr)"
  unfolding resumeAndRead_def applyResume_def Let_def
  by (intro sat_sthen sat_sbind [OF loops.sat_now] loops.sat_syncAndRead sat_puts) simp_all

subsubsection \<open>Finalization and the global review\<close>

lemma sat_commit_all: "sat (lifecycle mr) (commit_all git d ss) (\<lambda>_. True)"
proof (induction ss)
  case (Cons s ss)
  show ?case
    unfolding commit_all.simps by (intro sat_sbind [OF loops.sat_call] sat_sbind [OF Cons.IH] sat_sret TrueI)
qed (simp only: commit_all.simps, intro sat_sret TrueI)

lemma sat_openPr: "sat (lifecycle mr) (openConvergencePr h d) (\<lambda>_. True)"
  unfolding openConvergencePr_def by (intro sat_sbind [OF sat_commit_all] loops.sat_call)

lemma sat_prComment: "sat (lifecycle mr) (publishPrComment h i pr) (\<lambda>_. True)"
proof -
  have "sat (lifecycle mr) (\<lambda>f. case readDetail i f of (Inl x, g) \<Rightarrow> (Inr (), g)
      | (Inr d, g) \<Rightarrow> (Inr (), snd (call (p d) g))) (\<lambda>_. True)" for p :: "loop_detail \<Rightarrow> unit call"
    by (rule loops.sat_logs) (auto simp: readDetail_eq call_def split: sum.splits)
  then show ?thesis
    unfolding publishPrComment_def by (intro sat_option sat_sret TrueI sat_if)
qed

lemma sat_finalize: "sat (lifecycle mr) (loops_finalize h i) (good mr)"
  unfolding loops_finalize_def finalize_def finalizePort_def finalize_port.simps Let_def enforceReleaseGate_def
  by (intro sat_sbind [OF loops.sat_getIssue] sat_if sat_sret sat_sthrow sat_sthen sat_sguard TrueI
      sat_sbind [OF loops.sat_now] sat_sbind [OF sat_openPr] sat_sbind [OF loops.sat_call]
      sat_put [OF _ state_write_ops(4)] sat_prComment loops.sat_syncAndRead) simp_all

lemma sat_regression: "good mr d \<Longrightarrow> sat (lifecycle mr) (runGlobalRegression h d) (\<lambda>_. True)"
  unfolding runGlobalRegression_def Let_def
  by (intro sat_sbind [OF sat_maxReloop] sat_sbind [OF loops.sat_shardTests] sat_sbind [OF loops.sat_now]
      sat_sthen sat_sret TrueI sat_puts) simp_all

lemma sat_blocked: "good mr d \<Longrightarrow> sat (lifecycle mr) (writeBlockedReview i d is fs s) (\<lambda>_. True)"
  unfolding writeBlockedReview_def Let_def needs_work_state_def
  by (intro sat_sbind [OF loops.sat_now] sat_put [OF _ state_write_ops(3)]) simp_all

lemma sat_autoReloop:
  assumes "good mr d"
  shows "sat (lifecycle mr) (autoReloopAfterGlobalReview h i d rec anns t) (good mr)"
proof -
  let ?st = "d_state d"
  have step: "sat (lifecycle mr) (smod (in_order [writeGlobalReview i rec anns st1,
      writeSpec (d_issue d) spec (reloop_state ?st t), appendLog p])) (\<lambda>_. True)"
    if "counters_ok mr st1" "st_reloopCount ?st < mr" for st1 spec p
  proof (rule sat_smod)
    fix f assume "lifecycle mr f"
    then have "lifecycle mr (writeGlobalReview i rec anns st1 f)"
      by (rule lifecycle_written [OF _ that(1) state_write_ops(3)])
    then have "lifecycle mr (writeSpec (d_issue d) spec (reloop_state ?st t) (writeGlobalReview i rec anns st1 f))"
      by (rule lifecycle_written [OF _ counters_reloop [OF assms that(2)] state_write_ops(1)])
    then show "lifecycle mr (in_order [writeGlobalReview i rec anns st1,
        writeSpec (d_issue d) spec (reloop_state ?st t), appendLog p] f)"
      by (simp add: loops.logs [OF logs_only_basic(2)])
  qed simp
  show ?thesis
    unfolding autoReloopAfterGlobalReview_def Let_def
    by (intro sat_sbind [OF sat_maxReloop] sat_if sat_sthen loops.sat_syncAndRead sat_puts step)
      (use assms in simp_all)
qed

lemma sat_agentReview:
  "sat (lifecycle mr) (sbind (syncAndRead h i) (\<lambda>rd. sbind (call (a rd)) (\<lambda>review. sret (review, rd))))
    (\<lambda>(_, rd). good mr rd)"
  by (intro sat_sbind [OF loops.sat_syncAndRead] sat_sbind [OF loops.sat_call] sat_sret) simp

lemma sat_reviewGlobal: "sat (lifecycle mr) (loops_reviewGlobal h i) (good mr)"
  unfolding loops_reviewGlobal_def reviewGlobal_def globalReviewPort_def global_review_port.simps Let_def
  by (intro sat_sbind [OF loops.sat_getIssue] sat_if sat_sret sat_sbind [OF sat_sret [where Q = "\<lambda>_. True"]] TrueI
    sat_sthen sat_blocked loops.sat_syncAndRead sat_sbind [OF sat_regression] sat_sbind [OF sat_agentReview] sat_prod
    sat_sbind [OF loops.sat_now] sat_autoReloop sat_puts) simp_all

subsubsection \<open>Advancing and deciding\<close>

lemma sat_advance_step:
  assumes "good mr d"
  shows "sat (lifecycle mr) (advance_step i (advancePort h) d)
    (\<lambda>r. case r of Done d' \<Rightarrow> good mr d' | Next d' \<Rightarrow> good mr d')"
  unfolding advance_step_def advancePort_def advance_port.simps Let_def
  by (intro sat_if sat_option sat_sret sat_sthrow sat_sbind [OF sat_resume [OF assms]]
      sat_sbind [OF sat_generateSpec] sat_sbind [OF sat_decompose] sat_sbind [OF sat_finalize]
      sat_sbind [OF sat_reviewGlobal] sat_sbind [OF loops.sat_runLoop]) (simp_all add: assms)

lemma sat_advance_steps:
  "good mr d \<Longrightarrow> sat (lifecycle mr) (advance_steps n i (advancePort h) m d) (good mr)"
proof (induction n arbitrary: d)
  case 0
  have "sat (lifecycle mr) (smod (appendLog p)) (\<lambda>_. True)" for p
    by (rule loops.sat_logs) simp
  with 0 show ?case by (simp add: advancePort_def) (intro sat_sthen sat_sret)
next
  case (Suc n)
  show ?case
    unfolding advance_steps.simps
    by (rule sat_sbind [OF sat_advance_step [OF Suc.prems]])
      (auto split: adv_step.splits intro: sat_sret Suc.IH)
qed

lemma sat_advance: "sat (lifecycle mr) (loops_advance h i) (good mr)"
  unfolding loops_advance_def advance_def Let_def
  by (rule sat_sbind [where Q = "good mr"]) (simp_all add: advancePort_def loops.sat_getIssue,
      fold advancePort_def, rule sat_advance_steps)

lemma sat_reviewSpec: "sat (lifecycle mr) (reviewSpec h i req b) (good mr)"
  unfolding reviewSpec_def Let_def
  by (intro sat_sbind [OF loops.sat_getIssue] sat_option sat_sthrow sat_sbind [OF loops.sat_now]
      sat_sthen sat_if sat_advance loops.sat_syncAndRead sat_puts) simp_all

lemma sat_intervene: "sat (lifecycle mr) (intervene h i req) (good mr)"
  unfolding intervene_def Let_def
proof (rule sat_sbind [OF loops.sat_getIssue], rule sat_sbind [OF loops.sat_now])
  fix d t assume d: "good mr d"
  have rec: "sat (lifecycle mr) (sthen (smod (writeIntervention i a (iv_actor req) st s x k (iv_notes req)))
      (syncAndRead h i)) (good mr)" if "counters_ok mr st" for a st s x k
    by (intro sat_sthen sat_puts loops.sat_syncAndRead that)
  show "sat (lifecycle mr) (case iv_action req of
       PAUSE_LOOP \<Rightarrow> sthen (smod (writeIntervention i ''pause'' (iv_actor req)
         ((d_state d)\<lparr>st_phase := PHASE_PAUSED, st_paused := True, st_updated := t\<rparr>) None None None
         (iv_notes req))) (syncAndRead h i)
     | RESUME_LOOP \<Rightarrow> sthen (smod (writeIntervention i ''resume'' (iv_actor req)
         ((d_state d)\<lparr>st_phase := nextResumePhase (d_state d), st_paused := False, st_updated := t\<rparr>)
         None None None (iv_notes req))) (syncAndRead h i)
     | TAKE_SHARD \<Rightarrow> (case iv_shardId req of
         None \<Rightarrow> sthrow (BadRequest ''shardId is required for take intervention'')
       | Some k \<Rightarrow>
           if k = [] then sthrow (BadRequest ''shardId is required for take intervention'')
           else case List.find (\<lambda>s. sh_id s = k) (d_shards d) of
             None \<Rightarrow> sthrow (NotFound (''Shard '' @ k @ '' not found''))
           | Some shard \<Rightarrow>
               if sh_status shard = SHARD_DONE
               then sthrow (BadRequest ''DONE shard cannot be taken over'')
               else sthen (smod (writeIntervention i ''take'' (iv_actor req)
                   ((d_state d)\<lparr>st_phase := PHASE_4_IMPLEMENT, st_paused := False,
                     st_shardsInProgress := count_where (\<lambda>s. sh_status s = SHARD_IN_PROGRESS)
                       (set_status k SHARD_IN_PROGRESS (d_shards d)), st_updated := t\<rparr>)
                   (Some (set_status k SHARD_IN_PROGRESS (d_shards d)))
                   (Some (map_where (\<lambda>a. an_target a = k) (taken_annotation (iv_notes req)) (d_annotations d)))
                   (Some k) (iv_notes req))) (syncAndRead h i))) (good mr)"
    using d by (cases "iv_action req") (auto intro!: rec sat_option sat_sthrow sat_if)
qed

lemma sat_record: "sat (lifecycle mr) (recordShardImplementation h i k req) (\<lambda>_. True)"
  unfolding recordShardImplementation_def Let_def
  by (intro sat_sbind [OF loops.sat_getIssue] sat_option sat_sthrow sat_if sat_sbind [OF loops.sat_now]
      sat_sthen sat_sret TrueI) (rule sat_weaken [OF loops.sat_persistImplementationRecord], simp)

lemma sat_naturalCommand: "sat (lifecycle mr) (naturalCommand h i command actor) (\<lambda>_. True)"
proof -
  have log: "sat (lifecycle mr) (smod (appendLog p)) (\<lambda>_. True)" for p
    by (rule loops.sat_logs) simp
  have executed: "sat (lifecycle mr) (sbind m (\<lambda>d. sret (k d))) (\<lambda>_. True)"
    if "sat (lifecycle mr) m (good mr)" for m and k :: "loop_detail \<Rightarrow> natural_command_response"
    by (intro sat_sbind [OF that] sat_sret TrueI)
  show ?thesis
    unfolding naturalCommand_def Let_def
    by (rule sat_sthen [OF log])
      (auto split: command_intent.splits intro!: executed sat_advance sat_intervene sat_reviewSpec
        sat_sbind [OF loops.sat_getIssue] sat_sbind [OF sat_maxReloop] sat_sret)
qed

subsubsection \<open>Taking in, governing, resuming\<close>

lemma sat_createIssue: "sat (lifecycle mr) (createIssue ih input payload user) (\<lambda>_. True)"
proof -
  have repo: "sat (lifecycle mr) (resolveTargetRepo ih r) (\<lambda>_. True)" for r
    unfolding resolveTargetRepo_def by (cases "ih_resolveRepo ih r") (simp_all only: sum.case sat_sthrow, rule sat_sret, simp)
  have issueId: "sat (lifecycle mr) (createIssueId t) (\<lambda>_. True)" for t
    by (rule loops.sat_logs) (simp add: createIssueId_def Let_def)
  have clock: "sat (lifecycle mr) (\<lambda>f. (Inr (clock f), tick f)) (\<lambda>_. True)"
    by (rule loops.sat_logs) simp
  show ?thesis
    unfolding createIssue_def Let_def
    by (intro sat_sbind [OF clock] sat_sbind [OF issueId] sat_sbind [OF repo] sat_sbind [OF sat_maxReloop]
        sat_sthen sat_sret TrueI sat_puts counters_new)
qed

lemma lifecycle_governDelivery: "lifecycle mr f \<Longrightarrow> lifecycle mr (snd (governDelivery i req c f))"
proof -
  assume f: "lifecycle mr f"
  have eff: "fs_env (action_effect req g h) = fs_env h" "fs_states (action_effect req g h) = fs_states h"
    "fs_legacyState (action_effect req g h) = fs_legacyState h" "fs_issues (action_effect req g h) = fs_issues h"
    "fs_intakes (action_effect req g h) = fs_intakes h" for g h
    by (cases req, simp_all add: writeWorkflowDefaults_def)+
  show ?thesis
    using f by (subst lifecycle_same [of _ f])
      (simp_all add: governDelivery_def Let_def eff split: option.splits)
qed

lemma sat_govern: "sat (lifecycle mr) (smod (govern i request)) (\<lambda>_. True)"
  by (rule sat_smod) (simp_all add: govern_def lifecycle_governDelivery)

lemma sat_governs: "sat (lifecycle mr) (smod (in_order (map (govern i) requests))) (\<lambda>_. True)"
proof -
  have "lifecycle mr f \<Longrightarrow> lifecycle mr (in_order (map (govern i) requests) f)" for f
    by (induction requests arbitrary: f) (simp_all add: govern_def lifecycle_governDelivery)
  then show ?thesis by (intro sat_smod) simp_all
qed

lemma sat_reports:
  "sat (lifecycle mr) (smod (writeBrowserQaReport q)) (\<lambda>_. True)"
  "sat (lifecycle mr) (smod (writeSecondOpinion o2)) (\<lambda>_. True)"
  by (rule sat_smod, subst lifecycle_same; simp add: writeBrowserQaReport_def writeSecondOpinion_def Let_def)+

lemma sat_attempt: "sat (lifecycle mr) (attempt c) (\<lambda>_. True)"
  by (rule loops.sat_logs) (rule attempt_logs)

lemma sat_read_clock: "sat (lifecycle mr) (\<lambda>f. (Inr (g f), tick f)) (\<lambda>_. True)"
  by (rule loops.sat_logs) simp

lemma sat_targetUrl: "sat (lifecycle mr) (targetUrlAllowed rl u) (\<lambda>_. True)"
  unfolding targetUrlAllowed_def by (cases "assertLoopTargetUrlAllowed (rl_url rl) (rl_urlEnv rl) u")
    (simp_all only: sum.case sat_sthrow, rule sat_sret, simp)

lemma sat_runBrowserQa: "sat (lifecycle mr) (runBrowserQa h rl i request) (good mr)"
  unfolding runBrowserQa_def
  by (intro sat_sthen sat_targetUrl sat_sbind [OF loops.sat_readDetail] sat_sbind [OF loops.sat_now]
      sat_sbind [OF loops.sat_call] sat_reports loops.sat_getIssue)

lemma sat_runSecondOpinion: "sat (lifecycle mr) (runSecondOpinion h rl i) (good mr)"
  unfolding runSecondOpinion_def Let_def
  by (intro sat_sthen sat_sbind [OF loops.sat_readDetail] sat_sbind [OF loops.sat_call] sat_reports
      loops.sat_getIssue)

lemma sat_resolution_reason: "sat (lifecycle mr) (resolution_reason body) (\<lambda>_. True)"
  by (rule loops.sat_logs) (simp add: resolution_reason_def split: option.split so_resolution_kind.split)

lemma sat_resolveSecondOpinion: "sat (lifecycle mr) (resolveSecondOpinion h i body) (good mr)"
  unfolding resolveSecondOpinion_def Let_def
  by (intro sat_sthen sat_sbind [OF loops.sat_getIssue] sat_sbind [OF sat_resolution_reason] sat_governs
      loops.sat_getIssue)

lemma sat_probe: "sat (lifecycle mr) (probe_endpoints rl target es steps) (\<lambda>_. True)"
proof (induction es arbitrary: steps)
  case (Cons e es)
  show ?case
    unfolding probe_endpoints.simps
  proof (rule sat_sbind [OF sat_attempt])
    fix r show "sat (lifecycle mr) (case r of
         Inl _ \<Rightarrow> probe_endpoints rl target es (steps @ [''health-check-unreachable:'' @ e])
       | Inr status \<Rightarrow> if 200 \<le> status \<and> status \<le> 299 then sret (steps @ [''health-check-passed:'' @ e], True)
           else probe_endpoints rl target es (steps @ [''health-check-non-ok:'' @ e @ '':'' @ nat_str status]))
       (\<lambda>_. True)"
      by (cases r) (simp_all only: sum.case, (intro sat_if sat_sret TrueI Cons.IH)+)
  qed
qed (simp only: probe_endpoints.simps, intro sat_sret TrueI)

lemma sat_smoke: "sat (lifecycle mr) (canary_smoke rl i input d steps) (\<lambda>_. True)"
  unfolding canary_smoke_def
proof (intro sat_if sat_sret TrueI sat_sbind [OF loops.sat_now] sat_sbind [OF sat_attempt])
  fix r show "sat (lifecycle mr) (case r of Inl _ \<Rightarrow> sret (steps @ [''browser-qa-failed''])
      | Inr report \<Rightarrow> sthen (smod (writeBrowserQaReport report))
          (sret (steps @ [''browser-qa''] @ (if bq_status report \<noteq> QA_PASSED
             then [''browser-qa-'' @ qa_status_str (bq_status report)] else [])))) (\<lambda>_. True)"
    by (cases r) (simp_all only: sum.case, (intro sat_sthen sat_reports sat_sret TrueI)+)
qed

lemma sat_runReleaseCanary: "sat (lifecycle mr) (runReleaseCanary h rl i input) (good mr)"
proof -
  have log: "sat (lifecycle mr) (smod (appendLog p)) (\<lambda>_. True)" for p
    by (rule loops.sat_logs) simp
  show ?thesis
    unfolding runReleaseCanary_def checkDeploymentHealth_def Let_def
    by (intro sat_sthen sat_sguard sat_targetUrl sat_sbind [OF loops.sat_getIssue]
        sat_sbind [OF sat_read_clock] sat_sbind [OF sat_smoke]
        sat_sbind [OF sat_if [OF sat_sret [where Q = "\<lambda>_. True"] sat_probe]] sat_prod sat_govern log
        loops.sat_getIssue TrueI)
qed

lemma lifecycle_governLearning: "lifecycle mr f \<Longrightarrow> lifecycle mr (snd (governLearning k req c f))"
  by (subst lifecycle_same [of _ f]) (simp_all add: governLearning_def Let_def split: option.splits)

lemma worker_writes:
  "\<exists>n e. snd (runLearningAutoMergeWorker c f) = appendLog e ((case c of Some _ \<Rightarrow> f | None \<Rightarrow> tick f)\<lparr>fs_learningGovernance := n\<rparr>)"
  unfolding runLearningAutoMergeWorker_def Let_def
  by (cases c, simp_all only: option.case prod.case snd_conv) blast+

lemma lifecycle_worker:
  assumes "lifecycle mr f"
  shows "lifecycle mr (snd (runLearningAutoMergeWorker c f))"
proof -
  obtain n e where "snd (runLearningAutoMergeWorker c f)
      = appendLog e ((case c of Some _ \<Rightarrow> f | None \<Rightarrow> tick f)\<lparr>fs_learningGovernance := n\<rparr>)"
    using worker_writes by blast
  then show ?thesis
    using assms by (subst lifecycle_same [of _ f]) (simp_all split: option.split)
qed

lemma lifecycle_resume_loop:
  assumes "lifecycle mr (snd x)" and "counters_ok mr st"
  shows "lifecycle mr (snd (resume_loop st x))"
proof -
  obtain acc f where x: "x = (acc, f)" by fastforce
  have w: "state_written (st\<lparr>st_shardsInProgress := 0, st_updated := t, st_paused := False\<rparr>) f
      (appendLog p (upsertState (st\<lparr>st_shardsInProgress := 0, st_updated := t, st_paused := False\<rparr>)
        (tick (write_shards_json i shards f))))" for t p i shards
    by (simp add: state_written_def store_simps)
  show ?thesis
    using assms lifecycle_written [OF _ _ w]
    by (auto simp: resume_loop_def x Let_def split: option.splits)
qed

lemma lifecycle_resume: "lifecycle mr f \<Longrightarrow> lifecycle mr (snd (resumeInterruptedLoops f))"
proof -
  assume f: "lifecycle mr f"
  then have g: "lifecycle mr (ensureInitialized f)"
    by (rule loops.logs [rotated]) simp
  have fold: "lifecycle mr (snd x) \<Longrightarrow> list_all (counters_ok mr) sts \<Longrightarrow> lifecycle mr (snd (fold resume_loop sts x))"
    for sts x
    by (induction sts arbitrary: x) (simp_all add: lifecycle_resume_loop)
  have "list_all (counters_ok mr) (readState (ensureInitialized f))"
    using g readState_stored [of "ensureInitialized f"] by (auto simp: list_all_iff lifecycle_def)
  with g show ?thesis unfolding resumeInterruptedLoops_def Let_def by (intro fold) simp_all
qed

subsection \<open>The service as a step relation\<close>

text \<open>One request to the service. A handler that fails half-way is a step as well: the store keeps
  what was written before the error.\<close>

inductive service_step :: "loops_host \<Rightarrow> issues_host \<Rightarrow> fs \<Rightarrow> fs \<Rightarrow> bool" for h ih where
  create: "service_step h ih f (snd (createIssue ih input payload user f))"
| generate: "service_step h ih f (snd (loops_generateSpec h i f))"
| review_spec: "service_step h ih f (snd (reviewSpec h i spec_request b f))"
| decompose: "service_step h ih f (snd (loops_decompose h i f))"
| run: "service_step h ih f (snd (runLoop h i f))"
| advance: "service_step h ih f (snd (loops_advance h i f))"
| run_tests: "service_step h ih f (snd (loops_runShardTests h i k tests f))"
| record_impl: "service_step h ih f (snd (recordShardImplementation h i k implementation f))"
| review_shard: "service_step h ih f (snd (reviewShard h i k review f))"
| review_global: "service_step h ih f (snd (loops_reviewGlobal h i f))"
| reloop: "service_step h ih f (snd (loops_reloop h i reviewer notes f))"
| finalize: "service_step h ih f (snd (loops_finalize h i f))"
| intervene: "service_step h ih f (snd (intervene h i intervention_request f))"
| command: "service_step h ih f (snd (naturalCommand h i command actor f))"
| resume: "service_step h ih f (snd (resumeInterruptedLoops f))"
| govern: "service_step h ih f (snd (governDelivery i decision c f))"
| govern_learning: "service_step h ih f (snd (governLearning k learning_decision c f))"
| worker: "service_step h ih f (snd (runLearningAutoMergeWorker c f))"
| browser_qa: "service_step h ih f (snd (runBrowserQa h rl i qa_request f))"
| second_opinion: "service_step h ih f (snd (runSecondOpinion h rl i f))"
| resolve_opinion: "service_step h ih f (snd (resolveSecondOpinion h i resolution f))"
| canary: "service_step h ih f (snd (runReleaseCanary h rl i canary_request f))"

inductive reachable :: "loops_host \<Rightarrow> issues_host \<Rightarrow> fs \<Rightarrow> bool" for h ih where
  start: "fs_states f = [] \<Longrightarrow> legacy_states f = [] \<Longrightarrow> fs_issues f = [] \<Longrightarrow> fs_intakes f = []
    \<Longrightarrow> reachable h ih f"
| step: "reachable h ih f \<Longrightarrow> service_step h ih f g \<Longrightarrow> reachable h ih g"

lemma step_lifecycle:
  assumes "service_step h ih f g" and "lifecycle mr f"
  shows "lifecycle mr g"
  using assms(1)
proof cases
  case (run_tests i k tests)
  then show ?thesis using sat_keeps [OF loops.sat_runShardTests assms(2)] by simp
next
  case (review_shard i k review)
  then show ?thesis using sat_keeps [OF loops.sat_reviewShard assms(2)] by simp
qed (use assms(2) in \<open>simp_all add: sat_createIssue [THEN sat_keeps] sat_generateSpec [THEN sat_keeps]
    sat_reviewSpec [THEN sat_keeps] sat_decompose [THEN sat_keeps] loops.sat_runLoop [THEN sat_keeps]
    sat_advance [THEN sat_keeps] sat_record [THEN sat_keeps] sat_reviewGlobal [THEN sat_keeps]
    sat_reloop [THEN sat_keeps] sat_finalize [THEN sat_keeps] sat_intervene [THEN sat_keeps]
    sat_naturalCommand [THEN sat_keeps] lifecycle_resume lifecycle_governDelivery
    lifecycle_governLearning lifecycle_worker sat_runBrowserQa [THEN sat_keeps]
    sat_runSecondOpinion [THEN sat_keeps] sat_resolveSecondOpinion [THEN sat_keeps]
    sat_runReleaseCanary [THEN sat_keeps]\<close>)

lemma reachable_lifecycle: "reachable h ih f \<Longrightarrow> lifecycle (cf_maxReloop (fs_cfg f)) f"
proof (induction rule: reachable.induct)
  case (start f)
  then show ?case by (simp add: lifecycle_def stored_states_def records_keyed_def)
next
  case (step f g)
  from step_lifecycle [OF step.hyps(2) step.IH]
  show ?case by (simp add: lifecycle_def)
qed

text \<open>C2. In every store that a sequence of requests, failed ones included, can lead to, each loop's
  round is one more than its re-loop count, the re-loop count is at most the configured maximum, and
  its spec version is \<open>v<n>\<close> for a number that is at least the re-loop count.\<close>

theorem loop_counters_invariant:
  assumes "reachable h ih f" and "stateOf i f = Some st"
  shows "st_round st = st_reloopCount st + 1 \<and> st_reloopCount st \<le> cf_maxReloop (fs_cfg f)
    \<and> (\<exists>n\<ge>st_reloopCount st. st_specVersion st = version_str n)"
  using reachable_lifecycle [OF assms(1)] stateOf_stored [OF assms(2)]
  by (auto simp: lifecycle_def counters_ok_def)

theorem loop_counters_invariant_witness:
  "\<forall>h. \<exists>i st g. reachable h sample_issues_host g \<and> stateOf i g = Some st \<and> st_round st = st_reloopCount st + 1"
proof
  fix h
  let ?run = "createIssue sample_issues_host sample_request JNull (Some sample_user) (empty_fs sample_env)"
  obtain c g where run: "?run = (Inr c, g)" using sample_created by blast
  have "reachable h sample_issues_host (empty_fs sample_env)"
    by (rule reachable.start) (simp_all add: empty_fs_def)
  then have reach: "reachable h sample_issues_host g"
    using service_step.create [of h sample_issues_host "empty_fs sample_env"] run
    by (metis reachable.step snd_conv)
  have "states_wf (empty_fs sample_env)" by (simp add: states_wf_def empty_fs_def)
  from created_state [OF this run] have "stateOf (i_id (ci_issue c)) g = Some (ci_state c)" .
  from loop_counters_invariant [OF reach this] reach this
  show "\<exists>i st g. reachable h sample_issues_host g \<and> stateOf i g = Some st \<and> st_round st = st_reloopCount st + 1"
    by blast
qed

text \<open>C10. What a request reads is well-formed in every reachable store: the issue, the intake and the
  state belong to the issue asked for, the records are those of the current round, a loop that is not
  decomposed shows no shards, a spec is shown only under its own version, and the coverage report is
  always there.\<close>

theorem detail_well_formed:
  assumes "reachable h ih f" and "getIssue h' i f = (Inr d, g)"
  shows "i_id (d_issue d) = i \<and> in_id (d_intake d) = intakeId i \<and> st_issueId (d_state d) = i
    \<and> (\<forall>r\<in>set (d_implementationRecords d). ir_round r = st_round (d_state d))
    \<and> (\<forall>r\<in>set (d_testRecords d). tr_round r = st_round (d_state d))
    \<and> (\<forall>r\<in>set (d_reviewRecords d). rr_round r = st_round (d_state d))
    \<and> (st_shardsTotal (d_state d) = 0 \<longrightarrow> d_shards d = [])
    \<and> (d_spec d \<noteq> None \<longrightarrow> st_specVersion (d_state d) \<noteq> ''v0'')
    \<and> d_requirementsCoverage d \<noteq> None"
proof -
  obtain e where e: "detail_of i (ensureInitialized f) = Inr e" "d = enriched h' e"
    using assms(2) by (auto simp: getIssue_def sbind_app readDetail_eq split: sum.splits)
  have keyed: "records_keyed (ensureInitialized f)"
    using reachable_lifecycle [OF assms(1)] by (simp add: lifecycle_def)
  obtain issue intake st where parts: "map_of (fs_issues (ensureInitialized f)) i = Some issue"
    "map_of (fs_intakes (ensureInitialized f)) (intakeId i) = Some intake"
    "stateOf i (ensureInitialized f) = Some st" "e = detail_with i issue intake st (ensureInitialized f)"
    using e(1) by (auto simp: detail_of_def split: option.splits)
  have ids: "i_id issue = i" "in_id intake = intakeId i" "st_issueId st = i"
    using keyed parts stateOf_issueId by (auto simp: records_keyed_def)
  show ?thesis
    using ids unfolding e(2) parts(4)
    by (simp add: enriched_def withRequirementsCoverage_def Let_def detail_with_def current_spec_def)
qed

theorem detail_well_formed_witness:
  "\<forall>h. \<exists>i d g f. reachable h sample_issues_host f \<and> getIssue h i f = (Inr d, g) \<and> i_id (d_issue d) = i"
proof
  fix h
  let ?run = "createIssue sample_issues_host sample_request JNull (Some sample_user) (empty_fs sample_env)"
  obtain c f where run: "?run = (Inr c, f)" using sample_created by blast
  have "reachable h sample_issues_host (empty_fs sample_env)"
    by (rule reachable.start) (simp_all add: empty_fs_def)
  then have reach: "reachable h sample_issues_host f"
    using service_step.create [of h sample_issues_host "empty_fs sample_env"] run
    by (metis reachable.step snd_conv)
  have "states_wf (empty_fs sample_env)" by (simp add: states_wf_def empty_fs_def)
  from issue_readable [OF this run] obtain d where "readDetail (i_id (ci_issue c)) f = (Inr d, f)" by blast
  then have read: "getIssue h (i_id (ci_issue c)) f = (Inr (enriched h d), f)"
    by (simp add: getIssue_def sbind_app)
  from detail_well_formed [OF reach read] reach read
  show "\<exists>i d g f. reachable h sample_issues_host f \<and> getIssue h i f = (Inr d, g) \<and> i_id (d_issue d) = i"
    by blast
qed

end
