(* ===== verification/Service_Laws.thy ===== *)
theory Service_Laws
  imports Lifecycle
begin

text \<open>
  What the facade promises to its clients: five handlers leave a closed loop alone, four handlers wait
  at the human gates, a loop whose shards are done converges, and a blocked global review waits for a
  human. Two laws describe the code where it does less than one would expect: a failing re-test of
  a DONE shard leaves the counters stale, and a negated approval approves.
\<close>

subsection \<open>Running a handler on a detail that was read\<close>

lemma ensureInitialized_twice [simp]: "ensureInitialized (ensureInitialized f) = ensureInitialized f"
  by (simp add: ensureInitialized_def)

lemma getIssue_fresh:
  assumes "getIssue h i f = (Inr d, g)"
  shows "g = ensureInitialized f \<and> (\<exists>e. detail_of i g = Inr e \<and> d = enriched h e)
    \<and> getIssue h i g = (Inr d, g)"
  using assms
  by (auto simp: getIssue_def sbind_app readDetail_eq split: sum.splits)

lemma syncAndRead_getIssue: "syncAndRead h i = getIssue h i"
  by (simp add: syncAndRead_def getIssue_def)

lemma enriched_parts [simp]:
  "d_state (enriched h d) = d_state d" "d_shards (enriched h d) = d_shards d"
  "d_spec (enriched h d) = d_spec d" "d_issue (enriched h d) = d_issue d"
  "d_annotations (enriched h d) = d_annotations d"
  by (simp_all add: enriched_def withRequirementsCoverage_def Let_def)

lemma after_read:
  "getIssue h i f = (Inr d, g) \<Longrightarrow> sbind (getIssue h i) k f = k d g"
  by (rule sbind_ok)

lemma advance_done:
  assumes "getIssue h i f = (Inr d, g)" and "advance_step i (advancePort h) d g = (Inr (Done d), g)"
  shows "loops_advance h i f = (Inr d, g)"
proof -
  have "advance_steps n i (advancePort h) m d g = (Inr d, g)" if "0 < n" for n m
    using that by (cases n) (simp_all add: sbind_ok [where m = "advance_step i (advancePort h) d", OF assms(2)])
  moreover have "ap_getDetail (advancePort h) = getIssue h" by (simp add: advancePort_def)
  ultimately show ?thesis
    unfolding loops_advance_def advance_def Let_def by (simp add: sbind_ok [where m = "getIssue h i", OF assms(1)])
qed

subsection \<open>A small store for the witnesses\<close>

definition spec_approved :: "loop_detail \<Rightarrow> bool" where
  "spec_approved d \<longleftrightarrow> map_option sp_status (d_spec d) = Some SPEC_APPROVED"

text \<open>A small store for the witnesses: the sample issue with a chosen status, state and shards.\<close>

definition demo_fs :: "loop_issue_status \<Rightarrow> loop_state_item \<Rightarrow> loop_shard list \<Rightarrow> fs" where
  "demo_fs status st shards = (empty_fs sample_env)\<lparr>
     fs_issues := [(''issue-1'', sample_issue\<lparr>i_status := status\<rparr>)],
     fs_intakes := [(''intake-1-a'', sample_intake)], fs_states := [(''issue-1'', st)],
     fs_shards := [(''issue-1'', shards)], fs_specs := [((''issue-1'', ''v1''), sample_spec)]\<rparr>"

definition demo_detail ::
    "loops_host \<Rightarrow> loop_issue_status \<Rightarrow> loop_state_item \<Rightarrow> loop_shard list \<Rightarrow> loop_detail" where
  "demo_detail h status st shards = enriched h (detail_with ''issue-1'' (sample_issue\<lparr>i_status := status\<rparr>)
     sample_intake st (ensureInitialized (demo_fs status st shards)))"

lemma demo_wf: "st_issueId st = ''issue-1'' \<Longrightarrow> states_wf (demo_fs status st shards)"
  by (simp add: states_wf_def demo_fs_def)

lemma demo_read:
  assumes "st_issueId st = ''issue-1''"
  shows "getIssue h ''issue-1'' (demo_fs status st shards)
    = (Inr (demo_detail h status st shards), ensureInitialized (demo_fs status st shards))"
proof -
  have id: "intakeId ''issue-1'' = ''intake-1-a''" by code_simp
  have "stateOf ''issue-1'' (demo_fs status st shards) = Some st"
    using stateOf_alt [OF demo_wf [OF assms], of "''issue-1''"] by (simp add: demo_fs_def)
  moreover have "map_of (fs_issues (demo_fs status st shards)) ''issue-1'' = Some (sample_issue\<lparr>i_status := status\<rparr>)"
    "map_of (fs_intakes (demo_fs status st shards)) ''intake-1-a'' = Some sample_intake"
    by (simp_all add: demo_fs_def)
  ultimately show ?thesis
    by (simp add: getIssue_def sbind_app readDetail_eq detail_of_def id demo_detail_def)
qed

lemma demo_parts:
  "d_issue (demo_detail h status st shards) = sample_issue\<lparr>i_status := status\<rparr>"
  "d_state (demo_detail h status st shards) = st"
  "d_shards (demo_detail h status st shards) = (if st_shardsTotal st > 0 then shards else [])"
  "d_spec (demo_detail h status st shards) = (if st_specVersion st = ''v0'' then None
     else if st_specVersion st = ''v1'' then Some sample_spec else None)"
  by (simp_all add: demo_detail_def detail_with_def Let_def current_spec_def)
    (simp_all add: demo_fs_def)

text \<open>The sample loop with one shard, after its decomposition.\<close>

definition one_shard_state :: "nat \<Rightarrow> loop_state_item" where
  "one_shard_state done = sample_state\<lparr>st_specVersion := ''v1'', st_shardsTotal := 1, st_shardsDone := done\<rparr>"

lemma one_shard_parts:
  "st_issueId (one_shard_state n) = ''issue-1''" "st_shardsTotal (one_shard_state n) = 1"
  "st_specVersion (one_shard_state n) = ''v1''" "\<not> st_paused (one_shard_state n)"
  "st_finalized (one_shard_state n) = None" "st_phase (one_shard_state n) = PHASE_1_SPEC"
  "st_shardsDone (one_shard_state n) = n" "st_shardsInProgress (one_shard_state n) = 0"
  by (simp_all add: one_shard_state_def sample_state_def)

lemma one_shard_demo:
  fixes h n shards
  defines "d \<equiv> demo_detail h ISSUE_OPEN (one_shard_state n) shards"
  shows "\<not> isTerminal d" "spec_approved d" "\<not> st_paused (d_state d)" "d_shards d = shards"
    "fs_locks (ensureInitialized (demo_fs ISSUE_OPEN (one_shard_state n) shards)) = {}"
  by (simp_all add: d_def isTerminal_def spec_approved_def demo_parts one_shard_parts sample_issue_def sample_spec_def)
    (simp add: demo_fs_def empty_fs_def)

text \<open>No command is allowed by the default configuration, so the default command is blocked.\<close>

lemma demo_test_fails:
  assumes "fs_cfg g = DEFAULT_RUNTIME_CONFIG"
  shows "\<exists>rec t. runShardTests host i k r cwd None None g = (Inr rec, t) \<and> tr_status rec = TEST_FAIL"
proof -
  have "\<exists>reason. evaluateCommandPolicy (rh_regexp host) [] None ''pnpm --version'' = Inr (Denied reason None None)"
    by (simp add: evaluateCommandPolicy_def prefix_allowed_def Let_def)
  then show ?thesis
    using assms
    by (auto simp: runShardTests_def requested_commands_def DEFAULT_RUNTIME_CONFIG_def run_step_def sbind_app
        now_def test_record_def failed_tests_def blockedCommand_def command_failed_def Let_def split: prod.splits)
qed

subsection \<open>Closed loops\<close>

text \<open>C13. A closed loop is left alone by five handlers: \<open>runLoop\<close>, \<open>decompose\<close>, \<open>reviewGlobal\<close> and
  \<open>finalize\<close> return the detail they read and write nothing when the issue is closed, the phase is CLOSED
  or the loop is finalized, and so does \<open>advance\<close> when it is not paused and the issue or the phase is
  closed. The exception is stated as well: \<open>advance\<close> looks at the pause first, so on a closed loop that
  is paused its first step is to resume it.\<close>

theorem closed_loop_untouched:
  assumes "getIssue h i f = (Inr d, g)" and "isTerminal d"
  shows "runLoop h i f = (Inr d, g) \<and> loops_decompose h i f = (Inr d, g)
    \<and> loops_reviewGlobal h i f = (Inr d, g) \<and> loops_finalize h i f = (Inr d, g)
    \<and> (\<not> st_paused (d_state d) \<longrightarrow> (i_status (d_issue d) = ISSUE_CLOSED \<or> st_phase (d_state d) = PHASE_CLOSED)
        \<longrightarrow> loops_advance h i f = (Inr d, g))
    \<and> (st_paused (d_state d) \<longrightarrow>
        advance_step i (advancePort h) d g = sbind (resumeAndRead h i d) (\<lambda>d'. sret (Next d')) g)"
proof -
  have "advance_step i (advancePort h) d g = sbind (resumeAndRead h i d) (\<lambda>d'. sret (Next d')) g"
    if "st_paused (d_state d)"
    using that by (simp add: advance_step_def advancePort_def Let_def)
  moreover have "loops_advance h i f = (Inr d, g)"
    if "\<not> st_paused (d_state d)" "i_status (d_issue d) = ISSUE_CLOSED \<or> st_phase (d_state d) = PHASE_CLOSED"
    using that by (intro advance_done [OF assms(1)]) (auto simp: advance_step_def Let_def)
  moreover have "loops_finalize h i f = (Inr d, g)"
    unfolding loops_finalize_def finalize_def
    by (subst sbind_ok [of _ _ d g]) (use assms in \<open>simp_all add: finalizePort_def\<close>)
  moreover have "loops_reviewGlobal h i f = (Inr d, g)"
    unfolding loops_reviewGlobal_def reviewGlobal_def
    by (subst sbind_ok [of _ _ d g]) (use assms in \<open>simp_all add: globalReviewPort_def\<close>)
  moreover have "loops_decompose h i f = (Inr d, g)"
    unfolding loops_decompose_def
    by (subst sbind_ok [of _ _ d g]) (use assms in \<open>simp_all add: decompose_def sbind_app\<close>)
  moreover have "runLoop h i f = (Inr d, g)"
    unfolding runLoop_def by (subst sbind_ok [of _ _ d g]) (use assms in simp_all)
  ultimately show ?thesis by blast
qed

theorem closed_loop_untouched_witness:
  "\<forall>h. \<exists>d g. getIssue h ''issue-1'' (demo_fs ISSUE_CLOSED sample_state []) = (Inr d, g) \<and> isTerminal d
     \<and> loops_advance h ''issue-1'' (demo_fs ISSUE_CLOSED sample_state []) = (Inr d, g)"
proof
  fix h
  have r: "getIssue h ''issue-1'' (demo_fs ISSUE_CLOSED sample_state [])
    = (Inr (demo_detail h ISSUE_CLOSED sample_state []), ensureInitialized (demo_fs ISSUE_CLOSED sample_state []))"
    by (rule demo_read) (simp add: sample_state_def)
  have t: "isTerminal (demo_detail h ISSUE_CLOSED sample_state [])"
    by (simp add: isTerminal_def demo_parts)
  from closed_loop_untouched [OF r t] r t
  show "\<exists>d g. getIssue h ''issue-1'' (demo_fs ISSUE_CLOSED sample_state []) = (Inr d, g) \<and> isTerminal d
     \<and> loops_advance h ''issue-1'' (demo_fs ISSUE_CLOSED sample_state []) = (Inr d, g)"
    by (simp add: demo_parts sample_state_def)
qed

subsection \<open>Human gates\<close>

definition release_blockers :: "loops_host \<Rightarrow> loop_detail \<Rightarrow> string list" where
  "release_blockers h d = (let so = buildSecondOpinion (lh_sha16 h) d in
     buildReleaseGateBlockers d (buildReleaseGate (Detail_Item d) (Some so)) (Some so))"

lemma mem_acquire_busy:
  assumes "set keys \<inter> s \<noteq> {}" and "[] \<notin> set keys"
  shows "\<exists>e. mem_acquire keys s = (Inl e, s)"
proof (cases "mem_acquire keys s")
  case (Pair x t)
  with assms mem_acquire_Inr [OF assms(2), of s] show ?thesis
    by (cases x) (auto simp: mem_acquire_def split: option.splits list.splits)
qed

lemma locked_error:
  assumes "\<And>u. m u = (Inl e, u)"
  shows "\<exists>e'. withIssueAndRepoLock process_acquire process_release i r m g = (Inl e', g)"
proof (cases "set (lock_keys i r) \<inter> fs_locks g = {}")
  case True
  then obtain t where t: "process_acquire (lock_keys i r) g = (Inr (), t)"
    using process_lock.acquire_free [OF lock_keys_nonempty lock_keys_distinct True] by blast
  then have "process_release (lock_keys i r) t = g"
    using True
    by (auto simp: process_acquire_iff mem_acquire_Inr lock_keys_nonempty process_release_def mem_release_def
        intro!: fs.equality)
  then show ?thesis using t assms by (simp add: withIssueAndRepoLock_def Let_def)
next
  case False
  then obtain e where "mem_acquire (lock_keys i r) (fs_locks g) = (Inl e, fs_locks g)"
    using mem_acquire_busy [OF False lock_keys_nonempty] by blast
  then show ?thesis by (simp add: withIssueAndRepoLock_def Let_def process_acquire_def)
qed

lemma finalize_refused:
  assumes "getIssue h i f = (Inr d, g)" and "\<not> isTerminal d"
    and "st_globalVerdict (d_state d) \<noteq> Some PASS \<or> release_blockers h d \<noteq> []"
  shows "\<exists>msg. loops_finalize h i f = (Inl (BadRequest msg), g)"
  unfolding loops_finalize_def finalize_def
  by (subst sbind_ok [of _ _ d g])
    (use assms in \<open>auto simp: finalizePort_def enforceReleaseGate_def release_blockers_def Let_def
      sthen_app\<close>)



subsection \<open>Reading back a state that was written\<close>

lemma records_keyed_locks [simp]: "records_keyed (f\<lparr>fs_locks := l\<rparr>) = records_keyed f"
  by (rule records_keyed_same) simp_all

lemma reread:
  assumes "detail_of i f = Inr e" and "states_wf f" and "i \<noteq> []" and "state_written st f g"
    and "fs_issues g = fs_issues f" "fs_intakes g = fs_intakes f" "fs_shards g = fs_shards f"
      "fs_specs g = fs_specs f"
    and "same_loop (d_state e) st"
  shows "\<exists>e'. detail_of i g = Inr e' \<and> d_state e' = st \<and> d_shards e' = d_shards e
    \<and> d_spec e' = d_spec e \<and> d_issue e' = d_issue e"
proof -
  obtain issue intake s where parts: "map_of (fs_issues f) i = Some issue"
    "map_of (fs_intakes f) (intakeId i) = Some intake" "stateOf i f = Some s"
    "e = detail_with i issue intake s f"
    using assms(1) by (auto simp: detail_of_def split: option.splits)
  then have s: "d_state e = s" by (simp add: detail_with_def Let_def)
  then have "st_issueId st = i" using assms(9) stateOf_issueId [OF parts(3)] by (simp add: same_loop_def)
  then have "stateOf i g = Some st" using stateOf_written [OF assms(2) _ assms(4)] assms(3) by simp
  then have "detail_of i g = Inr (detail_with i issue intake st g)"
    using parts assms(5,6) by (simp add: detail_of_def)
  then show ?thesis
    using assms(7-9) s unfolding parts(4)
    by (auto simp: detail_with_def Let_def current_spec_def same_loop_def)
qed

subsection \<open>A loop whose shards are done converges\<close>

lemma none_runnable:
  assumes "\<forall>s\<in>set shards. sh_status s = SHARD_DONE"
  shows "findRunnableShard shards = None" and "filter interrupted shards = []"
  using assms by (auto simp: findRunnableShard_None runnable_def interrupted_def filter_empty_conv)

lemma done_loop:
  assumes "\<forall>s\<in>set (d_shards d). sh_status s = SHARD_DONE" and "0 < fuel"
  shows "sched_loop fuel i port cb mp \<lparr>sd_detail = d, sd_advanced = 0, sd_blocked = 0, sd_recovered = 0\<rparr> u
    = Some (Inr \<lparr>sd_detail = d, sd_advanced = 0, sd_blocked = 0, sd_recovered = 0\<rparr>, u)"
  using assms(2) none_runnable [OF assms(1)]
  by (cases fuel) (auto simp: sched_iter_def pick_shard_def recoverInterruptedShards_def sbind_app)

lemma locked_run:
  assumes "set (lock_keys i r) \<inter> fs_locks g = {}"
  shows "withIssueAndRepoLock process_acquire process_release i r m g
    = (fst (m (g\<lparr>fs_locks := fs_locks g \<union> set (lock_keys i r)\<rparr>)),
       process_release (lock_keys i r) (snd (m (g\<lparr>fs_locks := fs_locks g \<union> set (lock_keys i r)\<rparr>))))"
proof -
  have "process_acquire (lock_keys i r) g = (Inr (), g\<lparr>fs_locks := fs_locks g \<union> set (lock_keys i r)\<rparr>)"
    using assms mem_acquire_Inr [OF lock_keys_nonempty, of i r "fs_locks g"] by (simp add: process_acquire_iff)
  then show ?thesis by (simp add: withIssueAndRepoLock_def Let_def split: prod.splits)
qed

text \<open>C8. A loop that is approved, not paused and has only DONE shards converges: when its locks are
  free, running it moves it to \<open>PHASE_6_CONVERGE\<close> with all shards counted, and keeps shards and spec.\<close>

theorem done_loop_converges:
  assumes "states_wf f" and "i \<noteq> []" and "getIssue h i f = (Inr d, g)" and "\<not> isTerminal d"
    and "spec_approved d" and "\<not> st_paused (d_state d)"
    and "d_shards d \<noteq> []" and "\<forall>s\<in>set (d_shards d). sh_status s = SHARD_DONE"
    and "set (lock_keys i (i_targetRepo (d_issue d))) \<inter> fs_locks g = {}"
  shows "\<exists>d'. fst (runLoop h i f) = Inr d' \<and> st_phase (d_state d') = PHASE_6_CONVERGE
    \<and> st_shardsDone (d_state d') = length (d_shards d) \<and> st_shardsInProgress (d_state d') = 0
    \<and> d_shards d' = d_shards d \<and> d_spec d' = d_spec d"
proof -
  let ?r = "i_targetRepo (d_issue d)"
  let ?u = "g\<lparr>fs_locks := fs_locks g \<union> set (lock_keys i ?r)\<rparr>"
  let ?s = "\<lparr>sd_detail = d, sd_advanced = 0, sd_blocked = 0, sd_recovered = 0\<rparr>"
  let ?st = "(d_state d)\<lparr>st_phase := PHASE_6_CONVERGE, st_shardsDone := length (d_shards d),
      st_shardsInProgress := 0, st_updated := clock ?u\<rparr>"
  let ?v = "upsertState ?st (tick ?u)"
  obtain e where e: "detail_of i g = Inr e" "d = enriched h e" and g: "g = ensureInitialized f"
    using getIssue_fresh [OF assms(3)] by blast
  have "\<exists>e'. detail_of i (ensureInitialized ?v) = Inr e' \<and> d_state e' = ?st \<and> d_shards e' = d_shards e
      \<and> d_spec e' = d_spec e \<and> d_issue e' = d_issue e"
  proof (rule reread [OF e(1) _ assms(2)])
    show "states_wf g" using assms(1) g by simp
  qed (simp_all add: state_written_def store_simps e(2))
  then obtain e' where e': "detail_of i (ensureInitialized ?v) = Inr e'" "d_state e' = ?st"
    "d_shards e' = d_shards e" "d_spec e' = d_spec e" by blast
  have "sched_finish i (shardRunnerPort h) mp cb ?s ?u = (Inr (enriched h e'), ensureInitialized ?v)" for mp cb
    using assms(7,8) e'(1)
    by (simp add: sched_finish_def Let_def sm_simps bounded.port_simps syncAndRead_getIssue
        getIssue_def sbind_app sthen_app now_def readDetail_eq list_all_iff)
  moreover have "0 < sched_fuel ?u d" by (simp add: sched_fuel_def Let_def)
  ultimately have "loops_runLoopUnlocked h i d ?u = (Inr (enriched h e'), ensureInitialized ?v)"
    using assms(5,6) done_loop [OF assms(8)]
    by (auto simp: loops_runLoopUnlocked_def runLoopUnlocked_def Let_def spec_approved_def)
  then have "fst (runLoop h i f) = Inr (enriched h e')"
    unfolding runLoop_def using assms(3,4,9) by (subst sbind_ok [of _ _ d g]) (simp_all add: locked_run)
  then show ?thesis using e' e(2) by simp
qed

theorem done_loop_converges_witness:
  "\<forall>h. \<exists>d'. fst (runLoop h ''issue-1'' (demo_fs ISSUE_OPEN (one_shard_state 0)
      [sample_shard ''shard-1'' [] SHARD_DONE])) = Inr d' \<and> st_phase (d_state d') = PHASE_6_CONVERGE
    \<and> st_shardsDone (d_state d') = 1"
proof
  fix h
  note demo_read [OF one_shard_parts(1), of h ISSUE_OPEN 0 "[sample_shard ''shard-1'' [] SHARD_DONE]"]
  from done_loop_converges [OF demo_wf [OF one_shard_parts(1)] _ this one_shard_demo(1-3)] one_shard_demo(5)
  show "\<exists>d'. fst (runLoop h ''issue-1'' (demo_fs ISSUE_OPEN (one_shard_state 0)
      [sample_shard ''shard-1'' [] SHARD_DONE])) = Inr d' \<and> st_phase (d_state d') = PHASE_6_CONVERGE
    \<and> st_shardsDone (d_state d') = 1"
    by (fastforce simp: one_shard_demo sample_shard_def)
qed

subsection \<open>A blocked global review waits\<close>

lemma writeBlockedReview_run:
  "\<exists>rec. writeBlockedReview i d issues fixs sm g = (Inr (), writeGlobalReview i rec (d_annotations d)
      (needs_work_state (d_state d) (clock g)) (tick (tick g))) \<and> gr_verdict rec = NEEDS_WORK"
  unfolding writeBlockedReview_def sbind_now Let_def smod_app
  by (intro exI conjI, rule refl) simp

lemma global_review_blocked:
  assumes "getIssue h i f = (Inr d, g)" and "\<not> isTerminal d" and "collectGlobalEvidenceIssues h d \<noteq> []"
  shows "\<exists>rec. loops_reviewGlobal h i f = getIssue h i (writeGlobalReview i rec (d_annotations d)
      (needs_work_state (d_state d) (clock g)) (tick (tick g))) \<and> gr_verdict rec = NEEDS_WORK"
proof -
  obtain issues fixs sm where "loops_reviewGlobal h i f
      = sthen (writeBlockedReview i d issues fixs sm) (getIssue h i) g"
    unfolding loops_reviewGlobal_def reviewGlobal_def
    by (subst (asm) sbind_ok [of _ _ d g])
      (use assms in \<open>auto simp: globalReviewPort_def sbind_app syncAndRead_getIssue\<close>)
  with writeBlockedReview_run [of i d issues fixs sm g] show ?thesis by (auto simp: sthen_app)
qed



subsection \<open>Laws of what the code leaves out\<close>

lemma count_where_less:
  assumes "s \<in> set xs" and "P s" and "\<not> P (u s)" and "q s" and "\<And>x. P (u x) \<Longrightarrow> P x"
  shows "count_where P (map_where q u xs) < count_where P xs"
proof -
  let ?u = "\<lambda>x. if q x then u x else x"
  have step: "count_where P (map_where q u (y # ys)) = (if P (?u y) then 1 else 0) + count_where P (map_where q u ys)"
    "count_where P (y # ys) = (if P y then 1 else 0) + count_where P ys" for y ys
    by (simp_all add: count_where_def map_where_def)
  have keep: "P (?u y) \<Longrightarrow> P y" for y
    using assms(5) by presburger
  have le: "count_where P (map_where q u ys) \<le> count_where P ys" for ys
  proof (induction ys)
    case (Cons y ys)
    then show ?case unfolding step using keep [of y] by simp
  qed (simp add: count_where_def map_where_def)
  from assms(1) show ?thesis
  proof (induction xs)
    case (Cons x xs)
    show ?case
    proof (cases "x = s")
      case True
      then show ?thesis unfolding step using assms(2-4) le [of xs] by simp
    next
      case False
      with Cons.prems Cons.IH have "count_where P (map_where q u xs) < count_where P xs" by simp
      then show ?thesis unfolding step using keep [of x] by simp
    qed
  qed simp
qed

text \<open>C27. A test run that fails on a DONE shard leaves the counters of the loop stale: if they agreed with the
  shards before, then afterwards the shard is sent back, the counter of done shards is the old one, fewer
  shards are DONE on disk than it says, and the doctor reports a mismatch.\<close>

theorem failed_retest_leaves_counters_stale:
  assumes "states_wf f" and "i \<noteq> []" and "getIssue h i f = (Inr d, g)"
    and "List.find (\<lambda>s. sh_id s = k) (d_shards d) = Some shard" and "sh_status shard = SHARD_DONE"
    and "inspectShardState (d_state d) (d_shards d) = []"
    and "loops_runShardTests h i k req f = (Inr rec, g')" and "tr_status rec = TEST_FAIL"
  shows "\<exists>st shards. stateOf i g' = Some st \<and> map_of (fs_shards g') i = Some shards
    \<and> st_shardsDone st = st_shardsDone (d_state d) \<and> count_where (\<lambda>s. sh_status s = SHARD_DONE) shards < st_shardsDone st
    \<and> inspectShardState st shards \<noteq> []"
proof -
  let ?shards = "map_where (\<lambda>s. sh_id s = k \<and> tr_status rec = TEST_FAIL)
      (\<lambda>s. s\<lparr>sh_status := SHARD_NEEDS_WORK\<rparr>) (d_shards d)"
  obtain u t where run: "runShardTests (lh_runner h) i k (st_round (d_state d)) (i_targetRepo (d_issue d)) req None g
      = (Inr rec, u)"
    and g': "\<exists>anns. g' = writeTestRecord i k rec anns ?shards
      ((d_state d)\<lparr>st_phase := PHASE_5_REVIEW, st_updated := t\<rparr>) (tick u)"
    using assms(3,4,7)
    by (auto simp: loops_runShardTests_def sbind_ok [of "getIssue h i"] Let_def sbind_app sthen_app now_def
        split: prod.splits sum.splits)
  let ?st = "(d_state d)\<lparr>st_phase := PHASE_5_REVIEW, st_updated := t\<rparr>"
  have g: "g = ensureInitialized f" using getIssue_fresh [OF assms(3)] by blast
  have "logs_only g (tick u)"
    using runShardTests_logs [of g "lh_runner h" i k "st_round (d_state d)" "i_targetRepo (d_issue d)" req None] run
    by simp
  then have wf: "states_wf (tick u)" using assms(1) g states_wf_logs_only [of g "tick u"] by simp
  have written: "shards_written i ?shards ?st (tick u) g'"
    using g' shard_write_ops(1) by blast
  obtain e where "detail_of i g = Inr e" "d = enriched h e" using getIssue_fresh [OF assms(3)] by blast
  then have "st_issueId (d_state d) = i"
    using detail_of_in_sync [of g i e] in_sync_issueId [of i e g] assms(1) g by simp
  then have state: "stateOf i g' = Some ?st"
    using stateOf_written [OF wf, of ?st g'] written assms(2) by (simp add: shards_written_def)
  have "shard \<in> set (d_shards d)" "sh_id shard = k"
    using assms(4) by (auto simp: find_Some_iff)
  then have less: "count_where (\<lambda>s. sh_status s = SHARD_DONE) ?shards
      < count_where (\<lambda>s. sh_status s = SHARD_DONE) (d_shards d)"
    using assms(5,8) by (intro count_where_less [of shard]) auto
  have "count_where (\<lambda>s. sh_status s = SHARD_DONE) (d_shards d) = st_shardsDone (d_state d)"
    using assms(6) by (simp add: inspectShardState_def Let_def split: if_splits)
  with less state written show ?thesis
    by (auto simp: shards_written_def inspectShardState_def Let_def)
qed

theorem failed_retest_leaves_counters_stale_witness:
  "\<forall>h. \<exists>rec g' st shards. loops_runShardTests h ''issue-1'' ''shard-1'' None
      (demo_fs ISSUE_OPEN (one_shard_state 1) [sample_shard ''shard-1'' [] SHARD_DONE]) = (Inr rec, g')
    \<and> stateOf ''issue-1'' g' = Some st \<and> map_of (fs_shards g') ''issue-1'' = Some shards
    \<and> inspectShardState st shards \<noteq> []"
proof
  fix h
  let ?f = "demo_fs ISSUE_OPEN (one_shard_state 1) [sample_shard ''shard-1'' [] SHARD_DONE]"
  let ?d = "demo_detail h ISSUE_OPEN (one_shard_state 1) [sample_shard ''shard-1'' [] SHARD_DONE]"
  note r = demo_read [OF one_shard_parts(1), of h ISSUE_OPEN 1 "[sample_shard ''shard-1'' [] SHARD_DONE]"]
  have "fs_cfg (ensureInitialized ?f) = DEFAULT_RUNTIME_CONFIG"
    by (simp add: demo_fs_def empty_fs_def sample_env_def)
  from demo_test_fails [OF this, of "lh_runner h" "''issue-1''" "''shard-1''" "st_round (d_state ?d)"
      "i_targetRepo (d_issue ?d)"]
  obtain rec t where t: "runShardTests (lh_runner h) ''issue-1'' ''shard-1'' (st_round (d_state ?d))
      (i_targetRepo (d_issue ?d)) None None (ensureInitialized ?f) = (Inr rec, t)" "tr_status rec = TEST_FAIL"
    by blast
  have shard: "List.find (\<lambda>s. sh_id s = ''shard-1'') (d_shards ?d) = Some (sample_shard ''shard-1'' [] SHARD_DONE)"
    by (simp add: one_shard_demo sample_shard_def)
  have agree: "inspectShardState (d_state ?d) (d_shards ?d) = []"
    by (simp add: one_shard_demo demo_parts one_shard_parts inspectShardState_def Let_def sample_shard_def count_where_def)
  have "\<exists>g'. loops_runShardTests h ''issue-1'' ''shard-1'' None ?f = (Inr rec, g')"
    unfolding loops_runShardTests_def after_read [OF r]
    using t shard by (simp add: Let_def sbind_app sthen_app now_def)
  then obtain g' where run: "loops_runShardTests h ''issue-1'' ''shard-1'' None ?f = (Inr rec, g')" ..
  from failed_retest_leaves_counters_stale [OF demo_wf [OF one_shard_parts(1)] _ r shard _ agree run t(2)]
  obtain st shards where "stateOf ''issue-1'' g' = Some st" "map_of (fs_shards g') ''issue-1'' = Some shards"
    "inspectShardState st shards \<noteq> []"
    by (auto simp: sample_shard_def)
  with run show "\<exists>rec g' st shards. loops_runShardTests h ''issue-1'' ''shard-1'' None ?f = (Inr rec, g')
    \<and> stateOf ''issue-1'' g' = Some st \<and> map_of (fs_shards g') ''issue-1'' = Some shards
    \<and> inspectShardState st shards \<noteq> []"
    by blast
qed

text \<open>The approval pattern makes the word \<open>spec\<close> optional and does not look for a negation: commands
  that refuse a spec are parsed as its approval, and a command that only contains \<open>run\<close> continues the loop.\<close>

theorem negated_approval_approves:
  "parseNaturalCommand ''do not approve the spec'' = INTENT_APPROVE_SPEC
   \<and> parseNaturalCommand ''disapprove'' = INTENT_APPROVE_SPEC
   \<and> parseNaturalCommand ''this is not acceptable'' = INTENT_APPROVE_SPEC
   \<and> parseNaturalCommand ''truncate everything'' = INTENT_CONTINUE"
  by code_simp

subsection \<open>The state store is a map\<close>

text \<open>The specification of \<open>.loops/state\<close>, state files with the legacy \<open>state.json\<close> below them: a map
  from issues to states. The empty id is never read.\<close>

definition state_map :: "fs \<Rightarrow> string \<Rightarrow> loop_state_item option" where
  "state_map f i = (if i = [] then None else stateOf i f)"

lemma state_map_written:
  assumes "states_wf f" and "st_issueId st \<noteq> []" and "state_written st f g"
  shows "state_map g = (state_map f)(st_issueId st \<mapsto> st)"
proof
  fix j
  have wf: "states_wf g" and own: "stateOf (st_issueId st) g = Some st"
    using stateOf_written [OF assms] by simp_all
  have "stateOf j g = stateOf j f" if "j \<noteq> []" "j \<noteq> st_issueId st"
  proof -
    have legacy: "legacy_states g = legacy_states f" and "map_of (fs_states g) j = map_of (fs_states f) j"
      using assms(3) that(2) unfolding state_written_def by (blast, simp)
    then show ?thesis
      by (simp only: stateOf_alt [OF wf that(1)] stateOf_alt [OF assms(1) that(1)])
  qed
  with own assms(2) show "state_map g j = ((state_map f)(st_issueId st \<mapsto> st)) j"
    by (auto simp: state_map_def)
qed

lemma readState_distinct:
  "states_wf f \<Longrightarrow> distinct (map st_issueId (readState f)) \<and> [] \<notin> st_issueId ` set (readState f)"
proof -
  define m where "m = foldl ins_legacy (foldl ins_state [] (map snd (fs_states f)))
      (case fs_legacyState f of None \<Rightarrow> [] | Some l \<Rightarrow> l)"
  have nonempty: "[] \<notin> fst ` set (foldl (\<lambda>m st. if st_issueId st \<noteq> [] \<and> p m st
      then AList.update (st_issueId st) st m else m) m0 xs)"
    if "[] \<notin> fst ` set m0" for p m0 xs
    using that
  proof (induction xs arbitrary: m0)
    case (Cons a xs)
    have "[] \<notin> fst ` set (if st_issueId a \<noteq> [] \<and> p m0 a then AList.update (st_issueId a) a m0 else m0)"
      using Cons.prems by (auto simp add: dom_update)
    then show ?case by (simp only: foldl_Cons) (rule Cons.IH)
  qed simp
  have wf: "state_map_wf m"
    unfolding m_def by (intro foldl_ins_legacy_wf foldl_ins_state_wf) (simp add: state_map_wf_def)
  have keys: "[] \<notin> fst ` set m"
    unfolding m_def
    by (rule nonempty [of _ "\<lambda>m st. st_issueId st \<notin> fst ` set m"])
      (use nonempty [of "[]" "\<lambda>_ _. True"] in simp)
  have "map st_issueId (map snd m) = map fst m"
    using wf by (auto simp: state_map_wf_def)
  then have "map st_issueId (readState f) = map fst m"
    by (simp add: readState_def m_def)
  then show ?thesis
    using wf keys unfolding state_map_wf_def by (metis image_set)
qed

text \<open>C9. The state store refines the map: reading all states gives the map's values, each issue once,
  and every write of the service for an issue is the update of the map at that issue.\<close>

theorem state_store_refines_map:
  assumes "states_wf f" and "st_issueId st = i" and "i \<noteq> []"
  shows "set (readState f) = ran (state_map f) \<and> distinct (map st_issueId (readState f))
    \<and> state_map (upsertState st f) = (state_map f)(i \<mapsto> st)
    \<and> state_map (writeIssue issue intake st raw recipe f) = (state_map f)(i \<mapsto> st)
    \<and> state_map (writeSpec issue spec st f) = (state_map f)(i \<mapsto> st)
    \<and> state_map (writeShards issue spec shards matrix anns st f) = (state_map f)(i \<mapsto> st)
    \<and> state_map (writeTestRecord j k tr anns shards st f) = (state_map f)(i \<mapsto> st)
    \<and> state_map (writeImplementationRecord j k ir anns shards st f) = (state_map f)(i \<mapsto> st)
    \<and> state_map (writeReviewRecord j k rr anns shards st f) = (state_map f)(i \<mapsto> st)
    \<and> state_map (writeShardProgress j k a b c shards st anns' f) = (state_map f)(i \<mapsto> st)
    \<and> state_map (writeGlobalReview j gr anns st f) = (state_map f)(i \<mapsto> st)
    \<and> state_map (writeFinalize issue anns st pr ls f) = (state_map f)(i \<mapsto> st)
    \<and> state_map (writeIntervention j action actor st s x y n f) = (state_map f)(i \<mapsto> st)
    \<and> state_map (ensureInitialized f) = state_map f
    \<and> state_map (appendLog l f) = state_map f"
proof -
  note rd = readState_distinct [OF assms(1)]
  have find: "List.find (\<lambda>s. st_issueId s = j) xs = Some s"
    if "distinct (map st_issueId xs)" "s \<in> set xs" "st_issueId s = j" for xs s j
    using that by (induction xs) auto
  have vals: "set (readState f) = ran (state_map f)"
  proof
    show "set (readState f) \<subseteq> ran (state_map f)"
    proof
      fix s assume s: "s \<in> set (readState f)"
      then have "st_issueId s \<noteq> []" using rd by (metis imageI)
      moreover have "stateOf (st_issueId s) f = Some s"
        unfolding stateOf_def using rd s by (intro find) simp_all
      ultimately have "state_map f (st_issueId s) = Some s" by (simp add: state_map_def)
      then show "s \<in> ran (state_map f)" by (rule ranI)
    qed
    show "ran (state_map f) \<subseteq> set (readState f)"
      by (auto simp: ran_def state_map_def stateOf_def find_Some_iff split: if_splits)
  qed
  have w: "state_map g = (state_map f)(i \<mapsto> st)" if "state_written st f g" for g
    using state_map_written [OF assms(1) _ that] assms(2,3) by simp
  have sw: "state_map g = (state_map f)(i \<mapsto> st)" if "shards_written j shards st f g" for g j shards
    using w that by (simp add: shards_written_def)
  have frames: "state_map (ensureInitialized f) = state_map f" "state_map (appendLog l f) = state_map f"
    using stateOf_cong [of "appendLog l f" f] by (simp_all add: state_map_def fun_eq_iff)
  show ?thesis
    using vals rd frames
    by (simp add: w state_write_ops sw [OF shard_write_ops(2)] sw [OF shard_write_ops(3)]
        sw [OF shard_write_ops(4)])
qed

theorem state_store_refines_map_witness:
  "states_wf sample_fs \<and> state_map (upsertState (sample_state\<lparr>st_round := 2\<rparr>) sample_fs)
     = (state_map sample_fs)(''issue-1'' \<mapsto> sample_state\<lparr>st_round := 2\<rparr>)"
  using state_store_refines_map [OF sample_fs_wf, of "sample_state\<lparr>st_round := 2\<rparr>" "''issue-1''"] sample_fs_wf
  by (simp add: sample_state_def)

end
