(* ===== verification/Triggers.thy ===== *)
theory Triggers
  imports Issues Runner
begin

text \<open>
  Schedule triggers: \<open>loops-triggers/loops-triggers.service.ts\<close>, the part of
  \<open>loops-file-store.service.ts\<close> that keeps \<open>.loops/triggers\<close>, the tick of
  \<open>loops-trigger-scheduler.processor.ts\<close> and the retry handlers of \<open>loops.service.ts\<close>.

  The clock of the process is local time: \<open>z\<close> is the offset of its zone from UTC in
  milliseconds, a constant (a zone without daylight saving). A \<open>Date\<close> is its time value, \<open>None\<close>
  an invalid date. The directories of \<open>.loops/triggers\<close> are listed in the order of the first
  write. The issue-creation port is a parameter; the facade passes its own \<open>createIssue\<close>.
\<close>

subsection \<open>Data\<close>

datatype trigger_status = TRIGGER_ACTIVE | TRIGGER_PAUSED | TRIGGER_ERROR

record schedule_trigger =
  tg_id :: string
  tg_workspaceId :: string
  tg_blueprintId :: "string option"
  tg_name :: string
  tg_cronExpression :: string
  tg_status :: trigger_status
  tg_targetRepo :: string
  tg_templateTitle :: string
  tg_templateBody :: string
  tg_templatePriority :: loop_priority
  tg_templateAcceptanceCriteria :: "string list"
  tg_lastRunAt :: "timestamp option"
  tg_nextRunAt :: "int option"
  tg_failureCount :: nat
  tg_maxFailures :: nat
  tg_createdAt :: timestamp
  tg_updatedAt :: timestamp
  tg_owner :: "string option"

record create_trigger_request =
  ct_name :: string
  ct_cronExpression :: string
  ct_blueprintId :: "string option"
  ct_targetRepo :: string
  ct_templateTitle :: string
  ct_templateBody :: string
  ct_templatePriority :: "loop_priority option"
  ct_templateAcceptanceCriteria :: "string list"
  ct_owner :: "string option"

record update_trigger_request =
  ut_name :: "string option"
  ut_cronExpression :: "string option"
  ut_status :: "trigger_status option"
  ut_blueprintId :: "string option"
  ut_templateTitle :: "string option"
  ut_templateBody :: "string option"
  ut_templatePriority :: "loop_priority option"
  ut_templateAcceptanceCriteria :: "string list option"
  ut_owner :: "string option"

datatype execution_status = EXEC_PENDING | EXEC_RUNNING | EXEC_COMPLETED | EXEC_FAILED | EXEC_DEAD_LETTERED

datatype trigger_type = BY_WEBHOOK | BY_SCHEDULE | BY_HAND

record trigger_execution =
  te_id :: string
  te_triggerId :: string
  te_triggerType :: trigger_type
  te_status :: execution_status
  te_inputPayload :: "(string \<times> json) list option"
  te_outputLoopId :: "string option"
  te_outputIssueId :: "string option"
  te_error :: "string option"
  te_attempt :: nat
  te_maxRetries :: nat
  te_nextRetryAt :: "timestamp option"
  te_createdAt :: timestamp
  te_completedAt :: "timestamp option"

record dead_letter =
  dl_executionId :: string
  dl_triggerId :: string
  dl_triggerType :: trigger_type
  dl_error :: string
  dl_attempt :: nat
  dl_inputPayload :: "(string \<times> json) list option"
  dl_deadLetteredAt :: timestamp
  dl_reason :: string

record trigger_response =
  tx_loopId :: string
  tx_issueId :: string
  tx_event :: string
  tx_created :: bool
  tx_message :: string

text \<open>The store: \<open>.loops\<close> itself, and below \<open>triggers\<close> the schedules by file name, the executions by
  directory and file name, and the dead letters by file name.\<close>

record trigger_store =
  ts_fs :: fs
  ts_schedules :: "(string \<times> schedule_trigger) list"
  ts_executions :: "((string \<times> string) \<times> trigger_execution) list"
  ts_deadLetters :: "(string \<times> dead_letter) list"

definition on_fs :: "(fs, 'a) sm \<Rightarrow> (trigger_store, 'a) sm" where
  "on_fs m = (\<lambda>s. case m (ts_fs s) of (r, f) \<Rightarrow> (r, s\<lparr>ts_fs := f\<rparr>))"

subsection \<open>The store\<close>

definition listScheduleTriggers :: "trigger_store \<Rightarrow> schedule_trigger list" where
  "listScheduleTriggers s = map snd (ts_schedules s)"

definition readScheduleTrigger :: "string \<Rightarrow> trigger_store \<Rightarrow> schedule_trigger option" where
  "readScheduleTrigger i s = map_of (ts_schedules s) i"

definition writeScheduleTrigger :: "schedule_trigger \<Rightarrow> trigger_store \<Rightarrow> trigger_store" where
  "writeScheduleTrigger t s = s\<lparr>ts_schedules := AList.update (tg_id t) t (ts_schedules s)\<rparr>"

definition removeScheduleTrigger :: "string \<Rightarrow> trigger_store \<Rightarrow> trigger_store" where
  "removeScheduleTrigger i s = s\<lparr>ts_schedules := AList.delete i (ts_schedules s)\<rparr>"

definition nextScheduleTriggerSeq :: "trigger_store \<Rightarrow> nat" where
  "nextScheduleTriggerSeq s = length (listScheduleTriggers s) + 1"

definition executionDirs :: "trigger_store \<Rightarrow> string list" where
  "executionDirs s = js_set (map (fst \<circ> fst) (ts_executions s))"

definition executions_in :: "string \<Rightarrow> trigger_store \<Rightarrow> trigger_execution list" where
  "executions_in d s = map snd (filter (\<lambda>e. fst (fst e) = d) (ts_executions s))"

definition readTriggerExecution :: "string \<Rightarrow> trigger_store \<Rightarrow> trigger_execution option" where
  "readTriggerExecution i s =
     (case List.map_filter (\<lambda>d. map_of (ts_executions s) (d, i)) (executionDirs s) of
        [] \<Rightarrow> None | e # _ \<Rightarrow> Some e)"

definition writeTriggerExecution :: "trigger_execution \<Rightarrow> trigger_store \<Rightarrow> trigger_store" where
  "writeTriggerExecution e s =
     s\<lparr>ts_executions := AList.update (te_triggerId e, te_id e) e (ts_executions s)\<rparr>"

definition nextTriggerExecutionSeq :: "trigger_store \<Rightarrow> nat" where
  "nextTriggerExecutionSeq s = sum_list (map (\<lambda>d. length (executions_in d s)) (executionDirs s)) + 1"

definition moveToDeadLetter :: "trigger_execution \<Rightarrow> timestamp \<Rightarrow> trigger_store \<Rightarrow> trigger_store" where
  "moveToDeadLetter e t s = s\<lparr>ts_deadLetters := AList.update (te_id e)
     \<lparr>dl_executionId = te_id e, dl_triggerId = te_triggerId e, dl_triggerType = te_triggerType e,
      dl_error = case_option ''Max retries exhausted'' id (te_error e), dl_attempt = te_attempt e,
      dl_inputPayload = te_inputPayload e, dl_deadLetteredAt = t,
      dl_reason = ''Exhausted retries ('' @ nat_str (te_attempt e) @ ''/'' @ nat_str (te_maxRetries e) @ '')''\<rparr>
     (ts_deadLetters s)\<rparr>"

definition listDeadLetters :: "trigger_store \<Rightarrow> dead_letter list" where
  "listDeadLetters s = map snd (ts_deadLetters s)"

subsection \<open>Dates and cron expressions\<close>

definition DAY :: int where "DAY = 86400000"
definition HOUR :: int where "HOUR = 3600000"
definition MINUTE :: int where "MINUTE = 60000"

text \<open>\<open>TimeClip\<close>: a time value beyond 100 million days makes the date invalid.\<close>

definition time_clip :: "int \<Rightarrow> int option" where
  "time_clip t = (if \<bar>t\<bar> \<le> 8640000000000000 then Some t else None)"

definition setHours :: "int \<Rightarrow> int \<Rightarrow> int \<Rightarrow> int \<Rightarrow> int option" where
  "setHours z t h m = time_clip ((t + z) div DAY * DAY + h * HOUR + m * MINUTE - z)"

definition getHours :: "int \<Rightarrow> int \<Rightarrow> int" where
  "getHours z t = (t + z) mod DAY div HOUR"

text \<open>1 January 1970 was a Thursday.\<close>

definition getDay :: "int \<Rightarrow> int \<Rightarrow> int" where
  "getDay z t = ((t + z) div DAY + 4) mod 7"

definition addDays :: "int \<Rightarrow> int \<Rightarrow> int option" where
  "addDays t k = time_clip (t + k * DAY)"

fun ws_split :: "string \<Rightarrow> bool \<Rightarrow> string \<Rightarrow> string list" where
  "ws_split cur gap [] = [cur]"
| "ws_split cur gap (c # cs) =
     (if is_space c then (if gap then ws_split cur True cs else cur # ws_split [] True cs)
      else ws_split (cur @ [c]) False cs)"

text \<open>\<open>cron.trim().split(/\s+/)\<close>\<close>

definition cron_parts :: "string \<Rightarrow> string list" where
  "cron_parts cron = ws_split [] False (js_trim cron)"

definition parse_digits :: "string \<Rightarrow> int option" where
  "parse_digits s = (case takeWhile is_digit s of [] \<Rightarrow> None | d \<Rightarrow> Some (int (digits_val d)))"

definition parseInt10 :: "string \<Rightarrow> int option" where
  "parseInt10 s = (case dropWhile is_space s of [] \<Rightarrow> None
     | c # r \<Rightarrow> if c = CHR ''-'' then map_option uminus (parse_digits r)
         else if c = CHR ''+'' then parse_digits r else parse_digits (c # r))"

text \<open>The date at which the two branches below start: today at the hour and minute of the expression.\<close>

definition today_at :: "int \<Rightarrow> int \<Rightarrow> string \<Rightarrow> string \<Rightarrow> int option" where
  "today_at z t minute hour = (case (parseInt10 hour, parseInt10 minute) of
     (Some h, Some m) \<Rightarrow> setHours z t h m | _ \<Rightarrow> None)"

definition daily_run :: "int \<Rightarrow> int \<Rightarrow> string \<Rightarrow> string \<Rightarrow> int option" where
  "daily_run z t minute hour = Option.bind (today_at z t minute hour)
     (\<lambda>next. if next \<le> t then addDays next 1 else Some next)"

definition weekly_run :: "int \<Rightarrow> int \<Rightarrow> string \<Rightarrow> string \<Rightarrow> string \<Rightarrow> int option" where
  "weekly_run z t minute hour day = Option.bind (today_at z t minute hour)
     (\<lambda>next. Option.bind (parseInt10 day) (\<lambda>targetDay.
       let currentDay = (if getDay z next = 0 then 7 else getDay z next);
           daysUntil = targetDay - currentDay in
       addDays next (if daysUntil \<le> 0 \<and> next \<le> t then daysUntil + 7 else daysUntil)))"

definition hourly_run :: "int \<Rightarrow> int \<Rightarrow> int option" where
  "hourly_run z t = setHours z t (getHours z t + 1) 0"

definition is_daily :: "string list \<Rightarrow> bool" where
  "is_daily parts \<longleftrightarrow> parts ! 2 = ''*'' \<and> parts ! 3 = ''*'' \<and> parts ! 4 = ''*''"

text \<open>The service: an invalid date makes \<open>toISOString\<close> throw, which the \<open>catch\<close> turns into no time.\<close>

definition computeNextCronTime :: "int \<Rightarrow> int \<Rightarrow> string \<Rightarrow> int option" where
  "computeNextCronTime z t cron = (let parts = cron_parts cron in
     if length parts < 5 then None
     else if is_daily parts then daily_run z t (parts ! 0) (parts ! 1)
     else if parts ! 4 \<noteq> ''*'' then weekly_run z t (parts ! 0) (parts ! 1) (parts ! 4)
     else hourly_run z t)"

text \<open>The scheduler: \<open>None\<close> is \<open>null\<close>, \<open>Some None\<close> an invalid date, which is returned as it is.\<close>

definition computeNextRun :: "int \<Rightarrow> int \<Rightarrow> string \<Rightarrow> int option option" where
  "computeNextRun z t cron = (let parts = cron_parts cron in
     if length parts < 5 then None
     else if is_daily parts then Some (daily_run z t (parts ! 0) (parts ! 1))
     else if parts ! 4 \<noteq> ''*'' \<and> parts ! 3 = ''*''
     then Some (weekly_run z t (parts ! 0) (parts ! 1) (parts ! 4))
     else Some (hourly_run z t))"

subsection \<open>The service\<close>

definition js_page :: "nat \<Rightarrow> nat \<Rightarrow> 'a list \<Rightarrow> 'a list" where
  "js_page page limit xs = (if page = 0 then [] else take limit (drop ((page - 1) * limit) xs))"

definition trigger_page :: "nat option \<Rightarrow> nat option \<Rightarrow> trigger_store \<Rightarrow> schedule_trigger list \<times> nat" where
  "trigger_page page limit s = (let triggers = listScheduleTriggers s in
     (js_page (case_option 1 id page) (case_option 20 id limit) triggers, length triggers))"

definition getScheduleTrigger :: "string \<Rightarrow> (trigger_store, schedule_trigger) sm" where
  "getScheduleTrigger i s = (case readScheduleTrigger i s of
     None \<Rightarrow> (Inl (NotFound (''Schedule trigger '' @ i @ '' not found'')), s) | Some t \<Rightarrow> (Inr t, s))"

definition createScheduleTrigger ::
    "int \<Rightarrow> create_trigger_request \<Rightarrow> (trigger_store, schedule_trigger) sm" where
  "createScheduleTrigger z input = sbind (on_fs now) (\<lambda>t. sbind sget (\<lambda>s. sbind (on_fs now) (\<lambda>u.
     let trigger = \<lparr>tg_id = ''sched-'' @ nat_str (nextScheduleTriggerSeq s), tg_workspaceId = ''default'',
       tg_blueprintId = ct_blueprintId input, tg_name = ct_name input,
       tg_cronExpression = ct_cronExpression input, tg_status = TRIGGER_ACTIVE,
       tg_targetRepo = ct_targetRepo input, tg_templateTitle = ct_templateTitle input,
       tg_templateBody = ct_templateBody input,
       tg_templatePriority = case_option P2 id (ct_templatePriority input),
       tg_templateAcceptanceCriteria = ct_templateAcceptanceCriteria input, tg_lastRunAt = None,
       tg_nextRunAt = computeNextCronTime z (int u) (ct_cronExpression input), tg_failureCount = 0,
       tg_maxFailures = 3, tg_createdAt = t, tg_updatedAt = t, tg_owner = ct_owner input\<rparr> in
     sthen (smod (writeScheduleTrigger trigger)) (sret trigger))))"

definition updated_trigger ::
    "int \<Rightarrow> update_trigger_request \<Rightarrow> timestamp \<Rightarrow> timestamp \<Rightarrow> schedule_trigger \<Rightarrow> schedule_trigger" where
  "updated_trigger z input t u x = x\<lparr>
     tg_name := case_option (tg_name x) id (ut_name input),
     tg_cronExpression := case_option (tg_cronExpression x) id (ut_cronExpression input),
     tg_status := case_option (tg_status x) id (ut_status input),
     tg_blueprintId := or_else (ut_blueprintId input) (tg_blueprintId x),
     tg_templateTitle := case_option (tg_templateTitle x) id (ut_templateTitle input),
     tg_templateBody := case_option (tg_templateBody x) id (ut_templateBody input),
     tg_templatePriority := case_option (tg_templatePriority x) id (ut_templatePriority input),
     tg_templateAcceptanceCriteria := case_option (tg_templateAcceptanceCriteria x) id
       (ut_templateAcceptanceCriteria input),
     tg_owner := or_else (ut_owner input) (tg_owner x),
     tg_nextRunAt := (case ut_cronExpression input of
       Some cron \<Rightarrow> computeNextCronTime z (int u) cron | None \<Rightarrow> tg_nextRunAt x),
     tg_updatedAt := t\<rparr>"

definition updateScheduleTrigger ::
    "int \<Rightarrow> string \<Rightarrow> update_trigger_request \<Rightarrow> (trigger_store, schedule_trigger) sm" where
  "updateScheduleTrigger z i input = sbind (getScheduleTrigger i) (\<lambda>x. sbind (on_fs now) (\<lambda>t.
     sbind (if ut_cronExpression input = None then sret 0 else on_fs now) (\<lambda>u.
     let updated = updated_trigger z input t u x in
     sthen (smod (writeScheduleTrigger updated)) (sret updated))))"

definition deleteScheduleTrigger :: "string \<Rightarrow> (trigger_store, unit) sm" where
  "deleteScheduleTrigger i = sbind (getScheduleTrigger i) (\<lambda>_. smod (removeScheduleTrigger i))"

subsection \<open>Firing\<close>

definition trigger_request :: "schedule_trigger \<Rightarrow> create_issue_request" where
  "trigger_request t = \<lparr>cr_title = tg_templateTitle t, cr_targetRepo = tg_targetRepo t,
     cr_body = tg_templateBody t, cr_priority = tg_templatePriority t,
     cr_acceptanceCriteria = tg_templateAcceptanceCriteria t, cr_submitter = None, cr_submitterId = None,
     cr_submitterName = None, cr_sourceChannel = Some CHANNEL_SCHEDULE,
     cr_sourceKind = Some KIND_SCHEDULE, cr_tenantContext = None\<rparr>"

definition fired_trigger :: "int \<Rightarrow> timestamp \<Rightarrow> timestamp \<Rightarrow> schedule_trigger \<Rightarrow> schedule_trigger" where
  "fired_trigger z t u x = x\<lparr>tg_lastRunAt := Some t,
     tg_nextRunAt := computeNextCronTime z (int u) (tg_cronExpression x), tg_failureCount := 0,
     tg_updatedAt := t\<rparr>"

definition failed_trigger :: "timestamp \<Rightarrow> schedule_trigger \<Rightarrow> schedule_trigger" where
  "failed_trigger t x = x\<lparr>tg_failureCount := tg_failureCount x + 1,
     tg_status := (if tg_failureCount x + 1 \<ge> tg_maxFailures x then TRIGGER_ERROR else tg_status x),
     tg_lastRunAt := Some t, tg_updatedAt := t\<rparr>"

definition fired_execution :: "schedule_trigger \<Rightarrow> string option \<Rightarrow> string \<Rightarrow> timestamp \<Rightarrow> nat \<Rightarrow> trigger_execution" where
  "fired_execution x reason issueId t n = \<lparr>te_id = ''exec-'' @ nat_str n, te_triggerId = tg_id x,
     te_triggerType = BY_SCHEDULE, te_status = EXEC_COMPLETED,
     te_inputPayload = Some (opt_str ''reason'' reason @ [(''templateTitle'', JStr (tg_templateTitle x))]),
     te_outputLoopId = Some issueId, te_outputIssueId = Some issueId, te_error = None, te_attempt = 1,
     te_maxRetries = 3, te_nextRetryAt = None, te_createdAt = t, te_completedAt = Some t\<rparr>"

definition fireScheduleTrigger ::
    "int \<Rightarrow> (create_issue_request \<Rightarrow> (fs, string) sm) \<Rightarrow> string \<Rightarrow> string option
     \<Rightarrow> (trigger_store, trigger_response) sm" where
  "fireScheduleTrigger z port i reason = sbind (getScheduleTrigger i) (\<lambda>x. sbind (on_fs now) (\<lambda>t.
     if tg_status x = TRIGGER_PAUSED
     then sret \<lparr>tx_loopId = [], tx_issueId = [], tx_event = tg_name x, tx_created = False,
       tx_message = ''Schedule trigger '' @ i @ ('' is paused '' @ [CHR 0xE2, CHR 0x80, CHR 0x94] @ '' resume it first'')\<rparr>
     else (\<lambda>s. case on_fs (port (trigger_request x)) s of
       (Inr issueId, s1) \<Rightarrow> sbind (on_fs now) (\<lambda>u s2.
         let s3 = writeScheduleTrigger (fired_trigger z t u x) s2;
             s4 = writeTriggerExecution (fired_execution x reason issueId t (nextTriggerExecutionSeq s3)) s3 in
         (Inr \<lparr>tx_loopId = issueId, tx_issueId = issueId, tx_event = tg_name x, tx_created = True,
            tx_message = ''Loop issue '' @ issueId @ ('' created from schedule trigger '' @ [CHR 0x22]) @ tg_name x @ [CHR 0x22]\<rparr>, s4)) s1
     | (Inl e, s1) \<Rightarrow>
         (Inr \<lparr>tx_loopId = [], tx_issueId = [], tx_event = tg_name x, tx_created = False,
            tx_message = ''Failed: '' @ error_message e\<rparr>,
          writeScheduleTrigger (failed_trigger t x) s1))))"

text \<open>The facade's port.\<close>

definition issue_port ::
    "issues_host \<Rightarrow> (create_issue_request \<Rightarrow> json) \<Rightarrow> create_issue_request \<Rightarrow> (fs, string) sm" where
  "issue_port h payload request = sbind (createIssue h request (payload request) None)
     (\<lambda>c. sret (i_id (ci_issue c)))"

subsection \<open>The scheduler\<close>

record tick_counts =
  tk_fired :: nat
  tk_skipped :: nat
  tk_errors :: nat

definition no_counts :: tick_counts where
  "no_counts = \<lparr>tk_fired = 0, tk_skipped = 0, tk_errors = 0\<rparr>"

definition skipped :: "tick_counts \<Rightarrow> tick_counts" where
  "skipped c = c\<lparr>tk_skipped := tk_skipped c + 1\<rparr>"

text \<open>A trigger that is due is fired under a \<open>try\<close>; one without a next run only gets one, outside it.\<close>

definition tick_trigger ::
    "int \<Rightarrow> (create_issue_request \<Rightarrow> (fs, string) sm) \<Rightarrow> string \<Rightarrow> timestamp \<Rightarrow> schedule_trigger \<Rightarrow> tick_counts
     \<Rightarrow> (trigger_store, tick_counts) sm" where
  "tick_trigger z port reason t x c = (case tg_nextRunAt x of
     None \<Rightarrow> sbind (on_fs now) (\<lambda>u. case computeNextRun z (int u) (tg_cronExpression x) of
         Some None \<Rightarrow> sthrow (PlainError ''Invalid time value'')
       | Some (Some n) \<Rightarrow> sthen (smod (writeScheduleTrigger (x\<lparr>tg_nextRunAt := Some n, tg_updatedAt := t\<rparr>)))
           (sret (skipped c))
       | None \<Rightarrow> sret (skipped c))
   | Some n \<Rightarrow> if n > int t then sret (skipped c)
       else (\<lambda>s. case fireScheduleTrigger z port (tg_id x) (Some reason) s of
           (Inr r, s') \<Rightarrow> (Inr (if tx_created r then c\<lparr>tk_fired := tk_fired c + 1\<rparr>
                else c\<lparr>tk_errors := tk_errors c + 1\<rparr>), s')
         | (Inl e, s') \<Rightarrow> (Inr (c\<lparr>tk_errors := tk_errors c + 1\<rparr>), s')))"

fun tick_triggers ::
    "int \<Rightarrow> (create_issue_request \<Rightarrow> (fs, string) sm) \<Rightarrow> string \<Rightarrow> timestamp \<Rightarrow> schedule_trigger list \<Rightarrow> tick_counts
     \<Rightarrow> (trigger_store, tick_counts) sm" where
  "tick_triggers z port reason t [] c = sret c"
| "tick_triggers z port reason t (x # xs) c =
     sbind (tick_trigger z port reason t x c) (tick_triggers z port reason t xs)"

definition active_triggers :: "trigger_store \<Rightarrow> schedule_trigger list" where
  "active_triggers s = filter (\<lambda>x. tg_status x = TRIGGER_ACTIVE) (listScheduleTriggers s)"

definition processTick ::
    "int \<Rightarrow> (create_issue_request \<Rightarrow> (fs, string) sm) \<Rightarrow> (trigger_store, tick_counts) sm" where
  "processTick z port = sbind (on_fs now) (\<lambda>t. sbind sget (\<lambda>s.
     tick_triggers z port (''Auto-fired by trigger scheduler at '' @ env_iso (fs_env (ts_fs s)) t) t
       (active_triggers s) no_counts))"

text \<open>The distributed lock: without Redis, and when Redis fails, the tick runs.\<close>

definition acquireLock :: "bool call option \<Rightarrow> (trigger_store, bool) sm" where
  "acquireLock redis = (case redis of None \<Rightarrow> sret True
     | Some set_nx \<Rightarrow> (\<lambda>s. case on_fs (call set_nx) s of (Inr ok, s') \<Rightarrow> (Inr ok, s') | (Inl e, s') \<Rightarrow> (Inr True, s')))"

definition process_tick ::
    "bool call option \<Rightarrow> int \<Rightarrow> (create_issue_request \<Rightarrow> (fs, string) sm) \<Rightarrow> (trigger_store, tick_counts) sm" where
  "process_tick redis z port = sbind (acquireLock redis) (\<lambda>ok.
     if ok then processTick z port else sret no_counts)"

record scheduler_status =
  ss_running :: bool
  ss_activeTriggers :: nat
  ss_totalFired :: nat
  ss_totalErrors :: nat
  ss_lastTickAt :: "timestamp option"

definition getTriggerSchedulerStatus :: "trigger_store \<Rightarrow> scheduler_status" where
  "getTriggerSchedulerStatus s = (let triggers = listScheduleTriggers s; active = length (active_triggers s) in
     \<lparr>ss_running = (active > 0), ss_activeTriggers = active,
      ss_totalFired = count_where (\<lambda>x. tg_lastRunAt x \<noteq> None) triggers,
      ss_totalErrors = count_where (\<lambda>x. tg_failureCount x > 0) triggers,
      ss_lastTickAt = (case sort_desc id (List.map_filter tg_lastRunAt triggers) of
        [] \<Rightarrow> None | t # _ \<Rightarrow> Some t)\<rparr>)"

subsection \<open>Retrying executions\<close>

definition execution_page ::
    "string \<Rightarrow> nat option \<Rightarrow> nat option \<Rightarrow> trigger_store \<Rightarrow> trigger_execution list \<times> nat" where
  "execution_page i page limit s = (let xs = executions_in i s in
     (js_page (case_option 1 id page) (case_option 20 id limit) xs, length xs))"

definition dead_letter_page :: "nat option \<Rightarrow> nat option \<Rightarrow> trigger_store \<Rightarrow> dead_letter list \<times> nat" where
  "dead_letter_page page limit s = (let xs = listDeadLetters s in
     (js_page (case_option 1 id page) (case_option 20 id limit) xs, length xs))"

definition computeRetryBackoff :: "nat \<Rightarrow> timestamp \<Rightarrow> timestamp" where
  "computeRetryBackoff n t = t + min (2 ^ (n - 1)) 60 * 60000"

definition retryTriggerExecution :: "string \<Rightarrow> (trigger_store, trigger_execution) sm" where
  "retryTriggerExecution i = sbind sget (\<lambda>s. case readTriggerExecution i s of
     None \<Rightarrow> sthrow (NotFound (''Trigger execution '' @ i @ '' not found''))
   | Some e \<Rightarrow> if te_attempt e \<ge> te_maxRetries e
       then sbind (on_fs now) (\<lambda>t. sthen (smod (moveToDeadLetter e t))
         (sthrow (BadRequest (''Execution '' @ i @ '' has exhausted retries (''
           @ nat_str (te_attempt e) @ ''/'' @ nat_str (te_maxRetries e) @ '')''))))
       else sbind (on_fs now) (\<lambda>t.
         let retried = e\<lparr>te_status := EXEC_PENDING, te_attempt := te_attempt e + 1,
           te_nextRetryAt := Some (computeRetryBackoff (te_attempt e + 1) t), te_error := None,
           te_completedAt := None\<rparr> in
         sthen (smod (writeTriggerExecution retried)) (sret retried)))"

definition replayTriggerExecution :: "string \<Rightarrow> (trigger_store, trigger_execution) sm" where
  "replayTriggerExecution i = sbind sget (\<lambda>s. case readTriggerExecution i s of
     None \<Rightarrow> sthrow (NotFound (''Trigger execution '' @ i @ '' not found''))
   | Some e \<Rightarrow> sbind (on_fs now) (\<lambda>t.
       let replay = \<lparr>te_id = ''exec-'' @ nat_str (nextTriggerExecutionSeq s), te_triggerId = te_triggerId e,
         te_triggerType = te_triggerType e, te_status = EXEC_PENDING, te_inputPayload = te_inputPayload e,
         te_outputLoopId = None, te_outputIssueId = None, te_error = None, te_attempt = 1,
         te_maxRetries = te_maxRetries e, te_nextRetryAt = None, te_createdAt = t, te_completedAt = None\<rparr> in
       sthen (smod (writeTriggerExecution replay)) (sret replay)))"

end
