(* ===== verification/Trigger_Laws.thy ===== *)
theory Trigger_Laws
  imports Triggers Samples
begin

text \<open>
  Laws of the schedule triggers: when a daily trigger runs next, what a tick of the scheduler
  counts, that a trigger without a valid next run stops every tick, that a weekly trigger can be
  due again right after it fired, and how often an execution can be retried.
\<close>

subsection \<open>Dates\<close>

lemmas date_units = DAY_def HOUR_def MINUTE_def

lemma div_mult_day: "(x :: int) div DAY * DAY = x - x mod DAY"
  by (simp add: minus_mod_eq_div_mult)

lemma day_offset:
  fixes x :: int
  assumes "0 \<le> k" and "k < DAY"
  shows "(x div DAY * DAY + k) mod DAY = k"
  using assms by simp

lemma today_at_time:
  assumes "parseInt10 hour = Some h" and "parseInt10 minute = Some m"
    and "0 \<le> h" "h \<le> 23" "0 \<le> m" "m \<le> 59" and "\<bar>t\<bar> \<le> 8000000000000000" and "\<bar>z\<bar> \<le> DAY"
  shows "\<exists>n. today_at z t minute hour = Some n \<and> t - DAY < n \<and> n < t + DAY
    \<and> (n + z) mod DAY = h * HOUR + m * MINUTE"
proof -
  let ?k = "h * HOUR + m * MINUTE"
  let ?n = "(t + z) div DAY * DAY + ?k - z"
  have k: "0 \<le> ?k" "?k < DAY" using assms(3-6) by (simp_all add: date_units)
  have md: "0 \<le> (t + z) mod DAY" "(t + z) mod DAY < DAY" by (simp_all add: date_units)
  have n: "?n = t - (t + z) mod DAY + ?k" by (simp add: div_mult_day)
  have "today_at z t minute hour = time_clip ?n"
    using assms(1,2) by (simp add: today_at_def setHours_def algebra_simps)
  moreover have "t - DAY < ?n" "?n < t + DAY" using k md unfolding n by linarith+
  moreover have "time_clip ?n = Some ?n"
    using calculation assms(7) by (simp add: time_clip_def date_units)
  moreover have "(?n + z) mod DAY = ?k" using day_offset [OF k, of "t + z"] by (simp add: algebra_simps)
  ultimately show ?thesis by metis
qed

lemma shift_day: "(n + k * DAY + z) mod DAY = (n + z) mod DAY"
proof -
  have "n + k * DAY + z = (n + z) + k * DAY" by simp
  then show ?thesis by (metis mod_mult_self1)
qed

lemma daily_run_next:
  assumes "parseInt10 hour = Some h" and "parseInt10 minute = Some m"
    and "0 \<le> h" "h \<le> 23" "0 \<le> m" "m \<le> 59" and "\<bar>t\<bar> \<le> 8000000000000000" and "\<bar>z\<bar> \<le> DAY"
  shows "\<exists>n. daily_run z t minute hour = Some n \<and> t < n \<and> n \<le> t + DAY
    \<and> (n + z) mod DAY = h * HOUR + m * MINUTE"
proof -
  obtain n where n: "today_at z t minute hour = Some n" "t - DAY < n" "n < t + DAY"
    "(n + z) mod DAY = h * HOUR + m * MINUTE"
    using today_at_time [OF assms] by blast
  show ?thesis
  proof (cases "n \<le> t")
    case True
    have "time_clip (n + 1 * DAY) = Some (n + 1 * DAY)"
      using n True assms(7) by (simp add: time_clip_def date_units)
    then have "daily_run z t minute hour = Some (n + 1 * DAY)"
      using n True by (simp add: daily_run_def addDays_def)
    then show ?thesis using n(2,4) True shift_day [of n 1 z] by auto
  next
    case False
    then show ?thesis using n by (auto simp: daily_run_def)
  qed
qed

text \<open>A trigger with a daily expression (minute, hour, and three stars) runs next within the coming
  24 hours, strictly later than now, at the hour and minute of the expression in local time; the
  service and the scheduler agree on it.\<close>

theorem daily_trigger_next_run:
  assumes "cron_parts cron = [minute, hour, ''*'', ''*'', ''*'']"
    and "parseInt10 hour = Some h" and "parseInt10 minute = Some m"
    and "0 \<le> h" "h \<le> 23" "0 \<le> m" "m \<le> 59" and "\<bar>t\<bar> \<le> 8000000000000000" and "\<bar>z\<bar> \<le> DAY"
  shows "\<exists>n. computeNextCronTime z t cron = Some n \<and> computeNextRun z t cron = Some (Some n)
    \<and> t < n \<and> n \<le> t + DAY \<and> (n + z) mod DAY = h * HOUR + m * MINUTE"
  using daily_run_next [OF assms(2-)] assms(1)
  by (auto simp: computeNextCronTime_def computeNextRun_def is_daily_def eval_nat_numeral)

theorem daily_trigger_next_run_witness:
  "\<exists>n. computeNextCronTime 0 1000 ''30 9 * * *'' = Some n \<and> 1000 < n \<and> n \<le> 1000 + DAY
    \<and> (n + 0) mod DAY = 9 * HOUR + 30 * MINUTE"
proof -
  have "cron_parts ''30 9 * * *'' = [''30'', ''9'', ''*'', ''*'', ''*'']" "parseInt10 ''9'' = Some 9"
    "parseInt10 ''30'' = Some 30"
    by code_simp+
  from daily_trigger_next_run [OF this, of 1000 0] show ?thesis by (auto simp: date_units)
qed

text \<open>A weekly trigger whose day lies earlier in the week than today, at an hour that is still to come
  today, gets a next run in the past.\<close>

lemma weekly_run_past:
  assumes "today_at z t minute hour = Some next" and "next > t" and "next < t + DAY"
    and "parseInt10 day = Some d"
    and "d < (if getDay z next = 0 then 7 else getDay z next)"
    and "weekly_run z t minute hour day = Some n"
  shows "n < t"
proof -
  let ?k = "d - (if getDay z next = 0 then 7 else getDay z next)"
  have "addDays next ?k = Some n"
    using assms by (auto simp: weekly_run_def Let_def split: if_splits)
  then have "n = next + ?k * DAY" by (simp add: addDays_def time_clip_def split: if_splits)
  moreover have "?k * DAY \<le> (-1) * DAY"
    using assms(5) by (intro mult_right_mono) (auto simp: date_units)
  ultimately show ?thesis using assms(3) by linarith
qed

theorem weekly_trigger_refires:
  assumes "cron_parts (tg_cronExpression x) = [minute, hour, mday, mon, day]" and "day \<noteq> ''*''"
    and "today_at z (int u) minute hour = Some next" and "next > int u" and "next < int u + DAY"
    and "parseInt10 day = Some d" and "d < (if getDay z next = 0 then 7 else getDay z next)"
    and "tg_nextRunAt (fired_trigger z t u x) = Some n"
  shows "n < int u"
proof -
  have "computeNextCronTime z (int u) (tg_cronExpression x) = weekly_run z (int u) minute hour day"
    using assms(1,2) by (simp add: computeNextCronTime_def is_daily_def eval_nat_numeral)
  then show ?thesis using weekly_run_past [OF assms(3-7)] assms(8) by (simp add: fired_trigger_def)
qed

text \<open>Monday, 1970-01-05 09:00, seen on the Wednesday after at 08:00.\<close>

theorem weekly_trigger_refires_witness:
  "computeNextCronTime 0 (6 * DAY + 8 * HOUR) ''0 9 * * 1'' = Some (4 * DAY + 9 * HOUR)"
  by code_simp

subsection \<open>The tick\<close>

lemma on_fs_now [simp]: "on_fs now s = (Inr (clock (ts_fs s)), s\<lparr>ts_fs := tick (ts_fs s)\<rparr>)"
  by (simp add: on_fs_def now_def)

text \<open>A trigger that a tick at time \<open>t\<close> has to fire.\<close>

definition due :: "timestamp \<Rightarrow> schedule_trigger \<Rightarrow> bool" where
  "due t x \<longleftrightarrow> (case tg_nextRunAt x of None \<Rightarrow> False | Some n \<Rightarrow> n \<le> int t)"

lemma tick_trigger_counts:
  assumes "tick_trigger z port reason t x c s = (Inr c', s')"
  shows "tk_fired c' + tk_errors c' = tk_fired c + tk_errors c + (if due t x then 1 else 0)"
    "tk_skipped c' = tk_skipped c + (if due t x then 0 else 1)"
  using assms
  by (auto simp: tick_trigger_def sbind_app sthen_app skipped_def due_def
      split: option.splits prod.splits sum.splits if_splits)

lemma tick_triggers_counts:
  assumes "tick_triggers z port reason t xs c s = (Inr c', s')"
  shows "tk_fired c' + tk_errors c' = tk_fired c + tk_errors c + count_where (due t) xs
    \<and> tk_skipped c' = tk_skipped c + count_where (\<lambda>x. \<not> due t x) xs"
  using assms
proof (induction xs arbitrary: c s)
  case (Cons x xs)
  from Cons.prems obtain d s1 where "tick_trigger z port reason t x c s = (Inr d, s1)"
    "tick_triggers z port reason t xs d s1 = (Inr c', s')"
    by (auto simp: sbind_Inr_iff)
  from tick_trigger_counts [OF this(1)] Cons.IH [OF this(2)] show ?case
    by (auto simp: count_where_def)
qed (simp add: count_where_def)


lemma tick_triggers_blocked:
  assumes "x \<in> set xs" and "tg_nextRunAt x = None"
    and "\<And>u. computeNextRun z u (tg_cronExpression x) = Some None"
  shows "\<exists>s'. tick_triggers z port reason t xs c s = (Inl (PlainError ''Invalid time value''), s')"
  using assms(1)
proof (induction xs arbitrary: c s)
  case (Cons y ys)
  show ?case
  proof (cases "y = x")
    case True
    then show ?thesis using assms(2,3) by (simp add: tick_trigger_def sbind_app on_fs_def now_def)
  next
    case False
    then have x: "x \<in> set ys" using Cons.prems by simp
    obtain r s1 where r: "tick_trigger z port reason t y c s = (r, s1)" by fastforce
    show ?thesis
    proof (cases r)
      case (Inl e)
      then have "e = PlainError ''Invalid time value''"
        using r by (auto simp: tick_trigger_def sbind_app sthen_app on_fs_def now_def
            split: option.splits prod.splits sum.splits if_splits)
      then show ?thesis using r Inl by (simp add: sbind_app)
    next
      case (Inr d)
      then show ?thesis using r Cons.IH [OF x, of d s1] by (simp add: sbind_app)
    qed
  qed
qed simp

text \<open>An hourly expression has no number in its hour field: its date is invalid at every time.\<close>

lemma hourly_invalid: "computeNextRun z u ''0 * * * *'' = Some None" "computeNextCronTime z u ''0 * * * *'' = None"
proof -
  have "cron_parts ''0 * * * *'' = [''0'', ''*'', ''*'', ''*'', ''*'']" "parseInt10 ''*'' = None" by code_simp+
  then show "computeNextRun z u ''0 * * * *'' = Some None" "computeNextCronTime z u ''0 * * * *'' = None"
    by (simp_all add: computeNextRun_def computeNextCronTime_def is_daily_def daily_run_def today_at_def
        eval_nat_numeral)
qed

text \<open>One trigger created with an hourly expression stops the scheduler: from then on every tick
  throws before it has worked through the active triggers, whatever the zone, the port and the other
  triggers are.\<close>

theorem hourly_trigger_stops_scheduler:
  assumes "ct_cronExpression input = ''0 * * * *''" and "createScheduleTrigger z input s = (Inr x, s')"
  shows "readScheduleTrigger (tg_id x) s' = Some x \<and> tg_status x = TRIGGER_ACTIVE
    \<and> (\<exists>s''. processTick z port s' = (Inl (PlainError ''Invalid time value''), s''))"
proof -
  have x: "tg_cronExpression x = ''0 * * * *''" "tg_nextRunAt x = None" "tg_status x = TRIGGER_ACTIVE"
    and read: "map_of (ts_schedules s') (tg_id x) = Some x"
    using assms hourly_invalid(2)
    by (auto simp: createScheduleTrigger_def sbind_app sthen_app on_fs_def now_def Let_def
        writeScheduleTrigger_def update_conv')
  have "x \<in> snd ` set (ts_schedules s')" using map_of_SomeD [OF read] by force
  then have "x \<in> set (active_triggers (s'\<lparr>ts_fs := tick (ts_fs s')\<rparr>))"
    using x(3) by (simp add: active_triggers_def listScheduleTriggers_def)
  from tick_triggers_blocked [OF this x(2)] x(1) hourly_invalid(1)
  have "\<exists>s''. processTick z port s' = (Inl (PlainError ''Invalid time value''), s'')"
    by (simp add: processTick_def sbind_app on_fs_def now_def)
  with x read show ?thesis by (simp add: readScheduleTrigger_def)
qed

subsection \<open>Firing\<close>

lemma fire_run:
  assumes "readScheduleTrigger i s = Some x" and "tg_status x \<noteq> TRIGGER_PAUSED"
    and "on_fs (port (trigger_request x)) (s\<lparr>ts_fs := tick (ts_fs s)\<rparr>) = (q, s1)"
  shows "\<exists>a. (case q of
      Inl e \<Rightarrow> \<not> tx_created a \<and> fireScheduleTrigger z port i reason s
        = (Inr a, writeScheduleTrigger (failed_trigger (clock (ts_fs s)) x) s1)
    | Inr k \<Rightarrow> tx_created a \<and> tx_issueId a = k \<and> (let s3 = writeScheduleTrigger
          (fired_trigger z (clock (ts_fs s)) (clock (ts_fs s1)) x) (s1\<lparr>ts_fs := tick (ts_fs s1)\<rparr>) in
        fireScheduleTrigger z port i reason s = (Inr a, writeTriggerExecution
          (fired_execution x reason k (clock (ts_fs s)) (nextTriggerExecutionSeq s3)) s3)))"
  using assms
  by (cases q) (simp_all add: fireScheduleTrigger_def getScheduleTrigger_def sbind_app Let_def)

lemma executions_in_write: "te_triggerId e = d \<Longrightarrow> e \<in> set (executions_in d (writeTriggerExecution e s))"
  using map_of_SomeD [of "AList.update (d, te_id e) e (ts_executions s)" "(d, te_id e)" e]
  by (force simp: executions_in_def writeTriggerExecution_def update_conv')

lemma read_written [simp]:
  "readScheduleTrigger (tg_id x) (writeScheduleTrigger x s) = Some x"
  "readScheduleTrigger i (writeTriggerExecution e s) = readScheduleTrigger i s"
  by (simp_all add: readScheduleTrigger_def writeScheduleTrigger_def writeTriggerExecution_def update_conv')

lemma fired_parts [simp]:
  "tg_id (fired_trigger z t u x) = tg_id x" "tg_failureCount (fired_trigger z t u x) = 0"
  "tg_status (fired_trigger z t u x) = tg_status x" "tg_id (failed_trigger t x) = tg_id x"
  "tg_failureCount (failed_trigger t x) = tg_failureCount x + 1"
  by (simp_all add: fired_trigger_def failed_trigger_def)

text \<open>C22. Firing a trigger that is stored under its own id and not paused never throws: on success its failure counter is back at
  0 and an execution is recorded; on failure the counter grows by one and the trigger is in error
  exactly when the counter has reached its maximum or it was in error before.\<close>

theorem fire_lifecycle:
  assumes "readScheduleTrigger i s = Some x" and "tg_id x = i" and "tg_status x \<noteq> TRIGGER_PAUSED"
    and "fireScheduleTrigger z port i reason s = (r, s')"
  shows "\<exists>a x'. r = Inr a \<and> readScheduleTrigger i s' = Some x'
    \<and> (if tx_created a
       then tg_failureCount x' = 0 \<and> tg_status x' = tg_status x
         \<and> (\<exists>e\<in>set (executions_in i s'). te_status e = EXEC_COMPLETED \<and> te_outputIssueId e = Some (tx_issueId a))
       else tg_failureCount x' = tg_failureCount x + 1
         \<and> (tg_status x' = TRIGGER_ERROR
             \<longleftrightarrow> tg_failureCount x' \<ge> tg_maxFailures x \<or> tg_status x = TRIGGER_ERROR))"
proof -
  obtain q s1 where q: "on_fs (port (trigger_request x)) (s\<lparr>ts_fs := tick (ts_fs s)\<rparr>) = (q, s1)" by fastforce
  show ?thesis
  proof (cases q)
    case (Inl e)
    then obtain a where "\<not> tx_created a" "r = Inr a"
      "s' = writeScheduleTrigger (failed_trigger (clock (ts_fs s)) x) s1"
      using fire_run [where port = port and z = z and reason = reason, OF assms(1,3) q] assms(4) by auto
    then show ?thesis
      using read_written(1) [of "failed_trigger (clock (ts_fs s)) x" s1] assms(2)
      by (auto simp: failed_trigger_def)
  next
    case (Inr k)
    let ?x = "fired_trigger z (clock (ts_fs s)) (clock (ts_fs s1)) x"
    let ?s = "writeScheduleTrigger ?x (s1\<lparr>ts_fs := tick (ts_fs s1)\<rparr>)"
    let ?e = "fired_execution x reason k (clock (ts_fs s)) (nextTriggerExecutionSeq ?s)"
    from Inr obtain a where a: "tx_created a" "tx_issueId a = k" "r = Inr a" "s' = writeTriggerExecution ?e ?s"
      using fire_run [where port = port and z = z and reason = reason, OF assms(1,3) q] assms(4) by (auto simp: Let_def)
    have "readScheduleTrigger i s' = Some ?x"
      using read_written(1) [of ?x] assms(2) by (simp add: a(4))
    moreover have "?e \<in> set (executions_in i s')"
      unfolding a(4) using assms(2) by (intro executions_in_write) (simp add: fired_execution_def)
    moreover have "te_status ?e = EXEC_COMPLETED" "te_outputIssueId ?e = Some k"
      by (simp_all add: fired_execution_def)
    ultimately show ?thesis using a(1-3) by auto
  qed
qed

definition sample_trigger_request :: create_trigger_request where
  "sample_trigger_request = \<lparr>ct_name = ''nightly'', ct_cronExpression = ''0 * * * *'', ct_blueprintId = None,
     ct_targetRepo = ''/repo'', ct_templateTitle = ''t'', ct_templateBody = ''body of it'',
     ct_templatePriority = None, ct_templateAcceptanceCriteria = [''works''], ct_owner = None\<rparr>"

definition empty_triggers :: trigger_store where
  "empty_triggers = \<lparr>ts_fs = empty_fs sample_env, ts_schedules = [], ts_executions = [], ts_deadLetters = []\<rparr>"

definition hourly_store :: trigger_store where
  "hourly_store = snd (createScheduleTrigger 0 sample_trigger_request empty_triggers)"

lemma hourly_store_run:
  "\<exists>x. createScheduleTrigger 0 sample_trigger_request empty_triggers = (Inr x, hourly_store)
     \<and> tg_id x = ''sched-1''"
proof -
  have "nat_str (nextScheduleTriggerSeq empty_triggers) = ''1''" by code_simp
  then show ?thesis
    by (simp add: hourly_store_def createScheduleTrigger_def sbind_app sthen_app Let_def)
      (simp add: nextScheduleTriggerSeq_def listScheduleTriggers_def)
qed

theorem hourly_trigger_stops_scheduler_witness:
  "\<forall>port. \<exists>s''. processTick 0 port hourly_store = (Inl (PlainError ''Invalid time value''), s'')"
  using hourly_store_run hourly_trigger_stops_scheduler [of sample_trigger_request 0 empty_triggers _ hourly_store]
  by (fastforce simp: sample_trigger_request_def)

text \<open>The hourly trigger of the sample, fired by hand while no issue can be created.\<close>

theorem fire_lifecycle_witness:
  "\<exists>a s' x'. fireScheduleTrigger 0 (\<lambda>_. sthrow (BadRequest ''no'')) ''sched-1'' None hourly_store = (Inr a, s')
     \<and> readScheduleTrigger ''sched-1'' s' = Some x' \<and> tg_failureCount x' = 1"
proof -
  obtain x where run: "createScheduleTrigger 0 sample_trigger_request empty_triggers = (Inr x, hourly_store)"
    "tg_id x = ''sched-1''" using hourly_store_run by blast
  then have x: "readScheduleTrigger ''sched-1'' hourly_store = Some x" "tg_status x \<noteq> TRIGGER_PAUSED"
    using hourly_trigger_stops_scheduler [OF _ run(1)] by (simp_all add: sample_trigger_request_def)
  have z: "tg_failureCount x = 0"
    using run(1) by (auto simp: createScheduleTrigger_def sbind_app sthen_app Let_def)
  let ?port = "\<lambda>_. sthrow (BadRequest ''no'') :: (fs, string) sm"
  obtain a where a: "\<not> tx_created a" "fireScheduleTrigger 0 ?port ''sched-1'' None hourly_store = (Inr a,
      writeScheduleTrigger (failed_trigger (clock (ts_fs hourly_store)) x)
        (hourly_store\<lparr>ts_fs := tick (ts_fs hourly_store)\<rparr>))"
    using fire_run [where port = ?port and z = 0 and reason = None, OF x] by (fastforce simp: on_fs_def)
  from fire_lifecycle [OF x(1) run(2) x(2) a(2)] a z show ?thesis by auto
qed

text \<open>Two active triggers, one due at 500 and one at 5000, at the sample clock's time 1000.\<close>

definition sample_trigger :: "string \<Rightarrow> int \<Rightarrow> schedule_trigger" where
  "sample_trigger k n = \<lparr>tg_id = k, tg_workspaceId = ''default'', tg_blueprintId = None, tg_name = k,
     tg_cronExpression = ''30 9 * * *'', tg_status = TRIGGER_ACTIVE, tg_targetRepo = ''/repo'',
     tg_templateTitle = ''t'', tg_templateBody = ''b'', tg_templatePriority = P2,
     tg_templateAcceptanceCriteria = [''works''], tg_lastRunAt = None, tg_nextRunAt = Some n,
     tg_failureCount = 0, tg_maxFailures = 3, tg_createdAt = 0, tg_updatedAt = 0, tg_owner = None\<rparr>"

definition two_triggers :: trigger_store where
  "two_triggers = empty_triggers\<lparr>ts_schedules := [(''sched-1'', sample_trigger ''sched-1'' 500),
     (''sched-2'', sample_trigger ''sched-2'' 5000)]\<rparr>"


subsection \<open>Retries\<close>

text \<open>The execution files: each is named after its execution, and no two executions share an id.\<close>

definition executions_wf :: "trigger_store \<Rightarrow> bool" where
  "executions_wf s \<longleftrightarrow> distinct (map fst (ts_executions s))
     \<and> (\<forall>x\<in>set (ts_executions s). fst x = (te_triggerId (snd x), te_id (snd x)))
     \<and> inj_on snd (set (map fst (ts_executions s)))"

lemma stored_execution:
  assumes "executions_wf s"
  shows "map_of (ts_executions s) k = Some e \<longleftrightarrow> (k, e) \<in> set (ts_executions s)"
    and "(k, e) \<in> set (ts_executions s) \<Longrightarrow> k = (te_triggerId e, te_id e)"
    and "(k, e) \<in> set (ts_executions s) \<Longrightarrow> (l, x) \<in> set (ts_executions s) \<Longrightarrow> te_id e = te_id x
      \<Longrightarrow> e = x"
proof -
  note wf = assms [unfolded executions_wf_def]
  show key: "map_of (ts_executions s) k = Some e \<longleftrightarrow> (k, e) \<in> set (ts_executions s)" for k e
    using wf by simp
  show own: "(k, e) \<in> set (ts_executions s) \<Longrightarrow> k = (te_triggerId e, te_id e)" for k e
    using wf by fastforce
  assume e: "(k, e) \<in> set (ts_executions s)" and x: "(l, x) \<in> set (ts_executions s)" and id: "te_id e = te_id x"
  have "k \<in> set (map fst (ts_executions s))" "l \<in> set (map fst (ts_executions s))" using e x by force+
  moreover have "snd k = snd l" using own [OF e] own [OF x] id by simp
  ultimately have "k = l" using wf by (meson inj_onD)
  then show "e = x" using key [of k e] key [of l x] e x by simp
qed

lemma readTriggerExecution_iff:
  assumes "executions_wf s"
  shows "readTriggerExecution i s = Some e \<longleftrightarrow> map_of (ts_executions s) (te_triggerId e, i) = Some e \<and> te_id e = i"
proof -
  note stored = stored_execution [OF assms]
  let ?found = "List.map_filter (\<lambda>d. map_of (ts_executions s) (d, i)) (executionDirs s)"
  have found: "x \<in> set ?found \<longleftrightarrow> (\<exists>d. ((d, i), x) \<in> set (ts_executions s))" for x
  proof -
    have "x \<in> set ?found \<longleftrightarrow> (\<exists>d\<in>set (executionDirs s). map_of (ts_executions s) (d, i) = Some x)"
      unfolding List.map_filter_def by force
    moreover have "d \<in> set (executionDirs s)" if "((d, i), x) \<in> set (ts_executions s)" for d
      using that by (force simp: executionDirs_def)
    ultimately show ?thesis unfolding stored(1) by blast
  qed
  have same: "x = y" if "x \<in> set ?found" "y \<in> set ?found" for x y
  proof -
    note found_both = that
    obtain d d' where "((d, i), x) \<in> set (ts_executions s)" "((d', i), y) \<in> set (ts_executions s)"
      using found_both unfolding found by blast
    then show ?thesis using stored(2) [of _ x] stored(2) [of _ y] stored(3) [of _ x _ y] by fastforce
  qed
  have "readTriggerExecution i s = Some e \<longleftrightarrow> e \<in> set ?found"
    using same by (cases ?found) (auto simp: readTriggerExecution_def)
  also have "\<dots> \<longleftrightarrow> ((te_triggerId e, i), e) \<in> set (ts_executions s) \<and> te_id e = i"
    unfolding found using stored(2) by blast
  finally show ?thesis using stored(1) by blast
qed

lemma execution_rewritten:
  assumes "executions_wf s" and "readTriggerExecution i s = Some e" and "te_id e' = i"
    and "te_triggerId e' = te_triggerId e"
  shows "executions_wf (writeTriggerExecution e' s)
    \<and> readTriggerExecution i (writeTriggerExecution e' s) = Some e'"
proof -
  let ?k = "(te_triggerId e, i)"
  let ?xs = "AList.update ?k e' (ts_executions s)"
  have k: "map_of (ts_executions s) ?k = Some e" using assms readTriggerExecution_iff by blast
  then have "?k \<in> set (map fst (ts_executions s))" using map_of_SomeD by force
  then have keys: "map fst ?xs = map fst (ts_executions s)" by (simp add: update_keys)
  have ts: "ts_executions (writeTriggerExecution e' s) = ?xs"
    using assms by (simp add: writeTriggerExecution_def)
  have d: "distinct (map fst ?xs)" using assms(1) unfolding keys by (simp add: executions_wf_def)
  have "fst x = (te_triggerId (snd x), te_id (snd x))" if "x \<in> set ?xs" for x
  proof -
    have "map_of ?xs (fst x) = Some (snd x)" using that by (intro map_of_is_SomeI [OF d]) simp
    then show ?thesis
      using stored_execution(1,2) [OF assms(1)] assms(3,4) by (auto simp: update_conv' split: if_splits)
  qed
  then have wf: "executions_wf (writeTriggerExecution e' s)"
    using assms(1) d unfolding executions_wf_def ts keys by blast
  then show ?thesis
    using readTriggerExecution_iff [OF wf, of i e'] assms(3,4) ts by (simp add: update_conv')
qed

text \<open>C24. Retrying a stored execution, when every execution file is named after its execution and no two
  share an id: with attempts left, it counts one attempt more, plans it within the next hour and is read
  back as pending, nearer to its maximum; with the attempts used up it is refused, leaves the
  executions alone and records the execution as a dead letter.\<close>

theorem retry_accounting:
  assumes "executions_wf s" and "readTriggerExecution i s = Some e"
    and "retryTriggerExecution i s = (r, s')"
  shows "if te_attempt e < te_maxRetries e
    then (\<exists>e'. r = Inr e' \<and> executions_wf s' \<and> readTriggerExecution i s' = Some e'
        \<and> te_attempt e' = te_attempt e + 1 \<and> te_attempt e' \<le> te_maxRetries e'
        \<and> te_maxRetries e' - te_attempt e' < te_maxRetries e - te_attempt e \<and> te_status e' = EXEC_PENDING
        \<and> (\<exists>t. te_nextRetryAt e' = Some t \<and> clock (ts_fs s) < t \<and> t \<le> clock (ts_fs s) + 3600000))
    else (\<exists>msg. r = Inl (BadRequest msg)) \<and> ts_executions s' = ts_executions s
      \<and> (\<exists>l\<in>set (listDeadLetters s'). dl_executionId l = i \<and> dl_attempt l = te_attempt e)"
proof (cases "te_attempt e < te_maxRetries e")
  case True
  let ?s = "s\<lparr>ts_fs := tick (ts_fs s)\<rparr>"
  let ?t = "computeRetryBackoff (te_attempt e + 1) (clock (ts_fs s))"
  let ?e = "e\<lparr>te_status := EXEC_PENDING, te_attempt := te_attempt e + 1, te_nextRetryAt := Some ?t,
    te_error := None, te_completedAt := None\<rparr>"
  have "readTriggerExecution i ?s = readTriggerExecution i s" "executions_wf ?s = executions_wf s"
    by (simp_all add: readTriggerExecution_def executionDirs_def executions_wf_def)
  then have "executions_wf (writeTriggerExecution ?e ?s) \<and> readTriggerExecution i (writeTriggerExecution ?e ?s) = Some ?e"
    using assms(1,2) readTriggerExecution_iff [OF assms(1), of i e]
    by (intro execution_rewritten [of ?s i e ?e]) auto
  moreover have "r = Inr ?e" "s' = writeTriggerExecution ?e ?s"
    using True assms(2,3) by (auto simp: retryTriggerExecution_def sbind_app sthen_app Let_def)
  moreover have "clock (ts_fs s) < ?t" "?t \<le> clock (ts_fs s) + 3600000"
    by (simp_all add: computeRetryBackoff_def)
  ultimately show ?thesis using True by auto
next
  case False
  let ?l = "\<lambda>l. dl_executionId l = i \<and> dl_attempt l = te_attempt e"
  have id: "te_id e = i" using assms(2) readTriggerExecution_iff [OF assms(1)] by blast
  let ?s = "moveToDeadLetter e (clock (ts_fs s)) (s\<lparr>ts_fs := tick (ts_fs s)\<rparr>)"
  have s': "\<exists>msg. r = Inl (BadRequest msg)" "s' = ?s"
    using False assms(2,3) by (auto simp: retryTriggerExecution_def sbind_app sthen_app)
  obtain l where "map_of (ts_deadLetters ?s) i = Some l" "?l l"
    using id by (simp add: moveToDeadLetter_def update_conv')
  then have "l \<in> set (listDeadLetters ?s)" "?l l"
    using map_of_SomeD [of "ts_deadLetters ?s" i l] by (force simp: listDeadLetters_def)+
  then have "\<exists>l\<in>set (listDeadLetters ?s). ?l l" by blast
  moreover have "ts_executions ?s = ts_executions s" by (simp add: moveToDeadLetter_def)
  ultimately show ?thesis using False s' by simp
qed

definition sample_execution :: trigger_execution where
  "sample_execution = \<lparr>te_id = ''exec-1'', te_triggerId = ''sched-1'', te_triggerType = BY_SCHEDULE,
     te_status = EXEC_FAILED, te_inputPayload = None, te_outputLoopId = None, te_outputIssueId = None,
     te_error = Some ''no'', te_attempt = 3, te_maxRetries = 3, te_nextRetryAt = None, te_createdAt = 1,
     te_completedAt = None\<rparr>"

text \<open>The sample execution has used up its attempts; after its first attempt it could be retried.\<close>

theorem retry_accounting_witness:
  "\<exists>msg s' e s''. retryTriggerExecution ''exec-1'' (writeTriggerExecution sample_execution empty_triggers)
     = (Inl (BadRequest msg), s') \<and> (\<exists>l \<in> set (listDeadLetters s'). dl_executionId l = ''exec-1'')
   \<and> retryTriggerExecution ''exec-1'' (writeTriggerExecution (sample_execution\<lparr>te_attempt := 1\<rparr>) empty_triggers)
     = (Inr e, s'') \<and> te_attempt e = 2"
proof -
  let ?e = "\<lambda>n. sample_execution\<lparr>te_attempt := n\<rparr>"
  let ?s = "\<lambda>n. writeTriggerExecution (?e n) empty_triggers"
  have wf: "executions_wf (?s n)" for n
    by (simp add: executions_wf_def writeTriggerExecution_def empty_triggers_def sample_execution_def)
  have read: "readTriggerExecution ''exec-1'' (?s n) = Some (?e n)" for n
    using readTriggerExecution_iff [OF wf [of n], of "''exec-1''" "?e n"]
    by (simp add: writeTriggerExecution_def empty_triggers_def sample_execution_def)
  have eq: "sample_execution = ?e 3" by (simp add: sample_execution_def)
  obtain r s' where run: "retryTriggerExecution ''exec-1'' (?s 3) = (r, s')" by fastforce
  obtain q s'' where run1: "retryTriggerExecution ''exec-1'' (?s 1) = (q, s'')" by fastforce
  have "\<exists>msg. r = Inl (BadRequest msg)" "\<exists>l \<in> set (listDeadLetters s'). dl_executionId l = ''exec-1''"
    using retry_accounting [OF wf read run] by (auto simp: sample_execution_def)
  moreover have "\<exists>e. q = Inr e \<and> te_attempt e = 2"
    using retry_accounting [OF wf read run1] by (auto simp: sample_execution_def)
  ultimately show ?thesis using run run1 unfolding eq [symmetric] by blast
qed

subsection \<open>Names of triggers\<close>

text \<open>New triggers are numbered by how many there are: after a deletion the number of a living trigger
  comes back, and the new trigger overwrites it.\<close>

theorem trigger_id_reused:
  assumes "readScheduleTrigger (''sched-'' @ nat_str (nextScheduleTriggerSeq s)) s = Some old"
    and "createScheduleTrigger z input s = (Inr x, s')"
  shows "readScheduleTrigger (tg_id x) s = Some old \<and> readScheduleTrigger (tg_id x) s' = Some x
    \<and> length (listScheduleTriggers s') = length (listScheduleTriggers s)"
proof -
  let ?i = "''sched-'' @ nat_str (nextScheduleTriggerSeq s)"
  have id: "tg_id x = ?i"
    and s': "ts_schedules s' = AList.update ?i x (ts_schedules s)"
    using assms(2) by (auto simp: createScheduleTrigger_def sbind_app sthen_app Let_def writeScheduleTrigger_def
        nextScheduleTriggerSeq_def listScheduleTriggers_def)
  have "?i \<in> set (map fst (ts_schedules s))"
    using assms(1) map_of_SomeD by (force simp: readScheduleTrigger_def)
  then have "map fst (ts_schedules s') = map fst (ts_schedules s)" by (simp add: s' update_keys)
  then have "length (ts_schedules s') = length (ts_schedules s)" by (metis length_map)
  then show ?thesis using assms(1) id s' by (simp add: readScheduleTrigger_def listScheduleTriggers_def update_conv')
qed

end
