(* ===== verification/Remote_Runner.thy ===== *)
theory Remote_Runner
  imports Facade Store_Governance
begin

text \<open>
  Remote runners: \<open>loops-remote-runners.service.ts\<close> (leases, job records, the execution of a shard
  job and the upload of its artifacts), the store functions it calls, the runtime port of
  \<open>loops-remote-shard-runtime.adapter.ts\<close>, and the queue worker of
  \<open>loops-remote-runner.processor.ts\<close>.

  The store is \<open>.loops\<close> with the files below it that only remote runners write, by their path, and
  the lease status that the worker keeps in Redis. Parameters are the docker sandbox, the object
  storage, and the digest of a file (sha256 and byte length of what is written). A promise that is
  returned without \<open>await\<close> leaves the \<open>try\<close> block: its error is not caught.
\<close>

subsection \<open>Data\<close>

datatype runtime_backend = CODEX_CLI | CLAUDE_CODE_CLI | DOCKER_RUNTIME | REMOTE_RUNNER

fun backend_str :: "runtime_backend \<Rightarrow> string" where
  "backend_str CODEX_CLI = ''codex-cli''"
| "backend_str CLAUDE_CODE_CLI = ''claude-code-cli''"
| "backend_str DOCKER_RUNTIME = ''docker''"
| "backend_str REMOTE_RUNNER = ''remote-runner''"

record remote_runner_item =
  rn_id :: string
  rn_name :: string
  rn_status :: string
  rn_runtimeBackends :: "runtime_backend list"
  rn_maxConcurrent :: nat
  rn_leased :: nat
  rn_available :: nat
  rn_pending :: nat
  rn_running :: nat
  rn_sandboxProfile :: string
  rn_artifactRoot :: string
  rn_leaseTtlSec :: nat
  rn_healthOk :: bool
  rn_healthMessage :: string
  rn_risks :: "string list"

datatype lease_state = LEASED | RELEASED

record runner_lease =
  ls_id :: string
  ls_runnerId :: string
  ls_issueId :: "string option"
  ls_shardId :: "string option"
  ls_runtimeBackend :: runtime_backend
  ls_status :: lease_state
  ls_leasedAt :: timestamp
  ls_expiresAt :: timestamp
  ls_artifactRoot :: string
  ls_message :: string

record lease_request =
  lq_issueId :: "string option"
  lq_shardId :: "string option"
  lq_runtimeBackend :: runtime_backend

datatype handoff_kind = HANDOFF_CODEX | HANDOFF_CLAUDE | HANDOFF_ARTIFACT_ONLY

fun handoff_str :: "handoff_kind \<Rightarrow> string" where
  "handoff_str HANDOFF_CODEX = ''codex-cli''"
| "handoff_str HANDOFF_CLAUDE = ''claude-code-cli''"
| "handoff_str HANDOFF_ARTIFACT_ONLY = ''artifact-only''"

datatype job_artifact_kind = ART_MANIFEST | ART_LOG | ART_EVIDENCE | ART_TRACE

record job_artifact =
  ja_path :: string
  ja_kind :: job_artifact_kind
  ja_sizeBytes :: nat
  ja_sha256 :: string

datatype job_state = JOB_QUEUED | JOB_RUNNING | JOB_SUCCEEDED | JOB_FAILED

fun job_state_str :: "job_state \<Rightarrow> string" where
  "job_state_str JOB_QUEUED = ''queued''"
| "job_state_str JOB_RUNNING = ''running''"
| "job_state_str JOB_SUCCEEDED = ''succeeded''"
| "job_state_str JOB_FAILED = ''failed''"

record runner_job =
  jb_id :: string
  jb_runnerId :: string
  jb_leaseId :: "string option"
  jb_issueId :: "string option"
  jb_shardId :: "string option"
  jb_runtimeBackend :: runtime_backend
  jb_workerKind :: handoff_kind
  jb_status :: job_state
  jb_queuedAt :: timestamp
  jb_startedAt :: "timestamp option"
  jb_finishedAt :: "timestamp option"
  jb_artifactRoot :: string
  jb_artifacts :: "job_artifact list"
  jb_message :: string

record job_request =
  jq_leaseId :: "string option"
  jq_issueId :: "string option"
  jq_shardId :: "string option"
  jq_runtimeBackend :: runtime_backend
  jq_workerKind :: handoff_kind
  jq_reason :: "string option"

datatype remote_file = FJson json | FText string | FJob runner_job

record remote_store =
  rs_fs :: fs
  rs_files :: "(string \<times> remote_file) list"
  rs_leases :: "(string \<times> (string \<times> json) list) list"

record remote_host =
  mh_docker :: "(string \<Rightarrow> string \<Rightarrow> string \<Rightarrow> (int \<times> string \<times> string) call) option"
  mh_digest :: "remote_file \<Rightarrow> string \<times> nat"
  mh_redis :: bool

definition on_loops :: "(fs, 'a) sm \<Rightarrow> (remote_store, 'a) sm" where
  "on_loops m = (\<lambda>s. case m (rs_fs s) of (r, f) \<Rightarrow> (r, s\<lparr>rs_fs := f\<rparr>))"

definition iso_now :: "(remote_store, string) sm" where
  "iso_now = sbind (on_loops now) (\<lambda>t. sbind sget (\<lambda>s. sret (env_iso (fs_env (rs_fs s)) t)))"

subsection \<open>Runners and leases\<close>

definition buildRemoteRunnerItems :: "remote_runner_item list" where
  "buildRemoteRunnerItems = [\<lparr>rn_id = ''remote-runner-primary'', rn_name = ''Primary Remote Runner Pool'',
     rn_status = ''ready'', rn_runtimeBackends = [CODEX_CLI, CLAUDE_CODE_CLI, DOCKER_RUNTIME], rn_maxConcurrent = 4,
     rn_leased = 0, rn_available = 4, rn_pending = 0, rn_running = 0, rn_sandboxProfile = ''remote-sandbox'',
     rn_artifactRoot = ''.loops/runs/remote-runner-primary'', rn_leaseTtlSec = 1800, rn_healthOk = True,
     rn_healthMessage = ''Worker artifact provider is connected; execution handoff remains governed by Codex/Claude CLI adapters.'',
     rn_risks = [''Distributed queue scheduling and resumable sandbox execution remain future work.'']\<rparr>]"

definition getRemoteRunnerItem :: "string \<Rightarrow> (remote_store, remote_runner_item) sm" where
  "getRemoteRunnerItem i = (case List.find (\<lambda>x. rn_id x = i) buildRemoteRunnerItems of
     None \<Rightarrow> sthrow (NotFound (''Remote runner '' @ i @ '' not found'')) | Some x \<Rightarrow> sret x)"

definition acquireRemoteRunnerLease :: "string \<Rightarrow> lease_request \<Rightarrow> (remote_store, runner_lease) sm" where
  "acquireRemoteRunnerLease i req = sbind (getRemoteRunnerItem i) (\<lambda>runner. sbind (on_loops now) (\<lambda>t.
     sbind (on_loops (\<lambda>f. (Inr (fst (draw f)), snd (draw f)))) (\<lambda>uuid.
     sret \<lparr>ls_id = ''lease-'' @ i @ ''-'' @ uuid, ls_runnerId = i, ls_issueId = lq_issueId req,
       ls_shardId = lq_shardId req, ls_runtimeBackend = lq_runtimeBackend req, ls_status = LEASED,
       ls_leasedAt = t, ls_expiresAt = t + rn_leaseTtlSec runner * 1000,
       ls_artifactRoot = rn_artifactRoot runner @ ''/leases'',
       ls_message = ''Control-plane lease acquired; execution still runs through Codex CLI / Claude Code CLI adapters.''\<rparr>)))"

definition releaseRemoteRunnerLease ::
    "string \<Rightarrow> string \<Rightarrow> string option \<Rightarrow> (remote_store, runner_lease) sm" where
  "releaseRemoteRunnerLease i leaseId reason = sbind (getRemoteRunnerItem i) (\<lambda>runner.
     sbind (on_loops now) (\<lambda>t.
     sret \<lparr>ls_id = leaseId, ls_runnerId = i, ls_issueId = None, ls_shardId = None,
       ls_runtimeBackend = CODEX_CLI, ls_status = RELEASED, ls_leasedAt = t, ls_expiresAt = t,
       ls_artifactRoot = rn_artifactRoot runner @ ''/leases'',
       ls_message = case_option ''Control-plane lease released.'' id reason\<rparr>))"

subsection \<open>Job records\<close>

text \<open>\<open>displayPath.replace(/^\.loops\//, '')\<close>\<close>

definition toLoopsStorePath :: "string \<Rightarrow> string" where
  "toLoopsStorePath p = (if starts_with ''.loops/'' p then drop 7 p else p)"

definition write_file :: "string \<Rightarrow> remote_file \<Rightarrow> remote_store \<Rightarrow> remote_store" where
  "write_file p c s = s\<lparr>rs_files := AList.update p c (rs_files s)\<rparr>"

definition remoteRunnerArtifact ::
    "remote_host \<Rightarrow> string \<Rightarrow> job_artifact_kind \<Rightarrow> remote_file \<Rightarrow> job_artifact" where
  "remoteRunnerArtifact h p kind payload = \<lparr>ja_path = p, ja_kind = kind,
     ja_sizeBytes = snd (mh_digest h payload), ja_sha256 = fst (mh_digest h payload)\<rparr>"

definition manifest_payload :: "(timestamp \<Rightarrow> string) \<Rightarrow> runner_job \<Rightarrow> json" where
  "manifest_payload fmt j = JObj ([(''jobId'', JStr (jb_id j)), (''runnerId'', JStr (jb_runnerId j))]
     @ opt_str ''leaseId'' (jb_leaseId j) @ opt_str ''issueId'' (jb_issueId j)
     @ opt_str ''shardId'' (jb_shardId j)
     @ [(''runtimeBackend'', JStr (backend_str (jb_runtimeBackend j))),
        (''workerKind'', JStr (handoff_str (jb_workerKind j))),
        (''status'', JStr (job_state_str (jb_status j))), (''queuedAt'', JStr (fmt (jb_queuedAt j)))]
     @ opt_str ''startedAt'' (map_option fmt (jb_startedAt j))
     @ opt_str ''finishedAt'' (map_option fmt (jb_finishedAt j))
     @ [(''message'', JStr (jb_message j))])"

definition receipt_payload :: "(timestamp \<Rightarrow> string) \<Rightarrow> runner_job \<Rightarrow> json" where
  "receipt_payload fmt j = JObj [(''jobId'', JStr (jb_id j)), (''runnerId'', JStr (jb_runnerId j)),
     (''workerKind'', JStr (handoff_str (jb_workerKind j))),
     (''runtimeBackend'', JStr (backend_str (jb_runtimeBackend j))),
     (''sandboxProfile'', JStr ''remote-sandbox''),
     (''handoff'', JObj [(''runtime'', JStr (case jb_workerKind j of HANDOFF_CLAUDE \<Rightarrow> ''claude-code''
         | HANDOFF_CODEX \<Rightarrow> ''codex'' | HANDOFF_ARTIFACT_ONLY \<Rightarrow> ''artifact-only'')),
       (''mode'', JStr (if jb_workerKind j = HANDOFF_ARTIFACT_ONLY then ''materialize-artifacts'' else ''cli-handoff''))]),
     (''status'', JStr (job_state_str (jb_status j))),
     (''observedAt'', JStr (fmt (case_option (jb_queuedAt j) id (or_else (jb_finishedAt j) (jb_startedAt j))))),
     (''message'', JStr (jb_message j))]"

definition log_payload :: "(timestamp \<Rightarrow> string) \<Rightarrow> runner_job \<Rightarrow> string" where
  "log_payload fmt j = js_join [CHR 0x0A]
     [fmt (jb_queuedAt j) @ '' queued remote runner job '' @ jb_id j,
      fmt (case_option (jb_queuedAt j) id (jb_startedAt j)) @ '' started '' @ handoff_str (jb_workerKind j)
        @ '' handoff on '' @ backend_str (jb_runtimeBackend j),
      fmt (case_option (jb_queuedAt j) id (jb_finishedAt j)) @ '' finished with status ''
        @ job_state_str (jb_status j), []]"

definition trace_payload :: "(timestamp \<Rightarrow> string) \<Rightarrow> runner_job \<Rightarrow> json" where
  "trace_payload fmt j = JObj [(''jobId'', JStr (jb_id j)), (''spans'', JArr
     [JObj [(''name'', JStr ''remote-runner.queue''), (''at'', JStr (fmt (jb_queuedAt j)))],
      JObj [(''name'', JStr ''remote-runner.start''),
        (''at'', JStr (fmt (case_option (jb_queuedAt j) id (jb_startedAt j))))],
      JObj [(''name'', JStr ''remote-runner.finish''),
        (''at'', JStr (fmt (case_option (jb_queuedAt j) id (jb_finishedAt j)))),
        (''status'', JStr (job_state_str (jb_status j)))]])]"

definition writeRemoteRunnerJob :: "remote_host \<Rightarrow> runner_job \<Rightarrow> (remote_store, runner_job) sm" where
  "writeRemoteRunnerJob h j = sbind sget (\<lambda>s.
     let fmt = env_iso (fs_env (rs_fs s)); root = jb_artifactRoot j;
         manifestPath = root @ ''/manifest.json''; receiptPath = root @ ''/worker-receipt.json'';
         logPath = root @ ''/worker.log''; tracePath = root @ ''/trace.json'';
         manifest = FJson (manifest_payload fmt j); receipt = FJson (receipt_payload fmt j);
         logText = FText (log_payload fmt j); trace = FJson (trace_payload fmt j);
         j' = j\<lparr>jb_artifacts := [remoteRunnerArtifact h manifestPath ART_MANIFEST manifest,
             remoteRunnerArtifact h receiptPath ART_EVIDENCE receipt,
             remoteRunnerArtifact h logPath ART_LOG logText,
             remoteRunnerArtifact h tracePath ART_TRACE trace]
           @ filter (\<lambda>a. ja_path a \<notin> {manifestPath, receiptPath, logPath, tracePath}) (jb_artifacts j)\<rparr> in
     sthen (on_loops (smod ensureInitialized))
     (sthen (smod (in_order [write_file (toLoopsStorePath manifestPath) manifest,
        write_file (toLoopsStorePath receiptPath) receipt,
        write_file (toLoopsStorePath logPath) logText,
        write_file (toLoopsStorePath tracePath) trace,
        write_file (toLoopsStorePath root @ ''/job.json'') (FJob j'),
        write_file (''runs/'' @ jb_runnerId j @ ''/jobs/'' @ jb_id j @ ''.json'') (FJob j')]))
     (sthen (on_loops (smod (appendLog ([(''type'', JStr ''REMOTE_RUNNER_JOB_RECORDED''),
          (''runner'', JStr (jb_runnerId j)), (''job'', JStr (jb_id j))]
          @ opt_str ''issue'' (jb_issueId j) @ opt_str ''shard'' (jb_shardId j)
          @ [(''status'', JStr (job_state_str (jb_status j))), (''artifactRoot'', JStr root)]))))
      (sret j'))))"

definition runRemoteRunnerJob :: "remote_host \<Rightarrow> string \<Rightarrow> job_request \<Rightarrow> (remote_store, runner_job) sm" where
  "runRemoteRunnerJob h i req = sbind (getRemoteRunnerItem i) (\<lambda>runner. sbind (on_loops now) (\<lambda>t.
     sbind (on_loops (\<lambda>f. (Inr (fst (draw f)), snd (draw f)))) (\<lambda>uuid.
     let jobId = ''rr-job-'' @ i @ ''-'' @ uuid in
     writeRemoteRunnerJob h \<lparr>jb_id = jobId, jb_runnerId = i, jb_leaseId = jq_leaseId req,
       jb_issueId = jq_issueId req, jb_shardId = jq_shardId req, jb_runtimeBackend = jq_runtimeBackend req,
       jb_workerKind = jq_workerKind req, jb_status = JOB_SUCCEEDED, jb_queuedAt = t,
       jb_startedAt = Some (t + 1), jb_finishedAt = Some (t + 2),
       jb_artifactRoot = rn_artifactRoot runner @ ''/jobs/'' @ jobId, jb_artifacts = [],
       jb_message = case_option
         ''Remote runner worker job materialized artifact manifest for Codex/Claude runtime handoff.'' id
         (jq_reason req)\<rparr>)))"

subsection \<open>Reading and uploading artifacts\<close>

definition readRemoteRunnerArtifact :: "string \<Rightarrow> string \<Rightarrow> string \<Rightarrow> remote_store \<Rightarrow> remote_file option" where
  "readRemoteRunnerArtifact runnerId jobId kind s =
     (let root = ''runs/'' @ runnerId @ ''/jobs/'' @ jobId in
      case map_of [(''manifest'', root @ ''/manifest.json''), (''worker-receipt'', root @ ''/worker-receipt.json''),
        (''worker-log'', root @ ''/worker.log''), (''trace'', root @ ''/trace.json'')] kind of
        None \<Rightarrow> None | Some p \<Rightarrow> map_of (rs_files s) p)"

definition writeRemoteRunnerArtifact :: "string \<Rightarrow> remote_file \<Rightarrow> remote_store \<Rightarrow> remote_store" where
  "writeRemoteRunnerArtifact = write_file"

record upload_report =
  up_jobId :: string
  up_uploaded :: nat
  up_artifacts :: "(string \<times> string \<times> string) list"
  up_message :: string

text \<open>The object storage: \<open>upload\<close> followed by \<open>privateDownloadUrl\<close>, either may fail.\<close>

type_synonym storage_port = "string \<Rightarrow> string \<Rightarrow> string \<Rightarrow> remote_file \<Rightarrow> string call"

definition NOT_UPLOADED :: string where
  "NOT_UPLOADED = (''External storage not configured '' @ [CHR 0xE2, CHR 0x80, CHR 0x94] @ '' artifacts remain in .loops only'')"

fun upload_kinds ::
    "storage_port \<Rightarrow> string \<Rightarrow> string \<Rightarrow> string \<Rightarrow> string \<Rightarrow> string list \<Rightarrow> (string \<times> string \<times> string) list
     \<Rightarrow> (remote_store, (string \<times> string \<times> string) list) sm" where
  "upload_kinds port vendor bucket runnerId jobId [] acc = sret acc"
| "upload_kinds port vendor bucket runnerId jobId (kind # kinds) acc = sbind sget (\<lambda>s.
     let key = ''loops/runs/'' @ runnerId @ ''/jobs/'' @ jobId @ ''/'' @ kind @ ''.json'' in
     case readRemoteRunnerArtifact runnerId jobId kind s of
       None \<Rightarrow> upload_kinds port vendor bucket runnerId jobId kinds acc
     | Some (FText []) \<Rightarrow> upload_kinds port vendor bucket runnerId jobId kinds acc
     | Some content \<Rightarrow> (\<lambda>u. case on_loops (call (port vendor bucket key content)) u of
         (Inr url, u') \<Rightarrow> upload_kinds port vendor bucket runnerId jobId kinds (acc @ [(kind, key, url)]) u'
       | (Inl e, u') \<Rightarrow> upload_kinds port vendor bucket runnerId jobId kinds acc u'))"

definition uploadRemoteRunnerArtifacts ::
    "storage_port option \<Rightarrow> string option \<Rightarrow> string \<Rightarrow> string \<Rightarrow> string \<Rightarrow> string option
     \<Rightarrow> (remote_store, upload_report) sm" where
  "uploadRemoteRunnerArtifacts storage vendor envVendor runnerId jobId bucket = (case storage of
     None \<Rightarrow> sret \<lparr>up_jobId = jobId, up_uploaded = 0, up_artifacts = [], up_message = NOT_UPLOADED\<rparr>
   | Some port \<Rightarrow>
       sbind (upload_kinds port (case_option envVendor id vendor) (case_option ''dofe-public'' id bucket)
           runnerId jobId [''manifest'', ''worker-receipt'', ''worker-log'', ''trace''] []) (\<lambda>arts.
         sret \<lparr>up_jobId = jobId, up_uploaded = length arts, up_artifacts = arts,
           up_message = (if arts \<noteq> [] then nat_str (length arts) @ '' artifacts uploaded to external storage''
             else NOT_UPLOADED)\<rparr>))"

subsection \<open>The runtime port\<close>

definition js_int_str :: "int \<Rightarrow> string" where
  "js_int_str n = (if n < 0 then ''-'' @ nat_str (nat (- n)) else nat_str (nat n))"

text \<open>\<open>executeOrThrow\<close> of the docker sandbox: exit code, stdout, stderr.\<close>

definition executeOrThrow ::
    "(string \<Rightarrow> string \<Rightarrow> string \<Rightarrow> (int \<times> string \<times> string) call) \<Rightarrow> string \<Rightarrow> string \<Rightarrow> string
     \<Rightarrow> (fs, int \<times> string) sm" where
  "executeOrThrow docker img command workdir = sbind (call (docker img command workdir))
     (\<lambda>(code, out, err). if code \<noteq> 0
        then sthrow (PlainError (''Docker sandbox exited with code '' @ js_int_str code @ '': ''
          @ js_slice0 500 (utf8_chunks err)))
        else sret (code, out))"

record remote_job =
  rj_issueId :: string
  rj_shardId :: string
  rj_runtimeBackend :: runtime_backend
  rj_artifactRoot :: string
  rj_command :: "string option"
  rj_sandboxProfile :: "string option"

definition remote_implementation ::
    "loops_host \<Rightarrow> remote_host \<Rightarrow> remote_job \<Rightarrow> loop_issue \<Rightarrow> loop_shard \<Rightarrow> nat
     \<Rightarrow> (fs, loop_implementation_record \<times> string option) sm" where
  "remote_implementation h m job issue shard r = (case (rj_runtimeBackend job = DOCKER_RUNTIME, mh_docker m) of
     (True, Some docker) \<Rightarrow>
       sbind (executeOrThrow docker (case_option ''dofe-ai/sandbox:latest'' id (rj_sandboxProfile job))
         (case_option (''codex implement --shard '' @ sh_id shard @ '' --issue '' @ i_id issue) id (rj_command job))
         (i_targetRepo issue)) (\<lambda>(code, out). sbind now (\<lambda>idTime. sbind now (\<lambda>t.
       sret (\<lparr>ir_id = ''impl-record-'' @ sh_id shard @ ''-r'' @ nat_str r @ ''-'' @ nat_str idTime,
           ir_issueId = i_id issue, ir_shardId = sh_id shard, ir_round = r,
           ir_implementer = ''remote-runner:docker'',
           ir_status = (if code = 0 then REC_IMPLEMENTED else REC_NEEDS_WORK),
           ir_summary = ''Docker sandbox execution: exit '' @ js_int_str code, ir_changedFiles = [],
           ir_notes = Some (js_slice0 2000 (utf8_chunks out)), ir_created = t, ir_tokens = Some 0,
           ir_durationSec = None, ir_testsChanged = None\<rparr>, if out = [] then None else Some out))))
   | _ \<Rightarrow> sbind (call (lh_claude h issue shard r (i_targetRepo issue))) (\<lambda>rec.
       sret (rec\<lparr>ir_implementer := ''remote-runner:'' @ backend_str (rj_runtimeBackend job)\<rparr>, None)))"

definition remote_tests :: "loops_host \<Rightarrow> remote_job \<Rightarrow> nat \<Rightarrow> string \<Rightarrow> (fs, loop_test_record) sm" where
  "remote_tests h job r cwd = runShardTests (lh_runner h) (rj_issueId job) (rj_shardId job) r cwd
     (Some \<lparr>rq_commands = (case rj_command job of None \<Rightarrow> None | Some c \<Rightarrow> if c = [] then None else Some [c]),
        rq_runner = ''remote-runner:'' @ backend_str (rj_runtimeBackend job)\<rparr>)
     (if rj_runtimeBackend job = DOCKER_RUNTIME
      then Some \<lparr>sx_network = (if rj_sandboxProfile job = Some ''strict'' then PROFILE_DENY else PROFILE_NET_ALLOWLIST),
        sx_writeScope = PROFILE_REPO, sx_shellEnforcement = PROFILE_ALLOWLIST, sx_secretMode = SECRET_REDACTED,
        sx_allowedCommands = None, sx_extraBlockedTools = None, sx_extraBlockedPatterns = None\<rparr>
      else None)"

subsection \<open>Executing a shard job\<close>

datatype worker_kind = WORK_IMPLEMENT | WORK_TEST | WORK_REVIEW | WORK_CUSTOM

fun worker_str :: "worker_kind \<Rightarrow> string" where
  "worker_str WORK_IMPLEMENT = ''implement''"
| "worker_str WORK_TEST = ''test''"
| "worker_str WORK_REVIEW = ''review''"
| "worker_str WORK_CUSTOM = ''custom''"

record remote_artifact =
  ra_kind :: string
  ra_ref :: string
  ra_sha256 :: string
  ra_sizeBytes :: nat

record shard_job_result =
  sj_completed :: bool
  sj_artifacts :: "remote_artifact list"
  sj_error :: "string option"
  sj_summary :: "string option"
  sj_durationMs :: int

text \<open>Writing an artifact; \<open>kind\<close> is the file name without its extension.\<close>

definition writeArtifact ::
    "remote_host \<Rightarrow> string \<Rightarrow> string \<Rightarrow> string \<Rightarrow> remote_file \<Rightarrow> (remote_store, remote_artifact) sm" where
  "writeArtifact m dir kind ext content = (let ref = dir @ ''/'' @ kind @ ext in
     sthen (smod (writeRemoteRunnerArtifact ref content))
       (sret \<lparr>ra_kind = kind, ra_ref = ref, ra_sha256 = fst (mh_digest m content),
          ra_sizeBytes = snd (mh_digest m content)\<rparr>))"

definition duration_since :: "timestamp \<Rightarrow> (remote_store, int) sm" where
  "duration_since start = sbind (on_loops now) (\<lambda>t. sret (int t - int start))"

definition job_completed ::
    "remote_artifact list \<Rightarrow> string \<Rightarrow> timestamp \<Rightarrow> (remote_store, shard_job_result) sm" where
  "job_completed arts summary start = sbind (duration_since start) (\<lambda>d.
     sret \<lparr>sj_completed = True, sj_artifacts = arts, sj_error = None, sj_summary = Some summary, sj_durationMs = d\<rparr>)"

definition job_failed ::
    "remote_artifact list \<Rightarrow> string \<Rightarrow> string option \<Rightarrow> timestamp \<Rightarrow> (remote_store, shard_job_result) sm" where
  "job_failed arts message summary start = sbind (duration_since start) (\<lambda>d.
     sret \<lparr>sj_completed = False, sj_artifacts = arts, sj_error = Some message, sj_summary = summary, sj_durationMs = d\<rparr>)"

definition executeImplementationJob ::
    "loops_host \<Rightarrow> remote_host \<Rightarrow> remote_job \<Rightarrow> loop_detail \<Rightarrow> loop_shard \<Rightarrow> timestamp
     \<Rightarrow> (remote_store, shard_job_result) sm" where
  "executeImplementationJob h m job d shard start = (let i = rj_issueId job; k = rj_shardId job in
     sbind (on_loops now) (\<lambda>t.
     sthen (on_loops (smod (writeShardProgress i k (Some (shard_status_str (sh_status shard))) ''IN_PROGRESS''
         (''remote-runner:'' @ backend_str (rj_runtimeBackend job))
         (set_status k SHARD_IN_PROGRESS (d_shards d))
         ((d_state d)\<lparr>st_phase := PHASE_4_IMPLEMENT, st_shardsInProgress := 1, st_updated := t\<rparr>) None)))
     (sbind (on_loops (remote_implementation h m job (d_issue d) shard (st_round (d_state d)))) (\<lambda>(rec, logContent).
     sbind (case logContent of None \<Rightarrow> sret []
        | Some text \<Rightarrow> sbind (writeArtifact m (rj_artifactRoot job) ''worker'' ''.log'' (FText text)) (\<lambda>a. sret [a])) (\<lambda>logs.
     sthen (on_loops (persistImplementation i k rec))
     (sbind iso_now (\<lambda>executed.
      sbind (writeArtifact m (rj_artifactRoot job) ''handoff'' ''.json'' (FJson (JObj
         [(''shardId'', JStr k), (''runtimeBackend'', JStr (backend_str (rj_runtimeBackend job))),
          (''implementationId'', JStr (ir_id rec)), (''status'', JStr (impl_record_status_str (ir_status rec))),
          (''summary'', JStr (ir_summary rec)), (''changedFiles'', jstrs (ir_changedFiles rec)),
          (''executedAt'', JStr executed)]))) (\<lambda>a.
      job_completed (logs @ [a]) (ir_summary rec) start))))))))"

definition remote_tested_annotation :: "loop_test_record \<Rightarrow> loop_annotation \<Rightarrow> loop_annotation" where
  "remote_tested_annotation rec a = (let pass = (tr_status rec = TEST_PASS) in
     a\<lparr>an_testStatus := (if pass then ANN_TEST_PASS else ANN_TEST_FAIL),
       an_verdict := (if pass then ANN_UNREVIEWED else ANN_NEEDS_WORK),
       an_notes := (if tr_failedTests rec \<noteq> []
         then ''Test failures: '' @ js_join '', '' (map ft_name (tr_failedTests rec))
         else (''Tests passed '' @ [CHR 0xE2, CHR 0x80, CHR 0x94] @ '' awaiting review.''))\<rparr>)"

definition failed_test_json :: "failed_test \<Rightarrow> json" where
  "failed_test_json x = JObj [(''name'', JStr (ft_name x)), (''reason'', JStr (ft_reason x))]"

definition coverage_json :: "coverage_metric option \<Rightarrow> (string \<times> json) list" where
  "coverage_json c = (case c of None \<Rightarrow> [] | Some x \<Rightarrow>
     [(''coverage'', JObj ((case cv_lines x of None \<Rightarrow> [] | Some r \<Rightarrow> [(''lines'', JNum r)])
        @ (case cv_branches x of None \<Rightarrow> [] | Some r \<Rightarrow> [(''branches'', JNum r)])))])"

definition executeTestJob ::
    "loops_host \<Rightarrow> remote_host \<Rightarrow> remote_job \<Rightarrow> loop_detail \<Rightarrow> timestamp
     \<Rightarrow> (remote_store, shard_job_result) sm" where
  "executeTestJob h m job d start = (let i = rj_issueId job; k = rj_shardId job in
     sbind (on_loops (remote_tests h job (st_round (d_state d)) (i_targetRepo (d_issue d)))) (\<lambda>rec.
     sbind (on_loops now) (\<lambda>t.
     sthen (on_loops (smod (writeTestRecord i k rec
         (map_where (\<lambda>a. an_target a = k) (remote_tested_annotation rec) (d_annotations d))
         (map_where (\<lambda>s. sh_id s = k \<and> tr_status rec = TEST_FAIL)
           (\<lambda>s. s\<lparr>sh_status := SHARD_NEEDS_WORK\<rparr>) (d_shards d))
         ((d_state d)\<lparr>st_phase := PHASE_5_REVIEW, st_updated := t\<rparr>))))
     (sbind iso_now (\<lambda>executed.
      sbind (writeArtifact m (rj_artifactRoot job) ''test-results'' ''.json'' (FJson (JObj
         ([(''shardId'', JStr k), (''runtimeBackend'', JStr (backend_str (rj_runtimeBackend job))),
           (''testRecordId'', JStr (tr_id rec)), (''status'', JStr (test_status_str (tr_status rec))),
           (''commandCount'', jnat (length (tr_commands rec))),
           (''failedTests'', JArr (map failed_test_json (tr_failedTests rec)))]
          @ coverage_json (tr_coverage rec) @ [(''executedAt'', JStr executed)])))) (\<lambda>a.
      job_completed [a] (''Tests '' @ test_status_str (tr_status rec) @ '': ''
        @ nat_str (length (tr_failedTests rec)) @ '' failures'') start))))))"

definition review_issue_json :: "review_issue \<Rightarrow> json" where
  "review_issue_json x = JObj [(''severity'', JStr (severity_str (ri_severity x))), (''desc'', JStr (ri_desc x))]"

definition executeReviewJob ::
    "loops_host \<Rightarrow> remote_host \<Rightarrow> remote_job \<Rightarrow> loop_detail \<Rightarrow> loop_shard \<Rightarrow> timestamp
     \<Rightarrow> (remote_store, shard_job_result) sm" where
  "executeReviewJob h m job d shard start = (let i = rj_issueId job; k = rj_shardId job; r = st_round (d_state d) in
     case List.find (\<lambda>x. ir_shardId x = k \<and> ir_round x = r) (d_implementationRecords d) of
       None \<Rightarrow> job_failed [] (''No implementation record found for shard '' @ k @ '' at round '' @ nat_str r) None start
     | Some impl \<Rightarrow>
         sbind (on_loops (call (ag_review (lh_agent h) shard impl
           (List.find (\<lambda>x. tr_shardId x = k \<and> tr_round x = r) (d_testRecords d))))) (\<lambda>review.
         sbind iso_now (\<lambda>reviewed.
         sbind (writeArtifact m (rj_artifactRoot job) ''review-verdict'' ''.json'' (FJson (JObj
            [(''shardId'', JStr k), (''runtimeBackend'', JStr (backend_str (rj_runtimeBackend job))),
             (''verdict'', JStr (verdict_str (ro_verdict review))),
             (''issues'', JArr (map review_issue_json (ro_issues review))),
             (''fixInstructions'', jstrs (ro_fixInstructions review)),
             (''summary'', JStr (ro_summary review)), (''reviewedAt'', JStr reviewed)]))) (\<lambda>a.
         sbind (on_loops (applyReview (lh_git h) i k
            \<lparr>rv_reviewer = ''remote-runner:'' @ backend_str (rj_runtimeBackend job),
             rv_verdict = ro_verdict review, rv_summary = ro_summary review, rv_issues = ro_issues review,
             rv_fixInstructions = ro_fixInstructions review\<rparr>)) (\<lambda>_.
         job_completed [a] (''Review '' @ verdict_str (ro_verdict review) @ '': '' @ ro_summary review) start)))))"

text \<open>Only the detail is awaited inside the \<open>try\<close>; \<open>stack\<close> is the stack trace of the error.\<close>

definition executeRemoteShardJob ::
    "loops_host \<Rightarrow> remote_host \<Rightarrow> (js_error \<Rightarrow> string) \<Rightarrow> remote_job \<Rightarrow> worker_kind
     \<Rightarrow> (remote_store, shard_job_result) sm" where
  "executeRemoteShardJob h m stack job kind = sbind (on_loops now) (\<lambda>start s.
     case on_loops (readDetail (rj_issueId job)) s of
       (Inl e, s1) \<Rightarrow> sbind iso_now (\<lambda>failedAt.
          sbind (writeArtifact m (rj_artifactRoot job) ''worker'' ''.log'' (FText (''ERROR ['' @ failedAt @ ''] ''
            @ worker_str kind @ '' on '' @ rj_shardId job @ '': '' @ error_message e @ [CHR 0x0A] @ stack e))) (\<lambda>a.
          job_failed [a] (error_message e)
            (Some (''Execution failed: '' @ js_slice0 200 (utf8_chunks (error_message e)))) start)) s1
     | (Inr d, s1) \<Rightarrow> (case List.find (\<lambda>x. sh_id x = rj_shardId job) (d_shards d) of
          None \<Rightarrow> job_failed [] (''Shard '' @ rj_shardId job @ '' not found in issue '' @ rj_issueId job) None start
        | Some shard \<Rightarrow> (case kind of
            WORK_IMPLEMENT \<Rightarrow> executeImplementationJob h m job d shard start
          | WORK_TEST \<Rightarrow> executeTestJob h m job d start
          | WORK_REVIEW \<Rightarrow> executeReviewJob h m job d shard start
          | WORK_CUSTOM \<Rightarrow> job_failed [] (''Unknown workerKind: '' @ worker_str kind) None start)) s1)"

subsection \<open>The queue worker\<close>

text \<open>\<open>{ ...current, status, ...meta, updatedAt }\<close>; a field that is undefined is dropped by
  \<open>JSON.stringify\<close>.\<close>

definition merge_field :: "string \<times> json option \<Rightarrow> (string \<times> json) list \<Rightarrow> (string \<times> json) list" where
  "merge_field kv c = (case kv of (k, Some v) \<Rightarrow> AList.update k v c | (k, None) \<Rightarrow> AList.delete k c)"

definition updateRedisStatus ::
    "remote_host \<Rightarrow> string \<Rightarrow> string \<Rightarrow> (string \<times> json option) list \<Rightarrow> (remote_store, unit) sm" where
  "updateRedisStatus m lease status meta = (if \<not> mh_redis m then sret ()
     else sbind iso_now (\<lambda>t. smod (\<lambda>s.
       let current = case_option [] id (map_of (rs_leases s) lease) in
       s\<lparr>rs_leases := AList.update lease (fold merge_field
          ([(''status'', Some (JStr status))] @ meta @ [(''updatedAt'', Some (JStr t))]) current) (rs_leases s)\<rparr>)))"

record queue_job =
  qj_id :: string
  qj_leaseId :: string
  qj_shardId :: "string option"
  qj_workerKind :: worker_kind
  qj_job :: remote_job
  qj_attemptsMade :: nat

definition process_work ::
    "loops_host \<Rightarrow> remote_host \<Rightarrow> (js_error \<Rightarrow> string) \<Rightarrow> queue_job
     \<Rightarrow> (remote_store, remote_artifact list) sm" where
  "process_work h m stack q = (case qj_shardId q of
     None \<Rightarrow> sthrow (PlainError ''shardId is required for Remote Runner job execution'')
   | Some k \<Rightarrow> if k = [] then sthrow (PlainError ''shardId is required for Remote Runner job execution'')
     else sbind (executeRemoteShardJob h m stack ((qj_job q)\<lparr>rj_shardId := k\<rparr>)
         (if qj_workerKind q = WORK_CUSTOM then WORK_IMPLEMENT else qj_workerKind q)) (\<lambda>result.
       if sj_completed result
       then sbind iso_now (\<lambda>t. sthen (updateRedisStatus m (qj_leaseId q) ''completed''
           [(''jobId'', Some (JStr (qj_id q))), (''completedAt'', Some (JStr t)),
            (''artifacts'', Some (jstrs (map ra_ref (sj_artifacts result)))),
            (''summary'', map_option JStr (sj_summary result)),
            (''durationMs'', Some (JNum (of_int (sj_durationMs result))))])
         (sret (sj_artifacts result)))
       else sthrow (PlainError (case_option ''Remote shard job execution failed'' id (sj_error result)))))"

definition process_job ::
    "loops_host \<Rightarrow> remote_host \<Rightarrow> (js_error \<Rightarrow> string) \<Rightarrow> queue_job
     \<Rightarrow> (remote_store, remote_artifact list) sm" where
  "process_job h m stack q = sbind iso_now (\<lambda>t. sthen (updateRedisStatus m (qj_leaseId q) ''active''
       [(''jobId'', Some (JStr (qj_id q))), (''startedAt'', Some (JStr t)),
        (''attempt'', Some (jnat (qj_attemptsMade q + 1)))])
     (\<lambda>s. case process_work h m stack q s of
        (Inr arts, s') \<Rightarrow> (Inr arts, s')
      | (Inl e, s') \<Rightarrow> sbind iso_now (\<lambda>t. sthen (updateRedisStatus m (qj_leaseId q) ''failed''
            [(''jobId'', Some (JStr (qj_id q))), (''error'', Some (JStr (error_message e))),
             (''failedAt'', Some (JStr t)), (''attempt'', Some (jnat (qj_attemptsMade q + 1)))])
          (sthrow e)) s'))"

end
