(* ===== verification/Remote_Runner_Laws.thy ===== *)
theory Remote_Runner_Laws
  imports Remote_Runner Service_Laws
begin

text \<open>
  What remote jobs promise: whatever the worker runs, the loops keep their counters; the job record
  is readable, artifact by artifact, with the digests it lists; the lease status in Redis says how
  the job ended. Two laws describe the code where it does less than it means to: an agent's error
  passes the handler that should turn it into a failed result, and the artifacts a job writes are
  not where the upload looks for them.
\<close>

subsection \<open>The contract of a remote job\<close>

lemma sat_caught:
  assumes "sat I m Q" and "\<And>e. sat I (a e) R" and "\<And>x. Q x \<Longrightarrow> sat I (b x) R"
  shows "sat I (\<lambda>s. case m s of (Inl e, t) \<Rightarrow> a e t | (Inr x, t) \<Rightarrow> b x t) R"
proof (rule satI)
  fix s assume s: "I s"
  obtain r t where m: "m s = (r, t)" by fastforce
  have t: "I t" using sat_keeps [OF assms(1) s] m by simp
  show "I (snd (case m s of (Inl e, t) \<Rightarrow> a e t | (Inr x, t) \<Rightarrow> b x t))"
    using m t sat_keeps [OF assms(2)] sat_keeps [OF assms(3)] sat_value [OF assms(1) s] by (cases r) auto
  fix y assume "fst (case m s of (Inl e, t) \<Rightarrow> a e t | (Inr x, t) \<Rightarrow> b x t) = Inr y"
  then show "R y"
    using m t assms(2,3) sat_value [OF assms(1) s] by (cases r) (auto simp: sat_def)
qed

text \<open>
  The store invariant of the loops, and an invariant of the other files that writing a file below
  the artifact root keeps.
\<close>

locale job_writes = shard_writes I i K
  for I :: "fs \<Rightarrow> bool" and i :: string and K :: "loop_state_item \<Rightarrow> nat \<Rightarrow> bool" +
  fixes F :: "(string \<times> remote_file) list \<Rightarrow> bool" and root :: string
  assumes artifact: "F fl \<Longrightarrow> F (AList.update (root @ ''/'' @ x) c fl)"
begin

abbreviation J :: "remote_store \<Rightarrow> bool" where
  "J s \<equiv> I (rs_fs s) \<and> F (rs_files s)"

lemma on_loops_sat: "sat I m Q \<Longrightarrow> sat J (on_loops m) Q"
  by (auto simp: sat_def on_loops_def split: prod.splits)

lemma on_loops_now: "sat J (on_loops now) (\<lambda>_. True)"
  by (rule on_loops_sat [OF sat_now])

lemma iso_sat: "sat J iso_now (\<lambda>_. True)"
  unfolding iso_now_def by (intro sat_sbind [OF on_loops_now] sat_sbind [OF sat_sget [where Q = "\<lambda>_. True"]] sat_sret TrueI)

lemma writeArtifact_sat: "sat J (writeArtifact m root kind ext c) (\<lambda>_. True)"
proof -
  have "sat J (smod (write_file (root @ ''/'' @ x) c)) (\<lambda>_. True)" for x
    by (intro sat_smod) (simp_all add: write_file_def artifact [simplified])
  then show ?thesis
    unfolding writeArtifact_def Let_def writeRemoteRunnerArtifact_def by (intro sat_sthen sat_sret TrueI) simp
qed

lemma completed_sat: "sat J (job_completed arts x start) (\<lambda>_. True)"
  and failed_sat: "sat J (job_failed arts e y start) (\<lambda>_. True)"
  unfolding job_completed_def job_failed_def duration_since_def
  by (intro sat_sbind [where Q = "\<lambda>_. True"] on_loops_now sat_sret TrueI)+

lemma remote_implementation_sat: "sat I (remote_implementation h m job issue shard r) (\<lambda>_. True)"
  unfolding remote_implementation_def executeOrThrow_def
  by (auto split: bool.split option.split prod.split intro!: sat_sbind [where Q = "\<lambda>_. True"] sat_call sat_now
      sat_sret sat_prod sat_if sat_sthrow)

lemma implementation_job_sat:
  assumes "rj_artifactRoot job = root" and "rj_issueId job = i" and "known_in K d"
  shows "sat J (executeImplementationJob h m job d shard start) (\<lambda>_. True)"
proof -
  have logs: "sat J (case x of None \<Rightarrow> sret [] | Some y \<Rightarrow>
      sbind (writeArtifact m root ''worker'' ''.log'' (FText y)) (\<lambda>a. sret [a])) (\<lambda>_. True)" for x
    by (intro sat_option sat_sret TrueI sat_sbind [OF writeArtifact_sat])
  have progress: "sat I (smod (writeShardProgress i k a b c (set_status k SHARD_IN_PROGRESS (d_shards d))
      ((d_state d)\<lparr>st_phase := PHASE_4_IMPLEMENT, st_shardsInProgress := 1, st_updated := t\<rparr>) None)) (\<lambda>_. True)"
    for k a b c t
    by (intro sat_write [where st = "d_state d", OF assms(3) _ _ shard_write_ops(4)]) simp_all
  show ?thesis
    unfolding executeImplementationJob_def Let_def assms(1,2)
    by (intro sat_sbind [OF on_loops_now] sat_sthen on_loops_sat [OF progress] sat_prod logs
        sat_sbind [OF on_loops_sat [OF remote_implementation_sat]] sat_sbind [OF logs] sat_sbind [OF iso_sat]
        on_loops_sat [OF sat_persist] sat_sbind [OF writeArtifact_sat] completed_sat)
qed

lemma test_job_sat:
  assumes "rj_artifactRoot job = root" and "rj_issueId job = i" and "known_in K d"
  shows "sat J (executeTestJob h m job d start) (\<lambda>_. True)"
proof -
  have tests: "sat I (remote_tests h job r cwd) (\<lambda>_. True)" for r cwd
    unfolding remote_tests_def by (rule sat_shardTests)
  have rec: "sat I (smod (writeTestRecord i k tr (map_where p g (d_annotations d))
      (map_where q (\<lambda>s. s\<lparr>sh_status := SHARD_NEEDS_WORK\<rparr>) (d_shards d))
      ((d_state d)\<lparr>st_phase := PHASE_5_REVIEW, st_updated := t\<rparr>))) (\<lambda>_. True)" for k tr p q g t
    by (intro sat_write [where st = "d_state d", OF assms(3) _ _ shard_write_ops(1)]) simp_all
  show ?thesis
    unfolding executeTestJob_def Let_def assms(1,2)
    by (intro sat_sbind [OF on_loops_sat [OF tests]] sat_sbind [OF on_loops_now] sat_sthen
        on_loops_sat [OF rec] sat_sbind [OF iso_sat] sat_sbind [OF writeArtifact_sat] completed_sat)
qed

lemma review_job_sat:
  assumes "rj_artifactRoot job = root" and "rj_issueId job = i"
  shows "sat J (executeReviewJob h m job d shard start) (\<lambda>_. True)"
  unfolding executeReviewJob_def Let_def assms
  by (intro sat_option failed_sat sat_sbind [OF on_loops_sat [OF sat_call]] sat_sbind [OF iso_sat]
      sat_sbind [OF writeArtifact_sat] sat_sbind [OF on_loops_sat [OF sat_review]] completed_sat)

lemma shard_job_sat:
  assumes "rj_artifactRoot job = root" and "rj_issueId job = i"
  shows "sat J (executeRemoteShardJob h m stack job kind) (\<lambda>_. True)"
proof -
  have failed: "sat J (sbind iso_now (\<lambda>t. sbind (writeArtifact m root ''worker'' ''.log'' (c t))
      (\<lambda>a. job_failed [a] x y start))) (\<lambda>_. True)" for c x y start
    by (intro sat_sbind [OF iso_sat] sat_sbind [OF writeArtifact_sat] failed_sat)
  have run: "sat J (case List.find (\<lambda>x. sh_id x = rj_shardId job) (d_shards d) of
          None \<Rightarrow> job_failed [] (''Shard '' @ rj_shardId job @ '' not found in issue '' @ i) None start
        | Some shard \<Rightarrow> (case kind of
            WORK_IMPLEMENT \<Rightarrow> executeImplementationJob h m job d shard start
          | WORK_TEST \<Rightarrow> executeTestJob h m job d start
          | WORK_REVIEW \<Rightarrow> executeReviewJob h m job d shard start
          | WORK_CUSTOM \<Rightarrow> job_failed [] (''Unknown workerKind: '' @ worker_str kind) None start)) (\<lambda>_. True)"
    if "known_in K d" for d start
    using that assms by (auto split: worker_kind.split intro!: sat_option failed_sat implementation_job_sat
        test_job_sat review_job_sat)
  show ?thesis
    unfolding executeRemoteShardJob_def assms
    by (intro sat_sbind [OF on_loops_now] sat_caught [OF on_loops_sat [OF sat_readDetail]] failed)
      (use run assms in simp_all)
qed

lemma lease_sat: "sat J (updateRedisStatus m lease status meta) (\<lambda>_. True)"
proof -
  have "sat J (smod (\<lambda>s. s\<lparr>rs_leases := g s\<rparr>)) (\<lambda>_. True)" for g
    by (rule sat_smod) simp_all
  then show ?thesis
    unfolding updateRedisStatus_def Let_def by (intro sat_if sat_sret TrueI sat_sbind [OF iso_sat])
qed

lemma work_sat:
  assumes "rj_artifactRoot (qj_job q) = root" and "rj_issueId (qj_job q) = i"
  shows "sat J (process_work h m stack q) (\<lambda>_. True)"
proof -
  have job: "sat J (executeRemoteShardJob h m stack ((qj_job q)\<lparr>rj_shardId := k\<rparr>) w) (\<lambda>_. True)" for k w
    by (rule shard_job_sat) (use assms in simp_all)
  show ?thesis
    unfolding process_work_def
    by (intro sat_option sat_sthrow sat_if sat_sbind [OF job] sat_sbind [OF iso_sat] sat_sthen lease_sat sat_sret TrueI)
qed

lemma worker_sat:
  assumes "rj_artifactRoot (qj_job q) = root" and "rj_issueId (qj_job q) = i"
  shows "sat J (process_job h m stack q) (\<lambda>_. True)"
proof -
  have fail: "sat J (sbind iso_now (\<lambda>t. sthen (updateRedisStatus m lease status (x t)) (sthrow e))) (\<lambda>_. True)"
    for lease status x and e :: js_error
    by (intro sat_sbind [OF iso_sat] sat_sthen lease_sat sat_sthrow)
  have "sat J (\<lambda>s. case process_work h m stack q s of (Inr arts, s') \<Rightarrow> (Inr arts, s')
      | (Inl e, s') \<Rightarrow> sbind iso_now (\<lambda>t. sthen (updateRedisStatus m (qj_leaseId q) ''failed'' (x e t)) (sthrow e)) s')
      (\<lambda>_. True)" for x
    by (intro sat_caught [OF work_sat [OF assms]] fail) (simp add: sat_def)
  then show ?thesis
    unfolding process_job_def by (intro sat_sbind [OF iso_sat] sat_sthen lease_sat)
qed

end

interpretation jobs: job_writes "lifecycle mr" i "\<lambda>st _. counters_ok mr st" "\<lambda>_. True" root for mr i root
  by unfold_locales simp

text \<open>C18. Whatever a queue job runs on a shard, and however it ends, the counters of every loop stay
  consistent: the round counts the re-loops, and the configuration bounds them.\<close>

theorem remote_jobs_keep_lifecycle:
  assumes "lifecycle mr (rs_fs s)"
  shows "lifecycle mr (rs_fs (snd (process_job h m stack q s)))"
  using sat_keeps [OF jobs.worker_sat [OF refl refl], of mr s h m stack q] assms by simp

subsection \<open>The job record is readable\<close>

lemma toLoopsStorePath_loops: "toLoopsStorePath (CHR ''.'' # ''loops/runs/'' @ p) = ''runs/'' @ p"
  by (simp add: toLoopsStorePath_def)

lemma on_loops_smod: "on_loops (smod g) s = (Inr (), s\<lparr>rs_fs := g (rs_fs s)\<rparr>)"
  by (simp add: on_loops_def)

text \<open>The six files of a job, and what is read from them.\<close>

definition job_files ::
    "string \<Rightarrow> string \<Rightarrow> remote_file list \<Rightarrow> remote_file \<Rightarrow> (string \<times> remote_file) list" where
  "job_files rid jid cs e = (let root = ''runs/'' @ rid @ ''/jobs/'' @ jid in
     zip (map (\<lambda>x. root @ x) [''/manifest.json'', ''/worker-receipt.json'', ''/worker.log'', ''/trace.json'']) cs
     @ [(root @ ''/job.json'', e), (root @ ''.json'', e)])"

lemma read_job_files:
  assumes "rs_files s = fold (\<lambda>(p, c). AList.update p c) (job_files rid jid [a, b, c, d] e) fl"
  shows "readRemoteRunnerArtifact rid jid ''manifest'' s = Some a"
    "readRemoteRunnerArtifact rid jid ''worker-receipt'' s = Some b"
    "readRemoteRunnerArtifact rid jid ''worker-log'' s = Some c"
    "readRemoteRunnerArtifact rid jid ''trace'' s = Some d"
  by (simp_all add: readRemoteRunnerArtifact_def Let_def assms job_files_def update_conv')

abbreviation artifact_kinds :: "string list" where
  "artifact_kinds \<equiv> [''manifest'', ''worker-receipt'', ''worker-log'', ''trace'']"

definition readable_as :: "remote_host \<Rightarrow> runner_job \<Rightarrow> remote_store \<Rightarrow> string \<Rightarrow> job_artifact \<Rightarrow> bool" where
  "readable_as h j s kind a \<longleftrightarrow> (case readRemoteRunnerArtifact (jb_runnerId j) (jb_id j) kind s of
     None \<Rightarrow> False | Some c \<Rightarrow> mh_digest h c = (ja_sha256 a, ja_sizeBytes a))"

lemma write_job_readable:
  assumes "jb_artifactRoot j = ''.loops/runs/'' @ jb_runnerId j @ ''/jobs/'' @ jb_id j" and "jb_artifacts j = []"
    and "writeRemoteRunnerJob h j s = (Inr j', s')"
  shows "jb_runnerId j' = jb_runnerId j \<and> list_all2 (readable_as h j' s') artifact_kinds (jb_artifacts j')"
proof -
  let ?fmt = "env_iso (fs_env (rs_fs s))"
  let ?cs = "[FJson (manifest_payload ?fmt j), FJson (receipt_payload ?fmt j), FText (log_payload ?fmt j),
    FJson (trace_payload ?fmt j)]"
  have j': "jb_runnerId j' = jb_runnerId j" "jb_id j' = jb_id j"
      "map (\<lambda>a. (ja_sha256 a, ja_sizeBytes a)) (jb_artifacts j') = map (mh_digest h) ?cs"
    and files: "rs_files s' = fold (\<lambda>(p, c). AList.update p c)
      (job_files (jb_runnerId j) (jb_id j) ?cs (FJob j')) (rs_files s)"
    using assms unfolding writeRemoteRunnerJob_def Let_def
    by (auto simp: sm_simps on_loops_smod write_file_def job_files_def remoteRunnerArtifact_def
        toLoopsStorePath_loops [simplified] Let_def)
  then show ?thesis
    using read_job_files [OF files]
    by (auto simp: readable_as_def list_all2_Cons1 map_eq_Cons_conv)
qed

text \<open>A job that a runner records can be read back: each of the four artifact kinds is found by
  runner and job, and its content has the size and the digest that the job lists.\<close>

theorem runner_job_roundtrip:
  assumes "runRemoteRunnerJob h i req s = (Inr j, s')"
  shows "jb_runnerId j = i \<and> list_all2 (readable_as h j s') artifact_kinds (jb_artifacts j)"
proof -
  have i: "i = ''remote-runner-primary''" and w: "\<exists>j0 s0. writeRemoteRunnerJob h j0 s0 = (Inr j, s')
      \<and> jb_artifactRoot j0 = ''.loops/runs/'' @ jb_runnerId j0 @ ''/jobs/'' @ jb_id j0
      \<and> jb_artifacts j0 = [] \<and> jb_runnerId j0 = i"
    using assms
    by (auto simp: runRemoteRunnerJob_def getRemoteRunnerItem_def buildRemoteRunnerItems_def sm_simps Let_def
        on_loops_def now_def split: if_splits)
  from w obtain j0 s0 where "writeRemoteRunnerJob h j0 s0 = (Inr j, s')"
      "jb_artifactRoot j0 = ''.loops/runs/'' @ jb_runnerId j0 @ ''/jobs/'' @ jb_id j0"
      "jb_artifacts j0 = []" "jb_runnerId j0 = i"
    by blast
  then show ?thesis using write_job_readable by metis
qed

definition demo_remote :: remote_store where
  "demo_remote = \<lparr>rs_fs = sample_fs, rs_files = [], rs_leases = []\<rparr>"

definition demo_remote_host :: remote_host where
  "demo_remote_host = \<lparr>mh_docker = None, mh_digest = (\<lambda>_. (''sha'', 7)), mh_redis = True\<rparr>"

definition demo_queue_job :: queue_job where
  "demo_queue_job = \<lparr>qj_id = ''job-1'', qj_leaseId = ''lease-1'', qj_shardId = Some ''shard-1'',
     qj_workerKind = WORK_IMPLEMENT, qj_job = \<lparr>rj_issueId = ''issue-1'', rj_shardId = ''shard-1'',
       rj_runtimeBackend = CODEX_CLI, rj_artifactRoot = ''.loops/runs/remote-runner-primary/leases'',
       rj_command = None, rj_sandboxProfile = None\<rparr>, qj_attemptsMade = 0\<rparr>"

lemma sample_lifecycle: "lifecycle (cf_maxReloop DEFAULT_RUNTIME_CONFIG) sample_fs"
  using version_str_v0 [of 0]
  by (auto simp: lifecycle_def sample_fs_def empty_fs_def sample_env_def records_keyed_def stored_states_def
      counters_ok_def sample_state_def sample_issue_def sample_intake_def intro: sym)

theorem remote_jobs_keep_lifecycle_witness:
  "\<exists>h stack. lifecycle (cf_maxReloop DEFAULT_RUNTIME_CONFIG)
     (rs_fs (snd (process_job h demo_remote_host stack demo_queue_job demo_remote)))"
  using remote_jobs_keep_lifecycle [of _ demo_remote] sample_lifecycle by (auto simp: demo_remote_def)

theorem runner_job_roundtrip_witness:
  "\<exists>j s'. runRemoteRunnerJob demo_remote_host ''remote-runner-primary'' \<lparr>jq_leaseId = None, jq_issueId = None,
       jq_shardId = None, jq_runtimeBackend = CODEX_CLI, jq_workerKind = HANDOFF_CODEX, jq_reason = None\<rparr>
       demo_remote = (Inr j, s')
     \<and> list_all2 (readable_as demo_remote_host j s') artifact_kinds (jb_artifacts j)"
proof -
  have "\<exists>j s'. runRemoteRunnerJob demo_remote_host ''remote-runner-primary'' \<lparr>jq_leaseId = None, jq_issueId = None,
       jq_shardId = None, jq_runtimeBackend = CODEX_CLI, jq_workerKind = HANDOFF_CODEX, jq_reason = None\<rparr>
       demo_remote = (Inr j, s')"
    by (simp add: runRemoteRunnerJob_def getRemoteRunnerItem_def buildRemoteRunnerItems_def sm_simps Let_def
        on_loops_def now_def writeRemoteRunnerJob_def)
  then show ?thesis using runner_job_roundtrip by blast
qed

subsection \<open>How a queue job ends\<close>

definition lease_field :: "remote_store \<Rightarrow> string \<Rightarrow> string \<Rightarrow> json option" where
  "lease_field s lease k = Option.bind (map_of (rs_leases s) lease) (\<lambda>fields. map_of fields k)"

lemma iso_now_ok: "\<exists>t s'. iso_now s = (Inr t, s')"
  by (simp add: iso_now_def sm_simps on_loops_def now_def)

lemma merge_field_at: "map_of (merge_field (k, v) c) x = (if x = k then v else map_of c x)"
  by (cases v) (auto simp: merge_field_def update_conv' delete_conv')

lemma merge_fields_at:
  "distinct (map fst xs) \<Longrightarrow> map_of (fold merge_field xs c) k
    = (case map_of xs k of None \<Rightarrow> map_of c k | Some v \<Rightarrow> v)"
proof (induction xs arbitrary: c)
  case (Cons x xs)
  then show ?case
    by (cases x) (auto simp: merge_field_at dest: weak_map_of_SomeI map_of_SomeD split: option.splits;
      force dest: map_of_SomeD)
qed simp

lemma updateRedis_ok: "\<exists>s'. updateRedisStatus m lease status meta s = (Inr (), s')"
proof -
  obtain t s1 where "iso_now s = (Inr t, s1)" using iso_now_ok by blast
  then show ?thesis by (simp add: updateRedisStatus_def sm_simps)
qed

lemma updateRedis_field:
  assumes "updateRedisStatus m lease status meta s = (Inr (), s')" and "mh_redis m"
    and "distinct (map fst meta)" "''status'' \<notin> set (map fst meta)" "''updatedAt'' \<notin> set (map fst meta)"
    and "map_of ((''status'', Some (JStr status)) # meta) k = Some v"
  shows "lease_field s' lease k = v"
proof -
  obtain t s1 where t: "iso_now s = (Inr t, s1)" using iso_now_ok by blast
  let ?xs = "[(''status'', Some (JStr status))] @ meta @ [(''updatedAt'', Some (JStr t))]"
  let ?c = "case_option [] id (map_of (rs_leases s1) lease)"
  have "lease_field s' lease k = map_of (fold merge_field ?xs ?c) k"
    using assms(1,2) t
    by (auto simp: updateRedisStatus_def sm_simps lease_field_def update_conv' Let_def simp del: fold_append)
  moreover have "distinct (map fst ?xs)" using assms(3-5) by auto
  moreover have "map_of ?xs k = Some v"
    using assms(6) by (auto simp: map_add_def split: if_splits)
  ultimately show ?thesis using merge_fields_at [of ?xs ?c k] by (simp only: option.case)
qed

text \<open>The lease in Redis says how the job ended: \<open>completed\<close> with the references of the artifacts it
  returned, or \<open>failed\<close> with the message of the error it threw.\<close>

theorem worker_reports_outcome:
  assumes "mh_redis m"
  shows "case process_job h m stack q s of
      (Inr arts, s') \<Rightarrow> lease_field s' (qj_leaseId q) ''status'' = Some (JStr ''completed'')
        \<and> lease_field s' (qj_leaseId q) ''artifacts'' = Some (jstrs (map ra_ref arts))
    | (Inl e, s') \<Rightarrow> lease_field s' (qj_leaseId q) ''status'' = Some (JStr ''failed'')
        \<and> lease_field s' (qj_leaseId q) ''error'' = Some (JStr (error_message e))"
proof -
  have completed: "lease_field s' (qj_leaseId q) ''status'' = Some (JStr ''completed'')
      \<and> lease_field s' (qj_leaseId q) ''artifacts'' = Some (jstrs (map ra_ref arts))"
    if "process_work h m stack q u = (Inr arts, s')" for u arts s'
  proof -
    from that obtain t x u1 meta where u: "updateRedisStatus m (qj_leaseId q) ''completed''
        [(''jobId'', x), (''completedAt'', Some (JStr t)), (''artifacts'', Some (jstrs (map ra_ref arts))),
         (''summary'', fst meta), (''durationMs'', snd meta)] u1 = (Inr (), s')"
      by (force simp: process_work_def sthen_def sbind_Inr_iff split: option.splits if_splits)
    show ?thesis
      using updateRedis_field [OF u assms, of "''status''"] updateRedis_field [OF u assms, of "''artifacts''"] by simp
  qed
  have failed: "\<exists>s'. sbind iso_now (\<lambda>t. sthen (updateRedisStatus m (qj_leaseId q) ''failed''
        [(''jobId'', x), (''error'', Some (JStr (error_message e))), (''failedAt'', Some (JStr t)), (''attempt'', y)])
        (sthrow e)) u = (Inl e :: js_error + remote_artifact list, s')
      \<and> lease_field s' (qj_leaseId q) ''status'' = Some (JStr ''failed'')
      \<and> lease_field s' (qj_leaseId q) ''error'' = Some (JStr (error_message e))"
    for x y u and e :: js_error
  proof -
    obtain t u1 where "iso_now u = (Inr t, u1)" using iso_now_ok by blast
    moreover obtain u2 where u: "updateRedisStatus m (qj_leaseId q) ''failed''
        [(''jobId'', x), (''error'', Some (JStr (error_message e))), (''failedAt'', Some (JStr t)), (''attempt'', y)] u1
        = (Inr (), u2)"
      using updateRedis_ok by blast
    ultimately show ?thesis
      using updateRedis_field [OF u assms, of "''status''"] updateRedis_field [OF u assms, of "''error''"]
      by (simp add: sm_simps)
  qed
  obtain t0 s0 where i: "iso_now s = (Inr t0, s0)" using iso_now_ok by blast
  obtain s1 where a: "updateRedisStatus m (qj_leaseId q) ''active'' [(''jobId'', Some (JStr (qj_id q))),
      (''startedAt'', Some (JStr t0)), (''attempt'', Some (jnat (qj_attemptsMade q + 1)))] s0 = (Inr (), s1)"
    using updateRedis_ok by blast
  obtain r s2 where w: "process_work h m stack q s1 = (r, s2)" by fastforce
  show ?thesis
  proof (cases r)
    case (Inr arts)
    with completed [of s1 arts s2] w show ?thesis
      unfolding process_job_def sbind_ok [where m = iso_now, OF i] sthen_def sbind_ok [where m = "updateRedisStatus m l st x" for l st x, OF a] by simp
  next
    case (Inl e)
    with failed [of "Some (JStr (qj_id q))" e "Some (jnat (qj_attemptsMade q + 1))" s2] w show ?thesis
      unfolding process_job_def sbind_ok [where m = iso_now, OF i] sthen_def sbind_ok [where m = "updateRedisStatus m l st x" for l st x, OF a]
      by (elim exE conjE) simp
  qed
qed

theorem worker_reports_outcome_witness:
  "\<forall>h stack. \<exists>e s'. process_job h demo_remote_host stack (demo_queue_job\<lparr>qj_shardId := None\<rparr>) demo_remote = (Inl e, s')
     \<and> lease_field s' ''lease-1'' ''status'' = Some (JStr ''failed'')"
proof (intro allI)
  fix h stack
  have "\<exists>e s'. process_job h demo_remote_host stack (demo_queue_job\<lparr>qj_shardId := None\<rparr>) demo_remote = (Inl e, s')"
    by (simp add: process_job_def process_work_def iso_now_def updateRedisStatus_def sm_simps on_loops_def now_def
        demo_remote_host_def Let_def)
  then show "\<exists>e s'. process_job h demo_remote_host stack (demo_queue_job\<lparr>qj_shardId := None\<rparr>) demo_remote = (Inl e, s')
     \<and> lease_field s' ''lease-1'' ''status'' = Some (JStr ''failed'')"
    using worker_reports_outcome [where m = demo_remote_host and h = h and stack = stack and s = demo_remote
        and q = "demo_queue_job\<lparr>qj_shardId := None\<rparr>"]
    by (auto simp: demo_remote_host_def demo_queue_job_def)
qed

subsection \<open>An agent that fails\<close>

lemma on_loops_sbind: "on_loops (sbind m k) s = sbind (on_loops m) (\<lambda>x. on_loops (k x)) s"
  by (simp add: on_loops_def sbind_def split: prod.splits sum.splits)

lemma on_loops_ok: "m (rs_fs s) = (r, g) \<Longrightarrow> on_loops m s = (r, s\<lparr>rs_fs := g\<rparr>)"
  by (simp add: on_loops_def)

lemma progress_shards:
  "map_of (fs_shards (writeShardProgress i k a b c shards st anns f)) i = Some shards"
  by (simp add: writeShardProgress_def Let_def store_simps split: option.splits)

text \<open>An error of the agent leaves the handler of an implementation job as an error: no failed
  result is returned, no \<open>worker.log\<close> is written, and the shard stays \<open>IN_PROGRESS\<close>. The handler
  returns the promise of the job without awaiting it, so its \<open>catch\<close> covers the reading only.\<close>

theorem agent_error_escapes_remote_job:
  assumes "readDetail (rj_issueId job) (tick (rs_fs s)) = (Inr d, g)"
    and "List.find (\<lambda>x. sh_id x = rj_shardId job) (d_shards d) = Some shard"
    and "rj_runtimeBackend job \<noteq> DOCKER_RUNTIME"
    and "\<And>n. lh_claude h (d_issue d) shard (st_round (d_state d)) (i_targetRepo (d_issue d)) n = Inl e"
  shows "\<exists>s'. executeRemoteShardJob h m stack job WORK_IMPLEMENT s = (Inl e, s') \<and> rs_files s' = rs_files s
    \<and> map_of (fs_shards (rs_fs s')) (rj_issueId job)
        = Some (set_status (rj_shardId job) SHARD_IN_PROGRESS (d_shards d))"
proof -
  have agent: "remote_implementation h m job (d_issue d) shard (st_round (d_state d)) f = (Inl e, tick f)" for f
    using assms(3,4) by (cases "rj_runtimeBackend job") (simp_all add: remote_implementation_def sbind_app call_def)
  have run: "executeRemoteShardJob h m stack job WORK_IMPLEMENT s
      = executeImplementationJob h m job d shard (clock (rs_fs s)) (s\<lparr>rs_fs := g\<rparr>)"
    using assms(1,2) by (simp add: executeRemoteShardJob_def sbind_app on_loops_def now_def)
  show ?thesis
    unfolding run executeImplementationJob_def Let_def
    by (simp add: sm_simps on_loops_def agent now_def progress_shards tick_def)
qed

lemma detail_of_tick:
  assumes "states_wf f" and "i \<noteq> []"
  shows "detail_of i (ensureInitialized (tick f)) = detail_of i (ensureInitialized f)"
proof -
  have "same_issue i f (tick f)" by (simp add: same_issue_def tick_def stateOf_def readState_def log_of_def)
  moreover have "states_wf (tick f)" using assms(1) by (simp add: states_wf_def tick_def)
  ultimately show ?thesis using assms detail_of_same by (simp add: detail_of_ensureInitialized)
qed

theorem agent_error_escapes_remote_job_witness:
  "\<forall>h :: loops_host. \<exists>s'. executeRemoteShardJob
      (h\<lparr>lh_claude := (\<lambda>_ _ _ _ _. Inl (PlainError ''agent crashed''))\<rparr>) demo_remote_host error_message
      (qj_job demo_queue_job) WORK_IMPLEMENT
      (demo_remote\<lparr>rs_fs := demo_fs ISSUE_OPEN (one_shard_state 0) [sample_shard ''shard-1'' [] SHARD_TODO]\<rparr>)
      = (Inl (PlainError ''agent crashed''), s') \<and> rs_files s' = []"
proof (intro allI)
  fix h :: loops_host
  let ?f = "demo_fs ISSUE_OPEN (one_shard_state 0) [sample_shard ''shard-1'' [] SHARD_TODO]"
  have "\<exists>d g. readDetail ''issue-1'' (tick ?f) = (Inr d, g) \<and> d_shards d = [sample_shard ''shard-1'' [] SHARD_TODO]"
    using demo_read [of "one_shard_state 0" h ISSUE_OPEN "[sample_shard ''shard-1'' [] SHARD_TODO]"]
      one_shard_demo(4) [of h 0 "[sample_shard ''shard-1'' [] SHARD_TODO]"]
    by (auto simp: getIssue_def sbind_app readDetail_eq one_shard_parts detail_of_tick demo_wf split: sum.splits)
      (metis enriched_parts(2))
  then obtain d g where d: "readDetail ''issue-1'' (tick ?f) = (Inr d, g)"
      "d_shards d = [sample_shard ''shard-1'' [] SHARD_TODO]"
    by blast
  show "\<exists>s'. executeRemoteShardJob
      (h\<lparr>lh_claude := (\<lambda>_ _ _ _ _. Inl (PlainError ''agent crashed''))\<rparr>) demo_remote_host error_message
      (qj_job demo_queue_job) WORK_IMPLEMENT (demo_remote\<lparr>rs_fs := ?f\<rparr>)
      = (Inl (PlainError ''agent crashed''), s') \<and> rs_files s' = []"
    using agent_error_escapes_remote_job [of "qj_job demo_queue_job" "demo_remote\<lparr>rs_fs := ?f\<rparr>" d g
      "sample_shard ''shard-1'' [] SHARD_TODO"
      "h\<lparr>lh_claude := (\<lambda>_ _ _ _ _. Inl (PlainError ''agent crashed''))\<rparr>" "PlainError ''agent crashed''"
      demo_remote_host error_message] d
    by (auto simp: demo_queue_job_def demo_remote_def sample_shard_def)
qed

subsection \<open>Where the artifacts of a job are\<close>

definition outside_loops :: "(string \<times> remote_file) list \<Rightarrow> (string \<times> remote_file) list \<Rightarrow> bool" where
  "outside_loops fl0 fl \<longleftrightarrow> (\<forall>p. \<not> starts_with ''.loops/'' p \<longrightarrow> map_of fl p = map_of fl0 p)"

interpretation artifacts: job_writes "\<lambda>_. True" i "\<lambda>_ _. True" "outside_loops fl0" "''.loops/'' @ r" for i fl0 r
  by unfold_locales (simp_all add: outside_loops_def update_conv')

text \<open>Whatever a remote job writes below \<open>.loops/\<close>, the reader of job artifacts, and so the upload,
  sees none of it: the artifacts of an executed job are stored under their display path, which the
  reader takes relative to the store.\<close>

theorem job_artifacts_not_readable:
  assumes "rj_artifactRoot job = ''.loops/'' @ r"
  shows "readRemoteRunnerArtifact runnerId jobId kind (snd (executeRemoteShardJob h m stack job w s))
    = readRemoteRunnerArtifact runnerId jobId kind s"
proof -
  have "outside_loops (rs_files s) (rs_files (snd (executeRemoteShardJob h m stack job w s)))"
    using sat_keeps [OF artifacts.shard_job_sat [OF assms refl], of "rs_files s" s] by (simp add: outside_loops_def)
  moreover have "\<not> starts_with ''.loops/'' (''runs/'' @ p)" for p by simp
  ultimately show ?thesis
    by (auto simp: outside_loops_def readRemoteRunnerArtifact_def Let_def)
qed

theorem job_artifacts_not_readable_witness:
  "\<forall>h m stack. readRemoteRunnerArtifact ''remote-runner-primary'' ''job-1'' ''manifest''
     (snd (executeRemoteShardJob h m stack (qj_job demo_queue_job) WORK_REVIEW demo_remote)) = None"
  by (intro allI, subst job_artifacts_not_readable [where r = "''runs/remote-runner-primary/leases''"])
    (simp_all add: demo_queue_job_def demo_remote_def readRemoteRunnerArtifact_def Let_def)

end
