(* ===== verification/Webhooks.thy ===== *)
theory Webhooks
  imports Issues Runner
begin

text \<open>
  Webhook intake: \<open>webhookTrigger\<close> of \<open>loops.service.ts\<close> and its parts. The size limit, the
  signature check and the rate limit come first; then the payload is mapped to an issue request,
  with the enrichment of its source and with its sensitive keys redacted.

  Parameters: the process environment, the numbers that two of its variables hold (\<open>None\<close> when
  \<open>Number\<close> gives \<open>NaN\<close> or an infinity), and HMAC-SHA256 as a function of key and message to the hex
  digest. Letters are lowered and raised in ASCII.
\<close>

subsection \<open>Data\<close>

datatype webhook_source = SRC_GITHUB | SRC_LINEAR | SRC_JIRA | SRC_SLACK | SRC_SCHEDULE | SRC_GENERIC

fun source_str :: "webhook_source \<Rightarrow> string" where
  "source_str SRC_GITHUB = ''github''"
| "source_str SRC_LINEAR = ''linear''"
| "source_str SRC_JIRA = ''jira''"
| "source_str SRC_SLACK = ''slack''"
| "source_str SRC_SCHEDULE = ''schedule''"
| "source_str SRC_GENERIC = ''generic''"

fun source_kind :: "webhook_source \<Rightarrow> loop_source_kind" where
  "source_kind SRC_GITHUB = KIND_GITHUB"
| "source_kind SRC_LINEAR = KIND_LINEAR"
| "source_kind SRC_JIRA = KIND_JIRA"
| "source_kind SRC_SLACK = KIND_SLACK"
| "source_kind SRC_SCHEDULE = KIND_SCHEDULE"
| "source_kind SRC_GENERIC = KIND_GENERIC"

record webhook_trigger =
  wt_source :: webhook_source
  wt_event :: string
  wt_payload :: "(string \<times> json) list"
  wt_signatureHeader :: "string option"
  wt_signature :: "string option"
  wt_secretRef :: "string option"

record webhook_response =
  wp_loopId :: string
  wp_issueId :: string
  wp_source :: webhook_source
  wp_event :: string
  wp_created :: bool
  wp_message :: string

record webhook_env =
  we_env :: "string \<Rightarrow> string option"
  we_maxPayload :: "rat option"
  we_rateLimit :: "rat option"
  we_hmac :: "string \<Rightarrow> string \<Rightarrow> string"

record rate_window =
  rw_count :: nat
  rw_resetAt :: timestamp

record webhook_store =
  wk_fs :: fs
  wk_windows :: "(string \<times> rate_window) list"

definition in_store :: "(fs, 'a) sm \<Rightarrow> (webhook_store, 'a) sm" where
  "in_store m = (\<lambda>s. case m (wk_fs s) of (r, f) \<Rightarrow> (r, s\<lparr>wk_fs := f\<rparr>))"

subsection \<open>JSON text\<close>

definition hex_char :: "nat \<Rightarrow> char" where
  "hex_char n = (if n < 10 then char_of (48 + n) else char_of (87 + n))"

definition quote_char :: "char \<Rightarrow> string" where
  "quote_char c = (let n = of_char c :: nat in
     if c = CHR 0x22 \<or> c = CHR 0x5C then [CHR 0x5C, c]
     else if n = 8 then [CHR 0x5C, CHR ''b''] else if n = 9 then [CHR 0x5C, CHR ''t'']
     else if n = 10 then [CHR 0x5C, CHR ''n''] else if n = 12 then [CHR 0x5C, CHR ''f'']
     else if n = 13 then [CHR 0x5C, CHR ''r'']
     else if n < 32 then [CHR 0x5C] @ ''u00'' @ [hex_char (n div 16), hex_char (n mod 16)]
     else [c])"

definition json_quote :: "string \<Rightarrow> string" where
  "json_quote s = [CHR 0x22] @ concat (map quote_char s) @ [CHR 0x22]"

text \<open>\<open>JSON.stringify(v)\<close>, and \<open>JSON.stringify(v, null, 2)\<close> at an indentation.\<close>

fun json_text :: "(rat \<Rightarrow> string) \<Rightarrow> json \<Rightarrow> string"
  and field_text :: "(rat \<Rightarrow> string) \<Rightarrow> string \<times> json \<Rightarrow> string" where
  "json_text num JNull = ''null''"
| "json_text num (JBool b) = (if b then ''true'' else ''false'')"
| "json_text num (JNum r) = num r"
| "json_text num (JStr s) = json_quote s"
| "json_text num (JArr xs) = ''['' @ js_join '','' (map (json_text num) xs) @ '']''"
| "json_text num (JObj kvs) = ''{'' @ js_join '','' (map (field_text num) kvs) @ ''}''"
| "field_text num (k, v) = json_quote k @ '':'' @ json_text num v"

definition indent :: "nat \<Rightarrow> string" where
  "indent n = CHR 0x0A # replicate n (CHR 0x20)"

fun json_pretty :: "(rat \<Rightarrow> string) \<Rightarrow> nat \<Rightarrow> json \<Rightarrow> string"
  and field_pretty :: "(rat \<Rightarrow> string) \<Rightarrow> nat \<Rightarrow> string \<times> json \<Rightarrow> string" where
  "json_pretty num n JNull = ''null''"
| "json_pretty num n (JBool b) = (if b then ''true'' else ''false'')"
| "json_pretty num n (JNum r) = num r"
| "json_pretty num n (JStr s) = json_quote s"
| "json_pretty num n (JArr xs) = (if xs = [] then ''[]''
     else ''['' @ indent (n + 2) @ js_join ('','' @ indent (n + 2)) (map (json_pretty num (n + 2)) xs) @ indent n @ '']'')"
| "json_pretty num n (JObj kvs) = (if kvs = [] then ''{}''
     else ''{'' @ indent (n + 2) @ js_join ('','' @ indent (n + 2)) (map (field_pretty num (n + 2)) kvs) @ indent n @ ''}'')"
| "field_pretty num n (k, v) = json_quote k @ '': '' @ json_pretty num n v"

subsection \<open>Size, signature and rate\<close>

definition webhookMaxPayloadBytes :: "webhook_env \<Rightarrow> nat" where
  "webhookMaxPayloadBytes e = (case we_maxPayload e of
     Some r \<Rightarrow> if 0 < r then nat \<lfloor>r\<rfloor> else 64 * 1024 | None \<Rightarrow> 64 * 1024)"

definition assertWebhookPayloadSize ::
    "webhook_env \<Rightarrow> webhook_trigger \<Rightarrow> (webhook_store, unit) sm" where
  "assertWebhookPayloadSize e input = sbind sget (\<lambda>s.
     sguard (length (json_text (env_num (fs_env (wk_fs s))) (JObj (wt_payload input))) \<le> webhookMaxPayloadBytes e)
       (BadRequest (''Webhook payload exceeds '' @ nat_str (webhookMaxPayloadBytes e) @ '' byte limit'')))"

definition webhookRateLimitPerMinute :: "webhook_env \<Rightarrow> nat" where
  "webhookRateLimitPerMinute e = (case we_rateLimit e of
     Some r \<Rightarrow> if 0 \<le> r then nat \<lfloor>r\<rfloor> else 60 | None \<Rightarrow> 60)"

definition rate_key :: "webhook_trigger \<Rightarrow> string" where
  "rate_key input = source_str (wt_source input) @ '':'' @ wt_event input"

text \<open>The window of a key at a time, with the call counted.\<close>

definition counted_window :: "(string \<times> rate_window) list \<Rightarrow> string \<Rightarrow> timestamp \<Rightarrow> rate_window" where
  "counted_window ws key t =
     (let window = (case map_of ws key of
            None \<Rightarrow> \<lparr>rw_count = 0, rw_resetAt = t + 60000\<rparr>
          | Some w \<Rightarrow> if rw_resetAt w \<le> t then \<lparr>rw_count = 0, rw_resetAt = t + 60000\<rparr> else w) in
      window\<lparr>rw_count := rw_count window + 1\<rparr>)"

definition assertWebhookRateLimit ::
    "webhook_env \<Rightarrow> webhook_trigger \<Rightarrow> (webhook_store, unit) sm" where
  "assertWebhookRateLimit e input = (let limit = webhookRateLimitPerMinute e in
     if limit \<le> 0 then sret ()
     else sbind (in_store now) (\<lambda>t. sbind sget (\<lambda>s.
       let key = rate_key input; window = counted_window (wk_windows s) key t in
       sthen (smod (\<lambda>s. s\<lparr>wk_windows := AList.update key window (wk_windows s)\<rparr>))
         (sguard (rw_count window \<le> limit)
           (BadRequest (''Webhook rate limit exceeded for '' @ key))))))"

text \<open>\<open>/(?:^|[,;\s])sha256=([a-f0-9]{64})(?:$|[,;\s])/i\<close>: the digest of the first match.\<close>

definition is_hex :: "char \<Rightarrow> bool" where
  "is_hex c \<longleftrightarrow> is_digit c \<or> c \<in> set ''abcdefABCDEF''"

definition is_delimiter :: "char \<Rightarrow> bool" where
  "is_delimiter c \<longleftrightarrow> c = CHR '','' \<or> c = CHR '';'' \<or> is_space c"

definition signature_here :: "string \<Rightarrow> string option" where
  "signature_here s = (let digest = take 64 (drop 7 s) in
     if to_lower (take 7 s) = ''sha256='' \<and> length digest = 64 \<and> list_all is_hex digest
       \<and> (case drop 71 s of [] \<Rightarrow> True | c # _ \<Rightarrow> is_delimiter c) then Some digest else None)"

fun find_signature :: "bool \<Rightarrow> string \<Rightarrow> string option" where
  "find_signature bound [] = None"
| "find_signature bound (c # cs) = (case (if bound then signature_here (c # cs) else None) of
     Some d \<Rightarrow> Some d | None \<Rightarrow> find_signature (is_delimiter c) cs)"

definition extractWebhookSignature :: "string option \<Rightarrow> string option" where
  "extractWebhookSignature v = (case v of None \<Rightarrow> None | Some s \<Rightarrow> if s = [] then None
     else (let trimmed = js_trim s in
       Some (to_lower (case_option trimmed id (find_signature True trimmed)))))"

text \<open>\<open>Buffer.from(s, 'hex')\<close>: pairs of hex digits, up to the first that is none.\<close>

definition hex_val :: "char \<Rightarrow> nat" where
  "hex_val c = (if is_digit c then digit_val c else of_char (lower_char c) - 87)"

fun hex_bytes :: "string \<Rightarrow> nat list" where
  "hex_bytes (a # b # cs) = (if is_hex a \<and> is_hex b then (16 * hex_val a + hex_val b) # hex_bytes cs else [])"
| "hex_bytes cs = []"

definition webhook_secret :: "webhook_env \<Rightarrow> webhook_trigger \<Rightarrow> string option" where
  "webhook_secret e input = or_else
     (case wt_secretRef input of None \<Rightarrow> None | Some r \<Rightarrow> if r = [] then None else we_env e r)
     (we_env e ''LOOPS_WEBHOOK_SECRET'')"

definition verifyWebhookSignature ::
    "webhook_env \<Rightarrow> webhook_trigger \<Rightarrow> (webhook_store, unit) sm" where
  "verifyWebhookSignature e input = sbind sget (\<lambda>s.
     let secret = case_option [] id (webhook_secret e input) in
     case extractWebhookSignature (or_else (wt_signature input) (wt_signatureHeader input)) of
       None \<Rightarrow> sguard (secret = [])
         (BadRequest ''Webhook signing secret is configured but no signature was provided'')
     | Some provided \<Rightarrow>
         if provided = [] then sguard (secret = [])
           (BadRequest ''Webhook signing secret is configured but no signature was provided'')
         else if secret = [] then
           sthrow (BadRequest ''Webhook signature provided but no signing secret is configured'')
         else sguard (hex_bytes provided
               = hex_bytes (we_hmac e secret (json_text (env_num (fs_env (wk_fs s))) (JObj (wt_payload input)))))
           (BadRequest ''Webhook signature verification failed''))"

subsection \<open>Reading the payload\<close>

text \<open>\<open>v[key]\<close> for the keys the mapping asks for, which only objects have.\<close>

definition js_prop :: "string \<Rightarrow> json \<Rightarrow> json option" where
  "js_prop k v = (case v of JObj kvs \<Rightarrow> map_of kvs k | _ \<Rightarrow> None)"

definition nullish :: "json option \<Rightarrow> json \<Rightarrow> json" where
  "nullish v dflt = (case v of None \<Rightarrow> dflt | Some JNull \<Rightarrow> dflt | Some x \<Rightarrow> x)"

definition text_of :: "json option \<Rightarrow> string option" where
  "text_of v = (case v of Some (JStr s) \<Rightarrow> if js_trim s = [] then None else Some (js_trim s) | _ \<Rightarrow> None)"

definition readWebhookString :: "json \<Rightarrow> string \<Rightarrow> string option" where
  "readWebhookString payload key = text_of (js_prop key payload)"

fun walk :: "string list \<Rightarrow> json option \<Rightarrow> json option" where
  "walk [] v = v"
| "walk (k # ks) v = (case v of Some (JObj kvs) \<Rightarrow> walk ks (map_of kvs k) | _ \<Rightarrow> None)"

definition readWebhookPath :: "json \<Rightarrow> string list \<Rightarrow> string option" where
  "readWebhookPath payload path = text_of (walk path (Some payload))"

fun json_strings :: "json list \<Rightarrow> string list" where
  "json_strings [] = []"
| "json_strings (JStr s # xs) = s # json_strings xs"
| "json_strings (_ # xs) = json_strings xs"

definition readWebhookStringArray :: "json \<Rightarrow> string \<Rightarrow> string list option" where
  "readWebhookStringArray payload key = (case js_prop key payload of
     Some (JArr xs) \<Rightarrow>
       let items = filter (\<lambda>s. s \<noteq> []) (map js_trim (json_strings xs)) in
       if items \<noteq> [] then Some items else None
   | _ \<Rightarrow> None)"

definition upper_char :: "char \<Rightarrow> char" where
  "upper_char c = (if 97 \<le> (of_char c :: nat) \<and> (of_char c :: nat) \<le> 122
     then char_of ((of_char c :: nat) - 32) else c)"

definition mapWebhookPriority :: "json \<Rightarrow> loop_priority" where
  "mapWebhookPriority payload =
     (let explicit = map_option (map upper_char) (readWebhookString payload ''priority'');
          labelText = to_lower (js_join '' '' (case_option [] id (readWebhookStringArray payload ''labels''))) in
      if explicit = Some ''P0'' then P0 else if explicit = Some ''P1'' then P1
      else if explicit = Some ''P2'' then P2 else if explicit = Some ''P3'' then P3
      else if rtest (word (ralts [''p0'', ''sev0'', ''critical'', ''urgent'', ''blocker''])) labelText then P0
      else if rtest (word (ralts [''p1'', ''sev1'', ''high'', ''bug'', ''regression''])) labelText then P1
      else if rtest (word (ralts [''p3'', ''low'', ''docs'', ''documentation''])) labelText then P3
      else P2)"

definition js_trimEnd :: "string \<Rightarrow> string" where
  "js_trimEnd s = rev (dropWhile is_space (rev s))"

definition truncateWebhookTitle :: "string \<Rightarrow> string" where
  "truncateWebhookTitle title = (if js_length title \<le> 160 then title
     else js_trimEnd (js_slice0 157 (utf8_chunks title)) @ ''...'')"

subsection \<open>Redaction\<close>

definition SENSITIVE_PATTERN :: regex where
  "SENSITIVE_PATTERN = RAlt (ralts [''token'', ''secret'', ''password'', ''authorization''])
     (RAlt (rseqs [RStr ''api'', ROpt (RSet ''-_''), RStr ''key''])
     (RAlt (rseqs [RStr ''access'', ROpt (RSet ''-_''), RStr ''key''])
       (rseqs [RStr ''private'', ROpt (RSet ''-_''), RStr ''key''])))"

definition isSensitiveWebhookKey :: "string \<Rightarrow> bool" where
  "isSensitiveWebhookKey key = rtest SENSITIVE_PATTERN (to_lower key)"

fun redactWebhookPayload :: "json \<Rightarrow> json" and redact_field :: "string \<times> json \<Rightarrow> string \<times> json" where
  "redactWebhookPayload (JArr xs) = JArr (map redactWebhookPayload xs)"
| "redactWebhookPayload (JObj kvs) = JObj (map redact_field kvs)"
| "redactWebhookPayload v = v"
| "redact_field (k, v) = (k, if isSensitiveWebhookKey k then JStr ''[REDACTED]'' else redactWebhookPayload v)"

subsection \<open>Enrichment by source\<close>

record webhook_enrichment =
  en_title :: "string option"
  en_body :: "string option"
  en_priority :: "loop_priority option"
  en_acceptanceCriteria :: "string list option"
  en_targetRepo :: "string option"
  en_note :: "string option"

definition tagged :: "string \<Rightarrow> string option \<Rightarrow> string list" where
  "tagged label v = (case v of None \<Rightarrow> [] | Some s \<Rightarrow> [label @ s])"

definition note_of :: "string list \<Rightarrow> string option" where
  "note_of parts = (let note = js_join '' | '' parts in if note = [] then None else Some note)"

definition enrichLinearPayload :: "json \<Rightarrow> webhook_enrichment" where
  "enrichLinearPayload payload = (let data = nullish (js_prop ''data'' payload) payload;
     state = readWebhookPath data [''state'', ''name''];
     priorityLabel = readWebhookString data ''priorityLabel'' in
     \<lparr>en_title = readWebhookString data ''title'', en_body = readWebhookString data ''description'',
      en_priority = Some (if priorityLabel = Some ''Urgent'' then P0
        else if priorityLabel = Some ''High'' then P1 else if priorityLabel = Some ''Low'' then P3 else P2),
      en_acceptanceCriteria = Some [(''Verify Linear issue state '' @ [CHR 0x22]) @ case_option ''unknown'' id state
        @ ([CHR 0x22] @ '' resolves correctly'')],
      en_targetRepo = None,
      en_note = note_of (tagged ''Team: '' (readWebhookPath data [''team'', ''name''])
        @ tagged ''State: '' state @ tagged ''Assignee: '' (readWebhookPath data [''assignee'', ''name'']))\<rparr>)"

definition enrichJiraPayload :: "json \<Rightarrow> webhook_enrichment" where
  "enrichJiraPayload payload = (let issue = nullish (js_prop ''issue'' payload) (JObj []);
     fields = nullish (js_prop ''fields'' issue) (JObj []); issueKey = readWebhookString issue ''key'';
     priorityName = readWebhookPath fields [''priority'', ''name''] in
     \<lparr>en_title = or_else (readWebhookString fields ''summary'') issueKey,
      en_body = readWebhookString fields ''description'',
      en_priority = Some (if priorityName = Some ''Highest'' \<or> priorityName = Some ''Blocker'' then P0
        else if priorityName = Some ''High'' then P1
        else if priorityName = Some ''Low'' \<or> priorityName = Some ''Lowest'' then P3 else P2),
      en_acceptanceCriteria = Some [''Jira issue '' @ case_option ''unknown'' id issueKey
        @ '' migrated to DofeAI delivery''],
      en_targetRepo = None,
      en_note = note_of (tagged ''Key: '' issueKey
        @ tagged ''Type: '' (readWebhookPath fields [''issuetype'', ''name''])
        @ tagged ''Project: '' (readWebhookPath fields [''project'', ''name''])
        @ tagged ''Labels: '' (map_option (js_join '', '') (readWebhookStringArray fields ''labels'')))\<rparr>)"

text \<open>\<open>s.replace(/<@[A-Z0-9]+>/g, '')\<close>.\<close>

definition is_mention_char :: "char \<Rightarrow> bool" where
  "is_mention_char c \<longleftrightarrow> is_digit c \<or> (65 \<le> (of_char c :: nat) \<and> (of_char c :: nat) \<le> 90)"

function strip_mentions :: "string \<Rightarrow> string" where
  "strip_mentions [] = []"
| "strip_mentions (c # cs) =
     (let name = takeWhile is_mention_char (drop 1 cs); rest = dropWhile is_mention_char (drop 1 cs) in
      if c = CHR ''<'' \<and> starts_with ''@'' cs \<and> name \<noteq> [] \<and> starts_with ''>'' rest
      then strip_mentions (drop 1 rest) else c # strip_mentions cs)"
  by pat_completeness auto
termination
proof (relation "measure length")
  show "(drop 1 rest, c # cs) \<in> measure length"
    if "rest = dropWhile is_mention_char (drop 1 cs)" for c :: char and cs rest
    using that length_dropWhile_le [of is_mention_char "drop 1 cs"] by simp
qed simp_all

definition enrichSlackPayload :: "string \<Rightarrow> json \<Rightarrow> webhook_enrichment" where
  "enrichSlackPayload event payload = (let eventData = nullish (js_prop ''event'' payload) (JObj []);
     body = case_option (''Slack '' @ event) id
       (or_else (readWebhookString payload ''text'') (readWebhookString eventData ''text'')) in
     \<lparr>en_title = Some (''Slack '' @ event @ '' request''), en_body = Some (js_trim (strip_mentions body)),
      en_priority = Some P2,
      en_acceptanceCriteria = Some [''Slack request processed and acknowledged'',
        ''Deliverable defined from description''],
      en_targetRepo = None,
      en_note = note_of (tagged ''From: @'' (readWebhookString payload ''user_name'')
        @ tagged ''#'' (readWebhookString payload ''channel_name'')
        @ tagged ''Channel: '' (readWebhookString eventData ''channel'')
        @ tagged ''Team: '' (readWebhookString payload ''team_domain''))\<rparr>)"

definition enrichWebhookFromSource :: "webhook_source \<Rightarrow> string \<Rightarrow> json \<Rightarrow> webhook_enrichment" where
  "enrichWebhookFromSource source event payload = (case source of
     SRC_LINEAR \<Rightarrow> enrichLinearPayload payload
   | SRC_JIRA \<Rightarrow> enrichJiraPayload payload
   | SRC_SLACK \<Rightarrow> enrichSlackPayload event payload
   | _ \<Rightarrow> \<lparr>en_title = None, en_body = None, en_priority = None, en_acceptanceCriteria = None,
            en_targetRepo = None, en_note = None\<rparr>)"

subsection \<open>The issue request\<close>

text \<open>\<open>a ?? b ?? ...\<close>\<close>

fun first_some :: "'a option list \<Rightarrow> 'a option" where
  "first_some [] = None"
| "first_some (None # xs) = first_some xs"
| "first_some (Some x # xs) = Some x"

definition mapped_title :: "webhook_enrichment \<Rightarrow> json \<Rightarrow> string option" where
  "mapped_title en payload = first_some [en_title en, readWebhookString payload ''title'',
     readWebhookPath payload [''issue'', ''title''], readWebhookPath payload [''pull_request'', ''title''],
     readWebhookPath payload [''data'', ''title''], readWebhookPath payload [''resource'', ''title'']]"

definition mapped_body :: "webhook_enrichment \<Rightarrow> json \<Rightarrow> string option" where
  "mapped_body en payload = first_some [en_body en, readWebhookString payload ''body'',
     readWebhookString payload ''description'', readWebhookString payload ''text'',
     readWebhookPath payload [''issue'', ''body''], readWebhookPath payload [''pull_request'', ''body''],
     readWebhookPath payload [''data'', ''description'']]"

definition webhook_body ::
    "(rat \<Rightarrow> string) \<Rightarrow> webhook_trigger \<Rightarrow> string \<Rightarrow> webhook_enrichment \<Rightarrow> string" where
  "webhook_body num input receivedAt en = (let payload = JObj (wt_payload input) in
     ''**Source**: '' @ source_str (wt_source input) @ ([CHR 0x0A] @ ''**Event**: '') @ wt_event input
     @ ([CHR 0x0A] @ ''**Received At**: '') @ receivedAt
     @ (case en_note en of None \<Rightarrow> []
        | Some note \<Rightarrow> ([CHR 0x0A, CHR 0x0A] @ ''**'') @ source_str (wt_source input) @ ('' Context**:'' @ [CHR 0x0A]) @ note)
     @ (case mapped_body en payload of None \<Rightarrow> []
        | Some b \<Rightarrow> if b = [] then [] else ([CHR 0x0A, CHR 0x0A] @ ''**Mapped Summary**:'' @ [CHR 0x0A]) @ js_trim b)
     @ ([CHR 0x0A, CHR 0x0A] @ ''**Payload**:'' @ [CHR 0x0A, CHR 0x60, CHR 0x60, CHR 0x60] @ ''json'' @ [CHR 0x0A]) @ json_pretty num 0 (redactWebhookPayload payload) @ [CHR 0x0A, CHR 0x60, CHR 0x60, CHR 0x60])"

definition buildWebhookIssueRequest ::
    "webhook_env \<Rightarrow> (rat \<Rightarrow> string) \<Rightarrow> webhook_trigger \<Rightarrow> string \<Rightarrow> create_issue_request" where
  "buildWebhookIssueRequest e num input receivedAt = (let payload = JObj (wt_payload input);
     en = enrichWebhookFromSource (wt_source input) (wt_event input) payload in
     \<lparr>cr_title = truncateWebhookTitle (''['' @ source_str (wt_source input) @ '':'' @ wt_event input @ ''] ''
        @ case_option (''Webhook trigger at '' @ receivedAt) id (mapped_title en payload)),
      cr_targetRepo = case_option ''.'' id (first_some [en_targetRepo en, readWebhookString payload ''targetRepo'',
        readWebhookString payload ''target_repo'', we_env e ''LOOPS_WORKSPACE_ROOT'']),
      cr_body = webhook_body num input receivedAt en,
      cr_priority = case_option (mapWebhookPriority payload) id (en_priority en),
      cr_acceptanceCriteria = case_option [''Webhook event successfully mapped to issue''] id
        (first_some [en_acceptanceCriteria en, readWebhookStringArray payload ''acceptanceCriteria'',
          readWebhookStringArray payload ''acceptance_criteria'']),
      cr_submitter = None, cr_submitterId = None, cr_submitterName = None,
      cr_sourceChannel = Some CHANNEL_WEBHOOK, cr_sourceKind = Some (source_kind (wt_source input)),
      cr_tenantContext = None\<rparr>)"

record label_mapping =
  lm_labels :: "string list"
  lm_blueprintId :: string
  lm_priority :: loop_priority

text \<open>\<open>labels.map((l) => l.name)\<close> and the filter after it; reading a property of \<open>null\<close> throws.\<close>

fun label_names :: "json list \<Rightarrow> js_error + string list" where
  "label_names [] = Inr []"
| "label_names (l # ls) = (if l = JNull
     then Inl (PlainError (''Cannot read properties of null (reading '' @ [CHR 0x27] @ ''name'' @ [CHR 0x27] @ '')''))
     else map_sum id (\<lambda>names. (case js_prop ''name'' l of
         Some (JStr s) \<Rightarrow> if s = [] then [] else [s] | _ \<Rightarrow> []) @ names) (label_names ls))"

definition has_any :: "string list \<Rightarrow> string list \<Rightarrow> bool" where
  "has_any labelSet names \<longleftrightarrow> list_ex (\<lambda>n. n \<in> set labelSet) names"

definition label_priority :: "string list \<Rightarrow> loop_priority" where
  "label_priority ls = (if has_any ls [''p0'', ''critical'', ''blocker''] then P0
     else if has_any ls [''p1'', ''high'', ''bug''] then P1
     else if has_any ls [''p3'', ''low'', ''docs''] then P3 else P2)"

definition label_blueprint :: "string list \<Rightarrow> string" where
  "label_blueprint ls = (if has_any ls [''feature'', ''enhancement''] then ''bp-feature''
     else if has_any ls [''refactor'', ''tech-debt''] then ''bp-refactor''
     else if has_any ls [''documentation'', ''docs''] then ''bp-docs''
     else if has_any ls [''security'', ''vulnerability''] then ''bp-security''
     else if has_any ls [''dependencies'', ''dependabot''] then ''bp-dependency''
     else if has_any ls [''integration'', ''api''] then ''bp-integration''
     else ''bp-bugfix'')"

definition mapGitHubLabelsToBlueprint ::
    "webhook_trigger \<Rightarrow> (webhook_store, label_mapping option) sm" where
  "mapGitHubLabelsToBlueprint input = (if wt_source input \<noteq> SRC_GITHUB then sret None
     else let payload = JObj (wt_payload input);
       rawLabels = case_option [] id (readWebhookStringArray payload ''labels'') in
       case (case js_prop ''labels'' payload of Some (JArr ls) \<Rightarrow> label_names ls | _ \<Rightarrow> Inr []) of
         Inl e \<Rightarrow> sthrow e
       | Inr names \<Rightarrow> let labels = rawLabels @ names; labelSet = map to_lower labels in
           if labels = [] then sret None
           else sret (Some \<lparr>lm_labels = labels, lm_blueprintId = label_blueprint labelSet,
             lm_priority = label_priority labelSet\<rparr>))"

definition labelled_request :: "label_mapping option \<Rightarrow> create_issue_request \<Rightarrow> create_issue_request" where
  "labelled_request mapping base = (case mapping of None \<Rightarrow> base
   | Some m \<Rightarrow> base\<lparr>cr_body := cr_body base @ ([CHR 0x0A, CHR 0x0A] @ ''---'' @ [CHR 0x0A, CHR 0xF0, CHR 0x9F, CHR 0xA4, CHR 0x96] @ '' Auto-mapped from GitHub labels: '') @ js_join '', '' (lm_labels m)
        @ ([CHR 0x0A] @ ''Blueprint: '') @ lm_blueprintId m @ ([CHR 0x0A] @ ''Priority: '') @ priority_str (lm_priority m),
      cr_priority := lm_priority m\<rparr>)"

subsection \<open>The handler\<close>

text \<open>The issue-creation port returns the id of the issue; \<open>createIssue\<close> of the facade is one.\<close>

definition webhookTrigger ::
    "webhook_env \<Rightarrow> (create_issue_request \<Rightarrow> (fs, string) sm) \<Rightarrow> webhook_trigger
     \<Rightarrow> (webhook_store, webhook_response) sm" where
  "webhookTrigger e port input = sbind (in_store now) (\<lambda>t. sbind sget (\<lambda>s0.
     sthen (assertWebhookPayloadSize e input) (sthen (verifyWebhookSignature e input)
     (sthen (assertWebhookRateLimit e input)
     (sbind (mapGitHubLabelsToBlueprint input) (\<lambda>mapping s.
       let env = fs_env (wk_fs s0);
           request = labelled_request mapping
             (buildWebhookIssueRequest e (env_num env) input (env_iso env t)) in
       case in_store (port request) s of
         (Inr i, s') \<Rightarrow> (Inr \<lparr>wp_loopId = i, wp_issueId = i, wp_source = wt_source input, wp_event = wt_event input,
             wp_created = True, wp_message = ''Loop issue '' @ i @ '' created from ''
               @ source_str (wt_source input) @ '':'' @ wt_event input\<rparr>, s')
       | (Inl x, s') \<Rightarrow> (Inr \<lparr>wp_loopId = [], wp_issueId = [], wp_source = wt_source input, wp_event = wt_event input,
             wp_created = False, wp_message = ''Failed to create issue: '' @ error_message x\<rparr>, s')))))))"

end
