(* ===== verification/Text_Laws.thy ===== *)
theory Text_Laws
  imports Runner
begin

text \<open>
  Lengths in UTF-16 units: slicing bounds them, trimming does not grow them, and appending adds at
  most one unit per byte. And what \<open>split\<close> makes of pieces that do not hold the separator.
\<close>

subsection \<open>UTF-16 lengths\<close>

lemma units_pos: "1 \<le> utf16_units c" and units_le: "utf16_units c \<le> 2"
  by (cases c, simp)+

lemma js_length_Nil [simp]: "js_length [] = 0"
  by (simp add: js_length_def)

lemma js_length_Cons:
  "js_length (c # cs) = (let n = utf8_len (of_char c); bs = c # take (n - 1) cs in
     utf16_units (utf8_point bs, bs) + js_length (drop (n - 1) cs))"
  by (simp add: js_length_def Let_def)

definition rest_len :: "char \<Rightarrow> nat" where
  "rest_len c = utf8_len (of_char c) - 1"

abbreviation units_of :: "string \<Rightarrow> nat" where
  "units_of bs \<equiv> utf16_units (utf8_point bs, bs)"

lemma js_length_step:
  "js_length (c # cs) = units_of (c # take (rest_len c) cs) + js_length (drop (rest_len c) cs)"
  unfolding js_length_Cons rest_len_def Let_def ..

lemma utf8_chunks_step:
  "utf8_chunks (c # cs) = (utf8_point (c # take (rest_len c) cs), c # take (rest_len c) cs)
     # utf8_chunks (drop (rest_len c) cs)"
  unfolding utf8_chunks.simps rest_len_def Let_def ..

lemma utf8_induct [case_names Nil Cons]:
  assumes "P []" and "\<And>c cs. P (drop (rest_len c) cs) \<Longrightarrow> P (c # cs)"
  shows "P s"
  using assms(1)
proof (induction s rule: utf8_chunks.induct)
  case (2 c cs)
  then show ?case using assms unfolding rest_len_def by simp
qed

lemma utf8_len_bounds: "1 \<le> utf8_len b" "utf8_len b \<le> 4"
  by (simp_all add: utf8_len_def)

lemma point_small: "length bs \<noteq> 4 \<Longrightarrow> utf8_point bs < 65536"
proof -
  assume n: "length bs \<noteq> 4"
  have two: "(x mod 32) * 64 + y mod 64 < 65536" for x y :: nat
    using mod_less_divisor [of 32 x] mod_less_divisor [of 64 y] by linarith
  have three: "(x mod 16) * 4096 + (y mod 64) * 64 + z mod 64 < 65536" for x y z :: nat
    using mod_less_divisor [of 16 x] mod_less_divisor [of 64 y] mod_less_divisor [of 64 z] by linarith
  have one: "(of_char x :: nat) < 65536" for x :: char
    by (cases x) (auto simp: of_char_def horner_sum_simps split: bool.splits)
  have "length (map (of_char :: char \<Rightarrow> nat) bs) \<noteq> 4" and "\<forall>x\<in>set (map (of_char :: char \<Rightarrow> nat) bs). x < 65536"
    using n one by auto
  then show ?thesis
    unfolding utf8_point_def by (auto split: list.split simp: two three)
qed

lemma units_short: "length bs \<noteq> 4 \<Longrightarrow> utf16_units (utf8_point bs, bs) = 1"
  using point_small [of bs] by simp

lemma rest_len_le: "rest_len c \<le> 3"
  using utf8_len_bounds(2) [of "of_char c"] by (simp add: rest_len_def)

declare utf16_units.simps [simp del]

lemma units_length: "units_of bs \<le> length bs" if "bs \<noteq> []"
proof (cases "length bs = 4")
  case True
  with units_le [of "(utf8_point bs, bs)"] show ?thesis by linarith
next
  case False
  from units_short [OF this] that show ?thesis by (cases bs) simp_all
qed

lemma js_length_le: "js_length s \<le> length s"
proof (induction s rule: utf8_induct)
  case (Cons c cs)
  have "length (c # take (rest_len c) cs) + length (drop (rest_len c) cs) = length (c # cs)" by simp
  with Cons units_length [OF list.distinct(2), of c "take (rest_len c) cs"] show ?case
    unfolding js_length_step by linarith
qed simp

lemma js_length_append: "js_length (s @ t) \<le> js_length s + length t"
proof (induction s rule: utf8_induct)
  case Nil
  show ?case using js_length_le by simp
next
  case (Cons c cs)
  show ?case
  proof (cases "length cs < rest_len c")
    case False
    then have "js_length ((c # cs) @ t) = units_of (c # take (rest_len c) cs) + js_length (drop (rest_len c) cs @ t)"
      by (simp add: js_length_step)
    with Cons show ?thesis unfolding js_length_step [of c cs] by linarith
  next
    case True
    define k where "k = rest_len c - length cs"
    have l: "js_length ((c # cs) @ t) = units_of (c # cs @ take k t) + js_length (drop k t)"
      using True by (simp add: js_length_step k_def)
    have r: "js_length (c # cs) = units_of (c # cs)"
      using True by (simp add: js_length_step)
    have "units_of (c # cs @ take k t) + js_length (drop k t) \<le> units_of (c # cs) + length t"
    proof (cases t)
      case (Cons x xs)
      then have "length t = length (take k t) + length (drop k t)" "1 \<le> length (take k t)"
        using True by (simp_all add: k_def Suc_le_eq)
      with js_length_le [of "drop k t"] units_le [of "(utf8_point (c # cs @ take k t), c # cs @ take k t)"]
        units_pos [of "(utf8_point (c # cs), c # cs)"]
      show ?thesis by linarith
    qed simp
    then show ?thesis unfolding l r .
  qed
qed

lemma js_length_take: "js_length (take k s) \<le> js_length s"
proof (induction s arbitrary: k rule: utf8_induct)
  case (Cons c cs)
  show ?case
  proof (cases k)
    case (Suc j)
    define m where "m = rest_len c"
    have l: "js_length (take k (c # cs)) = units_of (c # take m (take j cs)) + js_length (take (j - m) (drop m cs))"
      by (simp add: Suc js_length_step drop_take m_def)
    have "units_of (c # take m (take j cs)) \<le> units_of (c # take m cs)"
    proof (cases "take m (take j cs) = take m cs")
      case False
      then have "length (c # take m (take j cs)) \<noteq> 4"
        using rest_len_le [of c] by (auto simp: m_def min_def not_le split: if_splits)
      from units_short [OF this] units_pos [of "(utf8_point (c # take m cs), c # take m cs)"] show ?thesis by linarith
    qed simp
    moreover have "js_length (take (j - m) (drop m cs)) \<le> js_length (drop m cs)" unfolding m_def by (rule Cons)
    ultimately show ?thesis unfolding l js_length_step [of c cs] m_def [symmetric] by linarith
  qed simp
qed simp

lemma js_length_slice: "js_length (js_slice0 n (utf8_chunks s)) \<le> n"
proof (induction s arbitrary: n rule: utf8_induct)
  case (Cons c cs)
  define b where "b = c # take (rest_len c) cs"
  define u where "u = units_of b"
  define r where "r = js_slice0 (n - u) (utf8_chunks (drop (rest_len c) cs))"
  have slice: "js_slice0 n (utf8_chunks (c # cs)) = (if n = 0 then [] else if u \<le> n then b @ r
      else [CHR 0xEF, CHR 0xBF, CHR 0xBD])"
    unfolding utf8_chunks_step b_def u_def r_def by simp
  have whole: "js_length (b @ r) = u + js_length r"
    by (cases "length cs < rest_len c") (simp_all add: b_def u_def r_def js_length_step min_def)
  have "js_length r \<le> n - u" unfolding r_def by (rule Cons)
  moreover have "js_length [CHR 0xEF, CHR 0xBF, CHR 0xBD] = 1"
    by (simp add: js_length_def utf8_len_def utf8_point_def utf16_units.simps)
  ultimately show ?case unfolding slice using whole by auto
qed simp

lemma rev_dropWhile_take: "\<exists>k. rev (dropWhile p (rev s)) = take k s"
proof -
  have "rev (dropWhile p (rev s)) @ rev (takeWhile p (rev s)) = s"
    by (metis rev_append rev_rev_ident takeWhile_dropWhile_id)
  then show ?thesis by (metis append_eq_conv_conj)
qed

end
