(* ===== verification/Webhook_Laws.thy ===== *)
theory Webhook_Laws
  imports Webhooks Text_Laws Samples
begin

text \<open>
  What webhook intake promises: with a signing secret, nothing gets in without a matching
  signature, unless the sender names the key, which the code allows; a window admits as many calls
  as the limit says; no value of a sensitive key survives the redaction; and titles are bounded.
\<close>

subsection \<open>The signature\<close>

lemma in_store_app: "in_store m s = (fst (m (wk_fs s)), s\<lparr>wk_fs := snd (m (wk_fs s))\<rparr>)"
  by (simp add: in_store_def split: prod.splits)

lemma verified_after:
  assumes "webhookTrigger e port input s = (Inr resp, s')"
  shows "\<exists>u. verifyWebhookSignature e input u = (Inr (), u) \<and> fs_env (wk_fs u) = fs_env (wk_fs s)"
proof -
  let ?u = "s\<lparr>wk_fs := tick (wk_fs s)\<rparr>"
  have "fst (verifyWebhookSignature e input ?u) = Inr ()"
    using assms
    by (auto simp: webhookTrigger_def sm_simps in_store_app now_def assertWebhookPayloadSize_def sguard_def
        split: if_splits prod.splits sum.splits)
  moreover have "snd (verifyWebhookSignature e input ?u) = ?u"
    by (simp add: verifyWebhookSignature_def sm_simps sguard_def Let_def split: option.splits)
  ultimately show ?thesis by (intro exI [of _ ?u]) (simp add: prod_eq_iff)
qed

text \<open>C17. With a non-empty signing secret in the environment, every webhook that names no key of its own
  (\<open>secretRef\<close>) and is answered carried a signature, whose bytes are those of the HMAC of the payload under
  the secret. With a \<open>secretRef\<close> this fails: see \<open>secret_ref_disables_signature\<close>.\<close>

theorem webhook_needs_signature:
  assumes "webhookTrigger e port input s = (Inr resp, s')"
    and "we_env e ''LOOPS_WEBHOOK_SECRET'' = Some secret" and "secret \<noteq> []" and "wt_secretRef input = None"
  shows "\<exists>sig. extractWebhookSignature (or_else (wt_signature input) (wt_signatureHeader input)) = Some sig
    \<and> sig \<noteq> [] \<and> hex_bytes sig = hex_bytes (we_hmac e secret
        (json_text (env_num (fs_env (wk_fs s))) (JObj (wt_payload input))))"
proof -
  from verified_after [OF assms(1)] obtain u where u: "verifyWebhookSignature e input u = (Inr (), u)"
      "fs_env (wk_fs u) = fs_env (wk_fs s)"
    by blast
  have "webhook_secret e input = Some secret"
    using assms(2,4) by (simp add: webhook_secret_def or_else_def)
  with u assms(3) show ?thesis
    by (auto simp: verifyWebhookSignature_def sm_simps sguard_def Let_def split: option.splits if_splits)
qed

definition demo_payload :: "(string \<times> json) list" where
  "demo_payload = [(''title'', JStr ''Login fails'')]"

definition demo_webhook :: "string option \<Rightarrow> string option \<Rightarrow> webhook_trigger" where
  "demo_webhook sig ref = \<lparr>wt_source = SRC_GENERIC, wt_event = ''push'', wt_payload = demo_payload,
     wt_signatureHeader = None, wt_signature = sig, wt_secretRef = ref\<rparr>"

definition demo_env :: webhook_env where
  "demo_env = \<lparr>we_env = [''LOOPS_WEBHOOK_SECRET'' \<mapsto> ''s3cret'', ''EMPTY'' \<mapsto> []], we_maxPayload = None,
     we_rateLimit = Some 2, we_hmac = (\<lambda>key text. ''00ff'')\<rparr>"

definition demo_intake :: webhook_store where
  "demo_intake = \<lparr>wk_fs = sample_fs, wk_windows = []\<rparr>"

definition demo_port :: "create_issue_request \<Rightarrow> (fs, string) sm" where
  "demo_port request = sret ''issue-9''"

lemma demo_accepted:
  assumes "verifyWebhookSignature demo_env (demo_webhook sig ref) (demo_intake\<lparr>wk_fs := tick sample_fs\<rparr>)
      = (Inr (), demo_intake\<lparr>wk_fs := tick sample_fs\<rparr>)"
  shows "\<exists>resp s'. webhookTrigger demo_env demo_port (demo_webhook sig ref) demo_intake = (Inr resp, s') \<and> wp_created resp"
proof -
  have n: "length (json_text num (JObj demo_payload)) \<le> 65536" for num
    by (simp add: demo_payload_def json_quote_def quote_char_def Let_def)
  show ?thesis
    using assms n
    by (simp add: webhookTrigger_def sm_simps in_store_app now_def assertWebhookPayloadSize_def sguard_def
        webhookMaxPayloadBytes_def assertWebhookRateLimit_def webhookRateLimitPerMinute_def counted_window_def
        mapGitHubLabelsToBlueprint_def demo_intake_def demo_port_def Let_def)
      (simp add: demo_env_def demo_webhook_def)
qed

lemma demo_signature: "extractWebhookSignature (Some ''00FF'') = Some ''00ff''" "hex_bytes ''00ff'' = [0, 255]"
  by code_simp+

lemma demo_verified:
  "verifyWebhookSignature demo_env (demo_webhook (Some ''00FF'') None) s = (Inr (), s)"
  by (simp add: verifyWebhookSignature_def sm_simps Let_def webhook_secret_def or_else_def demo_signature
      sguard_def demo_webhook_def demo_env_def)

theorem webhook_needs_signature_witness:
  "\<exists>resp s' sig. webhookTrigger demo_env demo_port (demo_webhook (Some ''00FF'') None) demo_intake = (Inr resp, s')
     \<and> extractWebhookSignature (Some ''00FF'') = Some sig \<and> hex_bytes sig = [0, 255]"
proof -
  obtain resp s' where r: "webhookTrigger demo_env demo_port (demo_webhook (Some ''00FF'') None) demo_intake = (Inr resp, s')"
    using demo_accepted [OF demo_verified] by blast
  from webhook_needs_signature [OF r, of "''s3cret''"]
  have "\<exists>sig. extractWebhookSignature (Some ''00FF'') = Some sig \<and> hex_bytes sig = hex_bytes ''00ff''"
    by (auto simp: demo_env_def demo_webhook_def or_else_def)
  with r show ?thesis unfolding demo_signature(2) by blast
qed

text \<open>C28. A sender who names the key escapes the signature: with \<open>secretRef\<close> the name of any variable
  that is set but empty, a webhook without a signature passes the check, whatever the signing secret is.\<close>

theorem secret_ref_disables_signature:
  assumes "wt_secretRef input = Some r" and "r \<noteq> []" and "we_env e r = Some []"
    and "wt_signature input = None" and "wt_signatureHeader input = None"
  shows "verifyWebhookSignature e input s = (Inr (), s)"
proof -
  have "webhook_secret e input = Some []"
    using assms(1-3) by (simp add: webhook_secret_def or_else_def)
  with assms(4,5) show ?thesis
    by (simp add: verifyWebhookSignature_def sm_simps Let_def extractWebhookSignature_def or_else_def sguard_def)
qed

theorem secret_ref_disables_signature_witness:
  "\<exists>resp s'. webhookTrigger demo_env demo_port (demo_webhook None (Some ''EMPTY'')) demo_intake = (Inr resp, s')
     \<and> wp_created resp \<and> we_env demo_env ''LOOPS_WEBHOOK_SECRET'' = Some ''s3cret''"
proof -
  have "verifyWebhookSignature demo_env (demo_webhook None (Some ''EMPTY'')) s = (Inr (), s)" for s
    by (rule secret_ref_disables_signature [of _ "''EMPTY''"]) (simp_all add: demo_webhook_def demo_env_def)
  from demo_accepted [OF this] show ?thesis by (auto simp: demo_env_def)
qed

subsection \<open>The rate limit\<close>

text \<open>Webhooks in the order they come: which of them the limit admits.\<close>

fun admitted :: "webhook_env \<Rightarrow> webhook_trigger list \<Rightarrow> webhook_store \<Rightarrow> webhook_trigger list" where
  "admitted e [] s = []"
| "admitted e (x # xs) s = (case assertWebhookRateLimit e x s of
     (Inr _, t) \<Rightarrow> x # admitted e xs t | (Inl _, t) \<Rightarrow> admitted e xs t)"

abbreviation calls_of :: "string \<Rightarrow> webhook_trigger list \<Rightarrow> nat" where
  "calls_of key xs \<equiv> count_where (\<lambda>x. rate_key x = key) xs"

definition spent :: "webhook_store \<Rightarrow> string \<Rightarrow> nat" where
  "spent s key = (case map_of (wk_windows s) key of None \<Rightarrow> 0 | Some w \<Rightarrow> rw_count w)"

definition window_live :: "timestamp \<Rightarrow> webhook_store \<Rightarrow> string \<Rightarrow> bool" where
  "window_live t s key \<longleftrightarrow> (case map_of (wk_windows s) key of None \<Rightarrow> True | Some w \<Rightarrow> t \<le> rw_resetAt w)"

definition clock_within :: "timestamp \<Rightarrow> nat \<Rightarrow> webhook_store \<Rightarrow> bool" where
  "clock_within t n s \<longleftrightarrow> (let f = wk_fs s in
     \<forall>k. fs_ticks f \<le> k \<longrightarrow> k < fs_ticks f + n \<longrightarrow> t \<le> env_now (fs_env f) k \<and> env_now (fs_env f) k < t + 60000)"

definition rate_after :: "webhook_trigger \<Rightarrow> webhook_store \<Rightarrow> webhook_store" where
  "rate_after x s = s\<lparr>wk_fs := tick (wk_fs s), wk_windows := AList.update (rate_key x)
     (counted_window (wk_windows s) (rate_key x) (clock (wk_fs s))) (wk_windows s)\<rparr>"

lemma rate_limit_step:
  assumes "0 < webhookRateLimitPerMinute e"
  shows "snd (assertWebhookRateLimit e x s) = rate_after x s"
    and "fst (assertWebhookRateLimit e x s) = Inr () \<longleftrightarrow>
      rw_count (counted_window (wk_windows s) (rate_key x) (clock (wk_fs s))) \<le> webhookRateLimitPerMinute e"
  using assms by (auto simp: assertWebhookRateLimit_def sm_simps in_store_app now_def sguard_def rate_after_def Let_def)

lemma clock_within_step:
  "clock_within t (Suc n) s \<Longrightarrow> clock_within t n (rate_after x s)"
  "clock_within t (Suc n) s \<Longrightarrow> t \<le> clock (wk_fs s) \<and> clock (wk_fs s) < t + 60000"
  by (auto simp: clock_within_def rate_after_def tick_def clock_def Let_def)

lemma counted_live:
  assumes "window_live (t + 60000) s key" and "t \<le> now'" and "now' < t + 60000"
  shows "rw_count (counted_window (wk_windows s) key now') = Suc (spent s key)
    \<and> t + 60000 \<le> rw_resetAt (counted_window (wk_windows s) key now')"
  using assms by (auto simp: counted_window_def window_live_def spent_def Let_def split: option.splits)

lemma window_after:
  assumes "window_live (t + 60000) s key" and "t \<le> clock (wk_fs s)" and "clock (wk_fs s) < t + 60000"
  shows "window_live (t + 60000) (rate_after x s) key"
    and "spent (rate_after x s) key = (if rate_key x = key then Suc (spent s key) else spent s key)"
  using counted_live [OF assms] assms(1) by (auto simp: window_live_def spent_def rate_after_def update_conv')

lemma admitted_count:
  assumes "0 < webhookRateLimitPerMinute e" and "clock_within t (length xs) s" and "window_live (t + 60000) s key"
  shows "calls_of key (admitted e xs s) = min (webhookRateLimitPerMinute e - spent s key) (calls_of key xs)"
  using assms(2,3)
proof (induction xs arbitrary: s)
  case (Cons x xs)
  have c: "t \<le> clock (wk_fs s)" "clock (wk_fs s) < t + 60000"
    using clock_within_step(2) [of t "length xs" s] Cons.prems(1) by simp_all
  have IH: "calls_of key (admitted e xs (rate_after x s))
      = min (webhookRateLimitPerMinute e - spent (rate_after x s) key) (calls_of key xs)"
    using Cons.prems(1) by (intro Cons.IH clock_within_step(1) window_after(1) [OF Cons.prems(2) c]) simp
  have step: "admitted e (x # xs) s = (if fst (assertWebhookRateLimit e x s) = Inr () then [x] else [])
      @ admitted e xs (rate_after x s)"
    using rate_limit_step(1) [OF assms(1), of x s] by (auto split: prod.splits sum.splits)
  show ?case
  proof (cases "rate_key x = key")
    case True
    with rate_limit_step(2) [OF assms(1), of x s] counted_live [OF Cons.prems(2) c]
    have "fst (assertWebhookRateLimit e x s) = Inr () \<longleftrightarrow> spent s key < webhookRateLimitPerMinute e"
      by (simp add: Suc_le_eq)
    with True IH step window_after(2) [OF Cons.prems(2) c, of x] show ?thesis
      by (auto simp: count_where_def)
  next
    case False
    with IH step window_after(2) [OF Cons.prems(2) c, of x] show ?thesis by (simp add: count_where_def)
  qed
qed (simp add: count_where_def)

text \<open>C23. The rate limit of the webhooks: let the limit be positive and let a sequence of calls fall, by the
  clock, into one minute that begins without a window for some source and event. Then the calls of this
  source and event that are admitted number exactly the minimum of the limit and their number,
  however the calls of others are interleaved.\<close>

theorem webhook_rate_bound:
  assumes "0 < webhookRateLimitPerMinute e" and "clock_within t (length xs) s"
    and "map_of (wk_windows s) key = None"
  shows "calls_of key (admitted e xs s) = min (webhookRateLimitPerMinute e) (calls_of key xs)"
  using admitted_count [OF assms(1,2), of key] assms(3) by (simp add: window_live_def spent_def)

theorem webhook_rate_bound_witness:
  "calls_of ''generic:push'' (admitted demo_env (replicate 3 (demo_webhook None None)) demo_intake) = 2"
proof -
  have "clock_within 1000 3 demo_intake" "0 < webhookRateLimitPerMinute demo_env"
    by (simp_all add: clock_within_def demo_intake_def sample_fs_def empty_fs_def sample_env_def Let_def
        webhookRateLimitPerMinute_def demo_env_def)
  then have "calls_of ''generic:push'' (admitted demo_env (replicate 3 (demo_webhook None None)) demo_intake)
      = min (webhookRateLimitPerMinute demo_env) (calls_of ''generic:push'' (replicate 3 (demo_webhook None None)))"
    by (intro webhook_rate_bound [where t = 1000]) (simp_all add: demo_intake_def)
  also have "\<dots> = 2"
    by (simp add: webhookRateLimitPerMinute_def demo_env_def count_where_def rate_key_def demo_webhook_def numeral_3_eq_3)
  finally show ?thesis .
qed

subsection \<open>Redaction\<close>

text \<open>Every field of a sensitive key holds the placeholder.\<close>

fun no_secrets :: "json \<Rightarrow> bool" and field_safe :: "string \<times> json \<Rightarrow> bool" where
  "no_secrets (JArr xs) = list_all no_secrets xs"
| "no_secrets (JObj kvs) = list_all field_safe kvs"
| "no_secrets v = True"
| "field_safe (k, v) = (if isSensitiveWebhookKey k then v = JStr ''[REDACTED]'' else no_secrets v)"

lemma redacted_safe: "no_secrets (redactWebhookPayload v)" "field_safe (redact_field kv)"
  by (induction v and kv rule: redactWebhookPayload_redact_field.induct) (auto simp: list_all_iff)

lemma safe_unchanged: "no_secrets v \<Longrightarrow> redactWebhookPayload v = v" "field_safe kv \<Longrightarrow> redact_field kv = kv"
  by (induction v and kv rule: redactWebhookPayload_redact_field.induct)
    (auto simp: list_all_iff intro: map_idI split: if_splits)

text \<open>No value of a sensitive key survives the redaction at any depth, and a payload is left as it is
  exactly when it holds none.\<close>

theorem redaction_removes_secrets:
  "no_secrets (redactWebhookPayload v) \<and> (redactWebhookPayload v = v \<longleftrightarrow> no_secrets v)"
  using redacted_safe(1) [of v] safe_unchanged(1) [of v] by metis

subsection \<open>The title\<close>

text \<open>The title of a webhook's issue has at most 160 UTF-16 units.\<close>

theorem webhook_title_bounded: "js_length (cr_title (buildWebhookIssueRequest e num input receivedAt)) \<le> 160"
proof -
  have "js_length (truncateWebhookTitle t) \<le> 160" for t
  proof (cases "js_length t \<le> 160")
    case False
    obtain k where "js_trimEnd (js_slice0 157 (utf8_chunks t)) = take k (js_slice0 157 (utf8_chunks t))"
      using rev_dropWhile_take unfolding js_trimEnd_def by blast
    then have "js_length (js_trimEnd (js_slice0 157 (utf8_chunks t))) \<le> 157"
      using js_length_take [of k "js_slice0 157 (utf8_chunks t)"] js_length_slice [of 157 t] by simp
    with False show ?thesis
      using js_length_append [of "js_trimEnd (js_slice0 157 (utf8_chunks t))" "''...''"]
      by (simp add: truncateWebhookTitle_def)
  qed (simp add: truncateWebhookTitle_def)
  then show ?thesis by (simp add: buildWebhookIssueRequest_def Let_def)
qed

subsection \<open>Labels\<close>

lemma label_names_null: "JNull \<in> set ls \<Longrightarrow> \<exists>e. label_names ls = Inl e"
  by (induction ls) (auto split: sum.splits)

definition throws :: "('s, 'a) sm \<Rightarrow> bool" where
  "throws m \<longleftrightarrow> (\<forall>s. \<exists>x t. m s = (Inl x, t))"

lemma throws_first: "throws m \<Longrightarrow> throws (sbind m k)"
  unfolding throws_def
proof
  fix s assume "\<forall>s. \<exists>x t. m s = (Inl x, t)"
  then obtain x t where "m s = (Inl x, t)" by blast
  then show "\<exists>x t. sbind m k s = (Inl x, t)" by (simp add: sbind_app)
qed

lemma throws_then: "(\<And>y. throws (k y)) \<Longrightarrow> throws (sbind m k)"
  unfolding throws_def sbind_app by (auto split: prod.splits sum.splits)

text \<open>A \<open>null\<close> among the labels of a GitHub payload is an error of the handler, not a report that no
  issue was created: the labels are read before the block that catches errors.\<close>

theorem null_label_escapes:
  assumes "wt_source input = SRC_GITHUB" and "map_of (wt_payload input) ''labels'' = Some (JArr ls)"
    and "JNull \<in> set ls"
  shows "\<exists>x s'. webhookTrigger e port input s = (Inl x, s')"
proof -
  obtain x where "label_names ls = Inl x" using label_names_null [OF assms(3)] by blast
  with assms(1,2) have m: "throws (mapGitHubLabelsToBlueprint input)"
    by (simp add: throws_def mapGitHubLabelsToBlueprint_def js_prop_def Let_def)
  have "throws (webhookTrigger e port input)"
    unfolding webhookTrigger_def sthen_def
    by (rule throws_then, rule throws_then, rule throws_then, rule throws_then, rule throws_then) (rule throws_first [OF m])
  then show ?thesis by (simp add: throws_def)
qed

theorem null_label_escapes_witness:
  "\<exists>x s'. webhookTrigger demo_env demo_port ((demo_webhook (Some ''00FF'') None)\<lparr>wt_source := SRC_GITHUB,
     wt_payload := [(''labels'', JArr [JStr ''bug'', JNull])]\<rparr>) demo_intake = (Inl x, s')"
  by (rule null_label_escapes [of _ "[JStr ''bug'', JNull]"]) simp_all

end
