(* ===== verification/Target_Url_Laws.thy ===== *)
theory Target_Url_Laws
  imports Target_Url
begin

text \<open>
  The address policy against its meaning: the octet tests of IPv4 are membership in twelve CIDR
  blocks of 32-bit addresses, and a URL that production accepts is HTTPS, on the allowlist, and
  resolves to addresses outside them. The IPv6 test reads the first digit of the text, which is not
  the prefix it stands for.
\<close>

subsection \<open>Dotted addresses\<close>

definition dotted :: "nat \<Rightarrow> nat \<Rightarrow> nat \<Rightarrow> nat \<Rightarrow> string" where
  "dotted a b c d = nat_str a @ ''.'' @ nat_str b @ ''.'' @ nat_str c @ ''.'' @ nat_str d"

lemma split_aux_sep:
  "c \<notin> set s \<Longrightarrow> split_aux [c] acc s = [rev acc @ s]"
  "c \<notin> set s \<Longrightarrow> split_aux [c] acc (s @ c # t) = (rev acc @ s) # split_aux [c] [] t"
  by (induction s arbitrary: acc) auto

lemma dot_free: "CHR ''.'' \<notin> set (nat_str n)"
  using nat_str_digits [of n] by (auto simp: list_all_iff is_digit_def)

lemma split_dotted: "js_split ''.'' (dotted a b c d) = [nat_str a, nat_str b, nat_str c, nat_str d]"
  by (simp add: js_split_def dotted_def split_aux_sep dot_free)

subsection \<open>CIDR blocks\<close>

definition ipv4_word :: "nat \<Rightarrow> nat \<Rightarrow> nat \<Rightarrow> nat \<Rightarrow> 32 word" where
  "ipv4_word a b c d = of_nat (a * 2 ^ 24 + b * 2 ^ 16 + c * 2 ^ 8 + d)"

definition in_cidr :: "32 word \<Rightarrow> 32 word \<times> nat \<Rightarrow> bool" where
  "in_cidr w blk = (drop_bit (32 - snd blk) w = drop_bit (32 - snd blk) (fst blk))"

definition RESERVED_IPV4 :: "(32 word \<times> nat) list" where
  "RESERVED_IPV4 = [(ipv4_word 0 0 0 0, 8), (ipv4_word 10 0 0 0, 8), (ipv4_word 127 0 0 0, 8),
     (ipv4_word 224 0 0 0, 3), (ipv4_word 100 64 0 0, 10), (ipv4_word 169 254 0 0, 16),
     (ipv4_word 172 16 0 0, 12), (ipv4_word 192 0 0 0, 16), (ipv4_word 192 168 0 0, 16),
     (ipv4_word 198 18 0 0, 15), (ipv4_word 198 51 0 0, 16), (ipv4_word 203 0 0 0, 16)]"

lemma unat_of_small: "n < 2 ^ 32 \<Longrightarrow> unat (of_nat n :: 32 word) = n"
  by (simp add: unat_of_nat take_bit_nat_eq_self)

lemma unat_ipv4:
  assumes "a < 256" "b < 256" "c < 256" "d < 256"
  shows "unat (ipv4_word a b c d) = a * 2 ^ 24 + b * 2 ^ 16 + c * 2 ^ 8 + d"
  unfolding ipv4_word_def by (rule unat_of_small) (use assms in simp)

lemma in_cidr_div:
  assumes "a < 256" "b < 256" "c < 256" "d < 256" and "a' < 256" "b' < 256"
  shows "in_cidr (ipv4_word a b c d) (ipv4_word a' b' 0 0, n)
    \<longleftrightarrow> (a * 2 ^ 24 + b * 2 ^ 16 + c * 2 ^ 8 + d) div 2 ^ (32 - n)
      = (a' * 2 ^ 24 + b' * 2 ^ 16 + 0 * 2 ^ 8 + 0) div 2 ^ (32 - n)"
  unfolding in_cidr_def word_unat_eq_iff unat_drop_bit_eq fst_conv snd_conv
  by (simp only: unat_ipv4 assms zero_less_numeral drop_bit_eq_div)

text \<open>Only the first two octets decide.\<close>

lemma high_octets:
  assumes "c < (256 :: nat)" "d < 256" and "k \<le> 16"
  shows "(a * 2 ^ 24 + b * 2 ^ 16 + c * 2 ^ 8 + d) div 2 ^ (16 + k) = (a * 256 + b) div 2 ^ k"
proof -
  have "(a * 2 ^ 24 + b * 2 ^ 16 + c * 2 ^ 8 + d) div 2 ^ 16 = a * 256 + b" using assms(1,2) by simp
  then show ?thesis by (simp only: power_add div_mult2_eq)
qed

lemma in_cidr_octets:
  assumes "a < 256" "b < 256" "c < 256" "d < 256" and "a' < 256" "b' < 256" and "n \<le> 16"
  shows "in_cidr (ipv4_word a b c d) (ipv4_word a' b' 0 0, n)
    \<longleftrightarrow> (a * 256 + b) div 2 ^ (16 - n) = (a' * 256 + b') div 2 ^ (16 - n)"
proof -
  have n: "32 - n = 16 + (16 - n)" using assms(7) by simp
  show ?thesis
    unfolding in_cidr_div [OF assms(1-6)] n
    by (simp only: high_octets [OF assms(3,4) diff_le_self] high_octets [OF zero_less_numeral zero_less_numeral diff_le_self])
qed

text \<open>The blocks, by the lengths of their prefixes.\<close>

lemma octets_unique: "b < 256 \<Longrightarrow> b' < 256 \<Longrightarrow> a * 256 + b = a' * 256 + b' \<longleftrightarrow> a = a' \<and> b = (b' :: nat)"
proof -
  have "(a * 256 + b) div 256 = a \<and> (a * 256 + b) mod 256 = b" if "b < 256" for a b :: nat
    using that by simp
  then show "b < 256 \<Longrightarrow> b' < 256 \<Longrightarrow> ?thesis" by metis
qed

lemma div_range: "0 < k \<Longrightarrow> x div k = q \<longleftrightarrow> q * k \<le> x \<and> x < (q + 1) * (k :: nat)"
  using less_eq_div_iff_mult_less_eq [of k q x] div_less_iff_less_mult [of k x "q + 1"] by auto

lemma octet_range:
  assumes "b < (256 :: nat)" and "hi \<le> 256"
  shows "q * 256 + lo \<le> a * 256 + b \<and> a * 256 + b < q * 256 + hi \<longleftrightarrow> a = q \<and> lo \<le> b \<and> b < hi"
proof -
  consider "a < q" | "a = q" | "q < a" by linarith
  then show ?thesis
    by cases (use assms in linarith)+
qed

lemma div_blocks:
  assumes "a < (256 :: nat)" "b < 256"
  shows "(a * 256 + b) div 8192 = 7 \<longleftrightarrow> 224 \<le> a"
    and "(a * 256 + b) div 64 = 401 \<longleftrightarrow> a = 100 \<and> 64 \<le> b \<and> b < 128"
    and "(a * 256 + b) div 16 = 2753 \<longleftrightarrow> a = 172 \<and> 16 \<le> b \<and> b < 32"
    and "(a * 256 + b) div 2 = 25353 \<longleftrightarrow> a = 198 \<and> 18 \<le> b \<and> b < 20"
proof -
  show "(a * 256 + b) div 8192 = 7 \<longleftrightarrow> 224 \<le> a" using assms by (simp add: div_range) linarith
  show "(a * 256 + b) div 64 = 401 \<longleftrightarrow> a = 100 \<and> 64 \<le> b \<and> b < 128"
    using octet_range [OF assms(2), of 128 100 64 a] by (simp add: div_range)
  show "(a * 256 + b) div 16 = 2753 \<longleftrightarrow> a = 172 \<and> 16 \<le> b \<and> b < 32"
    using octet_range [OF assms(2), of 32 172 16 a] by (simp add: div_range)
  show "(a * 256 + b) div 2 = 25353 \<longleftrightarrow> a = 198 \<and> 18 \<le> b \<and> b < 20"
    using octet_range [OF assms(2), of 20 198 18 a] by (simp add: div_range)
qed

lemma cidr_8:
  assumes octets: "a < 256" "b < 256" "c < 256" "d < 256"
  shows "a' < 256 \<Longrightarrow> in_cidr (ipv4_word a b c d) (ipv4_word a' 0 0 0, 8) \<longleftrightarrow> a = a'"
  using in_cidr_octets [OF octets, of a' 0 8] octets by simp

lemma cidr_16:
  assumes octets: "a < 256" "b < 256" "c < 256" "d < 256"
  shows "a' < 256 \<Longrightarrow> b' < 256 \<Longrightarrow> in_cidr (ipv4_word a b c d) (ipv4_word a' b' 0 0, 16) \<longleftrightarrow> a = a' \<and> b = b'"
  using in_cidr_octets [OF octets, of a' b' 16] octets by (simp add: octets_unique)

lemma cidr_other:
  assumes octets: "a < 256" "b < 256" "c < 256" "d < 256"
  shows "in_cidr (ipv4_word a b c d) (ipv4_word 224 0 0 0, 3) \<longleftrightarrow> 224 \<le> a"
  "in_cidr (ipv4_word a b c d) (ipv4_word 100 64 0 0, 10) \<longleftrightarrow> a = 100 \<and> 64 \<le> b \<and> b < 128"
  "in_cidr (ipv4_word a b c d) (ipv4_word 172 16 0 0, 12) \<longleftrightarrow> a = 172 \<and> 16 \<le> b \<and> b < 32"
  "in_cidr (ipv4_word a b c d) (ipv4_word 198 18 0 0, 15) \<longleftrightarrow> a = 198 \<and> 18 \<le> b \<and> b < 20"
  using in_cidr_octets [OF octets, of 224 0 3] in_cidr_octets [OF octets, of 100 64 10]
    in_cidr_octets [OF octets, of 172 16 12] in_cidr_octets [OF octets, of 198 18 15]
  by (simp_all add: div_blocks [OF octets(1,2)])

lemma ipv4_policy_covers:
  assumes "a < 256" "b < 256" "c < 256" "d < 256"
  shows "isPublicIpv4 (dotted a b c d) \<longleftrightarrow> \<not> list_ex (in_cidr (ipv4_word a b c d)) RESERVED_IPV4"
proof -
  define A where "A \<longleftrightarrow> a = 10 \<or> a = 127 \<or> a = 0 \<or> a \<ge> 224"
  define B where "B \<longleftrightarrow> a = 100 \<and> b \<ge> 64 \<and> b \<le> 127"
  define C where "C \<longleftrightarrow> a = 172 \<and> b \<ge> 16 \<and> b \<le> 31"
  define D where "D \<longleftrightarrow> a = 198 \<and> (b = 18 \<or> b = 19 \<or> b = 51)"
  have "isPublicIpv4 (dotted a b c d) \<longleftrightarrow> \<not> A \<and> \<not> B \<and> \<not> (a = 169 \<and> b = 254) \<and> \<not> C
      \<and> \<not> (a = 192 \<and> (b = 0 \<or> b = 168)) \<and> \<not> D \<and> \<not> (a = 203 \<and> b = 0)"
    unfolding isPublicIpv4_def split_dotted A_def B_def C_def D_def by (simp add: Let_def)
  moreover have "list_ex (in_cidr (ipv4_word a b c d)) RESERVED_IPV4 \<longleftrightarrow>
      (a = 0 \<or> a = 10 \<or> a = 127 \<or> 224 \<le> a) \<or> (a = 100 \<and> 64 \<le> b \<and> b < 128) \<or> (a = 169 \<and> b = 254)
      \<or> (a = 172 \<and> 16 \<le> b \<and> b < 32) \<or> (a = 192 \<and> b = 0) \<or> (a = 192 \<and> b = 168)
      \<or> (a = 198 \<and> 18 \<le> b \<and> b < 20) \<or> (a = 198 \<and> b = 51) \<or> (a = 203 \<and> b = 0)"
    by (simp add: RESERVED_IPV4_def cidr_8 [OF assms] cidr_16 [OF assms] cidr_other [OF assms])
  moreover have "a = 0 \<or> a = 10 \<or> a = 127 \<or> 224 \<le> a \<longleftrightarrow> A" "a = 100 \<and> 64 \<le> b \<and> b < 128 \<longleftrightarrow> B"
      "a = 172 \<and> 16 \<le> b \<and> b < 32 \<longleftrightarrow> C" "a = 198 \<and> 18 \<le> b \<and> b < 20 \<or> a = 198 \<and> b = 51 \<longleftrightarrow> D"
    unfolding A_def B_def C_def D_def by auto
  ultimately show ?thesis by argo
qed

text \<open>C20. The octet tests of the IPv4 policy are exact: an address is public if and only if it lies in none
  of the twelve reserved CIDR blocks.\<close>

theorem ipv4_policy_is_cidr:
  assumes "a < 256" "b < 256" "c < 256" "d < 256"
  shows "isPublicIpv4 (dotted a b c d) \<longleftrightarrow> \<not> list_ex (in_cidr (ipv4_word a b c d)) RESERVED_IPV4"
  by (rule ipv4_policy_covers [OF assms])

theorem ipv4_policy_is_cidr_witness:
  "\<not> isPublicIpv4 (dotted 169 254 169 254) \<and> isPublicIpv4 (dotted 8 8 8 8)"
  using ipv4_policy_is_cidr [of 169 254 169 254] ipv4_policy_is_cidr [of 8 8 8 8]
  by (simp add: RESERVED_IPV4_def in_cidr_octets)

subsection \<open>Production\<close>

definition ipv4_unreserved :: "string \<Rightarrow> bool" where
  "ipv4_unreserved x \<longleftrightarrow> (\<exists>a b c d. x = dotted a b c d \<and> a < 256 \<and> b < 256 \<and> c < 256 \<and> d < 256
     \<and> \<not> list_ex (in_cidr (ipv4_word a b c d)) RESERVED_IPV4)"

text \<open>The first group of an IPv6 address, as text and as a number.\<close>

definition group_text :: "string \<Rightarrow> string" where
  "group_text s = takeWhile (\<lambda>c. c \<noteq> CHR '':'') (to_lower s)"

definition hex_val :: "char \<Rightarrow> nat" where
  "hex_val c = (if is_digit c then digit_val c else of_char c - 87)"

definition is_hex :: "char \<Rightarrow> bool" where
  "is_hex c \<longleftrightarrow> is_digit c \<or> c \<in> {CHR ''a'', CHR ''b'', CHR ''c'', CHR ''d'', CHR ''e'', CHR ''f''}"

definition first_group :: "string \<Rightarrow> nat" where
  "first_group s = foldl (\<lambda>n c. 16 * n + hex_val c) 0 (group_text s)"

lemma hex_val_less: "is_hex c \<Longrightarrow> hex_val c < 16"
  by (auto simp: is_hex_def hex_val_def is_digit_def digit_val_def)

lemma four_hex_digits:
  assumes "list_all is_hex [a, b, c, d]" and "hex_val a \<in> {2, 3}"
  shows "0x2000 \<le> foldl (\<lambda>n c. 16 * n + hex_val c) 0 [a, b, c, d]"
    "foldl (\<lambda>n c. 16 * n + hex_val c) 0 [a, b, c, d] < 0x4000"
  using assms hex_val_less [of b] hex_val_less [of c] hex_val_less [of d] by auto

text \<open>An IPv6 address that is not an embedded IPv4 one and is written with a full first group lies in
  2000::/3, the block of the global unicast addresses, and is not of the documentation prefix.\<close>

definition ipv6_unreserved :: "string \<Rightarrow> bool" where
  "ipv6_unreserved x \<longleftrightarrow> (case mapped_ipv4 (to_lower x) of
       Some r \<Rightarrow> ipv4_unreserved r
     | None \<Rightarrow> to_lower x \<noteq> [] \<and> hd (to_lower x) \<in> {CHR ''2'', CHR ''3''}
         \<and> (length (group_text x) = 4 \<and> list_all is_hex (group_text x) \<longrightarrow>
              0x2000 \<le> first_group x \<and> first_group x < 0x4000)
         \<and> \<not> starts_with ''2001:db8'' (to_lower x))"

lemma length4: "length xs = 4 \<Longrightarrow> \<exists>a b c d. xs = [a, b, c, d]"
  by (auto simp: numeral_eq_Suc length_Suc_conv)

lemma isPublicIpv4_unreserved:
  "isPublicIpv4 x \<Longrightarrow> \<exists>a b c d. x = dotted a b c d \<and> a < 256 \<and> b < 256 \<and> c < 256 \<and> d < 256
    \<Longrightarrow> ipv4_unreserved x"
  using ipv4_policy_covers unfolding ipv4_unreserved_def by blast

lemma isPublicIpv6_unreserved:
  assumes pub: "isPublicIpv6 x"
    and mapped: "\<And>r. mapped_ipv4 (to_lower x) = Some r \<Longrightarrow>
      \<exists>a b c d. r = dotted a b c d \<and> a < 256 \<and> b < 256 \<and> c < 256 \<and> d < 256"
  shows "ipv6_unreserved x"
proof (cases "mapped_ipv4 (to_lower x)")
  case (Some r)
  then have "ipv4_unreserved r"
    using pub mapped by (intro isPublicIpv4_unreserved) (simp_all add: isPublicIpv6_def)
  with Some show ?thesis by (simp add: ipv6_unreserved_def)
next
  case None
  then obtain y ys where low: "to_lower x = y # ys" "y = CHR ''2'' \<or> y = CHR ''3''"
      "\<not> starts_with ''2001:db8'' (to_lower x)"
    using pub by (cases "to_lower x") (auto simp: isPublicIpv6_def Let_def)
  have "0x2000 \<le> first_group x \<and> first_group x < 0x4000"
    if len: "length (group_text x) = 4" and hex: "list_all is_hex (group_text x)"
  proof -
    obtain a b c d where g: "group_text x = [a, b, c, d]" using length4 [OF len] by blast
    then have "a = y" using low(1,2) by (auto simp: group_text_def)
    then have "hex_val a \<in> {2, 3}" using low(2) by (auto simp: hex_val_def is_digit_def digit_val_def)
    then show ?thesis
      using four_hex_digits [of a b c d] hex unfolding first_group_def g by blast
  qed
  with None low show ?thesis by (auto simp: ipv6_unreserved_def)
qed

text \<open>C19. What production may request: an accepted URL is HTTPS without credentials, its hostname is on the
  allowlist and resolves, and every address it resolves to is an IP address outside the reserved blocks.
  An IPv4 address, also one embedded in an IPv6 address in the dotted notation, is in none of the twelve
  reserved blocks. Another IPv6 address begins with the digit 2 or 3, is not of the
  documentation prefix as it is written there, and lies in 2000::/3 when its first group is written with
  four digits. (With fewer digits it need not: see \<open>ipv6_policy_is_textual\<close>.) The hypotheses on
  \<open>isIP\<close> are its documentation: 4 means four decimal octets, and so does the dotted
  tail of an address of family 6.\<close>

theorem production_url_safe:
  assumes "assertLoopTargetUrlAllowed h env rawUrl = Inr target"
    and "ue_NODE_ENV env = Some ''production''"
    and isIP: "\<And>x. uh_isIP h x = 4 \<Longrightarrow> \<exists>a b c d. x = dotted a b c d \<and> a < 256 \<and> b < 256 \<and> c < 256 \<and> d < 256"
    and isIP6: "\<And>x r. uh_isIP h x = 6 \<Longrightarrow> mapped_ipv4 (to_lower x) = Some r \<Longrightarrow>
      \<exists>a b c d. r = dotted a b c d \<and> a < 256 \<and> b < 256 \<and> c < 256 \<and> d < 256"
  shows "tu_protocol target = ''https:'' \<and> tu_username target = [] \<and> tu_password target = []
    \<and> host_of (tu_hostname target) \<in> set (parseAllowedHosts (ue_ALLOWLIST env))
    \<and> (\<exists>as. resolveTargetAddresses h (host_of (tu_hostname target)) = Inr as \<and> as \<noteq> []
        \<and> list_all (\<lambda>x. uh_isIP h x = 4 \<and> ipv4_unreserved x \<or> uh_isIP h x = 6 \<and> ipv6_unreserved x) as)"
proof -
  have prod: "\<not> local_like env"
    using assms(2) by (simp add: local_like_def LOCAL_LIKE_ENVS_def to_lower_def lower_char_def)
  have safe: "uh_isIP h x = 4 \<and> ipv4_unreserved x \<or> uh_isIP h x = 6 \<and> ipv6_unreserved x"
    if "isPublicAddress h x" for x
    using that isPublicIpv4_unreserved [OF _ isIP] isPublicIpv6_unreserved [OF _ isIP6]
    by (auto simp: isPublicAddress_def Let_def split: if_splits)
  have ne: "resolveTargetAddresses h n = Inr as \<Longrightarrow> as \<noteq> []" for n as
    by (auto simp: resolveTargetAddresses_def split: if_splits option.splits list.splits)
  from assms(1) have p: "parseTargetUrl h rawUrl = Inr target"
    by (auto simp: assertLoopTargetUrlAllowed_def Let_def split: sum.splits if_splits)
  then have c: "tu_username target = [] \<and> tu_password target = []"
    by (auto simp: parseTargetUrl_def split: option.splits if_splits)
  from assms(1) p prod obtain as where "tu_protocol target = ''https:''"
      "host_of (tu_hostname target) \<in> set (parseAllowedHosts (ue_ALLOWLIST env))"
      "resolveTargetAddresses h (host_of (tu_hostname target)) = Inr as"
      "list_all (isPublicAddress h) as"
    by (auto simp: assertLoopTargetUrlAllowed_def Let_def list_all_iff list_ex_iff split: sum.splits if_splits)
  then show ?thesis using c ne safe by (auto simp: list_all_iff)
qed

definition demo_url_host :: url_host where
  "demo_url_host = \<lparr>uh_parse = (\<lambda>_. Some \<lparr>tu_protocol = ''https:'', tu_username = [], tu_password = [],
       tu_hostname = ''app.example.com''\<rparr>),
     uh_isIP = (\<lambda>x. if x = dotted 8 8 8 8 then 4 else if x = ''2606::1'' then 6 else 0),
     uh_resolve = (\<lambda>_. Some [dotted 8 8 8 8, ''2606::1''])\<rparr>"

definition demo_url_env :: url_env where
  "demo_url_env = \<lparr>ue_NODE_ENV = Some ''production'', ue_ALLOWLIST = Some ''app.example.com'', ue_ALLOW_PRIVATE = None\<rparr>"

lemma demo_hosts: "parseAllowedHosts (Some ''app.example.com'') = [''app.example.com'']"
    "host_of ''app.example.com'' = ''app.example.com''" "CHR ''a'' # ''pp.example.com'' \<noteq> dotted 8 8 8 8"
    "''2606::1'' \<noteq> dotted 8 8 8 8" "mapped_ipv4 (to_lower ''2606::1'') = None" "isPublicIpv6 ''2606::1''"
  by code_simp+

theorem production_url_safe_witness:
  "\<exists>target as. assertLoopTargetUrlAllowed demo_url_host demo_url_env ''https://app.example.com'' = Inr target
     \<and> resolveTargetAddresses demo_url_host (host_of (tu_hostname target)) = Inr as
     \<and> list_all (\<lambda>x. uh_isIP demo_url_host x = 4 \<and> ipv4_unreserved x
         \<or> uh_isIP demo_url_host x = 6 \<and> ipv6_unreserved x) as"
proof -
  have pub: "isPublicIpv4 (dotted 8 8 8 8)"
    by (simp add: isPublicIpv4_def split_dotted Let_def)
  have "\<exists>target. assertLoopTargetUrlAllowed demo_url_host demo_url_env ''https://app.example.com'' = Inr target"
    using demo_hosts pub
    by (simp add: assertLoopTargetUrlAllowed_def parseTargetUrl_def demo_url_host_def demo_url_env_def Let_def
        resolveTargetAddresses_def isPublicAddress_def)
  then obtain target where "assertLoopTargetUrlAllowed demo_url_host demo_url_env ''https://app.example.com'' = Inr target" ..
  moreover have "ue_NODE_ENV demo_url_env = Some ''production''" by (simp add: demo_url_env_def)
  moreover have "\<exists>a b c d. x = dotted a b c d \<and> a < 256 \<and> b < 256 \<and> c < 256 \<and> d < 256"
    if "uh_isIP demo_url_host x = 4" for x
  proof -
    from that have "x = dotted 8 8 8 8" by (simp add: demo_url_host_def split: if_splits)
    then show ?thesis by (intro exI [of _ 8]) simp
  qed
  moreover have "\<exists>a b c d. r = dotted a b c d \<and> a < 256 \<and> b < 256 \<and> c < 256 \<and> d < 256"
    if "uh_isIP demo_url_host x = 6" "mapped_ipv4 (to_lower x) = Some r" for x r
  proof -
    from that(1) have "x = ''2606::1''" by (simp add: demo_url_host_def split: if_splits)
    then show ?thesis using that(2) demo_hosts(5) by (simp only: option.distinct)
  qed
  ultimately show ?thesis using production_url_safe by blast
qed

subsection \<open>IPv6\<close>

text \<open>The IPv6 policy reads text, not a prefix: every address whose first group is just \<open>2\<close> is taken as
  public, though 2000::/3, the block the code means, begins at 2000 (hexadecimal).\<close>

theorem ipv6_policy_is_textual: "isPublicIpv6 (''2:'' @ x) \<and> first_group (''2:'' @ x) < 0x2000"
  by (simp add: isPublicIpv6_def mapped_ipv4_def first_group_def group_text_def hex_val_def to_lower_def
      lower_char_def is_digit_def digit_val_def Let_def)

end
