(* ===== verification/Simple_Intake.thy ===== *)
theory Simple_Intake
  imports Issues Text_Laws
begin

text \<open>
  Simple intake: one sentence becomes an issue. \<open>packages/contracts/src/loops-simple-issue.ts\<close>
  (template, title, priority and criteria from the text of the request), and \<open>createSimpleIssue\<close> of
  \<open>loops.service.ts\<close> with \<open>resolveSimpleTargetRepo\<close> of \<open>loops-issues.service.ts\<close>, then the bounds of
  what it produces.

  The workspace profile is a parameter: the root it resolves an id to, if one is wired.
\<close>

datatype issue_template = TPL_FEATURE | TPL_BUGFIX | TPL_DOCS | TPL_REFACTOR | TPL_INTEGRATION | TPL_FLOW

fun DEFAULT_PRIORITY_BY_TEMPLATE :: "issue_template \<Rightarrow> loop_priority" where
  "DEFAULT_PRIORITY_BY_TEMPLATE TPL_FEATURE = P1"
| "DEFAULT_PRIORITY_BY_TEMPLATE TPL_BUGFIX = P0"
| "DEFAULT_PRIORITY_BY_TEMPLATE TPL_DOCS = P3"
| "DEFAULT_PRIORITY_BY_TEMPLATE TPL_REFACTOR = P2"
| "DEFAULT_PRIORITY_BY_TEMPLATE TPL_INTEGRATION = P1"
| "DEFAULT_PRIORITY_BY_TEMPLATE TPL_FLOW = P1"

definition TEMPLATE_KEYWORDS :: "(issue_template \<times> string list) list" where
  "TEMPLATE_KEYWORDS = [
     (TPL_BUGFIX, [[CHR 0xE4, CHR 0xBF, CHR 0xAE, CHR 0xE5, CHR 0xA4, CHR 0x8D], ''bug'', [CHR 0xE5, CHR 0xBC, CHR 0x82, CHR 0xE5, CHR 0xB8, CHR 0xB8], [CHR 0xE5, CHR 0xA4, CHR 0xB1, CHR 0xE8, CHR 0xB4, CHR 0xA5], [CHR 0xE6, CHR 0x8A, CHR 0xA5, CHR 0xE9, CHR 0x94, CHR 0x99], ''fix'', ''broken'', ''crash'']),
     (TPL_DOCS, [[CHR 0xE6, CHR 0x96, CHR 0x87, CHR 0xE6, CHR 0xA1, CHR 0xA3], [CHR 0xE8, CHR 0xAF, CHR 0xB4, CHR 0xE6, CHR 0x98, CHR 0x8E], [CHR 0xE6, CHR 0x96, CHR 0xB9, CHR 0xE6, CHR 0xA1, CHR 0x88], ''adr'', ''docs'', ''document'', ''readme'']),
     (TPL_REFACTOR, [[CHR 0xE9, CHR 0x87, CHR 0x8D, CHR 0xE6, CHR 0x9E, CHR 0x84], [CHR 0xE7, CHR 0xAE, CHR 0x80, CHR 0xE5, CHR 0x8C, CHR 0x96], [CHR 0xE6, CHR 0xB8, CHR 0x85, CHR 0xE7, CHR 0x90, CHR 0x86], ''refactor'', ''cleanup'', ''simplify'']),
     (TPL_INTEGRATION, [[CHR 0xE6, CHR 0x8E, CHR 0xA5, CHR 0xE5, CHR 0x85, CHR 0xA5], [CHR 0xE9, CHR 0x9B, CHR 0x86, CHR 0xE6, CHR 0x88, CHR 0x90], ''docker'', ''cli'', [CHR 0xE5, CHR 0xA4, CHR 0x96, CHR 0xE9, CHR 0x83, CHR 0xA8, CHR 0xE6, CHR 0x9C, CHR 0x8D, CHR 0xE5, CHR 0x8A, CHR 0xA1], ''integrate'', ''external'']),
     (TPL_FLOW, [''workflow'', [CHR 0xE7, CHR 0x8A, CHR 0xB6, CHR 0xE6, CHR 0x80, CHR 0x81, CHR 0xE6, CHR 0x9C, CHR 0xBA], [CHR 0xE6, CHR 0x81, CHR 0xA2, CHR 0xE5, CHR 0xA4, CHR 0x8D], ''agent runtime'', ''flow'', ''state machine'', ''resume''])]"

definition TITLE_PREFIXES :: "string list" where
  "TITLE_PREFIXES = [[CHR 0xE8, CHR 0xAF, CHR 0xB7], [CHR 0xE5, CHR 0xB8, CHR 0xAE, CHR 0xE6, CHR 0x88, CHR 0x91], [CHR 0xE9, CHR 0xBA, CHR 0xBB, CHR 0xE7, CHR 0x83, CHR 0xA6], [CHR 0xE9, CHR 0x9C, CHR 0x80, CHR 0xE8, CHR 0xA6, CHR 0x81], [CHR 0xE6, CHR 0x88, CHR 0x91, CHR 0xE6, CHR 0x83, CHR 0xB3, CHR 0xE8, CHR 0xA6, CHR 0x81], [CHR 0xE6, CHR 0x83, CHR 0xB3, CHR 0xE8, CHR 0xA6, CHR 0x81], [CHR 0xE5, CHR 0xB8, CHR 0x8C, CHR 0xE6, CHR 0x9C, CHR 0x9B], ''please'', ''help me'', ''i need'',
     ''i want'', ''can you'']"

fun DEFAULT_SIMPLE_ACCEPTANCE_CRITERIA :: "issue_template \<Rightarrow> string list" where
  "DEFAULT_SIMPLE_ACCEPTANCE_CRITERIA TPL_BUGFIX = [
     ''Root cause is identified and described in the implementation evidence'',
     ''The reproduction path now passes'',
     ''A regression test covers the fixed behavior'',
     ''No unrelated behavior is changed'']"
| "DEFAULT_SIMPLE_ACCEPTANCE_CRITERIA TPL_FEATURE = [
     ''Primary happy path is implemented end to end'',
     ''User-facing states cover loading, success, and error outcomes'',
     ''Backend/API contract is validated with tests when data changes are involved'',
     ''Frontend page is understandable and operable'']"
| "DEFAULT_SIMPLE_ACCEPTANCE_CRITERIA TPL_DOCS = [
     ''Documentation matches the current implementation'',
     ''Status labels clearly distinguish done, accepted, planned, and blocked work'',
     ''Commands or examples are accurate and runnable where applicable'',
     ''Any deferred work includes the reason and required next input'']"
| "DEFAULT_SIMPLE_ACCEPTANCE_CRITERIA TPL_REFACTOR = [
     ''External behavior and public contracts remain compatible'',
     ''Duplication or complexity is reduced in the target area'',
     ''Existing tests pass and focused coverage is added for touched shared behavior'',
     ''No unrelated formatting or metadata churn is introduced'']"
| "DEFAULT_SIMPLE_ACCEPTANCE_CRITERIA TPL_INTEGRATION = [
     ''A clear fallback exists when the local dependency is missing'',
     ''External failures surface actionable diagnostics'',
     ''Sensitive values never reach operational logs'',
     ''Smoke checks cover both success and failure paths'']"
| "DEFAULT_SIMPLE_ACCEPTANCE_CRITERIA TPL_FLOW = [
     ''State transitions cover success, pause, failure, and resume'',
     ''Human-in-the-loop intervention points are clearly visible'',
     ''Runtime status and diagnostics are traceable'',
     ''Resume behavior is recorded with evidence'']"

subsection \<open>Template and title\<close>

definition inferLoopIssueTemplate :: "string \<Rightarrow> issue_template" where
  "inferLoopIssueTemplate request = (let haystack = to_lower request in
     case List.find (\<lambda>(_, terms). list_ex (\<lambda>x. contains (to_lower x) haystack) terms) TEMPLATE_KEYWORDS of
       Some (template, _) \<Rightarrow> template | None \<Rightarrow> TPL_FEATURE)"

text \<open>\<open>s.split(/\r?\n/)[0]\<close>\<close>

definition first_line :: "string \<Rightarrow> string" where
  "first_line s = (let l = takeWhile (\<lambda>c. c \<noteq> CHR 0x0A) s in
     if length l < length s \<and> l \<noteq> [] \<and> last l = CHR 0x0D then butlast l else l)"

text \<open>The terminators of a sentence, as code points, and \<open>/^(.*?[...])/\<close>: up to the first of them on
  the line (\<open>.\<close> does not match a line terminator).\<close>

definition is_terminator :: "nat \<Rightarrow> bool" where
  "is_terminator p \<longleftrightarrow> p \<in> {0x3002, 0x2E, 0x21, 0x3F, 0xFF01, 0xFF1F}"

fun sentence :: "string \<Rightarrow> (nat \<times> string) list \<Rightarrow> string option" where
  "sentence acc [] = None"
| "sentence acc ((p, bs) # cs) = (if is_terminator p then Some (acc @ bs)
     else if p \<in> {10, 13, 0x2028, 0x2029} then None else sentence (acc @ bs) cs)"

definition drop_prefix :: "string \<Rightarrow> string" where
  "drop_prefix s = (case List.find (\<lambda>p. starts_with p (to_lower s)) TITLE_PREFIXES of
     Some p \<Rightarrow> dropWhile is_space (drop (length p) s) | None \<Rightarrow> s)"

definition drop_terminators :: "string \<Rightarrow> string" where
  "drop_terminators s = concat (map snd (rev (dropWhile
     (\<lambda>(p, bs). is_terminator p \<or> list_all is_space bs) (rev (utf8_chunks s)))))"

fun template_verb :: "issue_template \<Rightarrow> string" where
  "template_verb TPL_BUGFIX = ''Fix''"
| "template_verb TPL_FEATURE = ''Add''"
| "template_verb TPL_DOCS = ''Document''"
| "template_verb TPL_REFACTOR = ''Refactor''"
| "template_verb TPL_INTEGRATION = ''Integrate''"
| "template_verb TPL_FLOW = ''Model''"

definition title_base :: "string \<Rightarrow> string" where
  "title_base request = (let firstLine = first_line (js_trim request);
     base = js_trim (case_option firstLine id (sentence [] (utf8_chunks firstLine))) in
     js_trim (drop_terminators (js_trim (drop_prefix base))))"

definition with_verb :: "string \<Rightarrow> issue_template \<Rightarrow> string" where
  "with_verb request template = (let base = title_base request;
     looksAscii = (base \<noteq> [] \<and> list_all (\<lambda>c. (of_char c :: nat) < 128) base);
     titled = (if base = [] then js_slice0 80 (utf8_chunks (js_trim request)) else base) in
     if looksAscii \<and> \<not> list_ex (\<lambda>v. starts_with v (to_lower titled))
         [''fix'', ''add'', ''document'', ''refactor'', ''integrate'']
     then template_verb template @ '' '' @ titled else titled)"

definition buildLoopIssueTitle :: "string \<Rightarrow> issue_template \<Rightarrow> string" where
  "buildLoopIssueTitle request template = (let withVerb = with_verb request template in
     if js_length withVerb > 80
     then rev (dropWhile is_space (rev (js_slice0 77 (utf8_chunks withVerb)))) @ ''...'' else withVerb)"

subsection \<open>The issue\<close>

text \<open>\<open>template: 'auto'\<close> is \<open>None\<close>.\<close>

record simple_request =
  sq_request :: string
  sq_workspaceId :: "string option"
  sq_targetRepo :: "string option"
  sq_template :: "issue_template option"
  sq_priority :: "loop_priority option"
  sq_title :: "string option"
  sq_acceptanceCriteria :: "string list option"

record simple_issue =
  si_title :: string
  si_body :: string
  si_template :: issue_template
  si_priority :: loop_priority
  si_acceptanceCriteria :: "string list"
  si_targetRepo :: string

definition normaliseSimpleIssue :: "simple_request \<Rightarrow> string \<Rightarrow> simple_issue" where
  "normaliseSimpleIssue input targetRepo =
     (let template = case_option (inferLoopIssueTemplate (sq_request input)) id (sq_template input);
          given = js_trim (case_option [] id (sq_title input)) in
      \<lparr>si_title = (if given \<noteq> [] then given else buildLoopIssueTitle (sq_request input) template),
       si_body = js_trim (sq_request input), si_template = template,
       si_priority = case_option (DEFAULT_PRIORITY_BY_TEMPLATE template) id (sq_priority input),
       si_acceptanceCriteria = (case sq_acceptanceCriteria input of
          Some (c # cs) \<Rightarrow> c # cs | _ \<Rightarrow> DEFAULT_SIMPLE_ACCEPTANCE_CRITERIA template),
       si_targetRepo = targetRepo\<rparr>)"

definition resolveSimpleTargetRepo ::
    "issues_host \<Rightarrow> (string option \<Rightarrow> string) option \<Rightarrow> simple_request \<Rightarrow> (fs, string) sm" where
  "resolveSimpleTargetRepo h profile input =
     (if js_trim (case_option [] id (sq_targetRepo input)) \<noteq> []
      then resolveTargetRepo h (case_option [] id (sq_targetRepo input))
      else case profile of
        Some workspace_root \<Rightarrow> resolveTargetRepo h (workspace_root (sq_workspaceId input))
      | None \<Rightarrow> resolveTargetRepo h ''.'')"

definition simple_create_request :: "simple_issue \<Rightarrow> loop_tenant_context option \<Rightarrow> create_issue_request" where
  "simple_create_request n tenant = \<lparr>cr_title = si_title n, cr_targetRepo = si_targetRepo n, cr_body = si_body n,
     cr_priority = si_priority n, cr_acceptanceCriteria = si_acceptanceCriteria n, cr_submitter = None,
     cr_submitterId = None, cr_submitterName = None, cr_sourceChannel = None, cr_sourceKind = None,
     cr_tenantContext = tenant\<rparr>"

text \<open>\<open>payload\<close> is the JSON of the request that is stored beside the intake.\<close>

definition createSimpleIssue ::
    "issues_host \<Rightarrow> (string option \<Rightarrow> string) option \<Rightarrow> (create_issue_request \<Rightarrow> json) \<Rightarrow> simple_request
     \<Rightarrow> loop_tenant_context option \<Rightarrow> auth_user option \<Rightarrow> (fs, created_issue) sm" where
  "createSimpleIssue h profile payload input tenant user = sbind (resolveSimpleTargetRepo h profile input) (\<lambda>repo.
     let request = simple_create_request (normaliseSimpleIssue input repo) tenant in
     createIssue h request (payload request) user)"

subsection \<open>Bounds\<close>

text \<open>A derived title is never empty and has at most 80 UTF-16 units, whatever the request says, and the
  issue always has acceptance criteria.\<close>

theorem simple_title_bounded:
  assumes "js_trim (sq_request input) \<noteq> []" and "js_trim (case_option [] id (sq_title input)) = []"
  shows "si_title (normaliseSimpleIssue input repo) \<noteq> []
    \<and> js_length (si_title (normaliseSimpleIssue input repo)) \<le> 80
    \<and> si_acceptanceCriteria (normaliseSimpleIssue input repo) \<noteq> []"
proof -
  have sliced: "js_slice0 80 (utf8_chunks s) \<noteq> []" if "s \<noteq> []" for s
  proof (cases s)
    case (Cons c cs)
    have "units_of (c # take (rest_len c) cs) \<le> 80"
      using units_le [of "(utf8_point (c # take (rest_len c) cs), c # take (rest_len c) cs)"] by linarith
    then show ?thesis unfolding Cons utf8_chunks_step by simp
  qed (use that in simp)
  have title: "buildLoopIssueTitle r t \<noteq> [] \<and> js_length (buildLoopIssueTitle r t) \<le> 80" if "js_trim r \<noteq> []" for r t
  proof (cases "js_length (with_verb r t) \<le> 80")
    case True
    have "with_verb r t \<noteq> []"
      using sliced [OF that] by (simp add: with_verb_def Let_def)
    with True show ?thesis by (simp add: buildLoopIssueTitle_def Let_def)
  next
    case False
    let ?s = "js_slice0 77 (utf8_chunks (with_verb r t))"
    obtain k where "rev (dropWhile is_space (rev ?s)) = take k ?s" using rev_dropWhile_take by blast
    then have "js_length (rev (dropWhile is_space (rev ?s))) \<le> 77"
      using js_length_take [of k ?s] js_length_slice [of 77 "with_verb r t"] by simp
    with False show ?thesis
      using js_length_append [of "rev (dropWhile is_space (rev ?s))" "''...''"]
      by (simp add: buildLoopIssueTitle_def Let_def)
  qed
  have "DEFAULT_SIMPLE_ACCEPTANCE_CRITERIA t \<noteq> []" for t by (cases t) simp_all
  with title [OF assms(1)] assms(2) show ?thesis
    by (auto simp: normaliseSimpleIssue_def Let_def split: option.splits list.splits)
qed

definition demo_request :: simple_request where
  "demo_request = \<lparr>sq_request = ''Fix it.'', sq_workspaceId = None, sq_targetRepo = None,
     sq_template = None, sq_priority = None, sq_title = None, sq_acceptanceCriteria = None\<rparr>"

theorem simple_title_bounded_witness:
  "si_title (normaliseSimpleIssue demo_request ''/repo'') \<noteq> []
   \<and> js_length (si_title (normaliseSimpleIssue demo_request ''/repo'')) \<le> 80"
proof -
  have "js_trim (sq_request demo_request) \<noteq> []" "js_trim (case_option [] id (sq_title demo_request)) = []"
    by (simp_all add: demo_request_def js_trim_def is_space_def)
  then show ?thesis using simple_title_bounded [of demo_request "''/repo''"] by simp
qed

end
