(* ===== verification/Advance_Queue.thy ===== *)
theory Advance_Queue
  imports Lifecycle Samples
begin

text \<open>
  Advancing in the background: \<open>loops-advance-queue.service.ts\<close> (one job per issue),
  \<open>loops-advance-status.service.ts\<close> (the status kept in Redis) and \<open>loops-advance.processor.ts\<close> (the
  worker and its events), with what they promise. The queue library calls the worker: \<open>process\<close> for
  every attempt, \<open>onFailed\<close> after an attempt that threw, \<open>onStalled\<close> when a worker died. The
  expiry of the Redis keys (a day) is not modelled; \<open>ServiceUnavailableException\<close> is a \<open>PlainError\<close>.
\<close>

subsection \<open>Job ids\<close>

definition BASE64URL :: string where
  "BASE64URL = ''ABCDEFGHIJKLMNOPQRSTUVWXYZabcdefghijklmnopqrstuvwxyz0123456789-_''"

definition sextets :: "nat \<Rightarrow> string" where
  "sextets n = map (\<lambda>k. BASE64URL ! (n div 64 ^ k mod 64)) [3, 2, 1, 0]"

text \<open>\<open>Buffer.from(s).toString('base64url')\<close>\<close>

fun base64url :: "string \<Rightarrow> string" where
  "base64url [] = []"
| "base64url [a] = take 2 (sextets (of_char a * 65536))"
| "base64url [a, b] = take 3 (sextets (of_char a * 65536 + of_char b * 256))"
| "base64url (a # b # c # cs) = sextets (of_char a * 65536 + of_char b * 256 + of_char c) @ base64url cs"

definition loopsAdvanceJobId :: "string \<Rightarrow> string" where
  "loopsAdvanceJobId issueId = ''advance-'' @ base64url issueId"

subsection \<open>The status\<close>

datatype advance_state = ADV_QUEUED | ADV_ACTIVE | ADV_RETRYING | ADV_COMPLETED | ADV_FAILED

record advance_status =
  as_jobId :: string
  as_issueId :: string
  as_status :: advance_state
  as_attempt :: nat
  as_updatedAt :: timestamp
  as_phase :: "loop_phase option"
  as_issueStatus :: "loop_issue_status option"

record advance_store =
  aq_fs :: fs
  aq_status :: "(string \<times> advance_status) list"
  aq_jobs :: "(string \<times> string) list"

definition on_queue_fs :: "(fs, 'a) sm \<Rightarrow> (advance_store, 'a) sm" where
  "on_queue_fs m = (\<lambda>s. case m (aq_fs s) of (r, f) \<Rightarrow> (r, s\<lparr>aq_fs := f\<rparr>))"

text \<open>\<open>record\<close> stamps the status with the time, and rejects what its schema does not allow.\<close>

definition record_status ::
    "string \<Rightarrow> string \<Rightarrow> advance_state \<Rightarrow> nat \<Rightarrow> loop_phase option \<Rightarrow> loop_issue_status option
     \<Rightarrow> (advance_store, advance_status) sm" where
  "record_status jobId issueId status k phase issueStatus = sbind (on_queue_fs now) (\<lambda>t.
     sthen (sguard (jobId \<noteq> [] \<and> issueId \<noteq> []) (PlainError ''ZodError''))
     (let st = \<lparr>as_jobId = jobId, as_issueId = issueId, as_status = status, as_attempt = k,
        as_updatedAt = t, as_phase = phase, as_issueStatus = issueStatus\<rparr> in
      sthen (smod (\<lambda>s. s\<lparr>aq_status := AList.update issueId st (aq_status s),
          aq_jobs := AList.update jobId issueId (aq_jobs s)\<rparr>))
        (sret st)))"

definition get_status :: "string \<Rightarrow> advance_store \<Rightarrow> advance_status option" where
  "get_status issueId s = map_of (aq_status s) issueId"

definition markStalled :: "string \<Rightarrow> (advance_store, advance_status option) sm" where
  "markStalled jobId = sbind sget (\<lambda>s. case Option.bind (map_of (aq_jobs s) jobId) (\<lambda>i. get_status i s) of
     None \<Rightarrow> sret None
   | Some current \<Rightarrow>
       if as_status current = ADV_COMPLETED \<or> as_status current = ADV_FAILED then sret (Some current)
       else sbind (record_status (as_jobId current) (as_issueId current) ADV_RETRYING (as_attempt current)
           (as_phase current) (as_issueStatus current)) (\<lambda>st. sret (Some st)))"

subsection \<open>The queue and the worker\<close>

definition enqueue_advance ::
    "(string \<Rightarrow> string \<Rightarrow> string call) option \<Rightarrow> string \<Rightarrow> (advance_store, string) sm" where
  "enqueue_advance queue issueId = (case queue of
     None \<Rightarrow> sthrow (PlainError ''Loops advance queue is unavailable. Try again later.'')
   | Some add \<Rightarrow> let jobId = loopsAdvanceJobId issueId in
       sthen (record_status jobId issueId ADV_QUEUED 0 None None) (on_queue_fs (call (add jobId issueId))))"

record advance_job =
  aj_id :: string
  aj_issueId :: string
  aj_attemptsMade :: nat
  aj_attempts :: "nat option"

definition process_advance ::
    "loops_host \<Rightarrow> advance_job \<Rightarrow> (advance_store, string \<times> loop_phase \<times> loop_issue_status) sm" where
  "process_advance h job = (let i = aj_issueId job; k = aj_attemptsMade job + 1 in
     sthen (record_status (aj_id job) i ADV_ACTIVE k None None)
     (sbind (on_queue_fs (loops_advance h i)) (\<lambda>d.
      let phase = st_phase (d_state d); status = i_status (d_issue d) in
      sthen (record_status (aj_id job) i ADV_COMPLETED k (Some phase) (Some status))
        (sret (i, phase, status)))))"

definition onStalled :: "string \<Rightarrow> (advance_store, unit) sm" where
  "onStalled jobId = sthen (markStalled jobId) (sret ())"

definition onFailed :: "advance_job option \<Rightarrow> (advance_store, unit) sm" where
  "onFailed job = (case job of None \<Rightarrow> sret ()
   | Some j \<Rightarrow> sthen (record_status (aj_id j) (aj_issueId j)
       (if aj_attemptsMade j < case_option 1 id (aj_attempts j) then ADV_RETRYING else ADV_FAILED)
       (aj_attemptsMade j) None None) (sret ()))"

subsection \<open>One job per issue\<close>

lemma of_char_less: "(of_char x :: nat) < 256"
  by (cases x) (auto simp: of_char_def horner_sum_simps split: bool.splits)

lemma of_char_le: "(of_char x :: nat) \<le> 255"
  using of_char_less [of x] by linarith

lemma base64_index: "i < 64 \<Longrightarrow> j < 64 \<Longrightarrow> BASE64URL ! i = BASE64URL ! j \<longleftrightarrow> i = j"
proof -
  have "distinct BASE64URL" "length BASE64URL = 64" by (simp_all add: BASE64URL_def)
  then show "i < 64 \<Longrightarrow> j < 64 \<Longrightarrow> ?thesis" by (simp add: nth_eq_iff_index_eq)
qed

lemma digit_step: "m div 64 = n div 64 \<Longrightarrow> m mod 64 = n mod 64 \<Longrightarrow> m = (n :: nat)"
  by (metis div_mult_mod_eq)

lemma sextets_inject:
  assumes "m < 64 ^ 4" "n < 64 ^ 4" and "sextets m = sextets n"
  shows "m = n"
proof -
  have d: "m div 64 ^ k mod 64 = n div 64 ^ k mod 64" if "k \<in> {0, 1, 2, 3}" for k
    using assms(3) that by (auto simp: sextets_def base64_index)
  have top: "m div 64 ^ 3 = n div 64 ^ 3"
    using d [of 3] assms(1,2) by (simp add: div_less_iff_less_mult)
  have step: "x div 64 ^ k div 64 = x div 64 ^ Suc k" for x k :: nat
    by (simp only: power_Suc2 div_mult2_eq)
  have up: "m div 64 ^ k = n div 64 ^ k" if "m div 64 ^ Suc k = n div 64 ^ Suc k" "k \<in> {0, 1, 2}" for k
  proof (rule digit_step)
    show "m div 64 ^ k div 64 = n div 64 ^ k div 64" unfolding step by (rule that(1))
    show "m div 64 ^ k mod 64 = n div 64 ^ k mod 64" by (rule d) (use that(2) in auto)
  qed
  from top have "m div 64 ^ 2 = n div 64 ^ 2" using up [of 2] unfolding numeral_3_eq_3 numeral_2_eq_2 by blast
  then have "m div 64 ^ 1 = n div 64 ^ 1" using up [of 1] unfolding numeral_2_eq_2 One_nat_def by blast
  then have "m div 64 ^ 0 = n div 64 ^ 0" using up [of 0] unfolding One_nat_def by blast
  then show ?thesis by simp
qed

lemma byte_step: "(b :: nat) < 256 \<Longrightarrow> b' < 256 \<Longrightarrow> x * 256 + b = x' * 256 + b' \<Longrightarrow> x = x' \<and> b = b'"
proof -
  have "(x * 256 + b) div 256 = x \<and> (x * 256 + b) mod 256 = b" if "b < 256" for x b :: nat
    using that by simp
  then show "b < 256 \<Longrightarrow> b' < 256 \<Longrightarrow> x * 256 + b = x' * 256 + b' \<Longrightarrow> ?thesis" by metis
qed

definition group :: "char \<Rightarrow> char \<Rightarrow> char \<Rightarrow> nat" where
  "group a b c = (of_char a * 256 + of_char b) * 256 + of_char c"

lemma group_inject: "group a b c = group a' b' c' \<longleftrightarrow> a = a' \<and> b = b' \<and> c = c'"
  using byte_step [OF of_char_less [of c] of_char_less [of c']] byte_step [OF of_char_less [of b] of_char_less [of b']]
  unfolding group_def by (metis of_char_eq_iff)

lemma group_less: "group a b c < 64 ^ 4"
proof -
  have "group a b c \<le> (255 * 256 + 255) * 256 + 255"
    unfolding group_def by (intro add_mono mult_right_mono of_char_le) simp_all
  then show ?thesis by simp
qed

lemma length_sextets [simp]: "length (sextets n) = 4"
  by (simp add: sextets_def)

lemma padding:
  "drop 2 (sextets (group a CHR 0x00 CHR 0x00)) = ''AA''" "drop 3 (sextets (group a b CHR 0x00)) = ''A''"
proof -
  have g: "group a b CHR 0x00 = 64 * (4 * (of_char a * 256 + of_char b))" "group a CHR 0x00 CHR 0x00 = 64 * (64 * (16 * of_char a))"
    for a b by (simp_all add: group_def)
  show "drop 2 (sextets (group a CHR 0x00 CHR 0x00)) = ''AA''"
    unfolding g(2) sextets_def by (simp add: BASE64URL_def)
  show "drop 3 (sextets (group a b CHR 0x00)) = ''A''"
    unfolding g(1) sextets_def by (simp add: BASE64URL_def)
qed

lemma base64url_groups:
  "base64url [a] = take 2 (sextets (group a CHR 0x00 CHR 0x00))"
  "base64url [a, b] = take 3 (sextets (group a b CHR 0x00))"
  "base64url (a # b # c # cs) = sextets (group a b c) @ base64url cs"
  by (simp_all add: group_def algebra_simps)

lemma sextets_group: "sextets (group a b c) = sextets (group a' b' c') \<longleftrightarrow> a = a' \<and> b = b' \<and> c = c'"
  using sextets_inject [OF group_less group_less] group_inject by metis

lemma base64url_length: "length (base64url s) = 4 * (length s div 3) + (if length s mod 3 = 0 then 0 else length s mod 3 + 1)"
  by (induction s rule: base64url.induct) auto

lemma base64url_inject: "base64url s = base64url t \<Longrightarrow> s = t"
proof (induction s arbitrary: t rule: base64url.induct)
  case 1
  then show ?case by (cases t rule: base64url.cases) (auto simp: sextets_def)
next
  case (2 a)
  from arg_cong [OF "2.prems", of length] have l: "length (base64url t) = 2" by simp
  then obtain b where t: "t = [b]" by (cases t rule: base64url.cases) (auto simp: sextets_def)
  have "sextets (group a CHR 0x00 CHR 0x00) = sextets (group b CHR 0x00 CHR 0x00)"
    using "2.prems" unfolding t base64url_groups by (metis append_take_drop_id padding(1))
  with t show ?case by (simp add: sextets_group)
next
  case (3 a b)
  from arg_cong [OF "3.prems", of length] have l: "length (base64url t) = 3" by simp
  then obtain c d where t: "t = [c, d]" by (cases t rule: base64url.cases) (auto simp: sextets_def)
  have "sextets (group a b CHR 0x00) = sextets (group c d CHR 0x00)"
    using "3.prems" unfolding t base64url_groups by (metis append_take_drop_id padding(2))
  with t show ?case by (simp add: sextets_group)
next
  case (4 a b c cs)
  from arg_cong [OF "4.prems", of length] have l: "4 \<le> length (base64url t)" by simp
  then obtain a' b' c' cs' where t: "t = a' # b' # c' # cs'"
    by (cases t rule: base64url.cases) (auto simp: sextets_def)
  from "4.prems" have "sextets (group a b c) = sextets (group a' b' c')" "base64url cs = base64url cs'"
    unfolding t base64url_groups by (simp_all add: append_eq_append_conv)
  with "4.IH" t show ?case by (simp add: sextets_group)
qed

text \<open>Two issues never share a background job: the job id is an injective function of the issue id.\<close>

theorem advance_job_id_injective: "loopsAdvanceJobId i = loopsAdvanceJobId j \<longleftrightarrow> i = j"
  using base64url_inject by (auto simp: loopsAdvanceJobId_def)

subsection \<open>Finished jobs\<close>

definition finished :: "advance_status \<Rightarrow> bool" where
  "finished st \<longleftrightarrow> as_status st = ADV_COMPLETED \<or> as_status st = ADV_FAILED"

text \<open>The index of jobs leads to the issue of the status it was recorded with.\<close>

definition jobs_indexed :: "advance_store \<Rightarrow> bool" where
  "jobs_indexed s \<longleftrightarrow> (\<forall>i st. get_status i s = Some st \<longrightarrow> as_issueId st = i)"

lemma record_status_eq:
  "jobId \<noteq> [] \<Longrightarrow> i \<noteq> [] \<Longrightarrow> \<exists>st s'. record_status jobId i status k ph is s = (Inr st, s')
     \<and> as_status st = status \<and> as_issueId st = i \<and> as_phase st = ph \<and> as_issueStatus st = is \<and> as_attempt st = k
     \<and> get_status i s' = Some st \<and> (\<forall>j. j \<noteq> i \<longrightarrow> get_status j s' = get_status j s) \<and> aq_fs s' = tick (aq_fs s)"
  by (simp add: record_status_def sm_simps on_queue_fs_def now_def get_status_def update_conv' Let_def)

lemma record_keeps_indexed:
  "jobs_indexed s \<Longrightarrow> jobs_indexed (snd (record_status jobId i status k ph is s))"
  by (auto simp: record_status_def sm_simps on_queue_fs_def now_def get_status_def sguard_def jobs_indexed_def
      update_conv' Let_def)

lemma markStalled_keeps:
  assumes "jobs_indexed s" and "get_status i s = Some st" and "finished st"
  shows "jobs_indexed (snd (markStalled jobId s)) \<and> get_status i (snd (markStalled jobId s)) = Some st"
proof (cases "Option.bind (map_of (aq_jobs s) jobId) (\<lambda>i. get_status i s)")
  case None
  then show ?thesis using assms by (simp add: markStalled_def sm_simps)
next
  case (Some current)
  then obtain j where j: "get_status j s = Some current" by (auto split: bind_splits)
  then have ij: "as_issueId current = j" using assms(1) by (simp add: jobs_indexed_def)
  show ?thesis
  proof (cases "finished current")
    case True
    then show ?thesis using assms Some by (simp add: markStalled_def sm_simps finished_def)
  next
    case False
    then have "j \<noteq> i" using assms(2,3) j by auto
    with False Some assms ij show ?thesis
      by (auto simp: markStalled_def sm_simps finished_def record_status_def on_queue_fs_def now_def get_status_def
          sguard_def jobs_indexed_def update_conv' Let_def)
  qed
qed

text \<open>Stalled workers, in whatever number and for whatever jobs, never reopen a finished advance: its
  status stays completed or failed.\<close>

theorem stalled_keeps_finished:
  assumes "jobs_indexed s" and "get_status i s = Some st" and "finished st"
  shows "get_status i (fold (\<lambda>j u. snd (onStalled j u)) js s) = Some st"
proof -
  have on: "snd (onStalled j u) = snd (markStalled j u)" for j u
    by (simp add: onStalled_def sm_simps split: prod.splits sum.splits)
  have "jobs_indexed u \<Longrightarrow> get_status i u = Some st \<Longrightarrow> get_status i (fold (\<lambda>j u. snd (onStalled j u)) js u) = Some st" for u
    by (induction js arbitrary: u) (simp_all add: on markStalled_keeps assms(3))
  then show ?thesis using assms(1,2) .
qed

definition demo_queue :: advance_store where
  "demo_queue = \<lparr>aq_fs = empty_fs sample_env, aq_status = [], aq_jobs = []\<rparr>"

definition demo_advance_job :: advance_job where
  "demo_advance_job = \<lparr>aj_id = ''advance-1'', aj_issueId = ''issue-1'', aj_attemptsMade = 0, aj_attempts = None\<rparr>"

theorem stalled_keeps_finished_witness:
  "\<exists>st s. record_status ''advance-1'' ''issue-1'' ADV_COMPLETED 1 None None demo_queue = (Inr st, s)
     \<and> get_status ''issue-1'' (fold (\<lambda>j u. snd (onStalled j u)) [''advance-1'', ''advance-1''] s) = Some st"
proof -
  obtain st s where r: "record_status ''advance-1'' ''issue-1'' ADV_COMPLETED 1 None None demo_queue = (Inr st, s)"
      "get_status ''issue-1'' s = Some st" "as_status st = ADV_COMPLETED"
    using record_status_eq [of "''advance-1''" "''issue-1''" ADV_COMPLETED 1 None None demo_queue] by auto
  moreover have "jobs_indexed s"
    using record_keeps_indexed [of demo_queue "''advance-1''" "''issue-1''" ADV_COMPLETED 1 None None] r(1)
    by (simp add: jobs_indexed_def get_status_def demo_queue_def)
  ultimately show ?thesis
    using stalled_keeps_finished [of s "''issue-1''" st "[''advance-1'', ''advance-1'']"] by (simp add: finished_def)
qed

text \<open>Every attempt of a job leaves a status that says how it went: completed with the phase it
  reached, or, after the event of its failure, retrying as long as attempts are left and failed when
  none is.\<close>

theorem attempt_reported:
  assumes "aj_id job \<noteq> []" and "aj_issueId job \<noteq> []"
  shows "case process_advance h job s of
      (Inr (i, ph, is), s') \<Rightarrow> (\<exists>st. get_status (aj_issueId job) s' = Some st \<and> as_status st = ADV_COMPLETED
        \<and> as_phase st = Some ph \<and> as_issueStatus st = Some is)
    | (Inl e, s') \<Rightarrow> (\<exists>st. get_status (aj_issueId job) (snd (onFailed (Some (job\<lparr>aj_attemptsMade := aj_attemptsMade job + 1\<rparr>)) s'))
          = Some st \<and> as_status st = (if aj_attemptsMade job + 1 < case_option 1 id (aj_attempts job)
            then ADV_RETRYING else ADV_FAILED) \<and> as_attempt st = aj_attemptsMade job + 1)"
proof -
  obtain st1 s1 where r1: "record_status (aj_id job) (aj_issueId job) ADV_ACTIVE (aj_attemptsMade job + 1) None None s = (Inr st1, s1)"
    using record_status_eq [OF assms] by blast
  obtain r s2 where a: "on_queue_fs (loops_advance h (aj_issueId job)) s1 = (r, s2)" by fastforce
  show ?thesis
  proof (cases r)
    case (Inl e)
    have p: "process_advance h job s = (Inl e, s2)"
      using r1 a Inl by (simp add: process_advance_def sm_simps Let_def)
    have "\<exists>st s'. record_status (aj_id job) (aj_issueId job) v (aj_attemptsMade job + 1) None None s2 = (Inr st, s')
        \<and> get_status (aj_issueId job) s' = Some st \<and> as_status st = v \<and> as_attempt st = aj_attemptsMade job + 1" for v
      using record_status_eq [OF assms, of v "aj_attemptsMade job + 1" None None s2] by blast
    from this [of "if aj_attemptsMade job + 1 < case_option 1 id (aj_attempts job) then ADV_RETRYING else ADV_FAILED"]
    show ?thesis unfolding p by (auto simp: onFailed_def sm_simps)
  next
    case (Inr d)
    obtain st2 s3 where "record_status (aj_id job) (aj_issueId job) ADV_COMPLETED (aj_attemptsMade job + 1)
        (Some (st_phase (d_state d))) (Some (i_status (d_issue d))) s2 = (Inr st2, s3)"
      "get_status (aj_issueId job) s3 = Some st2" "as_status st2 = ADV_COMPLETED"
      "as_phase st2 = Some (st_phase (d_state d))" "as_issueStatus st2 = Some (i_status (d_issue d))"
      using record_status_eq [OF assms] by blast
    with r1 a Inr show ?thesis by (simp add: process_advance_def sm_simps Let_def)
  qed
qed

theorem attempt_reported_witness:
  "\<forall>h. \<exists>e s' st. process_advance h demo_advance_job demo_queue = (Inl e, s')
     \<and> get_status ''issue-1'' (snd (onFailed (Some (demo_advance_job\<lparr>aj_attemptsMade := 1\<rparr>)) s')) = Some st
     \<and> as_status st = ADV_FAILED"
proof
  fix h :: loops_host
  have missing: "\<exists>e. loops_advance h ''issue-1'' f = (Inl e, ensureInitialized f)" if "fs_issues f = []" for f
    using that by (simp add: loops_advance_def advance_def advancePort_def getIssue_def sbind_app readDetail_eq detail_of_def Let_def)
  have "\<exists>e s'. process_advance h demo_advance_job demo_queue = (Inl e, s')"
    using missing [of "tick (empty_fs sample_env)"]
    by (auto simp: process_advance_def sm_simps record_status_def on_queue_fs_def now_def sguard_def demo_queue_def
        demo_advance_job_def empty_fs_def tick_def Let_def)
  then obtain e s' where "process_advance h demo_advance_job demo_queue = (Inl e, s')" by blast
  moreover from attempt_reported [of demo_advance_job h demo_queue] this
  have "\<exists>st. get_status ''issue-1'' (snd (onFailed (Some (demo_advance_job\<lparr>aj_attemptsMade := 1\<rparr>)) s')) = Some st
      \<and> as_status st = ADV_FAILED"
    by (auto simp: demo_advance_job_def)
  ultimately show "\<exists>e s' st. process_advance h demo_advance_job demo_queue = (Inl e, s')
     \<and> get_status ''issue-1'' (snd (onFailed (Some (demo_advance_job\<lparr>aj_attemptsMade := 1\<rparr>)) s')) = Some st
     \<and> as_status st = ADV_FAILED"
    by blast
qed

end
