(* ===== verification/Release_Laws.thy ===== *)
theory Release_Laws
  imports Lifecycle Gate_Laws
begin

text \<open>
  Laws of the release handlers: a canary is recorded as passed only when the smoke check passed and a
  health endpoint answered, a high-risk canary has a rollback note and an owner, and resolving a
  second opinion settles the conflicts it names and moves the code gate.
\<close>

subsection \<open>The canary\<close>

lemma attempt_app: "attempt c f = (Inr (c (fs_ticks f)), tick f)"
  by (simp add: attempt_def)

definition answered :: "release_host \<Rightarrow> string \<Rightarrow> string \<Rightarrow> bool" where
  "answered rl target endpoint \<longleftrightarrow> (\<exists>n status. rl_fetch rl endpoint target n = Inr status
     \<and> 200 \<le> status \<and> status \<le> 299)"

lemma probe_answered:
  "probe_endpoints rl target es steps f = (Inr (out, healthy), g) \<Longrightarrow> canary_passed out
   \<Longrightarrow> \<exists>e\<in>set es. answered rl target e"
proof (induction es arbitrary: steps f)
  case Nil
  then show ?case by (auto simp: canary_passed_def FAILING_STEPS_def)
next
  case (Cons e es)
  show ?case
  proof (cases "rl_fetch rl e target (fs_ticks f)")
    case (Inl x)
    with Cons.prems(1) have "probe_endpoints rl target es (steps @ [''health-check-unreachable:'' @ e]) (tick f)
        = (Inr (out, healthy), g)"
      by (simp add: sbind_app attempt_app)
    from Cons.IH [OF this Cons.prems(2)] show ?thesis by simp
  next
    case (Inr status)
    show ?thesis
    proof (cases "200 \<le> status \<and> status \<le> 299")
      case True
      then show ?thesis using Inr by (auto simp: answered_def)
    next
      case False
      with Cons.prems(1) Inr have "probe_endpoints rl target es
          (steps @ [''health-check-non-ok:'' @ e @ '':'' @ nat_str status]) (tick f) = (Inr (out, healthy), g)"
        by (simp add: sbind_app attempt_app)
      from Cons.IH [OF this Cons.prems(2)] show ?thesis by simp
    qed
  qed
qed

definition smoke_passed :: "release_host \<Rightarrow> string \<Rightarrow> loop_detail \<Rightarrow> canary_request \<Rightarrow> bool" where
  "smoke_passed rl i d input \<longleftrightarrow> (\<exists>t n report. rl_qaWorker rl
     (qa_job_for rl i (''canary-'' @ i @ ''-'' @ nat_str t) d (canary_qa_request input)) n = Inr report
     \<and> bq_status report = QA_PASSED)"

lemma canary_smoke_passed:
  assumes "canary_smoke rl i input d steps f = (Inr out, g)" and "canary_passed out"
    and "cr_targetUrl input \<noteq> []"
  shows "smoke_passed rl i d input"
proof -
  let ?job = "qa_job_for rl i (''canary-'' @ i @ ''-'' @ nat_str (clock f)) d (canary_qa_request input)"
  have run: "(case rl_qaWorker rl ?job (fs_ticks (tick f)) of
        Inl _ \<Rightarrow> sret (steps @ [''browser-qa-failed''])
      | Inr report \<Rightarrow> sthen (smod (writeBrowserQaReport report))
          (sret (steps @ [''browser-qa''] @ (if bq_status report \<noteq> QA_PASSED
             then [''browser-qa-'' @ qa_status_str (bq_status report)] else [])))) (tick (tick f)) = (Inr out, g)"
    using assms(1,3) by (simp only: canary_smoke_def if_False sbind_app now_def attempt_app prod.case sum.case)
  show ?thesis
  proof (cases "rl_qaWorker rl ?job (fs_ticks (tick f))")
    case (Inl e)
    with run assms(2) show ?thesis by (auto simp: canary_passed_def FAILING_STEPS_def)
  next
    case (Inr report)
    with run have out: "out = steps @ [''browser-qa''] @ (if bq_status report \<noteq> QA_PASSED
        then [''browser-qa-'' @ qa_status_str (bq_status report)] else [])"
      by (simp add: sthen_app)
    have "bq_status report = QA_PASSED"
      using assms(2) unfolding out by (cases "bq_status report") (auto simp: canary_passed_def FAILING_STEPS_def)
    with Inr show ?thesis unfolding smoke_passed_def by blast
  qed
qed

lemma canary_passed_append: "canary_passed (xs @ ys) \<longleftrightarrow> canary_passed xs \<and> canary_passed ys"
  by (auto simp: canary_passed_def)

lemma getIssue_governance:
  "getIssue h i f = (Inr d, g) \<Longrightarrow> readDeliveryGovernance j g = readDeliveryGovernance j f"
  by (auto simp: getIssue_def sbind_Inr_iff readDetail_eq readDeliveryGovernance_def ensureInitialized_def)

lemma govern_governance:
  "\<exists>a t u ms. readDeliveryGovernance i (govern i request f)
     = governed i a t u ms (readDeliveryGovernance i f) request \<and> a \<noteq> []"
proof -
  have "readDeliveryGovernance i (govern i request f) = fst (governDelivery i request None f)"
    by (simp add: govern_def readDeliveryGovernance_def governance_written)
  then show ?thesis using governance_next [of i request None f] by metis
qed

lemma appendLog_governance [simp]: "readDeliveryGovernance i (appendLog p f) = readDeliveryGovernance i f"
  by (simp add: readDeliveryGovernance_def appendLog_def)

text \<open>The parts of a canary that came to its end.\<close>

lemma canary_run:
  assumes "runReleaseCanary h rl i input f = (Inr d, g)"
  obtains d0 f0 f1 smoke f2 health ok f3 t where
    "getIssue h i f = (Inr d0, f0)"
    "canary_smoke rl i input d0 [''canary-start''] f1 = (Inr smoke, f2)"
    "checkDeploymentHealth rl (cr_targetUrl input) f2 = (Inr (health, ok), f3)"
    "readDeliveryGovernance i g
       = readDeliveryGovernance i (govern i (canary_decision input (smoke @ health) t) f3)"
    "cr_riskLevel input = RISK_HIGH \<longrightarrow> \<not> absent (cr_rollbackNote input) \<and> \<not> absent (cr_environmentOwner input)"
    "\<exists>target. assertLoopTargetUrlAllowed (rl_url rl) (rl_urlEnv rl) (cr_targetUrl input) = Inr target"
proof -
  from assms have guard: "cr_riskLevel input = RISK_HIGH
      \<longrightarrow> \<not> absent (cr_rollbackNote input) \<and> \<not> absent (cr_environmentOwner input)"
    and allowed: "\<exists>target. assertLoopTargetUrlAllowed (rl_url rl) (rl_urlEnv rl) (cr_targetUrl input) = Inr target"
    by (auto simp: runReleaseCanary_def sthen_def sbind_app targetUrlAllowed_def split: sum.splits if_splits)
  from assms guard allowed obtain d0 f0 where get: "getIssue h i f = (Inr d0, f0)"
    and rest: "sbind (\<lambda>f. (Inr (env_iso (fs_env f) (clock f)), tick f)) (\<lambda>t.
      sbind (canary_smoke rl i input d0 [''canary-start'']) (\<lambda>smoke.
      sbind (checkDeploymentHealth rl (cr_targetUrl input)) (\<lambda>(health, _).
      let steps = smoke @ health in
      sthen (smod (govern i (canary_decision input steps t)))
      (sthen (smod (appendLog (canary_log i input steps))) (getIssue h i))))) f0 = (Inr d, g)"
    unfolding runReleaseCanary_def sthen_def targetUrlAllowed_def
    by (auto simp: sbind_app split: sum.splits if_splits prod.splits)
  let ?t = "env_iso (fs_env f0) (clock f0)"
  from rest obtain smoke f2 health ok f3 where
      parts: "canary_smoke rl i input d0 [''canary-start''] (tick f0) = (Inr smoke, f2)"
      "checkDeploymentHealth rl (cr_targetUrl input) f2 = (Inr (health, ok), f3)"
    and fin: "getIssue h i (appendLog (canary_log i input (smoke @ health))
        (govern i (canary_decision input (smoke @ health) ?t) f3)) = (Inr d, g)"
    by (auto simp: sthen_def Let_def sbind_app split: prod.splits sum.splits)
  from getIssue_governance [OF fin, of i] have "readDeliveryGovernance i g
      = readDeliveryGovernance i (govern i (canary_decision input (smoke @ health) ?t) f3)" by simp
  from that [OF get parts this guard allowed] show thesis .
qed

text \<open>C29. A release canary that ran to its end is recorded, by the system and for the target it was asked
  to check; it is recorded as passed only if the browser smoke check of that target passed and one of
  the health endpoints answered with a 2xx status. The target was allowed by the URL policy, and a
  high-risk canary has a rollback note and an owner. (A URL parser rejects the empty string.)\<close>

theorem release_canary_sound:
  assumes "runReleaseCanary h rl i input f = (Inr d, g)" and "uh_parse (rl_url rl) [] = None"
  shows "\<exists>c d0 f0. dg_releaseCanary (readDeliveryGovernance i g) = Some c \<and> getIssue h i f = (Inr d0, f0)
    \<and> can_targetUrl c = Some (cr_targetUrl input) \<and> can_rollbackNote c = cr_rollbackNote input
    \<and> (\<exists>target. assertLoopTargetUrlAllowed (rl_url rl) (rl_urlEnv rl) (cr_targetUrl input) = Inr target)
    \<and> (cr_riskLevel input = RISK_HIGH \<longrightarrow> \<not> absent (can_rollbackNote c) \<and> \<not> absent (can_environmentOwner c))
    \<and> (can_status c = RC_PASSED \<longrightarrow> smoke_passed rl i d0 input
        \<and> (\<exists>e\<in>set HEALTH_ENDPOINTS. answered rl (cr_targetUrl input) e))"
proof -
  from canary_run [OF assms(1)] obtain d0 f0 f1 smoke f2 health ok f3 t where run:
    "getIssue h i f = (Inr d0, f0)"
    "canary_smoke rl i input d0 [''canary-start''] f1 = (Inr smoke, f2)"
    "checkDeploymentHealth rl (cr_targetUrl input) f2 = (Inr (health, ok), f3)"
    "readDeliveryGovernance i g
       = readDeliveryGovernance i (govern i (canary_decision input (smoke @ health) t) f3)"
    "cr_riskLevel input = RISK_HIGH \<longrightarrow> \<not> absent (cr_rollbackNote input) \<and> \<not> absent (cr_environmentOwner input)"
    "\<exists>target. assertLoopTargetUrlAllowed (rl_url rl) (rl_urlEnv rl) (cr_targetUrl input) = Inr target"
    by blast
  from run(6) have url: "cr_targetUrl input \<noteq> []"
    using assms(2) by (auto simp: assertLoopTargetUrlAllowed_def parseTargetUrl_def)
  obtain a t' u ms where "readDeliveryGovernance i g = governed i a t' u ms (readDeliveryGovernance i f3)
      (canary_decision input (smoke @ health) t)"
    using govern_governance run(4) by metis
  then obtain c where c: "dg_releaseCanary (readDeliveryGovernance i g) = Some c"
      "can_status c = (if canary_passed (smoke @ health) then RC_PASSED else RC_FAILED)"
      "can_targetUrl c = Some (cr_targetUrl input)" "can_rollbackNote c = cr_rollbackNote input"
      "can_environmentOwner c = cr_environmentOwner input"
    by (simp add: canary_decision_def)
  have "smoke_passed rl i d0 input \<and> (\<exists>e\<in>set HEALTH_ENDPOINTS. answered rl (cr_targetUrl input) e)"
    if "can_status c = RC_PASSED"
  proof -
    from that c(2) have ok: "canary_passed smoke" "canary_passed health"
      by (simp_all add: canary_passed_append split: if_splits)
    from run(3) url have "probe_endpoints rl (cr_targetUrl input) HEALTH_ENDPOINTS [''health-check-start''] f2
        = (Inr (health, ok), f3)"
      by (simp add: checkDeploymentHealth_def)
    from probe_answered [OF this ok(2)] canary_smoke_passed [OF run(2) ok(1) url] show ?thesis by blast
  qed
  with c run(1,5,6) show ?thesis by auto
qed

subsection \<open>Resolving a second opinion\<close>

definition resolved_in :: "loop_delivery_governance \<Rightarrow> string list" where
  "resolved_in g = List.map_filter res_conflictFingerprint (dg_secondOpinionResolutions g)"

lemma resolutions_recorded:
  assumes "\<And>req. req \<in> set reqs \<Longrightarrow> \<exists>k. req = ResolveSecondOpinionConflict a r act (Some k)"
  shows "resolved_in (readDeliveryGovernance i (in_order (map (govern i) reqs) f))
    = resolved_in (readDeliveryGovernance i f)
      @ List.map_filter (\<lambda>req. case req of ResolveSecondOpinionConflict _ _ _ k \<Rightarrow> k | _ \<Rightarrow> None) reqs"
  using assms
proof (induction reqs arbitrary: f)
  case (Cons req reqs)
  from Cons.prems [of req] obtain k where req: "req = ResolveSecondOpinionConflict a r act (Some k)" by auto
  obtain b t u ms where "readDeliveryGovernance i (govern i req f)
      = governed i b t u ms (readDeliveryGovernance i f) req"
    using govern_governance by metis
  then have "resolved_in (readDeliveryGovernance i (govern i req f)) = resolved_in (readDeliveryGovernance i f) @ [k]"
    by (simp add: resolved_in_def req map_filter_def)
  with Cons.IH [of "govern i req f"] Cons.prems req show ?case by (simp add: map_filter_simps)
qed (simp add: map_filter_def)

lemma in_order_append: "in_order (xs @ ys) f = in_order ys (in_order xs f)"
  by (induction xs arbitrary: f) simp_all

text \<open>Resolving a second opinion records the resolution of every finding it names, or of every
  conflict of the report when it names none; in the second case no conflict is left for the release
  gate. In both cases the code gate is set by a human to what the action says, also when only one
  finding was named and other conflicts are still open.\<close>

theorem second_opinion_resolved:
  assumes "resolveSecondOpinion h i body f = (Inr d, g)" and "getIssue h i f = (Inr d0, f0)"
  defines "so \<equiv> buildSecondOpinion (lh_sha16 h) d0"
  shows "set (resolved_fingerprints body so) \<subseteq> set (resolved_in (readDeliveryGovernance i g))
    \<and> (\<exists>ov. List.find (\<lambda>y. go_gateKind y = GATE_CODE) (dg_reviewGateOverrides (readDeliveryGovernance i g)) = Some ov
        \<and> go_status ov = resolution_gate (rso_action body) \<and> go_actor ov \<noteq> [])
    \<and> (requested_fingerprints body = [] \<and> sc_conflictFingerprints (so_comparison so) \<noteq> []
        \<and> [] \<notin> set (sc_conflictFingerprints (so_comparison so))
       \<longrightarrow> unresolved_conflicts (readDeliveryGovernance i g) so = 0)"
proof -
  let ?fps = "resolved_fingerprints body so"
  from assms(1,2) obtain reason f1 where
    fin: "getIssue h i (in_order (map (govern i) (resolution_requests body reason ?fps)) f1) = (Inr d, g)"
    unfolding resolveSecondOpinion_def so_def Let_def sthen_def
    by (auto simp: sbind_app split: prod.splits sum.splits)
  define recs where "recs = (if ?fps \<noteq> []
      then map (\<lambda>k. ResolveSecondOpinionConflict ''human'' reason (rso_action body) (Some k)) ?fps
      else [ResolveSecondOpinionConflict ''human'' reason (rso_action body) None])"
  define f2 where "f2 = in_order (map (govern i) recs) f1"
  define gate where "gate = SetReviewGate ''human'' (Some reason) GATE_CODE (resolution_gate (rso_action body)) None"
  have g: "readDeliveryGovernance i g = readDeliveryGovernance i (govern i gate f2)"
    using getIssue_governance [OF fin, of i]
    by (simp add: resolution_requests_def recs_def [symmetric] gate_def f2_def in_order_append)
  obtain a t u ms where gov: "readDeliveryGovernance i g = governed i a t u ms (readDeliveryGovernance i f2) gate
      \<and> a \<noteq> []"
    using govern_governance [of i gate f2] g by metis
  have same: "resolved_in (readDeliveryGovernance i g) = resolved_in (readDeliveryGovernance i f2)"
    using gov by (simp add: resolved_in_def gate_def)
  have recorded: "set ?fps \<subseteq> set (resolved_in (readDeliveryGovernance i g))"
  proof (cases "?fps = []")
    case False
    have "resolved_in (readDeliveryGovernance i f2) = resolved_in (readDeliveryGovernance i f1)
        @ List.map_filter (\<lambda>req. case req of ResolveSecondOpinionConflict _ _ _ k \<Rightarrow> k | _ \<Rightarrow> None) recs"
      unfolding f2_def using False
      by (intro resolutions_recorded [where a = "''human''" and r = reason and act = "rso_action body"])
        (auto simp: recs_def)
    with False same show ?thesis by (auto simp: recs_def map_filter_def comp_def)
  qed simp
  let ?ov = "\<lparr>go_gateKind = GATE_CODE, go_status = resolution_gate (rso_action body), go_actor = a,
    go_reason = Some reason, go_expiresAt = None, go_updated = t\<rparr>"
  have "List.find (\<lambda>y. go_gateKind y = GATE_CODE) (dg_reviewGateOverrides (readDeliveryGovernance i g)) = Some ?ov"
    using find_replace_by [of go_gateKind ?ov] gov by (simp add: gate_def)
  moreover have "unresolved_conflicts (readDeliveryGovernance i g) so = 0"
    if "requested_fingerprints body = []" "sc_conflictFingerprints (so_comparison so) \<noteq> []"
      "[] \<notin> set (sc_conflictFingerprints (so_comparison so))"
  proof -
    from that have "?fps = sc_conflictFingerprints (so_comparison so)"
      by (simp add: resolved_fingerprints_def)
    with recorded that show ?thesis
      by (auto simp: unresolved_conflicts_def resolved_in_def [symmetric] Let_def filter_empty_conv)
  qed
  ultimately show ?thesis using recorded gov by auto
qed

subsection \<open>The handlers return\<close>

text \<open>The total counterpart of \<open>sat\<close>: from a store with \<open>I\<close> the computation returns, and keeps \<open>I\<close>.\<close>

definition returns :: "('s \<Rightarrow> bool) \<Rightarrow> ('s, 'a) sm \<Rightarrow> bool" where
  "returns I m \<longleftrightarrow> (\<forall>f. I f \<longrightarrow> (\<exists>x g. m f = (Inr x, g) \<and> I g))"

lemma returns_sret: "returns I (sret x)"
  by (simp add: returns_def)

lemma returns_smod: "(\<And>f. I f \<Longrightarrow> I (w f)) \<Longrightarrow> returns I (smod w)"
  by (simp add: returns_def)

lemma returns_sbind: "returns I m \<Longrightarrow> (\<And>x. returns I (k x)) \<Longrightarrow> returns I (sbind m k)"
  unfolding returns_def sbind_app by fastforce

lemma returns_sthen: "returns I m \<Longrightarrow> returns I k \<Longrightarrow> returns I (sthen m k)"
  unfolding sthen_def by (rule returns_sbind)

lemma returns_if: "returns I m \<Longrightarrow> returns I k \<Longrightarrow> returns I (if b then m else k)"
  by simp

lemma returns_prod: "(\<And>a b. returns I (k a b)) \<Longrightarrow> returns I (case x of (a, b) \<Rightarrow> k a b)"
  by (cases x) simp

lemmas returns_rules = returns_sret returns_sbind returns_sthen returns_if returns_prod

definition loop_readable :: "string \<Rightarrow> fs \<Rightarrow> bool" where
  "loop_readable i f \<longleftrightarrow> map_of (fs_issues f) i \<noteq> None \<and> map_of (fs_intakes f) (intakeId i) \<noteq> None
     \<and> stateOf i f \<noteq> None"

lemma release_stateOf_cong: "fs_states g = fs_states f \<Longrightarrow> fs_legacyState g = fs_legacyState f \<Longrightarrow> stateOf i g = stateOf i f"
  by (simp add: stateOf_def readState_def)

lemma loop_readable_cong:
  "fs_issues g = fs_issues f \<Longrightarrow> fs_intakes g = fs_intakes f \<Longrightarrow> fs_states g = fs_states f
   \<Longrightarrow> fs_legacyState g = fs_legacyState f \<Longrightarrow> loop_readable i g = loop_readable i f"
  by (simp add: loop_readable_def release_stateOf_cong [of g f])

lemma getIssue_readable:
  "loop_readable i f \<Longrightarrow> fs_legacyState f \<noteq> None \<Longrightarrow> \<exists>d. getIssue h i f = (Inr d, f)"
  by (auto simp: loop_readable_def getIssue_def sbind_app readDetail_eq ensureInitialized_def detail_of_def)

lemma action_effect_core:
  "fs_issues (action_effect r n f) = fs_issues f" "fs_intakes (action_effect r n f) = fs_intakes f"
  "fs_states (action_effect r n f) = fs_states f" "fs_legacyState (action_effect r n f) = fs_legacyState f"
  by (cases r, simp_all add: writeWorkflowDefaults_def)+

lemma govern_core:
  "fs_issues (govern i r f) = fs_issues f" "fs_intakes (govern i r f) = fs_intakes f"
  "fs_states (govern i r f) = fs_states f" "fs_legacyState (govern i r f) = fs_legacyState f"
  by (simp_all add: govern_def governDelivery_def Let_def action_effect_core)


definition ready :: "string \<Rightarrow> fs \<Rightarrow> bool" where
  "ready i f \<longleftrightarrow> loop_readable i f \<and> fs_legacyState f \<noteq> None"

lemma ready_cong:
  "fs_issues g = fs_issues f \<Longrightarrow> fs_intakes g = fs_intakes f \<Longrightarrow> fs_states g = fs_states f
   \<Longrightarrow> fs_legacyState g = fs_legacyState f \<Longrightarrow> ready i g = ready i f"
  by (simp add: ready_def loop_readable_cong [of g f])

lemma ready_ops [simp]:
  "ready i (tick f) = ready i f" "ready i (govern j r f) = ready i f" "ready i (appendLog p f) = ready i f"
  "ready i (writeBrowserQaReport q f) = ready i f" "ready i (writeSecondOpinion o2 f) = ready i f"
  by (rule ready_cong; simp add: govern_core writeBrowserQaReport_def writeSecondOpinion_def Let_def)+

lemma ready_governs [simp]: "ready i (in_order (map (govern j) rs) f) = ready i f"
  by (induction rs arbitrary: f) simp_all

lemma returns_getIssue: "returns (ready i) (getIssue h i)"
  unfolding returns_def ready_def using getIssue_readable by fast

lemma returns_clock: "returns (ready i) (\<lambda>f. (Inr (x f), tick f))"
  by (simp add: returns_def)

lemma returns_attempt: "returns (ready i) (attempt c)"
  by (simp add: returns_def attempt_app)

lemma returns_now: "returns (ready i) now"
  by (simp add: returns_def now_def)

lemma returns_case_sum: "(\<And>a. returns I (m a)) \<Longrightarrow> (\<And>b. returns I (k b)) \<Longrightarrow> returns I (case x of Inl a \<Rightarrow> m a | Inr b \<Rightarrow> k b)"
  by (cases x) simp_all

lemma returns_probe: "returns (ready i) (probe_endpoints rl target es steps)"
  by (induction es arbitrary: steps)
    (simp_all only: probe_endpoints.simps, (intro returns_rules returns_attempt returns_case_sum | assumption)+)

lemma returns_smoke: "returns (ready i) (canary_smoke rl j input d steps)"
  unfolding canary_smoke_def
  by (intro returns_rules returns_now returns_attempt returns_case_sum returns_smod) simp_all

lemma returns_resolve: "returns (ready i) (resolveSecondOpinion h i body)"
proof -
  have "returns (ready i) (resolution_reason body)"
    by (auto simp: returns_def resolution_reason_def split: option.split so_resolution_kind.split)
  then show ?thesis
    unfolding resolveSecondOpinion_def Let_def by (intro returns_rules returns_getIssue returns_smod) simp_all
qed

lemma returns_canary:
  assumes "targetUrlAllowed rl (cr_targetUrl input) = sret ()"
    and "cr_riskLevel input = RISK_HIGH \<Longrightarrow> \<not> absent (cr_rollbackNote input) \<and> \<not> absent (cr_environmentOwner input)"
  shows "returns (ready i) (runReleaseCanary h rl i input)"
proof -
  have guard: "returns (ready i) (sguard (\<not> (cr_riskLevel input = RISK_HIGH
       \<and> (absent (cr_rollbackNote input) \<or> absent (cr_environmentOwner input)))) e)" for e
    using assms(2) by (auto simp: returns_def)
  show ?thesis
    unfolding runReleaseCanary_def Let_def assms(1) checkDeploymentHealth_def
    by (intro returns_rules guard returns_getIssue returns_clock returns_smoke returns_probe returns_smod) simp_all
qed

text \<open>A canary for a loop that can be read and a target that is allowed always comes to its end and
  records an outcome, whatever the browser worker and the endpoints do; so does the resolution of a
  second opinion.\<close>

theorem release_handlers_return:
  assumes "ready i f"
  shows "(\<exists>d g. resolveSecondOpinion h i body f = (Inr d, g))
    \<and> (targetUrlAllowed rl (cr_targetUrl input) = sret ()
        \<and> (cr_riskLevel input = RISK_HIGH \<longrightarrow> \<not> absent (cr_rollbackNote input) \<and> \<not> absent (cr_environmentOwner input))
       \<longrightarrow> (\<exists>d g. runReleaseCanary h rl i input f = (Inr d, g)))"
  using assms returns_resolve returns_canary unfolding returns_def by blast

subsection \<open>Witnesses\<close>

definition demo_report :: "qa_job \<Rightarrow> loop_browser_qa_report" where
  "demo_report job = \<lparr>bq_id = qj_reportId job, bq_issueId = qj_issueId job, bq_status = QA_PASSED,
     bq_targetUrl = qr_targetUrl (qj_request job), bq_title = None, bq_screenshots = [], bq_traces = None,
     bq_visualDiffs = None, bq_viewports = None, bq_handoffs = None, bq_consoleErrors = [],
     bq_networkFailures = [], bq_ignoredNetworkFailures = None, bq_checkedFlows = [], bq_blockedReason = None,
     bq_command = [], bq_durationMs = 1, bq_created = 1\<rparr>"

definition demo_release :: release_host where
  "demo_release = \<lparr>rl_root = ''/w'',
     rl_url = \<lparr>uh_parse = (\<lambda>u. if u = [] then None else Some \<lparr>tu_protocol = ''https:'', tu_username = [],
       tu_password = [], tu_hostname = ''a''\<rparr>), uh_isIP = (\<lambda>_. 4), uh_resolve = (\<lambda>_. None)\<rparr>,
     rl_urlEnv = \<lparr>ue_NODE_ENV = Some ''test'', ue_ALLOWLIST = None, ue_ALLOW_PRIVATE = Some ''1''\<rparr>,
     rl_qaWorker = (\<lambda>job n. Inr (demo_report job)), rl_opinionWorker = (\<lambda>d r n. Inl (PlainError ''off'')),
     rl_fetch = (\<lambda>e u n. Inr 204)\<rparr>"

definition demo_canary :: canary_request where
  "demo_canary = \<lparr>cr_targetUrl = ''u'', cr_riskLevel = RISK_HIGH, cr_environment = None,
     cr_environmentOwner = Some ''ops'', cr_rollbackNote = Some ''revert''\<rparr>"

lemma demo_allowed: "targetUrlAllowed demo_release (cr_targetUrl demo_canary) = sret ()"
proof -
  have "local_like (rl_urlEnv demo_release)" "parseAllowedHosts None = []"
    "to_lower ''1'' \<in> set TRUE_VALUES" by code_simp+
  then show ?thesis
    by (simp add: targetUrlAllowed_def demo_release_def demo_canary_def assertLoopTargetUrlAllowed_def
        parseTargetUrl_def resolveTargetAddresses_def Let_def)
qed

lemma sample_readable: "loop_readable ''issue-1'' (ensureInitialized sample_fs)"
  by code_simp


lemma sample_ready: "ready ''issue-1'' (ensureInitialized sample_fs)"
  using sample_readable by (simp add: ready_def ensureInitialized_def)

lemma demo_canary_guard: "\<not> absent (cr_rollbackNote demo_canary) \<and> \<not> absent (cr_environmentOwner demo_canary)"
  by (simp add: demo_canary_def absent_def)

theorem release_handlers_return_witness:
  "\<forall>h. \<exists>d g. runReleaseCanary h demo_release ''issue-1'' demo_canary (ensureInitialized sample_fs) = (Inr d, g)"
  using release_handlers_return [OF sample_ready, of _ undefined demo_release demo_canary] demo_allowed demo_canary_guard
  by blast

lemma demo_canary_run:
  "\<exists>d g. runReleaseCanary h demo_release ''issue-1'' demo_canary (ensureInitialized sample_fs) = (Inr d, g)"
  using returns_canary [OF demo_allowed demo_canary_guard] sample_ready unfolding returns_def by blast

theorem release_canary_sound_witness:
  "\<forall>h. \<exists>c g. dg_releaseCanary (readDeliveryGovernance ''issue-1'' g) = Some c
     \<and> can_targetUrl c = Some ''u'' \<and> \<not> absent (can_rollbackNote c)"
proof
  fix h
  obtain d g where run: "runReleaseCanary h demo_release ''issue-1'' demo_canary (ensureInitialized sample_fs) = (Inr d, g)"
    using demo_canary_run by blast
  have p: "uh_parse (rl_url demo_release) [] = None" by (simp add: demo_release_def)
  from release_canary_sound [OF run p] show "\<exists>c g. dg_releaseCanary (readDeliveryGovernance ''issue-1'' g) = Some c
     \<and> can_targetUrl c = Some ''u'' \<and> \<not> absent (can_rollbackNote c)"
    by (auto simp: demo_canary_def)
qed

theorem second_opinion_resolved_witness:
  "\<forall>h. \<exists>d g. resolveSecondOpinion h ''issue-1'' \<lparr>rso_action = WAIVE, rso_findingFingerprint = Some ''k'',
       rso_findingFingerprints = None, rso_reason = None\<rparr> (ensureInitialized sample_fs) = (Inr d, g)
     \<and> ''k'' \<in> set (resolved_in (readDeliveryGovernance ''issue-1'' g))"
proof
  fix h
  let ?body = "\<lparr>rso_action = WAIVE, rso_findingFingerprint = Some ''k'',
       rso_findingFingerprints = None, rso_reason = None\<rparr>"
  obtain d g where run: "resolveSecondOpinion h ''issue-1'' ?body (ensureInitialized sample_fs) = (Inr d, g)"
    using returns_resolve sample_ready unfolding returns_def by blast
  obtain d0 f0 where get: "getIssue h ''issue-1'' (ensureInitialized sample_fs) = (Inr d0, f0)"
    using returns_getIssue sample_ready unfolding returns_def by blast
  have "requested_fingerprints ?body = [''k'']" by (simp add: requested_fingerprints_def js_set_def)
  with second_opinion_resolved [OF run get] run
  show "\<exists>d g. resolveSecondOpinion h ''issue-1'' ?body (ensureInitialized sample_fs) = (Inr d, g)
     \<and> ''k'' \<in> set (resolved_in (readDeliveryGovernance ''issue-1'' g))"
    by (auto simp: resolved_fingerprints_def)
qed

end
