(* ===== verification/Admin.thy ===== *)
theory Admin
  imports Store_Governance Runner
begin

text \<open>
  The admin registries: \<open>loops-admin/loops-admin.service.ts\<close> (tools and delivery blueprints) over the
  part of \<open>loops-file-store.service.ts\<close> that keeps \<open>.loops/tools\<close>, \<open>.loops/blueprints\<close> and the version
  history of the blueprints.

  A directory is an association list from file names to records, listed in the order of the first
  write; \<open>t\<close> is the time the operation reads. A history file is named by the version and the time.
  Archives of tenants are delegated to a port and not part of the model.
\<close>

subsection \<open>Data\<close>

datatype tool_category =
  CAT_REPO | CAT_BUILD | CAT_QA | CAT_COLLABORATION | CAT_RUNTIME | CAT_SECURITY | CAT_CUSTOM

datatype tool_lifecycle = TOOL_ACTIVE | TOOL_PLANNED | TOOL_EXPERIMENTAL | TOOL_DEPRECATED

datatype tool_auth_kind = TAUTH_NONE | TAUTH_TOKEN | TAUTH_OAUTH | TAUTH_SSH | TAUTH_MCP

datatype third_party = TP_UNSUPPORTED | TP_PLANNED | TP_COMPATIBLE

record tool_compatibility =
  tc_codex :: bool
  tc_claudeCode :: bool
  tc_thirdParty :: third_party

record tool_auth =
  ta_kind :: tool_auth_kind
  ta_configured :: bool
  ta_expiresAt :: "timestamp option"
  ta_scopes :: "string list"

record tool_health =
  th_ok :: bool
  th_message :: string
  th_lastCheckedAt :: "timestamp option"

record loop_tool =
  tl_id :: string
  tl_name :: string
  tl_kind :: string
  tl_category :: tool_category
  tl_status :: tool_lifecycle
  tl_description :: string
  tl_schema :: "json option"
  tl_auth :: tool_auth
  tl_permissions :: "string list"
  tl_compatibility :: tool_compatibility
  tl_health :: tool_health
  tl_risks :: "string list"
  tl_deterministicBoundary :: string
  tl_ownerAgentIds :: "string list"
  tl_createdAt :: timestamp
  tl_updatedAt :: timestamp

record register_tool_request =
  rgt_name :: string
  rgt_kind :: string
  rgt_category :: tool_category
  rgt_description :: string
  rgt_authKind :: tool_auth_kind
  rgt_permissions :: "string list"
  rgt_compatibility :: tool_compatibility
  rgt_deterministicBoundary :: string

record compatibility_update =
  cu_codex :: "bool option"
  cu_claudeCode :: "bool option"
  cu_thirdParty :: "third_party option"

record update_tool_request =
  up_name :: "string option"
  up_status :: "tool_lifecycle option"
  up_description :: "string option"
  up_permissions :: "string list option"
  up_compatibility :: "compatibility_update option"
  up_deterministicBoundary :: "string option"

record health_response =
  hr_toolId :: string
  hr_ok :: bool
  hr_message :: string
  hr_checkedAt :: timestamp

record tool_test_response =
  tt_toolId :: string
  tt_ok :: bool
  tt_message :: string
  tt_output :: "string option"
  tt_durationMs :: nat
  tt_testedAt :: timestamp

datatype blueprint_kind =
    BP_BUGFIX | BP_FEATURE | BP_REFACTOR | BP_DOCS | BP_INTEGRATION | BP_FLOW | BP_SECURITY
  | BP_DEPENDENCY

record gate_profile =
  gp_humanGates :: "string list"
  gp_agentGates :: "string list"
  gp_releaseGates :: "string list"

record runtime_policy =
  rt_primary :: string
  rt_fallback :: "string option"

text \<open>What the history keeps of a blueprint, as a prefix of the record.\<close>

record blueprint_snapshot =
  bs_name :: string
  bs_description :: string
  bs_personaSequence :: "string list"
  bs_evalSuiteId :: "string option"
  bs_gateProfile :: gate_profile
  bs_runtimePolicy :: runtime_policy

record loop_blueprint =
  bp_id :: string
  bp_kind :: blueprint_kind
  bp_version :: string
  bp_priority :: loop_priority
  bp_active :: bool
  bp_content :: blueprint_snapshot
  bp_requiredArtifacts :: "string list"
  bp_prCommentTemplate :: "string option"
  bp_usageCount :: nat
  bp_createdAt :: timestamp
  bp_updatedAt :: timestamp

record create_blueprint_request =
  cb_name :: string
  cb_kind :: blueprint_kind
  cb_description :: string
  cb_personaSequence :: "string list"
  cb_evalSuiteId :: "string option"
  cb_gateProfile :: "gate_profile option"
  cb_runtimePolicy :: runtime_policy

record gate_profile_update =
  gu_humanGates :: "string list option"
  gu_agentGates :: "string list option"
  gu_releaseGates :: "string list option"

record runtime_policy_update =
  ru_primary :: "string option"
  ru_fallback :: "string option"

record update_blueprint_request =
  ub_name :: "string option"
  ub_description :: "string option"
  ub_active :: "bool option"
  ub_personaSequence :: "string list option"
  ub_evalSuiteId :: "string option"
  ub_gateProfile :: "gate_profile_update option"
  ub_runtimePolicy :: "runtime_policy_update option"

record history_entry =
  he_blueprintId :: string
  he_version :: string
  he_archivedAt :: timestamp
  he_snapshot :: blueprint_snapshot

record admin_store =
  ad_tools :: "(string \<times> loop_tool) list"
  ad_blueprints :: "(string \<times> loop_blueprint) list"
  ad_history :: "((string \<times> string \<times> timestamp) \<times> history_entry) list"

text \<open>A page of a list.\<close>

definition page_from :: "nat option \<Rightarrow> nat option \<Rightarrow> 'a list \<Rightarrow> 'a list \<times> nat \<times> nat \<times> nat" where
  "page_from page limit xs = (let p = case_option 1 id page; n = case_option 20 id limit in
     (if p = 0 then [] else take n (drop ((p - 1) * n) xs), length xs, p, n))"

subsection \<open>The store\<close>

definition listTools :: "admin_store \<Rightarrow> loop_tool list" where
  "listTools s = map snd (ad_tools s)"

definition readTool :: "string \<Rightarrow> admin_store \<Rightarrow> loop_tool option" where
  "readTool i s = map_of (ad_tools s) i"

definition writeTool :: "loop_tool \<Rightarrow> admin_store \<Rightarrow> admin_store" where
  "writeTool x s = s\<lparr>ad_tools := AList.update (tl_id x) x (ad_tools s)\<rparr>"

definition nextToolSeq :: "admin_store \<Rightarrow> nat" where
  "nextToolSeq s = length (listTools s) + 1"

definition listBlueprints :: "admin_store \<Rightarrow> loop_blueprint list" where
  "listBlueprints s = map snd (ad_blueprints s)"

definition readBlueprint :: "string \<Rightarrow> admin_store \<Rightarrow> loop_blueprint option" where
  "readBlueprint i s = map_of (ad_blueprints s) i"

definition writeBlueprint :: "loop_blueprint \<Rightarrow> admin_store \<Rightarrow> admin_store" where
  "writeBlueprint x s = s\<lparr>ad_blueprints := AList.update (bp_id x) x (ad_blueprints s)\<rparr>"

definition nextBlueprintSeq :: "admin_store \<Rightarrow> nat" where
  "nextBlueprintSeq s = length (listBlueprints s) + 1"

text \<open>\<open>replace(/[^a-zA-Z0-9._-]+/g, '-')\<close>: a run of other characters becomes one dash.\<close>

function safe_version :: "string \<Rightarrow> string" where
  "safe_version [] = []"
| "safe_version (c # cs) = (if safe_char c then c # safe_version cs
     else CHR ''-'' # safe_version (dropWhile (\<lambda>x. \<not> safe_char x) cs))"
  by pat_completeness auto
termination
  by (relation "measure length") (auto simp: le_imp_less_Suc length_dropWhile_le)

definition writeBlueprintHistory ::
    "string \<Rightarrow> loop_blueprint \<Rightarrow> timestamp \<Rightarrow> admin_store \<Rightarrow> admin_store" where
  "writeBlueprintHistory i b t s = s\<lparr>ad_history :=
     AList.update (i, safe_version (bp_version b), t)
       \<lparr>he_blueprintId = i, he_version = bp_version b, he_archivedAt = t, he_snapshot = bp_content b\<rparr>
       (ad_history s)\<rparr>"

definition listBlueprintHistory :: "string \<Rightarrow> admin_store \<Rightarrow> history_entry list" where
  "listBlueprintHistory i s =
     sort_desc he_archivedAt (map snd (filter (\<lambda>e. fst (fst e) = i) (ad_history s)))"

subsection \<open>Tools\<close>

definition getTool :: "string \<Rightarrow> (admin_store, loop_tool) sm" where
  "getTool i s = (case readTool i s of
     None \<Rightarrow> (Inl (NotFound (''Tool '' @ i @ '' not found'')), s) | Some x \<Rightarrow> (Inr x, s))"

definition new_tool :: "register_tool_request \<Rightarrow> string \<Rightarrow> timestamp \<Rightarrow> loop_tool" where
  "new_tool input i t = \<lparr>tl_id = i, tl_name = rgt_name input, tl_kind = rgt_kind input,
     tl_category = rgt_category input, tl_status = TOOL_ACTIVE, tl_description = rgt_description input,
     tl_schema = None,
     tl_auth = \<lparr>ta_kind = rgt_authKind input, ta_configured = False, ta_expiresAt = None, ta_scopes = []\<rparr>,
     tl_permissions = rgt_permissions input, tl_compatibility = rgt_compatibility input,
     tl_health = \<lparr>th_ok = True, th_message = ''Tool registered, pending initial health check'',
       th_lastCheckedAt = None\<rparr>,
     tl_risks = [], tl_deterministicBoundary = rgt_deterministicBoundary input, tl_ownerAgentIds = [],
     tl_createdAt = t, tl_updatedAt = t\<rparr>"

definition registerTool ::
    "register_tool_request \<Rightarrow> timestamp \<Rightarrow> (admin_store, loop_tool) sm" where
  "registerTool input t s = (let x = new_tool input (''tool-'' @ nat_str (nextToolSeq s)) t in
     (Inr x, writeTool x s))"

definition or_keep :: "'a option \<Rightarrow> 'a \<Rightarrow> 'a" where
  "or_keep x old = case_option old id x"

definition updated_tool :: "update_tool_request \<Rightarrow> timestamp \<Rightarrow> loop_tool \<Rightarrow> loop_tool" where
  "updated_tool input t x = x\<lparr>tl_name := or_keep (up_name input) (tl_name x),
     tl_status := or_keep (up_status input) (tl_status x),
     tl_description := or_keep (up_description input) (tl_description x),
     tl_permissions := or_keep (up_permissions input) (tl_permissions x),
     tl_compatibility := (case up_compatibility input of
         None \<Rightarrow> tl_compatibility x
       | Some u \<Rightarrow> \<lparr>tc_codex = or_keep (cu_codex u) (tc_codex (tl_compatibility x)),
           tc_claudeCode = or_keep (cu_claudeCode u) (tc_claudeCode (tl_compatibility x)),
           tc_thirdParty = or_keep (cu_thirdParty u) (tc_thirdParty (tl_compatibility x))\<rparr>),
     tl_deterministicBoundary := or_keep (up_deterministicBoundary input) (tl_deterministicBoundary x),
     tl_updatedAt := t\<rparr>"

definition updateTool ::
    "string \<Rightarrow> update_tool_request \<Rightarrow> timestamp \<Rightarrow> (admin_store, loop_tool) sm" where
  "updateTool i input t = sbind (getTool i) (\<lambda>x. let y = updated_tool input t x in
     sthen (smod (writeTool y)) (sret y))"

fun lifecycle_str :: "tool_lifecycle \<Rightarrow> string" where
  "lifecycle_str TOOL_ACTIVE = ''active''"
| "lifecycle_str TOOL_PLANNED = ''planned''"
| "lifecycle_str TOOL_EXPERIMENTAL = ''experimental''"
| "lifecycle_str TOOL_DEPRECATED = ''deprecated''"

definition toolHealthCheck :: "string \<Rightarrow> timestamp \<Rightarrow> (admin_store, health_response) sm" where
  "toolHealthCheck i t = sbind (getTool i) (\<lambda>x.
     let fine = (tl_status x = TOOL_ACTIVE);
         message = (if fine then ''Tool '' @ tl_name x @ '' is active and operational''
           else ''Tool '' @ tl_name x @ '' is in '' @ lifecycle_str (tl_status x) @ '' state'') in
     sthen (smod (writeTool (x\<lparr>tl_health := \<lparr>th_ok = fine, th_message = message,
         th_lastCheckedAt = Some t\<rparr>, tl_updatedAt := t\<rparr>)))
       (sret \<lparr>hr_toolId = i, hr_ok = fine, hr_message = message, hr_checkedAt = t\<rparr>))"

text \<open>The smoke test looks only at whether the tool exists; \<open>input\<close> is the JSON text of the request, of
  which the response quotes the first 256 UTF-16 units.\<close>

definition testTool ::
    "string \<Rightarrow> string option \<Rightarrow> timestamp \<Rightarrow> (admin_store, tool_test_response) sm" where
  "testTool i input t = sbind (getTool i) (\<lambda>x.
     sret \<lparr>tt_toolId = i, tt_ok = True,
       tt_message = ''Tool '' @ i @ '' smoke test passed (control-plane v1)'',
       tt_output = map_option (\<lambda>s. ''Input received: '' @ js_slice0 256 (utf8_chunks s)) input,
       tt_durationMs = 0, tt_testedAt = t\<rparr>)"

subsection \<open>Blueprints\<close>

definition getBlueprint :: "string \<Rightarrow> (admin_store, loop_blueprint) sm" where
  "getBlueprint i s = (case readBlueprint i s of
     None \<Rightarrow> (Inl (NotFound (''Blueprint '' @ i @ '' not found'')), s) | Some x \<Rightarrow> (Inr x, s))"

definition new_blueprint :: "create_blueprint_request \<Rightarrow> string \<Rightarrow> timestamp \<Rightarrow> loop_blueprint" where
  "new_blueprint input i t = \<lparr>bp_id = i, bp_kind = cb_kind input, bp_version = ''1.0.0'', bp_priority = P2,
     bp_active = True,
     bp_content = \<lparr>bs_name = cb_name input, bs_description = cb_description input,
       bs_personaSequence = cb_personaSequence input, bs_evalSuiteId = cb_evalSuiteId input,
       bs_gateProfile = or_keep (cb_gateProfile input)
         \<lparr>gp_humanGates = [], gp_agentGates = [], gp_releaseGates = []\<rparr>,
       bs_runtimePolicy = cb_runtimePolicy input\<rparr>,
     bp_requiredArtifacts = [], bp_prCommentTemplate = None, bp_usageCount = 0,
     bp_createdAt = t, bp_updatedAt = t\<rparr>"

definition createBlueprint ::
    "create_blueprint_request \<Rightarrow> timestamp \<Rightarrow> (admin_store, loop_blueprint) sm" where
  "createBlueprint input t s = (let x = new_blueprint input (''bp-'' @ nat_str (nextBlueprintSeq s)) t in
     (Inr x, writeBlueprint x s))"

definition updated_content :: "update_blueprint_request \<Rightarrow> blueprint_snapshot \<Rightarrow> blueprint_snapshot" where
  "updated_content input c = \<lparr>bs_name = or_keep (ub_name input) (bs_name c),
     bs_description = or_keep (ub_description input) (bs_description c),
     bs_personaSequence = or_keep (ub_personaSequence input) (bs_personaSequence c),
     bs_evalSuiteId = (case ub_evalSuiteId input of None \<Rightarrow> bs_evalSuiteId c | Some e \<Rightarrow> Some e),
     bs_gateProfile = (case ub_gateProfile input of
         None \<Rightarrow> bs_gateProfile c
       | Some u \<Rightarrow> \<lparr>gp_humanGates = or_keep (gu_humanGates u) (gp_humanGates (bs_gateProfile c)),
           gp_agentGates = or_keep (gu_agentGates u) (gp_agentGates (bs_gateProfile c)),
           gp_releaseGates = or_keep (gu_releaseGates u) (gp_releaseGates (bs_gateProfile c))\<rparr>),
     bs_runtimePolicy = \<lparr>
       rt_primary = or_keep (Option.bind (ub_runtimePolicy input) ru_primary) (rt_primary (bs_runtimePolicy c)),
       rt_fallback = (case Option.bind (ub_runtimePolicy input) ru_fallback of
           None \<Rightarrow> rt_fallback (bs_runtimePolicy c) | Some e \<Rightarrow> Some e)\<rparr>\<rparr>"

definition updateBlueprint ::
    "string \<Rightarrow> update_blueprint_request \<Rightarrow> timestamp \<Rightarrow> (admin_store, loop_blueprint) sm" where
  "updateBlueprint i input t = sbind (getBlueprint i) (\<lambda>x.
     let y = x\<lparr>bp_active := or_keep (ub_active input) (bp_active x),
           bp_content := updated_content input (bp_content x), bp_updatedAt := t\<rparr> in
     sthen (smod (writeBlueprint y)) (sret y))"

text \<open>The current version is archived first, then the target is looked up in the history: the newest
  entry of the version that is asked for, or else the oldest entry.\<close>

definition rollback_target :: "string option \<Rightarrow> history_entry list \<Rightarrow> history_entry option" where
  "rollback_target targetVersion history = (case targetVersion of
     Some (c # v) \<Rightarrow> List.find (\<lambda>e. he_version e = c # v) history
   | _ \<Rightarrow> if history = [] then None else Some (last history))"

definition rollbackBlueprint ::
    "string \<Rightarrow> string option \<Rightarrow> timestamp \<Rightarrow> (admin_store, loop_blueprint) sm" where
  "rollbackBlueprint i targetVersion t = sbind (getBlueprint i) (\<lambda>x.
     sthen (smod (writeBlueprintHistory i x t)) (sbind sget (\<lambda>s.
     case rollback_target targetVersion (listBlueprintHistory i s) of
       None \<Rightarrow> sthrow (case targetVersion of
           Some (c # v) \<Rightarrow> NotFound (''Blueprint '' @ i @ '' version '' @ (c # v) @ '' not found in history'')
         | _ \<Rightarrow> BadRequest (''Blueprint '' @ i @ '' has no history to rollback to''))
     | Some target \<Rightarrow>
         let y = x\<lparr>bp_content := he_snapshot target, bp_version := he_version target, bp_updatedAt := t\<rparr> in
         sthen (smod (writeBlueprint y)) (sret y))))"

definition default_blueprint ::
    "timestamp \<Rightarrow> string \<Rightarrow> string \<Rightarrow> blueprint_kind \<Rightarrow> string \<Rightarrow> loop_priority \<Rightarrow> string list \<Rightarrow> string
     \<Rightarrow> gate_profile \<Rightarrow> runtime_policy \<Rightarrow> string list \<Rightarrow> loop_blueprint" where
  "default_blueprint t i name kind description priority personas suite gates policy artifacts =
     \<lparr>bp_id = i, bp_kind = kind, bp_version = ''1.0.0'', bp_priority = priority, bp_active = True,
      bp_content = \<lparr>bs_name = name, bs_description = description, bs_personaSequence = personas,
        bs_evalSuiteId = Some suite, bs_gateProfile = gates, bs_runtimePolicy = policy\<rparr>,
      bp_requiredArtifacts = artifacts, bp_prCommentTemplate = None, bp_usageCount = 0,
      bp_createdAt = t, bp_updatedAt = t\<rparr>"

definition default_blueprints :: "timestamp \<Rightarrow> loop_blueprint list" where
  "default_blueprints t = [
     default_blueprint t ''bp-bugfix'' ''Bugfix Loop'' BP_BUGFIX
       ''Bug fix delivery with regression test and global review'' P1
       [''Intake Analyst'', ''Spec Writer'', ''Work Planner'', ''Builder'', ''Test Runner'', ''Code Reviewer'', ''Release Reviewer'']
       ''eval-delivery-readiness''
       \<lparr>gp_humanGates = [''Spec Review''], gp_agentGates = [''Code Review''],
         gp_releaseGates = [''Global Review'', ''PR Evidence'']\<rparr>
       \<lparr>rt_primary = ''codex-cli'', rt_fallback = Some ''claude-code-cli''\<rparr>
       [''test-records'', ''review-records'', ''global-verdict''],
     default_blueprint t ''bp-feature'' ''Feature Loop'' BP_FEATURE
       ''New feature delivery with full test matrix and contract validation'' P1
       [''Intake Analyst'', ''Spec Writer'', ''Work Planner'', ''Builder'', ''Test Runner'', ''Code Reviewer'', ''Release Reviewer'', ''Evidence Curator'']
       ''eval-architecture-compliance''
       \<lparr>gp_humanGates = [''Spec Review''], gp_agentGates = [''Code Review'', ''Architecture Check''],
         gp_releaseGates = [''Global Review'', ''PR Evidence'', ''Eval Gate'']\<rparr>
       \<lparr>rt_primary = ''claude-code-cli'', rt_fallback = Some ''codex-cli''\<rparr>
       [''spec'', ''test-records'', ''review-records'', ''global-verdict'', ''pr-comment''],
     default_blueprint t ''bp-refactor'' ''Refactor Loop'' BP_REFACTOR
       ''Behavior-preserving refactor with existing test pass guarantee'' P2
       [''Intake Analyst'', ''Work Planner'', ''Builder'', ''Test Runner'', ''Code Reviewer'', ''Release Reviewer'']
       ''eval-test-evidence''
       \<lparr>gp_humanGates = [], gp_agentGates = [''Code Review''],
         gp_releaseGates = [''Global Review'', ''All Tests Pass'']\<rparr>
       \<lparr>rt_primary = ''codex-cli'', rt_fallback = None\<rparr>
       [''test-records'', ''review-records'', ''global-verdict''],
     default_blueprint t ''bp-docs'' ''Documentation Loop'' BP_DOCS
       ''Documentation update with link validation'' P3
       [''Intake Analyst'', ''Builder'', ''Code Reviewer'']
       ''eval-delivery-readiness''
       \<lparr>gp_humanGates = [], gp_agentGates = [''Link Check''],
         gp_releaseGates = [''PR Evidence'']\<rparr>
       \<lparr>rt_primary = ''codex-cli'', rt_fallback = None\<rparr>
       [''review-records'', ''pr-comment''],
     default_blueprint t ''bp-integration'' ''Integration Loop'' BP_INTEGRATION
       ''Third-party integration with contract and security validation'' P1
       [''Intake Analyst'', ''Spec Writer'', ''Work Planner'', ''Builder'', ''Test Runner'', ''Code Reviewer'', ''Release Reviewer'', ''Evidence Curator'']
       ''eval-runtime-safety''
       \<lparr>gp_humanGates = [''Spec Review''], gp_agentGates = [''Code Review'', ''Security Scan''],
         gp_releaseGates = [''Global Review'', ''PR Evidence'', ''Runtime Check'']\<rparr>
       \<lparr>rt_primary = ''claude-code-cli'', rt_fallback = Some ''codex-cli''\<rparr>
       [''spec'', ''test-records'', ''review-records'', ''global-verdict'', ''pr-comment''],
     default_blueprint t ''bp-flow'' ''Flow Loop'' BP_FLOW
       ''Multi-step workflow automation delivery'' P2
       [''Intake Analyst'', ''Spec Writer'', ''Work Planner'', ''Builder'', ''Test Runner'', ''Code Reviewer'', ''Release Reviewer'']
       ''eval-delivery-readiness''
       \<lparr>gp_humanGates = [''Spec Review''], gp_agentGates = [''Code Review''],
         gp_releaseGates = [''Global Review'', ''PR Evidence'']\<rparr>
       \<lparr>rt_primary = ''codex-cli'', rt_fallback = Some ''claude-code-cli''\<rparr>
       [''spec'', ''test-records'', ''review-records'', ''global-verdict''],
     default_blueprint t ''bp-security'' ''Security Patch Loop'' BP_SECURITY
       ''Security fix with mandatory human approval and security scan'' P0
       [''Intake Analyst'', ''Work Planner'', ''Builder'', ''Test Runner'', ''Code Reviewer'', ''Release Reviewer'']
       ''eval-runtime-safety''
       \<lparr>gp_humanGates = [''Security Approval''], gp_agentGates = [''Security Scan'', ''Code Review''],
         gp_releaseGates = [''Global Review'', ''PR Evidence'']\<rparr>
       \<lparr>rt_primary = ''codex-cli'', rt_fallback = None\<rparr>
       [''test-records'', ''review-records'', ''global-verdict'', ''pr-comment''],
     default_blueprint t ''bp-dependency'' ''Dependency Upgrade Loop'' BP_DEPENDENCY
       ''Dependency upgrade with lockfile validation and test matrix'' P2
       [''Intake Analyst'', ''Builder'', ''Test Runner'', ''Code Reviewer'']
       ''eval-test-evidence''
       \<lparr>gp_humanGates = [], gp_agentGates = [''Test Matrix''],
         gp_releaseGates = [''PR Evidence'', ''All Tests Pass'']\<rparr>
       \<lparr>rt_primary = ''codex-cli'', rt_fallback = None\<rparr>
       [''test-records'', ''review-records'']]"

definition seedDefaultBlueprints :: "timestamp \<Rightarrow> (admin_store, loop_blueprint list) sm" where
  "seedDefaultBlueprints t = sthen (smod (in_order (map writeBlueprint (default_blueprints t))))
     (sret (default_blueprints t))"

definition admin_listBlueprints ::
    "nat option \<Rightarrow> nat option \<Rightarrow> timestamp \<Rightarrow> (admin_store, loop_blueprint list \<times> nat \<times> nat \<times> nat) sm" where
  "admin_listBlueprints page limit t = sbind sget (\<lambda>s.
     sbind (if listBlueprints s = [] then seedDefaultBlueprints t else sret (listBlueprints s)) (\<lambda>bs.
     sret (page_from page limit bs)))"

definition admin_listTools ::
    "nat option \<Rightarrow> nat option \<Rightarrow> (admin_store, loop_tool list \<times> nat \<times> nat \<times> nat) sm" where
  "admin_listTools page limit = sbind sget (\<lambda>s. sret (page_from page limit (listTools s)))"

end
