(* ===== verification/Admin_Laws.thy ===== *)
theory Admin_Laws
  imports Admin
begin

text \<open>
  Laws of the admin registries: the number a new tool or blueprint takes is never in use, a record
  reads back as it was written, and what a rollback can reach. Both registries meet one contract, the
  locale \<open>registry\<close>.
\<close>

subsection \<open>A directory of numbered records\<close>

lemma length_update: "length (AList.update k v m) = (if k \<in> fst ` set m then length m else Suc (length m))"
  by (induction m) auto

locale registry =
  fixes files :: "'s \<Rightarrow> (string \<times> 'a) list" and key :: "'a \<Rightarrow> string"
    and put :: "'a \<Rightarrow> 's \<Rightarrow> 's" and stem :: string
  assumes files_put: "files (put x s) = AList.update (key x) x (files s)"
begin

definition filed :: "'s \<Rightarrow> bool" where
  "filed s \<longleftrightarrow> distinct (map fst (files s)) \<and> (\<forall>k x. map_of (files s) k = Some x \<longrightarrow> key x = k)
     \<and> (\<forall>n. stem @ nat_str n \<in> fst ` set (files s) \<longrightarrow> n \<le> length (files s))"

lemma fresh: "filed s \<Longrightarrow> stem @ nat_str (Suc (length (files s))) \<notin> fst ` set (files s)"
  unfolding filed_def using Suc_n_not_le_n by blast

lemma reads: "map_of (files (put x s)) k = (if k = key x then Some x else map_of (files s) k)"
  by (simp add: files_put update_conv')

lemma keys_put: "fst ` set (files (put x s)) = insert (key x) (fst ` set (files s))"
  by (simp add: files_put dom_update flip: dom_map_of_conv_image_fst)

lemma filed_put:
  assumes "filed s" and "key x \<in> fst ` set (files s) \<or> key x = stem @ nat_str (Suc (length (files s)))
    \<or> (\<forall>n. key x \<noteq> stem @ nat_str n)"
  shows "filed (put x s)"
proof -
  have "n \<le> length (files (put x s))" if "stem @ nat_str n \<in> fst ` set (files (put x s))" for n
  proof (cases "stem @ nat_str n = key x")
    case True
    with assms(2) consider "key x \<in> fst ` set (files s)" | "key x = stem @ nat_str (Suc (length (files s)))"
      by metis
    then show ?thesis
    proof cases
      case 1
      with True assms(1) show ?thesis by (simp add: filed_def files_put length_update)
    next
      case 2
      with True have "n = Suc (length (files s))" by simp
      with fresh [OF assms(1)] 2 show ?thesis by (simp add: files_put length_update)
    qed
  next
    case False
    with that have "n \<le> length (files s)" using assms(1) by (simp add: filed_def keys_put)
    then show ?thesis by (simp add: files_put length_update)
  qed
  moreover have "distinct (map fst (files (put x s)))"
    using assms(1) by (simp add: filed_def files_put distinct_update)
  ultimately show ?thesis using assms(1) by (auto simp: filed_def reads)
qed

lemma filed_known: "filed s \<Longrightarrow> map_of (files s) (key x) \<noteq> None \<Longrightarrow> filed (put x s)"
  by (intro filed_put) (auto simp: map_of_eq_None_iff)

lemma filed_fresh: "filed s \<Longrightarrow> key x = stem @ nat_str (Suc (length (files s))) \<Longrightarrow> filed (put x s)"
  by (rule filed_put) simp_all

lemma filed_named: "filed s \<Longrightarrow> (\<And>n. key x \<noteq> stem @ nat_str n) \<Longrightarrow> filed (put x s)"
  by (rule filed_put) simp_all

lemma filed_key: "filed s \<Longrightarrow> map_of (files s) k = Some x \<Longrightarrow> key x = k"
  by (simp add: filed_def)

end

interpretation tools: registry ad_tools tl_id writeTool "''tool-''"
  by unfold_locales (simp add: writeTool_def)

interpretation blueprints: registry ad_blueprints bp_id writeBlueprint "''bp-''"
  by unfold_locales (simp add: writeBlueprint_def)

subsection \<open>Reachable registries\<close>

text \<open>One request to the admin service at time \<open>t\<close>.\<close>

inductive admin_step :: "timestamp \<Rightarrow> admin_store \<Rightarrow> admin_store \<Rightarrow> bool" for t where
  register: "admin_step t s (snd (registerTool new_entry t s))"
| update_tool: "admin_step t s (snd (updateTool i tool_change t s))"
| health: "admin_step t s (snd (toolHealthCheck i t s))"
| list: "admin_step t s (snd (admin_listBlueprints page limit t s))"
| create: "admin_step t s (snd (createBlueprint new_bp t s))"
| update: "admin_step t s (snd (updateBlueprint i change t s))"
| rollback: "admin_step t s (snd (rollbackBlueprint i v t s))"

text \<open>A registry that a sequence of requests at increasing times can lead to.\<close>

inductive admin_reachable :: "admin_store \<Rightarrow> timestamp \<Rightarrow> bool" where
  start: "admin_reachable \<lparr>ad_tools = [], ad_blueprints = [], ad_history = []\<rparr> t"
| step: "admin_reachable s t \<Longrightarrow> t < u \<Longrightarrow> admin_step u s s' \<Longrightarrow> admin_reachable s' u"

definition versions_one :: "timestamp \<Rightarrow> admin_store \<Rightarrow> bool" where
  "versions_one t s \<longleftrightarrow> (\<forall>k b. map_of (ad_blueprints s) k = Some b \<longrightarrow> bp_version b = ''1.0.0'')
     \<and> (\<forall>e\<in>snd ` set (ad_history s). he_version e = ''1.0.0'' \<and> he_archivedAt e \<le> t)"

definition admin_ok :: "timestamp \<Rightarrow> admin_store \<Rightarrow> bool" where
  "admin_ok t s \<longleftrightarrow> tools.filed s \<and> blueprints.filed s \<and> versions_one t s"

lemma writes_frame [simp]:
  "ad_blueprints (writeTool x s) = ad_blueprints s" "ad_history (writeTool x s) = ad_history s"
  "ad_tools (writeBlueprint y s) = ad_tools s" "ad_history (writeBlueprint y s) = ad_history s"
  "ad_tools (writeBlueprintHistory i y t s) = ad_tools s"
  "ad_blueprints (writeBlueprintHistory i y t s) = ad_blueprints s"
  by (simp_all add: writeTool_def writeBlueprint_def writeBlueprintHistory_def)

lemma filed_frame [simp]:
  "blueprints.filed (writeTool x s) = blueprints.filed s" "tools.filed (writeBlueprint y s) = tools.filed s"
  "tools.filed (writeBlueprintHistory i y t s) = tools.filed s"
  "blueprints.filed (writeBlueprintHistory i y t s) = blueprints.filed s"
  by (simp_all add: blueprints.filed_def tools.filed_def)

lemma versions_frame [simp]: "versions_one t (writeTool x s) = versions_one t s"
  by (simp add: versions_one_def)

lemma versions_write: "versions_one t s \<Longrightarrow> bp_version b = ''1.0.0'' \<Longrightarrow> versions_one t (writeBlueprint b s)"
  by (auto simp: versions_one_def blueprints.reads)

lemma history_written: "ad_history (writeBlueprintHistory i b t s) = AList.update (i, safe_version (bp_version b), t)
    \<lparr>he_blueprintId = i, he_version = bp_version b, he_archivedAt = t, he_snapshot = bp_content b\<rparr> (ad_history s)"
  by (simp add: writeBlueprintHistory_def)

lemma update_entries: "snd ` set (AList.update k e m) \<subseteq> insert e (snd ` set m)"
  by (induction m) auto

lemma versions_history:
  assumes "versions_one t s" and "bp_version b = ''1.0.0''" and "t \<le> u"
  shows "versions_one u (writeBlueprintHistory i b u s)"
proof -
  have "he_version e = ''1.0.0'' \<and> he_archivedAt e \<le> u"
    if "e \<in> snd ` set (ad_history (writeBlueprintHistory i b u s))" for e
  proof -
    let ?e = "\<lparr>he_blueprintId = i, he_version = bp_version b, he_archivedAt = u, he_snapshot = bp_content b\<rparr>"
    have "e \<in> insert ?e (snd ` set (ad_history s))"
      using that update_entries [of "(i, safe_version (bp_version b), u)" ?e "ad_history s"]
      unfolding history_written by blast
    then show ?thesis using assms le_trans by (auto simp: versions_one_def)
  qed
  with assms(1) show ?thesis unfolding versions_one_def writes_frame by blast
qed

lemma versions_later: "versions_one t s \<Longrightarrow> t \<le> u \<Longrightarrow> versions_one u s"
  unfolding versions_one_def by (meson le_trans)

definition default_suffixes :: "string list" where
  "default_suffixes = [''bugfix'', ''feature'', ''refactor'', ''docs'', ''integration'', ''flow'', ''security'', ''dependency'']"

lemma default_names: "b \<in> set (default_blueprints t) \<Longrightarrow> bp_id b \<noteq> ''bp-'' @ nat_str n"
proof -
  have digits: "list_all is_digit (nat_str n)" by (rule nat_str_digits)
  assume "b \<in> set (default_blueprints t)"
  then obtain x where x: "bp_id b = ''bp-'' @ x" "x \<in> set default_suffixes"
    by (auto simp: default_blueprints_def default_blueprint_def default_suffixes_def)
  then have "\<not> list_all is_digit x" by (auto simp: default_suffixes_def is_digit_def)
  with digits x(1) show ?thesis by auto
qed

lemma default_versions: "b \<in> set (default_blueprints t) \<Longrightarrow> bp_version b = ''1.0.0''"
  by (auto simp: default_blueprints_def default_blueprint_def)

lemma seed_ok:
  "admin_ok t s \<Longrightarrow> set bs \<subseteq> set (default_blueprints u) \<Longrightarrow> admin_ok t (in_order (map writeBlueprint bs) s)"
proof (induction bs arbitrary: s)
  case (Cons b bs)
  have "admin_ok t (writeBlueprint b s)"
    using Cons.prems blueprints.filed_named [of s b] default_names [of b u]
      versions_write [OF _ default_versions, of t s b u]
    by (simp add: admin_ok_def)
  with Cons show ?case by simp
qed simp

lemma tool_ok: "admin_ok t s \<Longrightarrow> map_of (ad_tools s) (tl_id x) \<noteq> None \<Longrightarrow> admin_ok t (writeTool x s)"
  by (simp add: admin_ok_def tools.filed_known)

lemma blueprint_ok:
  "admin_ok t s \<Longrightarrow> map_of (ad_blueprints s) (bp_id b) \<noteq> None \<Longrightarrow> bp_version b = ''1.0.0''
   \<Longrightarrow> admin_ok t (writeBlueprint b s)"
  by (simp add: admin_ok_def blueprints.filed_known versions_write)

lemma history_ok:
  "admin_ok t s \<Longrightarrow> map_of (ad_blueprints s) k = Some b \<Longrightarrow> t \<le> u \<Longrightarrow> admin_ok u (writeBlueprintHistory i b u s)"
  using versions_history [of t s b u i] by (auto simp: admin_ok_def versions_one_def)

lemma readBlueprint_ok:
  "admin_ok t s \<Longrightarrow> readBlueprint i s = Some b \<Longrightarrow> bp_id b = i \<and> bp_version b = ''1.0.0''"
  using blueprints.filed_key by (auto simp: admin_ok_def readBlueprint_def versions_one_def)

lemma listed_history:
  "e \<in> set (listBlueprintHistory i s) \<Longrightarrow> e \<in> snd ` set (ad_history s)"
  by (auto simp: listBlueprintHistory_def)

lemma target_listed: "rollback_target v h = Some e \<Longrightarrow> e \<in> set h"
  by (auto simp: rollback_target_def dest: find_SomeD split: option.splits list.splits if_splits)

lemma rollback_ok:
  assumes "admin_ok t s" and "t \<le> u"
  shows "admin_ok u (snd (rollbackBlueprint i v u s))"
proof (cases "readBlueprint i s")
  case None
  then show ?thesis
    using assms versions_later [of t s u] by (simp add: rollbackBlueprint_def sbind_app getBlueprint_def admin_ok_def)
next
  case (Some b)
  let ?s = "writeBlueprintHistory i b u s"
  have ok: "admin_ok u ?s" using history_ok [OF assms(1) _ assms(2)] Some by (simp add: readBlueprint_def)
  show ?thesis
  proof (cases "rollback_target v (listBlueprintHistory i ?s)")
    case None
    with Some ok show ?thesis by (simp add: rollbackBlueprint_def sbind_app sthen_app getBlueprint_def)
  next
    case (Some e)
    have "he_version e = ''1.0.0''"
      using listed_history [OF target_listed [OF Some]] ok by (auto simp: admin_ok_def versions_one_def)
    moreover have "bp_id b = i" "map_of (ad_blueprints ?s) i \<noteq> None"
      using readBlueprint_ok [OF assms(1) \<open>readBlueprint i s = Some b\<close>] \<open>readBlueprint i s = Some b\<close>
      by (simp_all add: readBlueprint_def)
    ultimately show ?thesis
      using Some \<open>readBlueprint i s = Some b\<close> blueprint_ok [OF ok]
      by (simp add: rollbackBlueprint_def sbind_app sthen_app getBlueprint_def Let_def)
  qed
qed

lemma step_ok:
  assumes "admin_step u s s'" and "admin_ok t s" and "t \<le> u"
  shows "admin_ok u s'"
proof -
  have ok: "admin_ok u s" using assms(2,3) versions_later by (auto simp: admin_ok_def)
  from assms(1) show ?thesis
  proof cases
    case (register new_entry)
    have "tools.filed (writeTool (new_tool new_entry (''tool-'' @ nat_str (nextToolSeq s)) u) s)"
      using ok by (intro tools.filed_fresh) (simp_all add: admin_ok_def new_tool_def nextToolSeq_def listTools_def)
    with register ok show ?thesis by (simp add: registerTool_def Let_def admin_ok_def)
  next
    case (update_tool i tool_change)
    show ?thesis
    proof (cases "readTool i s")
      case (Some x)
      then have "tl_id x = i" using ok by (auto simp: readTool_def admin_ok_def tools.filed_key)
      with Some update_tool ok tool_ok [OF ok, of "updated_tool tool_change u x"] show ?thesis
        by (simp add: updateTool_def sbind_app sthen_app getTool_def Let_def readTool_def updated_tool_def)
    qed (use update_tool ok in \<open>simp add: updateTool_def sbind_app getTool_def\<close>)
  next
    case (health i)
    show ?thesis
    proof (cases "readTool i s")
      case (Some x)
      then have "tl_id x = i" using ok by (auto simp: readTool_def admin_ok_def tools.filed_key)
      with Some health ok tool_ok [OF ok] show ?thesis
        by (simp add: toolHealthCheck_def sbind_app sthen_app getTool_def Let_def readTool_def)
    qed (use health ok in \<open>simp add: toolHealthCheck_def sbind_app getTool_def\<close>)
  next
    case (list page limit)
    then show ?thesis
      using ok seed_ok [OF ok, of "default_blueprints u" u]
      by (simp add: admin_listBlueprints_def sbind_app sthen_app seedDefaultBlueprints_def)
  next
    case (create new_bp)
    have "blueprints.filed (writeBlueprint (new_blueprint new_bp (''bp-'' @ nat_str (nextBlueprintSeq s)) u) s)"
      using ok by (intro blueprints.filed_fresh)
        (simp_all add: admin_ok_def new_blueprint_def nextBlueprintSeq_def listBlueprints_def)
    with create ok show ?thesis
      by (simp add: createBlueprint_def Let_def admin_ok_def versions_write new_blueprint_def)
  next
    case (update i change)
    show ?thesis
    proof (cases "readBlueprint i s")
      case (Some b)
      with readBlueprint_ok [OF ok Some] update blueprint_ok [OF ok] show ?thesis
        by (simp add: updateBlueprint_def sbind_app sthen_app getBlueprint_def Let_def readBlueprint_def)
    qed (use update ok in \<open>simp add: updateBlueprint_def sbind_app getBlueprint_def\<close>)
  next
    case (rollback i v)
    then show ?thesis using rollback_ok [OF assms(2,3)] by simp
  qed
qed

lemma reachable_ok: "admin_reachable s t \<Longrightarrow> admin_ok t s"
proof (induction rule: admin_reachable.induct)
  case (start t)
  then show ?case by (simp add: admin_ok_def tools.filed_def blueprints.filed_def versions_one_def)
qed (meson less_imp_le step_ok)

text \<open>C30. A tool or blueprint that is registered gets an id that no record of its registry has, so
  nothing is overwritten, and it reads back as it was registered.\<close>

theorem registered_ids_fresh:
  assumes "admin_reachable s t"
  shows "(\<exists>x s'. registerTool r u s = (Inr x, s') \<and> readTool (tl_id x) s = None
      \<and> readTool (tl_id x) s' = Some x \<and> (\<forall>k. k \<noteq> tl_id x \<longrightarrow> readTool k s' = readTool k s))
    \<and> (\<exists>b s'. createBlueprint c u s = (Inr b, s') \<and> readBlueprint (bp_id b) s = None
      \<and> readBlueprint (bp_id b) s' = Some b \<and> (\<forall>k. k \<noteq> bp_id b \<longrightarrow> readBlueprint k s' = readBlueprint k s))"
proof -
  have ok: "tools.filed s" "blueprints.filed s" using reachable_ok [OF assms] by (simp_all add: admin_ok_def)
  show ?thesis
    using tools.fresh [OF ok(1)] blueprints.fresh [OF ok(2)]
    by (simp add: registerTool_def createBlueprint_def Let_def new_tool_def new_blueprint_def nextToolSeq_def
        nextBlueprintSeq_def listTools_def listBlueprints_def readTool_def readBlueprint_def tools.reads
        blueprints.reads map_of_eq_None_iff)
qed

subsection \<open>Rolling back\<close>

lemma newest_first:
  assumes "x \<in> set xs" and "\<And>y. y \<in> set xs \<Longrightarrow> y \<noteq> x \<Longrightarrow> k y < k x"
  shows "\<exists>ys. sort_desc k xs = x # ys"
proof (cases "sort_desc k xs")
  case Nil
  then show ?thesis using assms(1) by (metis empty_iff list.set(1) set_sort_desc)
next
  case (Cons y ys)
  have "y \<in> set xs" using Cons by (metis list.set_intros(1) set_sort_desc)
  with assms sort_desc_Cons_newest [OF Cons assms(1)] have "y = x" by force
  with Cons show ?thesis by simp
qed

lemma archived_first:
  assumes "versions_one t s" and "t < u"
  shows "\<exists>es. listBlueprintHistory i (writeBlueprintHistory i b u s)
    = \<lparr>he_blueprintId = i, he_version = bp_version b, he_archivedAt = u, he_snapshot = bp_content b\<rparr> # es"
  unfolding listBlueprintHistory_def
proof (rule newest_first)
  let ?e = "\<lparr>he_blueprintId = i, he_version = bp_version b, he_archivedAt = u, he_snapshot = bp_content b\<rparr>"
  have upd: "set (AList.update k v m) \<subseteq> insert (k, v) (set m)"
    "(k, v) \<in> set (AList.update k v m)" for k v and m :: "('k \<times> history_entry) list"
    by (induction m) auto
  show "?e \<in> set (map snd (filter (\<lambda>e. fst (fst e) = i) (ad_history (writeBlueprintHistory i b u s))))"
    using upd(2) [of "(i, safe_version (bp_version b), u)" ?e "ad_history s"]
    unfolding history_written by force
  fix y assume "y \<in> set (map snd (filter (\<lambda>e. fst (fst e) = i) (ad_history (writeBlueprintHistory i b u s))))"
    and "y \<noteq> ?e"
  then have "y \<in> snd ` set (ad_history s)"
    using upd(1) [of "(i, safe_version (bp_version b), u)" ?e "ad_history s"]
    unfolding history_written by fastforce
  then show "he_archivedAt y < he_archivedAt ?e" using assms by (fastforce simp: versions_one_def)
qed

text \<open>A rollback to a named version never restores anything: the blueprint is archived first, every
  blueprint has version 1.0.0, and the newest entry of that version is the one just written. The call
  succeeds for version 1.0.0 and changes only the time of the update; every other version is not found.\<close>

theorem rollback_to_version_restores_nothing:
  assumes "admin_reachable s t" and "t < u" and "readBlueprint i s = Some b" and "v \<noteq> []"
  shows "(v = ''1.0.0'' \<longrightarrow> (\<exists>s'. rollbackBlueprint i (Some v) u s = (Inr (b\<lparr>bp_updatedAt := u\<rparr>), s')
      \<and> readBlueprint i s' = Some (b\<lparr>bp_updatedAt := u\<rparr>)))
    \<and> (v \<noteq> ''1.0.0'' \<longrightarrow> (\<exists>m s'. rollbackBlueprint i (Some v) u s = (Inl (NotFound m), s')
      \<and> readBlueprint i s' = Some b))"
proof -
  have ok: "admin_ok t s" by (rule reachable_ok [OF assms(1)])
  note b = readBlueprint_ok [OF ok assms(3)]
  let ?s = "writeBlueprintHistory i b u s"
  have ok': "admin_ok u ?s"
    using history_ok [OF ok, of i b u] assms(2,3) by (simp add: readBlueprint_def)
  obtain es where es: "listBlueprintHistory i ?s
      = \<lparr>he_blueprintId = i, he_version = bp_version b, he_archivedAt = u, he_snapshot = bp_content b\<rparr> # es"
    using archived_first [of t s u] ok assms(2) unfolding admin_ok_def by blast
  obtain c cs where v: "v = c # cs" using assms(4) by (cases v) auto
  have run: "rollbackBlueprint i (Some v) u s = (case List.find (\<lambda>e. he_version e = v) (listBlueprintHistory i ?s) of
       None \<Rightarrow> (Inl (NotFound (''Blueprint '' @ i @ '' version '' @ v @ '' not found in history'')), ?s)
     | Some target \<Rightarrow> let y = b\<lparr>bp_content := he_snapshot target, bp_version := he_version target, bp_updatedAt := u\<rparr>
         in (Inr y, writeBlueprint y ?s))"
    using assms(3) by (simp add: rollbackBlueprint_def sbind_app sthen_app getBlueprint_def rollback_target_def v
        Let_def split: option.split)
  have none: "List.find (\<lambda>e. he_version e = v) (listBlueprintHistory i ?s) = None" if "v \<noteq> ''1.0.0''"
    unfolding find_None_iff
  proof safe
    fix e assume "e \<in> set (listBlueprintHistory i ?s)" "v = he_version e"
    with listed_history [of e i ?s] ok' that show False by (auto simp: admin_ok_def versions_one_def)
  qed
  have "List.find (\<lambda>e. he_version e = v) (listBlueprintHistory i ?s)
      = Some \<lparr>he_blueprintId = i, he_version = bp_version b, he_archivedAt = u, he_snapshot = bp_content b\<rparr>"
    if "v = ''1.0.0''" using that b by (simp add: es)
  with run none b assms(3) show ?thesis
    by (auto simp: Let_def readBlueprint_def blueprints.reads)
qed

subsection \<open>Witnesses\<close>

definition empty_admin :: admin_store where
  "empty_admin = \<lparr>ad_tools = [], ad_blueprints = [], ad_history = []\<rparr>"

definition demo_blueprint :: create_blueprint_request where
  "demo_blueprint = \<lparr>cb_name = ''old'', cb_kind = BP_DOCS, cb_description = ''d'', cb_personaSequence = [''p''],
     cb_evalSuiteId = None, cb_gateProfile = None, cb_runtimePolicy = \<lparr>rt_primary = ''codex'', rt_fallback = None\<rparr>\<rparr>"

definition rename :: update_blueprint_request where
  "rename = \<lparr>ub_name = Some ''new'', ub_description = None, ub_active = None, ub_personaSequence = None,
     ub_evalSuiteId = None, ub_gateProfile = None, ub_runtimePolicy = None\<rparr>"

definition demo_tool :: register_tool_request where
  "demo_tool = \<lparr>rgt_name = ''lint'', rgt_kind = ''cli'', rgt_category = CAT_QA, rgt_description = ''d'',
     rgt_authKind = TAUTH_NONE, rgt_permissions = [], rgt_compatibility = \<lparr>tc_codex = True, tc_claudeCode = True,
       tc_thirdParty = TP_PLANNED\<rparr>, rgt_deterministicBoundary = ''b''\<rparr>"

lemma empty_reachable: "admin_reachable empty_admin 0"
  unfolding empty_admin_def by (rule admin_reachable.start)

theorem registered_ids_fresh_witness:
  "\<exists>x s'. registerTool demo_tool 1 empty_admin = (Inr x, s') \<and> readTool (tl_id x) s' = Some x"
  using registered_ids_fresh [OF empty_reachable, of demo_tool 1 demo_blueprint] by blast

text \<open>A blueprint is created as \<open>old\<close>, renamed to \<open>new\<close> and rolled back: it stays \<open>new\<close>.\<close>

theorem rollback_to_version_restores_nothing_witness:
  "\<exists>b s'. rollbackBlueprint ''bp-1'' (Some ''1.0.0'') 3
     (snd (updateBlueprint ''bp-1'' rename 2 (snd (createBlueprint demo_blueprint 1 empty_admin)))) = (Inr b, s')
   \<and> bs_name (bp_content b) = ''new''"
proof -
  let ?s1 = "snd (createBlueprint demo_blueprint 1 empty_admin)"
  let ?s2 = "snd (updateBlueprint ''bp-1'' rename 2 ?s1)"
  have reach: "admin_reachable ?s2 2"
    by (rule admin_reachable.step [OF admin_reachable.step [OF empty_reachable _ admin_step.create]
        _ admin_step.update]) simp_all
  have "case readBlueprint ''bp-1'' ?s2 of None \<Rightarrow> False | Some b \<Rightarrow> bs_name (bp_content b) = ''new''"
    by code_simp
  then obtain b where "readBlueprint ''bp-1'' ?s2 = Some b" "bs_name (bp_content b) = ''new''"
    by (auto split: option.splits)
  with rollback_to_version_restores_nothing [OF reach, of 3 "''bp-1''" b "''1.0.0''"] show ?thesis by auto
qed

end
