(* ===== verification/Mcp_Client.thy ===== *)
theory Mcp_Client
  imports Contracts Runner
begin

text \<open>
  \<open>loops-integrations/loops-mcp-client.service.ts\<close>: JSON-RPC over the standard input and output of a
  child process.

  The server is a parameter: the chunks its standard output delivers, given the messages that were
  written to its input so far. What it has written stays in the buffer, and every request reads the
  buffer from its start. A request waits as long as new lines keep coming; \<open>None\<close> stands for the idle
  timeout (the client does not watch the process end). \<open>JSON.parse\<close> is a parameter too. Timings of a
  result are left out.
\<close>

record mcp_options =
  mo_stdio :: bool
  mo_command :: "string option"
  mo_timeoutMs :: "nat option"

record mcp_handshake =
  mh_serverInfo :: json
  mh_protocolVersion :: json
  mh_capabilities :: json
  mh_tools :: json

record mcp_env =
  me_parse :: "string \<Rightarrow> json option"
  me_server :: "(json list) \<Rightarrow> string list"

subsection \<open>Lines\<close>

text \<open>The \<open>data\<close> listener: every chunk is split on its own, nothing is carried over to the next one.\<close>

definition stdout_lines :: "string list \<Rightarrow> string list" where
  "stdout_lines chunks = concat (map (js_split [CHR 0x0A]) chunks)"

text \<open>\<open>if (line.trim()) yield line\<close>.\<close>

definition receive_lines :: "string list \<Rightarrow> string list" where
  "receive_lines chunks = filter (\<lambda>l. js_trim l \<noteq> []) (stdout_lines chunks)"

subsection \<open>JSON-RPC\<close>

definition buildRequest :: "nat \<Rightarrow> string \<Rightarrow> (string \<times> json) list \<Rightarrow> json" where
  "buildRequest i method params = JObj [(''jsonrpc'', JStr ''2.0''), (''id'', JNum (of_nat i)),
     (''method'', JStr method), (''params'', JObj params)]"

definition buildNotification :: "string \<Rightarrow> (string \<times> json) list \<Rightarrow> json" where
  "buildNotification method params = JObj [(''jsonrpc'', JStr ''2.0''), (''method'', JStr method),
     (''params'', JObj params)]"

text \<open>A property of a parsed value: of an object its field, of another value nothing; reading a property
  of \<open>null\<close> throws.\<close>

fun get_field :: "json \<Rightarrow> string \<Rightarrow> json option" where
  "get_field (JObj fs) k = map_of fs k"
| "get_field _ k = None"

fun truthy :: "json option \<Rightarrow> bool" where
  "truthy None = False"
| "truthy (Some JNull) = False"
| "truthy (Some (JBool b)) = b"
| "truthy (Some (JNum n)) = (n \<noteq> 0)"
| "truthy (Some (JStr s)) = (s \<noteq> [])"
| "truthy (Some (JArr xs)) = True"
| "truthy (Some (JObj fs)) = True"

definition or_default_json :: "json option \<Rightarrow> json \<Rightarrow> json" where
  "or_default_json x d = (case x of None \<Rightarrow> d | Some JNull \<Rightarrow> d | Some v \<Rightarrow> v)"

text \<open>The loop of \<open>sendRequest\<close> over the lines it receives: a line that is not JSON is skipped, the first
  answer with the id of the request is taken, and an answer that carries an error throws. \<open>text_of\<close> is
  the interpolation of a value into the message.\<close>

fun await_response ::
    "(string \<Rightarrow> json option) \<Rightarrow> (json option \<Rightarrow> string) \<Rightarrow> nat \<Rightarrow> string list \<Rightarrow> (js_error + json) option" where
  "await_response parse text_of i [] = None"
| "await_response parse text_of i (line # rest) = (case parse line of
     None \<Rightarrow> await_response parse text_of i rest
   | Some JNull \<Rightarrow> Some (Inl (PlainError ''Cannot read properties of null''))
   | Some response \<Rightarrow>
       if get_field response ''id'' = Some (JNum (of_nat i))
       then (case get_field response ''error'' of
           Some e \<Rightarrow> if truthy (Some e)
             then Some (Inl (PlainError (''MCP error '' @ text_of (get_field e ''code'') @ '': ''
                 @ text_of (get_field e ''message''))))
             else Some (Inr response)
         | None \<Rightarrow> Some (Inr response))
       else await_response parse text_of i rest)"

definition idle_error :: "nat \<Rightarrow> js_error" where
  "idle_error timeoutMs = PlainError (''MCP operation timed out after '' @ nat_str timeoutMs @ ''ms idle'')"

definition sendRequest ::
    "mcp_env \<Rightarrow> (json option \<Rightarrow> string) \<Rightarrow> nat \<Rightarrow> nat \<Rightarrow> json list \<Rightarrow> js_error + json" where
  "sendRequest env text_of timeoutMs i sent =
     (case await_response (me_parse env) text_of i (receive_lines (me_server env sent)) of
        None \<Rightarrow> Inl (idle_error timeoutMs) | Some r \<Rightarrow> r)"

definition initialize_request :: json where
  "initialize_request = buildRequest 1 ''initialize'' [(''protocolVersion'', JStr ''2024-11-05''),
     (''capabilities'', JObj [(''tools'', JObj [])]),
     (''clientInfo'', JObj [(''name'', JStr ''dofeai-loops''), (''version'', JStr ''1.0.0'')])]"

definition initialized_note :: json where
  "initialized_note = buildNotification ''notifications/initialized'' []"

definition rpc_result :: "json \<Rightarrow> json" where
  "rpc_result response = or_default_json (get_field response ''result'') JNull"

text \<open>\<open>handshakeStdio\<close>; a result that is no object has no fields.\<close>

definition handshakeStdio ::
    "mcp_env \<Rightarrow> (json option \<Rightarrow> string) \<Rightarrow> nat \<Rightarrow> js_error + mcp_handshake" where
  "handshakeStdio env text_of timeoutMs =
     (case sendRequest env text_of timeoutMs 1 [initialize_request] of
        Inl e \<Rightarrow> Inl e
      | Inr initResp \<Rightarrow>
          (case sendRequest env text_of timeoutMs 2 [initialize_request, initialized_note, buildRequest 2 ''tools/list'' []] of
             Inl e \<Rightarrow> Inl e
           | Inr toolsResp \<Rightarrow> Inr \<lparr>
               mh_serverInfo = or_default_json (get_field (rpc_result initResp) ''serverInfo'')
                 (JObj [(''name'', JStr ''unknown''), (''version'', JStr ''0.0.0'')]),
               mh_protocolVersion = JStr (text_of (Some (or_default_json
                 (get_field (rpc_result initResp) ''protocolVersion'') (JStr ''unknown'')))),
               mh_capabilities = or_default_json (get_field (rpc_result initResp) ''capabilities'') (JObj []),
               mh_tools = or_default_json (get_field (rpc_result toolsResp) ''tools'') (JArr [])\<rparr>))"

definition unsupported :: "js_error" where
  "unsupported = PlainError ''Transport \"sse\" is not yet implemented''"

definition handshake ::
    "mcp_env \<Rightarrow> (json option \<Rightarrow> string) \<Rightarrow> mcp_options \<Rightarrow> js_error + mcp_handshake" where
  "handshake env text_of opts = (let timeoutMs = case_option 10000 id (mo_timeoutMs opts) in
     if mo_stdio opts
     then (case mo_command opts of
         Some (c # cs) \<Rightarrow> handshakeStdio env text_of timeoutMs
       | _ \<Rightarrow> Inl (PlainError ''stdio transport requires `command`''))
     else Inl unsupported)"

definition callToolStdio ::
    "mcp_env \<Rightarrow> (json option \<Rightarrow> string) \<Rightarrow> nat \<Rightarrow> string \<Rightarrow> json option \<Rightarrow> js_error + string \<times> json option" where
  "callToolStdio env text_of timeoutMs toolName toolInput =
     (case sendRequest env text_of timeoutMs 1 [initialize_request] of
        Inl e \<Rightarrow> Inl e
      | Inr _ \<Rightarrow>
          (case sendRequest env text_of timeoutMs 2 [initialize_request, initialized_note,
               buildRequest 2 ''tools/call'' [(''name'', JStr toolName),
                 (''arguments'', or_default_json toolInput (JObj []))]] of
             Inl e \<Rightarrow> Inl e
           | Inr callResp \<Rightarrow> Inr (toolName, get_field callResp ''result'')))"

text \<open>\<open>callTool\<close> does not test the command first, as \<open>handshake\<close> does: without one \<open>spawn\<close> throws.\<close>

definition spawn_error :: "string option \<Rightarrow> js_error" where
  "spawn_error command = PlainError (case command of
     None \<Rightarrow> ''The '' @ [CHR 0x22] @ ''file'' @ [CHR 0x22] @ '' argument must be of type string. Received undefined''
   | Some _ \<Rightarrow> ''The argument '' @ [CHR 0x27] @ ''file'' @ [CHR 0x27] @ '' cannot be empty. Received '' @ [CHR 0x27, CHR 0x27])"

definition callTool ::
    "mcp_env \<Rightarrow> (json option \<Rightarrow> string) \<Rightarrow> mcp_options \<Rightarrow> string \<Rightarrow> json option
     \<Rightarrow> js_error + string \<times> json option" where
  "callTool env text_of opts toolName toolInput = (let timeoutMs = case_option 10000 id (mo_timeoutMs opts) in
     if mo_stdio opts
     then (case mo_command opts of
         Some (c # cs) \<Rightarrow> callToolStdio env text_of timeoutMs toolName toolInput
       | command \<Rightarrow> Inl (spawn_error command))
     else Inl unsupported)"

subsection \<open>Chunks and lines\<close>

text \<open>The reference: the lines of the output as one stream.\<close>

definition stream_lines :: "string list \<Rightarrow> string list" where
  "stream_lines chunks = filter (\<lambda>l. js_trim l \<noteq> []) (js_split [CHR 0x0A] (concat chunks))"

definition whole_lines :: "string \<Rightarrow> bool" where
  "whole_lines chunk \<longleftrightarrow> chunk = [] \<or> last chunk = CHR 0x0A"

end
