(* ===== verification/Mcp_Laws.thy ===== *)
theory Mcp_Laws
  imports Mcp_Client
begin

text \<open>
  Laws of the MCP client: what an accepted answer is, when reading chunk by chunk agrees with reading
  the output as one stream, and what is lost when it does not.
\<close>

subsection \<open>Splitting at newlines\<close>

lemma split_aux_cut: "split_aux [c] acc (u @ c # v) = split_aux [c] acc u @ split_aux [c] [] v"
  by (induction u arbitrary: acc) auto

lemma split_cut: "js_split [c] (u @ c # v) = js_split [c] u @ js_split [c] v"
  by (simp add: js_split_def split_aux_cut)

lemma split_free: "c \<notin> set s \<Longrightarrow> split_aux [c] acc s = [rev acc @ s]"
  by (induction s arbitrary: acc) auto

lemma split_line: "c \<notin> set s \<Longrightarrow> js_split [c] s = [s]"
  by (simp add: js_split_def split_free)

lemma split_empty: "js_split [c] [] = [[]]"
  by (simp add: js_split_def)

abbreviation shown :: "string list \<Rightarrow> string list" where
  "shown \<equiv> filter (\<lambda>l. js_trim l \<noteq> [])"

lemma trim_empty: "js_trim [] = []"
  by (simp add: js_trim_def)

lemma whole_split:
  assumes "whole_lines u"
  shows "shown (js_split [CHR 0x0A] (u @ v)) = shown (js_split [CHR 0x0A] u) @ shown (js_split [CHR 0x0A] v)"
proof (cases "u = []")
  case True
  then show ?thesis by (simp add: split_empty trim_empty)
next
  case False
  with assms obtain w where u: "u = w @ [CHR 0x0A]"
    by (metis append_butlast_last_id whole_lines_def)
  show ?thesis by (simp add: u split_cut split_empty trim_empty)
qed

lemma receive_Cons: "receive_lines (u # us) = shown (js_split [CHR 0x0A] u) @ receive_lines us"
  by (simp add: receive_lines_def stdout_lines_def)

lemma whole_chunks: "list_all whole_lines us \<Longrightarrow> receive_lines us = stream_lines us"
proof (induction us)
  case Nil
  then show ?case by (simp add: receive_lines_def stdout_lines_def stream_lines_def split_empty trim_empty)
next
  case (Cons u us)
  then show ?case by (simp add: receive_Cons stream_lines_def whole_split)
qed

subsection \<open>Answers\<close>

definition answers :: "(string \<Rightarrow> json option) \<Rightarrow> nat \<Rightarrow> json \<Rightarrow> string \<Rightarrow> bool" where
  "answers parse i r line \<longleftrightarrow> parse line = Some r \<and> r \<noteq> JNull \<and> get_field r ''id'' = Some (JNum (of_nat i))"

definition passed_over :: "(string \<Rightarrow> json option) \<Rightarrow> nat \<Rightarrow> string \<Rightarrow> bool" where
  "passed_over parse i line \<longleftrightarrow> (case parse line of None \<Rightarrow> True
     | Some r \<Rightarrow> r \<noteq> JNull \<and> get_field r ''id'' \<noteq> Some (JNum (of_nat i)))"

lemma await_skip: "list_all (passed_over parse i) ls \<Longrightarrow>
    await_response parse text_of i (ls @ rest) = await_response parse text_of i rest"
  by (induction ls) (auto simp: passed_over_def split: option.splits json.splits)

lemma await_none: "await_response parse text_of i ls = None \<longleftrightarrow> list_all (passed_over parse i) ls"
  by (induction ls) (auto simp: passed_over_def split: option.splits json.splits)

lemma await_hit: "answers parse i r l \<Longrightarrow> await_response parse text_of i (l # rest) =
    (if truthy (get_field r ''error'')
     then Some (Inl (PlainError (''MCP error '' @ text_of (get_field (the (get_field r ''error'')) ''code'') @ '': ''
                 @ text_of (get_field (the (get_field r ''error'')) ''message''))))
     else Some (Inr r))"
  by (cases r) (simp_all add: answers_def split: option.splits)

lemma await_answer:
  "await_response parse text_of i ls = Some (Inr r) \<longleftrightarrow>
    (\<exists>before l rest. ls = before @ l # rest \<and> list_all (passed_over parse i) before \<and> answers parse i r l
       \<and> \<not> truthy (get_field r ''error''))" (is "_ = ?R ls")
proof
  assume "await_response parse text_of i ls = Some (Inr r)"
  then show "?R ls"
  proof (induction ls)
    case (Cons l ls)
    show ?case
    proof (cases "passed_over parse i l")
      case True
      with Cons.prems have "await_response parse text_of i ls = Some (Inr r)"
        using await_skip [where ls = "[l]" and parse = parse and i = i and rest = ls] by simp
      then obtain b m rest where "ls = b @ m # rest" "list_all (passed_over parse i) b" "answers parse i r m"
        "\<not> truthy (get_field r ''error'')" using Cons.IH by blast
      with True show ?thesis by (intro exI [where x = "l # b"] exI [where x = m] exI [where x = rest]) simp
    next
      case False
      then obtain s where s: "parse l = Some s" "s = JNull \<or> get_field s ''id'' = Some (JNum (of_nat i))"
        by (auto simp: passed_over_def split: option.splits)
      with Cons.prems have "s \<noteq> JNull" by auto
      with s have s: "answers parse i s l" by (simp add: answers_def)
      from Cons.prems [unfolded await_hit [OF s]] have "s = r \<and> \<not> truthy (get_field r ''error'')"
        by (simp split: if_splits)
      with s have "l # ls = [] @ l # ls \<and> list_all (passed_over parse i) [] \<and> answers parse i r l
        \<and> \<not> truthy (get_field r ''error'')" by simp
      then show ?thesis by blast
    qed
  qed simp
next
  assume "?R ls"
  then show "await_response parse text_of i ls = Some (Inr r)" by (auto simp: await_skip await_hit simp del: await_response.simps)
qed

subsection \<open>Requests\<close>

text \<open>The reference reads the output as one stream.\<close>

definition stream_request ::
    "mcp_env \<Rightarrow> (json option \<Rightarrow> string) \<Rightarrow> nat \<Rightarrow> nat \<Rightarrow> json list \<Rightarrow> js_error + json" where
  "stream_request env text_of timeoutMs i sent =
     (case await_response (me_parse env) text_of i (stream_lines (me_server env sent)) of
        None \<Rightarrow> Inl (idle_error timeoutMs) | Some r \<Rightarrow> r)"

lemma request_answer:
  "sendRequest env text_of t i sent = Inr r \<longleftrightarrow>
     await_response (me_parse env) text_of i (receive_lines (me_server env sent)) = Some (Inr r)"
  by (auto simp: sendRequest_def idle_error_def split: option.splits)

definition handshake_messages :: "json list" where
  "handshake_messages = [initialize_request, initialized_note, buildRequest 2 ''tools/list'' []]"

lemma handshake_ok:
  "handshakeStdio env text_of t = Inr h \<Longrightarrow> \<exists>initResp toolsResp.
     sendRequest env text_of t 1 [initialize_request] = Inr initResp \<and>
     sendRequest env text_of t 2 handshake_messages = Inr toolsResp \<and>
     mh_tools h = or_default_json (get_field (rpc_result toolsResp) ''tools'') (JArr [])"
  by (auto simp: handshakeStdio_def handshake_messages_def split: sum.splits)

lemma handshake_opts: "handshake env text_of opts = Inr h \<Longrightarrow>
    mo_stdio opts \<and> mo_command opts \<notin> {None, Some []} \<and>
    handshakeStdio env text_of (case_option 10000 id (mo_timeoutMs opts)) = Inr h"
  by (auto simp: handshake_def unsupported_def Let_def split: if_splits option.splits list.splits)

text \<open>
  A handshake succeeds only over standard input and output with a command, and only when the server
  printed, on lines of its own, an answer to the \<open>initialize\<close> request and an answer to the \<open>tools/list\<close>
  request, neither carrying an error and each the first line that is a message with that id; the tools it
  reports are those of the second answer.
\<close>

theorem mcp_handshake_sound:
  assumes "handshake env text_of opts = Inr h"
  shows "mo_stdio opts \<and> mo_command opts \<notin> {None, Some []} \<and>
    (\<exists>initResp toolsResp before l rest.
      (\<exists>m \<in> set (receive_lines (me_server env [initialize_request])). answers (me_parse env) 1 initResp m) \<and>
      \<not> truthy (get_field initResp ''error'') \<and>
      receive_lines (me_server env handshake_messages) = before @ l # rest \<and>
      list_all (passed_over (me_parse env) 2) before \<and> answers (me_parse env) 2 toolsResp l \<and>
      \<not> truthy (get_field toolsResp ''error'') \<and>
      mh_tools h = or_default_json (get_field (rpc_result toolsResp) ''tools'') (JArr []))"
proof -
  note o = handshake_opts [OF assms]
  from handshake_ok [OF conjunct2 [OF conjunct2 [OF o]]] obtain a b where
    a: "await_response (me_parse env) text_of 1 (receive_lines (me_server env [initialize_request])) = Some (Inr a)" and
    b: "await_response (me_parse env) text_of 2 (receive_lines (me_server env handshake_messages)) = Some (Inr b)" and
    t: "mh_tools h = or_default_json (get_field (rpc_result b) ''tools'') (JArr [])"
    unfolding request_answer by blast
  from a obtain m where "m \<in> set (receive_lines (me_server env [initialize_request]))"
    "answers (me_parse env) 1 a m" "\<not> truthy (get_field a ''error'')"
    unfolding await_answer by (metis in_set_conv_decomp)
  moreover from b obtain u l v where "receive_lines (me_server env handshake_messages) = u @ l # v"
    "list_all (passed_over (me_parse env) 2) u" "answers (me_parse env) 2 b l" "\<not> truthy (get_field b ''error'')"
    unfolding await_answer by blast
  ultimately show ?thesis using o t by blast
qed

definition sample_answer :: "nat \<Rightarrow> json" where
  "sample_answer i = JObj [(''id'', JNum (of_nat i)), (''result'', JObj [(''tools'', JArr [JStr ''search''])])]"

definition sample_parse :: "string \<Rightarrow> json option" where
  "sample_parse l = (if l = ''A'' then Some (sample_answer 1) else if l = ''BC'' then Some (sample_answer 2)
     else if l = ''log'' then Some (JStr ''log'') else None)"

definition sample_server :: "(nat \<Rightarrow> string list) \<Rightarrow> mcp_env" where
  "sample_server chunks = \<lparr>me_parse = sample_parse, me_server = \<lambda>sent. chunks (length sent)\<rparr>"

definition sample_opts :: mcp_options where
  "sample_opts = \<lparr>mo_stdio = True, mo_command = Some ''npx'', mo_timeoutMs = None\<rparr>"

definition whole_server :: mcp_env where
  "whole_server = sample_server (\<lambda>n. if n = 1 then [''log'' @ [CHR 0x0A] @ ''A'' @ [CHR 0x0A]]
     else [''log'' @ [CHR 0x0A] @ ''A'' @ [CHR 0x0A], ''BC'' @ [CHR 0x0A]])"

definition cut_server :: mcp_env where
  "cut_server = sample_server (\<lambda>n. if n = 1 then [''A'' @ [CHR 0x0A]] else [''A'' @ [CHR 0x0A], ''B'', ''C'' @ [CHR 0x0A]])"

theorem mcp_handshake_sound_witness:
  "\<exists>h. handshake whole_server (\<lambda>_. []) sample_opts = Inr h \<and> mo_stdio sample_opts \<and>
     (\<exists>initResp. \<exists>m \<in> set (receive_lines (me_server whole_server [initialize_request])).
        answers (me_parse whole_server) 1 initResp m)"
proof -
  have "\<not> Option.is_none (case handshake whole_server (\<lambda>_. []) sample_opts of Inl _ \<Rightarrow> None | Inr h \<Rightarrow> Some h)"
    by code_simp
  then obtain h where h: "handshake whole_server (\<lambda>_. []) sample_opts = Inr h"
    by (auto split: sum.splits)
  show ?thesis using mcp_handshake_sound [OF h] h by blast
qed

subsection \<open>Chunks\<close>

text \<open>
  C31. As long as the server's output arrives in whole lines, reading it chunk by chunk is reading it as
  one stream: every request of the handshake and of a tool call has the same outcome as against the
  joined output.
\<close>

theorem whole_chunks_suffice:
  assumes "\<And>sent. list_all whole_lines (me_server env sent)"
  shows "sendRequest env text_of t i sent = stream_request env text_of t i sent \<and>
    handshake env text_of opts = handshake (env\<lparr>me_server := \<lambda>s. [concat (me_server env s)]\<rparr>) text_of opts \<and>
    callTool env text_of opts tool inp = callTool (env\<lparr>me_server := \<lambda>s. [concat (me_server env s)]\<rparr>) text_of opts tool inp"
proof -
  let ?j = "env\<lparr>me_server := \<lambda>s. [concat (me_server env s)]\<rparr>"
  have j: "receive_lines [concat us] = stream_lines us" for us
    by (simp add: receive_lines_def stdout_lines_def stream_lines_def)
  have e: "sendRequest env = sendRequest ?j"
    by (intro ext) (simp add: sendRequest_def j whole_chunks assms)
  have h: "handshakeStdio env = handshakeStdio ?j" "callToolStdio env = callToolStdio ?j"
    unfolding handshakeStdio_def [abs_def] callToolStdio_def [abs_def] e by (rule refl)+
  have "handshake env = handshake ?j" "callTool env = callTool ?j"
    unfolding handshake_def [abs_def] callTool_def [abs_def] h by (rule refl)+
  moreover have "sendRequest env text_of t i sent = stream_request env text_of t i sent"
    by (simp add: sendRequest_def stream_request_def whole_chunks assms)
  ultimately show ?thesis by (simp only: simp_thms)
qed

theorem whole_chunks_suffice_witness:
  "sendRequest whole_server (\<lambda>_. []) 10000 2 handshake_messages = stream_request whole_server (\<lambda>_. []) 10000 2 handshake_messages
   \<and> stream_request whole_server (\<lambda>_. []) 10000 2 handshake_messages = Inr (sample_answer 2)"
proof -
  have "list_all whole_lines (me_server whole_server sent)" for sent
    by (simp add: whole_server_def sample_server_def whole_lines_def)
  from conjunct1 [OF whole_chunks_suffice [OF this]]
  show ?thesis by simp code_simp
qed

text \<open>
  The client does not join a line that arrives in two chunks: when the answer to a request is cut
  into two pieces that are no JSON on their own, and everything before it is passed over, the request
  times out although the stream holds the answer.
\<close>

theorem cut_answer_is_lost:
  assumes "me_server env sent = chunks @ [a, b @ [CHR 0x0A]]" and "list_all whole_lines chunks"
    and "list_all (passed_over (me_parse env) i) (receive_lines chunks)"
    and "CHR 0x0A \<notin> set (a @ b)" and "me_parse env a = None" and "me_parse env b = None"
    and "js_trim (a @ b) \<noteq> []" and "answers (me_parse env) i r (a @ b)" and "\<not> truthy (get_field r ''error'')"
  shows "sendRequest env text_of t i sent = Inl (idle_error t) \<and>
    stream_request env text_of t i sent = Inr r"
proof
  have n: "CHR 0x0A \<notin> set a" "CHR 0x0A \<notin> set b" using assms(4) by auto
  have b: "js_split [CHR 0x0A] (b @ [CHR 0x0A]) = [b, []]"
    using split_cut [where u = b and v = "[]"] by (simp add: split_line n split_empty)
  have app: "receive_lines (us @ vs) = receive_lines us @ receive_lines vs" for us vs
    by (simp add: receive_lines_def stdout_lines_def)
  have p: "passed_over (me_parse env) i a" "passed_over (me_parse env) i b"
    using assms(5,6) by (simp_all add: passed_over_def)
  have "list_all (passed_over (me_parse env) i) (receive_lines (me_server env sent))"
    unfolding assms(1) app using assms(3) p
    by (simp add: receive_lines_def stdout_lines_def b split_line n trim_empty)
  then show "sendRequest env text_of t i sent = Inl (idle_error t)"
    by (simp add: sendRequest_def await_none [THEN iffD2])
  have whole: "whole_lines (concat us)" if "list_all whole_lines us" for us
    using that by (induction us) (auto simp: whole_lines_def last_append)
  have ab: "js_split [CHR 0x0A] (a @ b @ [CHR 0x0A]) = [a @ b, []]"
    using split_cut [where u = "a @ b" and v = "[]"] assms(4) by (simp add: split_line split_empty)
  have "stream_lines (me_server env sent) = receive_lines chunks @ [a @ b]"
    using whole_split [OF whole [OF assms(2)], where v = "a @ b @ [CHR 0x0A]"] assms(7)
    by (simp add: assms(1) whole_chunks [OF assms(2)] stream_lines_def ab trim_empty)
  then show "stream_request env text_of t i sent = Inr r"
    using await_hit [OF assms(8)] assms(9) by (simp add: stream_request_def await_skip [OF assms(3)] del: await_response.simps)
qed

theorem cut_answer_is_lost_witness:
  "sendRequest cut_server (\<lambda>_. []) 10000 2 handshake_messages = Inl (idle_error 10000) \<and>
   stream_request cut_server (\<lambda>_. []) 10000 2 handshake_messages = Inr (sample_answer 2)"
proof (rule cut_answer_is_lost [where chunks = "[''A'' @ [CHR 0x0A]]" and a = "''B''" and b = "''C''"])
  show "me_server cut_server handshake_messages = [''A'' @ [CHR 0x0A]] @ [''B'', ''C'' @ [CHR 0x0A]]"
    by (simp add: cut_server_def sample_server_def handshake_messages_def)
  show "list_all whole_lines [''A'' @ [CHR 0x0A]]" by (simp add: whole_lines_def)
  show "list_all (passed_over (me_parse cut_server) 2) (receive_lines [''A'' @ [CHR 0x0A]])" by code_simp
  show "CHR 0x0A \<notin> set (''B'' @ ''C'')" by simp
  show "me_parse cut_server ''B'' = None" "me_parse cut_server ''C'' = None"
    by (simp_all add: cut_server_def sample_server_def sample_parse_def)
  show "js_trim (''B'' @ ''C'') \<noteq> []" by code_simp
  show "answers (me_parse cut_server) 2 (sample_answer 2) (''B'' @ ''C'')"
    by (simp add: answers_def cut_server_def sample_server_def sample_parse_def sample_answer_def)
  show "\<not> truthy (get_field (sample_answer 2) ''error'')" by (simp add: sample_answer_def)
qed

end
