(* ===== verification/Agent_Adapter.thy ===== *)
theory Agent_Adapter
  imports Engine Js_Text "HOL-Library.Sublist"
begin

text \<open>
  \<open>loops-runners/adapters\<close>: the deterministic agents, which are used when no agent CLI is configured.
  \<open>deterministic_agent\<close> is the planner and reviewer (\<open>deterministic-loops-agent.adapter.ts\<close>),
  \<open>deterministic_claude\<close> the implementer (\<open>deterministic-loops-claude.adapter.ts\<close>): the adapters that
  the engine and the facade are given as parameters elsewhere.

  \<open>iso_of\<close> prints a time. The implementer reads the clock twice in one call; the model reads it once.
\<close>

subsection \<open>Planning\<close>

definition spec_number :: "loop_issue \<Rightarrow> string" where
  "spec_number issue = replace_first ''issue-'' [] (i_id issue)"

definition renderSpec :: "(timestamp \<Rightarrow> string) \<Rightarrow> loop_issue \<Rightarrow> timestamp \<Rightarrow> string" where
  "renderSpec iso_of issue createdAt =
     (''---'' @ [CHR 0x0A] @ ''id: spec-'') @ spec_number issue @ ([CHR 0x0A] @ ''issue: '') @ i_id issue
     @ ([CHR 0x0A] @ ''version: v1'' @ [CHR 0x0A] @ ''status: DRAFT'' @ [CHR 0x0A] @ ''created: '') @ iso_of createdAt
     @ ([CHR 0x0A] @ ''context_budget: 24000'' @ [CHR 0x0A] @ ''annotation:'' @ [CHR 0x0A] @ ''  impl_status: not-started'' @ [CHR 0x0A] @ ''  test_status: not-run'' @ [CHR 0x0A] @ ''  verdict: unreviewed'' @ [CHR 0x0A] @ ''  coverage: none'' @ [CHR 0x0A] @ ''  risk: medium'' @ [CHR 0x0A] @ ''---'' @ [CHR 0x0A, CHR 0x0A] @ ''## '' @ [CHR 0xE8, CHR 0x83, CHR 0x8C, CHR 0xE6, CHR 0x99, CHR 0xAF, CHR 0xE4, CHR 0xB8, CHR 0x8E, CHR 0xE7, CHR 0x9B, CHR 0xAE, CHR 0xE6, CHR 0xA0, CHR 0x87, CHR 0x0A])
     @ i_body issue
     @ ([CHR 0x0A, CHR 0x0A] @ ''## '' @ [CHR 0xE8, CHR 0x8C, CHR 0x83, CHR 0xE5, CHR 0x9B, CHR 0xB4, CHR 0xEF, CHR 0xBC, CHR 0x88, CHR 0xE5, CHR 0x90, CHR 0xAB, CHR 0xE6, CHR 0x98, CHR 0x8E, CHR 0xE7, CHR 0xA1, CHR 0xAE, CHR 0xE7, CHR 0x9A, CHR 0x84, CHR 0xE4, CHR 0xB8, CHR 0x8D, CHR 0xE5, CHR 0x81, CHR 0x9A, CHR 0xE9, CHR 0xA1, CHR 0xB9, CHR 0xEF, CHR 0xBC, CHR 0x89, CHR 0x0A] @ ''- '' @ [CHR 0xE8, CHR 0xA6, CHR 0x86, CHR 0xE7, CHR 0x9B, CHR 0x96, CHR 0xE7, CHR 0x9B, CHR 0xAE, CHR 0xE6, CHR 0xA0, CHR 0x87, CHR 0xE4, CHR 0xBB, CHR 0x93, CHR 0xE5, CHR 0xBA, CHR 0x93, CHR 0xEF, CHR 0xBC, CHR 0x9A]) @ i_targetRepo issue
     @ ([CHR 0x0A] @ ''- MVP '' @ [CHR 0xE5, CHR 0x85, CHR 0x88, CHR 0xE8, CHR 0x90, CHR 0xBD] @ '' Web Issue'' @ [CHR 0xE3, CHR 0x80, CHR 0x81, CHR 0xE4, CHR 0xBA, CHR 0xBA, CHR 0xE5, CHR 0xB7, CHR 0xA5, CHR 0xE5, CHR 0xAE, CHR 0xA1, CHR 0xE6, CHR 0xA0, CHR 0xB8, CHR 0xE3, CHR 0x80, CHR 0x81, CHR 0xE5, CHR 0x9F, CHR 0xBA, CHR 0xE7, CHR 0xA1, CHR 0x80, CHR 0xE6, CHR 0x8B, CHR 0x86, CHR 0xE8, CHR 0xA7, CHR 0xA3, CHR 0xE3, CHR 0x80, CHR 0x81, CHR 0xE7, CHR 0x8A, CHR 0xB6, CHR 0xE6, CHR 0x80, CHR 0x81, CHR 0xE4, CHR 0xB8, CHR 0x8E, CHR 0xE6, CHR 0xA0, CHR 0x87, CHR 0xE6, CHR 0xB3, CHR 0xA8, CHR 0xEF, CHR 0xBC, CHR 0x8C, CHR 0xE4, CHR 0xB8, CHR 0x8D, CHR 0xE5, CHR 0x90, CHR 0xAF, CHR 0xE5, CHR 0x8A, CHR 0xA8, CHR 0xE7, CHR 0x9C, CHR 0x9F, CHR 0xE5, CHR 0xAE, CHR 0x9E] @ '' agent '' @ [CHR 0xE9, CHR 0x95, CHR 0xBF, CHR 0xE4, CHR 0xBB, CHR 0xBB, CHR 0xE5, CHR 0x8A, CHR 0xA1, CHR 0xE3, CHR 0x80, CHR 0x82, CHR 0x0A, CHR 0x0A] @ ''## '' @ [CHR 0xE6, CHR 0x96, CHR 0xB9, CHR 0xE6, CHR 0xA1, CHR 0x88, CHR 0xE8, CHR 0xAE, CHR 0xBE, CHR 0xE8, CHR 0xAE, CHR 0xA1, CHR 0x0A] @ ''- '' @ [CHR 0xE4, CHR 0xBD, CHR 0xBF, CHR 0xE7, CHR 0x94, CHR 0xA8] @ '' .loops '' @ [CHR 0xE6, CHR 0x96, CHR 0x87, CHR 0xE4, CHR 0xBB, CHR 0xB6, CHR 0xE4, CHR 0xBD, CHR 0x9C, CHR 0xE4, CHR 0xB8, CHR 0xBA, CHR 0xE7, CHR 0x8A, CHR 0xB6, CHR 0xE6, CHR 0x80, CHR 0x81, CHR 0xE7, CHR 0x9C, CHR 0x9F, CHR 0xE7, CHR 0x9B, CHR 0xB8, CHR 0xE6, CHR 0xBA, CHR 0x90, CHR 0xE3, CHR 0x80, CHR 0x82, CHR 0x0A] @ ''- '' @ [CHR 0xE9, CHR 0x80, CHR 0x9A, CHR 0xE8, CHR 0xBF, CHR 0x87] @ '' Web '' @ [CHR 0xE8, CHR 0xA1, CHR 0xA8, CHR 0xE5, CHR 0x8D, CHR 0x95, CHR 0xE5, CHR 0x88, CHR 0x9B, CHR 0xE5, CHR 0xBB, CHR 0xBA] @ '' IssueIntake '' @ [CHR 0xE4, CHR 0xB8, CHR 0x8E] @ '' Issue'' @ [CHR 0xE3, CHR 0x80, CHR 0x82, CHR 0x0A] @ ''- Spec '' @ [CHR 0xE5, CHR 0xAE, CHR 0xA1, CHR 0xE6, CHR 0xA0, CHR 0xB8, CHR 0xE9, CHR 0x80, CHR 0x9A, CHR 0xE8, CHR 0xBF, CHR 0x87, CHR 0xE5, CHR 0x90, CHR 0x8E, CHR 0xE7, CHR 0x94, CHR 0x9F, CHR 0xE6, CHR 0x88, CHR 0x90, CHR 0xE4, CHR 0xB8, CHR 0xB2, CHR 0xE8, CHR 0xA1, CHR 0x8C] @ '' MVP Shards'' @ [CHR 0xE3, CHR 0x80, CHR 0x82, CHR 0x0A, CHR 0x0A] @ ''## '' @ [CHR 0xE9, CHR 0xAA, CHR 0x8C, CHR 0xE6, CHR 0x94, CHR 0xB6, CHR 0xE6, CHR 0xA0, CHR 0x87, CHR 0xE5, CHR 0x87, CHR 0x86, CHR 0xEF, CHR 0xBC, CHR 0x88, CHR 0xE5, CHR 0x8F, CHR 0xAF, CHR 0xE5, CHR 0x8B, CHR 0xBE, CHR 0xE9, CHR 0x80, CHR 0x89, CHR 0xE6, CHR 0xB8, CHR 0x85, CHR 0xE5, CHR 0x8D, CHR 0x95, CHR 0xEF, CHR 0xBC, CHR 0x89, CHR 0x0A])
     @ js_join [CHR 0x0A] (map (\<lambda>item. ''- [ ] '' @ item @ '' [impl:not-started test:not-run verdict:unreviewed]'')
         (i_acceptanceCriteria issue))
     @ ([CHR 0x0A, CHR 0x0A] @ ''## '' @ [CHR 0xE6, CHR 0xB5, CHR 0x8B, CHR 0xE8, CHR 0xAF, CHR 0x95, CHR 0xE7, CHR 0xAD, CHR 0x96, CHR 0xE7, CHR 0x95, CHR 0xA5, CHR 0xEF, CHR 0xBC, CHR 0x88, CHR 0xE5, CHR 0x8D, CHR 0x95, CHR 0xE5, CHR 0x85, CHR 0x83] @ '' / '' @ [CHR 0xE9, CHR 0x9B, CHR 0x86, CHR 0xE6, CHR 0x88, CHR 0x90] @ '' / E2E / '' @ [CHR 0xE5, CHR 0x9B, CHR 0x9E, CHR 0xE5, CHR 0xBD, CHR 0x92] @ '' / '' @ [CHR 0xE4, CHR 0xBA, CHR 0xBA, CHR 0xE5, CHR 0xB7, CHR 0xA5, CHR 0xE9, CHR 0xAA, CHR 0x8C, CHR 0xE6, CHR 0x94, CHR 0xB6, CHR 0xEF, CHR 0xBC, CHR 0x89, CHR 0x0A] @ ''- unit: '' @ [CHR 0xE6, CHR 0xA0, CHR 0xA1, CHR 0xE9, CHR 0xAA, CHR 0x8C, CHR 0xE8, CHR 0xA1, CHR 0xA8, CHR 0xE5, CHR 0x8D, CHR 0x95] @ '' schema '' @ [CHR 0xE4, CHR 0xB8, CHR 0x8E, CHR 0xE6, CHR 0x96, CHR 0x87, CHR 0xE4, CHR 0xBB, CHR 0xB6, CHR 0xE7, CHR 0x8A, CHR 0xB6, CHR 0xE6, CHR 0x80, CHR 0x81, CHR 0xE5, CHR 0x86, CHR 0x99, CHR 0xE5, CHR 0x85, CHR 0xA5, CHR 0xE3, CHR 0x80, CHR 0x82, CHR 0x0A] @ ''- integration: '' @ [CHR 0xE6, CHR 0xA0, CHR 0xA1, CHR 0xE9, CHR 0xAA, CHR 0x8C] @ '' issue -> spec -> review -> decompose '' @ [CHR 0xE6, CHR 0xB5, CHR 0x81, CHR 0xE8, CHR 0xBD, CHR 0xAC, CHR 0xE3, CHR 0x80, CHR 0x82, CHR 0x0A] @ ''- e2e: MVP '' @ [CHR 0xE6, CHR 0x9A, CHR 0x82, CHR 0xE6, CHR 0xA0, CHR 0x87, CHR 0xE8, CHR 0xAE, CHR 0xB0] @ '' manual/deferred'' @ [CHR 0xE3, CHR 0x80, CHR 0x82, CHR 0x0A] @ ''- regression: pnpm lint / pnpm type-check'' @ [CHR 0xE3, CHR 0x80, CHR 0x82, CHR 0x0A, CHR 0x0A] @ ''## '' @ [CHR 0xE9, CHR 0xA3, CHR 0x8E, CHR 0xE9, CHR 0x99, CHR 0xA9, CHR 0xE4, CHR 0xB8, CHR 0x8E, CHR 0xE4, CHR 0xBE, CHR 0x9D, CHR 0xE8, CHR 0xB5, CHR 0x96, CHR 0x0A] @ ''- '' @ [CHR 0xE7, CHR 0x9C, CHR 0x9F, CHR 0xE5, CHR 0xAE, CHR 0x9E] @ '' Codex/Claude Code '' @ [CHR 0xE9, CHR 0x9D, CHR 0x9E, CHR 0xE4, CHR 0xBA, CHR 0xA4, CHR 0xE4, CHR 0xBA, CHR 0x92, CHR 0xE8, CHR 0xB0, CHR 0x83, CHR 0xE7, CHR 0x94, CHR 0xA8, CHR 0xE4, CHR 0xBB, CHR 0x8D, CHR 0xE9, CHR 0x9C, CHR 0x80] @ '' Adapter '' @ [CHR 0xE7, CHR 0x89, CHR 0x88, CHR 0xE6, CHR 0x9C, CHR 0xAC, CHR 0xE6, CHR 0xA0, CHR 0xB8, CHR 0xE5, CHR 0xAF, CHR 0xB9, CHR 0xE3, CHR 0x80, CHR 0x82, CHR 0x0A] @ ''- HTTP '' @ [CHR 0xE5, CHR 0x88, CHR 0x9B, CHR 0xE5, CHR 0xBB, CHR 0xBA, CHR 0xE8, CHR 0xB7, CHR 0xAF, CHR 0xE5, CHR 0xBE, CHR 0x84, CHR 0xE5, CHR 0xB7, CHR 0xB2, CHR 0xE7, CHR 0x94, CHR 0xB1] @ '' AuthGuard '' @ [CHR 0xE6, CHR 0xB4, CHR 0xBE, CHR 0xE7, CHR 0x94, CHR 0x9F] @ '' dofe-sso submitter'' @ [CHR 0xEF, CHR 0xBC, CHR 0x9B, CHR 0xE7, CHR 0x9C, CHR 0x9F, CHR 0xE5, CHR 0xAE, CHR 0x9E, CHR 0xE6, CHR 0xB5, CHR 0x8F, CHR 0xE8, CHR 0xA7, CHR 0x88, CHR 0xE5, CHR 0x99, CHR 0xA8] @ '' SSO E2E '' @ [CHR 0xE4, CHR 0xBB, CHR 0x8D, CHR 0xE9, CHR 0x9C, CHR 0x80, CHR 0xE5, CHR 0xA4, CHR 0x96, CHR 0xE9, CHR 0x83, CHR 0xA8, CHR 0xE8, CHR 0x81, CHR 0x94, CHR 0xE8, CHR 0xB0, CHR 0x83, CHR 0xE7, CHR 0x8E, CHR 0xAF, CHR 0xE5, CHR 0xA2, CHR 0x83, CHR 0xE9, CHR 0xAA, CHR 0x8C, CHR 0xE8, CHR 0xAF, CHR 0x81, CHR 0xE3, CHR 0x80, CHR 0x82, CHR 0x0A, CHR 0x0A] @ ''## '' @ [CHR 0xE6, CHR 0x8B, CHR 0x86, CHR 0xE8, CHR 0xA7, CHR 0xA3, CHR 0xE6, CHR 0x8C, CHR 0x87, CHR 0xE5, CHR 0xBC, CHR 0x95, CHR 0xEF, CHR 0xBC, CHR 0x88, CHR 0xE7, CHR 0xBB, CHR 0x99] @ '' Codex '' @ [CHR 0xE6, CHR 0x8B, CHR 0x86, CHR 0xE8, CHR 0xA7, CHR 0xA3, CHR 0xE9, CHR 0x98, CHR 0xB6, CHR 0xE6, CHR 0xAE, CHR 0xB5, CHR 0xE7, CHR 0x9A, CHR 0x84, CHR 0xE6, CHR 0x8F, CHR 0x90, CHR 0xE7, CHR 0xA4, CHR 0xBA, CHR 0xEF, CHR 0xBC, CHR 0x89, CHR 0x0A, CHR 0xE6, CHR 0x8C, CHR 0x89] @ '' contract'' @ [CHR 0xE3, CHR 0x80, CHR 0x81] @ ''API'' @ [CHR 0xE3, CHR 0x80, CHR 0x81] @ ''Web '' @ [CHR 0xE6, CHR 0x8E, CHR 0xA7, CHR 0xE5, CHR 0x88, CHR 0xB6, CHR 0xE5, CHR 0x8F, CHR 0xB0, CHR 0xE3, CHR 0x80, CHR 0x81, CHR 0xE6, CHR 0xA0, CHR 0x87, CHR 0xE6, CHR 0xB3, CHR 0xA8, CHR 0xE4, CHR 0xB8, CHR 0x8E, CHR 0xE6, CHR 0x81, CHR 0xA2, CHR 0xE5, CHR 0xA4, CHR 0x8D, CHR 0xE8, CHR 0x83, CHR 0xBD, CHR 0xE5, CHR 0x8A, CHR 0x9B, CHR 0xE6, CHR 0x8B, CHR 0x86, CHR 0xE5, CHR 0x88, CHR 0x86, CHR 0xEF, CHR 0xBC, CHR 0x8C, CHR 0xE6, CHR 0xAF, CHR 0x8F, CHR 0xE4, CHR 0xB8, CHR 0xAA] @ '' Shard '' @ [CHR 0xE4, CHR 0xBF, CHR 0x9D, CHR 0xE6, CHR 0x8C, CHR 0x81] @ '' est_context < 24000'' @ [CHR 0xE3, CHR 0x80, CHR 0x82, CHR 0x0A])"

definition plan_of :: "(timestamp \<Rightarrow> string) \<Rightarrow> loop_issue \<Rightarrow> timestamp \<Rightarrow> loop_spec" where
  "plan_of iso_of issue createdAt = \<lparr>sp_id = ''spec-'' @ spec_number issue, sp_issueId = i_id issue,
     sp_version = ''v1'', sp_status = SPEC_DRAFT, sp_created = createdAt, sp_approvedBy = None,
     sp_contextBudget = 24000, sp_body = renderSpec iso_of issue createdAt\<rparr>"

subsection \<open>Decomposition\<close>

definition INITIAL_CRITERION :: string where
  "INITIAL_CRITERION = [CHR 0xE8, CHR 0xA6, CHR 0x86, CHR 0xE7, CHR 0x9B, CHR 0x96, CHR 0xE5, CHR 0x88, CHR 0x9D, CHR 0xE5, CHR 0xA7, CHR 0x8B, CHR 0xE9, CHR 0xAA, CHR 0x8C, CHR 0xE6, CHR 0x94, CHR 0xB6, CHR 0xEF, CHR 0xBC, CHR 0x9A]"

definition createMvpShards :: "loop_issue \<Rightarrow> loop_spec \<Rightarrow> loop_shard list" where
  "createMvpShards issue spec =
    [\<lparr>sh_id = i_id issue @ ''-shard-1'', sh_specId = sp_id spec,
      sh_title = ([CHR 0xE5, CHR 0xAE, CHR 0x9E, CHR 0xE7, CHR 0x8E, CHR 0xB0] @ '' Loops Web Issue '' @ [CHR 0xE4, CHR 0xB8, CHR 0x8E, CHR 0xE6, CHR 0x96, CHR 0x87, CHR 0xE4, CHR 0xBB, CHR 0xB6, CHR 0xE7, CHR 0x9C, CHR 0x9F, CHR 0xE7, CHR 0x9B, CHR 0xB8, CHR 0xE6, CHR 0xBA, CHR 0x90]),
      sh_status = SHARD_TODO, sh_priority = i_priority issue, sh_dependsOn = [],
      sh_estContext = 9000, sh_estEffort = EFFORT_M,
      sh_acceptance = [([CHR 0xE8, CHR 0x83, CHR 0xBD, CHR 0xE8, CHR 0xAE, CHR 0xB0, CHR 0xE5, CHR 0xBD, CHR 0x95] @ '' source_channel=web'' @ [CHR 0xE3, CHR 0x80, CHR 0x81] @ ''submitter'' @ [CHR 0xE3, CHR 0x80, CHR 0x81] @ ''raw_payload_ref''),
        ([CHR 0xE8, CHR 0x83, CHR 0xBD, CHR 0xE5, CHR 0x86, CHR 0x99, CHR 0xE5, CHR 0x85, CHR 0xA5] @ '' .loops/issues'' @ [CHR 0xE3, CHR 0x80, CHR 0x81] @ ''.loops/intakes'' @ [CHR 0xE3, CHR 0x80, CHR 0x81] @ ''state.json'' @ [CHR 0xE3, CHR 0x80, CHR 0x81] @ ''log.jsonl'')],
      sh_testUnit = [([CHR 0xE8, CHR 0xA6, CHR 0x86, CHR 0xE7, CHR 0x9B, CHR 0x96] @ '' CreateLoopIssueRequestSchema '' @ [CHR 0xE5, CHR 0xBF, CHR 0x85, CHR 0xE5, CHR 0xA1, CHR 0xAB, CHR 0xE6, CHR 0xA0, CHR 0xA1, CHR 0xE9, CHR 0xAA, CHR 0x8C])],
      sh_testIntegration = [([CHR 0xE8, CHR 0xA6, CHR 0x86, CHR 0xE7, CHR 0x9B, CHR 0x96] @ '' POST /loops/issues '' @ [CHR 0xE5, CHR 0x88, CHR 0x9B, CHR 0xE5, CHR 0xBB, CHR 0xBA, CHR 0xE5, CHR 0xAE, CHR 0x8C, CHR 0xE6, CHR 0x95, CHR 0xB4, CHR 0xE7, CHR 0x8A, CHR 0xB6, CHR 0xE6, CHR 0x80, CHR 0x81, CHR 0xE6, CHR 0x96, CHR 0x87, CHR 0xE4, CHR 0xBB, CHR 0xB6])],
      sh_testE2e = [([CHR 0xE9, CHR 0xA1, CHR 0xB5, CHR 0xE9, CHR 0x9D, CHR 0xA2, CHR 0xE6, CHR 0x8F, CHR 0x90, CHR 0xE4, CHR 0xBA, CHR 0xA4] @ '' Issue '' @ [CHR 0xE5, CHR 0x90, CHR 0x8E, CHR 0xE8, CHR 0x83, CHR 0xBD, CHR 0xE8, CHR 0xBF, CHR 0x9B, CHR 0xE5, CHR 0x85, CHR 0xA5, CHR 0xE8, CHR 0xAF, CHR 0xA6, CHR 0xE6, CHR 0x83, CHR 0x85, CHR 0xE9, CHR 0xA1, CHR 0xB5, CHR 0xEF, CHR 0xBC, CHR 0x88] @ ''manual/deferred'' @ [CHR 0xEF, CHR 0xBC, CHR 0x89])],
      sh_filesHint = [''packages/contracts/src/schemas/loops.schema.ts'',
        ''loops API/domain service modules'', ''apps/web/app/loops/*'']\<rparr>,
     \<lparr>sh_id = i_id issue @ ''-shard-2'', sh_specId = sp_id spec,
      sh_title = ([CHR 0xE5, CHR 0xAE, CHR 0x9E, CHR 0xE7, CHR 0x8E, CHR 0xB0] @ '' Spec '' @ [CHR 0xE5, CHR 0xAE, CHR 0xA1, CHR 0xE6, CHR 0xA0, CHR 0xB8, CHR 0xE9, CHR 0x97, CHR 0xA8, CHR 0xE7, CHR 0xA6, CHR 0x81, CHR 0xE4, CHR 0xB8, CHR 0x8E, CHR 0xE5, CHR 0x9F, CHR 0xBA, CHR 0xE7, CHR 0xA1, CHR 0x80, CHR 0xE6, CHR 0x8B, CHR 0x86, CHR 0xE8, CHR 0xA7, CHR 0xA3]),
      sh_status = SHARD_TODO, sh_priority = i_priority issue, sh_dependsOn = [i_id issue @ ''-shard-1''],
      sh_estContext = 8500, sh_estEffort = EFFORT_M,
      sh_acceptance = [([CHR 0xE6, CHR 0x9C, CHR 0xAA, CHR 0xE7, CHR 0xBB, CHR 0x8F] @ '' APPROVED '' @ [CHR 0xE7, CHR 0x9A, CHR 0x84] @ '' Spec '' @ [CHR 0xE4, CHR 0xB8, CHR 0x8D, CHR 0xE5, CHR 0x85, CHR 0x81, CHR 0xE8, CHR 0xAE, CHR 0xB8] @ '' decompose''),
        ([CHR 0xE5, CHR 0xAE, CHR 0xA1, CHR 0xE6, CHR 0xA0, CHR 0xB8, CHR 0xE9, CHR 0x80, CHR 0x9A, CHR 0xE8, CHR 0xBF, CHR 0x87, CHR 0xE5, CHR 0x90, CHR 0x8E, CHR 0xE7, CHR 0x94, CHR 0x9F, CHR 0xE6, CHR 0x88, CHR 0x90, CHR 0xE8, CHR 0x87, CHR 0xAA, CHR 0xE5, CHR 0x8C, CHR 0x85, CHR 0xE5, CHR 0x90, CHR 0xAB] @ '' Shards '' @ [CHR 0xE4, CHR 0xB8, CHR 0x8E, CHR 0xE5, CHR 0x9F, CHR 0xBA, CHR 0xE7, CHR 0xA1, CHR 0x80] @ '' Annotation'')] @ i_acceptanceCriteria issue,
      sh_testUnit = [([CHR 0xE8, CHR 0xA6, CHR 0x86, CHR 0xE7, CHR 0x9B, CHR 0x96] @ '' reviewSpec action '' @ [CHR 0xE7, CHR 0x8A, CHR 0xB6, CHR 0xE6, CHR 0x80, CHR 0x81, CHR 0xE6, CHR 0x98, CHR 0xA0, CHR 0xE5, CHR 0xB0, CHR 0x84])],
      sh_testIntegration = [([CHR 0xE8, CHR 0xA6, CHR 0x86, CHR 0xE7, CHR 0x9B, CHR 0x96] @ '' generateSpec -> approve -> decompose '' @ [CHR 0xE6, CHR 0xB5, CHR 0x81, CHR 0xE8, CHR 0xBD, CHR 0xAC])]
        @ map (\<lambda>item. INITIAL_CRITERION @ item) (i_acceptanceCriteria issue),
      sh_testE2e = [([CHR 0xE5, CHR 0xAE, CHR 0xA1, CHR 0xE6, CHR 0xA0, CHR 0xB8, CHR 0xE5, CHR 0x8F, CHR 0xB0, CHR 0xE9, CHR 0x80, CHR 0x9A, CHR 0xE8, CHR 0xBF, CHR 0x87, CHR 0xE5, CHR 0x90, CHR 0x8E] @ '' Loop '' @ [CHR 0xE8, CHR 0xBF, CHR 0x9B, CHR 0xE5, CHR 0xBA, CHR 0xA6, CHR 0xE9, CHR 0xA1, CHR 0xB5, CHR 0xE5, CHR 0xB1, CHR 0x95, CHR 0xE7, CHR 0xA4, CHR 0xBA] @ '' shard '' @ [CHR 0xE5, CHR 0x88, CHR 0x97, CHR 0xE8, CHR 0xA1, CHR 0xA8, CHR 0xEF, CHR 0xBC, CHR 0x88] @ ''manual/deferred'' @ [CHR 0xEF, CHR 0xBC, CHR 0x89])],
      sh_filesHint = [''loops engine/service layer'', ''apps/web/app/loops/[issueId]/page.tsx'']\<rparr>]"

definition createInitialAnnotations ::
    "loop_issue \<Rightarrow> loop_spec \<Rightarrow> loop_shard list \<Rightarrow> loop_annotation list" where
  "createInitialAnnotations issue spec shards =
    [\<lparr>an_target = i_id issue, an_annotator = BY_SYSTEM, an_round = 1, an_implStatus = IMPL_IN_PROGRESS,
      an_testStatus = ANN_NOT_RUN, an_verdict = ANN_UNREVIEWED, an_coverage = COV_PARTIAL,
      an_location = [''.loops/issues'', ''.loops/intakes''], an_risk = RISK_MEDIUM,
      an_notes = (''MVP Issue Intake '' @ [CHR 0xE5, CHR 0xB7, CHR 0xB2, CHR 0xE5, CHR 0xBD, CHR 0x92, CHR 0xE4, CHR 0xB8, CHR 0x80, CHR 0xE5, CHR 0x8C, CHR 0x96, CHR 0xEF, CHR 0xBC, CHR 0x9B] @ ''HTTP '' @ [CHR 0xE8, CHR 0xB7, CHR 0xAF, CHR 0xE5, CHR 0xBE, CHR 0x84, CHR 0xE5, CHR 0xB7, CHR 0xB2, CHR 0xE6, CHR 0xB4, CHR 0xBE, CHR 0xE7, CHR 0x94, CHR 0x9F] @ '' dofe-sso submitter'' @ [CHR 0xEF, CHR 0xBC, CHR 0x8C, CHR 0xE7, CHR 0x9C, CHR 0x9F, CHR 0xE5, CHR 0xAE, CHR 0x9E, CHR 0xE6, CHR 0xB5, CHR 0x8F, CHR 0xE8, CHR 0xA7, CHR 0x88, CHR 0xE5, CHR 0x99, CHR 0xA8] @ '' SSO E2E '' @ [CHR 0xE4, CHR 0xB8, CHR 0x8E] @ '' agent '' @ [CHR 0xE8, CHR 0xB0, CHR 0x83, CHR 0xE7, CHR 0x94, CHR 0xA8, CHR 0xE4, CHR 0xBB, CHR 0x8D, CHR 0xE5, CHR 0xBE, CHR 0x85, CHR 0xE6, CHR 0x8E, CHR 0xA5, CHR 0xE5, CHR 0x85, CHR 0xA5, CHR 0xE3, CHR 0x80, CHR 0x82])\<rparr>,
     \<lparr>an_target = sp_id spec, an_annotator = BY_SYSTEM, an_round = 1, an_implStatus = IMPL_IN_PROGRESS,
      an_testStatus = ANN_NOT_RUN, an_verdict = ANN_PASS, an_coverage = COV_PARTIAL,
      an_location = [''.loops/specs''], an_risk = RISK_MEDIUM,
      an_notes = (''Spec '' @ [CHR 0xE5, CHR 0xB7, CHR 0xB2, CHR 0xE9, CHR 0x80, CHR 0x9A, CHR 0xE8, CHR 0xBF, CHR 0x87, CHR 0xE4, CHR 0xBA, CHR 0xBA, CHR 0xE5, CHR 0xB7, CHR 0xA5, CHR 0xE9, CHR 0x97, CHR 0xA8, CHR 0xE7, CHR 0xA6, CHR 0x81, CHR 0xE5, CHR 0xB9, CHR 0xB6, CHR 0xE8, CHR 0xBF, CHR 0x9B, CHR 0xE5, CHR 0x85, CHR 0xA5, CHR 0xE5, CHR 0x9F, CHR 0xBA, CHR 0xE7, CHR 0xA1, CHR 0x80, CHR 0xE6, CHR 0x8B, CHR 0x86, CHR 0xE8, CHR 0xA7, CHR 0xA3, CHR 0xE3, CHR 0x80, CHR 0x82])\<rparr>]
    @ map (\<lambda>shard.
     \<lparr>an_target = sh_id shard, an_annotator = BY_SYSTEM, an_round = 1, an_implStatus = IMPL_NOT_STARTED,
      an_testStatus = ANN_TEST_MISSING, an_verdict = ANN_UNREVIEWED, an_coverage = COV_PARTIAL,
      an_location = sh_filesHint shard, an_risk = RISK_MEDIUM,
      an_notes = (''Shard '' @ [CHR 0xE5, CHR 0xB7, CHR 0xB2, CHR 0xE7, CHR 0x94, CHR 0x9F, CHR 0xE6, CHR 0x88, CHR 0x90, CHR 0xEF, CHR 0xBC, CHR 0x8C, CHR 0xE7, CHR 0xAD, CHR 0x89, CHR 0xE5, CHR 0xBE, CHR 0x85, CHR 0xE7, CHR 0x9C, CHR 0x9F, CHR 0xE5, CHR 0xAE, CHR 0x9E] @ '' Runner/Claude Code '' @ [CHR 0xE5, CHR 0xAE, CHR 0x9E, CHR 0xE6, CHR 0x96, CHR 0xBD, CHR 0xE4, CHR 0xB8, CHR 0x8E, CHR 0xE6, CHR 0xB5, CHR 0x8B, CHR 0xE8, CHR 0xAF, CHR 0x95, CHR 0xE8, CHR 0xAF, CHR 0x81, CHR 0xE6, CHR 0x8D, CHR 0xAE, CHR 0xE3, CHR 0x80, CHR 0x82])\<rparr>) shards"

definition decompose_plan :: "loop_issue \<Rightarrow> loop_spec \<Rightarrow> loop_shard list \<times> loop_annotation list" where
  "decompose_plan issue spec = (let shards = createMvpShards issue spec in
     (shards, createInitialAnnotations issue spec shards))"

subsection \<open>Test matrix\<close>

text \<open>\<open>xs.map((title, index) => ...)\<close> for one level of a shard.\<close>

definition level_tests ::
    "loop_shard \<Rightarrow> string \<Rightarrow> test_level \<Rightarrow> string option \<Rightarrow> string list \<Rightarrow> required_test list" where
  "level_tests shard name level command titles = map (\<lambda>(n, title).
     \<lparr>rt_id = sh_id shard @ ''-'' @ name @ ''-'' @ nat_str (n + 1), rt_shardId = sh_id shard,
      rt_level = level, rt_title = title, rt_command = command, rt_required = True\<rparr>) (enumerate 0 titles)"

definition shard_tests :: "loop_shard \<Rightarrow> required_test list" where
  "shard_tests shard =
     level_tests shard ''unit'' LEVEL_UNIT (Some ''pnpm test'') (sh_testUnit shard)
     @ level_tests shard ''integration'' LEVEL_INTEGRATION (Some ''pnpm test'') (sh_testIntegration shard)
     @ level_tests shard ''e2e'' LEVEL_E2E (Some ''pnpm test'') (sh_testE2e shard)
     @ level_tests shard ''manual'' LEVEL_MANUAL None (sh_acceptance shard)"

definition deriveTestMatrix ::
    "loop_issue \<Rightarrow> loop_spec \<Rightarrow> loop_shard list \<Rightarrow> timestamp \<Rightarrow> loop_test_matrix" where
  "deriveTestMatrix issue spec shards createdAt = \<lparr>tm_id = ''test-matrix-'' @ i_id issue,
     tm_issueId = i_id issue, tm_specId = sp_id spec, tm_status = MATRIX_ACTIVE, tm_created = createdAt,
     tm_requiredTests = concat (map shard_tests shards),
     tm_regressionScope = js_set (concat (map sh_filesHint shards)),
     tm_manualAcceptance = concat (map sh_acceptance shards)\<rparr>"

subsection \<open>Reviews\<close>

definition major :: "string \<Rightarrow> review_issue" where
  "major desc = \<lparr>ri_severity = MAJOR, ri_desc = desc\<rparr>"

definition reviewTests_of :: "loop_test_record option \<Rightarrow> loops_test_review_output" where
  "reviewTests_of testRecord = (case testRecord of
     None \<Rightarrow> \<lparr>to_testVerdict = TEST_MISSING,
       to_issues = [major ([CHR 0xE7, CHR 0xBC, CHR 0xBA, CHR 0xE5, CHR 0xB0, CHR 0x91, CHR 0xE6, CHR 0x9C, CHR 0xAC, CHR 0xE8, CHR 0xBD, CHR 0xAE] @ '' Test Record'' @ [CHR 0xEF, CHR 0xBC, CHR 0x8C, CHR 0xE6, CHR 0x97, CHR 0xA0, CHR 0xE6, CHR 0xB3, CHR 0x95, CHR 0xE5, CHR 0x88, CHR 0xA4, CHR 0xE5, CHR 0xAE, CHR 0x9A, CHR 0xE6, CHR 0xB5, CHR 0x8B, CHR 0xE8, CHR 0xAF, CHR 0x95, CHR 0xE7, CHR 0x8A, CHR 0xB6, CHR 0xE6, CHR 0x80, CHR 0x81, CHR 0xE3, CHR 0x80, CHR 0x82])],
       to_fixInstructions = [([CHR 0xE8, CHR 0xBF, CHR 0x90, CHR 0xE8, CHR 0xA1, CHR 0x8C] @ '' shard '' @ [CHR 0xE6, CHR 0xB5, CHR 0x8B, CHR 0xE8, CHR 0xAF, CHR 0x95, CHR 0xE5, CHR 0x91, CHR 0xBD, CHR 0xE4, CHR 0xBB, CHR 0xA4, CHR 0xE5, CHR 0xB9, CHR 0xB6, CHR 0xE4, CHR 0xBA, CHR 0xA7, CHR 0xE5, CHR 0x87, CHR 0xBA] @ '' Test Record '' @ [CHR 0xE5, CHR 0x90, CHR 0x8E, CHR 0xE5, CHR 0x86, CHR 0x8D, CHR 0xE5, CHR 0xAE, CHR 0xA1, CHR 0xE6, CHR 0x9F, CHR 0xA5, CHR 0xE3, CHR 0x80, CHR 0x82])],
       to_summary = ''No test record for this round.''\<rparr>
   | Some record0 \<Rightarrow>
       if tr_status record0 = TEST_PASS
       then \<lparr>to_testVerdict = TEST_PASS, to_issues = [], to_fixInstructions = [],
         to_summary = ''All configured test commands passed.''\<rparr>
       else \<lparr>to_testVerdict = tr_status record0,
         to_issues = map (\<lambda>item. major (ft_reason item)) (tr_failedTests record0),
         to_fixInstructions = tr_fixInstructions record0,
         to_summary = nat_str (length (tr_failedTests record0)) @ '' test command(s) failed.''\<rparr>)"

definition tests_passed :: "loop_test_record option \<Rightarrow> bool" where
  "tests_passed testRecord \<longleftrightarrow> (case testRecord of None \<Rightarrow> False | Some r \<Rightarrow> tr_status r = TEST_PASS)"

text \<open>A string as its UTF-16 code units, which is what \<open>slice\<close> counts and \<open>includes\<close> compares.\<close>

definition utf16 :: "string \<Rightarrow> nat list" where
  "utf16 s = concat (map (\<lambda>(p, _). if p < 65536 then [p]
     else [55296 + (p - 65536) div 1024, 56320 + (p - 65536) mod 1024]) (utf8_chunks s))"

definition criteria_covered :: "loop_shard \<Rightarrow> loop_implementation_record \<Rightarrow> bool" where
  "criteria_covered shard impl \<longleftrightarrow> list_all (\<lambda>item.
     sublist (take 12 (utf16 (to_lower item))) (utf16 (to_lower (ir_summary impl)))
     \<or> ir_changedFiles impl \<noteq> []) (sh_acceptance shard)"

definition review_of ::
    "loop_shard \<Rightarrow> loop_implementation_record \<Rightarrow> loop_test_record option \<Rightarrow> loops_review_output" where
  "review_of shard impl testRecord =
     (if tests_passed testRecord \<and> criteria_covered shard impl
      then \<lparr>ro_verdict = PASS, ro_issues = [], ro_fixInstructions = [],
        ro_summary = [CHR 0xE5, CHR 0xAE, CHR 0x9E, CHR 0xE7, CHR 0x8E, CHR 0xB0, CHR 0xE6, CHR 0xBB, CHR 0xA1, CHR 0xE8, CHR 0xB6, CHR 0xB3, CHR 0xE9, CHR 0xAA, CHR 0x8C, CHR 0xE6, CHR 0x94, CHR 0xB6, CHR 0xE6, CHR 0xA0, CHR 0x87, CHR 0xE5, CHR 0x87, CHR 0x86, CHR 0xE4, CHR 0xB8, CHR 0x94, CHR 0xE6, CHR 0x9C, CHR 0xAC, CHR 0xE8, CHR 0xBD, CHR 0xAE, CHR 0xE6, CHR 0xB5, CHR 0x8B, CHR 0xE8, CHR 0xAF, CHR 0x95, CHR 0xE9, CHR 0x80, CHR 0x9A, CHR 0xE8, CHR 0xBF, CHR 0x87, CHR 0xE3, CHR 0x80, CHR 0x82]\<rparr>
      else \<lparr>ro_verdict = NEEDS_WORK,
        ro_issues = [major (if tests_passed testRecord
          then [CHR 0xE5, CHR 0xAE, CHR 0x9E, CHR 0xE7, CHR 0x8E, CHR 0xB0, CHR 0xE5, CHR 0xB0, CHR 0x9A, CHR 0xE6, CHR 0x9C, CHR 0xAA, CHR 0xE8, CHR 0xA6, CHR 0x86, CHR 0xE7, CHR 0x9B, CHR 0x96, CHR 0xE5, CHR 0x85, CHR 0xA8, CHR 0xE9, CHR 0x83, CHR 0xA8, CHR 0xE9, CHR 0xAA, CHR 0x8C, CHR 0xE6, CHR 0x94, CHR 0xB6, CHR 0xE6, CHR 0xA0, CHR 0x87, CHR 0xE5, CHR 0x87, CHR 0x86, CHR 0xEF, CHR 0xBC, CHR 0x8C, CHR 0xE9, CHR 0x9C, CHR 0x80, CHR 0xE8, CHR 0xA1, CHR 0xA5, CHR 0xE9, CHR 0xBD, CHR 0x90, CHR 0xE3, CHR 0x80, CHR 0x82]
          else [CHR 0xE6, CHR 0x9C, CHR 0xAC, CHR 0xE8, CHR 0xBD, CHR 0xAE, CHR 0xE6, CHR 0xB5, CHR 0x8B, CHR 0xE8, CHR 0xAF, CHR 0x95, CHR 0xE6, CHR 0x9C, CHR 0xAA, CHR 0xE9, CHR 0x80, CHR 0x9A, CHR 0xE8, CHR 0xBF, CHR 0x87, CHR 0xE6, CHR 0x88, CHR 0x96, CHR 0xE7, CHR 0xBC, CHR 0xBA, CHR 0xE5, CHR 0xA4, CHR 0xB1, CHR 0xEF, CHR 0xBC, CHR 0x8C, CHR 0xE9, CHR 0x9C, CHR 0x80, CHR 0xE4, CHR 0xBF, CHR 0xAE, CHR 0xE5, CHR 0xA4, CHR 0x8D, CHR 0xE5, CHR 0xB9, CHR 0xB6, CHR 0xE9, CHR 0x87, CHR 0x8D, CHR 0xE8, CHR 0xB7, CHR 0x91, CHR 0xE3, CHR 0x80, CHR 0x82])],
        ro_fixInstructions = (if tests_passed testRecord
          then [([CHR 0xE5, CHR 0xAF, CHR 0xB9, CHR 0xE7, CHR 0x85, CHR 0xA7] @ '' acceptance '' @ [CHR 0xE9, CHR 0x80, CHR 0x90, CHR 0xE6, CHR 0x9D, CHR 0xA1, CHR 0xE8, CHR 0xA1, CHR 0xA5, CHR 0xE9, CHR 0xBD, CHR 0x90, CHR 0xE5, CHR 0xAE, CHR 0x9E, CHR 0xE7, CHR 0x8E, CHR 0xB0, CHR 0xE5, CHR 0xB9, CHR 0xB6, CHR 0xE9, CHR 0x87, CHR 0x8D, CHR 0xE6, CHR 0x96, CHR 0xB0, CHR 0xE7, CHR 0x99, CHR 0xBB, CHR 0xE8, CHR 0xAE, CHR 0xB0] @ '' Implementation Record'' @ [CHR 0xE3, CHR 0x80, CHR 0x82])]
          else (case testRecord of
              Some r \<Rightarrow> tr_fixInstructions r
            | None \<Rightarrow> [([CHR 0xE4, CHR 0xBF, CHR 0xAE, CHR 0xE5, CHR 0xA4, CHR 0x8D, CHR 0xE5, CHR 0xA4, CHR 0xB1, CHR 0xE8, CHR 0xB4, CHR 0xA5, CHR 0xE6, CHR 0xB5, CHR 0x8B, CHR 0xE8, CHR 0xAF, CHR 0x95, CHR 0xE5, CHR 0x90, CHR 0x8E, CHR 0xE9, CHR 0x87, CHR 0x8D, CHR 0xE6, CHR 0x96, CHR 0xB0, CHR 0xE8, CHR 0xBF, CHR 0x90, CHR 0xE8, CHR 0xA1, CHR 0x8C] @ '' shard tests'' @ [CHR 0xE3, CHR 0x80, CHR 0x82])])),
        ro_summary = ''Needs revision: acceptance or tests incomplete.''\<rparr>)"

definition reviewGlobal_of ::
    "loop_shard list \<Rightarrow> loop_implementation_record list \<Rightarrow> loop_review_record list
     \<Rightarrow> loop_test_record list \<Rightarrow> loops_review_output" where
  "reviewGlobal_of shards impls reviews tests =
     (let allDone = shards \<noteq> [] \<and> list_all (\<lambda>s. sh_status s = SHARD_DONE) shards;
          testsPass = list_all (\<lambda>r. tr_status r = TEST_PASS) tests;
          hasRecords = impls \<noteq> [] \<and> reviews \<noteq> [] in
      if allDone \<and> testsPass \<and> hasRecords
      then \<lparr>ro_verdict = PASS, ro_issues = [], ro_fixInstructions = [],
        ro_summary = ([CHR 0xE6, CHR 0x89, CHR 0x80, CHR 0xE6, CHR 0x9C, CHR 0x89] @ '' Shard '' @ [CHR 0xE5, CHR 0xB7, CHR 0xB2] @ '' DONE'' @ [CHR 0xE3, CHR 0x80, CHR 0x81, CHR 0xE6, CHR 0xB5, CHR 0x8B, CHR 0xE8, CHR 0xAF, CHR 0x95, CHR 0xE9, CHR 0x80, CHR 0x9A, CHR 0xE8, CHR 0xBF, CHR 0x87, CHR 0xE3, CHR 0x80, CHR 0x81, CHR 0xE8, CHR 0xAE, CHR 0xB0, CHR 0xE5, CHR 0xBD, CHR 0x95, CHR 0xE9, CHR 0xBD, CHR 0x90, CHR 0xE5, CHR 0xA4, CHR 0x87, CHR 0xEF, CHR 0xBC, CHR 0x8C, CHR 0xE6, CHR 0x95, CHR 0xB4, CHR 0xE4, CHR 0xBD, CHR 0x93, CHR 0xE4, CHR 0xB8, CHR 0x80, CHR 0xE8, CHR 0x87, CHR 0xB4, CHR 0xE3, CHR 0x80, CHR 0x82])\<rparr>
      else \<lparr>ro_verdict = NEEDS_WORK,
        ro_issues = [\<lparr>ri_severity = (if allDone then MINOR else MAJOR),
          ri_desc = (if allDone
            then ([CHR 0xE5, CHR 0xAD, CHR 0x98, CHR 0xE5, CHR 0x9C, CHR 0xA8, CHR 0xE6, CHR 0x9C, CHR 0xAA, CHR 0xE9, CHR 0x80, CHR 0x9A, CHR 0xE8, CHR 0xBF, CHR 0x87, CHR 0xE7, CHR 0x9A, CHR 0x84, CHR 0xE6, CHR 0xB5, CHR 0x8B, CHR 0xE8, CHR 0xAF, CHR 0x95, CHR 0xE6, CHR 0x88, CHR 0x96, CHR 0xE7, CHR 0xBC, CHR 0xBA, CHR 0xE5, CHR 0xA4, CHR 0xB1, CHR 0xE7, CHR 0x9A, CHR 0x84, CHR 0xE5, CHR 0xAE, CHR 0x9E, CHR 0xE6, CHR 0x96, CHR 0xBD] @ ''/'' @ [CHR 0xE5, CHR 0xAE, CHR 0xA1, CHR 0xE6, CHR 0x9F, CHR 0xA5, CHR 0xE8, CHR 0xAE, CHR 0xB0, CHR 0xE5, CHR 0xBD, CHR 0x95, CHR 0xEF, CHR 0xBC, CHR 0x8C, CHR 0xE9, CHR 0x9C, CHR 0x80, CHR 0xE8, CHR 0xA1, CHR 0xA5, CHR 0xE9, CHR 0xBD, CHR 0x90, CHR 0xE5, CHR 0x90, CHR 0x8E, CHR 0xE5, CHR 0x86, CHR 0x8D, CHR 0xE6, CHR 0xAC, CHR 0xA1, CHR 0xE6, CHR 0x95, CHR 0xB4, CHR 0xE4, CHR 0xBD, CHR 0x93, CHR 0xE5, CHR 0xA4, CHR 0x8D, CHR 0xE6, CHR 0x9F, CHR 0xA5, CHR 0xE3, CHR 0x80, CHR 0x82])
            else ([CHR 0xE4, CHR 0xBB, CHR 0x8D, CHR 0xE6, CHR 0x9C, CHR 0x89, CHR 0xE6, CHR 0x9C, CHR 0xAA, CHR 0xE5, CHR 0xAE, CHR 0x8C, CHR 0xE6, CHR 0x88, CHR 0x90, CHR 0xE7, CHR 0x9A, CHR 0x84] @ '' Shard'' @ [CHR 0xEF, CHR 0xBC, CHR 0x8C, CHR 0xE9, CHR 0x9C, CHR 0x80, CHR 0xE5, CHR 0x85, CHR 0x88, CHR 0xE6, CHR 0x8E, CHR 0xA8, CHR 0xE5, CHR 0x8A, CHR 0xA8, CHR 0xE5, CHR 0x88, CHR 0xB0, CHR 0xE5, CHR 0x85, CHR 0xA8, CHR 0xE9, CHR 0x83, CHR 0xA8] @ '' DONE '' @ [CHR 0xE5, CHR 0x86, CHR 0x8D, CHR 0xE5, CHR 0x81, CHR 0x9A, CHR 0xE6, CHR 0x95, CHR 0xB4, CHR 0xE4, CHR 0xBD, CHR 0x93, CHR 0xE5, CHR 0xA4, CHR 0x8D, CHR 0xE6, CHR 0x9F, CHR 0xA5, CHR 0xE3, CHR 0x80, CHR 0x82]))\<rparr>],
        ro_fixInstructions = (if allDone
          then [([CHR 0xE8, CHR 0xA1, CHR 0xA5, CHR 0xE9, CHR 0xBD, CHR 0x90, CHR 0xE7, CHR 0xBC, CHR 0xBA, CHR 0xE5, CHR 0xA4, CHR 0xB1, CHR 0xE7, CHR 0x9A, CHR 0x84, CHR 0xE6, CHR 0xB5, CHR 0x8B, CHR 0xE8, CHR 0xAF, CHR 0x95] @ ''/'' @ [CHR 0xE5, CHR 0xAE, CHR 0x9E, CHR 0xE6, CHR 0x96, CHR 0xBD] @ ''/'' @ [CHR 0xE5, CHR 0xAE, CHR 0xA1, CHR 0xE6, CHR 0x9F, CHR 0xA5, CHR 0xE8, CHR 0xAE, CHR 0xB0, CHR 0xE5, CHR 0xBD, CHR 0x95, CHR 0xE5, CHR 0x90, CHR 0x8E, CHR 0xE9, CHR 0x87, CHR 0x8D, CHR 0xE6, CHR 0x96, CHR 0xB0, CHR 0xE6, CHR 0x95, CHR 0xB4, CHR 0xE4, CHR 0xBD, CHR 0x93, CHR 0xE5, CHR 0xA4, CHR 0x8D, CHR 0xE6, CHR 0x9F, CHR 0xA5, CHR 0xE3, CHR 0x80, CHR 0x82])]
          else [([CHR 0xE5, CHR 0x9B, CHR 0x9E, CHR 0xE5, CHR 0x88, CHR 0xB0] @ '' Phase 4 '' @ [CHR 0xE7, CHR 0xBB, CHR 0xA7, CHR 0xE7, CHR 0xBB, CHR 0xAD, CHR 0xE6, CHR 0x8E, CHR 0xA8, CHR 0xE5, CHR 0x8A, CHR 0xA8, CHR 0xE5, CHR 0x89, CHR 0xA9, CHR 0xE4, CHR 0xBD, CHR 0x99] @ '' Shard'' @ [CHR 0xEF, CHR 0xBC, CHR 0x8C, CHR 0xE7, CHR 0x9B, CHR 0xB4, CHR 0xE5, CHR 0x88, CHR 0xB0, CHR 0xE5, CHR 0x85, CHR 0xA8, CHR 0xE9, CHR 0x83, CHR 0xA8] @ '' DONE'' @ [CHR 0xE3, CHR 0x80, CHR 0x82])]),
        ro_summary = ''Not yet converged: pending shards or missing evidence.''\<rparr>)"

subsection \<open>Final annotations\<close>

definition finalAnnotation :: "string \<Rightarrow> string \<Rightarrow> string list \<Rightarrow> string \<Rightarrow> loop_annotation" where
  "finalAnnotation target issueId location notes = \<lparr>an_target = target, an_annotator = BY_CODEX,
     an_round = 1, an_implStatus = IMPL_DONE, an_testStatus = ANN_TEST_PASS, an_verdict = ANN_PASS,
     an_coverage = COV_FULL, an_location = location, an_risk = RISK_LOW,
     an_notes = [CHR 0xE7, CHR 0xBB, CHR 0x88, CHR 0xE6, CHR 0x80, CHR 0x81, CHR 0xE6, CHR 0xA0, CHR 0x87, CHR 0xE6, CHR 0xB3, CHR 0xA8, CHR 0xEF, CHR 0xBC, CHR 0x9A] @ notes @ '' issue='' @ issueId\<rparr>"

definition refreshed ::
    "loop_issue \<Rightarrow> loop_spec option \<Rightarrow> loop_shard list \<Rightarrow> bool \<Rightarrow> loop_annotation \<Rightarrow> loop_annotation" where
  "refreshed issue spec shards passed a =
     (let isShard = list_ex (\<lambda>s. sh_id s = an_target a) shards;
          isSpec = (map_option sp_id spec = Some (an_target a));
          isIssue = (i_id issue = an_target a) in
      a\<lparr>an_annotator := BY_CODEX,
        an_implStatus := (if passed then IMPL_DONE else an_implStatus a),
        an_testStatus := (if passed then ANN_TEST_PASS else an_testStatus a),
        an_verdict := (if passed then ANN_PASS
          else if an_verdict a = ANN_UNREVIEWED then ANN_NEEDS_WORK else an_verdict a),
        an_coverage := (if passed then COV_FULL else an_coverage a),
        an_notes := (if passed \<and> (isShard \<or> isSpec \<or> isIssue)
          then ([CHR 0xE7, CHR 0xBB, CHR 0x88, CHR 0xE6, CHR 0x80, CHR 0x81, CHR 0xE6, CHR 0xA0, CHR 0x87, CHR 0xE6, CHR 0xB3, CHR 0xA8, CHR 0xEF, CHR 0xBC, CHR 0x9A, CHR 0xE5, CHR 0xB7, CHR 0xB2, CHR 0xE6, CHR 0x94, CHR 0xB6, CHR 0xE6, CHR 0x95, CHR 0x9B, CHR 0xEF, CHR 0xBC, CHR 0x8C, CHR 0xE5, CHR 0xAE, CHR 0x9E, CHR 0xE7, CHR 0x8E, CHR 0xB0] @ ''/'' @ [CHR 0xE6, CHR 0xB5, CHR 0x8B, CHR 0xE8, CHR 0xAF, CHR 0x95] @ ''/'' @ [CHR 0xE5, CHR 0xAE, CHR 0xA1, CHR 0xE6, CHR 0x9F, CHR 0xA5, CHR 0xE5, CHR 0x9D, CHR 0x87, CHR 0xE9, CHR 0x80, CHR 0x9A, CHR 0xE8, CHR 0xBF, CHR 0x87, CHR 0xE3, CHR 0x80, CHR 0x82])
            @ (if an_notes a \<noteq> [] then '' '' @ an_notes a else [])
          else an_notes a)\<rparr>)"

definition annotateFinalize_of ::
    "loop_issue \<Rightarrow> loop_spec option \<Rightarrow> loop_shard list \<Rightarrow> loop_annotation list \<Rightarrow> loop_verdict
     \<Rightarrow> loop_test_matrix option \<Rightarrow> loop_global_review_record option \<Rightarrow> loop_convergence_pr option
     \<Rightarrow> loop_annotation list" where
  "annotateFinalize_of issue spec shards annotations globalVerdict testMatrix globalReview convergencePr =
     (let passed = (globalVerdict = PASS);
          fresh = map (refreshed issue spec shards passed) annotations;
          known = (\<lambda>t. t \<in> an_target ` set fresh);
          i = i_id issue in
      fresh
      @ (case testMatrix of
           Some m \<Rightarrow> if passed \<and> \<not> known (tm_id m)
             then [finalAnnotation (tm_id m) i [''.loops/tests/'' @ i @ ''/matrix.json'',
               ''.loops/tests/'' @ i @ ''/matrix.md''] (''Test Matrix '' @ [CHR 0xE5, CHR 0xB7, CHR 0xB2, CHR 0xE9, CHR 0x9A, CHR 0x8F, CHR 0xE6, CHR 0x94, CHR 0xB6, CHR 0xE6, CHR 0x95, CHR 0x9B, CHR 0xE7, CHR 0xBB, CHR 0x88, CHR 0xE6, CHR 0x80, CHR 0x81, CHR 0xE7, CHR 0xA1, CHR 0xAE, CHR 0xE8, CHR 0xAE, CHR 0xA4, CHR 0xE3, CHR 0x80, CHR 0x82])] else []
         | None \<Rightarrow> [])
      @ (case globalReview of
           Some g \<Rightarrow> if passed \<and> \<not> known (gr_id g)
             then [finalAnnotation (gr_id g) i [''.loops/runs/'' @ i @ ''/global-review.json'',
               ''.loops/runs/'' @ i @ ''/global-review.md''] (''Global Review '' @ [CHR 0xE5, CHR 0xB7, CHR 0xB2] @ '' PASS '' @ [CHR 0xE5, CHR 0xB9, CHR 0xB6, CHR 0xE7, CHR 0xBA, CHR 0xB3, CHR 0xE5, CHR 0x85, CHR 0xA5, CHR 0xE7, CHR 0xBB, CHR 0x88, CHR 0xE6, CHR 0x80, CHR 0x81, CHR 0xE6, CHR 0xA0, CHR 0x87, CHR 0xE6, CHR 0xB3, CHR 0xA8, CHR 0xE3, CHR 0x80, CHR 0x82])] else []
         | None \<Rightarrow> [])
      @ (case convergencePr of
           Some p \<Rightarrow> if passed \<and> \<not> known (cp_id p)
             then [finalAnnotation (cp_id p) i [''.loops/runs/'' @ i @ ''/convergence-pr.json'',
               ''.loops/runs/'' @ i @ ''/convergence-pr.md''] (''Convergence PR '' @ [CHR 0xE8, CHR 0xAE, CHR 0xB0, CHR 0xE5, CHR 0xBD, CHR 0x95, CHR 0xE5, CHR 0xB7, CHR 0xB2, CHR 0xE7, CHR 0x94, CHR 0x9F, CHR 0xE6, CHR 0x88, CHR 0x90, CHR 0xE5, CHR 0xB9, CHR 0xB6, CHR 0xE7, CHR 0xBA, CHR 0xB3, CHR 0xE5, CHR 0x85, CHR 0xA5, CHR 0xE7, CHR 0xBB, CHR 0x88, CHR 0xE6, CHR 0x80, CHR 0x81, CHR 0xE6, CHR 0xA0, CHR 0x87, CHR 0xE6, CHR 0xB3, CHR 0xA8, CHR 0xE3, CHR 0x80, CHR 0x82])] else []
         | None \<Rightarrow> []))"

subsection \<open>The adapters\<close>

definition deterministic_agent :: "(timestamp \<Rightarrow> string) \<Rightarrow> loops_agent_adapter" where
  "deterministic_agent iso_of = \<lparr>
     ag_plan = (\<lambda>issue createdAt _. Inr (plan_of iso_of issue createdAt)),
     ag_decompose = (\<lambda>issue spec _. Inr (decompose_plan issue spec)),
     ag_designTests = (\<lambda>issue spec shards createdAt _. Inr (deriveTestMatrix issue spec shards createdAt)),
     ag_reviewTests = (\<lambda>matrix testRecord _. Inr (reviewTests_of testRecord)),
     ag_review = (\<lambda>shard impl testRecord _. Inr (review_of shard impl testRecord)),
     ag_reviewGlobal = (\<lambda>d _. Inr (reviewGlobal_of (d_shards d) (d_implementationRecords d)
       (d_reviewRecords d) (d_testRecords d))),
     ag_annotateFinalize = (\<lambda>d pr _. Inr (annotateFinalize_of (d_issue d) (d_spec d) (d_shards d)
       (d_annotations d) (case_option PASS id (st_globalVerdict (d_state d))) (d_testMatrix d)
       (d_globalReview d) (Some pr)))\<rparr>"

text \<open>The clock \<open>clk\<close> maps the number of effects so far to the time of this call.\<close>

definition implementation_of :: "loop_issue \<Rightarrow> loop_shard \<Rightarrow> nat \<Rightarrow> timestamp \<Rightarrow> loop_implementation_record" where
  "implementation_of issue shard r t = \<lparr>
     ir_id = ''impl-record-'' @ sh_id shard @ ''-r'' @ nat_str r @ ''-'' @ nat_str t,
     ir_issueId = i_id issue, ir_shardId = sh_id shard, ir_round = r, ir_implementer = ''claude-code'',
     ir_status = REC_IMPLEMENTED,
     ir_summary = ([CHR 0xE5, CHR 0xB7, CHR 0xB2, CHR 0xE6, CHR 0x8C, CHR 0x89] @ '' Shard '' @ [CHR 0xE9, CHR 0xAA, CHR 0x8C, CHR 0xE6, CHR 0x94, CHR 0xB6, CHR 0xE8, CHR 0xA6, CHR 0x81, CHR 0xE6, CHR 0xB1, CHR 0x82, CHR 0xE5, CHR 0xAE, CHR 0x9E, CHR 0xE7, CHR 0x8E, CHR 0xB0, CHR 0xEF, CHR 0xBC, CHR 0x9A]) @ js_join [CHR 0xEF, CHR 0xBC, CHR 0x9B] (sh_acceptance shard),
     ir_changedFiles = take 2 (sh_filesHint shard),
     ir_notes = Some ([CHR 0xE7, CHR 0xA1, CHR 0xAE, CHR 0xE5, CHR 0xAE, CHR 0x9A, CHR 0xE6, CHR 0x80, CHR 0xA7, CHR 0xE5, CHR 0xAE, CHR 0x9E, CHR 0xE6, CHR 0x96, CHR 0xBD, CHR 0xEF, CHR 0xBC, CHR 0x9A, CHR 0xE5, CHR 0xAE, CHR 0x9E, CHR 0xE9, CHR 0x99, CHR 0x85] @ '' Claude Code CLI '' @ [CHR 0xE6, CHR 0x9C, CHR 0xAA, CHR 0xE5, CHR 0x90, CHR 0xAF, CHR 0xE7, CHR 0x94, CHR 0xA8, CHR 0xEF, CHR 0xBC, CHR 0x8C, CHR 0xE4, CHR 0xBD, CHR 0xBF, CHR 0xE7, CHR 0x94, CHR 0xA8, CHR 0xE6, CHR 0xA8, CHR 0xA1, CHR 0xE6, CHR 0x9D, CHR 0xBF, CHR 0xE4, CHR 0xBA, CHR 0xA7, CHR 0xE5, CHR 0x87, CHR 0xBA, CHR 0xE5, CHR 0xAE, CHR 0x9E, CHR 0xE7, CHR 0x8E, CHR 0xB0, CHR 0xE8, CHR 0xAF, CHR 0x81, CHR 0xE6, CHR 0x8D, CHR 0xAE, CHR 0xE3, CHR 0x80, CHR 0x82]),
     ir_created = t, ir_tokens = Some (nat \<lfloor>min (sh_estContext shard) 8000\<rfloor>),
     ir_durationSec = Some 1, ir_testsChanged = Some []\<rparr>"

definition deterministic_claude ::
    "(nat \<Rightarrow> timestamp) \<Rightarrow> loop_issue \<Rightarrow> loop_shard \<Rightarrow> nat \<Rightarrow> string \<Rightarrow> loop_implementation_record call" where
  "deterministic_claude clk issue shard r repo n = Inr (implementation_of issue shard r (clk n))"

end
