(* ===== verification/Agent_Laws.thy ===== *)
theory Agent_Laws
  imports Agent_Adapter Engine_Laws
begin

text \<open>
  Laws of the deterministic agents. What the engine relies on in an agent is the locale
  \<open>agent_contract\<close>: a decomposition is a plan of TODO shards without dependency cycles, and a PASS of a review rests on
  passing tests. The deterministic agent meets it, and together with the deterministic implementer it
  passes a shard exactly when its tests pass.
\<close>

subsection \<open>What a loop relies on in an agent\<close>

definition well_formed_plan :: "loop_shard list \<Rightarrow> bool" where
  "well_formed_plan shards \<longleftrightarrow> distinct (map sh_id shards) \<and> (\<exists>rank. plan_acyclic rank shards)"

definition relabelled :: "(string \<Rightarrow> loop_shard_status) \<Rightarrow> loop_shard list \<Rightarrow> loop_shard list" where
  "relabelled status = map (\<lambda>s. s\<lparr>sh_status := status (sh_id s)\<rparr>)"

lemma relabelled_acyclic: "plan_acyclic rank (relabelled status shards) \<longleftrightarrow> plan_acyclic rank shards"
  by (simp add: plan_acyclic_def relabelled_def image_image)

locale agent_contract =
  fixes agent :: loops_agent_adapter
  assumes plan: "ag_decompose agent issue spec n = Inr (shards, anns) \<Longrightarrow>
      well_formed_plan shards \<and> (\<forall>s \<in> set shards. sh_status s = SHARD_TODO)"
    and tests: "ag_reviewTests agent matrix r n = Inr out \<Longrightarrow> to_testVerdict out = TEST_PASS \<Longrightarrow>
      \<exists>x. r = Some x \<and> tr_status x = TEST_PASS"
    and global: "ag_reviewGlobal agent d n = Inr review \<Longrightarrow> ro_verdict review = PASS \<Longrightarrow>
      list_all (\<lambda>s. sh_status s = SHARD_DONE) (d_shards d) \<and>
      list_all (\<lambda>r. tr_status r = TEST_PASS) (d_testRecords d)"
begin

lemma never_stuck:
  assumes "ag_decompose agent issue spec n = Inr (shards, anns)"
    and "\<forall>k. status k \<in> {SHARD_TODO, SHARD_NEEDS_WORK, SHARD_DONE}"
    and "findRunnableShard (relabelled status shards) = None"
  shows "\<forall>s \<in> set shards. status (sh_id s) = SHARD_DONE"
proof -
  from plan [OF assms(1)] obtain rank where "plan_acyclic rank shards"
    unfolding well_formed_plan_def by blast
  then have a: "plan_acyclic rank (relabelled status shards)" by (simp add: relabelled_acyclic)
  have s: "\<forall>s \<in> set (relabelled status shards). sh_status s \<in> {SHARD_TODO, SHARD_NEEDS_WORK, SHARD_DONE}"
    using assms(2) by (simp add: relabelled_def)
  from acyclic_progress [OF a s] assms(3)
  have "\<forall>x \<in> set (relabelled status shards). sh_status x = SHARD_DONE" by auto
  then show ?thesis by (simp add: relabelled_def)
qed

text \<open>The verdict the pipeline of a shard sends to the state adapter.\<close>

lemma pass_needs_tests:
  assumes "ag_reviewTests agent matrix (Some r) n = Inr out"
    and "(if to_testVerdict out = TEST_PASS then v else NEEDS_WORK) = PASS"
  shows "tr_status r = TEST_PASS"
  using tests [OF assms(1)] assms(2) by (simp split: if_splits)

end

subsection \<open>The deterministic plan\<close>

lemma shard_ids: "map sh_id (createMvpShards issue spec) = [i_id issue @ ''-shard-1'', i_id issue @ ''-shard-2'']"
  by (simp add: createMvpShards_def)

lemma plan_rank: "plan_acyclic (\<lambda>k. if k = i_id issue @ ''-shard-1'' then 0 else 1) (createMvpShards issue spec)"
  by (simp add: plan_acyclic_def createMvpShards_def)

lemma plan_well_formed: "well_formed_plan (createMvpShards issue spec)"
  unfolding well_formed_plan_def using plan_rank by (auto simp: shard_ids)

lemma plan_todo: "\<forall>s \<in> set (createMvpShards issue spec). sh_status s = SHARD_TODO \<and> sh_filesHint s \<noteq> []"
  by (simp add: createMvpShards_def)

lemma reviewTests_pass: "to_testVerdict (reviewTests_of r) = TEST_PASS \<longleftrightarrow> tests_passed r"
  by (simp add: reviewTests_of_def tests_passed_def split: option.split)

lemma tests_passed_iff: "tests_passed r \<longleftrightarrow> (\<exists>x. r = Some x \<and> tr_status x = TEST_PASS)"
  by (simp add: tests_passed_def split: option.split)

lemma reviewGlobal_pass: "ro_verdict (reviewGlobal_of shards impls reviews tests) = PASS \<longleftrightarrow>
    shards \<noteq> [] \<and> impls \<noteq> [] \<and> reviews \<noteq> [] \<and> list_all (\<lambda>s. sh_status s = SHARD_DONE) shards
    \<and> list_all (\<lambda>r. tr_status r = TEST_PASS) tests"
  unfolding reviewGlobal_of_def Let_def by (simp only: split: if_split) auto

interpretation deterministic: agent_contract "deterministic_agent iso_of"
proof
  fix issue spec n shards anns
  assume "ag_decompose (deterministic_agent iso_of) issue spec n = Inr (shards, anns)"
  then have "shards = createMvpShards issue spec"
    by (simp add: deterministic_agent_def decompose_plan_def Let_def)
  then show "well_formed_plan shards \<and> (\<forall>s \<in> set shards. sh_status s = SHARD_TODO)"
    using plan_well_formed plan_todo by simp
next
  fix matrix r n out
  assume "ag_reviewTests (deterministic_agent iso_of) matrix r n = Inr out" "to_testVerdict out = TEST_PASS"
  then show "\<exists>x. r = Some x \<and> tr_status x = TEST_PASS"
    using reviewTests_pass [of r] by (simp add: deterministic_agent_def tests_passed_iff)
next
  fix d n review
  assume "ag_reviewGlobal (deterministic_agent iso_of) d n = Inr review" "ro_verdict review = PASS"
  then show "list_all (\<lambda>s. sh_status s = SHARD_DONE) (d_shards d) \<and>
      list_all (\<lambda>r. tr_status r = TEST_PASS) (d_testRecords d)"
    by (auto simp: deterministic_agent_def reviewGlobal_pass)
qed

subsection \<open>Every criterion is tested\<close>

definition plan_issue :: loop_issue where
  "plan_issue = \<lparr>i_id = ''issue-7'', i_title = ''t'', i_status = ISSUE_IN_LOOP, i_priority = P1,
     i_created = 0, i_updated = 0, i_sourceChannel = CHANNEL_WEB, i_sourceKind = KIND_WEB_FORM,
     i_submitterId = ''u'', i_submitterName = ''u'', i_targetRepo = ''/r'', i_body = ''b'',
     i_acceptanceCriteria = [''works''], i_rawPayloadRef = ''p'', i_tenantContext = None\<rparr>"

definition plan_spec :: loop_spec where
  "plan_spec = plan_of (\<lambda>_. []) plan_issue 0"

lemma level_tests_nth: "level_tests shard name level command titles = map (\<lambda>n.
     \<lparr>rt_id = sh_id shard @ ''-'' @ name @ ''-'' @ nat_str (n + 1), rt_shardId = sh_id shard,
      rt_level = level, rt_title = titles ! n, rt_command = command, rt_required = True\<rparr>) [0..<length titles]"
  by (rule nth_equalityI) (simp_all add: level_tests_def nth_enumerate_eq)

lemma level_titles: "title \<in> set titles \<Longrightarrow>
    \<exists>t \<in> set (level_tests shard name level command titles). rt_title t = title \<and> rt_level t = level
      \<and> rt_shardId t = sh_id shard \<and> rt_required t"
  by (auto simp: level_tests_nth in_set_conv_nth)

text \<open>
  Every acceptance criterion of an issue is in the plan of the deterministic agent: a shard takes it
  over, and the test matrix asks for it twice, as a manual acceptance test and as an integration test.
\<close>

theorem criteria_are_tested:
  assumes "c \<in> set (i_acceptanceCriteria issue)"
  shows "\<exists>s \<in> set (createMvpShards issue spec). c \<in> set (sh_acceptance s) \<and>
    (\<exists>t \<in> set (tm_requiredTests (deriveTestMatrix issue spec (createMvpShards issue spec) created)).
       rt_shardId t = sh_id s \<and> rt_level t = LEVEL_MANUAL \<and> rt_title t = c \<and> rt_required t) \<and>
    (\<exists>t \<in> set (tm_requiredTests (deriveTestMatrix issue spec (createMvpShards issue spec) created)).
       rt_shardId t = sh_id s \<and> rt_level t = LEVEL_INTEGRATION \<and> rt_required t \<and> rt_title t = INITIAL_CRITERION @ c) \<and>
    c \<in> set (tm_manualAcceptance (deriveTestMatrix issue spec (createMvpShards issue spec) created))"
proof -
  let ?s = "createMvpShards issue spec ! 1"
  have s: "?s \<in> set (createMvpShards issue spec)" by (simp add: createMvpShards_def)
  have a: "c \<in> set (sh_acceptance ?s)" using assms by (simp add: createMvpShards_def)
  have i: "INITIAL_CRITERION @ c \<in> set (sh_testIntegration ?s)" using assms by (simp add: createMvpShards_def)
  have sub: "set (shard_tests ?s) \<subseteq>
      set (tm_requiredTests (deriveTestMatrix issue spec (createMvpShards issue spec) created))"
    using s by (auto simp: deriveTestMatrix_def)
  from level_titles [OF a] obtain m where m: "m \<in> set (shard_tests ?s)" "rt_title m = c"
    "rt_level m = LEVEL_MANUAL" "rt_shardId m = sh_id ?s" "rt_required m"
    unfolding shard_tests_def by (metis (no_types, lifting) Un_iff set_append)
  from level_titles [OF i] obtain t where t: "t \<in> set (shard_tests ?s)" "rt_title t = INITIAL_CRITERION @ c"
    "rt_level t = LEVEL_INTEGRATION" "rt_shardId t = sh_id ?s" "rt_required t"
    unfolding shard_tests_def by (metis (no_types, lifting) Un_iff set_append)
  have "c \<in> set (tm_manualAcceptance (deriveTestMatrix issue spec (createMvpShards issue spec) created))"
    using s a by (auto simp: deriveTestMatrix_def)
  with s a m t sub show ?thesis by blast
qed

theorem criteria_are_tested_witness:
  "\<exists>s \<in> set (createMvpShards plan_issue plan_spec). ''works'' \<in> set (sh_acceptance s)"
  using criteria_are_tested [where c = "''works''" and issue = plan_issue and spec = plan_spec]
  by (auto simp: plan_issue_def)

subsection \<open>Implementer and reviewer\<close>

lemma reviewed_pass: "ro_verdict (review_of shard impl r) = PASS \<longleftrightarrow> tests_passed r \<and> criteria_covered shard impl"
  unfolding review_of_def by (simp only: split: if_split) auto

lemma covered_by_files: "ir_changedFiles impl \<noteq> [] \<Longrightarrow> criteria_covered shard impl"
  by (simp add: criteria_covered_def list_all_iff)

lemma plan_covered:
  assumes "s \<in> set (createMvpShards issue spec)"
  shows "criteria_covered s (implementation_of issue s r t)"
  by (rule covered_by_files) (use plan_todo [of issue spec] assms in \<open>simp add: implementation_of_def\<close>)

text \<open>
  C32. The deterministic agents converge exactly when the tests do: on a shard of their own plan, for the
  record the implementer writes, the reviewer's verdict is PASS if the test record of the attempt is a
  TEST-PASS, and NEEDS-WORK, never FAIL, in every other case; the test review says TEST-PASS in the same
  case.
\<close>

theorem deterministic_pair_follows_tests:
  assumes "s \<in> set (fst (decompose_plan issue spec))"
    and "deterministic_claude clk issue s r repo n = Inr impl"
    and "ag_review (deterministic_agent iso_of) s impl testRecord m = Inr review"
    and "ag_reviewTests (deterministic_agent iso_of) matrix testRecord k = Inr testReview"
  shows "ro_verdict review
      = (if \<exists>x. testRecord = Some x \<and> tr_status x = TEST_PASS then PASS else NEEDS_WORK) \<and>
    (to_testVerdict testReview = TEST_PASS \<longleftrightarrow> ro_verdict review = PASS) \<and>
    ir_shardId impl = sh_id s \<and> ir_round impl = r \<and> ir_status impl = REC_IMPLEMENTED"
proof -
  have s: "s \<in> set (createMvpShards issue spec)"
    using assms(1) by (simp add: decompose_plan_def Let_def)
  have impl: "impl = implementation_of issue s r (clk n)"
    using assms(2) by (simp add: deterministic_claude_def)
  have review: "review = review_of s impl testRecord"
    using assms(3) by (simp add: deterministic_agent_def)
  have pass: "ro_verdict review = PASS \<longleftrightarrow> tests_passed testRecord"
    unfolding review reviewed_pass impl using plan_covered [OF s] by blast
  have two: "ro_verdict review \<in> {PASS, NEEDS_WORK}"
    unfolding review review_of_def by (simp only: split: if_split) auto
  have test: "to_testVerdict testReview = TEST_PASS \<longleftrightarrow> tests_passed testRecord"
    using assms(4) reviewTests_pass [of testRecord] by (simp add: deterministic_agent_def)
  have fields: "ir_shardId impl = sh_id s \<and> ir_round impl = r \<and> ir_status impl = REC_IMPLEMENTED"
    unfolding impl implementation_of_def by (simp only: loop_implementation_record.simps simp_thms)
  show ?thesis using pass two test fields unfolding tests_passed_iff by auto
qed

theorem deterministic_pair_follows_tests_witness:
  "ro_verdict (review_of (hd (createMvpShards plan_issue plan_spec))
     (implementation_of plan_issue (hd (createMvpShards plan_issue plan_spec)) 1 0) None) = NEEDS_WORK"
proof -
  let ?s = "hd (createMvpShards plan_issue plan_spec)"
  let ?i = "implementation_of plan_issue ?s 1 0"
  have "?s \<in> set (fst (decompose_plan plan_issue plan_spec))"
    by (simp add: decompose_plan_def Let_def createMvpShards_def)
  then show ?thesis
    using deterministic_pair_follows_tests [where s = ?s and issue = plan_issue and spec = plan_spec and clk = "\<lambda>_. 0"
        and r = 1 and repo = "[]" and n = 0 and impl = ?i and iso_of = "\<lambda>_. []" and testRecord = None and m = 0
        and review = "review_of ?s ?i None" and matrix = None and k = 0 and testReview = "reviewTests_of None"]
    by (simp only: deterministic_claude_def deterministic_agent_def loops_agent_adapter.simps simp_thms
        option.distinct if_False ex_simps)
qed

end
