(* ===== verification/Dashboard.thy ===== *)
theory Dashboard
  imports Facade Issues
begin

text \<open>
  The metrics of the dashboard (\<open>metrics\<close> and its helpers of \<open>loops.service.ts\<close>): the summary counts,
  the phase distribution, the risk and action queues, the trace and resume summaries. They are derived
  from one page of the list, the costs, the log and the coverage of every loop of the page; the
  doctor's report and the trend of the benchmarks are passed through. \<open>localeCompare\<close> of event types is
  the parameter \<open>lc\<close> (whether the first is not after the second), \<open>num\<close> prints a percentage.
\<close>

subsection \<open>Data\<close>

datatype next_action =
    ACT_GENERATE_SPEC | ACT_REVIEW_SPEC | ACT_DECOMPOSE | ACT_RUN_STEP | ACT_GLOBAL_REVIEW
  | ACT_RELOOP | ACT_FINALIZE | ACT_RESUME | ACT_CLOSED

datatype action_category = CATEGORY_CONTINUE | CATEGORY_DECISION | CATEGORY_EXCEPTION | CATEGORY_DONE

datatype metrics_level = LEVEL_CRITICAL | LEVEL_WARNING | LEVEL_INFO

record metrics_risk_item =
  mr_issueId :: string
  mr_title :: string
  mr_level :: metrics_level
  mr_reason :: string
  mr_phase :: "loop_phase option"
  mr_priority :: loop_priority
  mr_status :: loop_issue_status
  mr_href :: string

record metrics_action_item =
  ma_issueId :: string
  ma_title :: string
  ma_action :: next_action
  ma_category :: action_category
  ma_label :: string
  ma_priority :: loop_priority
  ma_phase :: "loop_phase option"
  ma_href :: string

record trace_summary =
  ts_total :: nat
  ts_recent :: nat
  ts_lastEventAt :: "timestamp option"
  ts_eventTypes :: "(string \<times> nat) list"

record resume_summary =
  rsm_resumableShards :: nat
  rsm_affectedIssues :: nat

record metrics_summary =
  ms_total :: nat
  ms_active :: nat
  ms_inLoop :: nat
  ms_paused :: nat
  ms_attention :: nat
  ms_closed :: nat

record cost_summary =
  cs_loops :: nat
  cs_tripped :: nat
  cs_totalCalls :: nat
  cs_totalTokens :: nat
  cs_minCallsRemaining :: rat
  cs_minTokensRemaining :: rat

record loop_metrics =
  mt_summary :: metrics_summary
  mt_phaseDistribution :: "(string \<times> string \<times> nat) list"
  mt_costSummary :: cost_summary
  mt_riskQueue :: "metrics_risk_item list"
  mt_actionQueue :: "metrics_action_item list"
  mt_coverage :: loop_requirement_coverage_summary
  mt_trace :: trace_summary
  mt_resume :: resume_summary

subsection \<open>Phases\<close>

fun phase_label :: "loop_phase \<Rightarrow> string" where
  "phase_label PHASE_0_INTAKE = ''Intake''"
| "phase_label PHASE_1_SPEC = ''Spec''"
| "phase_label PHASE_2_REVIEW = ''Review''"
| "phase_label PHASE_3_DECOMPOSE = ''Decompose''"
| "phase_label PHASE_4_IMPLEMENT = ''Implement''"
| "phase_label PHASE_5_REVIEW = ''Shard Review''"
| "phase_label PHASE_6_CONVERGE = ''Converge''"
| "phase_label PHASE_7_GLOBAL_REVIEW = ''Global Review''"
| "phase_label PHASE_8_ANNOTATE = ''Annotate''"
| "phase_label PHASE_CLOSED = ''Closed''"
| "phase_label PHASE_PAUSED = ''Paused''"

text \<open>Counting into an object: a new key goes to the end, an old one keeps its place.\<close>

fun count_key :: "'k \<Rightarrow> ('k \<times> nat) list \<Rightarrow> ('k \<times> nat) list" where
  "count_key k [] = [(k, 1)]"
| "count_key k ((j, n) # rest) = (if j = k then (j, n + 1) # rest else (j, n) # count_key k rest)"

definition tally :: "('a \<Rightarrow> 'k) \<Rightarrow> 'a list \<Rightarrow> ('k \<times> nat) list" where
  "tally key xs = foldl (\<lambda>acc x. count_key (key x) acc) [] xs"

definition row_phase :: "loop_list_item \<Rightarrow> loop_phase" where
  "row_phase item = case_option PHASE_0_INTAKE st_phase (li_state item)"

definition phase_distribution :: "loop_list_item list \<Rightarrow> (string \<times> string \<times> nat) list" where
  "phase_distribution items = map (\<lambda>(p, n). (phase_str p, phase_label p, n)) (tally row_phase items)"

subsection \<open>Next action\<close>

definition finalized_state :: "loop_state_item \<Rightarrow> bool" where
  "finalized_state st \<longleftrightarrow> st_finalized st = Some True"

definition resolveNextAction :: "loop_list_item \<Rightarrow> next_action \<times> string \<times> action_category" where
  "resolveNextAction item = (case li_state item of
     None \<Rightarrow> (ACT_GENERATE_SPEC, ''Continue loop'', CATEGORY_CONTINUE)
   | Some st \<Rightarrow>
      if st_paused st then (ACT_RUN_STEP, ''Continue loop'', CATEGORY_EXCEPTION)
      else if st_specVersion st = ''v0'' then (ACT_GENERATE_SPEC, ''Continue loop'', CATEGORY_CONTINUE)
      else if st_phase st = PHASE_2_REVIEW then (ACT_REVIEW_SPEC, ''Review spec'', CATEGORY_DECISION)
      else if st_phase st = PHASE_3_DECOMPOSE then (ACT_DECOMPOSE, ''Continue loop'', CATEGORY_CONTINUE)
      else if st_phase st = PHASE_6_CONVERGE then (ACT_GLOBAL_REVIEW, ''Continue loop'', CATEGORY_CONTINUE)
      else if st_globalVerdict st \<noteq> None \<and> st_globalVerdict st \<noteq> Some PASS
      then (ACT_RELOOP, ''Start re-loop'', CATEGORY_DECISION)
      else if st_globalVerdict st = Some PASS \<and> \<not> finalized_state st
      then (ACT_FINALIZE, ''Continue loop'', CATEGORY_CONTINUE)
      else if i_status (li_issue item) = ISSUE_CLOSED \<or> st_phase st = PHASE_CLOSED \<or> finalized_state st
      then (ACT_CLOSED, ''Closed'', CATEGORY_DONE)
      else (ACT_RUN_STEP, ''Continue loop'', CATEGORY_CONTINUE))"

definition href_of :: "loop_list_item \<Rightarrow> string" where
  "href_of item = ''/loops/'' @ i_id (li_issue item)"

definition action_item :: "loop_list_item \<Rightarrow> metrics_action_item" where
  "action_item item = (case resolveNextAction item of (act, label, category) \<Rightarrow>
     \<lparr>ma_issueId = i_id (li_issue item), ma_title = i_title (li_issue item), ma_action = act,
      ma_category = category, ma_label = label, ma_priority = i_priority (li_issue item),
      ma_phase = map_option st_phase (li_state item), ma_href = href_of item\<rparr>)"

definition buildActionQueue :: "loop_list_item list \<Rightarrow> metrics_action_item list" where
  "buildActionQueue items = take 10 (filter (\<lambda>a. ma_action a \<noteq> ACT_CLOSED) (map action_item items))"

subsection \<open>Risks\<close>

definition risk_item :: "loop_list_item \<Rightarrow> metrics_level \<Rightarrow> string \<Rightarrow> metrics_risk_item" where
  "risk_item item level reason = \<lparr>mr_issueId = i_id (li_issue item), mr_title = i_title (li_issue item),
     mr_level = level, mr_reason = reason, mr_phase = map_option st_phase (li_state item),
     mr_priority = i_priority (li_issue item), mr_status = i_status (li_issue item), mr_href = href_of item\<rparr>"

definition row_paused :: "loop_list_item \<Rightarrow> bool" where
  "row_paused item \<longleftrightarrow> (case li_state item of None \<Rightarrow> False | Some st \<Rightarrow> st_paused st)"

definition row_verdict :: "loop_list_item \<Rightarrow> loop_verdict option" where
  "row_verdict item = Option.bind (li_state item) st_globalVerdict"

text \<open>The maps keep the last entry of an id.\<close>

definition cost_for :: "loop_cost_item list \<Rightarrow> string \<Rightarrow> loop_cost_item option" where
  "cost_for costs i = List.find (\<lambda>c. ci_issueId c = i) (rev costs)"

definition coverage_for ::
    "loop_list_item list \<Rightarrow> loop_requirement_coverage_summary list \<Rightarrow> string
     \<Rightarrow> loop_requirement_coverage_summary option" where
  "coverage_for items summaries i =
     map_of (rev (zip (map (\<lambda>x. i_id (li_issue x)) items) summaries)) i"

definition risks_of ::
    "(int \<Rightarrow> string) \<Rightarrow> loop_cost_item option \<Rightarrow> loop_requirement_coverage_summary option \<Rightarrow> loop_list_item
     \<Rightarrow> metrics_risk_item list" where
  "risks_of num cost coverage item =
     (if row_paused item then [risk_item item LEVEL_CRITICAL ''Paused''] else [])
     @ (case cost of Some c \<Rightarrow> if ci_tripped c then [risk_item item LEVEL_CRITICAL ''Cost guard tripped''] else []
        | None \<Rightarrow> [])
     @ (case coverage of
          Some s \<Rightarrow> if rs_total s > 0 \<and> rs_percent s < 100
            then [risk_item item (if rs_missing s > 0 then LEVEL_CRITICAL else LEVEL_WARNING)
              (''Requirements coverage '' @ num (rs_percent s) @ ''%'')] else []
        | None \<Rightarrow> [])
     @ (case row_verdict item of
          Some v \<Rightarrow> if v \<noteq> PASS
            then [risk_item item (if v = FAIL then LEVEL_CRITICAL else LEVEL_WARNING)
              (''Global '' @ verdict_str v)] else []
        | None \<Rightarrow> [])
     @ (if i_priority (li_issue item) = P0 \<or> i_priority (li_issue item) = P1
        then [risk_item item (if i_priority (li_issue item) = P0 then LEVEL_CRITICAL else LEVEL_WARNING)
          (priority_str (i_priority (li_issue item)) @ '' priority'')] else [])"

definition all_risks ::
    "(int \<Rightarrow> string) \<Rightarrow> loop_list_item list \<Rightarrow> loop_cost_item list
     \<Rightarrow> loop_requirement_coverage_summary list \<Rightarrow> metrics_risk_item list" where
  "all_risks num items costs summaries = concat (map (\<lambda>item.
     risks_of num (cost_for costs (i_id (li_issue item))) (coverage_for items summaries (i_id (li_issue item))) item)
     items)"

definition buildRiskQueue ::
    "(int \<Rightarrow> string) \<Rightarrow> loop_list_item list \<Rightarrow> loop_cost_item list
     \<Rightarrow> loop_requirement_coverage_summary list \<Rightarrow> metrics_risk_item list" where
  "buildRiskQueue num items costs summaries = take 10 (all_risks num items costs summaries)"

subsection \<open>Trace and resume summaries\<close>

text \<open>\<open>sort((a, b) => b.count - a.count || a.type.localeCompare(b.type))\<close>, a stable insertion sort.\<close>

definition event_before :: "(string \<Rightarrow> string \<Rightarrow> bool) \<Rightarrow> string \<times> nat \<Rightarrow> string \<times> nat \<Rightarrow> bool" where
  "event_before lc a b \<longleftrightarrow> snd b < snd a \<or> snd b = snd a \<and> lc (fst a) (fst b)"

fun insert_event :: "(string \<Rightarrow> string \<Rightarrow> bool) \<Rightarrow> string \<times> nat \<Rightarrow> (string \<times> nat) list \<Rightarrow> (string \<times> nat) list" where
  "insert_event lc e [] = [e]"
| "insert_event lc e (x # xs) = (if event_before lc e x then e # x # xs else x # insert_event lc e xs)"

definition sort_events :: "(string \<Rightarrow> string \<Rightarrow> bool) \<Rightarrow> (string \<times> nat) list \<Rightarrow> (string \<times> nat) list" where
  "sort_events lc es = foldr (insert_event lc) es []"

definition buildTraceSummary :: "(string \<Rightarrow> string \<Rightarrow> bool) \<Rightarrow> loop_log_entry list \<Rightarrow> trace_summary" where
  "buildTraceSummary lc logs = \<lparr>ts_total = length logs, ts_recent = length (take 20 logs),
     ts_lastEventAt = (case logs of [] \<Rightarrow> None | e # _ \<Rightarrow> Some (le_ts e)),
     ts_eventTypes = take 8 (sort_events lc (tally le_type logs))\<rparr>"

definition resumable :: "loop_list_item \<Rightarrow> bool" where
  "resumable item \<longleftrightarrow> (case li_state item of None \<Rightarrow> False
     | Some st \<Rightarrow> st_paused st \<or> st_phase st = PHASE_PAUSED \<or> st_shardsInProgress st > 0)"

definition buildResumeSummary :: "loop_list_item list \<Rightarrow> resume_summary" where
  "buildResumeSummary items = \<lparr>
     rsm_resumableShards = sum_list (map (\<lambda>x. case_option 0 st_shardsInProgress (li_state x)) items),
     rsm_affectedIssues = length (js_set (map (\<lambda>x. i_id (li_issue x)) (filter resumable items)))\<rparr>"

subsection \<open>Metrics\<close>

definition row_status :: "loop_list_item \<Rightarrow> loop_issue_status" where
  "row_status item = i_status (li_issue item)"

definition shown_paused :: "loop_list_item \<Rightarrow> bool" where
  "shown_paused item \<longleftrightarrow> row_paused item \<or> map_option st_phase (li_state item) = Some PHASE_PAUSED"

definition attention_count ::
    "loop_list_item list \<Rightarrow> loop_cost_item list \<Rightarrow> loop_requirement_coverage_summary list \<Rightarrow> nat" where
  "attention_count items costs summaries = count_where shown_paused items + count_where ci_tripped costs
     + count_where (\<lambda>x. i_priority (li_issue x) = P0 \<or> row_verdict x = Some FAIL) items
     + count_where (\<lambda>s. rs_missing s > 0 \<or> rs_percent s < 100) summaries"

definition min_or_zero :: "rat list \<Rightarrow> rat" where
  "min_or_zero xs = (case xs of [] \<Rightarrow> 0 | y # ys \<Rightarrow> foldl min y ys)"

definition metrics ::
    "(int \<Rightarrow> string) \<Rightarrow> (string \<Rightarrow> string \<Rightarrow> bool) \<Rightarrow> list_response \<Rightarrow> loop_cost_item list
     \<Rightarrow> loop_log_entry list \<Rightarrow> loop_requirement_coverage_summary list \<Rightarrow> loop_metrics" where
  "metrics num lc lr costs logs summaries = (let items = lr_list lr in \<lparr>
     mt_summary = \<lparr>ms_total = lr_total lr,
       ms_active = count_where (\<lambda>x. row_status x \<notin> {ISSUE_CLOSED, ISSUE_ARCHIVED, ISSUE_REJECTED}) items,
       ms_inLoop = count_where (\<lambda>x. row_status x = ISSUE_IN_LOOP) items,
       ms_paused = count_where shown_paused items,
       ms_attention = attention_count items costs summaries,
       ms_closed = count_where (\<lambda>x. row_status x = ISSUE_CLOSED) items\<rparr>,
     mt_phaseDistribution = phase_distribution items,
     mt_costSummary = \<lparr>cs_loops = length costs, cs_tripped = count_where ci_tripped costs,
       cs_totalCalls = sum_list (map ci_costCalls costs), cs_totalTokens = sum_list (map ci_costTokens costs),
       cs_minCallsRemaining = min_or_zero (map ci_callsRemaining costs),
       cs_minTokensRemaining = min_or_zero (map ci_tokensRemaining costs)\<rparr>,
     mt_riskQueue = buildRiskQueue num items costs summaries,
     mt_actionQueue = buildActionQueue items,
     mt_coverage = aggregateCoverageSummaries summaries,
     mt_trace = buildTraceSummary lc logs,
     mt_resume = buildResumeSummary items\<rparr>)"

end
