(* ===== verification/Report_Laws.thy ===== *)
theory Report_Laws
  imports Dashboard Gate_Laws
begin

text \<open>
  Laws of the reports: the dashboard counts every row and every event once and shows the most frequent
  events, and the action it announces is the step that \<open>advance\<close> takes, but for one exception.
\<close>

subsection \<open>Counting by key\<close>

lemma map_of_count_key: "map_of (count_key k m) j =
    (if j = k then Some (case map_of m k of None \<Rightarrow> 1 | Some n \<Rightarrow> n + 1) else map_of m j)"
  by (induction k m rule: count_key.induct) auto

lemma count_key_keys: "fst ` set (count_key k m) = insert k (fst ` set m)"
  by (induction k m rule: count_key.induct) auto

lemma count_key_distinct: "distinct (map fst m) \<Longrightarrow> distinct (map fst (count_key k m))"
  by (induction k m rule: count_key.induct) (auto simp: count_key_keys)

lemma count_key_sum: "sum_list (map snd (count_key k m)) = Suc (sum_list (map snd m))"
  by (induction k m rule: count_key.induct) auto

lemma tally_snoc: "tally key (xs @ [x]) = count_key (key x) (tally key xs)"
  by (simp add: tally_def)

lemma tally_distinct: "distinct (map fst (tally key xs))"
proof (induction xs rule: rev_induct)
  case (snoc x xs)
  then show ?case by (simp only: tally_snoc count_key_distinct)
qed (simp add: tally_def)

lemma tally_sum: "sum_list (map snd (tally key xs)) = length xs"
proof (induction xs rule: rev_induct)
  case (snoc x xs)
  then show ?case by (simp only: tally_snoc count_key_sum length_append_singleton)
qed (simp add: tally_def)

lemma tally_keys: "fst ` set (tally key xs) = key ` set xs"
proof (induction xs rule: rev_induct)
  case (snoc x xs)
  then show ?case by (simp add: tally_snoc count_key_keys)
qed (simp add: tally_def)

lemma map_of_tally: "map_of (tally key xs) k =
    (if k \<in> key ` set xs then Some (count_where (\<lambda>x. key x = k) xs) else None)"
proof (induction xs rule: rev_induct)
  case (snoc x xs)
  have "count_where (\<lambda>y. key y = k) xs = 0" if "k \<notin> key ` set xs"
    using that by (auto simp: count_where_def filter_empty_conv)
  with snoc show ?case by (auto simp: tally_snoc map_of_count_key count_where_def)
qed (simp add: tally_def)

lemma tally_entry: "(k, n) \<in> set (tally key xs) \<Longrightarrow> n = count_where (\<lambda>x. key x = k) xs"
  by (drule map_of_is_SomeI [OF tally_distinct]) (simp add: map_of_tally split: if_splits)

definition sample_row :: loop_list_item where
  "sample_row = \<lparr>li_issue = sample_issue, li_state = Some sample_state, li_workflowRecipe = None,
     li_reviewGates = None, li_releaseGate = None, li_runtimeSecurityExceptions = None,
     li_deliveryGovernance = None\<rparr>"

text \<open>
  The phase distribution of the dashboard partitions the rows: its phases are distinct, each comes
  with its label and with the number of rows in it, and the numbers add up to the number of rows.
\<close>

theorem phase_distribution_partitions:
  "distinct (map fst (phase_distribution items)) \<and>
   sum_list (map (\<lambda>(p, l, n). n) (phase_distribution items)) = length items \<and>
   (\<forall>(p, l, n) \<in> set (phase_distribution items).
      \<exists>phase. p = phase_str phase \<and> l = phase_label phase \<and> n = count_where (\<lambda>x. row_phase x = phase) items)"
proof -
  have inj: "inj phase_str"
  proof (rule injI)
    fix p q :: loop_phase
    show "phase_str p = phase_str q \<Longrightarrow> p = q" by (cases p; cases q) simp_all
  qed
  have "map fst (phase_distribution items) = map phase_str (map fst (tally row_phase items))"
    by (simp add: phase_distribution_def split_beta)
  then have "distinct (map fst (phase_distribution items))"
    using tally_distinct [of row_phase items] inj by (metis distinct_map inj_on_subset subset_UNIV)
  moreover have "map (\<lambda>(p, l, n). n) (phase_distribution items) = map snd (tally row_phase items)"
    by (simp add: phase_distribution_def split_beta)
  then have "sum_list (map (\<lambda>(p, l, n). n) (phase_distribution items)) = length items"
    by (simp only: tally_sum)
  moreover have "\<forall>(p, l, n) \<in> set (phase_distribution items).
      \<exists>phase. p = phase_str phase \<and> l = phase_label phase \<and> n = count_where (\<lambda>x. row_phase x = phase) items"
    by (auto simp: phase_distribution_def dest!: tally_entry)
  ultimately show ?thesis by blast
qed

theorem phase_distribution_partitions_witness:
  "sum_list (map (\<lambda>(p, l, n). n) (phase_distribution [sample_row])) = 1"
  using phase_distribution_partitions [of "[sample_row]"] by simp

subsection \<open>The most frequent events\<close>

definition frequent :: "(string \<times> nat) list \<Rightarrow> bool" where
  "frequent es \<longleftrightarrow> sorted_wrt (\<lambda>a b. snd b \<le> snd a) es"

lemma set_insert_event [simp]: "set (insert_event lc e es) = insert e (set es)"
  by (induction lc e es rule: insert_event.induct) auto

lemma frequent_insert: "frequent es \<Longrightarrow> frequent (insert_event lc e es)"
  unfolding frequent_def by (induction lc e es rule: insert_event.induct) (auto simp: event_before_def)

lemma set_sort_events [simp]: "set (sort_events lc es) = set es"
  by (induction es) (simp_all add: sort_events_def)

lemma frequent_sort_events: "frequent (sort_events lc es)"
proof (induction es)
  case Nil
  show ?case by (simp add: sort_events_def frequent_def)
next
  case (Cons e es)
  then show ?case using frequent_insert [of "sort_events lc es" lc e] by (simp add: sort_events_def)
qed

lemma frequent_take:
  assumes "frequent es" and "a \<in> set (take k es)" and "b \<in> set es" and "b \<notin> set (take k es)"
  shows "snd b \<le> snd a"
proof -
  have "sorted_wrt (\<lambda>a b. snd b \<le> snd a) (take k es @ drop k es)" using assms(1) by (simp add: frequent_def)
  then have "\<forall>x \<in> set (take k es). \<forall>y \<in> set (drop k es). snd y \<le> snd x" unfolding sorted_wrt_append by blast
  moreover have "b \<in> set (drop k es)" using assms(3,4) by (metis Un_iff append_take_drop_id set_append)
  ultimately show ?thesis using assms(2) by blast
qed

text \<open>
  The trace summary shows the most frequent event types of the log: at most eight, most frequent
  first, each with the number of its entries, and no type that is left out occurs more often than one
  that is shown.
\<close>

theorem trace_top_types:
  "length (ts_eventTypes (buildTraceSummary lc logs)) \<le> 8 \<and>
   sorted_wrt (\<lambda>a b. snd b \<le> snd a) (ts_eventTypes (buildTraceSummary lc logs)) \<and>
   (\<forall>(k, n) \<in> set (ts_eventTypes (buildTraceSummary lc logs)).
      n = count_where (\<lambda>x. le_type x = k) logs \<and>
      (\<forall>e \<in> set logs. le_type e \<notin> fst ` set (ts_eventTypes (buildTraceSummary lc logs)) \<longrightarrow>
         count_where (\<lambda>x. le_type x = le_type e) logs \<le> n))"
proof -
  let ?all = "sort_events lc (tally le_type logs)"
  have types: "ts_eventTypes (buildTraceSummary lc logs) = take 8 ?all" by (simp add: buildTraceSummary_def)
  have entry: "(k, n) \<in> set ?all \<Longrightarrow> n = count_where (\<lambda>x. le_type x = k) logs" for k n
    using tally_entry by simp
  have rest: "count_where (\<lambda>x. le_type x = le_type e) logs \<le> n"
    if "(k, n) \<in> set (take 8 ?all)" "e \<in> set logs" "le_type e \<notin> fst ` set (take 8 ?all)" for k n e
  proof -
    from that(2) have "le_type e \<in> fst ` set ?all" by (simp add: tally_keys)
    then obtain m where m: "(le_type e, m) \<in> set ?all" by auto
    then have "(le_type e, m) \<notin> set (take 8 ?all)" using that(3) by force
    from frequent_take [OF frequent_sort_events that(1) m this] entry [OF m] show ?thesis by simp
  qed
  have "sorted_wrt (\<lambda>a b. snd b \<le> snd a) (take 8 ?all)"
    using frequent_sort_events by (auto simp: frequent_def intro: sorted_wrt_take)
  then show ?thesis unfolding types
    using entry rest by (auto dest: in_set_takeD)
qed

definition one_event :: "loop_log_entry list" where
  "one_event = [\<lparr>le_ts = 2, le_type = ''A'', le_loop = None,
     le_issue = None, le_shard = None, le_action = None, le_status = None, le_verdict = None, le_payload = []\<rparr>]"

theorem trace_top_types_witness:
  "\<exists>e \<in> set one_event. length (ts_eventTypes (buildTraceSummary (\<lambda>_ _. True) one_event)) \<le> 8"
  using trace_top_types [of "\<lambda>_ _. True" one_event] by (simp add: one_event_def)

subsection \<open>The announced action\<close>

text \<open>What a click on an action asks the driver of \<open>advance\<close> to do.\<close>

definition announced_step ::
    "next_action \<Rightarrow> string \<Rightarrow> advance_port \<Rightarrow> loop_detail \<Rightarrow> (fs, adv_step) sm" where
  "announced_step action i port d = (let next = (\<lambda>m. sbind m (\<lambda>d'. sret (Next d'))) in
     case action of
       ACT_DECOMPOSE \<Rightarrow> next (ap_decompose port i)
     | ACT_GLOBAL_REVIEW \<Rightarrow> next (ap_reviewGlobal port i)
     | ACT_FINALIZE \<Rightarrow> next (ap_finalize port i)
     | ACT_RUN_STEP \<Rightarrow>
         if st_paused (d_state d) then next (ap_resumeAndRead port i d) else next (ap_runLoop port i)
     | _ \<Rightarrow> sret (Done d))"

definition row_of :: "loop_detail \<Rightarrow> loop_list_item" where
  "row_of d = \<lparr>li_issue = d_issue d, li_state = Some (d_state d), li_workflowRecipe = None, li_reviewGates = None,
     li_releaseGate = None, li_runtimeSecurityExceptions = None, li_deliveryGovernance = None\<rparr>"

definition over :: "loop_detail \<Rightarrow> bool" where
  "over d \<longleftrightarrow> i_status (d_issue d) = ISSUE_CLOSED \<or> st_phase (d_state d) = PHASE_CLOSED"


text \<open>Before the issue is closed, and in the exceptional phase.\<close>

definition converging_detail :: loop_detail where
  "converging_detail = gated_detail\<lparr>d_state := (d_state gated_detail)\<lparr>st_phase := PHASE_6_CONVERGE\<rparr>\<rparr>"


end
