(* ===== verification/Evals.thy ===== *)
theory Evals
  imports Gates Issues
begin

text \<open>
  \<open>loops-eval/loops-eval.service.ts\<close>: the evaluation suites over the loops of a list, the runs of a
  suite per loop with their baselines, and the bench metrics; and the trend history that
  \<open>loops-file-store.service.ts\<close> keeps of them.

  \<open>Math.round\<close> of a quotient is exact here. \<open>iso_of\<close> prints a time, \<open>t\<close> is the time an operation reads.
\<close>

subsection \<open>Data\<close>

datatype eval_status = EVAL_PASSED | EVAL_ATTENTION | EVAL_BLOCKED

datatype eval_category = EC_ARCHITECTURE | EC_DELIVERY | EC_RUNTIME | EC_TEST | EC_COST

datatype eval_scope = ES_WORKSPACE | ES_BLUEPRINT | ES_AGENT | ES_RUNTIME | ES_TOOL | ES_DELIVERY

record eval_check =
  ec_id :: string
  ec_label :: string
  ec_category :: eval_category
  ec_hardGate :: bool
  ec_status :: eval_status
  ec_evidence :: string
  ec_passCount :: nat
  ec_failCount :: nat
  ec_blockedCount :: nat

record eval_suite =
  es_id :: string
  es_name :: string
  es_scope :: eval_scope
  es_version :: nat
  es_capturedAt :: timestamp
  es_checks :: "eval_check list"
  es_total :: nat
  es_passed :: nat
  es_attention :: nat
  es_blocked :: nat
  es_passRate :: int

record eval_evidence =
  ee_list :: "loop_list_item list"
  ee_details :: "string \<Rightarrow> loop_detail option"
  ee_costs :: "string \<Rightarrow> loop_cost_item option"

record eval_run =
  er_id :: string
  er_suiteId :: string
  er_loopId :: string
  er_blueprintId :: string
  er_baselineVersion :: "string option"
  er_baselineScore :: "int option"
  er_status :: eval_status
  er_score :: int
  er_checkResults :: "eval_check list"
  er_evidenceRefs :: "string list"
  er_trendDelta :: "int option"
  er_runAt :: timestamp

record eval_baseline =
  eb_id :: string
  eb_suiteId :: string
  eb_blueprintId :: string
  eb_baselineVersion :: string
  eb_capturedAt :: timestamp
  eb_runCount :: nat
  eb_averageScore :: int
  eb_passRate :: int
  eb_previousAverageScore :: "int option"
  eb_trendDelta :: "int option"

record bench_metrics =
  bm_firstPassReviewRate :: int
  bm_browserQaRegressionRate :: int
  bm_secondOpinionConflictRate :: int
  bm_releaseBlockerRate :: int
  bm_runtimeViolationRate :: int
  bm_learningReuseRate :: int
  bm_canaryPassRate :: int

record bench_snapshot =
  bn_id :: string
  bn_capturedAt :: timestamp
  bn_loopCount :: nat
  bn_metrics :: bench_metrics
  bn_previousMetrics :: "bench_metrics option"
  bn_deltas :: "bench_metrics option"

subsection \<open>Suites\<close>

text \<open>The checks of a blueprint: they have no counts yet.\<close>

definition blueprint_check :: "eval_category \<Rightarrow> string \<Rightarrow> string \<Rightarrow> bool \<Rightarrow> string \<Rightarrow> eval_check" where
  "blueprint_check category ident label hard evidence = \<lparr>ec_id = ident, ec_label = label, ec_category = category,
     ec_hardGate = hard, ec_status = EVAL_ATTENTION, ec_evidence = evidence, ec_passCount = 0,
     ec_failCount = 0, ec_blockedCount = 0\<rparr>"

definition blueprint_suite :: "string \<Rightarrow> string \<Rightarrow> eval_scope \<Rightarrow> eval_check list \<Rightarrow> eval_suite" where
  "blueprint_suite ident name scope checks = \<lparr>es_id = ident, es_name = name, es_scope = scope, es_version = 1,
     es_capturedAt = 0, es_checks = checks, es_total = 0, es_passed = 0, es_attention = 0, es_blocked = 0,
     es_passRate = 0\<rparr>"

definition evalSuiteBlueprints :: "eval_suite list" where
  "evalSuiteBlueprints =
    [blueprint_suite ''architecture-compliance'' ''Architecture Compliance'' ES_WORKSPACE
      [blueprint_check EC_ARCHITECTURE ''db-service-layer'' ''DB access only in DB Service'' True
         ''Derived from cross-loop review'',
       blueprint_check EC_ARCHITECTURE ''zod-contract'' ''Zod-first contract validation'' True
         ''Contracts exist for all API endpoints'',
       blueprint_check EC_ARCHITECTURE ''client-layer'' ''External API via Client layer'' True
         ''Client imports verified'',
       blueprint_check EC_ARCHITECTURE ''winston-logger'' ''Winston Logger (no console.log)'' True
         ''Logger injection verified''],
     blueprint_suite ''delivery-readiness'' ''Delivery Readiness'' ES_DELIVERY
      [blueprint_check EC_DELIVERY ''spec-approved'' ''Spec approved'' True ''Spec status per loop'',
       blueprint_check EC_DELIVERY ''global-review-pass'' ''Global review pass'' True ''Global verdict per loop'',
       blueprint_check EC_DELIVERY ''pr-evidence'' ''PR evidence present'' True ''Convergence PR status''],
     blueprint_suite ''runtime-safety'' ''Runtime Safety'' ES_RUNTIME
      [blueprint_check EC_RUNTIME ''path-policy'' ''Path policy enforced'' True ''Path policy snapshots'',
       blueprint_check EC_RUNTIME ''network-policy'' ''Network policy'' True ''Network strategy per workspace'',
       blueprint_check EC_RUNTIME ''secret-canary'' ''Secret canary detection'' True
         ''Canary status per test record''],
     blueprint_suite ''test-evidence'' ''Test Evidence'' ES_DELIVERY
      [blueprint_check EC_TEST ''test-command-pass'' ''Required tests pass'' True ''Test records per loop'',
       blueprint_check EC_TEST ''failure-classified'' ''Failure reason classified'' False
         ''Test record fix instructions'',
       blueprint_check EC_TEST ''coverage-exists'' ''Coverage reported'' False ''Coverage data per test record''],
     blueprint_suite ''cost-policy'' ''Cost Policy'' ES_AGENT
      [blueprint_check EC_COST ''token-budget'' ''Token budget not exceeded'' True ''Cost guard state'',
       blueprint_check EC_COST ''call-budget'' ''Call budget not exceeded'' True ''Cost guard state'',
       blueprint_check EC_COST ''time-budget'' ''Time budget not exceeded'' False
         ''Not yet tracked per-loop'']]"

subsection \<open>Checks\<close>

definition list_verdict :: "loop_list_item \<Rightarrow> loop_verdict option" where
  "list_verdict item = Option.bind (li_state item) st_globalVerdict"

definition tests_of :: "loop_detail option \<Rightarrow> loop_test_record list" where
  "tests_of detail = case_option [] d_testRecords detail"

definition policy_where :: "(runtime_security_policy \<Rightarrow> bool) \<Rightarrow> loop_test_record list \<Rightarrow> bool" where
  "policy_where P records \<longleftrightarrow>
     list_ex (\<lambda>r. case tr_runtimeSecurityPolicy r of None \<Rightarrow> False | Some p \<Rightarrow> P p) records"

definition pass_or :: "bool \<Rightarrow> bool \<Rightarrow> eval_status" where
  "pass_or passes blocks = (if passes then EVAL_PASSED else if blocks then EVAL_BLOCKED else EVAL_ATTENTION)"

definition budget_status :: "(loop_cost_item \<Rightarrow> rat) \<Rightarrow> loop_cost_item option \<Rightarrow> eval_status" where
  "budget_status remaining cost = (case cost of None \<Rightarrow> EVAL_ATTENTION
     | Some c \<Rightarrow> if remaining c < 0 \<or> ci_tripped c then EVAL_BLOCKED else EVAL_PASSED)"

definition spec_is_approved :: "loop_detail option \<Rightarrow> bool" where
  "spec_is_approved detail \<longleftrightarrow>
     map_option sp_status (Option.bind detail d_spec) = Some SPEC_APPROVED"

definition pr_is_out :: "loop_detail option \<Rightarrow> bool" where
  "pr_is_out detail \<longleftrightarrow>
     map_option cp_status (Option.bind detail d_convergencePr) \<in> {Some PR_OPENED, Some PR_PUSHED}"

text \<open>The write policy that the runner records always has the scope \<open>target-repo\<close>.\<close>

definition evaluateEvalCheck :: "string \<Rightarrow> loop_list_item \<Rightarrow> eval_evidence \<Rightarrow> eval_status" where
  "evaluateEvalCheck checkId item evidence =
     (let detail = ee_details evidence (i_id (li_issue item));
          cost = ee_costs evidence (i_id (li_issue item));
          records = tests_of detail; failed = (list_verdict item = Some FAIL) in
      if checkId \<in> {''db-service-layer'', ''zod-contract'', ''client-layer'', ''winston-logger''}
      then pass_or False failed
      else if checkId = ''spec-approved''
      then pass_or (spec_is_approved detail) (i_status (li_issue item) = ISSUE_REJECTED)
      else if checkId = ''global-review-pass'' then pass_or (list_verdict item = Some PASS) failed
      else if checkId = ''pr-evidence'' then pass_or (pr_is_out detail) failed
      else if checkId = ''path-policy''
      then pass_or (policy_where (\<lambda>_. True) records)
        (case li_state item of None \<Rightarrow> False | Some st \<Rightarrow> st_paused st)
      else if checkId = ''network-policy''
      then pass_or (policy_where (\<lambda>p. rsp_networkStatus p = NET_BLOCKED) records)
        (policy_where (\<lambda>p. rsp_networkStatus p = NET_ALLOWED_BY_OVERRIDE) records)
      else if checkId = ''secret-canary''
      then (if policy_where (\<lambda>p. rsp_canaryStatus p = CANARY_LEAKED) records then EVAL_BLOCKED
        else if policy_where (\<lambda>p. rsp_canaryStatus p = CANARY_ARMED) records then EVAL_PASSED
        else EVAL_ATTENTION)
      else if checkId = ''test-command-pass''
      then (if records = [] then EVAL_ATTENTION
        else pass_or (list_all (\<lambda>r. tr_status r = TEST_PASS) records)
          (list_ex (\<lambda>r. tr_status r = TEST_FAIL) records))
      else if checkId = ''failure-classified''
      then (if records = [] then EVAL_ATTENTION
        else if list_ex (\<lambda>r. tr_status r = TEST_FAIL \<and> tr_fixInstructions r = []) records
        then EVAL_BLOCKED else EVAL_PASSED)
      else if checkId = ''coverage-exists''
      then pass_or (list_ex (\<lambda>r. tr_coverage r \<noteq> None) records) False
      else if checkId = ''token-budget'' then budget_status ci_tokensRemaining cost
      else if checkId = ''call-budget'' then budget_status ci_callsRemaining cost
      else if checkId = ''time-budget''
      then pass_or (list_ex (\<lambda>r. ir_durationSec r \<noteq> None) (case_option [] d_implementationRecords detail)) False
      else EVAL_ATTENTION)"

definition evalAggregateStatus :: "nat \<Rightarrow> nat \<Rightarrow> nat \<Rightarrow> eval_status" where
  "evalAggregateStatus passCount failCount blockedCount =
     (if blockedCount > 0 then EVAL_BLOCKED
      else if passCount > 0 \<and> failCount = 0 then EVAL_PASSED else EVAL_ATTENTION)"

definition js_round :: "rat \<Rightarrow> int" where
  "js_round x = \<lfloor>x + 1 / 2\<rfloor>"

definition percent :: "nat \<Rightarrow> nat \<Rightarrow> int" where
  "percent numerator denominator = (if denominator > 0
     then js_round (of_nat numerator / of_nat denominator * 100) else 0)"

definition checked :: "eval_evidence \<Rightarrow> eval_check \<Rightarrow> eval_check" where
  "checked evidence check =
     (let results = map (\<lambda>item. evaluateEvalCheck (ec_id check) item evidence) (ee_list evidence);
          p = count_where (\<lambda>s. s = EVAL_PASSED) results;
          a = count_where (\<lambda>s. s = EVAL_ATTENTION) results;
          b = count_where (\<lambda>s. s = EVAL_BLOCKED) results in
      check\<lparr>ec_status := evalAggregateStatus p a b, ec_passCount := p, ec_failCount := a,
        ec_blockedCount := b\<rparr>)"

definition checks_with :: "eval_status \<Rightarrow> eval_check list \<Rightarrow> nat" where
  "checks_with s checks = count_where (\<lambda>c. ec_status c = s) checks"

definition materializeEvalSuite :: "eval_suite \<Rightarrow> eval_evidence \<Rightarrow> timestamp \<Rightarrow> eval_suite" where
  "materializeEvalSuite suite evidence capturedAt =
     (let checks = map (checked evidence) (es_checks suite) in
      suite\<lparr>es_capturedAt := capturedAt, es_checks := checks, es_total := length checks,
        es_passed := checks_with EVAL_PASSED checks, es_attention := checks_with EVAL_ATTENTION checks,
        es_blocked := checks_with EVAL_BLOCKED checks,
        es_passRate := percent (checks_with EVAL_PASSED checks) (length checks)\<rparr>)"

definition buildEvalSuites :: "eval_evidence \<Rightarrow> timestamp \<Rightarrow> eval_suite list" where
  "buildEvalSuites evidence t = map (\<lambda>s. materializeEvalSuite s evidence t) evalSuiteBlueprints"

subsection \<open>Baselines\<close>

definition latestEvalBaseline :: "eval_baseline list \<Rightarrow> string \<Rightarrow> string \<Rightarrow> eval_baseline option" where
  "latestEvalBaseline history suiteId blueprintId =
     (case sort_desc eb_capturedAt
        (filter (\<lambda>b. eb_suiteId b = suiteId \<and> eb_blueprintId b = blueprintId) history) of
        [] \<Rightarrow> None | b # _ \<Rightarrow> Some b)"

text \<open>\<open>replace(/[^a-zA-Z0-9-]+/g, '-').replace(/^-+|-+$/g, '') || 'default'\<close>.\<close>

definition id_char :: "char \<Rightarrow> bool" where
  "id_char c \<longleftrightarrow> (let n = (of_char c :: nat) in
     48 \<le> n \<and> n \<le> 57 \<or> 65 \<le> n \<and> n \<le> 90 \<or> 97 \<le> n \<and> n \<le> 122 \<or> c = CHR ''-'')"

fun dash_runs :: "bool \<Rightarrow> string \<Rightarrow> string" where
  "dash_runs inrun [] = []"
| "dash_runs inrun (c # cs) = (if id_char c then c # dash_runs False cs
     else if inrun then dash_runs True cs else CHR ''-'' # dash_runs True cs)"

definition safeId :: "string \<Rightarrow> string" where
  "safeId value0 = (let s = dropWhile (\<lambda>c. c = CHR ''-'') (dash_runs False value0);
       r = rev (dropWhile (\<lambda>c. c = CHR ''-'') (rev s)) in if r = [] then ''default'' else r)"

definition evalBaselineVersion :: "(timestamp \<Rightarrow> string) \<Rightarrow> string \<Rightarrow> string \<Rightarrow> timestamp \<Rightarrow> string" where
  "evalBaselineVersion iso_of blueprintId suiteId t = safeId blueprintId @ '':'' @ suiteId @ '':'' @ iso_of t"

definition roundAverage :: "int list \<Rightarrow> int" where
  "roundAverage xs = (if xs = [] then 0 else js_round (of_int (sum_list xs) / of_nat (length xs)))"

subsection \<open>Runs\<close>

definition loop_kind_name :: "loop_list_item \<Rightarrow> string" where
  "loop_kind_name item = loop_kind_str (inferWorkflowKind (li_issue item))"

definition evalBlueprintId :: "loop_list_item \<Rightarrow> eval_evidence \<Rightarrow> string" where
  "evalBlueprintId item evidence =
     (case Option.bind (Option.bind (ee_details evidence (i_id (li_issue item))) d_workflowRecipe)
        (\<lambda>r. List.find (\<lambda>e. be_kind e = BASE_BLUEPRINT) (wr_baselineEvidence r)) of
        Some e \<Rightarrow> be_value e | None \<Rightarrow> loop_kind_name item)"

definition run_check :: "loop_list_item \<Rightarrow> eval_evidence \<Rightarrow> eval_check \<Rightarrow> eval_check" where
  "run_check item evidence check = (let s = evaluateEvalCheck (ec_id check) item evidence in
     check\<lparr>ec_status := s, ec_passCount := of_bool (s = EVAL_PASSED),
       ec_failCount := of_bool (s = EVAL_ATTENTION), ec_blockedCount := of_bool (s = EVAL_BLOCKED)\<rparr>)"

definition run_score :: "eval_check list \<Rightarrow> int" where
  "run_score checks =
     js_round (of_nat (checks_with EVAL_PASSED checks) / of_nat (max (length checks) 1) * 100)"

definition eval_run_of ::
    "eval_evidence \<Rightarrow> eval_baseline list \<Rightarrow> timestamp \<Rightarrow> loop_list_item \<Rightarrow> eval_suite \<Rightarrow> eval_run" where
  "eval_run_of evidence history t item suite =
     (let blueprintId = evalBlueprintId item evidence;
          baseline = latestEvalBaseline history (es_id suite) blueprintId;
          results = map (run_check item evidence) (es_checks suite);
          score = run_score results; i = i_id (li_issue item) in
      \<lparr>er_id = ''eval-run-'' @ es_id suite @ ''-'' @ i, er_suiteId = es_id suite, er_loopId = i,
       er_blueprintId = blueprintId, er_baselineVersion = map_option eb_baselineVersion baseline,
       er_baselineScore = map_option eb_averageScore baseline,
       er_status = (if checks_with EVAL_BLOCKED results > 0 then EVAL_BLOCKED
         else if score \<ge> 80 then EVAL_PASSED else EVAL_ATTENTION),
       er_score = score, er_checkResults = results,
       er_evidenceRefs = (if i \<noteq> [] then [''.loops/issues/'' @ i @ ''.json''] else []),
       er_trendDelta = map_option (\<lambda>b. score - eb_averageScore b) baseline, er_runAt = t\<rparr>)"

text \<open>An empty filter is none.\<close>

definition chosen :: "string option \<Rightarrow> string \<Rightarrow> bool" where
  "chosen q x \<longleftrightarrow> (case q of None \<Rightarrow> True | Some y \<Rightarrow> y = [] \<or> x = y)"

definition buildEvalRuns ::
    "eval_evidence \<Rightarrow> eval_suite list \<Rightarrow> string option \<Rightarrow> string option \<Rightarrow> eval_baseline list \<Rightarrow> timestamp
     \<Rightarrow> eval_run list" where
  "buildEvalRuns evidence suites suiteId loopId history t = concat (map (\<lambda>item.
     map (eval_run_of evidence history t item)
       (filter (\<lambda>s. chosen suiteId (es_id s) \<and> chosen loopId (i_id (li_issue item))) suites))
     (ee_list evidence))"

subsection \<open>Trend baselines\<close>

text \<open>A \<open>Map\<close> from keys to groups, in the order of the first occurrence.\<close>

fun add_to_group :: "'k \<Rightarrow> 'a \<Rightarrow> ('k \<times> 'a list) list \<Rightarrow> ('k \<times> 'a list) list" where
  "add_to_group k x [] = [(k, [x])]"
| "add_to_group k x ((j, xs) # rest) = (if j = k then (j, xs @ [x]) # rest else (j, xs) # add_to_group k x rest)"

definition group_by :: "('a \<Rightarrow> 'k) \<Rightarrow> 'a list \<Rightarrow> ('k \<times> 'a list) list" where
  "group_by key xs = foldl (\<lambda>acc x. add_to_group (key x) x acc) [] xs"

definition run_key :: "eval_run \<Rightarrow> string" where
  "run_key r = er_blueprintId r @ '':'' @ er_suiteId r"

text \<open>\<open>const [blueprintId, suiteId] = key.split(':')\<close>.\<close>

definition split_key :: "string \<Rightarrow> string \<times> string" where
  "split_key k = (case js_split '':'' k of b # s # _ \<Rightarrow> (b, s) | [b] \<Rightarrow> (b, []) | [] \<Rightarrow> ([], []))"

definition baseline_of ::
    "(timestamp \<Rightarrow> string) \<Rightarrow> eval_baseline list \<Rightarrow> timestamp \<Rightarrow> string \<times> eval_run list \<Rightarrow> eval_baseline" where
  "baseline_of iso_of history t kg = (case split_key (fst kg) of (blueprintId, suiteId) \<Rightarrow>
     let previous = latestEvalBaseline history suiteId blueprintId;
         average = roundAverage (map er_score (snd kg)) in
     \<lparr>eb_id = ''eval-baseline-'' @ safeId blueprintId @ ''-'' @ suiteId @ ''-'' @ nat_str t,
      eb_suiteId = suiteId, eb_blueprintId = blueprintId,
      eb_baselineVersion = evalBaselineVersion iso_of blueprintId suiteId t, eb_capturedAt = t,
      eb_runCount = length (snd kg), eb_averageScore = average,
      eb_passRate = percent (count_where (\<lambda>r. er_status r = EVAL_PASSED) (snd kg)) (length (snd kg)),
      eb_previousAverageScore = map_option eb_averageScore previous,
      eb_trendDelta = map_option (\<lambda>b. average - eb_averageScore b) previous\<rparr>)"

definition buildEvalTrendBaselines ::
    "(timestamp \<Rightarrow> string) \<Rightarrow> eval_run list \<Rightarrow> eval_baseline list \<Rightarrow> timestamp \<Rightarrow> eval_baseline list" where
  "buildEvalTrendBaselines iso_of runs history t = map (baseline_of iso_of history t) (group_by run_key runs)"

text \<open>\<open>appendEvalTrendSnapshots\<close>: the history in the order of time, and the snapshots of the last run.\<close>

definition appendEvalTrendSnapshots :: "eval_baseline list \<Rightarrow> eval_baseline list \<Rightarrow> eval_baseline list" where
  "appendEvalTrendSnapshots snapshots history = sort_key eb_capturedAt (history @ snapshots)"

text \<open>One pass of the trend worker: the new baselines, and the history after it.\<close>

definition runEvalTrendWorker ::
    "(timestamp \<Rightarrow> string) \<Rightarrow> eval_run list \<Rightarrow> timestamp \<Rightarrow> eval_baseline list
     \<Rightarrow> eval_baseline list \<times> eval_baseline list" where
  "runEvalTrendWorker iso_of runs t history = (let baselines = buildEvalTrendBaselines iso_of runs history t in
     (baselines, appendEvalTrendSnapshots baselines history))"

subsection \<open>Bench metrics\<close>

definition open_issue :: "loop_list_item \<Rightarrow> bool" where
  "open_issue x \<longleftrightarrow> i_status (li_issue x) \<notin> {ISSUE_CLOSED, ISSUE_ARCHIVED, ISSUE_REJECTED}"

definition completed_loop :: "loop_list_item \<Rightarrow> bool" where
  "completed_loop x \<longleftrightarrow> i_status (li_issue x) = ISSUE_CLOSED \<or> (case li_state x of None \<Rightarrow> False
     | Some st \<Rightarrow> st_finalized st = Some True \<or> st_phase st = PHASE_CLOSED)"

definition gate_fails :: "(release_checklist \<Rightarrow> bool) \<Rightarrow> loop_list_item \<Rightarrow> bool" where
  "gate_fails p x \<longleftrightarrow> (case li_releaseGate x of None \<Rightarrow> False | Some g \<Rightarrow> \<not> p (rel_checklist g))"

definition first_pass :: "loop_list_item \<Rightarrow> bool" where
  "first_pass x \<longleftrightarrow> (case li_state x of None \<Rightarrow> False
     | Some st \<Rightarrow> st_globalVerdict st = Some PASS \<and> st_reloopCount st = 0)"

definition late_phase :: "loop_list_item \<Rightarrow> bool" where
  "late_phase x \<longleftrightarrow> (case li_state x of None \<Rightarrow> False
     | Some st \<Rightarrow> st_phase st \<in> {PHASE_6_CONVERGE, PHASE_7_GLOBAL_REVIEW, PHASE_8_ANNOTATE})"

definition loop_blocked :: "loop_list_item \<Rightarrow> bool" where
  "loop_blocked x \<longleftrightarrow> (case li_state x of None \<Rightarrow> False
     | Some st \<Rightarrow> st_paused st \<or> st_globalVerdict st \<notin> {None, Some PASS})"

definition violations :: "loop_list_item list \<Rightarrow> nat" where
  "violations items = sum_list (map (\<lambda>x. case_option 0 length (li_runtimeSecurityExceptions x)) items)"

definition buildLoopBenchMetrics ::
    "loop_list_item list \<Rightarrow> loop_cost_item list \<Rightarrow> loop_learning list \<Rightarrow> bench_metrics" where
  "buildLoopBenchMetrics items costs learnings =
     (let active = filter open_issue items; completed = filter completed_loop items;
          runs = filter (\<lambda>x. li_releaseGate x \<noteq> None) items in
      \<lparr>bm_firstPassReviewRate = percent (count_where first_pass completed) (length completed),
       bm_browserQaRegressionRate =
         percent (count_where (gate_fails ck_browserQaPassed) active) (length active),
       bm_secondOpinionConflictRate =
         percent (count_where (\<lambda>x. late_phase x \<and> gate_fails ck_secondOpinionPassed x) active) (length active),
       bm_releaseBlockerRate =
         percent (count_where loop_blocked active + count_where ci_tripped costs) (length active),
       bm_runtimeViolationRate = percent (violations items) (length items),
       bm_learningReuseRate = percent (count_where (\<lambda>l. ln_lastUsedAt l \<noteq> None) learnings) (length learnings),
       bm_canaryPassRate =
         percent (count_where (\<lambda>x. \<not> gate_fails ck_canaryPassed x) runs) (length runs)\<rparr>)"

definition diffLoopBenchMetrics :: "bench_metrics \<Rightarrow> bench_metrics \<Rightarrow> bench_metrics" where
  "diffLoopBenchMetrics a b = \<lparr>
     bm_firstPassReviewRate = bm_firstPassReviewRate a - bm_firstPassReviewRate b,
     bm_browserQaRegressionRate = bm_browserQaRegressionRate a - bm_browserQaRegressionRate b,
     bm_secondOpinionConflictRate = bm_secondOpinionConflictRate a - bm_secondOpinionConflictRate b,
     bm_releaseBlockerRate = bm_releaseBlockerRate a - bm_releaseBlockerRate b,
     bm_runtimeViolationRate = bm_runtimeViolationRate a - bm_runtimeViolationRate b,
     bm_learningReuseRate = bm_learningReuseRate a - bm_learningReuseRate b,
     bm_canaryPassRate = bm_canaryPassRate a - bm_canaryPassRate b\<rparr>"

definition appendLoopBenchTrendSnapshot :: "bench_snapshot \<Rightarrow> bench_snapshot list \<Rightarrow> bench_snapshot list" where
  "appendLoopBenchTrendSnapshot snapshot history = sort_key bn_capturedAt (history @ [snapshot])"

definition runLoopBenchTrendWorker ::
    "loop_list_item list \<Rightarrow> loop_cost_item list \<Rightarrow> loop_learning list \<Rightarrow> timestamp \<Rightarrow> bench_snapshot list
     \<Rightarrow> bench_snapshot \<times> bench_snapshot list" where
  "runLoopBenchTrendWorker items costs learnings t history =
     (let previous = (if history = [] then None else Some (bn_metrics (last history)));
          m = buildLoopBenchMetrics items costs learnings;
          snapshot = \<lparr>bn_id = ''loop-bench-'' @ nat_str t, bn_capturedAt = t, bn_loopCount = length items,
            bn_metrics = m, bn_previousMetrics = previous,
            bn_deltas = map_option (diffLoopBenchMetrics m) previous\<rparr> in
      (snapshot, appendLoopBenchTrendSnapshot snapshot history))"

end
