(* ===== verification/Eval_Aggregation.thy ===== *)
theory Eval_Aggregation
  imports Evals
begin

text \<open>
  The aggregation of evaluations per tenant: the worker of \<open>loops-eval.service.ts\<close>, the computation and
  the Redis cache of \<open>loops-eval-aggregation-worker.service.ts\<close>, its wiring to the database in
  \<open>loops-eval-aggregation-runner.service.ts\<close>, the job of \<open>loops-eval-aggregation.processor.ts\<close> and the
  three-tier query \<open>getCrossTenantEvalAggregation\<close> of \<open>loops.service.ts\<close>.

  Redis is a map from keys to values (whether it is configured is part of the environment, as is whether
  there is a worker and a database) and the database a list of rows; a key expires by the step
  \<open>expire_key\<close>. The fingerprint of a payload is a parameter, as is whether the database answers.
\<close>

subsection \<open>Data\<close>

datatype eval_period = PERIOD_7D | PERIOD_30D | PERIOD_90D | PERIOD_ALL

fun period_str :: "eval_period \<Rightarrow> string" where
  "period_str PERIOD_7D = ''7d''"
| "period_str PERIOD_30D = ''30d''"
| "period_str PERIOD_90D = ''90d''"
| "period_str PERIOD_ALL = ''all''"

record eval_flat =
  ef_suiteId :: string
  ef_suiteName :: string
  ef_tenantId :: string
  ef_workspaceId :: string
  ef_blueprintId :: "string option"
  ef_totalChecks :: nat
  ef_passedChecks :: nat
  ef_failedChecks :: nat
  ef_blockedChecks :: nat
  ef_passRate :: rat
  ef_averageScore :: rat
  ef_loopCount :: nat

record eval_aggregation =
  gg_id :: "string option"
  gg_tenantId :: string
  gg_workspaceId :: string
  gg_suiteId :: string
  gg_blueprintId :: "string option"
  gg_totalChecks :: nat
  gg_passedChecks :: nat
  gg_failedChecks :: nat
  gg_blockedChecks :: nat
  gg_passRate :: rat
  gg_averageScore :: rat
  gg_loopCount :: nat
  gg_trendDelta :: "rat option"
  gg_period :: string
  gg_capturedAt :: timestamp

datatype redis_value = Payload "eval_aggregation list" string | Text string

record aggregation_world =
  aw_redis :: "string \<Rightarrow> redis_value option"
  aw_rows :: "eval_aggregation list"

record aggregation_env =
  ae_worker :: bool
  ae_redis :: bool
  ae_database :: bool
  ae_databaseUp :: bool
  ae_fingerprint :: "eval_aggregation list \<Rightarrow> string"
  ae_iso :: "timestamp \<Rightarrow> string"

datatype answer_source = FROM_REDIS | FROM_DATABASE | FROM_REQUEST

record aggregation_answer =
  aa_aggregations :: "eval_aggregation list"
  aa_total :: nat
  aa_page :: nat
  aa_limit :: nat
  aa_source :: answer_source

subsection \<open>Computation\<close>

text \<open>\<open>total > 0 ? Math.max(1, Math.round(total / 3)) : 0\<close>.\<close>

definition loops_behind :: "nat \<Rightarrow> nat" where
  "loops_behind total_checks =
     (if total_checks > 0 then max 1 (nat (js_round (of_nat total_checks / 3))) else 0)"

definition flat_item :: "string \<Rightarrow> eval_suite \<Rightarrow> eval_flat" where
  "flat_item tenantId suite = \<lparr>ef_suiteId = es_id suite, ef_suiteName = es_name suite,
     ef_tenantId = tenantId, ef_workspaceId = ''default'', ef_blueprintId = None,
     ef_totalChecks = es_total suite, ef_passedChecks = es_passed suite,
     ef_failedChecks = es_attention suite, ef_blockedChecks = es_blocked suite,
     ef_passRate = of_int (es_passRate suite), ef_averageScore = of_int (es_passRate suite),
     ef_loopCount = loops_behind (es_total suite)\<rparr>"

definition group_key :: "eval_period \<Rightarrow> eval_flat \<Rightarrow> string" where
  "group_key period item = ef_tenantId item @ '':'' @ ef_suiteId item @ '':'' @ period_str period"

definition sum_of :: "(eval_flat \<Rightarrow> nat) \<Rightarrow> eval_flat list \<Rightarrow> nat" where
  "sum_of f items = sum_list (map f items)"

definition aggregate_group :: "eval_period \<Rightarrow> timestamp \<Rightarrow> eval_flat list \<Rightarrow> eval_aggregation" where
  "aggregate_group period t items =
     (let first = hd items; totalChecks = sum_of ef_totalChecks items;
          passed = sum_of ef_passedChecks items in
      \<lparr>gg_id = None, gg_tenantId = ef_tenantId first, gg_workspaceId = ef_workspaceId first,
       gg_suiteId = ef_suiteId first, gg_blueprintId = ef_blueprintId first,
       gg_totalChecks = totalChecks, gg_passedChecks = passed,
       gg_failedChecks = sum_of ef_failedChecks items, gg_blockedChecks = sum_of ef_blockedChecks items,
       gg_passRate = (if totalChecks > 0
         then of_int (js_round (of_nat passed / of_nat totalChecks * 10000)) / 100 else 0),
       gg_averageScore = (if items \<noteq> []
         then of_int (js_round (sum_list (map ef_averageScore items) / of_nat (length items) * 100)) / 100 else 0),
       gg_loopCount = sum_of ef_loopCount items, gg_trendDelta = None, gg_period = period_str period,
       gg_capturedAt = t\<rparr>)"

definition computeAggregation :: "eval_period \<Rightarrow> timestamp \<Rightarrow> eval_flat list \<Rightarrow> eval_aggregation list" where
  "computeAggregation period t evidence =
     map (\<lambda>kg. aggregate_group period t (snd kg)) (group_by (group_key period) evidence)"

definition computeTrendDelta :: "rat \<times> rat \<Rightarrow> (rat \<times> rat) option \<Rightarrow> rat option" where
  "computeTrendDelta current previous = map_option (\<lambda>p. of_int (js_round
     ((fst current - fst p + (snd current - snd p)) * 100)) / 200) previous"

subsection \<open>Cache\<close>

definition PREFIX :: string where
  "PREFIX = ''loops:eval:agg''"

definition cacheKey :: "string \<Rightarrow> string \<Rightarrow> eval_period \<Rightarrow> string" where
  "cacheKey tenantId suiteId period = PREFIX @ '':'' @ tenantId @ '':'' @ suiteId @ '':'' @ period_str period"

definition cacheTsKey :: "string \<Rightarrow> string \<Rightarrow> eval_period \<Rightarrow> string" where
  "cacheTsKey tenantId suiteId period =
     PREFIX @ '':ts:'' @ tenantId @ '':'' @ suiteId @ '':'' @ period_str period"

definition cacheFingerprintKey :: "string \<Rightarrow> string \<Rightarrow> eval_period \<Rightarrow> string" where
  "cacheFingerprintKey tenantId suiteId period =
     PREFIX @ '':fingerprint:'' @ tenantId @ '':'' @ suiteId @ '':'' @ period_str period"

definition set_key :: "string \<Rightarrow> redis_value \<Rightarrow> aggregation_world \<Rightarrow> aggregation_world" where
  "set_key k x w = w\<lparr>aw_redis := (aw_redis w)(k := Some x)\<rparr>"

definition expire_key :: "string \<Rightarrow> aggregation_world \<Rightarrow> aggregation_world" where
  "expire_key k w = w\<lparr>aw_redis := (aw_redis w)(k := None)\<rparr>"

definition SUITE_IDS :: "string list" where
  "SUITE_IDS = [''architecture-compliance'', ''delivery-readiness'', ''runtime-safety'', ''test-evidence'',
     ''cost-policy'']"

definition PERIODS :: "eval_period list" where
  "PERIODS = [PERIOD_7D, PERIOD_30D, PERIOD_90D, PERIOD_ALL]"

definition invalidateCache :: "string \<Rightarrow> string option \<Rightarrow> aggregation_world \<Rightarrow> aggregation_world" where
  "invalidateCache tenantId suiteId = in_order (concat (map (\<lambda>period.
     concat (map (\<lambda>sid. [expire_key (cacheKey tenantId sid period), expire_key (cacheTsKey tenantId sid period),
         expire_key (cacheFingerprintKey tenantId sid period)])
       (case suiteId of Some (c # cs) \<Rightarrow> [c # cs] | _ \<Rightarrow> SUITE_IDS))) PERIODS))"

definition setCachedAggregation ::
    "aggregation_env \<Rightarrow> string \<Rightarrow> string \<Rightarrow> eval_period \<Rightarrow> timestamp \<Rightarrow> eval_aggregation list
     \<Rightarrow> aggregation_world \<Rightarrow> aggregation_world" where
  "setCachedAggregation env tenantId suiteId period t aggs =
     (let fp = ae_fingerprint env aggs in
      if \<not> ae_redis env then id
      else in_order [set_key (cacheKey tenantId suiteId period) (Payload aggs fp),
        set_key (cacheFingerprintKey tenantId suiteId period) (Text fp),
        set_key (cacheTsKey tenantId suiteId period) (Text (ae_iso env t))])"

text \<open>A value that is no payload does not parse to one, and the error is swallowed; a fingerprint that
  differs throws the cached suite away.\<close>

definition getCachedAggregation ::
    "aggregation_env \<Rightarrow> string \<Rightarrow> string \<Rightarrow> eval_period \<Rightarrow> aggregation_world \<Rightarrow> eval_aggregation list option \<times> aggregation_world" where
  "getCachedAggregation env tenantId suiteId period w =
     (if \<not> ae_redis env then (None, w) else case aw_redis w (cacheKey tenantId suiteId period) of
        Some (Payload aggs fp) \<Rightarrow>
          (case aw_redis w (cacheFingerprintKey tenantId suiteId period) of
             Some (Text stored) \<Rightarrow> if stored \<noteq> [] \<and> fp \<noteq> stored
               then (None, invalidateCache tenantId (Some suiteId) w) else (Some aggs, w)
           | _ \<Rightarrow> (Some aggs, w))
      | _ \<Rightarrow> (None, w))"

subsection \<open>Database\<close>

definition row_id :: "eval_aggregation \<Rightarrow> eval_period \<Rightarrow> string" where
  "row_id agg period = gg_tenantId agg @ ''-'' @ gg_suiteId agg @ ''-'' @ period_str period"

text \<open>The upsert: a new row takes everything, an old one the numbers and the time.\<close>

definition refresh_row :: "eval_aggregation \<Rightarrow> eval_aggregation \<Rightarrow> eval_aggregation" where
  "refresh_row agg row = row\<lparr>gg_totalChecks := gg_totalChecks agg, gg_passedChecks := gg_passedChecks agg,
     gg_failedChecks := gg_failedChecks agg, gg_blockedChecks := gg_blockedChecks agg,
     gg_passRate := gg_passRate agg, gg_averageScore := gg_averageScore agg,
     gg_loopCount := gg_loopCount agg, gg_trendDelta := gg_trendDelta agg, gg_capturedAt := gg_capturedAt agg\<rparr>"

definition upsert_row :: "eval_period \<Rightarrow> eval_aggregation \<Rightarrow> aggregation_world \<Rightarrow> aggregation_world" where
  "upsert_row period agg w = (let k = Some (row_id agg period) in w\<lparr>aw_rows :=
     (if \<exists>r \<in> set (aw_rows w). gg_id r = k
      then map (\<lambda>r. if gg_id r = k then refresh_row agg r else r) (aw_rows w)
      else aw_rows w @ [agg\<lparr>gg_id := k\<rparr>])\<rparr>)"

definition wanted_row :: "string \<Rightarrow> string option \<Rightarrow> string option \<Rightarrow> eval_period \<Rightarrow> eval_aggregation \<Rightarrow> bool" where
  "wanted_row tenantId suiteId blueprintId period r \<longleftrightarrow> gg_tenantId r = tenantId
     \<and> chosen suiteId (gg_suiteId r)
     \<and> (case blueprintId of Some (c # cs) \<Rightarrow> gg_blueprintId r = Some (c # cs) | _ \<Rightarrow> True)
     \<and> gg_period r = period_str period"

definition query_rows ::
    "string \<Rightarrow> string option \<Rightarrow> string option \<Rightarrow> eval_period \<Rightarrow> aggregation_world \<Rightarrow> eval_aggregation list" where
  "query_rows tenantId suiteId blueprintId period w =
     sort_desc gg_capturedAt (filter (wanted_row tenantId suiteId blueprintId period) (aw_rows w))"

definition page_of :: "nat \<Rightarrow> nat \<Rightarrow> 'a list \<Rightarrow> 'a list" where
  "page_of page limit xs = take limit (drop ((page - 1) * limit) xs)"

subsection \<open>The worker\<close>

record worker_report =
  wr_processed :: nat
  wr_persisted :: nat
  wr_cachedInRedis :: bool
  wr_period :: string

text \<open>\<open>suites\<close> are the suites over the evidence that the port collects, which is that of every loop.\<close>

definition runEvalAggregationWorker ::
    "aggregation_env \<Rightarrow> string option \<Rightarrow> eval_period option \<Rightarrow> eval_suite list \<Rightarrow> timestamp
     \<Rightarrow> (aggregation_world, worker_report) sm" where
  "runEvalAggregationWorker env tenantId period0 suites t =
     (let period = case_option PERIOD_30D id period0; tenant = js_trim (case_option [] id tenantId) in
      if tenant = []
      then sthrow (BadRequest ''An SSO-resolved tenant ID is required for eval aggregation'')
      else let aggs = (if ae_worker env then computeAggregation period t (map (flat_item tenant) suites) else []);
               stores = (ae_database env \<and> aggs \<noteq> [] \<and> ae_databaseUp env);
               warms = (ae_worker env \<and> aggs \<noteq> []) in
        sthen (smod (if stores then in_order (map (upsert_row period) aggs) else id))
        (sthen (smod (if warms then in_order (map (\<lambda>a.
             setCachedAggregation env (gg_tenantId a) (gg_suiteId a) period t [a]) aggs) else id))
         (sret \<lparr>wr_processed = length aggs, wr_persisted = (if stores then length aggs else 0),
            wr_cachedInRedis = warms, wr_period = period_str period\<rparr>)))"

text \<open>The job: one run per period, and only for one tenant.\<close>

fun run_periods ::
    "aggregation_env \<Rightarrow> string \<Rightarrow> eval_period list \<Rightarrow> eval_suite list \<Rightarrow> timestamp
     \<Rightarrow> (aggregation_world, worker_report list) sm" where
  "run_periods env tenant [] suites t = sret []"
| "run_periods env tenant (p # ps) suites t =
     sbind (runEvalAggregationWorker env (Some tenant) (Some p) suites t) (\<lambda>r.
     sbind (run_periods env tenant ps suites t) (\<lambda>rs. sret (r # rs)))"

definition process_aggregation ::
    "aggregation_env \<Rightarrow> bool \<Rightarrow> string option \<Rightarrow> eval_period list \<Rightarrow> eval_suite list \<Rightarrow> timestamp
     \<Rightarrow> (aggregation_world, worker_report) sm" where
  "process_aggregation env for_tenant tenantId periods suites t =
     (if \<not> for_tenant \<or> tenantId \<in> {None, Some []}
      then sthrow (BadRequest ''An SSO-resolved tenant ID is required for eval aggregation'')
      else sbind (run_periods env (case_option [] id tenantId) periods suites t) (\<lambda>rs.
        sret \<lparr>wr_processed = sum_list (map wr_processed rs), wr_persisted = sum_list (map wr_persisted rs),
          wr_cachedInRedis = list_all wr_cachedInRedis rs,
          wr_period = js_join '','' (map period_str periods)\<rparr>))"

subsection \<open>The query\<close>

definition request_aggregation ::
    "string \<Rightarrow> string option \<Rightarrow> eval_period \<Rightarrow> timestamp \<Rightarrow> eval_suite \<Rightarrow> eval_aggregation" where
  "request_aggregation tenantId blueprintId period t s = \<lparr>
     gg_id = Some (tenantId @ ''-'' @ es_id s @ ''-'' @ period_str period), gg_tenantId = tenantId,
     gg_workspaceId = ''default'', gg_suiteId = es_id s, gg_blueprintId = blueprintId,
     gg_totalChecks = es_total s, gg_passedChecks = es_passed s, gg_failedChecks = es_attention s,
     gg_blockedChecks = es_blocked s, gg_passRate = of_int (es_passRate s),
     gg_averageScore = of_int (es_passRate s), gg_loopCount = loops_behind (es_total s),
     gg_trendDelta = None, gg_period = period_str period, gg_capturedAt = t\<rparr>"

text \<open>\<open>suites\<close> are the suites over the loops of the tenant.\<close>

definition buildRequestTimeAggregation ::
    "string \<Rightarrow> string option \<Rightarrow> eval_period \<Rightarrow> string option \<Rightarrow> nat \<Rightarrow> nat \<Rightarrow> eval_suite list \<Rightarrow> timestamp
     \<Rightarrow> aggregation_answer" where
  "buildRequestTimeAggregation tenantId suiteId period blueprintId page limit suites t =
     (let aggs = map (request_aggregation tenantId blueprintId period t)
        (filter (\<lambda>s. chosen suiteId (es_id s)) suites) in
      \<lparr>aa_aggregations = page_of page limit aggs, aa_total = length aggs, aa_page = page, aa_limit = limit,
       aa_source = FROM_REQUEST\<rparr>)"

definition present :: "string option \<Rightarrow> bool" where
  "present x \<longleftrightarrow> x \<notin> {None, Some []}"

text \<open>Tiers two and three.\<close>

definition database_tier ::
    "aggregation_env \<Rightarrow> string \<Rightarrow> string option \<Rightarrow> eval_period \<Rightarrow> string option \<Rightarrow> nat \<Rightarrow> nat \<Rightarrow> eval_suite list
     \<Rightarrow> timestamp \<Rightarrow> aggregation_world \<Rightarrow> aggregation_answer \<times> aggregation_world" where
  "database_tier env tenantId suiteId period blueprintId page limit suites t w =
     (if ae_database env \<and> ae_databaseUp env
      then let rows = query_rows tenantId suiteId blueprintId period w; aggs = page_of page limit rows in
        (\<lparr>aa_aggregations = aggs, aa_total = length rows, aa_page = page, aa_limit = limit,
           aa_source = FROM_DATABASE\<rparr>,
         if ae_worker env \<and> aggs \<noteq> []
         then setCachedAggregation env tenantId (case_option ''all'' id suiteId) period t aggs w else w)
      else (buildRequestTimeAggregation tenantId suiteId period blueprintId page limit suites t, w))"

definition getCrossTenantEvalAggregation ::
    "aggregation_env \<Rightarrow> string \<Rightarrow> string option \<Rightarrow> eval_period \<Rightarrow> string option \<Rightarrow> nat \<Rightarrow> nat \<Rightarrow> eval_suite list
     \<Rightarrow> timestamp \<Rightarrow> aggregation_world \<Rightarrow> aggregation_answer \<times> aggregation_world" where
  "getCrossTenantEvalAggregation env tenantId suiteId period blueprintId page limit suites t w =
     (if present suiteId \<and> \<not> present blueprintId \<and> ae_worker env
      then (case getCachedAggregation env tenantId (case_option [] id suiteId) period w of
          (Some aggs, w') \<Rightarrow> (\<lparr>aa_aggregations = page_of page limit aggs, aa_total = length aggs,
             aa_page = page, aa_limit = limit, aa_source = FROM_REDIS\<rparr>, w')
        | (None, w') \<Rightarrow> database_tier env tenantId suiteId period blueprintId page limit suites t w')
      else database_tier env tenantId suiteId period blueprintId page limit suites t w)"

end
