(* ===== verification/Eval_Laws.thy ===== *)
theory Eval_Laws
  imports Evals Samples
begin

text \<open>
  Laws of the evaluations: the counts of a suite add up and its rates are percentages, which checks can
  pass at all, the baselines of the trend worker account for every run, and which bench metrics keep to
  the bounds of their contract.
\<close>

subsection \<open>Counting\<close>

lemma status_cases: "count_where (\<lambda>s. s = EVAL_PASSED) xs + count_where (\<lambda>s. s = EVAL_ATTENTION) xs
    + count_where (\<lambda>s. s = EVAL_BLOCKED) xs = length xs"
proof (induction xs)
  case (Cons x xs)
  then show ?case by (cases x) (simp_all add: count_where_def)
qed (simp add: count_where_def)

lemma checks_with_cases:
  "checks_with EVAL_PASSED cs + checks_with EVAL_ATTENTION cs + checks_with EVAL_BLOCKED cs = length cs"
  using status_cases [of "map ec_status cs"] by (simp add: checks_with_def count_where_def filter_map comp_def)

lemma js_round_mono: "x \<le> y \<Longrightarrow> js_round x \<le> js_round y"
  by (simp add: js_round_def floor_mono)

lemma js_round_int [simp]: "js_round (of_int n) = n"
proof -
  have "\<lfloor>(of_int n :: rat) + 1 / 2\<rfloor> = n" by (rule floor_unique) simp_all
  then show ?thesis by (simp add: js_round_def)
qed

lemma js_round_bounds: "0 \<le> x \<Longrightarrow> x \<le> 100 \<Longrightarrow> 0 \<le> js_round x \<and> js_round x \<le> 100"
  using js_round_mono [of 0 x] js_round_mono [of x 100] js_round_int [of 0] js_round_int [of 100] by simp

lemma ratio_bounds: "n \<le> d \<Longrightarrow> 0 \<le> (of_nat n / of_nat d * 100 :: rat) \<and> (of_nat n / of_nat d * 100 :: rat) \<le> 100"
  by (cases "d = 0") (simp_all add: divide_le_eq)

lemma percent_range: "n \<le> d \<Longrightarrow> 0 \<le> percent n d \<and> percent n d \<le> 100"
  unfolding percent_def using js_round_bounds ratio_bounds by simp

lemma percent_0 [simp]: "percent 0 n = 0"
  using js_round_int [of 0] by (simp add: percent_def)

lemma passed_aggregate: "evalAggregateStatus p a b = EVAL_PASSED \<longleftrightarrow> p > 0 \<and> a = 0 \<and> b = 0"
  by (simp add: evalAggregateStatus_def)

subsection \<open>Suites\<close>

lemma checked_counts:
  "ec_passCount (checked ev c) + ec_failCount (checked ev c) + ec_blockedCount (checked ev c) = length (ee_list ev)"
  using status_cases [of "map (\<lambda>item. evaluateEvalCheck (ec_id c) item ev) (ee_list ev)"]
  by (simp add: checked_def Let_def)

lemma checked_id [simp]: "ec_id (checked ev c) = ec_id c"
  by (simp add: checked_def Let_def)

lemma count_where_zero: "count_where p xs = 0 \<longleftrightarrow> (\<forall>x \<in> set xs. \<not> p x)"
  by (simp add: count_where_def filter_empty_conv)

lemma checked_passed: "ec_status (checked ev c) = EVAL_PASSED \<longleftrightarrow>
    ee_list ev \<noteq> [] \<and> (\<forall>item \<in> set (ee_list ev). evaluateEvalCheck (ec_id c) item ev = EVAL_PASSED)"
    (is "_ \<longleftrightarrow> ?R")
proof -
  let ?rs = "map (\<lambda>item. evaluateEvalCheck (ec_id c) item ev) (ee_list ev)"
  have "ec_status (checked ev c) = EVAL_PASSED \<longleftrightarrow> count_where (\<lambda>s. s = EVAL_PASSED) ?rs > 0 \<and>
      count_where (\<lambda>s. s = EVAL_ATTENTION) ?rs = 0 \<and> count_where (\<lambda>s. s = EVAL_BLOCKED) ?rs = 0"
    by (simp add: checked_def Let_def passed_aggregate)
  also have "\<dots> \<longleftrightarrow> length ?rs > 0 \<and> count_where (\<lambda>s. s = EVAL_PASSED) ?rs = length ?rs"
    using status_cases [of ?rs] by linarith
  also have "\<dots> \<longleftrightarrow> ?R" unfolding count_where_all by simp
  finally show ?thesis .
qed

text \<open>
  The evaluation suites account for every check and every loop: the passed, attention and blocked
  checks of a suite add up to its total and its pass rate is a percentage; the counts of a check add up
  to the number of loops; and a check is passed exactly when there is a loop and it passes on every loop.
\<close>

theorem suites_account:
  assumes "s \<in> set (buildEvalSuites ev t)"
  shows "es_passed s + es_attention s + es_blocked s = es_total s \<and> es_total s = length (es_checks s) \<and>
    0 \<le> es_passRate s \<and> es_passRate s \<le> 100 \<and>
    (\<forall>c \<in> set (es_checks s).
       ec_passCount c + ec_failCount c + ec_blockedCount c = length (ee_list ev) \<and>
       (ec_status c = EVAL_PASSED \<longleftrightarrow> ee_list ev \<noteq> [] \<and>
          (\<forall>item \<in> set (ee_list ev). evaluateEvalCheck (ec_id c) item ev = EVAL_PASSED)))"
proof -
  from assms obtain b where s: "s = materializeEvalSuite b ev t" by (auto simp: buildEvalSuites_def)
  let ?cs = "map (checked ev) (es_checks b)"
  have f: "es_passed s = checks_with EVAL_PASSED ?cs" "es_attention s = checks_with EVAL_ATTENTION ?cs"
    "es_blocked s = checks_with EVAL_BLOCKED ?cs" "es_total s = length ?cs" "es_checks s = ?cs"
    "es_passRate s = percent (checks_with EVAL_PASSED ?cs) (length ?cs)"
    by (simp_all add: s materializeEvalSuite_def Let_def)
  have "checks_with EVAL_PASSED ?cs \<le> length ?cs" using checks_with_cases [of ?cs] by linarith
  then have "0 \<le> es_passRate s \<and> es_passRate s \<le> 100" unfolding f by (rule percent_range)
  moreover have "es_passed s + es_attention s + es_blocked s = es_total s"
    unfolding f by (rule checks_with_cases)
  moreover have "\<forall>c \<in> set ?cs. ec_passCount c + ec_failCount c + ec_blockedCount c = length (ee_list ev) \<and>
      (ec_status c = EVAL_PASSED \<longleftrightarrow> ee_list ev \<noteq> [] \<and>
        (\<forall>item \<in> set (ee_list ev). evaluateEvalCheck (ec_id c) item ev = EVAL_PASSED))"
    by (simp add: checked_counts checked_passed)
  ultimately show ?thesis using f(4,5) by simp
qed

definition no_evidence :: eval_evidence where
  "no_evidence = \<lparr>ee_list = [], ee_details = (\<lambda>_. None), ee_costs = (\<lambda>_. None)\<rparr>"

theorem suites_account_witness:
  "\<exists>s \<in> set (buildEvalSuites no_evidence 1). es_passed s + es_attention s + es_blocked s = es_total s"
proof -
  have "hd (buildEvalSuites no_evidence 1) \<in> set (buildEvalSuites no_evidence 1)"
    by (rule hd_in_set) (simp add: buildEvalSuites_def evalSuiteBlueprints_def)
  from this suites_account [OF this] show ?thesis by blast
qed

subsection \<open>A suite that nothing can pass\<close>

lemma architecture_check: "c \<in> set [''db-service-layer'', ''zod-contract'', ''client-layer'', ''winston-logger''] \<Longrightarrow>
    evaluateEvalCheck c item ev \<noteq> EVAL_PASSED"
  by (simp add: evaluateEvalCheck_def Let_def pass_or_def)

lemma architecture_ids: "s \<in> set evalSuiteBlueprints \<Longrightarrow> es_id s = ''architecture-compliance'' \<Longrightarrow>
    map ec_id (es_checks s) = [''db-service-layer'', ''zod-contract'', ''client-layer'', ''winston-logger'']"
  by (auto simp: evalSuiteBlueprints_def blueprint_suite_def blueprint_check_def)

lemma materialize_fields: "es_id (materializeEvalSuite b ev t) = es_id b"
  "map ec_id (es_checks (materializeEvalSuite b ev t)) = map ec_id (es_checks b)"
  by (simp_all add: materializeEvalSuite_def Let_def comp_def)

lemma architecture_materialized:
  assumes "s \<in> set (buildEvalSuites ev t)" and "es_id s = ''architecture-compliance''"
  shows "\<forall>c \<in> set (es_checks s). evaluateEvalCheck (ec_id c) item ev' \<noteq> EVAL_PASSED"
proof -
  from assms(1) obtain b where b: "b \<in> set evalSuiteBlueprints" "s = materializeEvalSuite b ev t"
    by (auto simp: buildEvalSuites_def)
  with assms(2) have "map ec_id (es_checks s) = [''db-service-layer'', ''zod-contract'', ''client-layer'', ''winston-logger'']"
    using architecture_ids [of b] by (simp add: materialize_fields)
  then have "\<forall>c \<in> set (es_checks s).
      ec_id c \<in> set [''db-service-layer'', ''zod-contract'', ''client-layer'', ''winston-logger'']"
    by (metis imageI list.set_map)
  then show ?thesis using architecture_check by blast
qed

lemma run_fields: "er_score (eval_run_of ev hist u item s) = run_score (map (run_check item ev) (es_checks s))"
  "er_suiteId (eval_run_of ev hist u item s) = es_id s"
  "er_status (eval_run_of ev hist u item s) = (if checks_with EVAL_BLOCKED (map (run_check item ev) (es_checks s)) > 0
     then EVAL_BLOCKED else if run_score (map (run_check item ev) (es_checks s)) \<ge> 80 then EVAL_PASSED else EVAL_ATTENTION)"
  by (simp_all add: eval_run_of_def Let_def)

lemma run_score_none: "(\<forall>c \<in> set cs. evaluateEvalCheck (ec_id c) item ev \<noteq> EVAL_PASSED) \<Longrightarrow>
    run_score (map (run_check item ev) cs) = 0"
proof -
  assume "\<forall>c \<in> set cs. evaluateEvalCheck (ec_id c) item ev \<noteq> EVAL_PASSED"
  then have "checks_with EVAL_PASSED (map (run_check item ev) cs) = 0"
    by (simp add: checks_with_def count_where_zero run_check_def Let_def)
  then show ?thesis using js_round_int [of 0] by (simp add: run_score_def)
qed

text \<open>
  The architecture suite cannot be passed: none of its checks ever is, its pass rate is always 0, and
  every run of it has score 0 and is not passed, for every loop and every evidence.
\<close>

theorem architecture_never_passes:
  assumes "s \<in> set (buildEvalSuites ev t)" and "es_id s = ''architecture-compliance''"
  shows "es_passed s = 0 \<and> es_passRate s = 0 \<and>
    er_score (eval_run_of ev' hist u item s) = 0 \<and> er_status (eval_run_of ev' hist u item s) \<noteq> EVAL_PASSED"
proof -
  from assms(1) obtain b where b: "s = materializeEvalSuite b ev t" by (auto simp: buildEvalSuites_def)
  have cs: "es_checks s = map (checked ev) (es_checks b)"
    by (simp add: b materializeEvalSuite_def Let_def)
  have "\<forall>c \<in> set (es_checks s). ec_status c \<noteq> EVAL_PASSED"
  proof
    fix c assume "c \<in> set (es_checks s)"
    then obtain c' where c: "c = checked ev c'" "c' \<in> set (es_checks b)" unfolding cs by auto
    show "ec_status c \<noteq> EVAL_PASSED"
    proof
      assume "ec_status c = EVAL_PASSED"
      then have "ee_list ev \<noteq> []" "\<forall>x \<in> set (ee_list ev). evaluateEvalCheck (ec_id c) x ev = EVAL_PASSED"
        unfolding c(1) checked_passed by simp_all
      then have "evaluateEvalCheck (ec_id c) (hd (ee_list ev)) ev = EVAL_PASSED" by simp
      moreover have "evaluateEvalCheck (ec_id c) (hd (ee_list ev)) ev \<noteq> EVAL_PASSED"
        using architecture_materialized [OF assms] \<open>c \<in> set (es_checks s)\<close> by blast
      ultimately show False by contradiction
    qed
  qed
  then have "checks_with EVAL_PASSED (es_checks s) = 0" by (simp add: checks_with_def count_where_zero)
  then have "es_passed s = 0" "es_passRate s = 0"
    by (simp_all add: b materializeEvalSuite_def Let_def)
  moreover have "run_score (map (run_check item ev') (es_checks s)) = 0"
    by (rule run_score_none, rule architecture_materialized [OF assms])
  ultimately show ?thesis by (simp add: run_fields)
qed

theorem architecture_never_passes_witness:
  "es_passRate (hd (buildEvalSuites no_evidence 1)) = 0"
proof -
  have h: "hd (buildEvalSuites no_evidence 1) = materializeEvalSuite (hd evalSuiteBlueprints) no_evidence 1"
    by (simp add: buildEvalSuites_def evalSuiteBlueprints_def)
  have m: "hd (buildEvalSuites no_evidence 1) \<in> set (buildEvalSuites no_evidence 1)"
    by (rule hd_in_set) (simp add: buildEvalSuites_def evalSuiteBlueprints_def)
  have i: "es_id (hd (buildEvalSuites no_evidence 1)) = ''architecture-compliance''"
    unfolding h materialize_fields by (simp add: evalSuiteBlueprints_def blueprint_suite_def)
  show ?thesis using architecture_never_passes [OF m i] by blast
qed

subsection \<open>Baselines\<close>

lemma add_to_group_snd:
  "sum_list (map (\<lambda>a. length (snd a)) (add_to_group k x m)) = Suc (sum_list (map (\<lambda>a. length (snd a)) m))"
  by (induction k x m rule: add_to_group.induct) simp_all

lemma group_by_snoc: "group_by k (xs @ [x]) = add_to_group (k x) x (group_by k xs)"
  by (simp add: group_by_def)

lemma group_by_sizes: "sum_list (map (\<lambda>a. length (snd a)) (group_by k xs)) = length xs"
proof (induction xs rule: rev_induct)
  case (snoc x xs)
  then show ?case by (simp only: group_by_snoc add_to_group_snd length_append_singleton)
qed (simp add: group_by_def)

definition grouped :: "('a \<Rightarrow> 'k) \<Rightarrow> ('k \<times> 'a list) list \<Rightarrow> bool" where
  "grouped k m \<longleftrightarrow> (\<forall>(j, xs) \<in> set m. xs \<noteq> [] \<and> (\<forall>x \<in> set xs. k x = j))"

lemma grouped_add: "k x = j \<Longrightarrow> grouped k m \<Longrightarrow> grouped k (add_to_group j x m)"
  by (induction j x m rule: add_to_group.induct) (auto simp: grouped_def)

lemma grouped_group_by: "grouped k (group_by k xs)"
proof (induction xs rule: rev_induct)
  case (snoc x xs)
  then show ?case unfolding group_by_snoc by (rule grouped_add [OF refl])
qed (simp add: group_by_def grouped_def)

lemma add_to_group_elems: "(\<Union>(j, ys) \<in> set (add_to_group k x m). set ys) = insert x (\<Union>(j, ys) \<in> set m. set ys)"
  by (induction k x m rule: add_to_group.induct) auto

lemma group_by_elems: "(\<Union>(j, ys) \<in> set (group_by k xs). set ys) = set xs"
proof (induction xs rule: rev_induct)
  case (snoc x xs)
  then show ?case by (simp add: group_by_snoc add_to_group_elems)
qed (simp add: group_by_def)

lemma split_free_aux: "c \<notin> set s \<Longrightarrow> split_aux [c] acc s = [rev acc @ s]"
  by (induction s arbitrary: acc) auto

lemma split_once: "c \<notin> set a \<Longrightarrow> split_aux [c] acc (a @ c # b) = (rev acc @ a) # split_aux [c] [] b"
  by (induction a arbitrary: acc) auto

lemma split_key_plain: "CHR '':'' \<notin> set b \<Longrightarrow> CHR '':'' \<notin> set s \<Longrightarrow> split_key (b @ '':'' @ s) = (b, s)"
  by (simp add: split_key_def js_split_def split_once split_free_aux)

lemma average_bounds:
  assumes "\<forall>x \<in> set xs. 0 \<le> x \<and> x \<le> 100"
  shows "0 \<le> roundAverage xs \<and> roundAverage xs \<le> 100"
proof (cases "xs = []")
  case False
  have "sum_list xs \<le> 100 * int (length xs)" using assms by (induction xs) auto
  then have "(of_int (sum_list xs) :: rat) \<le> of_int (100 * int (length xs))" by (simp only: of_int_le_iff)
  moreover have "0 \<le> sum_list xs" using assms by (induction xs) auto
  ultimately have "0 \<le> (of_int (sum_list xs) / of_nat (length xs) :: rat)
      \<and> (of_int (sum_list xs) / of_nat (length xs) :: rat) \<le> 100"
    using False by (simp add: divide_le_eq)
  then show ?thesis using js_round_bounds False by (simp add: roundAverage_def)
qed (simp add: roundAverage_def)

text \<open>
  C33. The trend worker accounts for every run: as long as blueprint and suite ids hold no colon, each
  baseline belongs to the blueprint and suite of runs it was computed from, its rates are percentages if
  the scores are, the run counts add up to the number of runs, and the history keeps every old snapshot
  and stays in the order of time.
\<close>

theorem trend_worker_accounts:
  assumes "\<forall>r \<in> set runs. CHR '':'' \<notin> set (er_blueprintId r) \<and> CHR '':'' \<notin> set (er_suiteId r)
      \<and> 0 \<le> er_score r \<and> er_score r \<le> 100"
    and "runEvalTrendWorker iso_of runs t history = (baselines, next_history)"
  shows "sum_list (map eb_runCount baselines) = length runs \<and>
    (\<forall>b \<in> set baselines. 0 \<le> eb_averageScore b \<and> eb_averageScore b \<le> 100 \<and>
       0 \<le> eb_passRate b \<and> eb_passRate b \<le> 100 \<and>
       (\<exists>r \<in> set runs. eb_blueprintId b = er_blueprintId r \<and> eb_suiteId b = er_suiteId r)) \<and>
    set next_history = set history \<union> set baselines \<and> sorted (map eb_capturedAt next_history)"
proof -
  have bs: "baselines = map (baseline_of iso_of history t) (group_by run_key runs)"
    and nh: "next_history = sort_key eb_capturedAt (history @ baselines)"
    using assms(2) by (auto simp: runEvalTrendWorker_def Let_def buildEvalTrendBaselines_def
        appendEvalTrendSnapshots_def)
  have count: "eb_runCount (baseline_of iso_of history t kg) = length (snd kg)" for kg
    by (simp add: baseline_of_def Let_def split: prod.split)
  have "sum_list (map eb_runCount baselines) = length runs"
    using group_by_sizes [of run_key runs] by (simp only: bs map_map comp_def count)
  moreover have "0 \<le> eb_averageScore b \<and> eb_averageScore b \<le> 100 \<and> 0 \<le> eb_passRate b \<and> eb_passRate b \<le> 100 \<and>
       (\<exists>r \<in> set runs. eb_blueprintId b = er_blueprintId r \<and> eb_suiteId b = er_suiteId r)"
    if "b \<in> set baselines" for b
  proof -
    from that obtain j xs where b: "b = baseline_of iso_of history t (j, xs)" "(j, xs) \<in> set (group_by run_key runs)"
      unfolding bs by auto
    have x: "xs \<noteq> []" "\<forall>x \<in> set xs. run_key x = j"
      using grouped_group_by [of run_key runs] b(2) by (auto simp: grouped_def)
    have sub: "set xs \<subseteq> set runs" using group_by_elems [of run_key runs] b(2) by blast
    obtain r where r: "r \<in> set xs" using x(1) by (cases xs) auto
    with x(2) sub assms(1) have "split_key j = (er_blueprintId r, er_suiteId r)"
      using split_key_plain [of "er_blueprintId r" "er_suiteId r"] by (auto simp: run_key_def)
    then have f: "eb_blueprintId b = er_blueprintId r" "eb_suiteId b = er_suiteId r"
      "eb_averageScore b = roundAverage (map er_score xs)"
      "eb_passRate b = percent (count_where (\<lambda>r. er_status r = EVAL_PASSED) xs) (length xs)"
      by (simp_all add: b(1) baseline_of_def Let_def)
    have "0 \<le> eb_averageScore b \<and> eb_averageScore b \<le> 100"
      unfolding f by (rule average_bounds) (use sub assms(1) in auto)
    moreover have "0 \<le> eb_passRate b \<and> eb_passRate b \<le> 100"
      unfolding f by (rule percent_range) (rule count_where_le_length)
    ultimately show ?thesis using r sub f by blast
  qed
  moreover have "set next_history = set history \<union> set baselines \<and> sorted (map eb_capturedAt next_history)"
    by (simp add: nh)
  ultimately show ?thesis by blast
qed

definition one_run :: eval_run where
  "one_run = \<lparr>er_id = ''r'', er_suiteId = ''s'', er_loopId = ''l'', er_blueprintId = ''b'',
     er_baselineVersion = None, er_baselineScore = None, er_status = EVAL_PASSED, er_score = 90,
     er_checkResults = [], er_evidenceRefs = [], er_trendDelta = None, er_runAt = 1\<rparr>"

theorem trend_worker_accounts_witness:
  "sum_list (map eb_runCount (fst (runEvalTrendWorker (\<lambda>_. []) [one_run] 1 []))) = 1"
  using trend_worker_accounts [of "[one_run]" "\<lambda>_. []" 1 "[]" "fst (runEvalTrendWorker (\<lambda>_. []) [one_run] 1 [])"
      "snd (runEvalTrendWorker (\<lambda>_. []) [one_run] 1 [])"]
  by (simp add: one_run_def)

text \<open>
  A blueprint id with a colon is taken apart at the wrong place: the baseline of its runs is filed
  under another blueprint and another suite.
\<close>

theorem colon_misfiles_baseline:
  assumes "er_blueprintId r = a @ '':'' @ b" and "CHR '':'' \<notin> set a" and "CHR '':'' \<notin> set b"
  shows "map (\<lambda>x. (eb_blueprintId x, eb_suiteId x)) (buildEvalTrendBaselines iso_of [r] history t) = [(a, b)]"
proof -
  have "split_key (run_key r) = (a, b)"
    using assms by (cases "js_split '':'' (b @ '':'' @ er_suiteId r)")
      (simp_all add: run_key_def split_key_def js_split_def split_once)
  then show ?thesis
    by (simp add: buildEvalTrendBaselines_def group_by_def baseline_of_def Let_def)
qed

theorem colon_misfiles_baseline_witness:
  "map (\<lambda>x. (eb_blueprintId x, eb_suiteId x))
     (buildEvalTrendBaselines (\<lambda>_. []) [one_run\<lparr>er_blueprintId := ''a:b''\<rparr>] [] 1) = [(''a'', ''b'')]"
  by (rule colon_misfiles_baseline) (simp_all add: one_run_def)

subsection \<open>Bench metrics\<close>

text \<open>
  The contract gives every bench metric the bounds 0 and 100. Five of the seven metrics keep to them
  for every list; the release blocker rate does not: it adds the loops whose cost guard tripped to the
  blocked loops, and the guard pauses the loops it trips, so when every open loop is blocked by it the
  rate is 200.
\<close>

theorem bench_rates:
  fixes items costs learnings
  defines "m \<equiv> buildLoopBenchMetrics items costs learnings"
  shows "(\<forall>r \<in> {bm_firstPassReviewRate m, bm_browserQaRegressionRate m, bm_secondOpinionConflictRate m,
        bm_learningReuseRate m, bm_canaryPassRate m}. 0 \<le> r \<and> r \<le> 100) \<and>
    (filter open_issue items \<noteq> [] \<longrightarrow> (\<forall>x \<in> set (filter open_issue items). loop_blocked x) \<longrightarrow>
       count_where ci_tripped costs = length (filter open_issue items) \<longrightarrow> bm_releaseBlockerRate m = 200)"
proof -
  have five: "0 \<le> r \<and> r \<le> 100" if "r \<in> {bm_firstPassReviewRate m, bm_browserQaRegressionRate m,
      bm_secondOpinionConflictRate m, bm_learningReuseRate m, bm_canaryPassRate m}" for r
    using that unfolding insert_iff empty_iff
    by (elim disjE FalseE)
      (simp_all only: m_def buildLoopBenchMetrics_def Let_def bench_metrics.simps percent_range [OF count_where_le_length])
  have "bm_releaseBlockerRate m = 200"
    if "filter open_issue items \<noteq> []" "\<forall>x \<in> set (filter open_issue items). loop_blocked x"
      "count_where ci_tripped costs = length (filter open_issue items)"
  proof -
    have "count_where loop_blocked (filter open_issue items) = length (filter open_issue items)"
      using that(2) by (simp only: count_where_all)
    then have "bm_releaseBlockerRate m = percent (2 * length (filter open_issue items)) (length (filter open_issue items))"
      using that(3) by (simp add: m_def buildLoopBenchMetrics_def Let_def mult_2)
    also have "\<dots> = 200"
      using that(1) js_round_int [of 200] by (simp add: percent_def)
    finally show ?thesis .
  qed
  with five show ?thesis by blast
qed

definition tripped_row :: loop_list_item where
  "tripped_row = \<lparr>li_issue = sample_issue, li_state = Some (sample_state\<lparr>st_paused := True\<rparr>),
     li_workflowRecipe = None, li_reviewGates = None, li_releaseGate = None,
     li_runtimeSecurityExceptions = None, li_deliveryGovernance = None\<rparr>"

definition tripped_cost :: loop_cost_item where
  "tripped_cost = \<lparr>ci_issueId = ''issue-1'', ci_costTokens = 9, ci_costCalls = 9, ci_tokenCap = 1,
     ci_callCap = 1, ci_tokensRemaining = 0, ci_callsRemaining = 0, ci_paused = True, ci_tripped = True\<rparr>"

theorem bench_rates_witness:
  "bm_releaseBlockerRate (buildLoopBenchMetrics [tripped_row] [tripped_cost] []) = 200"
proof -
  have "filter open_issue [tripped_row] = [tripped_row]"
    by (simp add: open_issue_def tripped_row_def sample_issue_def)
  moreover have "loop_blocked tripped_row" by (simp add: loop_blocked_def tripped_row_def)
  moreover have "count_where ci_tripped [tripped_cost] = 1" by (simp add: count_where_def tripped_cost_def)
  ultimately show ?thesis using bench_rates [of "[tripped_row]" "[tripped_cost]" "[]"] by simp
qed

end
