(* ===== verification/Aggregation_Laws.thy ===== *)
theory Aggregation_Laws
  imports Eval_Aggregation Eval_Laws
begin

text \<open>
  Laws of the aggregation of evaluations: keys of the cache and ids of the rows are unambiguous, the
  worker keeps one row per tenant, suite and period and never touches another tenant, what it writes is
  what the next query answers, and the tiers of the query agree. One law records a flaw: a
  blueprint filter finds nothing.
\<close>

subsection \<open>Unambiguous keys\<close>

lemma separated: "c \<notin> set a \<Longrightarrow> c \<notin> set b \<Longrightarrow> a @ c # x = b @ c # y \<longleftrightarrow> a = b \<and> x = y"
proof (induction a arbitrary: b)
  case Nil
  then show ?case by (cases b) auto
next
  case (Cons d a)
  then show ?case by (cases b) auto
qed

definition colon_free :: "string \<Rightarrow> bool" where
  "colon_free s \<longleftrightarrow> CHR '':'' \<notin> set s"

lemma colon_split: "colon_free a \<Longrightarrow> colon_free b \<Longrightarrow>
    a @ '':'' @ x = b @ '':'' @ y \<longleftrightarrow> a = b \<and> x = y"
  using separated [of "CHR '':''" a b x y] by (simp add: colon_free_def)

lemma colon_not_free: "colon_free a \<Longrightarrow> x @ '':'' @ y \<noteq> a"
  by (auto simp: colon_free_def)

lemma period_colon_free [simp]: "colon_free (period_str p)"
  by (cases p) (simp_all add: colon_free_def)

lemma period_str_inj: "period_str p = period_str q \<longleftrightarrow> p = q"
  by (cases p; cases q) simp_all

definition slot_keys :: "string \<Rightarrow> string \<Rightarrow> eval_period \<Rightarrow> string set" where
  "slot_keys t s p = {cacheKey t s p, cacheTsKey t s p, cacheFingerprintKey t s p}"

lemma slot_keys_split:
  "cacheKey t s p = PREFIX @ '':'' @ t @ '':'' @ s @ '':'' @ period_str p"
  "cacheTsKey t s p = PREFIX @ '':'' @ ''ts'' @ '':'' @ t @ '':'' @ s @ '':'' @ period_str p"
  "cacheFingerprintKey t s p = PREFIX @ '':'' @ ''fingerprint'' @ '':'' @ t @ '':'' @ s @ '':'' @ period_str p"
  by (simp_all add: cacheKey_def cacheTsKey_def cacheFingerprintKey_def)

lemma name_colon_free: "colon_free ''ts''" "colon_free ''fingerprint''"
  by (simp_all add: colon_free_def)

lemma slots_apart:
  assumes "colon_free t" "colon_free s" "colon_free t'" "colon_free s'" and "(t, s, p) \<noteq> (t', s', p')"
  shows "cacheKey t s p \<notin> slot_keys t' s' p'" and "cacheFingerprintKey t s p \<notin> slot_keys t' s' p'"
proof -
  note free = assms(1-4) name_colon_free period_colon_free
  have long: "a @ '':'' @ x \<noteq> period_str q" for a x q by (rule colon_not_free) simp
  show "cacheKey t s p \<notin> slot_keys t' s' p'"
    unfolding slot_keys_def slot_keys_split insert_iff empty_iff same_append_eq colon_split [OF free(1,3)]
      colon_split [OF free(1,5)] colon_split [OF free(1,6)] colon_split [OF free(2,4)] colon_split [OF free(2,3)]
      period_str_inj
    using assms(5) long [symmetric] by blast
  show "cacheFingerprintKey t s p \<notin> slot_keys t' s' p'"
    unfolding slot_keys_def slot_keys_split insert_iff empty_iff same_append_eq colon_split [OF free(6,3)]
      colon_split [OF free(6,5)] colon_split [OF free(1,4)] colon_split [OF free(1,3)] colon_split [OF free(2,4)]
      period_str_inj
    using assms(5) long by auto
qed

lemma slot_distinct:
  assumes "colon_free t" "colon_free s"
  shows "cacheKey t s p \<noteq> cacheFingerprintKey t s p" "cacheKey t s p \<noteq> cacheTsKey t s p"
    "cacheFingerprintKey t s p \<noteq> cacheTsKey t s p"
proof -
  have l: "length (cacheKey t s p) < length (cacheTsKey t s p)" "length (cacheTsKey t s p) < length (cacheFingerprintKey t s p)"
    by (simp_all add: slot_keys_split)
  show "cacheKey t s p \<noteq> cacheFingerprintKey t s p" "cacheKey t s p \<noteq> cacheTsKey t s p"
    "cacheFingerprintKey t s p \<noteq> cacheTsKey t s p"
    using l by auto
qed

lemma dash_free_period: "CHR ''-'' \<notin> set (rev (period_str p))"
  by (cases p) simp_all

text \<open>Every suite id has exactly one dash.\<close>

definition one_dash :: "string \<Rightarrow> bool" where
  "one_dash s \<longleftrightarrow> (\<exists>u v. s = u @ ''-'' @ v \<and> CHR ''-'' \<notin> set u \<and> CHR ''-'' \<notin> set v)"

lemma one_dashI: "s = u @ ''-'' @ v \<Longrightarrow> CHR ''-'' \<notin> set u \<Longrightarrow> CHR ''-'' \<notin> set v \<Longrightarrow> one_dash s"
  unfolding one_dash_def by blast

lemma suite_ids_one_dash: "s \<in> set SUITE_IDS \<Longrightarrow> one_dash s"
proof -
  have 1: "one_dash ''architecture-compliance''" by (rule one_dashI [of _ "''architecture''" "''compliance''"]) simp_all
  have 2: "one_dash ''delivery-readiness''" by (rule one_dashI [of _ "''delivery''" "''readiness''"]) simp_all
  have 3: "one_dash ''runtime-safety''" by (rule one_dashI [of _ "''runtime''" "''safety''"]) simp_all
  have 4: "one_dash ''test-evidence''" by (rule one_dashI [of _ "''test''" "''evidence''"]) simp_all
  have 5: "one_dash ''cost-policy''" by (rule one_dashI [of _ "''cost''" "''policy''"]) simp_all
  then show "s \<in> set SUITE_IDS \<Longrightarrow> one_dash s"
    using 1 2 3 4 unfolding SUITE_IDS_def list.set insert_iff empty_iff by (elim disjE) (simp_all only:)
qed

lemma one_dash_suffix:
  assumes "one_dash s" "one_dash s'" and "t @ ''-'' @ s = t' @ ''-'' @ s'"
  shows "t = t' \<and> s = s'"
proof -
  obtain u v where s: "s = u @ ''-'' @ v" "CHR ''-'' \<notin> set (rev u)" "CHR ''-'' \<notin> set (rev v)"
    using assms(1) unfolding one_dash_def by auto
  obtain u' v' where s': "s' = u' @ ''-'' @ v'" "CHR ''-'' \<notin> set (rev u')" "CHR ''-'' \<notin> set (rev v')"
    using assms(2) unfolding one_dash_def by auto
  from assms(3) have "rev (t @ ''-'' @ s) = rev (t' @ ''-'' @ s')" by (rule arg_cong)
  then have "rev v @ CHR ''-'' # rev u @ CHR ''-'' # rev t = rev v' @ CHR ''-'' # rev u' @ CHR ''-'' # rev t'"
    by (simp add: s(1) s'(1))
  then have "rev v = rev v'" "rev u = rev u'" "rev t = rev t'"
    unfolding separated [OF s(3) s'(3)] separated [OF s(2) s'(2)] by blast+
  then show ?thesis by (simp add: s(1) s'(1))
qed

lemmas suites_no_suffix = one_dash_suffix [OF suite_ids_one_dash suite_ids_one_dash]

lemma row_id_inj:
  assumes "gg_suiteId a \<in> set SUITE_IDS" "gg_suiteId b \<in> set SUITE_IDS" and "row_id a p = row_id b q"
  shows "gg_tenantId a = gg_tenantId b \<and> gg_suiteId a = gg_suiteId b \<and> p = q"
proof -
  let ?x = "gg_tenantId a @ ''-'' @ gg_suiteId a" and ?y = "gg_tenantId b @ ''-'' @ gg_suiteId b"
  from assms(3) have "?x @ ''-'' @ period_str p = ?y @ ''-'' @ period_str q" by (simp add: row_id_def)
  then have "rev (?x @ ''-'' @ period_str p) = rev (?y @ ''-'' @ period_str q)" by (rule arg_cong)
  then have "rev (period_str p) @ CHR ''-'' # rev ?x = rev (period_str q) @ CHR ''-'' # rev ?y"
    by (simp only: rev_append rev.simps append_Nil append_assoc append_Cons)
  then have "rev (period_str p) = rev (period_str q)" "rev ?x = rev ?y"
    unfolding separated [OF dash_free_period dash_free_period] by simp_all
  then have "p = q" "?x = ?y" by (simp_all only: rev_is_rev_conv period_str_inj)
  with suites_no_suffix [OF assms(1,2)] show ?thesis by blast
qed

subsection \<open>What the worker computes\<close>

lemma suite_ids: "map es_id (buildEvalSuites ev t) = SUITE_IDS"
  by (simp add: buildEvalSuites_def evalSuiteBlueprints_def blueprint_suite_def materialize_fields SUITE_IDS_def)

lemma suite_id_known: "s \<in> set (buildEvalSuites ev t) \<Longrightarrow> es_id s \<in> set SUITE_IDS"
  unfolding suite_ids [of ev t, symmetric] by simp

lemma suite_ids_distinct: "distinct SUITE_IDS"
  by (simp add: SUITE_IDS_def)

lemma suite_colon_free: "s \<in> set SUITE_IDS \<Longrightarrow> colon_free s"
  by (auto simp: SUITE_IDS_def colon_free_def)

lemma add_new_group: "k \<notin> fst ` set m \<Longrightarrow> add_to_group k x m = m @ [(k, [x])]"
  by (induction k x m rule: add_to_group.induct) auto

lemma group_by_distinct: "distinct (map k xs) \<Longrightarrow> group_by k xs = map (\<lambda>x. (k x, [x])) xs"
proof (induction xs rule: rev_induct)
  case (snoc x xs)
  then have "k x \<notin> fst ` set (map (\<lambda>x. (k x, [x])) xs)" by (auto simp: image_iff)
  with snoc show ?case by (simp add: group_by_snoc add_new_group)
qed (simp add: group_by_def)

definition aggregate_of :: "string \<Rightarrow> eval_period \<Rightarrow> timestamp \<Rightarrow> eval_suite \<Rightarrow> eval_aggregation" where
  "aggregate_of tenant p t s = aggregate_group p t [flat_item tenant s]"

lemma aggregate_fields:
  "gg_tenantId (aggregate_of a p t s) = a" "gg_suiteId (aggregate_of a p t s) = es_id s"
  "gg_period (aggregate_of a p t s) = period_str p" "gg_blueprintId (aggregate_of a p t s) = None"
  by (simp_all add: aggregate_of_def aggregate_group_def Let_def flat_item_def)

lemma worker_aggregates: "computeAggregation p t (map (flat_item a) (buildEvalSuites ev n))
    = map (aggregate_of a p t) (buildEvalSuites ev n)"
proof -
  let ?xs = "buildEvalSuites ev n"
  have "map (group_key p) (map (flat_item a) ?xs) = map (\<lambda>i. a @ '':'' @ i @ '':'' @ period_str p) (map es_id ?xs)"
    by (simp add: group_key_def flat_item_def)
  moreover have "distinct (map (\<lambda>i. a @ '':'' @ i @ '':'' @ period_str p) (map es_id ?xs))"
    unfolding suite_ids by (simp add: distinct_map suite_ids_distinct inj_on_def)
  ultimately have "distinct (map (group_key p) (map (flat_item a) ?xs))" by (simp only:)
  then show ?thesis by (simp add: computeAggregation_def group_by_distinct aggregate_of_def)
qed

subsection \<open>Rounding\<close>

lemma js_round_near: "\<bar>of_int (js_round x) - x\<bar> \<le> 1 / 2"
  unfolding js_round_def by linarith

lemma rounding_gap: "\<bar>of_int (js_round (x * 100)) / 100 - of_int (js_round x)\<bar> \<le> (51 / 100 :: rat)"
proof -
  let ?u = "of_int (js_round (x * 100)) :: rat" and ?v = "of_int (js_round x) :: rat"
  have "\<bar>?u - x * 100\<bar> \<le> 1 / 2" "\<bar>?v - x\<bar> \<le> 1 / 2" by (rule js_round_near)+
  then show ?thesis by (simp only: abs_le_iff) (auto simp: field_simps)
qed

text \<open>
  The tiers of the query agree: what the worker stores of a suite is what the request-time tier
  computes of it, but for the id and the pass rate, which the worker rounds to two decimals and the
  request to a whole percentage.
\<close>

theorem tiers_agree:
  assumes "s \<in> set (buildEvalSuites ev n)"
  shows "(aggregate_group p t [flat_item a s])\<lparr>gg_id := gg_id (request_aggregation a None p t s),
      gg_passRate := gg_passRate (request_aggregation a None p t s)\<rparr> = request_aggregation a None p t s \<and>
    \<bar>gg_passRate (aggregate_group p t [flat_item a s]) - gg_passRate (request_aggregation a None p t s)\<bar> \<le> 51 / 100"
proof -
  have int100: "js_round (of_int x * 100) = x * 100" for x
    using js_round_int [of "x * 100"] by simp
  from assms obtain c where "s = materializeEvalSuite c ev n" by (auto simp: buildEvalSuites_def)
  then have rate: "es_passRate s = percent (es_passed s) (es_total s)"
    by (simp add: materializeEvalSuite_def Let_def)
  let ?x = "of_nat (es_passed s) / of_nat (es_total s) * 100 :: rat"
  have "\<bar>gg_passRate (aggregate_group p t [flat_item a s]) - of_int (es_passRate s)\<bar> \<le> 51 / 100"
  proof (cases "es_total s > 0")
    case True
    have "gg_passRate (aggregate_group p t [flat_item a s]) = of_int (js_round (?x * 100)) / 100"
      using True by (simp add: aggregate_group_def Let_def flat_item_def sum_of_def mult.assoc)
    moreover have "of_int (es_passRate s) = (of_int (js_round ?x) :: rat)"
      using True by (simp add: rate percent_def)
    ultimately show ?thesis using rounding_gap [of ?x] by (simp only:)
  next
    case False
    then show ?thesis by (simp add: aggregate_group_def Let_def flat_item_def sum_of_def rate percent_def)
  qed
  then show ?thesis
    by (simp add: aggregate_group_def Let_def flat_item_def sum_of_def request_aggregation_def int100)
qed

theorem tiers_agree_witness:
  "gg_loopCount (aggregate_group PERIOD_7D 1 [flat_item ''t'' (hd (buildEvalSuites no_evidence 1))])
   = gg_loopCount (request_aggregation ''t'' None PERIOD_7D 1 (hd (buildEvalSuites no_evidence 1)))"
proof -
  have "hd (buildEvalSuites no_evidence 1) \<in> set (buildEvalSuites no_evidence 1)"
    by (rule hd_in_set) (simp add: buildEvalSuites_def evalSuiteBlueprints_def)
  from tiers_agree [OF this, where p = PERIOD_7D and t = 1 and a = "''t''"] show ?thesis
    by (metis eval_aggregation.select_convs(12) eval_aggregation.surjective eval_aggregation.update_convs(1,10))
qed

subsection \<open>The world after the worker\<close>

definition own :: "string \<Rightarrow> eval_period \<Rightarrow> eval_aggregation \<Rightarrow> bool" where
  "own a p x \<longleftrightarrow> gg_tenantId x = a \<and> gg_suiteId x \<in> set SUITE_IDS \<and> gg_blueprintId x = None
     \<and> gg_period x = period_str p"

lemma aggregates_own: "x \<in> set (map (aggregate_of a p t) (buildEvalSuites ev n)) \<Longrightarrow> own a p x"
  using suite_id_known by (auto simp: own_def aggregate_fields)

definition warm :: "aggregation_env \<Rightarrow> eval_period \<Rightarrow> timestamp \<Rightarrow> eval_aggregation list
    \<Rightarrow> aggregation_world \<Rightarrow> aggregation_world" where
  "warm env p t xs = in_order (map (\<lambda>x. setCachedAggregation env (gg_tenantId x) (gg_suiteId x) p t [x]) xs)"

definition store_rows :: "eval_period \<Rightarrow> eval_aggregation list \<Rightarrow> aggregation_world \<Rightarrow> aggregation_world" where
  "store_rows p xs = in_order (map (upsert_row p) xs)"

lemma aggregates_nonempty: "map (aggregate_of a p t) (buildEvalSuites ev n) \<noteq> []"
  using suite_ids [of ev n] by (auto simp: SUITE_IDS_def)

lemma worker_world:
  "snd (runEvalAggregationWorker env (Some raw) (Some p) (buildEvalSuites ev n) t w) =
    (if js_trim raw = [] \<or> \<not> ae_worker env then w
     else let xs = map (aggregate_of (js_trim raw) p t) (buildEvalSuites ev n) in
       warm env p t xs (if ae_database env \<and> ae_databaseUp env then store_rows p xs w else w))"
  using aggregates_nonempty
  by (simp add: runEvalAggregationWorker_def Let_def worker_aggregates warm_def store_rows_def sthen_def sbind_def
      smod_def sret_def sthrow_def)

lemma in_order_preserves: "(\<And>f w. f \<in> set fs \<Longrightarrow> Q w \<Longrightarrow> Q (f w)) \<Longrightarrow> Q w \<Longrightarrow> Q (in_order fs w)"
  by (induction fs arbitrary: w) simp_all

text \<open>What every write of the worker for one tenant preserves, the job for that tenant preserves.\<close>

lemma worker_preserves:
  assumes up: "\<And>p x w. own (js_trim raw) p x \<Longrightarrow> Q w \<Longrightarrow> Q (upsert_row p x w)"
    and cache: "\<And>p x w. own (js_trim raw) p x \<Longrightarrow> Q w \<Longrightarrow>
      Q (setCachedAggregation env (js_trim raw) (gg_suiteId x) p t [x] w)"
    and "Q w"
  shows "Q (snd (runEvalAggregationWorker env (Some raw) (Some p) (buildEvalSuites ev n) t w))"
proof -
  let ?xs = "map (aggregate_of (js_trim raw) p t) (buildEvalSuites ev n)"
  have s: "Q (store_rows p ?xs w)"
    unfolding store_rows_def using assms(3)
    by (rule in_order_preserves [rotated]) (use aggregates_own up in fastforce)
  have "Q (warm env p t ?xs v)" if "Q v" for v
    unfolding warm_def using that
    by (rule in_order_preserves [rotated]) (use aggregates_own cache in \<open>fastforce simp: aggregate_fields\<close>)
  with s assms(3) show ?thesis by (simp add: worker_world Let_def)
qed

lemma periods_preserve:
  assumes "\<And>p x w. own (js_trim raw) p x \<Longrightarrow> Q w \<Longrightarrow> Q (upsert_row p x w)"
    and "\<And>p x w. own (js_trim raw) p x \<Longrightarrow> Q w \<Longrightarrow>
      Q (setCachedAggregation env (js_trim raw) (gg_suiteId x) p t [x] w)"
    and "Q w"
  shows "Q (snd (run_periods env raw ps (buildEvalSuites ev n) t w))"
  using assms(3)
proof (induction ps arbitrary: w)
  case (Cons p ps)
  have "Q (snd (runEvalAggregationWorker env (Some raw) (Some p) (buildEvalSuites ev n) t w))"
    by (rule worker_preserves [OF assms(1,2) Cons.prems])
  with Cons.IH show ?case
    by (auto simp: sbind_def sret_def split: prod.splits sum.splits) (metis snd_conv)+
qed (simp add: sret_def)

lemma process_preserves:
  assumes "\<And>p x w. own (js_trim raw) p x \<Longrightarrow> Q w \<Longrightarrow> Q (upsert_row p x w)"
    and "\<And>p x w. own (js_trim raw) p x \<Longrightarrow> Q w \<Longrightarrow>
      Q (setCachedAggregation env (js_trim raw) (gg_suiteId x) p t [x] w)"
    and "Q w"
  shows "Q (snd (process_aggregation env for_tenant (Some raw) ps (buildEvalSuites ev n) t w))"
proof -
  have "Q (snd (run_periods env raw ps (buildEvalSuites ev n) t w))"
    by (rule periods_preserve [of raw Q, OF assms])
  with assms(3) show ?thesis
    by (auto simp: process_aggregation_def sbind_def sret_def sthrow_def split: prod.splits sum.splits)
qed

subsection \<open>Rows\<close>

definition row_ok :: "eval_aggregation \<Rightarrow> bool" where
  "row_ok r \<longleftrightarrow> gg_suiteId r \<in> set SUITE_IDS \<and> gg_blueprintId r = None \<and>
     (\<exists>p. gg_period r = period_str p \<and> gg_id r = Some (row_id r p))"

definition rows_ok :: "aggregation_world \<Rightarrow> bool" where
  "rows_ok w \<longleftrightarrow> distinct (map gg_id (aw_rows w)) \<and> (\<forall>r \<in> set (aw_rows w). row_ok r)"

lemma refresh_fields: "gg_id (refresh_row x r) = gg_id r" "gg_suiteId (refresh_row x r) = gg_suiteId r"
  "gg_tenantId (refresh_row x r) = gg_tenantId r" "gg_blueprintId (refresh_row x r) = gg_blueprintId r"
  "gg_period (refresh_row x r) = gg_period r" "row_id (refresh_row x r) p = row_id r p"
  by (simp_all add: refresh_row_def row_id_def)

lemma refresh_ok: "row_ok (refresh_row x r) = row_ok r"
  by (simp add: row_ok_def refresh_fields)

lemma upsert_rows: "aw_rows (upsert_row p x w) = (if \<exists>r \<in> set (aw_rows w). gg_id r = Some (row_id x p)
    then map (\<lambda>r. if gg_id r = Some (row_id x p) then refresh_row x r else r) (aw_rows w)
    else aw_rows w @ [x\<lparr>gg_id := Some (row_id x p)\<rparr>])"
  by (simp add: upsert_row_def Let_def)

lemma upsert_rows_ok:
  assumes "own a p x" and "rows_ok w"
  shows "rows_ok (upsert_row p x w)"
proof (cases "\<exists>r \<in> set (aw_rows w). gg_id r = Some (row_id x p)")
  case True
  let ?f = "\<lambda>r. if gg_id r = Some (row_id x p) then refresh_row x r else r"
  have "map gg_id (map ?f (aw_rows w)) = map gg_id (aw_rows w)" by (simp add: refresh_fields)
  then have "distinct (map gg_id (map ?f (aw_rows w)))" using assms(2) by (simp only: rows_ok_def)
  moreover have "\<forall>r \<in> set (map ?f (aw_rows w)). row_ok r"
    using assms(2) by (auto simp: rows_ok_def refresh_ok)
  ultimately show ?thesis unfolding rows_ok_def upsert_rows if_P [OF True] by (rule conjI)
next
  case False
  then have "Some (row_id x p) \<notin> gg_id ` set (aw_rows w)" by (metis imageE)
  with False assms show ?thesis
    by (auto simp: rows_ok_def row_ok_def upsert_row_def Let_def own_def row_id_def)
qed

definition rows_of :: "string \<Rightarrow> aggregation_world \<Rightarrow> eval_aggregation list" where
  "rows_of b w = filter (\<lambda>r. gg_tenantId r = b) (aw_rows w)"

lemma query_rows_of: "query_rows b s bp p w = sort_desc gg_capturedAt (filter (wanted_row b s bp p) (rows_of b w))"
proof -
  have "filter (wanted_row b s bp p) (aw_rows w) = filter (wanted_row b s bp p) (rows_of b w)"
    unfolding rows_of_def filter_filter by (rule filter_cong) (auto simp: wanted_row_def)
  then show ?thesis by (simp add: query_rows_def)
qed

lemma filter_map_fixed: "(\<And>x. x \<in> set xs \<Longrightarrow> P x \<Longrightarrow> f x = x) \<Longrightarrow> (\<And>x. x \<in> set xs \<Longrightarrow> P (f x) = P x) \<Longrightarrow>
    filter P (map f xs) = filter P xs"
  by (induction xs) simp_all

lemma upsert_foreign:
  assumes "own a p x" and "rows_ok w" and "b \<noteq> a"
  shows "rows_of b (upsert_row p x w) = rows_of b w"
proof -
  have other: "gg_id r \<noteq> Some (row_id x p)" if r: "r \<in> set (aw_rows w)" "gg_tenantId r = b" for r
  proof
    assume e: "gg_id r = Some (row_id x p)"
    from assms(2) r(1) obtain q where q: "gg_suiteId r \<in> set SUITE_IDS" "gg_id r = Some (row_id r q)"
      unfolding rows_ok_def row_ok_def by blast
    with e have "row_id r q = row_id x p" by simp
    with row_id_inj [OF q(1)] assms(1) have "gg_tenantId r = gg_tenantId x" unfolding own_def by blast
    with assms(1,3) r(2) show False by (simp add: own_def)
  qed
  let ?f = "\<lambda>r. if gg_id r = Some (row_id x p) then refresh_row x r else r"
  have "filter (\<lambda>r. gg_tenantId r = b) (map ?f (aw_rows w)) = filter (\<lambda>r. gg_tenantId r = b) (aw_rows w)"
    by (rule filter_map_fixed) (use other in \<open>auto simp: refresh_fields\<close>)
  then show ?thesis using assms(1,3) by (simp add: rows_of_def upsert_row_def Let_def own_def)
qed

lemma upsert_redis [simp]: "aw_redis (upsert_row p x w) = aw_redis w"
  by (simp add: upsert_row_def Let_def)

lemma cached_rows [simp]: "aw_rows (setCachedAggregation env a s p t xs w) = aw_rows w"
  by (simp add: setCachedAggregation_def Let_def set_key_def)

lemma cached_redis: "ae_redis env \<Longrightarrow> aw_redis (setCachedAggregation env a s p t xs w) =
    (aw_redis w)(cacheKey a s p := Some (Payload xs (ae_fingerprint env xs)),
      cacheFingerprintKey a s p := Some (Text (ae_fingerprint env xs)),
      cacheTsKey a s p := Some (Text (ae_iso env t)))"
  by (simp add: setCachedAggregation_def Let_def set_key_def)

lemma cached_frame: "k \<notin> slot_keys a s p \<Longrightarrow>
    aw_redis (setCachedAggregation env a s p t xs w) k = aw_redis w k"
  by (cases "ae_redis env") (simp_all add: cached_redis slot_keys_def, simp add: setCachedAggregation_def Let_def)

lemma rows_ok_cached: "rows_ok (setCachedAggregation env a s p t xs w) = rows_ok w"
  by (simp add: rows_ok_def)

text \<open>
  The rows of the database stay well formed: however often the job runs, for whatever tenant and
  periods, there is at most one row per id, the id names the tenant, the suite and the period of its row,
  and no row has a blueprint. So a query for a blueprint finds nothing while the database answers, though
  the request-time tier has an answer for it.
\<close>

theorem eval_rows_invariant:
  fixes env for_tenant raw periods ev n t w
  assumes "rows_ok w" and "present blueprintId"
    and "ae_database env'" and "ae_databaseUp env'"
  defines "w' \<equiv> snd (process_aggregation env for_tenant (Some raw) periods (buildEvalSuites ev n) t w)"
  shows "rows_ok w' \<and>
    aa_aggregations (fst (getCrossTenantEvalAggregation env' b suiteId p blueprintId page limit suites t' w')) = []"
proof -
  have ok: "rows_ok w'"
    unfolding w'_def using assms(1)
    by (rule process_preserves [rotated 2]) (auto simp: rows_ok_cached intro: upsert_rows_ok)
  obtain c cs where bp: "blueprintId = Some (c # cs)"
    using assms(2) by (cases blueprintId) (auto simp: present_def neq_Nil_conv)
  have "filter (wanted_row b suiteId blueprintId p) (aw_rows w') = []"
    using ok by (auto simp: filter_empty_conv wanted_row_def bp rows_ok_def row_ok_def)
  then have "query_rows b suiteId blueprintId p w' = []" by (simp add: query_rows_def sort_desc_def)
  with ok assms(2-4) show ?thesis
    by (simp add: getCrossTenantEvalAggregation_def database_tier_def Let_def page_of_def)
qed

definition cold_env :: aggregation_env where
  "cold_env = \<lparr>ae_worker = True, ae_redis = True, ae_database = True, ae_databaseUp = True, ae_fingerprint = (\<lambda>_. ''f''),
     ae_iso = (\<lambda>_. ''now'')\<rparr>"

definition cold_world :: aggregation_world where
  "cold_world = \<lparr>aw_redis = (\<lambda>_. None), aw_rows = []\<rparr>"

theorem eval_rows_invariant_witness:
  "rows_ok (snd (process_aggregation cold_env True (Some ''a'') PERIODS (buildEvalSuites no_evidence 1) 1 cold_world))"
  using eval_rows_invariant [where w = cold_world and blueprintId = "Some ''x''" and env' = cold_env
      and env = cold_env and for_tenant = True and raw = "''a''" and periods = PERIODS and ev = no_evidence
      and n = 1 and t = 1]
  by (simp add: rows_ok_def cold_world_def cold_env_def present_def)

subsection \<open>Tenants\<close>

lemma get_cong:
  assumes "aw_redis w (cacheKey a s p) = aw_redis v (cacheKey a s p)"
    and "aw_redis w (cacheFingerprintKey a s p) = aw_redis v (cacheFingerprintKey a s p)"
  shows "fst (getCachedAggregation env a s p w) = fst (getCachedAggregation env a s p v)"
  using assms by (auto simp: getCachedAggregation_def split: option.splits redis_value.splits)

lemma invalidate_rows: "aw_rows (invalidateCache a s w) = aw_rows w"
  unfolding invalidateCache_def
  by (rule in_order_preserves [where Q = "\<lambda>v. aw_rows v = aw_rows w"]) (auto simp: expire_key_def)

lemma get_rows: "aw_rows (snd (getCachedAggregation env a s p w)) = aw_rows w"
  by (auto simp: getCachedAggregation_def invalidate_rows split: option.splits redis_value.splits)

lemma tier_cong: "query_rows a s bp p w = query_rows a s bp p v \<Longrightarrow>
    fst (database_tier env a s p bp page limit suites t w) = fst (database_tier env a s p bp page limit suites t v)"
  by (simp add: database_tier_def Let_def)

lemma query_rows_cong: "aw_rows w = aw_rows v \<Longrightarrow> query_rows a s bp p w = query_rows a s bp p v"
  by (simp add: query_rows_def)

lemma answer_cong:
  assumes c: "fst (getCachedAggregation env a (case_option [] id s) p w) = fst (getCachedAggregation env a (case_option [] id s) p v)"
    and r: "query_rows a s bp p w = query_rows a s bp p v"
  shows "fst (getCrossTenantEvalAggregation env a s p bp page limit suites t w)
    = fst (getCrossTenantEvalAggregation env a s p bp page limit suites t v)"
proof -
  let ?s = "case_option [] id s"
  obtain x w' where w: "getCachedAggregation env a ?s p w = (x, w')" by (rule prod.exhaust)
  obtain y v' where v: "getCachedAggregation env a ?s p v = (y, v')" by (rule prod.exhaust)
  have "aw_rows w' = aw_rows w" using get_rows [of env a ?s p w] by (simp add: w)
  moreover have "aw_rows v' = aw_rows v" using get_rows [of env a ?s p v] by (simp add: v)
  ultimately have rows: "query_rows a s bp p w' = query_rows a s bp p v'"
    using r by (simp only: query_rows_def)
  have xy: "x = y" using c by (simp add: w v)
  show ?thesis
    unfolding getCrossTenantEvalAggregation_def w v xy
    using tier_cong [OF r] tier_cong [OF rows] by (simp split: option.split)
qed

text \<open>
  C34. Tenants do not see each other through the aggregation: for tenant and suite ids without a colon, the
  job for one tenant changes no answer that another tenant gets, from the cache or from the database.
\<close>

theorem tenants_kept_apart:
  fixes env for_tenant raw periods ev n t w
  assumes "rows_ok w" and "b \<noteq> js_trim raw" and "colon_free b" and "colon_free (js_trim raw)"
    and "colon_free (case_option [] id suiteId)"
  defines "w' \<equiv> snd (process_aggregation env for_tenant (Some raw) periods (buildEvalSuites ev n) t w)"
  shows "fst (getCrossTenantEvalAggregation env' b suiteId p blueprintId page limit suites t' w')
    = fst (getCrossTenantEvalAggregation env' b suiteId p blueprintId page limit suites t' w)"
proof -
  let ?s = "case_option [] id suiteId"
  let ?Q = "\<lambda>v. rows_ok v \<and> rows_of b v = rows_of b w \<and>
      aw_redis v (cacheKey b ?s p) = aw_redis w (cacheKey b ?s p) \<and>
      aw_redis v (cacheFingerprintKey b ?s p) = aw_redis w (cacheFingerprintKey b ?s p)"
  have "?Q w'"
    unfolding w'_def
  proof (rule process_preserves)
    fix q x v assume o': "own (js_trim raw) q x" and Q: "?Q v"
    show "?Q (upsert_row q x v)"
      using Q upsert_rows_ok [OF o'] upsert_foreign [OF o' _ assms(2)] by simp
  next
    fix q x v assume o': "own (js_trim raw) q x" and Q: "?Q v"
    have "colon_free (gg_suiteId x)" using o' suite_colon_free by (simp add: own_def)
    note apart = slots_apart [OF assms(3,5,4) this, of p q]
    show "?Q (setCachedAggregation env (js_trim raw) (gg_suiteId x) q t [x] v)"
      using Q assms(2) apart by (simp add: rows_ok_cached rows_of_def cached_frame)
  qed (simp add: assms(1))
  then show ?thesis by (intro answer_cong get_cong) (simp_all add: query_rows_of)
qed

theorem tenants_kept_apart_witness:
  "fst (getCrossTenantEvalAggregation cold_env ''b'' (Some ''cost-policy'') PERIOD_7D None 1 10 [] 2
      (snd (process_aggregation cold_env True (Some ''a'') PERIODS (buildEvalSuites no_evidence 1) 1 cold_world)))
   = fst (getCrossTenantEvalAggregation cold_env ''b'' (Some ''cost-policy'') PERIOD_7D None 1 10 [] 2 cold_world)"
  by (rule tenants_kept_apart) (simp_all add: rows_ok_def cold_world_def js_trim_def colon_free_def)

subsection \<open>The worker and the query\<close>

lemma warm_Cons: "warm env p t (y # ys) w =
    warm env p t ys (setCachedAggregation env (gg_tenantId y) (gg_suiteId y) p t [y] w)"
  by (simp add: warm_def)

lemma warm_frame: "(\<And>x. x \<in> set xs \<Longrightarrow> k \<notin> slot_keys (gg_tenantId x) (gg_suiteId x) p) \<Longrightarrow>
    aw_redis (warm env p t xs w) k = aw_redis w k"
  by (induction xs arbitrary: w) (simp_all add: warm_Cons cached_frame, simp add: warm_def)

lemma get_fresh:
  assumes "ae_redis env" and "aw_redis w (cacheKey a s p) = Some (Payload xs fp)"
    and "aw_redis w (cacheFingerprintKey a s p) = Some (Text fp)"
  shows "getCachedAggregation env a s p w = (Some xs, w)"
  using assms by (simp add: getCachedAggregation_def)

lemma warm_get:
  assumes "distinct (map gg_suiteId xs)" and "x \<in> set xs" and "colon_free a"
    and "\<forall>y \<in> set xs. own a p y" and "ae_redis env"
  shows "getCachedAggregation env a (gg_suiteId x) p (warm env p t xs w) = (Some [x], warm env p t xs w)"
proof -
  let ?s = "gg_suiteId x" and ?fp = "ae_fingerprint env [x]"
  have "aw_redis (warm env p t xs w) (cacheKey a ?s p) = Some (Payload [x] ?fp) \<and>
      aw_redis (warm env p t xs w) (cacheFingerprintKey a ?s p) = Some (Text ?fp)"
    using assms(1,2,4)
  proof (induction xs arbitrary: w)
    case (Cons y ys)
    show ?case
    proof (cases "x = y")
      case True
      have free: "colon_free (gg_suiteId z)" "gg_tenantId z = a" if "z \<in> set (y # ys)" for z
      proof -
        have "own a p z" using Cons.prems(3) that by blast
        then show "colon_free (gg_suiteId z)" "gg_tenantId z = a" using suite_colon_free by (simp_all add: own_def)
      qed
      have "cacheKey a ?s p \<notin> slot_keys (gg_tenantId z) (gg_suiteId z) p"
        "cacheFingerprintKey a ?s p \<notin> slot_keys (gg_tenantId z) (gg_suiteId z) p" if z: "z \<in> set ys" for z
      proof -
        have "(a, ?s, p) \<noteq> (a, gg_suiteId z, p)" using Cons.prems(1) z True by auto
        from slots_apart [OF assms(3) _ assms(3) _ this] free [of z] free [of y] z True
        show "cacheKey a ?s p \<notin> slot_keys (gg_tenantId z) (gg_suiteId z) p"
          "cacheFingerprintKey a ?s p \<notin> slot_keys (gg_tenantId z) (gg_suiteId z) p" by simp_all
      qed
      moreover have "gg_tenantId y = a" "colon_free ?s" using free [of y] True by simp_all
      ultimately show ?thesis
        using slot_distinct [OF assms(3), of ?s p] True
        by (simp add: warm_Cons warm_frame cached_redis [OF assms(5)])
    next
      case False
      with Cons show ?thesis by (simp add: warm_Cons)
    qed
  qed simp
  then show ?thesis using assms(5) by (intro get_fresh) simp_all
qed

text \<open>
  C35. What the worker writes is what the next query answers: after a run for a tenant, a query of that
  tenant for a suite and the period is answered from the cache with exactly one aggregation, whose counts
  are those of the suite, whatever the database and the cache held before.
\<close>

theorem worker_then_query:
  fixes env raw p ev n t w page limit suites t'
  assumes "ae_worker env" and "js_trim raw \<noteq> []" and "colon_free (js_trim raw)"
    and "s \<in> set (buildEvalSuites ev n)" and "page = 1" and "limit > 0"
    and "ae_redis env"
  defines "answer \<equiv> fst (getCrossTenantEvalAggregation env (js_trim raw) (Some (es_id s)) p None page limit suites t'
      (snd (runEvalAggregationWorker env (Some raw) (Some p) (buildEvalSuites ev n) t w)))"
  shows "aa_source answer = FROM_REDIS \<and> aa_total answer = 1 \<and>
    (\<exists>x. aa_aggregations answer = [x] \<and> gg_tenantId x = js_trim raw \<and> gg_suiteId x = es_id s \<and>
       gg_totalChecks x = es_total s \<and> gg_passedChecks x = es_passed s \<and>
       gg_failedChecks x = es_attention s \<and> gg_blockedChecks x = es_blocked s \<and> gg_capturedAt x = t)"
proof -
  let ?a = "js_trim raw"
  let ?xs = "map (aggregate_of ?a p t) (buildEvalSuites ev n)" and ?x = "aggregate_of ?a p t s"
  have "map gg_suiteId ?xs = map es_id (buildEvalSuites ev n)" by (simp add: aggregate_fields comp_def)
  then have "distinct (map gg_suiteId ?xs)" by (simp only: suite_ids suite_ids_distinct)
  moreover have "?x \<in> set ?xs" using assms(4) by simp
  moreover have "\<forall>y \<in> set ?xs. own ?a p y" using aggregates_own by blast
  ultimately have "getCachedAggregation env ?a (gg_suiteId ?x) p (warm env p t ?xs v) = (Some [?x], warm env p t ?xs v)" for v
    using warm_get [where x = ?x and xs = ?xs, OF _ _ assms(3) _ assms(7)] by blast
  then have get: "getCachedAggregation env ?a (es_id s) p (warm env p t ?xs v) = (Some [?x], warm env p t ?xs v)" for v
    by (simp add: aggregate_fields)
  have "es_id s \<noteq> []" using suite_id_known [OF assms(4)] by (auto simp: SUITE_IDS_def)
  then have "answer = \<lparr>aa_aggregations = [?x], aa_total = 1, aa_page = page, aa_limit = limit, aa_source = FROM_REDIS\<rparr>"
    using assms(1,2,5,6) by (cases limit)
      (simp_all add: answer_def getCrossTenantEvalAggregation_def present_def worker_world Let_def get page_of_def)
  then show ?thesis
    by (simp add: aggregate_fields) (simp add: aggregate_of_def aggregate_group_def Let_def flat_item_def sum_of_def)
qed

theorem worker_then_query_witness:
  "aa_source (fst (getCrossTenantEvalAggregation cold_env (js_trim ''a'') (Some (es_id (hd (buildEvalSuites no_evidence 1))))
      PERIOD_7D None 1 10 [] 2 (snd (runEvalAggregationWorker cold_env (Some ''a'') (Some PERIOD_7D)
        (buildEvalSuites no_evidence 1) 1 cold_world)))) = FROM_REDIS"
proof -
  have m: "hd (buildEvalSuites no_evidence 1) \<in> set (buildEvalSuites no_evidence 1)"
    by (rule hd_in_set) (simp add: buildEvalSuites_def evalSuiteBlueprints_def)
  have c: "ae_worker cold_env" "js_trim ''a'' \<noteq> []" "colon_free (js_trim ''a'')"
    by (simp_all add: cold_env_def js_trim_def colon_free_def is_space_def)
  have l: "(10 :: nat) > 0" by simp
  have r: "ae_redis cold_env" by (simp add: cold_env_def)
  show ?thesis by (rule worker_then_query [OF c m refl l r, THEN conjunct1])
qed

end
