(* ===== verification/Web_Display.thy ===== *)
theory Web_Display
  imports Dashboard
begin

text \<open>
  The texts of the web application: \<open>loops-display.ts\<close>, and \<open>formatPhase\<close> of
  \<open>loops-dashboard-model.ts\<close>. A comparator of \<open>Array.prototype.sort\<close> is a function to the integers;
  \<open>js_sort\<close> is the stable sort by it, and \<open>lc\<close> stands for \<open>localeCompare\<close> throughout.
\<close>

subsection \<open>Sorting\<close>

fun js_insert :: "('a \<Rightarrow> 'a \<Rightarrow> int) \<Rightarrow> 'a \<Rightarrow> 'a list \<Rightarrow> 'a list" where
  "js_insert cmp x [] = [x]"
| "js_insert cmp x (y # ys) = (if cmp x y \<le> 0 then x # y # ys else y # js_insert cmp x ys)"

definition js_sort :: "('a \<Rightarrow> 'a \<Rightarrow> int) \<Rightarrow> 'a list \<Rightarrow> 'a list" where
  "js_sort cmp xs = foldr (js_insert cmp) xs []"

text \<open>\<open>a || b\<close> on the results of comparisons.\<close>

definition cmp_then :: "int \<Rightarrow> int \<Rightarrow> int" where
  "cmp_then a b = (if a = 0 then b else a)"

text \<open>\<open>a - b\<close> on counts, and \<open>localeCompare\<close> on the printed times.\<close>

definition nat_cmp :: "nat \<Rightarrow> nat \<Rightarrow> int" where
  "nat_cmp a b = int a - int b"

subsection \<open>Labels\<close>

definition ZH_LABELS :: "(string \<times> string) list" where
  "ZH_LABELS = [
     (''APPROVED'', [CHR 0xE5, CHR 0xB7, CHR 0xB2, CHR 0xE6, CHR 0x89, CHR 0xB9, CHR 0xE5, CHR 0x87, CHR 0x86]),
     (''ARCHIVED'', [CHR 0xE5, CHR 0xB7, CHR 0xB2, CHR 0xE5, CHR 0xBD, CHR 0x92, CHR 0xE6, CHR 0xA1, CHR 0xA3]),
     (''BLOCKED'', [CHR 0xE5, CHR 0x8F, CHR 0x97, CHR 0xE9, CHR 0x98, CHR 0xBB]),
     (''CLOSED'', [CHR 0xE5, CHR 0xB7, CHR 0xB2, CHR 0xE5, CHR 0x85, CHR 0xB3, CHR 0xE9, CHR 0x97, CHR 0xAD]),
     (''CONVERGENCE_READY'', [CHR 0xE5, CHR 0x8F, CHR 0xAF, CHR 0xE6, CHR 0x94, CHR 0xB6, CHR 0xE5, CHR 0xB0, CHR 0xBE, CHR 0xE4, CHR 0xBA, CHR 0xA4, CHR 0xE4, CHR 0xBB, CHR 0x98]),
     (''CONTEXT_BUDGET_EXCEEDED'', [CHR 0xE4, CHR 0xB8, CHR 0x8A, CHR 0xE4, CHR 0xB8, CHR 0x8B, CHR 0xE6, CHR 0x96, CHR 0x87, CHR 0xE4, CHR 0xBD, CHR 0x99, CHR 0xE9, CHR 0x87, CHR 0x8F, CHR 0xE4, CHR 0xB8, CHR 0x8D, CHR 0xE8, CHR 0xB6, CHR 0xB3]),
     (''COST_GUARD_TRIPPED'', [CHR 0xE6, CHR 0x88, CHR 0x90, CHR 0xE6, CHR 0x9C, CHR 0xAC, CHR 0xE4, CHR 0xBF, CHR 0x9D, CHR 0xE6, CHR 0x8A, CHR 0xA4, CHR 0xE5, CHR 0xB7, CHR 0xB2, CHR 0xE8, CHR 0xA7, CHR 0xA6, CHR 0xE5, CHR 0x8F, CHR 0x91]),
     (''DONE'', [CHR 0xE5, CHR 0xB7, CHR 0xB2, CHR 0xE5, CHR 0xAE, CHR 0x8C, CHR 0xE6, CHR 0x88, CHR 0x90]),
     (''DRAFT'', [CHR 0xE5, CHR 0xBE, CHR 0x85, CHR 0xE5, CHR 0xAE, CHR 0xA1, CHR 0xE9, CHR 0x98, CHR 0x85]),
     (''FAILED'', [CHR 0xE5, CHR 0xA4, CHR 0xB1, CHR 0xE8, CHR 0xB4, CHR 0xA5]),
     (''FAIL'', [CHR 0xE6, CHR 0x9C, CHR 0xAA, CHR 0xE9, CHR 0x80, CHR 0x9A, CHR 0xE8, CHR 0xBF, CHR 0x87]),
     (''FINALIZED'', [CHR 0xE5, CHR 0xB7, CHR 0xB2, CHR 0xE4, CHR 0xBA, CHR 0xA4, CHR 0xE4, CHR 0xBB, CHR 0x98]),
     (''HUMAN_INTERVENTION'', [CHR 0xE9, CHR 0x9C, CHR 0x80, CHR 0xE8, CHR 0xA6, CHR 0x81, CHR 0xE4, CHR 0xBA, CHR 0xBA, CHR 0xE5, CHR 0xB7, CHR 0xA5, CHR 0xE5, CHR 0xA4, CHR 0x84, CHR 0xE7, CHR 0x90, CHR 0x86]),
     (''IMPLEMENTATION_RECORD'', [CHR 0xE5, CHR 0xB7, CHR 0xB2, CHR 0xE8, CHR 0xAE, CHR 0xB0, CHR 0xE5, CHR 0xBD, CHR 0x95, CHR 0xE5, CHR 0xAE, CHR 0x9E, CHR 0xE7, CHR 0x8E, CHR 0xB0]),
     (''IN_LOOP'', [CHR 0xE6, CHR 0x89, CHR 0xA7, CHR 0xE8, CHR 0xA1, CHR 0x8C, CHR 0xE4, CHR 0xB8, CHR 0xAD]),
     (''IN_PROGRESS'', [CHR 0xE8, CHR 0xBF, CHR 0x9B, CHR 0xE8, CHR 0xA1, CHR 0x8C, CHR 0xE4, CHR 0xB8, CHR 0xAD]),
     (''ISSUE_NORMALIZED'', [CHR 0xE9, CHR 0x9C, CHR 0x80, CHR 0xE6, CHR 0xB1, CHR 0x82, CHR 0xE5, CHR 0xB7, CHR 0xB2, CHR 0xE6, CHR 0x95, CHR 0xB4, CHR 0xE7, CHR 0x90, CHR 0x86]),
     (''ISSUE_RECEIVED'', [CHR 0xE5, CHR 0xB7, CHR 0xB2, CHR 0xE6, CHR 0x94, CHR 0xB6, CHR 0xE5, CHR 0x88, CHR 0xB0, CHR 0xE9, CHR 0x9C, CHR 0x80, CHR 0xE6, CHR 0xB1, CHR 0x82]),
     (''LOOP_STEP'', [CHR 0xE6, CHR 0xB5, CHR 0x81, CHR 0xE7, CHR 0xA8, CHR 0x8B, CHR 0xE5, CHR 0xB7, CHR 0xB2, CHR 0xE6, CHR 0x8E, CHR 0xA8, CHR 0xE8, CHR 0xBF, CHR 0x9B]),
     (''NEEDS_CLARIFICATION'', [CHR 0xE9, CHR 0x9C, CHR 0x80, CHR 0xE8, CHR 0xA6, CHR 0x81, CHR 0xE8, CHR 0xA1, CHR 0xA5, CHR 0xE5, CHR 0x85, CHR 0x85, CHR 0xE4, CHR 0xBF, CHR 0xA1, CHR 0xE6, CHR 0x81, CHR 0xAF]),
     (''NEEDS_WORK'', [CHR 0xE9, CHR 0x9C, CHR 0x80, CHR 0xE8, CHR 0xA6, CHR 0x81, CHR 0xE4, CHR 0xBF, CHR 0xAE, CHR 0xE6, CHR 0x94, CHR 0xB9]),
     (''NORMALIZED'', [CHR 0xE5, CHR 0xB7, CHR 0xB2, CHR 0xE6, CHR 0x95, CHR 0xB4, CHR 0xE7, CHR 0x90, CHR 0x86]),
     (''NOTIFICATION_RECORDED'', [CHR 0xE9, CHR 0x80, CHR 0x9A, CHR 0xE7, CHR 0x9F, CHR 0xA5, CHR 0xE5, CHR 0xB7, CHR 0xB2, CHR 0xE8, CHR 0xAE, CHR 0xB0, CHR 0xE5, CHR 0xBD, CHR 0x95]),
     (''OPEN'', [CHR 0xE5, CHR 0xBE, CHR 0x85, CHR 0xE5, CHR 0xA4, CHR 0x84, CHR 0xE7, CHR 0x90, CHR 0x86]),
     (''PASS'', [CHR 0xE9, CHR 0x80, CHR 0x9A, CHR 0xE8, CHR 0xBF, CHR 0x87]),
     (''PAUSED'', [CHR 0xE5, CHR 0xB7, CHR 0xB2, CHR 0xE6, CHR 0x9A, CHR 0x82, CHR 0xE5, CHR 0x81, CHR 0x9C]),
     (''PENDING'', [CHR 0xE5, CHR 0xBE, CHR 0x85, CHR 0xE5, CHR 0xA4, CHR 0x84, CHR 0xE7, CHR 0x90, CHR 0x86]),
     (''PHASE_0_INTAKE'', [CHR 0xE5, CHR 0xBD, CHR 0x95, CHR 0xE5, CHR 0x85, CHR 0xA5]),
     (''PHASE_1_SPEC'', [CHR 0xE8, CHR 0xA7, CHR 0x84, CHR 0xE6, CHR 0xA0, CHR 0xBC]),
     (''PHASE_2_REVIEW'', [CHR 0xE5, CHR 0xAE, CHR 0xA1, CHR 0xE9, CHR 0x98, CHR 0x85]),
     (''PHASE_3_DECOMPOSE'', [CHR 0xE6, CHR 0x8B, CHR 0x86, CHR 0xE8, CHR 0xA7, CHR 0xA3]),
     (''PHASE_4_IMPLEMENT'', [CHR 0xE5, CHR 0xAE, CHR 0x9E, CHR 0xE7, CHR 0x8E, CHR 0xB0]),
     (''PHASE_5_REVIEW'', [CHR 0xE5, CHR 0x88, CHR 0x86, CHR 0xE7, CHR 0x89, CHR 0x87, CHR 0xE5, CHR 0xAE, CHR 0xA1, CHR 0xE9, CHR 0x98, CHR 0x85]),
     (''PHASE_6_CONVERGE'', [CHR 0xE6, CHR 0x94, CHR 0xB6, CHR 0xE6, CHR 0x95, CHR 0x9B]),
     (''PHASE_7_GLOBAL_REVIEW'', [CHR 0xE5, CHR 0x85, CHR 0xA8, CHR 0xE5, CHR 0xB1, CHR 0x80, CHR 0xE5, CHR 0xAE, CHR 0xA1, CHR 0xE9, CHR 0x98, CHR 0x85]),
     (''PHASE_8_ANNOTATE'', [CHR 0xE6, CHR 0xA0, CHR 0x87, CHR 0xE6, CHR 0xB3, CHR 0xA8]),
     (''RECORDED'', [CHR 0xE5, CHR 0xB7, CHR 0xB2, CHR 0xE8, CHR 0xAE, CHR 0xB0, CHR 0xE5, CHR 0xBD, CHR 0x95]),
     (''REJECTED'', [CHR 0xE5, CHR 0xB7, CHR 0xB2, CHR 0xE6, CHR 0x8B, CHR 0x92, CHR 0xE7, CHR 0xBB, CHR 0x9D]),
     (''RELOOP_LIMIT'', [CHR 0xE8, CHR 0xBF, CHR 0x94, CHR 0xE5, CHR 0xB7, CHR 0xA5, CHR 0xE6, CHR 0xAC, CHR 0xA1, CHR 0xE6, CHR 0x95, CHR 0xB0, CHR 0xE5, CHR 0xB7, CHR 0xB2, CHR 0xE8, CHR 0xBE, CHR 0xBE, CHR 0xE4, CHR 0xB8, CHR 0x8A, CHR 0xE9, CHR 0x99, CHR 0x90]),
     (''REVIEW_RECORD'', [CHR 0xE5, CHR 0xB7, CHR 0xB2, CHR 0xE8, CHR 0xAE, CHR 0xB0, CHR 0xE5, CHR 0xBD, CHR 0x95, CHR 0xE5, CHR 0xAE, CHR 0xA1, CHR 0xE9, CHR 0x98, CHR 0x85]),
     (''REVISION_REQUESTED'', [CHR 0xE9, CHR 0x9C, CHR 0x80, CHR 0xE8, CHR 0xA6, CHR 0x81, CHR 0xE4, CHR 0xBF, CHR 0xAE, CHR 0xE8, CHR 0xAE, CHR 0xA2]),
     (''SENT'', [CHR 0xE5, CHR 0xB7, CHR 0xB2, CHR 0xE5, CHR 0x8F, CHR 0x91, CHR 0xE9, CHR 0x80, CHR 0x81]),
     (''SHARD_REDO_LIMIT'', [CHR 0xE5, CHR 0x88, CHR 0x86, CHR 0xE7, CHR 0x89, CHR 0x87, CHR 0xE9, CHR 0x87, CHR 0x8D, CHR 0xE5, CHR 0x81, CHR 0x9A, CHR 0xE5, CHR 0xB7, CHR 0xB2, CHR 0xE8, CHR 0xBE, CHR 0xBE, CHR 0xE4, CHR 0xB8, CHR 0x8A, CHR 0xE9, CHR 0x99, CHR 0x90]),
     (''SKIPPED'', [CHR 0xE5, CHR 0xB7, CHR 0xB2, CHR 0xE8, CHR 0xB7, CHR 0xB3, CHR 0xE8, CHR 0xBF, CHR 0x87]),
     (''SPEC_REVIEW_REQUESTED'', [CHR 0xE7, CHR 0xAD, CHR 0x89, CHR 0xE5, CHR 0xBE, CHR 0x85, CHR 0xE8, CHR 0xA7, CHR 0x84, CHR 0xE6, CHR 0xA0, CHR 0xBC, CHR 0xE5, CHR 0xAE, CHR 0xA1, CHR 0xE9, CHR 0x98, CHR 0x85]),
     (''TEST_PASS'', [CHR 0xE6, CHR 0xB5, CHR 0x8B, CHR 0xE8, CHR 0xAF, CHR 0x95, CHR 0xE9, CHR 0x80, CHR 0x9A, CHR 0xE8, CHR 0xBF, CHR 0x87]),
     (''TIMEOUT'', [CHR 0xE8, CHR 0xB6, CHR 0x85, CHR 0xE6, CHR 0x97, CHR 0xB6])]"

definition EN_LABELS :: "(string \<times> string) list" where
  "EN_LABELS = [
     (''APPROVED'', ''Approved''),
     (''ARCHIVED'', ''Archived''),
     (''BLOCKED'', ''Blocked''),
     (''CLOSED'', ''Closed''),
     (''CONVERGENCE_READY'', ''Ready to finalize''),
     (''CONTEXT_BUDGET_EXCEEDED'', ''Context budget needs attention''),
     (''COST_GUARD_TRIPPED'', ''Cost guard needs review''),
     (''DONE'', ''Done''),
     (''DRAFT'', ''Ready for review''),
     (''FAILED'', ''Failed''),
     (''FAIL'', ''Failed review''),
     (''FINALIZED'', ''Finalized''),
     (''HUMAN_INTERVENTION'', ''Needs human input''),
     (''IMPLEMENTATION_RECORD'', ''Implementation recorded''),
     (''IN_LOOP'', ''In progress''),
     (''IN_PROGRESS'', ''In progress''),
     (''ISSUE_NORMALIZED'', ''Request prepared''),
     (''ISSUE_RECEIVED'', ''Request received''),
     (''LOOP_STEP'', ''Loop advanced''),
     (''NEEDS_CLARIFICATION'', ''Needs clarification''),
     (''NEEDS_WORK'', ''Needs work''),
     (''NORMALIZED'', ''Prepared''),
     (''NOTIFICATION_RECORDED'', ''Notification saved''),
     (''OPEN'', ''Open''),
     (''PASS'', ''Passed''),
     (''PAUSED'', ''Paused''),
     (''PENDING'', ''Pending''),
     (''PHASE_0_INTAKE'', ''Intake''),
     (''PHASE_1_SPEC'', ''Spec''),
     (''PHASE_2_REVIEW'', ''Review''),
     (''PHASE_3_DECOMPOSE'', ''Decompose''),
     (''PHASE_4_IMPLEMENT'', ''Implement''),
     (''PHASE_5_REVIEW'', ''Shard Review''),
     (''PHASE_6_CONVERGE'', ''Converge''),
     (''PHASE_7_GLOBAL_REVIEW'', ''Global Review''),
     (''PHASE_8_ANNOTATE'', ''Annotate''),
     (''RECORDED'', ''Saved''),
     (''REJECTED'', ''Rejected''),
     (''RELOOP_LIMIT'', ''Re-loop limit reached''),
     (''REVIEW_RECORD'', ''Review recorded''),
     (''REVISION_REQUESTED'', ''Revision requested''),
     (''SENT'', ''Sent''),
     (''SHARD_REDO_LIMIT'', ''Shard retry limit reached''),
     (''SKIPPED'', ''Skipped''),
     (''SPEC_REVIEW_REQUESTED'', ''Spec review requested''),
     (''TEST_PASS'', ''Test passed''),
     (''TIMEOUT'', ''Timed out'')]"

definition is_lower_letter :: "char \<Rightarrow> bool" where
  "is_lower_letter c \<longleftrightarrow> (97::nat) \<le> of_char c \<and> of_char c \<le> (122::nat)"

definition is_upper_letter :: "char \<Rightarrow> bool" where
  "is_upper_letter c \<longleftrightarrow> (65::nat) \<le> of_char c \<and> of_char c \<le> (90::nat)"

definition cap_char :: "char \<Rightarrow> char" where
  "cap_char c = (if is_lower_letter c then char_of (of_char c - 32 :: nat) else c)"

text \<open>\<open>replaceAll\<close> of one character.\<close>

definition replace_char :: "char \<Rightarrow> char \<Rightarrow> string \<Rightarrow> string" where
  "replace_char a b s = map (\<lambda>c. if c = a then b else c) s"

definition normalizeDisplayKey :: "string \<Rightarrow> string" where
  "normalizeDisplayKey value0 = replace_char (CHR '' '') (CHR ''_'')
     (replace_char (CHR ''-'') (CHR ''_'') (map cap_char (js_trim value0)))"

text \<open>\<open>replace(/([a-z0-9])([A-Z])/g, '$1 $2')\<close>.\<close>

fun split_camel :: "string \<Rightarrow> string" where
  "split_camel (a # b # cs) = (if (is_lower_letter a \<or> is_digit a) \<and> is_upper_letter b
     then a # CHR '' '' # b # split_camel cs else a # split_camel (b # cs))"
| "split_camel s = s"

text \<open>\<open>replace(/\b\w/g, c => c.toUpperCase())\<close>; the flag says whether the character before is of a word.\<close>

fun capitalize_words :: "bool \<Rightarrow> string \<Rightarrow> string" where
  "capitalize_words inword [] = []"
| "capitalize_words inword (c # cs) =
     (let w = is_lower_letter c \<or> is_upper_letter c \<or> is_digit c \<or> c = CHR ''_'' in
      (if w \<and> \<not> inword then cap_char c else c) # capitalize_words w cs)"

definition toTitleCase :: "string \<Rightarrow> string" where
  "toTitleCase value0 = capitalize_words False (to_lower (replace_char (CHR ''_'') (CHR '' '')
     (replace_char (CHR ''-'') (CHR '' '') (split_camel (js_trim value0)))))"

definition getLoopDisplayLocale :: "string option \<Rightarrow> bool" where
  "getLoopDisplayLocale locale0 \<longleftrightarrow> (case locale0 of None \<Rightarrow> False | Some l \<Rightarrow> starts_with ''zh'' (to_lower l))"

definition formatLoopLabel :: "string option \<Rightarrow> string option \<Rightarrow> string" where
  "formatLoopLabel value0 locale0 = (case value0 of None \<Rightarrow> [] | Some v \<Rightarrow>
     if v = [] then []
     else case map_of (if getLoopDisplayLocale locale0 then ZH_LABELS else EN_LABELS) (normalizeDisplayKey v) of
       Some l \<Rightarrow> l | None \<Rightarrow> toTitleCase v)"

definition PHASE_LABELS :: "(string \<times> string) list" where
  "PHASE_LABELS = [(''PHASE_0_INTAKE'', ''Intake''), (''PHASE_1_SPEC'', ''Spec''), (''PHASE_2_REVIEW'', ''Review''),
     (''PHASE_3_DECOMPOSE'', ''Decompose''), (''PHASE_4_IMPLEMENT'', ''Implement''),
     (''PHASE_5_REVIEW'', ''Shard Review''), (''PHASE_6_CONVERGE'', ''Converge''),
     (''PHASE_7_GLOBAL_REVIEW'', ''Global Review''), (''PHASE_8_ANNOTATE'', ''Annotate''),
     (''CLOSED'', ''Closed''), (''PAUSED'', ''Paused'')]"

definition formatPhase :: "string \<Rightarrow> string" where
  "formatPhase phase = (case map_of PHASE_LABELS phase of Some l \<Rightarrow> l
     | None \<Rightarrow> replace_char (CHR ''_'') (CHR '' '') (replace_first ''PHASE_'' ''P'' phase))"

end
