(* ===== verification/Agent_Runtime.thy ===== *)
theory Agent_Runtime
  imports Dashboard
begin

text \<open>
  The status of the agents: \<open>agentRuntime\<close> of \<open>loops.service.ts\<close>. It is derived from one page of the
  list and the costs; what the runtime detection adds to the response is not part of the model.
\<close>

record agent_definition =
  ad_id :: string
  ad_label :: string
  ad_phase :: loop_phase
  ad_supportedPhases :: "loop_phase list"

datatype agent_status = AGENT_RUNNING | AGENT_ATTENTION | AGENT_IDLE

record agent_item =
  ai_id :: string
  ai_label :: string
  ai_status :: agent_status
  ai_phase :: loop_phase
  ai_supportedPhases :: "loop_phase list"
  ai_issueId :: "string option"
  ai_issueTitle :: "string option"
  ai_href :: "string option"
  ai_meta :: string
  ai_diagnostics :: "string list"
  ai_updated :: "timestamp option"

record agent_diagnostic =
  gd_id :: string
  gd_agentId :: string
  gd_issueId :: string
  gd_title :: string
  gd_href :: string
  gd_level :: metrics_level
  gd_reason :: string
  gd_meta :: string
  gd_updated :: "timestamp option"

record agent_runtime_response =
  ru_running :: nat
  ru_attention :: nat
  ru_idle :: nat
  ru_total :: nat
  ru_agents :: "agent_item list"
  ru_diagnostics :: "agent_diagnostic list"

definition AGENT_RUNTIME_DEFINITIONS :: "agent_definition list" where
  "AGENT_RUNTIME_DEFINITIONS =
    [\<lparr>ad_id = ''spec-review-agent'', ad_label = ''Spec Review Agent'', ad_phase = PHASE_2_REVIEW,
      ad_supportedPhases = [PHASE_2_REVIEW]\<rparr>,
     \<lparr>ad_id = ''implementation-agent'', ad_label = ''Implementation Agent'', ad_phase = PHASE_4_IMPLEMENT,
      ad_supportedPhases = [PHASE_4_IMPLEMENT]\<rparr>,
     \<lparr>ad_id = ''shard-review-agent'', ad_label = ''Shard Review Agent'', ad_phase = PHASE_5_REVIEW,
      ad_supportedPhases = [PHASE_5_REVIEW]\<rparr>,
     \<lparr>ad_id = ''global-review-agent'', ad_label = ''Global Review Agent'', ad_phase = PHASE_7_GLOBAL_REVIEW,
      ad_supportedPhases = [PHASE_7_GLOBAL_REVIEW]\<rparr>]"

definition row_is_active :: "loop_list_item \<Rightarrow> bool" where
  "row_is_active item \<longleftrightarrow> row_status item \<notin> {ISSUE_CLOSED, ISSUE_ARCHIVED, ISSUE_REJECTED}"

definition cost_tripped_of :: "loop_cost_item option \<Rightarrow> bool" where
  "cost_tripped_of cost \<longleftrightarrow> (case cost of None \<Rightarrow> False | Some c \<Rightarrow> ci_tripped c)"

definition buildAgentDiagnostics :: "loop_list_item \<Rightarrow> loop_cost_item option \<Rightarrow> string list" where
  "buildAgentDiagnostics item cost =
     (if shown_paused item then [''Agent execution is paused''] else [])
     @ (if cost_tripped_of cost then [''Cost guard tripped''] else [])
     @ (if map_option st_phase (li_state item) = Some PHASE_2_REVIEW
        then [''Spec draft is waiting for human review''] else [])
     @ (if map_option st_phase (li_state item) = Some PHASE_7_GLOBAL_REVIEW
        then [''Global review is waiting to complete''] else [])
     @ (case row_verdict item of
          Some v \<Rightarrow> if v \<noteq> PASS then [''Global '' @ verdict_str v] else []
        | None \<Rightarrow> [])"

definition agentDiagnosticLevel :: "string \<Rightarrow> metrics_level" where
  "agentDiagnosticLevel reason =
     (if reason = ''Cost guard tripped'' \<or> contains ''FAIL'' reason then LEVEL_CRITICAL
      else if contains ''waiting'' reason \<or> contains ''paused'' reason then LEVEL_WARNING else LEVEL_INFO)"

definition supports :: "agent_definition \<Rightarrow> loop_list_item \<Rightarrow> bool" where
  "supports a item \<longleftrightarrow> (case li_state item of None \<Rightarrow> False
     | Some st \<Rightarrow> st_phase st \<in> set (ad_supportedPhases a))"

definition idle_agent :: "agent_definition \<Rightarrow> agent_item" where
  "idle_agent a = \<lparr>ai_id = ad_id a, ai_label = ad_label a, ai_status = AGENT_IDLE, ai_phase = ad_phase a,
     ai_supportedPhases = ad_supportedPhases a, ai_issueId = None, ai_issueTitle = None, ai_href = None,
     ai_meta = phase_label (ad_phase a), ai_diagnostics = [], ai_updated = None\<rparr>"

definition busy_agent :: "agent_definition \<Rightarrow> loop_list_item \<Rightarrow> loop_cost_item option \<Rightarrow> agent_item" where
  "busy_agent a item cost = (let diagnostics = buildAgentDiagnostics item cost in
     \<lparr>ai_id = ad_id a, ai_label = ad_label a,
      ai_status = (if diagnostics \<noteq> [] then AGENT_ATTENTION else AGENT_RUNNING), ai_phase = ad_phase a,
      ai_supportedPhases = ad_supportedPhases a, ai_issueId = Some (i_id (li_issue item)),
      ai_issueTitle = Some (i_title (li_issue item)), ai_href = Some (href_of item),
      ai_meta = phase_label (case_option (ad_phase a) st_phase (li_state item)) @ ('' '' @ [CHR 0xC2, CHR 0xB7] @ '' round '')
        @ nat_str (case_option 1 st_round (li_state item)),
      ai_diagnostics = diagnostics,
      ai_updated = Some (case_option (i_updated (li_issue item)) st_updated (li_state item))\<rparr>)"

definition agent_of :: "loop_list_item list \<Rightarrow> loop_cost_item list \<Rightarrow> agent_definition \<Rightarrow> agent_item" where
  "agent_of items costs a = (case List.find (supports a) (filter row_is_active items) of
     None \<Rightarrow> idle_agent a
   | Some item \<Rightarrow> busy_agent a item (cost_for costs (i_id (li_issue item))))"

text \<open>An agent without an issue, or with an empty text where it needs one, has no diagnostics.\<close>

definition diagnostics_of :: "agent_item \<Rightarrow> agent_diagnostic list" where
  "diagnostics_of a = (case (ai_issueId a, ai_issueTitle a, ai_href a) of
     (Some i, Some t, Some h) \<Rightarrow> if i = [] \<or> t = [] \<or> h = [] then []
       else map (\<lambda>(n, reason). \<lparr>gd_id = ai_id a @ ''-'' @ i @ ''-'' @ nat_str n, gd_agentId = ai_id a,
         gd_issueId = i, gd_title = t, gd_href = h, gd_level = agentDiagnosticLevel reason,
         gd_reason = reason, gd_meta = ai_meta a, gd_updated = ai_updated a\<rparr>)
         (enumerate 0 (ai_diagnostics a))
   | _ \<Rightarrow> [])"

definition agentRuntime :: "loop_list_item list \<Rightarrow> loop_cost_item list \<Rightarrow> agent_runtime_response" where
  "agentRuntime items costs = (let agents = map (agent_of items costs) AGENT_RUNTIME_DEFINITIONS in
     \<lparr>ru_running = count_where (\<lambda>a. ai_status a = AGENT_RUNNING) agents,
      ru_attention = count_where (\<lambda>a. ai_status a = AGENT_ATTENTION) agents,
      ru_idle = count_where (\<lambda>a. ai_status a = AGENT_IDLE) agents,
      ru_total = length agents, ru_agents = agents,
      ru_diagnostics = concat (map diagnostics_of agents)\<rparr>)"

end
