(* ===== verification/Web_Board.thy ===== *)
theory Web_Board
  imports Web_Display Agent_Runtime
begin

text \<open>
  The dashboard of the web application, first half of \<open>loops-dashboard-model.ts\<close>: the totals, the risk
  and aging queues, the review inbox, the board, the exception center and the guide. All of it is
  computed from the rows of the list and the costs. \<open>lc\<close> is \<open>localeCompare\<close>, \<open>iso_of\<close> prints a time
  and \<open>num\<close> a number.
\<close>

subsection \<open>Totals\<close>

text \<open>The map from ids to costs, which the result also holds, is \<open>cost_for\<close> here.\<close>

record web_totals =
  wt_items :: "loop_list_item list"
  wt_active :: nat
  wt_attention :: nat
  wt_closed :: nat
  wt_costTripped :: "loop_cost_item list"
  wt_inLoop :: nat
  wt_minCallsRemaining :: rat
  wt_minTokensRemaining :: rat
  wt_paused :: nat
  wt_phaseCounts :: "(loop_phase \<times> nat) list"
  wt_maxPhaseCount :: nat
  wt_total :: nat

definition aggregateLoops :: "list_response \<Rightarrow> loop_cost_item list \<Rightarrow> web_totals" where
  "aggregateLoops lr costs = (let items = lr_list lr; counts = tally row_phase items in \<lparr>
     wt_items = items,
     wt_active = count_where row_is_active items,
     wt_attention = count_where shown_paused items + count_where ci_tripped costs
       + count_where (\<lambda>x. i_priority (li_issue x) = P0 \<or> row_verdict x = Some FAIL) items,
     wt_closed = count_where (\<lambda>x. row_status x = ISSUE_CLOSED) items,
     wt_costTripped = filter ci_tripped costs,
     wt_inLoop = count_where (\<lambda>x. row_status x = ISSUE_IN_LOOP) items,
     wt_minCallsRemaining = min_or_zero (map ci_callsRemaining costs),
     wt_minTokensRemaining = min_or_zero (map ci_tokensRemaining costs),
     wt_paused = count_where shown_paused items,
     wt_phaseCounts = counts,
     wt_maxPhaseCount = foldl max 1 (map snd counts),
     wt_total = lr_total lr\<rparr>)"

subsection \<open>What blocks a row\<close>

definition verdict_not_pass :: "loop_list_item \<Rightarrow> bool" where
  "verdict_not_pass item \<longleftrightarrow> row_verdict item \<noteq> None \<and> row_verdict item \<noteq> Some PASS"

definition row_blocked :: "loop_list_item \<Rightarrow> loop_cost_item option \<Rightarrow> bool" where
  "row_blocked item cost \<longleftrightarrow> row_paused item \<or> cost_tripped_of cost \<or> verdict_not_pass item"

definition row_finalized :: "loop_list_item \<Rightarrow> bool" where
  "row_finalized item \<longleftrightarrow> Option.bind (li_state item) st_finalized = Some True"

definition state_phase :: "loop_list_item \<Rightarrow> loop_phase option" where
  "state_phase item = map_option st_phase (li_state item)"

definition row_delivered :: "loop_list_item \<Rightarrow> bool" where
  "row_delivered item \<longleftrightarrow> row_status item = ISSUE_CLOSED \<or> state_phase item = Some PHASE_CLOSED \<or> row_finalized item"

definition row_issueId :: "loop_list_item \<Rightarrow> string" where
  "row_issueId item = i_id (li_issue item)"

definition row_round :: "loop_list_item \<Rightarrow> nat" where
  "row_round item = case_option 0 st_round (li_state item)"

subsection \<open>Risks\<close>

record web_risk_item =
  wk_id :: string
  wk_title :: string
  wk_href :: string
  wk_level :: metrics_level
  wk_reason :: string
  wk_meta :: string

definition web_risk :: "loop_list_item \<Rightarrow> string \<Rightarrow> metrics_level \<Rightarrow> string \<Rightarrow> string \<Rightarrow> web_risk_item" where
  "web_risk item suffix level reason meta = \<lparr>wk_id = row_issueId item @ ''-'' @ suffix,
     wk_title = i_title (li_issue item), wk_href = href_of item, wk_level = level, wk_reason = reason,
     wk_meta = meta\<rparr>"

definition web_risks_of ::
    "(rat \<Rightarrow> string) \<Rightarrow> loop_cost_item option \<Rightarrow> loop_list_item \<Rightarrow> web_risk_item list" where
  "web_risks_of num cost item =
     (case li_state item of Some st \<Rightarrow>
        if st_paused st then [web_risk item ''paused'' LEVEL_CRITICAL ''Paused'' (phase_str (st_phase st))] else []
      | None \<Rightarrow> [])
     @ (case cost of Some c \<Rightarrow>
        if ci_tripped c then [web_risk item ''cost'' LEVEL_CRITICAL ''Cost guard tripped''
          (num (ci_callsRemaining c) @ '' calls remaining'')] else []
      | None \<Rightarrow> [])
     @ (if verdict_not_pass item then [web_risk item ''verdict'' LEVEL_WARNING ''Global review needs work''
          (''round '' @ nat_str (row_round item))] else [])
     @ (if i_priority (li_issue item) = P0 \<or> i_priority (li_issue item) = P1
        then [web_risk item ''priority'' (if i_priority (li_issue item) = P0 then LEVEL_CRITICAL else LEVEL_WARNING)
          (priority_str (i_priority (li_issue item)) @ '' priority'') (issue_status_str (row_status item))] else [])"

definition web_buildRiskQueue ::
    "(rat \<Rightarrow> string) \<Rightarrow> loop_list_item list \<Rightarrow> loop_cost_item list \<Rightarrow> web_risk_item list" where
  "web_buildRiskQueue num items costs =
     take 6 (concat (map (\<lambda>item. web_risks_of num (cost_for costs (row_issueId item)) item) items))"

subsection \<open>Aging\<close>

record aging_item =
  gi_id :: string
  gi_title :: string
  gi_href :: string
  gi_level :: metrics_level
  gi_ageHours :: nat
  gi_phase :: loop_phase
  gi_updated :: timestamp

definition warningHours :: nat where "warningHours = 24"
definition criticalHours :: nat where "criticalHours = 72"

definition row_updated :: "loop_list_item \<Rightarrow> timestamp" where
  "row_updated item = case_option (i_updated (li_issue item)) st_updated (li_state item)"

definition age_hours :: "timestamp \<Rightarrow> loop_list_item \<Rightarrow> nat" where
  "age_hours t item = (t - row_updated item) div 3600000"

definition aging_of :: "timestamp \<Rightarrow> loop_list_item \<Rightarrow> aging_item" where
  "aging_of t item = (let hours = age_hours t item in
     \<lparr>gi_id = row_issueId item @ ''-aging'', gi_title = i_title (li_issue item), gi_href = href_of item,
      gi_level = (if hours \<ge> criticalHours then LEVEL_CRITICAL
        else if hours \<ge> warningHours then LEVEL_WARNING else LEVEL_INFO),
      gi_ageHours = hours, gi_phase = row_phase item, gi_updated = row_updated item\<rparr>)"

definition buildAgingQueue :: "loop_list_item list \<Rightarrow> timestamp \<Rightarrow> aging_item list" where
  "buildAgingQueue items t = take 6 (js_sort (\<lambda>a b. nat_cmp (gi_ageHours b) (gi_ageHours a))
     (filter (\<lambda>x. gi_ageHours x \<ge> warningHours) (map (aging_of t) (filter row_is_active items))))"

subsection \<open>Review inbox\<close>

datatype web_gate_kind = WG_PRODUCT | WG_ARCHITECTURE | WG_CODE | WG_SECURITY | WG_RELEASE | WG_EXCEPTION

datatype inbox_source = FROM_ACTION | FROM_NOTIFICATION

record inbox_item =
  ib_id :: string
  ib_title :: string
  ib_href :: string
  ib_source :: inbox_source
  ib_priority :: metrics_level
  ib_gateKind :: web_gate_kind
  ib_label :: string
  ib_meta :: string
  ib_owner :: "string option"
  ib_slaHours :: "nat option"
  ib_ageHours :: "nat option"
  ib_evidence :: "string option"

record inbox_group =
  ig_gateKind :: web_gate_kind
  ig_priority :: metrics_level
  ig_count :: nat
  ig_items :: "inbox_item list"

fun next_action_str :: "next_action \<Rightarrow> string" where
  "next_action_str ACT_GENERATE_SPEC = ''generate-spec''"
| "next_action_str ACT_REVIEW_SPEC = ''review-spec''"
| "next_action_str ACT_DECOMPOSE = ''decompose''"
| "next_action_str ACT_RUN_STEP = ''run-step''"
| "next_action_str ACT_GLOBAL_REVIEW = ''global-review''"
| "next_action_str ACT_RELOOP = ''reloop''"
| "next_action_str ACT_FINALIZE = ''finalize''"
| "next_action_str ACT_RESUME = ''resume''"
| "next_action_str ACT_CLOSED = ''closed''"

definition limit_kinds :: "notification_kind list" where
  "limit_kinds = [COST_GUARD_TRIPPED, SHARD_REDO_LIMIT, RELOOP_LIMIT, CONTEXT_BUDGET_EXCEEDED]"

definition HUMAN_NOTIFICATION_KINDS :: "notification_kind list" where
  "HUMAN_NOTIFICATION_KINDS = [SPEC_REVIEW_REQUESTED, HUMAN_INTERVENTION, COST_GUARD_TRIPPED,
     CONVERGENCE_READY, SHARD_REDO_LIMIT, RELOOP_LIMIT, CONTEXT_BUDGET_EXCEEDED]"

definition isHumanDecisionAction :: "metrics_action_item \<Rightarrow> bool" where
  "isHumanDecisionAction a \<longleftrightarrow> ma_category a = CATEGORY_DECISION
     \<or> ma_action a \<in> {ACT_REVIEW_SPEC, ACT_RELOOP}"

definition converging_phase :: "loop_phase \<Rightarrow> bool" where
  "converging_phase p \<longleftrightarrow> p \<in> {PHASE_6_CONVERGE, PHASE_7_GLOBAL_REVIEW, PHASE_8_ANNOTATE}"

text \<open>The argument is an object whose fields are all optional; the callers give a label.\<close>

definition inferReviewGateKind ::
    "next_action option \<Rightarrow> notification_kind option \<Rightarrow> string \<Rightarrow> loop_phase option \<Rightarrow> web_gate_kind" where
  "inferReviewGateKind act kind label0 phase = (let label = to_lower label0 in
     if (case kind of Some k \<Rightarrow> k \<in> set limit_kinds | None \<Rightarrow> False) \<or> act = Some ACT_RELOOP then WG_EXCEPTION
     else if (case phase of Some p \<Rightarrow> converging_phase p | None \<Rightarrow> False) then WG_RELEASE
     else if contains ''security'' label then WG_SECURITY
     else if contains ''architecture'' label \<or> contains ''design'' label then WG_ARCHITECTURE
     else if contains ''code'' label \<or> contains ''implementation'' label then WG_CODE
     else if contains ''release'' label \<or> contains ''ship'' label \<or> contains ''final'' label then WG_RELEASE
     else WG_PRODUCT)"

text \<open>\<open>' . '\<close>, the separator of the descriptions.\<close>

definition dot_sep :: string where
  "dot_sep = [CHR '' '', CHR 0xC2, CHR 0xB7, CHR '' '']"

definition action_meta :: "metrics_action_item \<Rightarrow> string" where
  "action_meta a = formatPhase (phase_str (case_option PHASE_0_INTAKE id (ma_phase a))) @ dot_sep
     @ priority_str (ma_priority a)"

definition inbox_of_action :: "metrics_action_item \<Rightarrow> inbox_item" where
  "inbox_of_action a = \<lparr>ib_id = ''action-'' @ ma_issueId a @ ''-'' @ next_action_str (ma_action a),
     ib_title = ma_title a, ib_href = ma_href a, ib_source = FROM_ACTION,
     ib_priority = (if ma_action a = ACT_RELOOP then LEVEL_CRITICAL else LEVEL_WARNING),
     ib_gateKind = inferReviewGateKind (Some (ma_action a)) None (ma_label a) (ma_phase a),
     ib_label = ma_label a, ib_meta = action_meta a, ib_owner = None, ib_slaHours = None,
     ib_ageHours = None, ib_evidence = None\<rparr>"

definition inbox_of_notification ::
    "(timestamp \<Rightarrow> string) \<Rightarrow> string option \<Rightarrow> loop_notification \<Rightarrow> inbox_item" where
  "inbox_of_notification iso_of locale0 n = \<lparr>ib_id = ''notification-'' @ no_id n, ib_title = no_title n,
     ib_href = (case no_actionHref n of Some h \<Rightarrow> h | None \<Rightarrow> ''/loops/'' @ no_issueId n),
     ib_source = FROM_NOTIFICATION,
     ib_priority = (if no_kind n \<in> set limit_kinds then LEVEL_CRITICAL else LEVEL_WARNING),
     ib_gateKind = inferReviewGateKind None (Some (no_kind n)) (no_title n) None,
     ib_label = formatLoopLabel (Some (notification_kind_str (no_kind n))) locale0,
     ib_meta = formatLoopLabel (Some (notification_status_str (no_status n))) locale0 @ dot_sep
       @ iso_of (no_created n),
     ib_owner = None, ib_slaHours = None, ib_ageHours = None, ib_evidence = None\<rparr>"

fun level_rank :: "metrics_level \<Rightarrow> nat" where
  "level_rank LEVEL_CRITICAL = 0"
| "level_rank LEVEL_WARNING = 1"
| "level_rank LEVEL_INFO = 2"

fun web_gate_rank :: "web_gate_kind \<Rightarrow> nat" where
  "web_gate_rank WG_EXCEPTION = 0"
| "web_gate_rank WG_PRODUCT = 1"
| "web_gate_rank WG_ARCHITECTURE = 2"
| "web_gate_rank WG_CODE = 3"
| "web_gate_rank WG_SECURITY = 4"
| "web_gate_rank WG_RELEASE = 5"

definition inbox_cmp :: "(string \<Rightarrow> string \<Rightarrow> int) \<Rightarrow> inbox_item \<Rightarrow> inbox_item \<Rightarrow> int" where
  "inbox_cmp lc a b = cmp_then (nat_cmp (level_rank (ib_priority a)) (level_rank (ib_priority b)))
     (lc (ib_title a) (ib_title b))"

definition buildReviewInbox ::
    "(string \<Rightarrow> string \<Rightarrow> int) \<Rightarrow> (timestamp \<Rightarrow> string) \<Rightarrow> metrics_action_item list \<Rightarrow> loop_notification list
     \<Rightarrow> string option \<Rightarrow> inbox_item list" where
  "buildReviewInbox lc iso_of actions notifications locale0 = take 8 (js_sort (inbox_cmp lc)
     (map inbox_of_action (filter isHumanDecisionAction actions)
      @ map (inbox_of_notification iso_of locale0)
          (filter (\<lambda>n. no_kind n \<in> set HUMAN_NOTIFICATION_KINDS) notifications)))"

definition inbox_group_of ::
    "(string \<Rightarrow> string \<Rightarrow> int) \<Rightarrow> inbox_item list \<Rightarrow> web_gate_kind \<Rightarrow> inbox_group" where
  "inbox_group_of lc items k = (let sorted_items = js_sort (inbox_cmp lc) (filter (\<lambda>x. ib_gateKind x = k) items) in
     \<lparr>ig_gateKind = k, ig_priority = (case sorted_items of [] \<Rightarrow> LEVEL_INFO | x # _ \<Rightarrow> ib_priority x),
      ig_count = length sorted_items, ig_items = sorted_items\<rparr>)"

definition group_cmp :: "inbox_group \<Rightarrow> inbox_group \<Rightarrow> int" where
  "group_cmp a b = cmp_then (nat_cmp (level_rank (ig_priority a)) (level_rank (ig_priority b)))
     (nat_cmp (web_gate_rank (ig_gateKind a)) (web_gate_rank (ig_gateKind b)))"

definition buildReviewInboxGroups :: "(string \<Rightarrow> string \<Rightarrow> int) \<Rightarrow> inbox_item list \<Rightarrow> inbox_group list" where
  "buildReviewInboxGroups lc items =
     js_sort group_cmp (map (inbox_group_of lc items) (js_set (map ib_gateKind items)))"

text \<open>Conflicts of the second opinion, for loops that converge.\<close>

definition gate_conflict :: "loop_list_item \<Rightarrow> bool" where
  "gate_conflict item \<longleftrightarrow>
     (case li_releaseGate item of Some g \<Rightarrow> \<not> ck_secondOpinionPassed (rel_checklist g) | None \<Rightarrow> False)"

definition second_opinion_open :: "loop_list_item \<Rightarrow> bool" where
  "second_opinion_open item \<longleftrightarrow> converging_phase (row_phase item)
     \<and> gate_conflict item"

definition conflict_item :: "timestamp \<Rightarrow> loop_list_item \<Rightarrow> inbox_item" where
  "conflict_item t item = (let hours = age_hours t item;
       conflicts = (if gate_conflict item then 1 else 0 :: nat) in
     \<lparr>ib_id = row_issueId item @ ''-second-opinion-conflict'', ib_title = i_title (li_issue item),
      ib_href = href_of item, ib_source = FROM_ACTION,
      ib_priority = (if hours \<ge> 24 then LEVEL_CRITICAL else LEVEL_WARNING), ib_gateKind = WG_RELEASE,
      ib_label = ''Second opinion conflict'',
      ib_meta = ''Phase '' @ formatPhase (case_option [] phase_str (state_phase item)) @ dot_sep
        @ nat_str conflicts @ '' conflict(s)'' @ dot_sep @ ''SLA 24h'',
      ib_owner = Some ''Release reviewer'', ib_slaHours = Some 24, ib_ageHours = Some hours,
      ib_evidence = (case li_releaseGate item of None \<Rightarrow> None
        | Some g \<Rightarrow> (case rel_blocker g of Some b \<Rightarrow> Some b | None \<Rightarrow> Some (rel_id g)))\<rparr>)"

definition buildSecondOpinionConflictItems :: "loop_list_item list \<Rightarrow> timestamp \<Rightarrow> inbox_item list" where
  "buildSecondOpinionConflictItems items t = map (conflict_item t) (filter second_opinion_open items)"

subsection \<open>Board\<close>

datatype board_column = COL_BACKLOG | COL_SPEC_REVIEW | COL_RUNNING | COL_BLOCKED | COL_READY | COL_DELIVERED

datatype board_mode = MODE_PLAN | MODE_CODE | MODE_REVIEW | MODE_RECOVERY | MODE_DELIVERED

datatype board_gate = HUMAN_SPEC | HUMAN_EXCEPTION | HUMAN_RELEASE | HUMAN_NONE | HUMAN_DONE

record board_item =
  bi_id :: string
  bi_title :: string
  bi_href :: string
  bi_priority :: loop_priority
  bi_mode :: board_mode
  bi_humanGate :: board_gate
  bi_evidence :: string
  bi_gitRef :: string
  bi_prState :: string
  bi_blocker :: "string option"
  bi_meta :: string

definition isReadyToShipCandidate :: "loop_list_item \<Rightarrow> bool" where
  "isReadyToShipCandidate item \<longleftrightarrow> row_verdict item = Some PASS
     \<or> (case state_phase item of Some p \<Rightarrow> converging_phase p | None \<Rightarrow> False)"

definition inferBoardColumn :: "loop_list_item \<Rightarrow> loop_cost_item option \<Rightarrow> board_column" where
  "inferBoardColumn item cost =
     (if row_delivered item then COL_DELIVERED
      else if row_blocked item cost then COL_BLOCKED
      else if (case li_state item of None \<Rightarrow> True
        | Some st \<Rightarrow> st_specVersion st = ''v0'' \<or> st_phase st = PHASE_0_INTAKE \<or> st_phase st = PHASE_1_SPEC)
      then COL_BACKLOG
      else if state_phase item = Some PHASE_2_REVIEW then COL_SPEC_REVIEW
      else if isReadyToShipCandidate item then COL_READY
      else COL_RUNNING)"

definition inferMode :: "loop_list_item \<Rightarrow> board_mode" where
  "inferMode item =
     (if row_delivered item then MODE_DELIVERED
      else if row_paused item \<or> row_verdict item = Some FAIL then MODE_RECOVERY
      else case state_phase item of None \<Rightarrow> MODE_CODE
      | Some p \<Rightarrow> if p \<in> {PHASE_0_INTAKE, PHASE_1_SPEC, PHASE_3_DECOMPOSE} then MODE_PLAN
          else if p \<in> {PHASE_2_REVIEW, PHASE_6_CONVERGE, PHASE_7_GLOBAL_REVIEW} then MODE_REVIEW
          else MODE_CODE)"

definition inferHumanGate :: "loop_list_item \<Rightarrow> loop_cost_item option \<Rightarrow> board_gate" where
  "inferHumanGate item cost =
     (if row_delivered item then HUMAN_DONE
      else if row_blocked item cost then HUMAN_EXCEPTION
      else if state_phase item = Some PHASE_2_REVIEW then HUMAN_SPEC
      else if isReadyToShipCandidate item then HUMAN_RELEASE
      else HUMAN_NONE)"

definition inferBlocker :: "loop_list_item \<Rightarrow> loop_cost_item option \<Rightarrow> string option" where
  "inferBlocker item cost =
     (if cost_tripped_of cost then Some ''Cost guard''
      else if row_paused item then Some ''Paused''
      else case row_verdict item of
        Some v \<Rightarrow> if v \<noteq> PASS then Some (''Global '' @ verdict_str v) else None
      | None \<Rightarrow> None)"

definition shards_done :: "loop_list_item \<Rightarrow> nat" where
  "shards_done item = case_option 0 st_shardsDone (li_state item)"

definition shards_total :: "loop_list_item \<Rightarrow> nat" where
  "shards_total item = case_option 0 st_shardsTotal (li_state item)"

definition shards_ratio :: "loop_list_item \<Rightarrow> string" where
  "shards_ratio item = nat_str (shards_done item) @ ''/'' @ nat_str (shards_total item) @ '' shards''"

definition board_item_of :: "loop_list_item \<Rightarrow> loop_cost_item option \<Rightarrow> board_item" where
  "board_item_of item cost = \<lparr>bi_id = row_issueId item, bi_title = i_title (li_issue item), bi_href = href_of item,
     bi_priority = i_priority (li_issue item), bi_mode = inferMode item, bi_humanGate = inferHumanGate item cost,
     bi_evidence = (if shards_total item > 0 then shards_ratio item else ''No shards yet''),
     bi_gitRef = ''loops/'' @ row_issueId item,
     bi_prState = (if row_status item = ISSUE_CLOSED \<or> row_finalized item then ''Ready for audit''
       else if isReadyToShipCandidate item then ''Ready to ship'' else ''Pending PR''),
     bi_blocker = inferBlocker item cost,
     bi_meta = formatPhase (phase_str (row_phase item)) @ dot_sep @ ''round '' @ nat_str (row_round item)\<rparr>"

fun priority_rank :: "loop_priority \<Rightarrow> nat" where
  "priority_rank P0 = 0" | "priority_rank P1 = 1" | "priority_rank P2 = 2" | "priority_rank P3 = 3"

definition board_cmp :: "(string \<Rightarrow> string \<Rightarrow> int) \<Rightarrow> board_item \<Rightarrow> board_item \<Rightarrow> int" where
  "board_cmp lc a b = cmp_then (nat_cmp (priority_rank (bi_priority a)) (priority_rank (bi_priority b)))
     (lc (bi_title a) (bi_title b))"

definition BOARD_COLUMNS :: "board_column list" where
  "BOARD_COLUMNS = [COL_BACKLOG, COL_SPEC_REVIEW, COL_RUNNING, COL_BLOCKED, COL_READY, COL_DELIVERED]"

definition board_column_items ::
    "(string \<Rightarrow> string \<Rightarrow> int) \<Rightarrow> loop_list_item list \<Rightarrow> loop_cost_item list \<Rightarrow> board_column \<Rightarrow> board_item list" where
  "board_column_items lc items costs c = js_sort (board_cmp lc)
     (map (\<lambda>item. board_item_of item (cost_for costs (row_issueId item)))
       (filter (\<lambda>item. inferBoardColumn item (cost_for costs (row_issueId item)) = c) items))"

definition buildLoopBoard ::
    "(string \<Rightarrow> string \<Rightarrow> int) \<Rightarrow> loop_list_item list \<Rightarrow> loop_cost_item list \<Rightarrow> (board_column \<times> board_item list) list" where
  "buildLoopBoard lc items costs = map (\<lambda>c. (c, board_column_items lc items costs c)) BOARD_COLUMNS"

end
