(* ===== verification/Web_Portfolio.thy ===== *)
theory Web_Portfolio
  imports Web_Board Evals
begin

text \<open>
  The dashboard of the web application, continued (\<open>loops-dashboard-model.ts\<close>): the evaluation plan
  and the exception center, the focus and the guide, the workforce lens with the handoff timeline. A phase
  is the text that the source compares.
\<close>

subsection \<open>Evaluation plan\<close>

record plan_check =
  pk_id :: string
  pk_status :: eval_status
  pk_hardGate :: bool
  pk_evidence :: string

record eval_plan =
  ep_total :: nat
  ep_passed :: nat
  ep_attention :: nat
  ep_blocked :: nat
  ep_checks :: "plan_check list"

definition critical_exception :: "loop_list_item \<Rightarrow> bool" where
  "critical_exception item \<longleftrightarrow> list_ex (\<lambda>x. xe_level x = EXC_CRITICAL)
     (case_option [] id (li_runtimeSecurityExceptions item))"

definition blocked_in :: "loop_cost_item list \<Rightarrow> loop_list_item \<Rightarrow> bool" where
  "blocked_in costs item \<longleftrightarrow> row_blocked item (cost_for costs (row_issueId item))"

definition plan_checks :: "loop_list_item list \<Rightarrow> loop_cost_item list \<Rightarrow> plan_check list" where
  "plan_checks items costs =
     (let active = count_where row_is_active items;
          blocked = count_where (blocked_in costs) items;
          exceptions = violations items;
          failed = count_where (\<lambda>x. row_verdict x = Some FAIL \<or> critical_exception x) items;
          tripped = count_where ci_tripped costs in
      [\<lparr>pk_id = ''architecture-compliance'', pk_status = (if active > 0 then EVAL_ATTENTION else EVAL_PASSED),
         pk_hardGate = True,
         pk_evidence = (if active > 0 then nat_str active @ '' active loops still need architecture/review evidence''
           else ''All active architecture gates are clear'')\<rparr>,
       \<lparr>pk_id = ''delivery-readiness'',
         pk_status = (if blocked > 0 then EVAL_BLOCKED else if active > 0 then EVAL_ATTENTION else EVAL_PASSED),
         pk_hardGate = True,
         pk_evidence = (if blocked > 0 then nat_str blocked @ '' loops blocked before release''
           else if active > 0 then nat_str active @ '' loops still moving toward release''
           else ''No active delivery blockers'')\<rparr>,
       \<lparr>pk_id = ''runtime-safety'', pk_status = (if exceptions > 0 then EVAL_ATTENTION else EVAL_PASSED),
         pk_hardGate = True,
         pk_evidence = (if exceptions > 0 then nat_str exceptions @ '' runtime security exceptions recorded''
           else ''Runtime security policy has no recorded exceptions'')\<rparr>,
       \<lparr>pk_id = ''test-evidence'',
         pk_status = (if failed > 0 then EVAL_BLOCKED else if active > 0 then EVAL_ATTENTION else EVAL_PASSED),
         pk_hardGate = True,
         pk_evidence = (if failed > 0 then nat_str failed @ '' loops failed global review or tests''
           else if active > 0 then nat_str active @ '' loops still collecting test/review evidence''
           else ''All completed loops have passing evidence'')\<rparr>,
       \<lparr>pk_id = ''cost-policy'', pk_status = (if tripped > 0 then EVAL_BLOCKED else EVAL_PASSED),
         pk_hardGate = True,
         pk_evidence = (if tripped > 0 then nat_str tripped @ '' loops tripped spend guard''
           else ''Spend guard is within policy'')\<rparr>])"

definition plan_count :: "eval_status \<Rightarrow> plan_check list \<Rightarrow> nat" where
  "plan_count s checks = count_where (\<lambda>c. pk_status c = s) checks"

definition buildEvalPlan :: "loop_list_item list \<Rightarrow> loop_cost_item list \<Rightarrow> eval_plan" where
  "buildEvalPlan items costs = (let checks = plan_checks items costs in
     \<lparr>ep_total = length checks, ep_passed = plan_count EVAL_PASSED checks,
      ep_attention = plan_count EVAL_ATTENTION checks, ep_blocked = plan_count EVAL_BLOCKED checks,
      ep_checks = checks\<rparr>)"

subsection \<open>Exception center\<close>

datatype exception_source = XS_COST | XS_EVAL | XS_PAUSE | XS_REVIEW | XS_RUNTIME | XS_RUNTIME_SECURITY | XS_DOCTOR

record center_item =
  xc_id :: string
  xc_title :: string
  xc_href :: string
  xc_level :: metrics_level
  xc_reason :: string
  xc_owner :: string
  xc_action :: string
  xc_evidence :: string
  xc_impact :: string
  xc_retryAction :: string
  xc_evidenceHref :: string
  xc_source :: exception_source

record exception_center =
  cc_running :: nat
  cc_queued :: nat
  cc_attention :: nat
  cc_failed :: nat
  cc_capacity :: nat
  cc_items :: "center_item list"

fun exception_metrics_level :: "exception_level \<Rightarrow> metrics_level" where
  "exception_metrics_level EXC_CRITICAL = LEVEL_CRITICAL"
| "exception_metrics_level EXC_WARNING = LEVEL_WARNING"

definition cost_exception :: "(rat \<Rightarrow> string) \<Rightarrow> loop_list_item \<Rightarrow> loop_cost_item \<Rightarrow> center_item" where
  "cost_exception num item c = \<lparr>xc_id = row_issueId item @ ''-cost'', xc_title = i_title (li_issue item),
     xc_href = href_of item, xc_level = LEVEL_CRITICAL, xc_reason = ''Cost guard tripped'',
     xc_owner = ''Product owner'', xc_action = ''Adjust budget or reduce scope'',
     xc_evidence = num (ci_callsRemaining c) @ '' calls'' @ dot_sep @ num (ci_tokensRemaining c)
       @ '' tokens remaining'',
     xc_impact = ''Loop is paused before more agent calls are allowed'',
     xc_retryAction = ''Raise cap or split scope, then continue the loop'',
     xc_evidenceHref = href_of item, xc_source = XS_COST\<rparr>"

definition pause_exception :: "loop_list_item \<Rightarrow> loop_state_item \<Rightarrow> center_item" where
  "pause_exception item st = \<lparr>xc_id = row_issueId item @ ''-paused'', xc_title = i_title (li_issue item),
     xc_href = href_of item, xc_level = LEVEL_CRITICAL, xc_reason = ''Paused'',
     xc_owner = ''Loop operator'', xc_action = ''Resume or assign recovery'',
     xc_evidence = formatPhase (phase_str (st_phase st)) @ dot_sep @ ''round '' @ nat_str (st_round st),
     xc_impact = ''Delivery is stopped until an operator resumes work'',
     xc_retryAction = ''Resume the loop after checking the latest checkpoint'',
     xc_evidenceHref = href_of item, xc_source = XS_PAUSE\<rparr>"

definition verdict_exception :: "loop_list_item \<Rightarrow> loop_state_item \<Rightarrow> loop_verdict \<Rightarrow> center_item" where
  "verdict_exception item st v = \<lparr>xc_id = row_issueId item @ ''-global-verdict'', xc_title = i_title (li_issue item),
     xc_href = href_of item, xc_level = (if v = FAIL then LEVEL_WARNING else LEVEL_INFO),
     xc_reason = ''Global '' @ verdict_str v, xc_owner = ''Reviewer'', xc_action = ''Review failure evidence'',
     xc_evidence = ''round '' @ nat_str (st_round st),
     xc_impact = ''Delivery cannot finalize until review findings are resolved'',
     xc_retryAction = ''Open issue evidence and start a re-loop if needed'',
     xc_evidenceHref = href_of item, xc_source = XS_REVIEW\<rparr>"

definition security_center_item :: "loop_list_item \<Rightarrow> runtime_security_exception \<Rightarrow> center_item" where
  "security_center_item item x = \<lparr>xc_id = xe_id x, xc_title = i_title (li_issue item), xc_href = href_of item,
     xc_level = exception_metrics_level (xe_level x), xc_reason = xe_reason x, xc_owner = ''Runtime security'',
     xc_action = ''Review command evidence'',
     xc_evidence = (case xe_command x of Some c \<Rightarrow> c | None \<Rightarrow> xe_evidence x),
     xc_impact = ''Test execution was blocked or redacted by runtime policy'',
     xc_retryAction = ''Adjust the command or split the work, then rerun tests'',
     xc_evidenceHref = href_of item, xc_source = XS_RUNTIME_SECURITY\<rparr>"

definition loop_exceptions ::
    "(rat \<Rightarrow> string) \<Rightarrow> loop_cost_item option \<Rightarrow> loop_list_item \<Rightarrow> center_item list" where
  "loop_exceptions num cost item =
     (case cost of Some c \<Rightarrow> if ci_tripped c then [cost_exception num item c] else [] | None \<Rightarrow> [])
     @ (case li_state item of None \<Rightarrow> []
        | Some st \<Rightarrow> (if st_paused st then [pause_exception item st] else [])
            @ (case st_globalVerdict st of None \<Rightarrow> []
               | Some v \<Rightarrow> if v \<noteq> PASS then [verdict_exception item st v] else []))
     @ map (security_center_item item) (case_option [] id (li_runtimeSecurityExceptions item))"

definition runtime_exception :: "agent_diagnostic \<Rightarrow> center_item" where
  "runtime_exception g = \<lparr>xc_id = ''runtime-'' @ gd_id g, xc_title = gd_title g, xc_href = gd_href g,
     xc_level = gd_level g, xc_reason = gd_reason g, xc_owner = gd_agentId g, xc_action = ''Open diagnostic'',
     xc_evidence = gd_meta g, xc_impact = ''Agent runtime may be unable to pick up queued work'',
     xc_retryAction = ''Open runtime diagnostics and retry detection'', xc_evidenceHref = gd_href g,
     xc_source = XS_RUNTIME\<rparr>"

definition doctor_exception :: "string \<Rightarrow> nat \<times> string \<Rightarrow> center_item" where
  "doctor_exception store_root p = \<lparr>xc_id = ''doctor-'' @ nat_str (fst p), xc_title = ''Runtime health'',
     xc_href = ''/loops'', xc_level = LEVEL_WARNING, xc_reason = snd p, xc_owner = ''Runtime owner'',
     xc_action = ''Run doctor or re-index'', xc_evidence = store_root,
     xc_impact = ''Dashboard state may be stale or incomplete'',
     xc_retryAction = ''Run doctor after fixing the reported state problem'', xc_evidenceHref = ''/loops'',
     xc_source = XS_DOCTOR\<rparr>"

definition eval_exception :: "plan_check \<Rightarrow> center_item" where
  "eval_exception c = (let b = (pk_status c = EVAL_BLOCKED) in
     \<lparr>xc_id = ''eval-'' @ pk_id c, xc_title = ''Eval hard gate'', xc_href = ''/loops#eval-plan'',
      xc_level = (if b then LEVEL_CRITICAL else LEVEL_WARNING),
      xc_reason = (if b then ''Eval gate blocked: '' else ''Eval gate needs evidence: '') @ pk_id c,
      xc_owner = ''Eval owner'', xc_action = (if b then ''Resolve hard gate'' else ''Collect evidence''),
      xc_evidence = pk_evidence c,
      xc_impact = (if b then ''Release readiness is blocked by eval evidence''
        else ''Release readiness needs more eval evidence before final review''),
      xc_retryAction = (if b then ''Open the failing loop evidence, fix the gate, then rerun review''
        else ''Collect the missing test, runtime, or review evidence''),
      xc_evidenceHref = ''/loops#eval-plan'', xc_source = XS_EVAL\<rparr>)"

definition queued_row :: "loop_list_item \<Rightarrow> bool" where
  "queued_row item \<longleftrightarrow> row_is_active item \<and> (case li_state item of None \<Rightarrow> True
     | Some st \<Rightarrow> st_phase st = PHASE_0_INTAKE \<or> st_phase st = PHASE_1_SPEC)"

definition countQueuedLoops :: "loop_list_item list \<Rightarrow> nat" where
  "countQueuedLoops items = count_where queued_row items"

definition row_failed :: "loop_cost_item list \<Rightarrow> loop_list_item \<Rightarrow> bool" where
  "row_failed costs item \<longleftrightarrow> row_paused item \<or> verdict_not_pass item
     \<or> case_option 0 length (li_runtimeSecurityExceptions item) > 0
     \<or> cost_tripped_of (cost_for costs (row_issueId item))"

definition center_cmp :: "(string \<Rightarrow> string \<Rightarrow> int) \<Rightarrow> center_item \<Rightarrow> center_item \<Rightarrow> int" where
  "center_cmp lc a b = cmp_then (cmp_then (nat_cmp (level_rank (xc_level a)) (level_rank (xc_level b)))
     (lc (xc_title a) (xc_title b))) (lc (xc_reason a) (xc_reason b))"

text \<open>The doctor's report is its store_root and its problems.\<close>

definition buildExceptionCenter ::
    "(string \<Rightarrow> string \<Rightarrow> int) \<Rightarrow> (rat \<Rightarrow> string) \<Rightarrow> loop_list_item list \<Rightarrow> loop_cost_item list
     \<Rightarrow> eval_plan option \<Rightarrow> agent_runtime_response option \<Rightarrow> (string \<times> string list) option \<Rightarrow> exception_center" where
  "buildExceptionCenter lc num items costs plan runtime health = \<lparr>
     cc_running = case_option 0 ru_running runtime,
     cc_queued = countQueuedLoops items,
     cc_attention = case_option 0 ru_attention runtime,
     cc_failed = count_where (row_failed costs) items,
     cc_capacity = case_option (length items) ru_total runtime,
     cc_items = take 8 (js_sort (center_cmp lc)
       (concat (map (\<lambda>item. loop_exceptions num (cost_for costs (row_issueId item)) item) items)
        @ (case plan of None \<Rightarrow> [] | Some p \<Rightarrow>
             map eval_exception (filter (\<lambda>c. pk_hardGate c \<and> pk_status c \<noteq> EVAL_PASSED) (ep_checks p)))
        @ (case runtime of None \<Rightarrow> [] | Some r \<Rightarrow> map runtime_exception (ru_diagnostics r))
        @ (case health of None \<Rightarrow> [] | Some (store_root, problems) \<Rightarrow>
             map (doctor_exception store_root) (enumerate 0 problems))))\<rparr>"

subsection \<open>Operator focus and guide\<close>

datatype focus_kind = FOCUS_REVIEW | FOCUS_EXCEPTION | FOCUS_CONTINUE | FOCUS_CREATE

record operator_focus =
  of_kind :: focus_kind
  of_title :: string
  of_href :: string
  of_label :: string
  of_meta :: string
  of_level :: metrics_level

definition buildOperatorFocus ::
    "inbox_item list \<Rightarrow> center_item list \<Rightarrow> metrics_action_item list \<Rightarrow> operator_focus" where
  "buildOperatorFocus inbox exceptions actions = (case inbox of
     r # _ \<Rightarrow> \<lparr>of_kind = FOCUS_REVIEW, of_title = ib_title r, of_href = ib_href r, of_label = ib_label r,
       of_meta = ib_meta r, of_level = ib_priority r\<rparr>
   | [] \<Rightarrow> (case exceptions of
       e # _ \<Rightarrow> \<lparr>of_kind = FOCUS_EXCEPTION, of_title = xc_title e, of_href = xc_href e, of_label = xc_action e,
         of_meta = xc_owner e @ dot_sep @ xc_reason e, of_level = xc_level e\<rparr>
     | [] \<Rightarrow> (case actions of
         a # _ \<Rightarrow> \<lparr>of_kind = FOCUS_CONTINUE, of_title = ma_title a, of_href = ma_href a, of_label = ma_label a,
           of_meta = action_meta a, of_level = LEVEL_INFO\<rparr>
       | [] \<Rightarrow> \<lparr>of_kind = FOCUS_CREATE, of_title = [], of_href = ''/loops/new'', of_label = [], of_meta = [],
           of_level = LEVEL_INFO\<rparr>)))"

datatype guide_state = GUIDE_DONE | GUIDE_ACTIVE | GUIDE_PENDING

definition buildDashboardGuide :: "nat \<Rightarrow> nat \<Rightarrow> nat \<Rightarrow> nat \<Rightarrow> (string \<times> guide_state \<times> string) list" where
  "buildDashboardGuide totalIssues reviewItems exceptionItems deliveredItems =
    [(''create'', if totalIssues > 0 then GUIDE_DONE else GUIDE_ACTIVE, ''/loops/new''),
     (''review'', if reviewItems > 0 then GUIDE_ACTIVE else if totalIssues > 0 then GUIDE_DONE else GUIDE_PENDING,
       ''/loops''),
     (''exceptions'', if exceptionItems > 0 then GUIDE_ACTIVE else if totalIssues > 0 then GUIDE_DONE
       else GUIDE_PENDING, ''/loops''),
     (''evidence'', if deliveredItems > 0 then GUIDE_DONE else GUIDE_PENDING, ''/loops'')]"

subsection \<open>Workforce\<close>

datatype persona = INTAKE_ANALYST | SPEC_WRITER | HUMAN_GATEKEEPER | WORK_PLANNER | BUILDER | TEST_RUNNER
  | CODE_REVIEWER | RELEASE_REVIEWER | EVIDENCE_CURATOR

datatype persona_status = PERSONA_ACTIVE | PERSONA_IDLE | PERSONA_BLOCKED | PERSONA_DONE

datatype persona_runtime = RUN_CODEX | RUN_CLAUDE_CODE | RUN_HUMAN | RUN_SYSTEM

record workforce_persona =
  wq_id :: persona
  wq_status :: persona_status
  wq_count :: nat
  wq_phases :: "string list"
  wq_runtimeBackend :: persona_runtime
  wq_humanGate :: bool
  wq_activeIssueIds :: "string list"

record workforce =
  wf_total :: nat
  wf_active :: nat
  wf_idle :: nat
  wf_blocked :: nat
  wf_humanGates :: nat
  wf_personas :: "workforce_persona list"
  wf_activePersona :: "persona option"

definition WORKFORCE_PERSONA_SEQUENCE :: "persona list" where
  "WORKFORCE_PERSONA_SEQUENCE = [INTAKE_ANALYST, SPEC_WRITER, HUMAN_GATEKEEPER, WORK_PLANNER, BUILDER,
     TEST_RUNNER, CODE_REVIEWER, RELEASE_REVIEWER, EVIDENCE_CURATOR]"

fun persona_phases :: "persona \<Rightarrow> string list" where
  "persona_phases INTAKE_ANALYST = [''PHASE_0_INTAKE'']"
| "persona_phases SPEC_WRITER = [''PHASE_1_SPEC'']"
| "persona_phases HUMAN_GATEKEEPER = [''PHASE_2_REVIEW'']"
| "persona_phases WORK_PLANNER = [''PHASE_3_DECOMPOSE'']"
| "persona_phases BUILDER = [''PHASE_4_IMPLEMENT'']"
| "persona_phases TEST_RUNNER = [''PHASE_5_REVIEW'']"
| "persona_phases CODE_REVIEWER = [''PHASE_6_CONVERGE'']"
| "persona_phases RELEASE_REVIEWER = [''PHASE_7_GLOBAL_REVIEW'']"
| "persona_phases EVIDENCE_CURATOR = [''PHASE_8_ANNOTATE'', ''CLOSED'']"

fun persona_backend :: "persona \<Rightarrow> persona_runtime" where
  "persona_backend INTAKE_ANALYST = RUN_SYSTEM"
| "persona_backend HUMAN_GATEKEEPER = RUN_HUMAN"
| "persona_backend BUILDER = RUN_CLAUDE_CODE"
| "persona_backend p = RUN_CODEX"

definition persona_human_gate :: "persona \<Rightarrow> bool" where
  "persona_human_gate p \<longleftrightarrow> p = HUMAN_GATEKEEPER"

definition personaForPhase :: "string \<Rightarrow> persona" where
  "personaForPhase phase = (if phase = [] then INTAKE_ANALYST
     else case List.find (\<lambda>p. phase \<in> set (persona_phases p)) WORKFORCE_PERSONA_SEQUENCE of
       Some p \<Rightarrow> p | None \<Rightarrow> INTAKE_ANALYST)"

definition issueSeverityForLoop :: "loop_list_item \<Rightarrow> loop_cost_item option \<Rightarrow> persona_status" where
  "issueSeverityForLoop item cost =
     (if row_paused item \<or> cost_tripped_of cost then PERSONA_BLOCKED
      else if verdict_not_pass item then PERSONA_BLOCKED
      else if critical_exception item then PERSONA_BLOCKED
      else if row_status item = ISSUE_CLOSED \<or> row_finalized item then PERSONA_DONE
      else PERSONA_ACTIVE)"

text \<open>\<open>state?.phase ?? issue.status\<close>\<close>

definition phase_text :: "loop_list_item \<Rightarrow> string" where
  "phase_text item = (case li_state item of Some st \<Rightarrow> phase_str (st_phase st)
     | None \<Rightarrow> issue_status_str (row_status item))"

definition staffed :: "loop_list_item \<Rightarrow> bool" where
  "staffed item \<longleftrightarrow> row_status item \<notin> {ISSUE_ARCHIVED, ISSUE_REJECTED}"

definition severity_in :: "loop_cost_item list \<Rightarrow> loop_list_item \<Rightarrow> persona_status" where
  "severity_in costs item = issueSeverityForLoop item (cost_for costs (row_issueId item))"

definition workforce_persona_of ::
    "loop_list_item list \<Rightarrow> loop_cost_item list \<Rightarrow> persona \<Rightarrow> workforce_persona" where
  "workforce_persona_of items costs p =
     (let mine = filter (\<lambda>x. personaForPhase (phase_text x) = p) (filter staffed items);
          n = (\<lambda>s. count_where (\<lambda>x. severity_in costs x = s) mine) in
      \<lparr>wq_id = p,
       wq_status = (if n PERSONA_BLOCKED > 0 then PERSONA_BLOCKED else if n PERSONA_ACTIVE > 0 then PERSONA_ACTIVE
         else if n PERSONA_DONE > 0 then PERSONA_DONE else PERSONA_IDLE),
       wq_count = n PERSONA_ACTIVE + n PERSONA_BLOCKED + n PERSONA_DONE,
       wq_phases = js_set (map phase_text mine), wq_runtimeBackend = persona_backend p,
       wq_humanGate = persona_human_gate p,
       wq_activeIssueIds = map row_issueId (filter (\<lambda>x. severity_in costs x \<noteq> PERSONA_DONE) mine)\<rparr>)"

definition buildWorkforceOverview :: "loop_list_item list \<Rightarrow> loop_cost_item list \<Rightarrow> workforce" where
  "buildWorkforceOverview items costs =
     (let personas = map (workforce_persona_of items costs) WORKFORCE_PERSONA_SEQUENCE in
      \<lparr>wf_total = length personas,
       wf_active = count_where (\<lambda>p. wq_status p = PERSONA_ACTIVE) personas,
       wf_idle = count_where (\<lambda>p. wq_status p = PERSONA_IDLE) personas,
       wf_blocked = count_where (\<lambda>x. severity_in costs x = PERSONA_BLOCKED) (filter staffed items),
       wf_humanGates = count_where (\<lambda>p. wq_humanGate p \<and> wq_status p = PERSONA_ACTIVE) personas,
       wf_personas = personas,
       wf_activePersona = map_option wq_id (List.find (\<lambda>p. wq_status p = PERSONA_ACTIVE) personas)\<rparr>)"

subsection \<open>Handoff timeline\<close>

datatype handoff_state = HO_DONE | HO_CURRENT | HO_NEXT | HO_WAITING | HO_BLOCKED

record handoff_step =
  hs_persona :: persona
  hs_phase :: string
  hs_state :: handoff_state
  hs_runtimeBackend :: persona_runtime
  hs_humanGate :: bool
  hs_evidence :: string

record handoff_timeline =
  ht_currentPersona :: "persona option"
  ht_nextPersona :: "persona option"
  ht_blocked :: bool
  ht_steps :: "handoff_step list"

definition ratio_of :: "('a \<Rightarrow> bool) \<Rightarrow> 'a list \<Rightarrow> string \<Rightarrow> string" where
  "ratio_of p xs unit_name = nat_str (count_where p xs) @ ''/'' @ nat_str (length xs) @ '' '' @ unit_name"

definition handoff_evidence :: "loop_detail \<Rightarrow> bool \<Rightarrow> persona \<Rightarrow> string" where
  "handoff_evidence d finalized p =
     (if p = BUILDER \<and> d_shards d \<noteq> []
      then ratio_of (\<lambda>s. sh_status s = SHARD_DONE) (d_shards d) ''shards''
      else if p = TEST_RUNNER \<and> d_testRecords d \<noteq> []
      then ratio_of (\<lambda>r. tr_status r = TEST_PASS) (d_testRecords d) ''tests''
      else if p = CODE_REVIEWER \<and> d_reviewRecords d \<noteq> []
      then ratio_of (\<lambda>r. rr_verdict r = PASS) (d_reviewRecords d) ''reviews''
      else if p = EVIDENCE_CURATOR
      then (if finalized then ''Delivery evidence curated'' else ''Pending finalization'') else [])"

definition handoff_blocked :: "loop_detail \<Rightarrow> loop_cost_item option \<Rightarrow> bool" where
  "handoff_blocked d cost \<longleftrightarrow> st_paused (d_state d) \<or> cost_tripped_of cost
     \<or> st_globalVerdict (d_state d) \<noteq> None \<and> st_globalVerdict (d_state d) \<noteq> Some PASS"

definition handoff_finalized :: "loop_detail \<Rightarrow> bool" where
  "handoff_finalized d \<longleftrightarrow> i_status (d_issue d) = ISSUE_CLOSED \<or> st_finalized (d_state d) = Some True"

definition handoff_steps :: "loop_detail \<Rightarrow> loop_cost_item option \<Rightarrow> handoff_step list" where
  "handoff_steps d cost = map (\<lambda>p.
     let owns = phase_str (st_phase (d_state d)) \<in> set (persona_phases p) in
     \<lparr>hs_persona = p, hs_phase = hd (persona_phases p),
      hs_state = (if handoff_finalized d then HO_DONE
        else if handoff_blocked d cost \<and> owns then HO_BLOCKED
        else if owns then HO_CURRENT else HO_WAITING),
      hs_runtimeBackend = persona_backend p, hs_humanGate = persona_human_gate p,
      hs_evidence = handoff_evidence d (handoff_finalized d) p\<rparr>) WORKFORCE_PERSONA_SEQUENCE"

text \<open>The step after the first current one becomes the next one.\<close>

fun mark_next :: "handoff_step list \<Rightarrow> handoff_step list" where
  "mark_next (s # t # rest) = (if hs_state s = HO_CURRENT then s # t\<lparr>hs_state := HO_NEXT\<rparr> # rest
     else s # mark_next (t # rest))"
| "mark_next steps = steps"

definition persona_in :: "handoff_state \<Rightarrow> handoff_step list \<Rightarrow> persona option" where
  "persona_in s steps = map_option hs_persona (List.find (\<lambda>x. hs_state x = s) steps)"

definition buildAgentHandoffTimeline :: "loop_detail \<Rightarrow> loop_cost_item option \<Rightarrow> handoff_timeline" where
  "buildAgentHandoffTimeline d cost =
     (let steps = (if \<not> handoff_blocked d cost \<and> \<not> handoff_finalized d then mark_next (handoff_steps d cost)
        else handoff_steps d cost) in
      \<lparr>ht_currentPersona = persona_in HO_CURRENT steps, ht_nextPersona = persona_in HO_NEXT steps,
       ht_blocked = handoff_blocked d cost, ht_steps = steps\<rparr>)"

end
