(* ===== verification/Web_Views.thy ===== *)
theory Web_Views
  imports Web_Portfolio
begin

text \<open>
  The portfolio views of the dashboard of the web application (\<open>loops-dashboard-model.ts\<close>): performance,
  triggers, repositories, workflow recipe, review gates, release readiness, bench, release gate panel and
  delivery flow. Times compare as numbers; \<open>num\<close> prints a percentage.
\<close>

subsection \<open>Performance\<close>

record performance_snapshot =
  pf_passRate :: int
  pf_redoRate :: int
  pf_averageCalls :: int
  pf_averageTokens :: int
  pf_traceEvents :: nat
  pf_recentEvents :: nat

definition web_average :: "nat list \<Rightarrow> int" where
  "web_average values0 = (if values0 \<noteq> [] then js_round (of_nat (sum_list values0) / of_nat (length values0)) else 0)"

definition buildPerformanceSnapshot ::
    "loop_list_item list \<Rightarrow> loop_cost_item list \<Rightarrow> (nat \<times> nat) option \<Rightarrow> performance_snapshot" where
  "buildPerformanceSnapshot items costs trace =
     (let reviewed = filter (\<lambda>x. row_status x = ISSUE_CLOSED \<or> row_verdict x \<noteq> None) items in
      \<lparr>pf_passRate = percent (count_where (\<lambda>x. row_status x = ISSUE_CLOSED \<or> row_finalized x
          \<or> row_verdict x = Some PASS) reviewed) (length reviewed),
       pf_redoRate = percent (count_where (\<lambda>x. case_option 0 st_reloopCount (li_state x) > 0) items) (length items),
       pf_averageCalls = web_average (map ci_costCalls costs),
       pf_averageTokens = web_average (map ci_costTokens costs),
       pf_traceEvents = case_option 0 fst trace, pf_recentEvents = case_option 0 snd trace\<rparr>)"

subsection \<open>Triggers\<close>

record trigger_source =
  sr_id :: string
  sr_count :: nat
  sr_latest :: timestamp

record trigger_recent =
  tc_id :: string
  tc_title :: string
  tc_href :: string
  tc_source :: string
  tc_repo :: string
  tc_submittedBy :: string
  tc_created :: timestamp

record trigger_portfolio =
  tp_total :: nat
  tp_sources :: nat
  tp_repos :: nat
  tp_sourceList :: "trigger_source list"
  tp_recent :: "trigger_recent list"

definition source_of :: "loop_list_item \<Rightarrow> string" where
  "source_of item = channel_str (i_sourceChannel (li_issue item)) @ ''/'' @ source_kind_str (i_sourceKind (li_issue item))"

text \<open>One source of the map: the count, and the latest time of the issues seen so far.\<close>

fun add_source :: "string \<Rightarrow> timestamp \<Rightarrow> trigger_source list \<Rightarrow> trigger_source list" where
  "add_source k t [] = [\<lparr>sr_id = k, sr_count = 1, sr_latest = t\<rparr>]"
| "add_source k t (s # rest) = (if sr_id s = k
     then \<lparr>sr_id = k, sr_count = sr_count s + 1, sr_latest = (if t > sr_latest s then t else sr_latest s)\<rparr> # rest
     else s # add_source k t rest)"

definition trigger_sources :: "loop_list_item list \<Rightarrow> trigger_source list" where
  "trigger_sources items =
     foldl (\<lambda>acc x. add_source (source_of x) (i_created (li_issue x)) acc) [] items"

definition source_cmp :: "(string \<Rightarrow> string \<Rightarrow> int) \<Rightarrow> trigger_source \<Rightarrow> trigger_source \<Rightarrow> int" where
  "source_cmp lc a b = cmp_then (cmp_then (nat_cmp (sr_count b) (sr_count a)) (nat_cmp (sr_latest b) (sr_latest a)))
     (lc (sr_id a) (sr_id b))"

definition recent_trigger :: "loop_list_item \<Rightarrow> trigger_recent" where
  "recent_trigger item = (let issue = li_issue item in
     \<lparr>tc_id = i_id issue, tc_title = i_title issue, tc_href = href_of item, tc_source = source_of item,
      tc_repo = i_targetRepo issue,
      tc_submittedBy = (if i_submitterName issue \<noteq> [] then i_submitterName issue else i_submitterId issue),
      tc_created = i_created issue\<rparr>)"

definition repos_of :: "loop_list_item list \<Rightarrow> string list" where
  "repos_of items = js_set (map (\<lambda>x. i_targetRepo (li_issue x)) items)"

definition buildTriggerPortfolio ::
    "(string \<Rightarrow> string \<Rightarrow> int) \<Rightarrow> loop_list_item list \<Rightarrow> trigger_portfolio" where
  "buildTriggerPortfolio lc items = \<lparr>tp_total = length items, tp_sources = length (trigger_sources items),
     tp_repos = length (repos_of items), tp_sourceList = js_sort (source_cmp lc) (trigger_sources items),
     tp_recent = map recent_trigger (take 5
       (js_sort (\<lambda>a b. nat_cmp (i_created (li_issue b)) (i_created (li_issue a))) items))\<rparr>"

text \<open>The lifecycle of the sources, over the rows that are not put away.\<close>

datatype source_status = SOURCE_ACTIVE | SOURCE_PAUSED | SOURCE_ERROR

record lifecycle_source =
  lf_id :: string
  lf_count :: nat
  lf_latest :: timestamp
  lf_status :: source_status
  lf_repos :: "string list"

record trigger_lifecycle =
  tl_totalSources :: nat
  tl_activeSources :: nat
  tl_totalLoops :: nat
  tl_repos :: nat
  tl_sources :: "lifecycle_source list"

definition paused_or_rejected :: "loop_list_item \<Rightarrow> bool" where
  "paused_or_rejected item \<longleftrightarrow> row_paused item \<or> verdict_not_pass item"

definition lifecycle_source_of :: "loop_list_item list \<Rightarrow> trigger_source \<Rightarrow> lifecycle_source" where
  "lifecycle_source_of items s = (let mine = filter (\<lambda>x. source_of x = sr_id s) items;
       errors = count_where paused_or_rejected mine in
     \<lparr>lf_id = sr_id s, lf_count = sr_count s, lf_latest = sr_latest s,
      lf_status = (if errors > 0 then SOURCE_ERROR
        else if count_where (\<lambda>x. \<not> paused_or_rejected x) mine > 0 then SOURCE_ACTIVE else SOURCE_PAUSED),
      lf_repos = repos_of mine\<rparr>)"

definition buildTriggerLifecycle :: "loop_list_item list \<Rightarrow> trigger_lifecycle" where
  "buildTriggerLifecycle items = (let kept = filter staffed items;
       sources = js_sort (\<lambda>a b. cmp_then (nat_cmp (lf_count b) (lf_count a)) (nat_cmp (lf_latest b) (lf_latest a)))
         (map (lifecycle_source_of kept) (trigger_sources kept)) in
     \<lparr>tl_totalSources = length sources, tl_activeSources = count_where (\<lambda>s. lf_status s = SOURCE_ACTIVE) sources,
      tl_totalLoops = length kept, tl_repos = length (repos_of kept), tl_sources = sources\<rparr>)"

subsection \<open>Repositories\<close>

record repo_recent =
  pr_id :: string
  pr_title :: string
  pr_href :: string
  pr_status :: loop_issue_status
  pr_phase :: string

record repo_item =
  rx_repo :: string
  rx_issues :: nat
  rx_blocked :: nat
  rx_latest :: timestamp
  rx_phases :: "(string \<times> nat) list"
  rx_recent :: "repo_recent list"

record repo_context =
  rc_repos :: nat
  rc_issues :: nat
  rc_blocked :: nat
  rc_list :: "repo_item list"

definition repo_key :: "loop_list_item \<Rightarrow> string" where
  "repo_key item = (if i_targetRepo (li_issue item) = [] then ''unassigned'' else i_targetRepo (li_issue item))"

definition repo_blocked :: "loop_cost_item list \<Rightarrow> loop_list_item \<Rightarrow> bool" where
  "repo_blocked costs item \<longleftrightarrow> row_paused item \<or> row_verdict item = Some FAIL
     \<or> cost_tripped_of (cost_for costs (row_issueId item))"

definition repo_recent_of :: "loop_list_item \<Rightarrow> repo_recent" where
  "repo_recent_of item = \<lparr>pr_id = row_issueId item, pr_title = i_title (li_issue item), pr_href = href_of item,
     pr_status = row_status item, pr_phase = formatPhase (phase_text item)\<rparr>"

definition recent_cmp :: "(string \<Rightarrow> string \<Rightarrow> int) \<Rightarrow> loop_list_item \<Rightarrow> loop_list_item \<Rightarrow> int" where
  "recent_cmp lc a b = cmp_then (nat_cmp (i_updated (li_issue b)) (i_updated (li_issue a)))
     (lc (i_title (li_issue a)) (i_title (li_issue b)))"

definition phase_cmp :: "(string \<Rightarrow> string \<Rightarrow> int) \<Rightarrow> string \<times> nat \<Rightarrow> string \<times> nat \<Rightarrow> int" where
  "phase_cmp lc a b = cmp_then (nat_cmp (snd b) (snd a)) (lc (fst a) (fst b))"

definition repo_item_of ::
    "(string \<Rightarrow> string \<Rightarrow> int) \<Rightarrow> loop_list_item list \<Rightarrow> loop_cost_item list \<Rightarrow> string \<Rightarrow> repo_item" where
  "repo_item_of lc items costs r = (let mine = filter (\<lambda>x. repo_key x = r) items in
     \<lparr>rx_repo = r, rx_issues = length mine, rx_blocked = count_where (repo_blocked costs) mine,
      rx_latest = foldl max 0 (map (\<lambda>x. i_updated (li_issue x)) mine),
      rx_phases = js_sort (phase_cmp lc) (tally (\<lambda>x. formatPhase (phase_text x)) mine),
      rx_recent = map repo_recent_of (take 3 (js_sort (recent_cmp lc) mine))\<rparr>)"

definition repo_cmp :: "(string \<Rightarrow> string \<Rightarrow> int) \<Rightarrow> repo_item \<Rightarrow> repo_item \<Rightarrow> int" where
  "repo_cmp lc a b = cmp_then (cmp_then (nat_cmp (rx_issues b) (rx_issues a)) (nat_cmp (rx_latest b) (rx_latest a)))
     (lc (rx_repo a) (rx_repo b))"

definition buildRepoContextMap ::
    "(string \<Rightarrow> string \<Rightarrow> int) \<Rightarrow> loop_list_item list \<Rightarrow> loop_cost_item list \<Rightarrow> repo_context" where
  "buildRepoContextMap lc items costs =
     (let repos = js_sort (repo_cmp lc) (map (repo_item_of lc items costs) (js_set (map repo_key items))) in
      \<lparr>rc_repos = length repos, rc_issues = length items, rc_blocked = sum_list (map rx_blocked repos),
       rc_list = repos\<rparr>)"

subsection \<open>Workflow recipe\<close>

datatype recipe_step_id = WS_INTAKE | WS_PLAN | WS_BUILD | WS_CODE_REVIEW | WS_BROWSER_QA | WS_RELEASE | WS_REFLECT

datatype recipe_step_state = RS_DONE | RS_CURRENT | RS_WAITING | RS_BLOCKED

datatype recipe_gate = RG_NONE | RG_HUMAN | RG_AGENT | RG_RELEASE

record recipe_step =
  rp_id :: recipe_step_id
  rp_state :: recipe_step_state
  rp_gate :: recipe_gate
  rp_count :: nat
  rp_evidence :: string

record web_recipe =
  wy_total :: nat
  wy_currentStep :: recipe_step_id
  wy_blocked :: nat
  wy_releaseReady :: nat
  wy_steps :: "recipe_step list"

definition WORKFLOW_RECIPE_STEPS :: "(recipe_step_id \<times> string list \<times> recipe_gate) list" where
  "WORKFLOW_RECIPE_STEPS =
    [(WS_INTAKE, [''PHASE_0_INTAKE''], RG_NONE),
     (WS_PLAN, [''PHASE_1_SPEC'', ''PHASE_2_REVIEW'', ''PHASE_3_DECOMPOSE''], RG_HUMAN),
     (WS_BUILD, [''PHASE_4_IMPLEMENT''], RG_AGENT),
     (WS_CODE_REVIEW, [''PHASE_5_REVIEW'', ''PHASE_6_CONVERGE''], RG_AGENT),
     (WS_BROWSER_QA, [''PHASE_7_GLOBAL_REVIEW'', ''PHASE_8_ANNOTATE''], RG_AGENT),
     (WS_RELEASE, [''CLOSED''], RG_RELEASE),
     (WS_REFLECT, [''ARCHIVED''], RG_NONE)]"

definition workflowStepForItem :: "loop_list_item \<Rightarrow> loop_cost_item option \<Rightarrow> recipe_step_id" where
  "workflowStepForItem item cost =
     (if row_blocked item cost then WS_CODE_REVIEW
      else if row_status item = ISSUE_ARCHIVED then WS_REFLECT
      else if row_delivered item then WS_RELEASE
      else case List.find (\<lambda>(_, phases, _). phase_str (row_phase item) \<in> set phases) WORKFLOW_RECIPE_STEPS of
        Some (k, _, _) \<Rightarrow> k | None \<Rightarrow> WS_INTAKE)"

definition step_in :: "loop_cost_item list \<Rightarrow> loop_list_item \<Rightarrow> recipe_step_id" where
  "step_in costs item = workflowStepForItem item (cost_for costs (row_issueId item))"

definition step_count :: "loop_list_item list \<Rightarrow> loop_cost_item list \<Rightarrow> recipe_step_id \<Rightarrow> nat" where
  "step_count items costs k = count_where (\<lambda>x. step_in costs x = k) items"

definition workflowEvidence :: "recipe_step_id \<Rightarrow> nat \<Rightarrow> nat \<Rightarrow> string" where
  "workflowEvidence k n blocked =
     (if blocked > 0 \<and> k = WS_CODE_REVIEW then nat_str blocked @ '' blocked''
      else if n > 0 then nat_str n @ '' loops''
      else if k = WS_BROWSER_QA then ''Browser QA gate planned''
      else if k = WS_RELEASE then ''Release gate planned'' else ''No loops'')"

definition recipe_blocked :: "loop_cost_item list \<Rightarrow> loop_list_item \<Rightarrow> bool" where
  "recipe_blocked costs item \<longleftrightarrow> step_in costs item = WS_CODE_REVIEW
     \<and> (row_paused item \<or> cost_tripped_of (cost_for costs (row_issueId item)))"

definition web_buildWorkflowRecipe :: "loop_list_item list \<Rightarrow> loop_cost_item list \<Rightarrow> web_recipe" where
  "web_buildWorkflowRecipe items costs =
     (let n = step_count items costs;
          blocked = count_where (recipe_blocked costs) items;
          busy = filter (\<lambda>(_, k, _). n k > 0) (enumerate 0 WORKFLOW_RECIPE_STEPS);
          active = (case busy of [] \<Rightarrow> WS_INTAKE | (_, k, _) # _ \<Rightarrow> k);
          activeIndex = (case busy of [] \<Rightarrow> 0 | (j, _) # _ \<Rightarrow> j) in
      \<lparr>wy_total = length items, wy_currentStep = active, wy_blocked = blocked,
       wy_releaseReady = n WS_RELEASE,
       wy_steps = map (\<lambda>(j, k, _, gate).
         \<lparr>rp_id = k,
          rp_state = (if k = WS_CODE_REVIEW \<and> blocked > 0 then RS_BLOCKED else if n k > 0 then RS_CURRENT
            else if j < activeIndex then RS_DONE else RS_WAITING),
          rp_gate = gate, rp_count = n k, rp_evidence = workflowEvidence k (n k) blocked\<rparr>)
         (enumerate 0 WORKFLOW_RECIPE_STEPS)\<rparr>)"

subsection \<open>Review gates\<close>

datatype portfolio_status = GP_PASSED | GP_PENDING | GP_NEEDS_CHANGES | GP_BLOCKED

record portfolio_gate =
  pg_kind :: web_gate_kind
  pg_status :: portfolio_status
  pg_count :: nat
  pg_evidence :: string

record gate_portfolio =
  gp_total :: nat
  gp_passed :: nat
  gp_pending :: nat
  gp_blocked :: nat
  gp_gates :: "portfolio_gate list"

definition portfolio_gates :: "loop_list_item list \<Rightarrow> loop_cost_item list \<Rightarrow> portfolio_gate list" where
  "portfolio_gates items costs =
     (let active = filter staffed items;
          specPending = count_where (\<lambda>x. case state_phase x of None \<Rightarrow> True
            | Some p \<Rightarrow> p = PHASE_1_SPEC \<or> p = PHASE_2_REVIEW) active;
          architectureReady =
            count_where (\<lambda>x. row_phase x \<in> {PHASE_3_DECOMPOSE, PHASE_4_IMPLEMENT, PHASE_5_REVIEW}) active;
          needsChanges = count_where verdict_not_pass active;
          blocked = count_where
            (\<lambda>x. row_paused x \<or> cost_tripped_of (cost_for costs (row_issueId x))) active;
          closed = count_where row_delivered active in
      [\<lparr>pg_kind = WG_PRODUCT,
         pg_status = (if specPending > 0 then GP_PENDING else if active \<noteq> [] then GP_PASSED else GP_PENDING),
         pg_count = specPending,
         pg_evidence = (if specPending > 0 then nat_str specPending @ '' specs need decision'' else ''Spec gate clear'')\<rparr>,
       \<lparr>pg_kind = WG_ARCHITECTURE,
         pg_status = (if architectureReady > 0 \<or> closed > 0 then GP_PASSED else GP_PENDING),
         pg_count = architectureReady,
         pg_evidence = (if architectureReady > 0 then nat_str architectureReady @ '' loops decomposed or implemented''
           else ''Waiting for decomposition'')\<rparr>,
       \<lparr>pg_kind = WG_CODE,
         pg_status = (if blocked > 0 then GP_BLOCKED else if needsChanges > 0 then GP_NEEDS_CHANGES else GP_PENDING),
         pg_count = needsChanges + blocked,
         pg_evidence = (if blocked > 0 then nat_str blocked @ '' blocked by exception''
           else if needsChanges > 0 then nat_str needsChanges @ '' reviews need changes''
           else ''Code review gate pending'')\<rparr>,
       \<lparr>pg_kind = WG_SECURITY, pg_status = (if closed > 0 then GP_PASSED else GP_PENDING), pg_count = closed,
         pg_evidence = (if closed > 0 then nat_str closed @ '' delivered loops ready for audit''
           else ''Security review planned'')\<rparr>])"

definition buildReviewGatePortfolio :: "loop_list_item list \<Rightarrow> loop_cost_item list \<Rightarrow> gate_portfolio" where
  "buildReviewGatePortfolio items costs = (let gates = portfolio_gates items costs in
     \<lparr>gp_total = length gates, gp_passed = count_where (\<lambda>g. pg_status g = GP_PASSED) gates,
      gp_pending = count_where (\<lambda>g. pg_status g = GP_PENDING) gates,
      gp_blocked = count_where (\<lambda>g. pg_status g \<in> {GP_BLOCKED, GP_NEEDS_CHANGES}) gates,
      gp_gates = gates\<rparr>)"

subsection \<open>Release readiness\<close>

datatype readiness = READY_BLOCKED | READY_ATTENTION | READY_READY

record readiness_checklist =
  rl_spec :: bool
  rl_implementation :: bool
  rl_review :: bool
  rl_qa :: bool

record readiness_item =
  re_id :: string
  re_title :: string
  re_href :: string
  re_state :: readiness
  re_checklist :: readiness_checklist
  re_evidence :: string

record release_readiness =
  rz_ready :: nat
  rz_attention :: nat
  rz_blocked :: nat
  rz_items :: "readiness_item list"

definition release_candidate :: "loop_list_item \<Rightarrow> bool" where
  "release_candidate item \<longleftrightarrow> row_status item = ISSUE_CLOSED \<or> row_finalized item
     \<or> converging_phase (row_phase item) \<or> row_phase item = PHASE_CLOSED"

definition readiness_checks :: "loop_list_item \<Rightarrow> readiness_checklist" where
  "readiness_checks item =
     \<lparr>rl_spec = (case li_state item of None \<Rightarrow> False | Some st \<Rightarrow> st_specVersion st \<noteq> [] \<and> st_specVersion st \<noteq> ''v0''),
      rl_implementation = (shards_total item > 0 \<and> shards_done item \<ge> shards_total item),
      rl_review = (row_verdict item = Some PASS \<or> row_status item = ISSUE_CLOSED),
      rl_qa = (row_phase item \<in> {PHASE_7_GLOBAL_REVIEW, PHASE_8_ANNOTATE, PHASE_CLOSED})\<rparr>"

definition all_checks :: "readiness_checklist \<Rightarrow> bool" where
  "all_checks c \<longleftrightarrow> rl_spec c \<and> rl_implementation c \<and> rl_review c \<and> rl_qa c"

definition readiness_of :: "loop_list_item \<Rightarrow> loop_cost_item option \<Rightarrow> readiness" where
  "readiness_of item cost = (if row_paused item \<or> cost_tripped_of cost then READY_BLOCKED
     else if all_checks (readiness_checks item) then READY_READY else READY_ATTENTION)"

definition readiness_item_of :: "loop_cost_item list \<Rightarrow> loop_list_item \<Rightarrow> readiness_item" where
  "readiness_item_of costs item =
     \<lparr>re_id = row_issueId item, re_title = i_title (li_issue item), re_href = href_of item,
      re_state = readiness_of item (cost_for costs (row_issueId item)), re_checklist = readiness_checks item,
      re_evidence = formatPhase (phase_str (row_phase item)) @ dot_sep @ shards_ratio item\<rparr>"

fun readiness_rank :: "readiness \<Rightarrow> nat" where
  "readiness_rank READY_BLOCKED = 0" | "readiness_rank READY_ATTENTION = 1" | "readiness_rank READY_READY = 2"

definition readiness_cmp :: "(string \<Rightarrow> string \<Rightarrow> int) \<Rightarrow> readiness_item \<Rightarrow> readiness_item \<Rightarrow> int" where
  "readiness_cmp lc a b = cmp_then (nat_cmp (readiness_rank (re_state a)) (readiness_rank (re_state b)))
     (lc (re_title a) (re_title b))"

definition buildReleaseReadiness ::
    "(string \<Rightarrow> string \<Rightarrow> int) \<Rightarrow> loop_list_item list \<Rightarrow> loop_cost_item list \<Rightarrow> release_readiness" where
  "buildReleaseReadiness lc items costs =
     (let candidates = take 6 (js_sort (readiness_cmp lc)
            (map (readiness_item_of costs) (filter release_candidate items)));
          n = (\<lambda>s. count_where (\<lambda>x. re_state x = s) candidates) in
      \<lparr>rz_ready = n READY_READY, rz_attention = n READY_ATTENTION, rz_blocked = n READY_BLOCKED,
       rz_items = candidates\<rparr>)"

subsection \<open>Bench\<close>

definition rejected_or_paused :: "loop_list_item \<Rightarrow> bool" where
  "rejected_or_paused item \<longleftrightarrow> row_paused item \<or> verdict_not_pass item"

definition buildLoopBench ::
    "loop_list_item list \<Rightarrow> loop_cost_item list \<Rightarrow> loop_learning list \<Rightarrow> bench_metrics" where
  "buildLoopBench items costs learnings =
     (let active = filter row_is_active items;
          completed = filter row_delivered items;
          canaries = concat (map (\<lambda>x. case li_releaseGate x of None \<Rightarrow> []
            | Some g \<Rightarrow> [ck_canaryPassed (rel_checklist g)]) items) in
      \<lparr>bm_firstPassReviewRate = percent (count_where (\<lambda>x. row_verdict x = Some PASS
          \<and> case_option 0 st_reloopCount (li_state x) = 0) completed) (length completed),
       bm_browserQaRegressionRate = percent (count_where (\<lambda>x. case li_releaseGate x of None \<Rightarrow> False
          | Some g \<Rightarrow> \<not> ck_browserQaPassed (rel_checklist g)) active) (length active),
       bm_secondOpinionConflictRate = percent (count_where second_opinion_open active) (length active),
       bm_releaseBlockerRate = percent (count_where rejected_or_paused active + count_where ci_tripped costs)
          (length active),
       bm_runtimeViolationRate = percent (sum_list (map (\<lambda>x. case_option 0 length (li_runtimeSecurityExceptions x)) items))
          (length items),
       bm_learningReuseRate = percent (count_where (\<lambda>l. ln_lastUsedAt l \<noteq> None) learnings) (length learnings),
       bm_canaryPassRate = percent (count_where (\<lambda>b. b) canaries) (length canaries)\<rparr>)"

subsection \<open>Release gate panel\<close>

record panel_check =
  pn_key :: string
  pn_passed :: nat
  pn_total :: nat
  pn_rate :: int
  pn_blocked :: nat

record panel_blocker =
  pl_issueId :: string
  pl_title :: string
  pl_href :: string
  pl_reason :: string

record gate_panel =
  px_totalWithGate :: nat
  px_ready :: nat
  px_blocked :: nat
  px_checklist :: "panel_check list"
  px_topBlockers :: "panel_blocker list"

definition CHECKLIST_KEYS :: "(string \<times> (release_checklist \<Rightarrow> bool)) list" where
  "CHECKLIST_KEYS =
    [(''specApproved'', ck_specApproved), (''implementationEvidence'', ck_implementationEvidence),
     (''testsPassed'', ck_testsPassed), (''requiredReviewsPassed'', ck_requiredReviewsPassed),
     (''secondOpinionPassed'', ck_secondOpinionPassed), (''browserQaPassed'', ck_browserQaPassed),
     (''docsUpdated'', ck_docsUpdated), (''prReady'', ck_prReady), (''rollbackNote'', ck_rollbackNote),
     (''canaryPassed'', ck_canaryPassed)]"

definition row_checklist :: "loop_list_item \<Rightarrow> release_checklist option" where
  "row_checklist item = map_option rel_checklist (li_releaseGate item)"

definition row_blocker :: "loop_list_item \<Rightarrow> string option" where
  "row_blocker item = Option.bind (li_releaseGate item) rel_blocker"

definition panel_blocked :: "loop_cost_item list \<Rightarrow> loop_list_item \<Rightarrow> bool" where
  "panel_blocked costs item \<longleftrightarrow> blocked_in costs item \<or> row_blocker item \<noteq> None \<and> row_blocker item \<noteq> Some []"

definition panel_check_of :: "loop_list_item list \<Rightarrow> string \<times> (release_checklist \<Rightarrow> bool) \<Rightarrow> panel_check" where
  "panel_check_of items kv = (case kv of (key, extract) \<Rightarrow>
     let passed = count_where (\<lambda>x. case row_checklist x of None \<Rightarrow> False | Some c \<Rightarrow> extract c) items;
         failed = count_where (\<lambda>x. case row_checklist x of None \<Rightarrow> False | Some c \<Rightarrow> \<not> extract c) items in
     \<lparr>pn_key = key, pn_passed = passed, pn_total = passed + failed, pn_rate = percent passed (passed + failed),
      pn_blocked = failed\<rparr>)"

definition panel_blocker_of :: "loop_list_item \<Rightarrow> panel_blocker" where
  "panel_blocker_of item = \<lparr>pl_issueId = row_issueId item, pl_title = i_title (li_issue item), pl_href = href_of item,
     pl_reason = (case row_blocker item of Some b \<Rightarrow> b
       | None \<Rightarrow> if row_paused item then ''Paused''
           else case row_verdict item of Some v \<Rightarrow> ''Global '' @ verdict_str v | None \<Rightarrow> ''Needs review'')\<rparr>"

definition buildReleaseGatePanel :: "loop_list_item list \<Rightarrow> loop_cost_item list \<Rightarrow> gate_panel" where
  "buildReleaseGatePanel items costs =
     (let withGate = filter (\<lambda>x. row_checklist x \<noteq> None) (filter row_is_active items);
          blocked = filter (panel_blocked costs) withGate in
      \<lparr>px_totalWithGate = length withGate, px_ready = length withGate - length blocked, px_blocked = length blocked,
       px_checklist = js_sort (\<lambda>a b. pn_rate a - pn_rate b) (map (panel_check_of withGate) CHECKLIST_KEYS),
       px_topBlockers = map panel_blocker_of (take 5 blocked)\<rparr>)"

subsection \<open>Delivery flow\<close>

record flow_step =
  fw_id :: string
  fw_label :: string
  fw_phases :: "string list"
  fw_runtimeOwner :: persona_runtime
  fw_gateKind :: recipe_gate
  fw_loopCount :: nat
  fw_blockedCount :: nat

record delivery_flow =
  df_totalSteps :: nat
  df_activeSteps :: nat
  df_blockedSteps :: nat
  df_steps :: "flow_step list"

definition DELIVERY_FLOW_PIPELINE :: "(string \<times> string \<times> string \<times> persona_runtime \<times> recipe_gate) list" where
  "DELIVERY_FLOW_PIPELINE =
    [(''intake'', ''Intake'', ''PHASE_0_INTAKE'', RUN_SYSTEM, RG_NONE),
     (''spec'', ''Spec'', ''PHASE_1_SPEC'', RUN_CODEX, RG_NONE),
     (''review'', ''Spec Review'', ''PHASE_2_REVIEW'', RUN_HUMAN, RG_HUMAN),
     (''decompose'', ''Plan'', ''PHASE_3_DECOMPOSE'', RUN_CODEX, RG_NONE),
     (''implement'', ''Build'', ''PHASE_4_IMPLEMENT'', RUN_CLAUDE_CODE, RG_AGENT),
     (''test'', ''Test'', ''PHASE_5_REVIEW'', RUN_CODEX, RG_AGENT),
     (''converge'', ''Converge'', ''PHASE_6_CONVERGE'', RUN_CODEX, RG_AGENT),
     (''globalReview'', ''Global Review'', ''PHASE_7_GLOBAL_REVIEW'', RUN_CODEX, RG_AGENT),
     (''annotate'', ''Annotate'', ''PHASE_8_ANNOTATE'', RUN_CODEX, RG_NONE),
     (''close'', ''Close'', ''CLOSED'', RUN_SYSTEM, RG_RELEASE)]"

definition flow_step_of ::
    "loop_list_item list \<Rightarrow> string \<times> string \<times> string \<times> persona_runtime \<times> recipe_gate \<Rightarrow> flow_step" where
  "flow_step_of items step = (case step of (ident, label, phase, owner, gate) \<Rightarrow>
     let mine = filter (\<lambda>x. phase_str (row_phase x) = phase) items in
     \<lparr>fw_id = ident, fw_label = label, fw_phases = [phase], fw_runtimeOwner = owner, fw_gateKind = gate,
      fw_loopCount = length mine, fw_blockedCount = count_where rejected_or_paused mine\<rparr>)"

definition buildDeliveryFlow :: "loop_list_item list \<Rightarrow> delivery_flow" where
  "buildDeliveryFlow items =
     (let steps = map (flow_step_of (filter staffed items)) DELIVERY_FLOW_PIPELINE in
      \<lparr>df_totalSteps = length steps, df_activeSteps = count_where (\<lambda>s. fw_loopCount s > 0) steps,
       df_blockedSteps = count_where (\<lambda>s. fw_blockedCount s > 0) steps, df_steps = steps\<rparr>)"

end
