(* ===== verification/Web_Laws.thy ===== *)
theory Web_Laws
  imports Web_Views Samples "HOL-Library.Multiset"
begin

text \<open>
  Laws of the dashboard of the web application: its sorted lists put the most urgent entry first whatever
  the locale's text order is (the locale \<open>ranked\<close>), its views account for every row, the board agrees
  with the exception center, and the bench agrees with the one of the backend. One law describes a flaw:
  a paused loop has the phase PAUSED, which no view of the phases knows.
\<close>

subsection \<open>Sorting\<close>

lemma set_js_insert [simp]: "set (js_insert cmp x ys) = insert x (set ys)"
  by (induction ys) auto

lemma mset_js_insert [simp]: "mset (js_insert cmp x ys) = add_mset x (mset ys)"
  by (induction ys) auto

lemma mset_js_sort [simp]: "mset (js_sort cmp xs) = mset xs"
  unfolding js_sort_def by (induction xs) auto

lemma set_js_sort [simp]: "set (js_sort cmp xs) = set xs"
  using mset_js_sort [of cmp xs] by (rule mset_eq_setD)

lemma length_js_sort [simp]: "length (js_sort cmp xs) = length xs"
  using mset_js_sort [of cmp xs] by (rule mset_eq_length)

text \<open>
  A comparison whose first key is \<open>rank\<close>. What it does on equal ranks (comparing texts, mostly) need not
  even be an order.
\<close>

locale ranked =
  fixes cmp :: "'a \<Rightarrow> 'a \<Rightarrow> int" and rank :: "'a \<Rightarrow> nat"
  assumes before: "cmp a b \<le> 0 \<Longrightarrow> rank a \<le> rank b"
    and after: "0 < cmp a b \<Longrightarrow> rank b \<le> rank a"
begin

lemma ranks_insert: "sorted (map rank ys) \<Longrightarrow> sorted (map rank (js_insert cmp x ys))"
proof (induction ys)
  case (Cons y ys)
  then show ?case using before [of x y] after [of x y] by (cases "cmp x y \<le> 0") fastforce+
qed simp

lemma ranks_sorted: "sorted (map rank (js_sort cmp xs))"
  unfolding js_sort_def by (induction xs) (simp_all add: ranks_insert)

text \<open>What a bounded view leaves out is not more urgent than what it shows.\<close>

lemma cut_not_urgent:
  assumes "a \<in> set (take n (js_sort cmp xs))" and "b \<in> set (drop n (js_sort cmp xs))"
  shows "rank a \<le> rank b"
proof -
  have "sorted (map rank (take n (js_sort cmp xs)) @ map rank (drop n (js_sort cmp xs)))"
    using ranks_sorted by (simp flip: map_append)
  then show ?thesis using assms by (auto simp: sorted_append)
qed

lemma head_urgent: "js_sort cmp xs = y # ys \<Longrightarrow> x \<in> set xs \<Longrightarrow> rank y \<le> rank x"
  using ranks_sorted [of xs] set_js_sort [of cmp xs] by auto

end

lemma cmp_then_ranked:
  "cmp_then (nat_cmp m n) c \<le> 0 \<Longrightarrow> m \<le> n" "0 < cmp_then (nat_cmp m n) c \<Longrightarrow> n \<le> m"
  by (auto simp: cmp_then_def nat_cmp_def split: if_splits)

interpretation board: ranked "board_cmp lc" "\<lambda>b. priority_rank (bi_priority b)" for lc
  by unfold_locales (simp_all add: board_cmp_def cmp_then_ranked)

interpretation inbox: ranked "inbox_cmp lc" "\<lambda>x. level_rank (ib_priority x)" for lc
  by unfold_locales (simp_all add: inbox_cmp_def cmp_then_ranked)

interpretation groups: ranked group_cmp "\<lambda>g. level_rank (ig_priority g)"
  by unfold_locales (simp_all add: group_cmp_def cmp_then_ranked)

interpretation readiness: ranked "readiness_cmp lc" "\<lambda>x. readiness_rank (re_state x)" for lc
  by unfold_locales (simp_all add: readiness_cmp_def cmp_then_ranked)

lemma center_first_key: "center_cmp lc a b = cmp_then (nat_cmp (level_rank (xc_level a)) (level_rank (xc_level b)))
    (cmp_then (lc (xc_title a) (xc_title b)) (lc (xc_reason a) (xc_reason b)))"
  by (simp add: center_cmp_def cmp_then_def)

interpretation center: ranked "center_cmp lc" "\<lambda>x. level_rank (xc_level x)" for lc
  by unfold_locales (simp_all add: center_first_key cmp_then_ranked)

subsection \<open>Classes\<close>

text \<open>Sorting rows into classes loses none and doubles none.\<close>

lemma class_of_one:
  "distinct ks \<Longrightarrow> k \<in> set ks \<Longrightarrow> mset (concat (map (\<lambda>j. if k = j then [x] else []) ks)) = {#x#}"
proof (induction ks)
  case (Cons i ks)
  have "k \<notin> set js \<Longrightarrow> concat (map (\<lambda>j. if k = j then [x] else []) js) = []" for js
    by (induction js) auto
  with Cons show ?case by (cases "k = i") simp_all
qed simp

lemma filter_classes_Cons:
  "mset (concat (map (\<lambda>k. filter (\<lambda>y. f y = k) (x # xs)) ks))
   = mset (concat (map (\<lambda>k. filter (\<lambda>y. f y = k) xs) ks))
     + mset (concat (map (\<lambda>j. if f x = j then [x] else []) ks))"
  by (induction ks) simp_all

lemma mset_classes:
  "distinct ks \<Longrightarrow> (\<And>x. x \<in> set xs \<Longrightarrow> f x \<in> set ks) \<Longrightarrow>
   mset (concat (map (\<lambda>k. filter (\<lambda>x. f x = k) xs) ks)) = mset xs"
proof (induction xs)
  case Nil
  show ?case by (induction ks) simp_all
next
  case (Cons x xs)
  then show ?case by (simp only: filter_classes_Cons class_of_one list.set_intros) simp
qed

lemma sum_classes:
  assumes "distinct ks" and "\<And>x. x \<in> set xs \<Longrightarrow> f x \<in> set ks"
  shows "sum_list (map (\<lambda>k. count_where (\<lambda>x. f x = k) xs) ks) = length xs"
proof -
  have "size (mset (concat (map (\<lambda>k. filter (\<lambda>x. f x = k) xs) ks))) = length xs"
    by (simp only: mset_classes [OF assms] size_mset)
  then show ?thesis by (simp add: length_concat comp_def count_where_def)
qed

subsection \<open>The board and the exception center\<close>

lemma column_listed: "c \<in> set BOARD_COLUMNS"
  by (cases c) (simp_all add: BOARD_COLUMNS_def)

lemma column_gate:
  "inferBoardColumn x c = COL_BLOCKED \<longleftrightarrow> inferHumanGate x c = HUMAN_EXCEPTION"
  "inferBoardColumn x c = COL_DELIVERED \<longleftrightarrow> inferHumanGate x c = HUMAN_DONE"
  "inferBoardColumn x c = COL_SPEC_REVIEW \<Longrightarrow> inferHumanGate x c = HUMAN_SPEC"
  "inferBoardColumn x c = COL_READY \<Longrightarrow> inferHumanGate x c = HUMAN_RELEASE"
  by (auto simp: inferBoardColumn_def inferHumanGate_def split: if_splits)

lemma blocked_column: "inferBoardColumn x c = COL_BLOCKED \<Longrightarrow> row_blocked x c"
  by (auto simp: inferBoardColumn_def split: if_splits)

lemma blocked_has_blocker: "row_blocked x c \<Longrightarrow> inferBlocker x c \<noteq> None"
  by (auto simp: row_blocked_def inferBlocker_def verdict_not_pass_def)

lemma blocked_failed: "row_blocked x (cost_for costs (row_issueId x)) \<Longrightarrow> row_failed costs x"
  by (auto simp: row_blocked_def row_failed_def)

text \<open>A row counts as failed when it has an exception.\<close>

lemma failed_has_exception:
  "row_failed costs x \<longleftrightarrow> loop_exceptions num (cost_for costs (row_issueId x)) x \<noteq> []"
  by (auto simp: row_failed_def loop_exceptions_def row_paused_def verdict_not_pass_def row_verdict_def
      cost_tripped_of_def split: option.splits)

lemma board_mset:
  "mset (concat (map snd (buildLoopBoard lc items costs)))
   = image_mset (\<lambda>x. board_item_of x (cost_for costs (row_issueId x))) (mset items)"
proof -
  let ?col = "\<lambda>x. inferBoardColumn x (cost_for costs (row_issueId x))"
  let ?item = "\<lambda>x. board_item_of x (cost_for costs (row_issueId x))"
  have "mset (concat (map snd (buildLoopBoard lc items costs)))
      = image_mset ?item (mset (concat (map (\<lambda>c. filter (\<lambda>x. ?col x = c) items) BOARD_COLUMNS)))"
    by (simp add: buildLoopBoard_def BOARD_COLUMNS_def board_column_items_def)
  also have "mset (concat (map (\<lambda>c. filter (\<lambda>x. ?col x = c) items) BOARD_COLUMNS)) = mset items"
    by (rule mset_classes) (simp_all add: column_listed, simp add: BOARD_COLUMNS_def)
  finally show ?thesis .
qed

text \<open>
  C37. The board shows every loop once, in columns sorted by priority, and its columns agree with the human
  gate of the cards: a card is in the blocked column exactly when it waits for an exception, and then it
  names a blocker; it is delivered exactly when nothing is left to do. The exception center counts a
  loop as failed exactly when it lists an exception of it, so it counts every loop of the blocked column.
\<close>

theorem board_accounts:
  "mset (concat (map snd (buildLoopBoard lc items costs)))
     = image_mset (\<lambda>x. board_item_of x (cost_for costs (row_issueId x))) (mset items)
   \<and> (\<forall>(c, cards) \<in> set (buildLoopBoard lc items costs).
        sorted (map (\<lambda>b. priority_rank (bi_priority b)) cards)
        \<and> (\<forall>b \<in> set cards. (c = COL_BLOCKED \<longleftrightarrow> bi_humanGate b = HUMAN_EXCEPTION)
             \<and> (c = COL_DELIVERED \<longleftrightarrow> bi_humanGate b = HUMAN_DONE)
             \<and> (c = COL_SPEC_REVIEW \<longrightarrow> bi_humanGate b = HUMAN_SPEC)
             \<and> (c = COL_READY \<longrightarrow> bi_humanGate b = HUMAN_RELEASE)
             \<and> (c = COL_BLOCKED \<longrightarrow> bi_blocker b \<noteq> None)))
   \<and> cc_failed (buildExceptionCenter lc num items costs plan runtime health)
     = count_where (\<lambda>x. loop_exceptions num (cost_for costs (row_issueId x)) x \<noteq> []) items
   \<and> length (board_column_items lc items costs COL_BLOCKED)
     \<le> cc_failed (buildExceptionCenter lc num items costs plan runtime health)"
proof (intro conjI)
  show "mset (concat (map snd (buildLoopBoard lc items costs)))
     = image_mset (\<lambda>x. board_item_of x (cost_for costs (row_issueId x))) (mset items)"
    by (rule board_mset)
  show "\<forall>(c, cards) \<in> set (buildLoopBoard lc items costs).
        sorted (map (\<lambda>b. priority_rank (bi_priority b)) cards)
        \<and> (\<forall>b \<in> set cards. (c = COL_BLOCKED \<longleftrightarrow> bi_humanGate b = HUMAN_EXCEPTION)
             \<and> (c = COL_DELIVERED \<longleftrightarrow> bi_humanGate b = HUMAN_DONE)
             \<and> (c = COL_SPEC_REVIEW \<longrightarrow> bi_humanGate b = HUMAN_SPEC)
             \<and> (c = COL_READY \<longrightarrow> bi_humanGate b = HUMAN_RELEASE)
             \<and> (c = COL_BLOCKED \<longrightarrow> bi_blocker b \<noteq> None))"
    by (auto simp: buildLoopBoard_def board_column_items_def board.ranks_sorted board_item_of_def column_gate
        dest: blocked_column blocked_has_blocker column_gate(3,4))
  show f: "cc_failed (buildExceptionCenter lc num items costs plan runtime health)
     = count_where (\<lambda>x. loop_exceptions num (cost_for costs (row_issueId x)) x \<noteq> []) items"
    by (simp add: buildExceptionCenter_def flip: failed_has_exception)
  have "length (filter (\<lambda>x. inferBoardColumn x (cost_for costs (row_issueId x)) = COL_BLOCKED) items)
      \<le> length (filter (row_failed costs) items)"
    by (induction items) (auto dest: blocked_column blocked_failed)
  then show "length (board_column_items lc items costs COL_BLOCKED)
     \<le> cc_failed (buildExceptionCenter lc num items costs plan runtime health)"
    by (simp add: board_column_items_def buildExceptionCenter_def count_where_def)
qed

subsection \<open>The workforce and the recipe\<close>

lemma persona_listed: "p \<in> set WORKFORCE_PERSONA_SEQUENCE"
  by (cases p) (simp_all add: WORKFORCE_PERSONA_SEQUENCE_def)

lemma severity_cases: "severity_in costs x \<in> {PERSONA_ACTIVE, PERSONA_BLOCKED, PERSONA_DONE}"
  by (simp add: severity_in_def issueSeverityForLoop_def)

lemma severity_count: "count_where (\<lambda>x. severity_in costs x = PERSONA_ACTIVE) xs
    + count_where (\<lambda>x. severity_in costs x = PERSONA_BLOCKED) xs
    + count_where (\<lambda>x. severity_in costs x = PERSONA_DONE) xs = length xs"
  using sum_classes [of "[PERSONA_ACTIVE, PERSONA_BLOCKED, PERSONA_DONE]" xs "severity_in costs"] severity_cases
  by simp

lemma step_listed: "k \<in> set (map fst WORKFLOW_RECIPE_STEPS)"
  by (cases k) (simp_all add: WORKFLOW_RECIPE_STEPS_def)

text \<open>Every loop that is not put away has one persona, and every loop is in one step of the recipe.\<close>

theorem views_account:
  "sum_list (map wq_count (wf_personas (buildWorkforceOverview items costs))) = length (filter staffed items)
   \<and> sum_list (map rp_count (wy_steps (web_buildWorkflowRecipe items costs))) = length items"
proof
  have "wq_count (workforce_persona_of items costs p)
      = count_where (\<lambda>x. personaForPhase (phase_text x) = p) (filter staffed items)" for p
    using severity_count [of costs "filter (\<lambda>x. personaForPhase (phase_text x) = p) (filter staffed items)"]
    by (simp add: workforce_persona_of_def Let_def count_where_def)
  moreover have "distinct WORKFORCE_PERSONA_SEQUENCE" by (simp add: WORKFORCE_PERSONA_SEQUENCE_def)
  moreover have "wf_personas (buildWorkforceOverview items costs)
      = map (workforce_persona_of items costs) WORKFORCE_PERSONA_SEQUENCE"
    by (simp add: buildWorkforceOverview_def Let_def)
  ultimately show "sum_list (map wq_count (wf_personas (buildWorkforceOverview items costs)))
      = length (filter staffed items)"
    using sum_classes [of WORKFORCE_PERSONA_SEQUENCE "filter staffed items" "\<lambda>x. personaForPhase (phase_text x)"]
    by (simp add: comp_def persona_listed)
  have "map rp_count (wy_steps (web_buildWorkflowRecipe items costs))
      = map (\<lambda>k. count_where (\<lambda>x. step_in costs x = k) items) (map fst WORKFLOW_RECIPE_STEPS)"
    by (simp add: web_buildWorkflowRecipe_def Let_def WORKFLOW_RECIPE_STEPS_def step_count_def)
  moreover have "sum_list (map (\<lambda>k. count_where (\<lambda>x. step_in costs x = k) items) (map fst WORKFLOW_RECIPE_STEPS))
      = length items"
    by (rule sum_classes [OF _ step_listed]) (simp add: WORKFLOW_RECIPE_STEPS_def)
  ultimately show "sum_list (map rp_count (wy_steps (web_buildWorkflowRecipe items costs))) = length items"
    by simp
qed

text \<open>
  The handoff timeline of a loop that moves on: the persona of its phase is the current one, and the
  persona after it in the sequence, if there is one, is the next.
\<close>

theorem handoff_follows_phase:
  assumes "\<not> handoff_blocked d cost" and "\<not> handoff_finalized d" and "st_phase (d_state d) \<noteq> PHASE_PAUSED"
  shows "\<exists>pre p post. WORKFORCE_PERSONA_SEQUENCE = pre @ p # post
    \<and> p = personaForPhase (phase_str (st_phase (d_state d)))
    \<and> ht_currentPersona (buildAgentHandoffTimeline d cost) = Some p
    \<and> ht_nextPersona (buildAgentHandoffTimeline d cost) = (case post of [] \<Rightarrow> None | q # _ \<Rightarrow> Some q)"
proof -
  let ?p = "personaForPhase (phase_str (st_phase (d_state d)))"
  let ?t = "buildAgentHandoffTimeline d cost"
  have cur: "ht_currentPersona ?t = Some ?p"
    using assms by (cases "st_phase (d_state d)") (simp_all add: buildAgentHandoffTimeline_def handoff_steps_def
      WORKFORCE_PERSONA_SEQUENCE_def personaForPhase_def persona_in_def Let_def)
  have nx: "ht_nextPersona ?t = (case drop 1 (dropWhile (\<lambda>q. q \<noteq> ?p) WORKFORCE_PERSONA_SEQUENCE) of
      [] \<Rightarrow> None | q # _ \<Rightarrow> Some q)"
    using assms by (cases "st_phase (d_state d)") (simp_all add: buildAgentHandoffTimeline_def handoff_steps_def
      WORKFORCE_PERSONA_SEQUENCE_def personaForPhase_def persona_in_def Let_def)
  have split: "\<exists>pre post. xs = pre @ p # post \<and> drop 1 (dropWhile (\<lambda>q. q \<noteq> p) xs) = post"
    if "p \<in> set xs" for p and xs :: "persona list"
    using that by (induction xs) (auto, metis append_Cons)
  from split [OF persona_listed [of ?p]] cur nx show ?thesis by blast
qed

subsection \<open>The bench\<close>

text \<open>
  C38. The web application and the backend compute the bench metrics on their own; on the same loops, costs and
  learnings they get the same seven numbers.
\<close>

theorem web_bench_agrees:
  "buildLoopBench items costs learnings = buildLoopBenchMetrics items costs learnings"
proof -
  have active: "row_is_active = open_issue"
    by (simp add: fun_eq_iff row_is_active_def row_status_def open_issue_def)
  have completed: "row_delivered = completed_loop"
    by (auto simp: fun_eq_iff row_delivered_def row_status_def state_phase_def row_finalized_def
        completed_loop_def split: option.splits)
  have first: "(\<lambda>x. row_verdict x = Some PASS \<and> case_option 0 st_reloopCount (li_state x) = 0) = first_pass"
    by (auto simp: fun_eq_iff first_pass_def row_verdict_def split: option.splits)
  have qa: "(\<lambda>x. case li_releaseGate x of None \<Rightarrow> False | Some g \<Rightarrow> \<not> ck_browserQaPassed (rel_checklist g))
      = gate_fails ck_browserQaPassed"
    by (simp add: fun_eq_iff gate_fails_def)
  have second: "second_opinion_open = (\<lambda>x. late_phase x \<and> gate_fails ck_secondOpinionPassed x)"
    by (auto simp: fun_eq_iff second_opinion_open_def gate_conflict_def gate_fails_def late_phase_def
        converging_phase_def row_phase_def split: option.splits)
  have blocked: "rejected_or_paused = loop_blocked"
    by (auto simp: fun_eq_iff rejected_or_paused_def loop_blocked_def row_paused_def verdict_not_pass_def
        row_verdict_def split: option.splits)
  let ?canaries = "concat (map (\<lambda>x. case li_releaseGate x of None \<Rightarrow> []
      | Some g \<Rightarrow> [ck_canaryPassed (rel_checklist g)]) items)"
  have "length ?canaries = length (filter (\<lambda>x. li_releaseGate x \<noteq> None) items)"
    "count_where (\<lambda>b. b) ?canaries
      = count_where (\<lambda>x. \<not> gate_fails ck_canaryPassed x) (filter (\<lambda>x. li_releaseGate x \<noteq> None) items)"
    by (induction items) (auto simp: gate_fails_def count_where_def split: option.splits)
  then show ?thesis
    by (simp add: buildLoopBench_def buildLoopBenchMetrics_def Let_def active completed first qa second blocked
        violations_def)
qed

subsection \<open>Paused loops\<close>

text \<open>\<open>PAUSED\<close> is not among the phases of a persona, of a step of the flow or of an agent.\<close>

lemma paused_persona: "personaForPhase ''PAUSED'' = INTAKE_ANALYST"
  by (simp add: personaForPhase_def WORKFORCE_PERSONA_SEQUENCE_def)

lemma paused_not_owned: "''PAUSED'' \<notin> set (persona_phases p)"
  by (cases p) simp_all

lemma flow_phases: "step \<in> set DELIVERY_FLOW_PIPELINE \<Longrightarrow> fst (snd (snd step)) \<noteq> ''PAUSED''"
  by (auto simp: DELIVERY_FLOW_PIPELINE_def)

lemma flow_without_paused:
  "buildDeliveryFlow items = buildDeliveryFlow (filter (\<lambda>x. row_phase x \<noteq> PHASE_PAUSED) items)"
proof -
  have "filter (\<lambda>x. phase_str (row_phase x) = p) (filter staffed (filter (\<lambda>x. row_phase x \<noteq> PHASE_PAUSED) items))
      = filter (\<lambda>x. phase_str (row_phase x) = p) (filter staffed items)" if "p \<noteq> ''PAUSED''" for p
    using that by (induction items) auto
  then have "map (flow_step_of (filter staffed (filter (\<lambda>x. row_phase x \<noteq> PHASE_PAUSED) items))) DELIVERY_FLOW_PIPELINE
      = map (flow_step_of (filter staffed items)) DELIVERY_FLOW_PIPELINE"
    using flow_phases by (intro map_cong) (auto simp: flow_step_of_def split: prod.splits)
  then show ?thesis by (simp only: buildDeliveryFlow_def)
qed

lemma supports_not_paused: "a \<in> set AGENT_RUNTIME_DEFINITIONS \<Longrightarrow> supports a x \<Longrightarrow> row_phase x \<noteq> PHASE_PAUSED"
  by (auto simp: AGENT_RUNTIME_DEFINITIONS_def supports_def row_phase_def split: option.splits)

lemma find_filter_irrelevant:
  "(\<And>x. p x \<Longrightarrow> q x) \<Longrightarrow> List.find p (filter r (filter q xs)) = List.find p (filter r xs)"
  by (induction xs) auto

lemma agents_without_paused:
  "agentRuntime items costs = agentRuntime (filter (\<lambda>x. row_phase x \<noteq> PHASE_PAUSED) items) costs"
proof -
  have "agent_of (filter (\<lambda>x. row_phase x \<noteq> PHASE_PAUSED) items) costs a = agent_of items costs a"
    if "a \<in> set AGENT_RUNTIME_DEFINITIONS" for a
    using find_filter_irrelevant [of "supports a" "\<lambda>x. row_phase x \<noteq> PHASE_PAUSED"] supports_not_paused [OF that]
    by (simp add: agent_of_def)
  then have "map (agent_of (filter (\<lambda>x. row_phase x \<noteq> PHASE_PAUSED) items) costs) AGENT_RUNTIME_DEFINITIONS
      = map (agent_of items costs) AGENT_RUNTIME_DEFINITIONS"
    by (intro map_cong) simp_all
  then show ?thesis by (simp only: agentRuntime_def)
qed

lemma paused_handoff:
  assumes "st_phase (d_state d) = PHASE_PAUSED" and "\<not> handoff_finalized d"
  shows "list_all (\<lambda>s. hs_state s = HO_WAITING) (ht_steps (buildAgentHandoffTimeline d cost))"
proof -
  have w: "list_all (\<lambda>s. hs_state s = HO_WAITING) (handoff_steps d cost)"
    using assms by (simp add: handoff_steps_def list_all_iff paused_not_owned Let_def)
  have "list_all (\<lambda>s. hs_state s = HO_WAITING) steps \<Longrightarrow> mark_next steps = steps" for steps
    by (induction steps rule: mark_next.induct) auto
  with w show ?thesis by (simp add: buildAgentHandoffTimeline_def Let_def)
qed

text \<open>
  C39. Pausing a loop, by a human or by the cost guard, gives it the phase PAUSED. The views of the dashboard
  look a loop up by its phase and know no such phase: the workforce files the paused loop under the intake
  analyst, who turns blocked; the delivery flow and the status of the agents are what they would be
  without the loop, so neither counts it as blocked; and its handoff timeline shows every persona
  waiting, none as blocked.
\<close>

theorem paused_loops_misplaced:
  assumes "x \<in> set items" and "li_state x = Some (d_state d)" and "staffed x"
    and "st_paused (d_state d)" and "st_phase (d_state d) = PHASE_PAUSED" and "\<not> handoff_finalized d"
  shows "personaForPhase (phase_text x) = INTAKE_ANALYST
    \<and> wq_status (workforce_persona_of items costs INTAKE_ANALYST) = PERSONA_BLOCKED
    \<and> buildDeliveryFlow items = buildDeliveryFlow (filter (\<lambda>y. row_phase y \<noteq> PHASE_PAUSED) items)
    \<and> agentRuntime items costs = agentRuntime (filter (\<lambda>y. row_phase y \<noteq> PHASE_PAUSED) items) costs
    \<and> ht_blocked (buildAgentHandoffTimeline d cost)
    \<and> list_all (\<lambda>s. hs_state s = HO_WAITING) (ht_steps (buildAgentHandoffTimeline d cost))"
proof -
  have p: "phase_text x = ''PAUSED''" using assms(2,5) by (simp add: phase_text_def)
  have "severity_in costs x = PERSONA_BLOCKED"
    using assms(2,4) by (simp add: severity_in_def issueSeverityForLoop_def row_paused_def)
  then have "x \<in> set (filter (\<lambda>y. severity_in costs y = PERSONA_BLOCKED)
      (filter (\<lambda>y. personaForPhase (phase_text y) = INTAKE_ANALYST) (filter staffed items)))"
    using assms(1,3) p by (simp add: paused_persona)
  then have "0 < count_where (\<lambda>y. severity_in costs y = PERSONA_BLOCKED)
      (filter (\<lambda>y. personaForPhase (phase_text y) = INTAKE_ANALYST) (filter staffed items))"
    unfolding count_where_def by (rule length_pos_if_in_set)
  moreover have "ht_blocked (buildAgentHandoffTimeline d cost)"
    using assms(4) by (simp add: buildAgentHandoffTimeline_def Let_def handoff_blocked_def)
  ultimately show ?thesis
    using p paused_handoff [OF assms(5,6)] flow_without_paused [of items] agents_without_paused [of items costs]
    by (simp add: paused_persona workforce_persona_of_def Let_def)
qed

text \<open>The release readiness does not look at the release gate.\<close>

lemma readiness_ignores_gate: "readiness_of (x\<lparr>li_releaseGate := g\<rparr>) cost = readiness_of x cost"
  by (simp add: readiness_of_def readiness_checks_def row_paused_def row_verdict_def row_status_def row_phase_def
      shards_done_def shards_total_def)

subsection \<open>Witnesses\<close>

definition paused_row :: loop_list_item where
  "paused_row = \<lparr>li_issue = sample_issue,
     li_state = Some (sample_state\<lparr>st_paused := True, st_phase := PHASE_PAUSED\<rparr>),
     li_workflowRecipe = None, li_reviewGates = None, li_releaseGate = None,
     li_runtimeSecurityExceptions = None, li_deliveryGovernance = None\<rparr>"

lemma paused_row_column: "inferBoardColumn paused_row c = COL_BLOCKED"
  by (simp add: inferBoardColumn_def paused_row_def row_delivered_def row_status_def state_phase_def
      row_finalized_def row_blocked_def row_paused_def sample_issue_def sample_state_def)

theorem board_accounts_witness:
  "1 \<le> cc_failed (buildExceptionCenter (\<lambda>_ _. 0) (\<lambda>_. []) [paused_row] [] None None None)"
proof -
  have "length (board_column_items (\<lambda>_ _. 0) [paused_row] [] COL_BLOCKED) = 1"
    by (simp add: board_column_items_def paused_row_column)
  with board_accounts [of "\<lambda>_ _. 0" "[paused_row]" "[]" "\<lambda>_. []" None None None]
  show ?thesis by (metis (no_types, lifting))
qed

definition paused_detail :: loop_detail where
  "paused_detail = \<lparr>d_issue = sample_issue, d_intake = sample_intake, d_spec = Some sample_spec,
     d_specHistory = [], d_shards = [sample_shard ''s1'' [] SHARD_TODO], d_testMatrix = None,
     d_annotations = [], d_implementationRecords = [], d_reviewRecords = [], d_testRecords = [],
     d_logs = [], d_notifications = [],
     d_state = sample_state\<lparr>st_paused := True, st_phase := PHASE_PAUSED\<rparr>,
     d_globalReview = None, d_convergencePr = None, d_browserQaReports = [],
     d_requirementsCoverage = None, d_evidenceArtifacts = None, d_learnings = [],
     d_workflowRecipe = None, d_reviewGates = None, d_releaseGate = None, d_secondOpinion = None,
     d_deliveryGovernance = None\<rparr>"

theorem paused_loops_misplaced_witness:
  "wq_status (workforce_persona_of [paused_row] [] INTAKE_ANALYST) = PERSONA_BLOCKED
   \<and> buildDeliveryFlow [paused_row] = buildDeliveryFlow (filter (\<lambda>y. row_phase y \<noteq> PHASE_PAUSED) [paused_row])
   \<and> ht_blocked (buildAgentHandoffTimeline paused_detail None)"
proof -
  have "paused_row \<in> set [paused_row]" "li_state paused_row = Some (d_state paused_detail)" "staffed paused_row"
    "st_paused (d_state paused_detail)" "st_phase (d_state paused_detail) = PHASE_PAUSED"
    "\<not> handoff_finalized paused_detail"
    by (simp_all add: paused_row_def paused_detail_def staffed_def row_status_def handoff_finalized_def
        sample_issue_def sample_state_def)
  from paused_loops_misplaced [OF this, of "[]" None] show ?thesis by (elim conjE) (intro conjI)
qed

end
