(* ===== verification/Finalize_Laws.thy ===== *)
theory Finalize_Laws
  imports Service_Laws
begin

text \<open>
  What \<open>finalize\<close> of the facade guarantees from end to end: when it succeeds on a loop that was still
  open, the evidence the release gate asks for was in the store and the loop is closed for good;
  and without the decisions of a human it refuses. The gate alone is treated in \<open>Gate_Laws\<close>.
\<close>

subsection \<open>Steps of finalize that only log\<close>

lemma commit_all_logs: "logs_only f (snd (commit_all git d ss f))"
  by (induction ss arbitrary: f) (auto intro!: logs_only_sbind)

lemma openConvergencePr_logs: "logs_only f (snd (openConvergencePr h d f))"
  unfolding openConvergencePr_def by (intro logs_only_sbind commit_all_logs logs_only_sm)

lemma publishPrComment_logs: "logs_only f (snd (publishPrComment h i pr f))"
  by (auto simp: publishPrComment_def readDetail_eq call_def split: option.splits sum.splits)

definition closing_state :: "loop_state_item \<Rightarrow> timestamp \<Rightarrow> loop_state_item" where
  "closing_state st t = st\<lparr>st_phase := PHASE_CLOSED, st_finalized := Some True, st_updated := t\<rparr>"

text \<open>A run of \<open>finalize\<close> on an open loop that succeeds: what it wrote, up to logging.\<close>

lemma finalize_run:
  assumes "getIssue h i f = (Inr d, g)" and "\<not> isTerminal d" and "loops_finalize h i f = (Inr d', g')"
  obtains u w t pr anns ls where "st_globalVerdict (d_state d) = Some PASS" "release_blockers h d = []"
    "logs_only g u" "logs_only (writeFinalize (d_issue d) anns (closing_state (d_state d) t) pr ls u) w"
    "getIssue h i w = (Inr d', g')"
proof -
  have pass: "st_globalVerdict (d_state d) = Some PASS" and free: "release_blockers h d = []"
    using assms unfolding loops_finalize_def finalize_def
    by (subst (asm) sbind_ok [of _ _ d g];
        auto simp: finalizePort_def enforceReleaseGate_def release_blockers_def Let_def sthen_app sguard_def
          split: if_splits)+
  let ?t = "clock g"
  from assms pass free have run: "sbind (openConvergencePr h d) (\<lambda>pr.
        sbind (call (ag_annotateFinalize (lh_agent h) d pr)) (\<lambda>anns.
        sthen (smod (writeFinalize (d_issue d) anns (closing_state (d_state d) ?t) pr
          (buildLoopLearnings (lh_sha16 h) d pr ?t)))
       (sthen (publishPrComment h i pr) (syncAndRead h i)))) (tick g) = (Inr d', g')"
    unfolding loops_finalize_def finalize_def
    by (subst (asm) sbind_ok [of _ _ d g])
      (simp_all add: finalizePort_def enforceReleaseGate_def release_blockers_def Let_def sthen_app sguard_def
        sbind_now closing_state_def)
  obtain pr v where pr: "openConvergencePr h d (tick g) = (Inr pr, v)"
    using run by (cases "openConvergencePr h d (tick g)") (auto simp: sbind_app split: sum.splits)
  obtain anns u where anns: "call (ag_annotateFinalize (lh_agent h) d pr) v = (Inr anns, u)"
    using run unfolding sbind_ok [where m = "openConvergencePr h d", OF pr]
    by (cases "call (ag_annotateFinalize (lh_agent h) d pr) v") (auto simp: sbind_app split: sum.splits)
  let ?w = "writeFinalize (d_issue d) anns (closing_state (d_state d) ?t) pr
      (buildLoopLearnings (lh_sha16 h) d pr ?t) u"
  from run have "sthen (publishPrComment h i pr) (syncAndRead h i) ?w = (Inr d', g')"
    unfolding sbind_ok [where m = "openConvergencePr h d", OF pr]
      sbind_ok [where m = "call (ag_annotateFinalize (lh_agent h) d pr)", OF anns] sthen_smod .
  then have "getIssue h i (snd (publishPrComment h i pr ?w)) = (Inr d', g')"
    by (auto simp: sthen_app syncAndRead_getIssue split: prod.splits sum.splits)
  moreover have "logs_only g u"
    using openConvergencePr_logs [of "tick g" h d] logs_only_sm(1) [of v "ag_annotateFinalize (lh_agent h) d pr"]
      pr anns by (auto intro: logs_only_trans [OF logs_only_trans [OF logs_only_basic(1)]])
  ultimately show thesis
    using that pass free publishPrComment_logs by blast
qed

text \<open>What the next read sees.\<close>

lemma finalized_reads:
  assumes "detail_of i g = Inr e" and "states_wf g" and "records_keyed g" and "i \<noteq> []"
    and "logs_only g u" and "logs_only (writeFinalize (d_issue e) anns (closing_state (d_state e) t) pr ls u) w"
  shows "\<exists>e'. detail_of i w = Inr e' \<and> isTerminal e' \<and> d_state e' = closing_state (d_state e) t
    \<and> i_status (d_issue e') = ISSUE_CLOSED \<and> d_convergencePr e' = Some pr"
proof -
  let ?st = "closing_state (d_state e) t"
  let ?v = "writeFinalize (d_issue e) anns ?st pr ls u"
  obtain issue intake s where parts: "map_of (fs_issues g) i = Some issue"
      "map_of (fs_intakes g) (intakeId i) = Some intake" "stateOf i g = Some s"
      "e = detail_with i issue intake s g"
    using assms(1) by (auto simp: detail_of_def split: option.splits)
  have e: "d_state e = s" "d_issue e = issue" "i_id issue = i" "st_issueId s = i"
    using parts assms(3) stateOf_issueId [OF parts(3)] by (auto simp: detail_with_def Let_def records_keyed_def)
  have st: "st_issueId ?st = i" using e by (simp add: closing_state_def)
  have wf: "states_wf u" using assms(2) states_wf_logs_only [OF assms(5)] by simp
  have "stateOf i ?v = Some ?st"
    using stateOf_written [OF wf _ state_write_ops(4), of ?st "d_issue e" anns pr ls] st assms(4) by simp
  then have state: "stateOf i w = Some ?st" using stateOf_logs_only [OF assms(6)] by simp
  have "map_of (fs_issues ?v) i = Some (issue\<lparr>i_status := ISSUE_CLOSED, i_updated := t\<rparr>)"
      "fs_intakes ?v = fs_intakes u" "map_of (fs_prs ?v) i = Some pr"
    using e by (simp_all add: writeFinalize_def Let_def store_simps closing_state_def)
  then have files: "map_of (fs_issues w) i = Some (issue\<lparr>i_status := ISSUE_CLOSED, i_updated := t\<rparr>)"
      "map_of (fs_intakes w) (intakeId i) = Some intake" "map_of (fs_prs w) i = Some pr"
    using assms(5,6) parts(2) by (simp_all add: logs_only_def)
  show ?thesis
    using state files e
    by (auto simp: detail_of_def detail_with_def Let_def isTerminal_def closing_state_def)
qed

subsection \<open>Finalizing is sound\<close>

lemma getIssue_detail:
  assumes "getIssue h i f = (Inr d, g)"
  obtains e where "detail_of i g = Inr e" "d = enriched h e" "g = ensureInitialized f"
  using getIssue_fresh [OF assms] that by blast

lemma read_records:
  assumes "getIssue h i f = (Inr d, g)"
  shows "\<forall>r\<in>set (d_testRecords d). tr_round r = st_round (d_state d)"
    "\<forall>r\<in>set (d_implementationRecords d). ir_round r = st_round (d_state d)"
    "\<not> isTerminal d \<Longrightarrow> d_convergencePr d = None"
proof -
  obtain e where e: "detail_of i g = Inr e" "d = enriched h e" "g = ensureInitialized f"
    using assms by (rule getIssue_detail)
  obtain issue intake st where "e = detail_with i issue intake st g"
    using e(1) by (auto simp: detail_of_def split: option.splits)
  then show "\<forall>r\<in>set (d_testRecords d). tr_round r = st_round (d_state d)"
    "\<forall>r\<in>set (d_implementationRecords d). ir_round r = st_round (d_state d)"
    "\<not> isTerminal d \<Longrightarrow> d_convergencePr d = None"
    unfolding e(2)
    by (simp_all add: detail_with_def Let_def enriched_def withRequirementsCoverage_def isTerminal_def)
qed

lemma open_detail: "\<not> isTerminal d \<Longrightarrow> still_open d"
  by (simp add: isTerminal_def still_open_def)

text \<open>
  C4. Finalizing is sound, from the store to the store: when \<open>finalize\<close> succeeds on a loop that was
  still open, the global verdict was PASS, the spec was approved (or, the way the code has it, a spec
  version existed and the phase was PHASE-3 or later), the counters of the state had all shards done,
  there was a test record and every test record of the current round was a TEST-PASS, every shard on
  disk that is not TODO had an implementation record of the current round and none of these changed a
  file with \<open>.env\<close>, \<open>secret\<close>, \<open>credentials\<close> or \<open>private_key\<close> in its path, every review gate in force
  was passed or waived, and the newest browser QA report passed (without a report, the loop was in
  PHASE-7 or PHASE-8). Afterwards the loop is closed for good: what \<open>finalize\<close> returns is what
  \<open>getIssue\<close> reads from the new store, a terminal loop with a closed issue, a finalized state that
  differs from the old one only in phase, flag and time, and the convergence PR.
\<close>

theorem finalize_sound:
  assumes "states_wf f" and "records_keyed f" and "i \<noteq> []"
    and "getIssue h i f = (Inr d, g)" and "\<not> isTerminal d" and "loops_finalize h i f = (Inr d', g')"
  shows "st_globalVerdict (d_state d) = Some PASS
    \<and> (spec_approved d \<or> st_specVersion (d_state d) \<notin> {[], ''v0''} \<and> PHASE_3_DECOMPOSE \<le> st_phase (d_state d))
    \<and> 0 < st_shardsTotal (d_state d) \<and> st_shardsTotal (d_state d) \<le> st_shardsDone (d_state d)
    \<and> d_testRecords d \<noteq> []
    \<and> (\<forall>r\<in>set (d_testRecords d). tr_round r = st_round (d_state d) \<and> tr_status r = TEST_PASS)
    \<and> (\<forall>s\<in>set (d_shards d). sh_status s \<noteq> SHARD_TODO \<longrightarrow>
         (\<exists>r\<in>set (d_implementationRecords d). ir_shardId r = sh_id s \<and> ir_round r = st_round (d_state d)))
    \<and> (\<forall>r\<in>set (d_implementationRecords d). \<forall>file\<in>set (ir_changedFiles r).
         \<not> contains ''.env'' file \<and> \<not> contains ''secret'' file \<and> \<not> contains ''credentials'' file
         \<and> \<not> contains ''private_key'' file)
    \<and> (\<forall>gate\<in>set (buildReviewGates (Detail_Item d)). rg_status gate \<in> {RG_PASSED, RG_WAIVED})
    \<and> (case d_browserQaReports d of r # _ \<Rightarrow> bq_status r = QA_PASSED
        | [] \<Rightarrow> st_phase (d_state d) \<in> {PHASE_7_GLOBAL_REVIEW, PHASE_8_ANNOTATE})
    \<and> getIssue h i g' = (Inr d', g') \<and> isTerminal d' \<and> i_status (d_issue d') = ISSUE_CLOSED
    \<and> (\<exists>t. d_state d' = (d_state d)\<lparr>st_phase := PHASE_CLOSED, st_finalized := Some True, st_updated := t\<rparr>)
    \<and> d_convergencePr d' \<noteq> None"
proof -
  obtain u w t pr anns ls where run: "st_globalVerdict (d_state d) = Some PASS" "release_blockers h d = []"
    "logs_only g u" "logs_only (writeFinalize (d_issue d) anns (closing_state (d_state d) t) pr ls u) w"
    "getIssue h i w = (Inr d', g')"
    by (rule finalize_run [OF assms(4-6)])
  note free = run(2) [unfolded release_blockers_def Let_def]
  note gate = release_gate_sound [OF free open_detail [OF assms(5)]]
  have spec: "spec_approved d \<or> st_specVersion (d_state d) \<notin> {[], ''v0''} \<and> PHASE_3_DECOMPOSE \<le> st_phase (d_state d)"
    using gate(1) assms(5) by (auto simp: isSpecApproved_def spec_approved_def phaseAtLeast_def isTerminal_def
        item_finalized_def item_phase_def)
  have impl: "\<exists>r\<in>set (d_implementationRecords d). ir_shardId r = sh_id s \<and> ir_round r = st_round (d_state d)"
    if "s \<in> set (d_shards d)" "sh_status s \<noteq> SHARD_TODO" for s
    using implemented_shards [OF gate(9) that] read_records(2) [OF assms(4)] by auto
  obtain e where e: "detail_of i g = Inr e" "d = enriched h e" "g = ensureInitialized f"
    using assms(4) by (rule getIssue_detail)
  have wf: "states_wf g" "records_keyed g" using assms(1,2) e(3) by simp_all
  have w: "logs_only (writeFinalize (d_issue e) anns (closing_state (d_state e) t) pr ls u) w"
    using run(4) unfolding e(2) enriched_parts .
  obtain e' where e': "detail_of i w = Inr e'" "isTerminal e'" "d_state e' = closing_state (d_state e) t"
    "i_status (d_issue e') = ISSUE_CLOSED" "d_convergencePr e' = Some pr"
    using finalized_reads [OF e(1) wf assms(3) run(3) w] by blast
  have "st_issueId (d_state e) = i" by (rule in_sync_issueId [OF detail_of_in_sync [OF wf(1) e(1)]])
  then have wfw: "states_wf w"
    using wf(1) states_wf_logs_only [OF run(3)] states_wf_logs_only [OF w] assms(3)
      stateOf_written [OF _ _ state_write_ops(4), of u "closing_state (d_state e) t" "d_issue e" anns pr ls]
    by (simp add: closing_state_def)
  then have d': "d' = enriched h e'"
    using run(5) e'(1) detail_of_ensureInitialized [OF wfw assms(3)]
    by (auto simp: getIssue_def sbind_app readDetail_eq)
  then have terminal: "isTerminal d'" using e'(2) by (simp add: isTerminal_def)
  have again: "getIssue h i g' = (Inr d', g')" using getIssue_fresh [OF run(5)] by blast
  have pr: "d_convergencePr d' \<noteq> None"
    using e'(5) d' by (simp add: enriched_def withRequirementsCoverage_def Let_def)
  have state: "\<exists>t. d_state d' = (d_state d)\<lparr>st_phase := PHASE_CLOSED, st_finalized := Some True, st_updated := t\<rparr>"
    using e'(3) d' e(2) by (auto simp: closing_state_def)
  show ?thesis
    using run(1) spec gate(2-4,8) read_records(1) [OF assms(4)] impl no_violations [OF gate(9)] again terminal
      e'(4) d' state pr
    by (intro conjI) (assumption | blast | simp)+
qed

text \<open>
  C40. An open loop is only finalized after a human has governed two things: the security gate (a passed
  or waived override, or a list of required gates without it) and a release canary that is passed
  and carries a non-empty rollback note. Otherwise \<open>finalize\<close> is refused and leaves the store as
  the read left it: the security gate passes by itself only on a closed loop, and the convergence PR,
  which the gate would take instead of the note, is read only from a closed loop.
\<close>

theorem release_needs_governance:
  assumes "getIssue h i f = (Inr d, g)" and "\<not> isTerminal d"
  shows "(\<exists>msg. loops_finalize h i f = (Inl (BadRequest msg), g))
    \<or> security_override d \<and> (\<exists>c n. dg_releaseCanary (governance_of d) = Some c
        \<and> can_status c = RC_PASSED \<and> can_rollbackNote c = Some n \<and> n \<noteq> [])"
proof (cases "st_globalVerdict (d_state d) \<noteq> Some PASS \<or> release_blockers h d \<noteq> []")
  case True
  then show ?thesis using finalize_refused [OF assms] by blast
next
  case False
  then have "release_blockers h d = []" by blast
  note free = this [unfolded release_blockers_def Let_def]
  note gate = release_gate_sound [OF free open_detail [OF assms(2)]]
  from gate(5-7) read_records(3) [OF assms] show ?thesis by auto
qed

subsection \<open>A loop that can be finalized\<close>

text \<open>The sample loop after its review, with the governance of \<open>gated_detail\<close>: the security gate is waived
  and a passed canary has a rollback note.\<close>

definition ready_fs :: "loop_delivery_governance \<Rightarrow> fs" where
  "ready_fs governance = (empty_fs sample_env)\<lparr>fs_issues := [(''issue-1'', sample_issue)],
     fs_intakes := [(''intake-1-a'', sample_intake)], fs_states := [(''issue-1'', d_state gated_detail)],
     fs_shards := [(''issue-1'', d_shards gated_detail)], fs_specs := [((''issue-1'', ''v1''), sample_spec)],
     fs_implRecords := [((''issue-1'', ''s1'', 1), sample_impl ''s1'')],
     fs_testRecords := [((''issue-1'', ''s1''), sample_test ''s1'' TEST_PASS)],
     fs_governance := [(''issue-1'', governance)]\<rparr>"

text \<open>Any host whose git adapter answers and whose agent annotates.\<close>

definition ready_host :: "loops_host \<Rightarrow> loops_host" where
  "ready_host h = h\<lparr>lh_git := sample_git, lh_prComment := None,
     lh_agent := (lh_agent h)\<lparr>ag_annotateFinalize := (\<lambda>d pr n. Inr [])\<rparr>\<rparr>"

definition ready_detail :: "loops_host \<Rightarrow> loop_delivery_governance \<Rightarrow> loop_detail" where
  "ready_detail h governance = enriched h (detail_with ''issue-1'' sample_issue sample_intake (d_state gated_detail)
     (ensureInitialized (ready_fs governance)))"

lemma gated_state:
  "st_issueId (d_state gated_detail) = ''issue-1''" "st_shardsTotal (d_state gated_detail) = 1"
  "st_shardsDone (d_state gated_detail) = 1" "st_round (d_state gated_detail) = 1"
  "st_specVersion (d_state gated_detail) = ''v1''" "st_phase (d_state gated_detail) = PHASE_8_ANNOTATE"
  "st_globalVerdict (d_state gated_detail) = Some PASS" "st_finalized (d_state gated_detail) = None"
  "\<not> st_paused (d_state gated_detail)" "d_shards gated_detail = [sample_shard ''s1'' [] SHARD_DONE]"
  "d_implementationRecords gated_detail = [sample_impl ''s1'']"
  "d_testRecords gated_detail = [sample_test ''s1'' TEST_PASS]"
  by (simp_all add: gated_detail_def sample_state_def)

lemma ready_wf: "states_wf (ready_fs governance)" "records_keyed (ready_fs governance)"
  by (simp_all add: states_wf_def records_keyed_def ready_fs_def empty_fs_def gated_state sample_issue_def
      sample_intake_def)

lemma ready_read:
  "getIssue h ''issue-1'' (ready_fs governance) = (Inr (ready_detail h governance), ensureInitialized (ready_fs governance))"
proof -
  have id: "intakeId ''issue-1'' = ''intake-1-a''" by code_simp
  have "stateOf ''issue-1'' (ready_fs governance) = Some (d_state gated_detail)"
    using stateOf_alt [OF ready_wf(1), of "''issue-1''"] by (simp add: ready_fs_def)
  then show ?thesis
    using id by (auto simp: getIssue_def sbind_app readDetail_eq detail_of_def ready_detail_def)
     (simp_all add: ready_fs_def)
qed

lemma ready_parts:
  "d_issue (ready_detail h governance) = sample_issue" "d_state (ready_detail h governance) = d_state gated_detail"
  "d_shards (ready_detail h governance) = d_shards gated_detail"
  "d_spec (ready_detail h governance) = Some sample_spec"
  "d_deliveryGovernance (ready_detail h governance) = Some governance"
  "d_implementationRecords (ready_detail h governance) = d_implementationRecords gated_detail"
  "d_testRecords (ready_detail h governance) = d_testRecords gated_detail"
  "d_browserQaReports (ready_detail h governance) = []"
  by (simp_all add: ready_detail_def detail_with_def Let_def current_spec_def gated_state enriched_def
      withRequirementsCoverage_def)
    (simp_all add: ready_fs_def gated_state empty_fs_def readDeliveryGovernance_def readImplementationRecords_def
      readTestRecords_def readBrowserQaReports_def sample_impl_def sample_test_def
      sort_desc_def dedup_by_id_def)

lemma ready_open: "\<not> isTerminal (ready_detail h governance)"
  by (simp add: isTerminal_def ready_parts gated_state sample_issue_def)

lemma ready_opinion:
  assumes "dg_secondOpinionPolicy governance = None"
  shows "\<exists>so. d_secondOpinion (ready_detail h governance) = Some so \<and> \<not> so_requiredForRelease so"
proof -
  let ?e = "detail_with ''issue-1'' sample_issue sample_intake (d_state gated_detail)
      (ensureInitialized (ready_fs governance))"
  have "d_secondOpinion ?e = None" "governance_of ?e = governance"
    by (simp_all add: detail_with_def Let_def governance_of_def readDeliveryGovernance_def)
      (simp_all add: ready_fs_def empty_fs_def)
  then have "\<not> so_requiredForRelease (buildSecondOpinion (lh_sha16 h) ?e)"
    using assms by (simp add: buildSecondOpinion_def applySecondOpinionPolicy_def Let_def)
  then show ?thesis by (simp add: ready_detail_def enriched_def withRequirementsCoverage_def Let_def)
qed

lemma waived_fields:
  "dg_requiredReviewGates waived_governance = None" "dg_secondOpinionPolicy waived_governance = None"
  "List.find (\<lambda>ov. go_gateKind ov = k) (dg_reviewGateOverrides waived_governance)
    = (if k = GATE_SECURITY then Some (hd (dg_reviewGateOverrides waived_governance)) else None)"
  "go_status (hd (dg_reviewGateOverrides waived_governance)) = RG_WAIVED"
  "\<exists>c. dg_releaseCanary waived_governance = Some c \<and> can_status c = RC_PASSED
    \<and> can_rollbackNote c = Some ''revert''"
  by (auto simp: waived_governance_def no_governance_def)

lemma ready_blockers: "release_blockers h (ready_detail h waived_governance) = []"
proof -
  let ?d = "ready_detail h waived_governance"
  let ?so = "Some (buildSecondOpinion (lh_sha16 h) ?d)"
  note parts = ready_parts gated_state
  have "checkRulesCompliance ?d = checkRulesCompliance gated_detail"
    by (simp add: checkRulesCompliance_def ready_parts)
  then have rules: "checkRulesCompliance ?d = []" using no_blockers(8) [OF gated_no_blockers] by simp
  have gov: "item_governance (Detail_Item ?d) = Some waived_governance" "governance_of ?d = waived_governance"
    by (simp_all add: item_governance_def governance_of_def parts)
  have spec: "isSpecApproved (Detail_Item ?d)"
    by (simp add: isSpecApproved_def parts sample_spec_def)
  have gates: "list_all (\<lambda>g. rg_status g \<in> {RG_PASSED, RG_WAIVED}) (buildReviewGates (Detail_Item ?d))"
    using spec by (simp add: buildReviewGates_def base_review_gates_def review_gate_def apply_override_def
        required_kinds_def gov waived_fields parts isReviewPassed_def phaseAtLeast_def item_phase_def
        item_verdict_def deliveryBlockedReason_def less_eq_loop_phase_def Let_def)
  obtain c where c: "dg_releaseCanary waived_governance = Some c" "can_status c = RC_PASSED"
      "can_rollbackNote c = Some ''revert''" using waived_fields(5) by blast
  have ck: "ck_specApproved (release_checklist_of (Detail_Item ?d) ?so)"
      "ck_implementationEvidence (release_checklist_of (Detail_Item ?d) ?so)"
      "ck_testsPassed (release_checklist_of (Detail_Item ?d) ?so)"
      "ck_requiredReviewsPassed (release_checklist_of (Detail_Item ?d) ?so)"
      "ck_browserQaPassed (release_checklist_of (Detail_Item ?d) ?so)"
      "ck_rollbackNote (release_checklist_of (Detail_Item ?d) ?so)"
      "ck_canaryPassed (release_checklist_of (Detail_Item ?d) ?so)"
    using spec gates by (simp_all add: release_checklist_of_def isImplementationDone_def isBrowserQaPassed_def
        item_phase_def parts gov c sample_test_def Let_def)
  have opinion: "\<not> so_requiredForRelease (buildSecondOpinion (lh_sha16 h) ?d)"
    using ready_opinion [OF waived_fields(2), of h]
    by (auto simp: buildSecondOpinion_def applySecondOpinionPolicy_def gov waived_fields Let_def)
  show ?thesis
    using rules ck opinion by (simp add: release_blockers_def buildReleaseGateBlockers_def Let_def)
qed

lemma commit_all_total:
  assumes "\<And>issue s files n. \<exists>c. ga_commitShard git issue s files n = Inr c"
  shows "\<exists>cs g. commit_all git d ss f = (Inr cs, g)"
proof (induction ss arbitrary: f)
  case (Cons s ss)
  obtain c where "call (ga_commitShard git (d_issue d) s (case List.find (\<lambda>r. ir_shardId r = sh_id s)
      (d_implementationRecords d) of Some r \<Rightarrow> ir_changedFiles r | None \<Rightarrow> sh_filesHint s)) f = (Inr c, tick f)"
    using assms by (fastforce simp: call_def)
  then show ?case using Cons.IH [of "tick f"] by (auto simp: sbind_app)
qed simp

text \<open>On such a host nothing but the gate can stop \<open>finalize\<close>.\<close>

lemma finalize_runs:
  assumes "states_wf f" and "records_keyed f" and "i \<noteq> []"
    and "getIssue h i f = (Inr d, g)" and "\<not> isTerminal d"
    and "st_globalVerdict (d_state d) = Some PASS" and "release_blockers h d = []"
    and git: "\<And>issue s files n. \<exists>c. ga_commitShard (lh_git h) issue s files n = Inr c"
      "\<And>issue shards anns cs arts n. \<exists>pr. ga_createConvergencePr (lh_git h) issue shards anns cs arts n = Inr pr"
    and agent: "\<And>pr n. \<exists>anns. ag_annotateFinalize (lh_agent h) d pr n = Inr anns"
    and quiet: "lh_prComment h = None"
  shows "\<exists>d' g'. loops_finalize h i f = (Inr d', g')"
proof -
  let ?t = "clock g"
  obtain e where e: "detail_of i g = Inr e" "d = enriched h e" "g = ensureInitialized f"
    using assms(4) by (rule getIssue_detail)
  have wf: "states_wf g" "records_keyed g" using assms(1,2) e(3) by simp_all
  obtain cs v where cs: "commit_all (lh_git h) d (d_shards d) (tick g) = (Inr cs, v)"
    using commit_all_total [of "lh_git h"] git(1) by blast
  obtain pr where pr: "openConvergencePr h d (tick g) = (Inr pr, tick v)"
    using git(2) cs by (fastforce simp: openConvergencePr_def sbind_app call_def)
  obtain anns where anns: "call (ag_annotateFinalize (lh_agent h) d pr) (tick v) = (Inr anns, tick (tick v))"
    using agent by (fastforce simp: call_def)
  let ?w = "writeFinalize (d_issue d) anns (closing_state (d_state d) ?t) pr
      (buildLoopLearnings (lh_sha16 h) d pr ?t) (tick (tick v))"
  have logs: "logs_only g (tick (tick v))"
    using openConvergencePr_logs [of "tick g" h d] pr
    by (auto intro: logs_only_trans [OF logs_only_basic(1)])
  have w: "logs_only (writeFinalize (d_issue e) anns (closing_state (d_state e) ?t) pr
      (buildLoopLearnings (lh_sha16 h) d pr ?t) (tick (tick v))) (ensureInitialized ?w)"
    by (simp add: e(2))
  from finalized_reads [OF e(1) wf assms(3) logs w] obtain e' where "detail_of i (ensureInitialized ?w) = Inr e'"
    by blast
  then have "getIssue h i ?w = (Inr (enriched h e'), ensureInitialized ?w)"
    by (simp add: getIssue_def sbind_app readDetail_eq)
  then have "loops_finalize h i f = (Inr (enriched h e'), ensureInitialized ?w)"
    unfolding loops_finalize_def finalize_def
    using assms(4-7) quiet
    by (subst sbind_ok [of _ _ d g])
      (simp_all add: finalizePort_def enforceReleaseGate_def release_blockers_def Let_def sthen_app sguard_def
        sbind_now closing_state_def sbind_ok [where m = "openConvergencePr h d", OF pr]
        sbind_ok [where m = "call (ag_annotateFinalize (lh_agent h) d pr)", OF anns] publishPrComment_def
        syncAndRead_getIssue)
  then show ?thesis by blast
qed

lemma ready_runs:
  "\<exists>d' g'. loops_finalize (ready_host h) ''issue-1'' (ready_fs waived_governance) = (Inr d', g')"
  by (rule finalize_runs [OF ready_wf _ ready_read ready_open _ ready_blockers])
    (simp_all add: ready_parts gated_state ready_host_def sample_git_def)

theorem finalize_sound_witness:
  "\<forall>h. \<exists>d' g'. loops_finalize (ready_host h) ''issue-1'' (ready_fs waived_governance) = (Inr d', g')
     \<and> isTerminal d' \<and> i_status (d_issue d') = ISSUE_CLOSED \<and> d_convergencePr d' \<noteq> None"
proof
  fix h
  obtain d' g' where run: "loops_finalize (ready_host h) ''issue-1'' (ready_fs waived_governance) = (Inr d', g')"
    using ready_runs by blast
  from finalize_sound [OF ready_wf _ ready_read ready_open run] run
  show "\<exists>d' g'. loops_finalize (ready_host h) ''issue-1'' (ready_fs waived_governance) = (Inr d', g')
     \<and> isTerminal d' \<and> i_status (d_issue d') = ISSUE_CLOSED \<and> d_convergencePr d' \<noteq> None" by blast
qed

text \<open>The same loop under the default governance.\<close>

theorem release_needs_governance_witness:
  "\<forall>h. \<exists>msg. loops_finalize h ''issue-1'' (ready_fs no_governance)
     = (Inl (BadRequest msg), ensureInitialized (ready_fs no_governance))"
proof
  fix h
  have "dg_releaseCanary (governance_of (ready_detail h no_governance)) = None"
    by (simp add: governance_of_def ready_parts no_governance_def)
  then show "\<exists>msg. loops_finalize h ''issue-1'' (ready_fs no_governance)
      = (Inl (BadRequest msg), ensureInitialized (ready_fs no_governance))"
    using release_needs_governance [OF ready_read ready_open, of h no_governance] by simp
qed

end
