(* ===== verification/Delivery_Evidence.thy ===== *)
theory Delivery_Evidence
  imports Gates Runner
begin

text \<open>
  The delivery evidence of a loop, the report that goes into its pull request:
  \<open>buildDeliveryEvidence\<close> of \<open>loops.service.ts\<close> and the Markdown of
  \<open>loops-evidence.service.ts\<close>. \<open>num\<close> prints a number of the coverage.
\<close>

datatype risk_severity = RISK_CRITICAL | RISK_WARNING | RISK_INFO

record work_package =
  wp_id :: string
  wp_title :: string
  wp_status :: string
  wp_files :: "string list"
  wp_tests :: string
  wp_review :: string
  wp_commitSha :: "string option"
  wp_commitMessage :: "string option"
  wp_branch :: "string option"

record delivery_risk =
  dr_severity :: risk_severity
  dr_description :: string

record loop_delivery_evidence =
  de_issueId :: string
  de_generatedAt :: timestamp
  de_specVersion :: string
  de_specStatus :: string
  de_specSummary :: string
  de_workPackages :: "work_package list"
  de_testTotal :: nat
  de_testPassed :: nat
  de_testFailed :: nat
  de_coverage :: string
  de_shardReviews :: nat
  de_findings :: nat
  de_risks :: "delivery_risk list"
  de_costTokens :: nat
  de_costCalls :: nat
  de_budget :: string
  de_globalVerdict :: string
  de_prReady :: bool
  de_prStatus :: string
  de_markdown :: string

text \<open>What the Markdown reads beside the evidence.\<close>

record quality_signals =
  qs_title :: string
  qs_firstPass :: bool
  qs_runtimeViolationCount :: nat
  qs_browserQaStatus :: string
  qs_secondOpinionStatus :: string

fun risk_severity_str :: "risk_severity \<Rightarrow> string" where
  "risk_severity_str RISK_CRITICAL = ''critical''"
| "risk_severity_str RISK_WARNING = ''warning''"
| "risk_severity_str RISK_INFO = ''info''"

subsection \<open>Work packages\<close>

text \<open>A \<open>Map\<close> built from the commits: the last commit of a shard wins.\<close>

definition commit_of :: "loop_detail \<Rightarrow> string \<Rightarrow> pr_commit option" where
  "commit_of d k = (case d_convergencePr d of None \<Rightarrow> None
     | Some pr \<Rightarrow> List.find (\<lambda>c. pc_shardId c = k) (rev (cp_commits pr)))"

definition package_of :: "loop_detail \<Rightarrow> loop_shard \<Rightarrow> work_package" where
  "package_of d s = \<lparr>wp_id = sh_id s, wp_title = sh_title s, wp_status = shard_status_str (sh_status s),
     wp_files = (case List.find (\<lambda>r. ir_shardId r = sh_id s) (d_implementationRecords d) of
         Some r \<Rightarrow> ir_changedFiles r | None \<Rightarrow> sh_filesHint s),
     wp_tests = (case List.find (\<lambda>r. tr_shardId r = sh_id s) (d_testRecords d) of
         Some r \<Rightarrow> test_status_str (tr_status r) | None \<Rightarrow> ''not-run''),
     wp_review = (case List.find (\<lambda>r. rr_shardId r = sh_id s) (d_reviewRecords d) of
         Some r \<Rightarrow> verdict_str (rr_verdict r) | None \<Rightarrow> ''unreviewed''),
     wp_commitSha = Option.bind (commit_of d (sh_id s)) pc_commitSha,
     wp_commitMessage = map_option pc_message (commit_of d (sh_id s)),
     wp_branch = Option.bind (commit_of d (sh_id s)) pc_branch\<rparr>"

subsection \<open>Tests, reviews and risks\<close>

definition coverage_text :: "(rat \<Rightarrow> string) \<Rightarrow> loop_test_record list \<Rightarrow> string" where
  "coverage_text num records = (case List.find (\<lambda>r. tr_coverage r \<noteq> None) records of
     None \<Rightarrow> ''not reported''
   | Some r \<Rightarrow> (case tr_coverage r of None \<Rightarrow> ''not reported''
       | Some c \<Rightarrow> ''lines '' @ case_option ''-'' num (cv_lines c) @ (''% '' @ [CHR 0xC2, CHR 0xB7] @ '' branches '')
           @ case_option ''-'' num (cv_branches c) @ ''%''))"

definition verdict_text :: "loop_detail \<Rightarrow> string" where
  "verdict_text d = case_option ''unreviewed'' verdict_str (st_globalVerdict (d_state d))"

definition failed_records :: "loop_detail \<Rightarrow> nat" where
  "failed_records d = count_where (\<lambda>r. tr_status r = TEST_FAIL) (d_testRecords d)"

definition critical_findings :: "loop_review_record list \<Rightarrow> delivery_risk list" where
  "critical_findings reviews = concat (map (\<lambda>review. map (\<lambda>issue.
     \<lparr>dr_severity = RISK_CRITICAL, dr_description = ''Critical review finding on '' @ rr_shardId review
       @ '': '' @ ri_desc issue\<rparr>) (filter (\<lambda>issue. ri_severity issue = CRITICAL) (rr_issues review))) reviews)"

definition delivery_risks :: "loop_detail \<Rightarrow> delivery_risk list" where
  "delivery_risks d =
     (if st_paused (d_state d)
      then [\<lparr>dr_severity = RISK_CRITICAL, dr_description = ''Loop is paused; delivery is blocked.''\<rparr>] else [])
     @ (if st_globalVerdict (d_state d) = Some FAIL
        then [\<lparr>dr_severity = RISK_CRITICAL, dr_description = ''Global review failed; re-loop required.''\<rparr>]
        else if st_globalVerdict (d_state d) = Some NEEDS_WORK
        then [\<lparr>dr_severity = RISK_WARNING, dr_description = ''Global review needs work before release.''\<rparr>]
        else [])
     @ (if failed_records d > 0
        then [\<lparr>dr_severity = RISK_WARNING,
          dr_description = nat_str (failed_records d) @ '' test record(s) failing.''\<rparr>] else [])
     @ critical_findings (d_reviewRecords d)"

definition delivery_finalized :: "loop_detail \<Rightarrow> bool" where
  "delivery_finalized d \<longleftrightarrow> i_status (d_issue d) = ISSUE_CLOSED \<or> st_finalized (d_state d) = Some True"

definition pr_ready :: "loop_detail \<Rightarrow> bool" where
  "pr_ready d \<longleftrightarrow> delivery_finalized d \<and> verdict_text d = ''PASS'' \<and> failed_records d = 0
     \<and> st_shardsDone (d_state d) = st_shardsTotal (d_state d)"

definition pr_status_text :: "loop_detail \<Rightarrow> string" where
  "pr_status_text d = (case d_convergencePr d of Some pr \<Rightarrow> pr_status_str (cp_status pr)
     | None \<Rightarrow> if delivery_finalized d then ''DRAFT'' else ''PENDING'')"

subsection \<open>Markdown\<close>

definition package_lines :: "work_package \<Rightarrow> string list" where
  "package_lines wp =
     [''- **'' @ wp_id wp @ ''** '' @ wp_title wp @ ('' '' @ [CHR 0xE2, CHR 0x80, CHR 0x94] @ '' status: '') @ wp_status wp @ ('' '' @ [CHR 0xC2, CHR 0xB7] @ '' tests: '') @ wp_tests wp
       @ ('' '' @ [CHR 0xC2, CHR 0xB7] @ '' review: '') @ wp_review wp
       @ (case wp_commitSha wp of Some (c # cs) \<Rightarrow> ('' '' @ [CHR 0xC2, CHR 0xB7] @ '' commit: '') @ js_slice0 12 (utf8_chunks (c # cs)) | _ \<Rightarrow> [])]
     @ (if wp_files wp \<noteq> [] then [''  - files: '' @ js_join '', '' (wp_files wp)] else [])
     @ (case wp_commitMessage wp of Some (c # cs) \<Rightarrow> [''  - commit message: '' @ (c # cs)] | _ \<Rightarrow> [])"

definition yes_no :: "bool \<Rightarrow> string" where
  "yes_no b = (if b then ''yes'' else ''no'')"

definition markdown_lines :: "loop_delivery_evidence \<Rightarrow> quality_signals \<Rightarrow> string list" where
  "markdown_lines e q =
     [(''# Delivery Evidence '' @ [CHR 0xE2, CHR 0x80, CHR 0x94] @ '' '') @ qs_title q, [],
      ''- **Issue**: '' @ de_issueId e,
      ''- **Spec**: '' @ de_specSummary e,
      ''- **Global verdict**: '' @ de_globalVerdict e,
      ''- **PR status**: '' @ de_prStatus e,
      ''- **PR ready**: '' @ yes_no (de_prReady e), [],
      ''## Work Packages'', []]
     @ (if de_workPackages e = [] then [''_No work packages recorded._'', []]
        else concat (map package_lines (de_workPackages e)) @ [[]])
     @ [''## Tests'', [],
      ''- '' @ nat_str (de_testPassed e) @ ''/'' @ nat_str (de_testTotal e) @ ('' passed '' @ [CHR 0xC2, CHR 0xB7] @ '' '')
        @ nat_str (de_testFailed e) @ '' failed'',
      ''- coverage: '' @ de_coverage e, [],
      ''## Reviews'', [],
      ''- '' @ nat_str (de_shardReviews e) @ ('' shard reviews '' @ [CHR 0xC2, CHR 0xB7] @ '' '') @ nat_str (de_findings e) @ '' findings'',
      ''- global verdict: '' @ de_globalVerdict e, [],
      ''## Cost'', [],
      ''- tokens: '' @ nat_str (de_costTokens e) @ ('' '' @ [CHR 0xC2, CHR 0xB7] @ '' calls: '') @ nat_str (de_costCalls e)
        @ ('' '' @ [CHR 0xC2, CHR 0xB7] @ '' budget: '') @ de_budget e, []]
     @ (if de_risks e \<noteq> []
        then [''## Risks'', []]
          @ map (\<lambda>r. ''- **'' @ risk_severity_str (dr_severity r) @ ''**: '' @ dr_description r) (de_risks e) @ [[]]
        else [])
     @ [''## Quality Signals'', [],
      ''- **First-pass**: '' @ (if qs_firstPass q then ''yes (no rework required)''
         else ''no (rework or re-loop recorded)''),
      ''- **Runtime violations**: '' @ (if qs_runtimeViolationCount q > 0
         then nat_str (qs_runtimeViolationCount q) @ '' security exception(s)'' else ''none recorded''),
      ''- **Browser QA**: '' @ qs_browserQaStatus q,
      ''- **Second opinion**: '' @ qs_secondOpinionStatus q, [],
      ''---'',
      ''_Generated by DofeAI Loops Control Plane. Runtime: Codex CLI / Claude Code CLI._'']"

definition buildDeliveryEvidenceMarkdown :: "loop_delivery_evidence \<Rightarrow> quality_signals \<Rightarrow> string" where
  "buildDeliveryEvidenceMarkdown e q = js_join [CHR 0x0A] (markdown_lines e q)"

subsection \<open>The evidence\<close>

definition signals_of :: "loop_detail \<Rightarrow> quality_signals" where
  "signals_of d = \<lparr>qs_title = i_title (d_issue d),
     qs_firstPass = (st_reloopCount (d_state d) = 0 \<and> verdict_text d = ''PASS''),
     qs_runtimeViolationCount = length (buildRuntimeSecurityExceptions (d_testRecords d)),
     qs_browserQaStatus = (case d_browserQaReports d of [] \<Rightarrow> ''not run'' | r # _ \<Rightarrow> qa_status_str (bq_status r)),
     qs_secondOpinionStatus = case_option ''not required'' (\<lambda>s. second_opinion_status_str (so_status s))
       (d_secondOpinion d)\<rparr>"

definition evidence_of :: "(rat \<Rightarrow> string) \<Rightarrow> loop_detail \<Rightarrow> timestamp \<Rightarrow> loop_delivery_evidence" where
  "evidence_of num d t = \<lparr>de_issueId = i_id (d_issue d), de_generatedAt = t,
     de_specVersion = case_option ''v0'' sp_version (d_spec d),
     de_specStatus = case_option ''missing'' (\<lambda>s. spec_status_str (sp_status s)) (d_spec d),
     de_specSummary = (case d_spec d of None \<Rightarrow> ''No spec recorded''
       | Some s \<Rightarrow> sp_version s @ ('' '' @ [CHR 0xC2, CHR 0xB7] @ '' '') @ spec_status_str (sp_status s)),
     de_workPackages = map (package_of d) (d_shards d),
     de_testTotal = length (d_testRecords d),
     de_testPassed = count_where (\<lambda>r. tr_status r = TEST_PASS) (d_testRecords d),
     de_testFailed = failed_records d,
     de_coverage = coverage_text num (d_testRecords d),
     de_shardReviews = length (d_reviewRecords d),
     de_findings = sum_list (map (\<lambda>r. length (rr_issues r)) (d_reviewRecords d)),
     de_risks = delivery_risks d,
     de_costTokens = st_costTokens (d_state d), de_costCalls = st_costCalls (d_state d),
     de_budget = (if st_shardsTotal (d_state d) > 0
       then nat_str (st_shardsDone (d_state d)) @ ''/'' @ nat_str (st_shardsTotal (d_state d)) @ '' shards''
       else ''no shards''),
     de_globalVerdict = verdict_text d, de_prReady = pr_ready d, de_prStatus = pr_status_text d,
     de_markdown = []\<rparr>"

definition buildDeliveryEvidence :: "(rat \<Rightarrow> string) \<Rightarrow> loop_detail \<Rightarrow> timestamp \<Rightarrow> loop_delivery_evidence" where
  "buildDeliveryEvidence num d t = (let e = evidence_of num d t in
     e\<lparr>de_markdown := buildDeliveryEvidenceMarkdown e (signals_of d)\<rparr>)"

end
