(* ===== verification/Spec2Isabelle.thy ===== *)
theory Spec2Isabelle
  imports Runtime_Config Second_Opinion Learning_Memory Work_Lock Shard_State Gate_Laws Runner_Laws
    Governance_Laws Issues_Laws Service_Laws Trigger_Laws Remote_Runner_Laws Webhook_Laws
    Target_Url_Laws Simple_Intake Advance_Queue Release_Laws Admin_Laws Mcp_Laws Agent_Laws
    Report_Laws Aggregation_Laws Web_Laws Finalize_Laws Delivery_Evidence
begin

text \<open>
  The delivery loops of the platform. An issue comes in (a form, a webhook, a schedule, one sentence);
  an agent writes a spec for it; a human approves the spec; the agent decomposes it into shards with a
  test matrix; each shard is implemented, tested and reviewed, possibly by a remote runner; the whole is
  reviewed, sent back or found good, released behind a gate and closed by a convergence PR. The state of a
  loop lives in the \<open>.loops\<close> directory, which is the source of truth that this development models; a
  database only mirrors parts of it.

  File names below are relative to \<open>src/apps/api/libs/domain/services\<close> (the domain services, \<open>loops-*\<close>),
  \<open>src/apps/api/src/modules/loops\<close> (the NestJS module, marked \<open>[m]\<close>) or \<open>src/packages/contracts/src\<close> (the
  Zod schemas, marked \<open>[c]\<close>). A definition has the name of the function, constant or schema it
  translates, with a suffix or in snake case where HOL has the name already or where an inline
  expression of the source got a name of its own.

  \<^bold>\<open>How the parts interact.\<close> A client calls a handler of the facade (\<open>[m] loops.service.ts\<close>). The handler reads
  the loop as a \<open>loop_detail\<close> from the file store, asks the engine for the transition, calls agents, git and
  the test runner through adapters, and writes state and records back. The scheduler of the engine calls
  the facade back, through \<open>shard_runner_port\<close>, to run one shard after the other, under the work lock of
  the issue and of its repository. Review gates, requirement coverage and the release gate are derived from a detail on
  every read; human decisions about them are stored apart as governance. Triggers, webhooks and the simple intake end in
  \<open>createIssue\<close>; the background queues end in \<open>advance\<close> and in shard jobs. Evaluations, the
  dashboard and the delivery evidence only read.

  \<^bold>\<open>Conventions.\<close>
  \<^item> Stateful code is a function of the state monad with errors \<open>sm\<close> of Prelude: a store to a result,
    \<open>Inl\<close> the error, and the new store, which is kept on errors, as the code keeps what it has written.
  \<^item> An object schema is a record, an enum a datatype, \<open>undefined\<close> and \<open>null\<close> are \<open>None\<close>, a JavaScript map
    or an object used as one an association list in insertion order, an untyped value is \<open>json\<close>.
  \<^item> A string is its UTF-8 bytes. Where the source takes lengths or slices, they are counted in UTF-16 units
    (\<open>js_length\<close>, \<open>js_slice\<close> of Js_Text). Case mapping and white space are those of ASCII; ids are
    compared byte-wise where the source calls \<open>localeCompare\<close>.
  \<^item> A time is a \<open>nat\<close> of milliseconds (in the triggers an \<open>int\<close>, so that the arithmetic of \<open>Date\<close> and its
    invalid values can be seen); the clock of the store advances with every reading. A
    percentage or a cost is an exact rational with \<open>Math.round\<close> written out. Addresses are 32-bit words.
  \<^item> What is not under \<open>src\<close>, or is a process, a network or a cryptographic hash, is a parameter: the host
    records \<open>loops_host\<close>, \<open>issues_host\<close>, \<open>runner_host\<close> and their like hold the agents, git, shell, docker, PR provider,
    object storage, Redis, HMAC and SHA-256, \<open>JSON.parse\<close>, the YAML loader, ISO printing, and the
    regular expressions that a configuration brings.

  \<^bold>\<open>Theories and the code they model.\<close>
  \<^item> Prelude, Js_Text: errors, the monad and its laws, the array and string operations of JavaScript, a
    matcher for the regular expressions the sources use.
  \<^item> Contracts, Delivery_Contracts: \<open>[c] schemas/loops.schema.ts\<close>.
  \<^item> Runtime_Config, Learning_Memory, File_Store, Store_Governance: \<open>loops-store\<close>. The record \<open>fs\<close> has one
    association list per kind of file; readers, the doctor, the cost guard and resumption are functions of it,
    each write of the service is one operation. Store_Governance has the delivery and learning
    governance, the auto-merge worker and the CI publication index.
  \<^item> Coverage, Evidence, Gates: \<open>loops-evidence/loops-evidence.service.ts\<close> - requirement coverage, artifacts, review gates,
    workflow recipe, release gate and its checklist. Second_Opinion: \<open>loops-quality\<close>.
  \<^item> Engine: \<open>loops-engine/loops-engine.service.ts\<close> - the transitions of a loop, the shard picker, the
    scheduler, \<open>advance\<close>. Work_Lock: \<open>loops-locks\<close>. Shard_State: \<open>[m] loops-remote-shard-state.adapter.ts\<close>.
  \<^item> Runner: \<open>loops-runners/loops-runner.service.ts\<close> - the command policy, test runs, the canary token.
    Agent_Adapter: \<open>loops-runners/adapters\<close>, the deterministic agents. Mcp_Client: \<open>loops-integrations\<close>.
  \<^item> Issues: \<open>loops-issues\<close>. Simple_Intake: \<open>[c] loops-simple-issue.ts\<close>. Webhooks, Target_Url, Advance_Queue, Triggers and
    Remote_Runner: the webhook handler and the parts of the module with these names, with
    \<open>loops-triggers\<close> and \<open>loops-remote-runners\<close>. Admin: \<open>loops-admin\<close>.
  \<^item> Facade, Release_Handlers: the handlers of \<open>[m] loops.service.ts\<close> that move a loop. Delivery_Evidence, Dashboard:
    its reports. Evals, Eval_Aggregation: \<open>loops-eval\<close> and \<open>[m] loops-eval-aggregation.processor.ts\<close>.
  \<^item> Agent_Runtime, Web_Display, Web_Board, Web_Portfolio, Web_Views: the status of the agents (\<open>agentRuntime\<close> of
    \<open>[m] loops.service.ts\<close>) and the view models of the web application (\<open>loops-display.ts\<close> and
    \<open>loops-dashboard-model.ts\<close> of \<open>src/apps/web/app/loops\<close>).
  \<^item> Samples: one concrete loop, for the witnesses.

  \<^bold>\<open>What the lemmas show.\<close>
  \<^item> Store_Laws: which file kinds a write leaves alone, and, as the locale \<open>issue_op\<close> with an interpretation per
    write, that a write for one issue leaves the detail of every other issue as it was.
  \<^item> Work_Lock: the contract \<open>lock_backend\<close>, met by both backends, gives mutual exclusion.
    Shard_State: a review makes a shard DONE only by a PASS that has its evidence, and what it does to the counters.
  \<^item> Engine_Laws: the picker is correct, and on an acyclic plan it only comes back empty when all shards are done or
    one of them is in a status that it does not pick; the locale \<open>shard_runner\<close> says what the scheduler relies
    on and gives its termination. Handler_Logic is a small logic for invariants of handlers, with the
    locales \<open>shard_writes\<close> and \<open>loop_writes\<close>; Facade_Laws interprets the scheduler's contract on the facade,
    Lifecycle the invariant of the loop counters over every reachable store, Service_Laws
    has the gates of four handlers, five handlers that leave closed loops alone, progress, and the refinement of a map
    by the store. Finalize_Laws follows \<open>finalize\<close> from the store to the store: the evidence before, the closed loop after,
    and the refusal without the decisions of a human.
  \<^item> Gate_Laws, Runner_Laws, Governance_Laws, Release_Laws: what a passed gate, a passed test run, a governance
    decision and a recorded canary are evidence of.
  \<^item> Issues_Laws, Webhook_Laws, Trigger_Laws, Remote_Runner_Laws, Target_Url_Laws, Text_Laws: intake round trip and
    scoping, signatures and redaction, the cron arithmetic and the tick, jobs under the invariant of the loops, the
    address policy as CIDR blocks, lengths of texts.
  \<^item> Admin_Laws (locale \<open>registry\<close>), Mcp_Laws, Agent_Laws (locale \<open>agent_contract\<close>), Eval_Laws, Aggregation_Laws, Report_Laws:
    fresh ids and rollback, framing of JSON-RPC, agents whose verdict follows the tests, accounting of the evaluations, one row per tenant,
    suite and period, and reports that agree with what the loop does.
  \<^item> Web_Laws (locale \<open>ranked\<close>): sorted views show the most urgent entries first, the board and the exception center
    account for every loop and agree, the bench of the web application is that of the backend.
  A law about a flaw states what the code does, on the model as it is written.

  \<^bold>\<open>Fuel and bounds.\<close> Only the scheduler has a loop whose end is not structural. It gets \<open>sched_fuel\<close> iterations:
  with \<open>n\<close> shards and \<open>p\<close> the parallel limit, \<open>p (2 n + 2) + 2 n + 2\<close>. At most \<open>p\<close> iterations run a shard. Every
  other one blocks a shard, and lowers the potential of the plan, which counts the shards that are still to be run and, once, the
  recovery of interrupted shards; it is at most \<open>2 n + 1\<close>. Facade_Laws proves that the fuel never runs out, for
  every host and store. The limits of the sources (re-loops, parallelism, title lengths, page sizes, cache sizes,
  retry counts) are constants or configuration with the values of the sources.

  \<^bold>\<open>Not modelled.\<close>
  \<^item> HTTP controller and contract: each route binds a schema and calls one handler. OIDC and the session guards: the
    user of a request is an argument of the handlers.
  \<^item> Persistence with Prisma: the calls mirror the files and their errors are only logged; the issue list is the one of
    the file store. The database of the evaluations is modelled, since the tiers of its query differ.
  \<^item> The CLI adapters of the agents and of git, the PR provider, object storage, docker health checks, the
    browser and second-opinion workers: processes and network; their results are parameters, what is stored of them is modelled.
  \<^item> Workspace profile and runtime detection: scans of a file system.
  \<^item> Concurrency inside one handler: a handler is one step, except under the work lock, where the interleaving of
    sections is modelled. The scheduler runs its batch in order.
  \<^item> Logging, durations and the polling streams of server-sent events.
  \<^item> The pages of the web application, and those view models that only restate a registry response (profiles, runtime
    backends, recipe administration, marketplace, fleet health, rules center, security panel, tool lifecycle).
\<close>

end
